(* ===== verification/CF_Prelude.thy ===== *)
theory CF_Prelude
  imports Main "HOL-Library.Signed_Division"
begin

text \<open>
  What every component shares.

  \<^item> Results: a fallible Rust function returns \<open>'e + 'a\<close>, \<open>Inl\<close> for \<open>Err\<close> or a panic;
    sequencing is \<open>bind_result\<close> (the question mark operator),
    \<open>ok_or\<close> is \<open>Option::ok_or\<close> and \<open>guard\<close> an early return.
  \<^item> Machine integers: values of \<open>i64\<close> and \<open>i128\<close> are integers, and each checked operation of the
    source is a range test that yields \<open>None\<close> outside the type.
  \<^item> Finite sums over storage maps (\<open>msum\<close>), with the effect of one write.
  \<^item> Transaction sequences: a call that fails leaves the state as it was (Soroban rolls a panicking
    invocation back, PostgreSQL an uncommitted transaction), and the locales that lift a fact about
    one call to any sequence of calls.
\<close>

named_theorems result_simps \<open>inversion of results: when a sequenced computation succeeds\<close>

section \<open>Results\<close>

definition bind_result :: "'e + 'a \<Rightarrow> ('a \<Rightarrow> 'e + 'b) \<Rightarrow> 'e + 'b" where
  "bind_result m f = (case m of Inl e \<Rightarrow> Inl e | Inr x \<Rightarrow> f x)"

definition ok_or :: "'a option \<Rightarrow> 'e \<Rightarrow> 'e + 'a" where
  "ok_or m e = (case m of None \<Rightarrow> Inl e | Some x \<Rightarrow> Inr x)"

definition guard :: "bool \<Rightarrow> 'e \<Rightarrow> 'e + unit" where
  "guard b e = (if b then Inr () else Inl e)"

lemma bind_result_simps [simp]:
  "bind_result (Inl e) f = Inl e"
  "bind_result (Inr x) f = f x"
  by (simp_all add: bind_result_def)

lemma bind_result_Inr [result_simps]:
  "bind_result m f = Inr y \<longleftrightarrow> (\<exists>x. m = Inr x \<and> f x = Inr y)"
  by (cases m) simp_all

lemma ok_or_simps [simp]:
  "ok_or None e = Inl e"
  "ok_or (Some x) e = Inr x"
  by (simp_all add: ok_or_def)

lemma ok_or_Inr [result_simps]: "ok_or m e = Inr x \<longleftrightarrow> m = Some x"
  by (cases m) simp_all

lemma guard_simps [simp]:
  "guard True e = Inr ()"
  "guard False e = Inl e"
  by (simp_all add: guard_def)

lemma guard_Inr [result_simps]: "guard b e = Inr u \<longleftrightarrow> b"
  by (simp add: guard_def)

text \<open>Elimination rules that walk down a sequence of fallible steps.\<close>

lemma map_sum_fst_Inr [result_simps]: "map_sum id fst m = Inr w \<longleftrightarrow> (\<exists>r. m = Inr (w, r))"
  by (cases m) auto

lemma bind_InrE: "bind_result m f = Inr y \<Longrightarrow> (\<And>x. m = Inr x \<Longrightarrow> f x = Inr y \<Longrightarrow> P) \<Longrightarrow> P"
  by (auto simp: bind_result_Inr)

lemma if_InrE: "(if b then Inl e else m) = Inr y \<Longrightarrow> (\<not> b \<Longrightarrow> m = Inr y \<Longrightarrow> P) \<Longrightarrow> P"
  by (simp split: if_splits)

lemma bind_result_assoc:
  "bind_result (bind_result m f) g = bind_result m (\<lambda>x. bind_result (f x) g)"
  by (cases m) simp_all

lemma if_Inl_Inr [result_simps]: "(if b then Inl e else m) = Inr y \<longleftrightarrow> \<not> b \<and> m = Inr y"
  by simp

text \<open>\<open>try_fold\<close> over a slice, stopping at the first error.\<close>

fun try_fold :: "('b \<Rightarrow> 'a \<Rightarrow> 'e + 'b) \<Rightarrow> 'b \<Rightarrow> 'a list \<Rightarrow> 'e + 'b" where
  "try_fold f acc [] = Inr acc"
| "try_fold f acc (x # xs) = bind_result (f acc x) (\<lambda>acc'. try_fold f acc' xs)"

section \<open>Machine integers\<close>

definition i64_min :: int where "i64_min = - (2 ^ 63)"
definition i64_max :: int where "i64_max = 2 ^ 63 - 1"
definition i128_min :: int where "i128_min = - (2 ^ 127)"
definition i128_max :: int where "i128_max = 2 ^ 127 - 1"
definition u32_max :: nat where "u32_max = 2 ^ 32 - 1"
definition u64_max :: nat where "u64_max = 2 ^ 64 - 1"

definition checked_i64 :: "int \<Rightarrow> int option" where
  "checked_i64 x = (if i64_min \<le> x \<and> x \<le> i64_max then Some x else None)"

text \<open>\<open>+\<close> on \<open>i64\<close> in a release build without overflow checks.\<close>

definition i64_wrap :: "int \<Rightarrow> int" where
  "i64_wrap x = (x + 2 ^ 63) mod 2 ^ 64 - 2 ^ 63"

definition checked_i128 :: "int \<Rightarrow> int option" where
  "checked_i128 x = (if i128_min \<le> x \<and> x \<le> i128_max then Some x else None)"

definition checked_u32 :: "nat \<Rightarrow> nat option" where
  "checked_u32 n = (if n \<le> u32_max then Some n else None)"

definition checked_u64 :: "nat \<Rightarrow> nat option" where
  "checked_u64 n = (if n \<le> u64_max then Some n else None)"

lemma checked_Some [simp]:
  "checked_i64 x = Some y \<longleftrightarrow> y = x \<and> i64_min \<le> x \<and> x \<le> i64_max"
  "checked_i128 x = Some y \<longleftrightarrow> y = x \<and> i128_min \<le> x \<and> x \<le> i128_max"
  "checked_u32 n = Some m \<longleftrightarrow> m = n \<and> n \<le> u32_max"
  "checked_u64 n = Some m \<longleftrightarrow> m = n \<and> n \<le> u64_max"
  by (auto simp: checked_i64_def checked_i128_def checked_u32_def checked_u64_def)

lemma checked_i128_ok [simp]: "i128_min \<le> x \<Longrightarrow> x \<le> i128_max \<Longrightarrow> checked_i128 x = Some x"
  by simp

lemma checked_i64_ok [simp]: "i64_min \<le> x \<Longrightarrow> x \<le> i64_max \<Longrightarrow> checked_i64 x = Some x"
  by simp

lemma int_type_bounds:
  "i64_min \<le> 0" "0 \<le> i64_max" "i128_min \<le> 0" "0 \<le> i128_max"
  by (simp_all add: i64_min_def i64_max_def i128_min_def i128_max_def)

text \<open>Adding up non-negative amounts with \<open>checked_add\<close>: the loop fails exactly when the total leaves
  the type.\<close>

lemma try_fold_checked_sum:
  assumes "\<And>x. x \<in> set xs \<Longrightarrow> 0 \<le> g x" "0 \<le> acc" "acc + (\<Sum>x \<leftarrow> xs. g x) \<le> i64_max"
  shows "try_fold (\<lambda>t x. ok_or (checked_i64 (t + g x)) e) acc xs = Inr (acc + (\<Sum>x \<leftarrow> xs. g x))"
  using assms
proof (induction xs arbitrary: acc)
  case (Cons x xs)
  have "0 \<le> (\<Sum>x \<leftarrow> xs. g x)" using Cons.prems(1) by (intro sum_list_nonneg) auto
  with Cons.prems have "checked_i64 (acc + g x) = Some (acc + g x)"
    using int_type_bounds(1) by (auto intro: order_trans)
  with Cons.IH [of "acc + g x"] Cons.prems show ?case by (simp add: add.assoc)
qed simp

lemma try_fold_checked_sum_Inr:
  "try_fold (\<lambda>t x. ok_or (checked_i64 (t + g x)) e) acc xs = Inr r \<Longrightarrow> r = acc + (\<Sum>x \<leftarrow> xs. g x)"
proof (induction xs arbitrary: acc)
  case (Cons x xs)
  then have "try_fold (\<lambda>t x. ok_or (checked_i64 (t + g x)) e) (acc + g x) xs = Inr r"
    by (cases "checked_i64 (acc + g x)") auto
  then show ?case using Cons.IH [of "acc + g x"] by (simp only: list.map sum_list.Cons add.assoc)
qed simp

text \<open>Rust's \<open>/\<close> truncates towards zero, as \<open>sdiv\<close> does; on non-negative values it is \<open>div\<close>.\<close>

lemma sdiv_nonneg [simp]:
  fixes a b :: int
  assumes "0 \<le> a" "0 \<le> b"
  shows "a sdiv b = a div b"
  using assms by (cases "a = 0"; cases "b = 0") (auto simp: signed_divide_int_def)

lemma floor_share_le:
  fixes s t w :: int
  assumes "0 < w"
  shows "(s * t) div w * w \<le> s * t"
  using assms by (metis mult.commute mult_div_mod_eq pos_mod_sign add.commute le_add_same_cancel2 add_increasing order_refl)

lemma floor_share_ge:
  fixes s t w :: int
  assumes "0 < w" "w \<le> t" "0 \<le> s"
  shows "s \<le> (s * t) div w"
proof -
  have "s * w \<le> s * t" using assms by (simp add: mult_left_mono)
  then have "(s * w) div w \<le> (s * t) div w" using assms(1) by (rule zdiv_mono1)
  then show ?thesis using assms(1) by simp
qed

section \<open>Sums over storage maps\<close>

definition val0 :: "('k \<rightharpoonup> int) \<Rightarrow> 'k \<Rightarrow> int" where
  "val0 f k = (case f k of None \<Rightarrow> 0 | Some v \<Rightarrow> v)"

lemma val0_upd [simp]: "val0 (f(k \<mapsto> v)) k' = (if k' = k then v else val0 f k')"
  by (simp add: val0_def)

lemma val0_empty [simp]: "val0 Map.empty k = 0"
  by (simp add: val0_def)

definition msum :: "('k \<rightharpoonup> int) \<Rightarrow> ('k \<Rightarrow> bool) \<Rightarrow> int" where
  "msum f P = (\<Sum>k \<in> {k \<in> dom f. P k}. val0 f k)"

lemma msum_empty [simp]: "msum Map.empty P = 0"
  by (simp add: msum_def)

lemma msum_upd:
  assumes "finite (dom f)"
  shows "msum (f(k \<mapsto> v)) P = msum f P + (if P k then v - val0 f k else 0)"
proof (cases "P k")
  case True
  let ?A = "{x \<in> dom f. P x} - {k}"
  have fin: "finite ?A" using assms by simp
  have eq: "{x \<in> dom (f(k \<mapsto> v)). P x} = insert k ?A" using True by auto
  have "msum (f(k \<mapsto> v)) P = v + (\<Sum>x \<in> ?A. val0 f x)"
    unfolding msum_def eq using fin by (simp del: insert_Diff_single cong: sum.cong_simp)
  moreover have "msum f P = val0 f k + (\<Sum>x \<in> ?A. val0 f x)"
  proof (cases "k \<in> dom f")
    case True
    then show ?thesis unfolding msum_def using \<open>P k\<close> assms by (intro sum.remove) auto
  next
    case False
    then have "{x \<in> dom f. P x} = ?A" by auto
    moreover from False have "val0 f k = 0" by (simp add: val0_def domIff)
    ultimately show ?thesis unfolding msum_def by simp
  qed
  ultimately show ?thesis using True by simp
next
  case False
  then have "{x \<in> dom (f(k \<mapsto> v)). P x} = {x \<in> dom f. P x}" by auto
  then show ?thesis unfolding msum_def using False by (auto intro: sum.cong)
qed

lemma msum_cong: "(\<And>k. k \<in> dom f \<Longrightarrow> P k = Q k) \<Longrightarrow> msum f P = msum f Q"
  unfolding msum_def by (metis (mono_tags, lifting) Collect_cong)

lemma msum_nonneg: "(\<And>k. 0 \<le> val0 f k) \<Longrightarrow> 0 \<le> msum f P"
  unfolding msum_def by (simp add: sum_nonneg)

lemma msum_mono:
  assumes "finite (dom f)" "\<And>k. 0 \<le> val0 f k" "\<And>k. P k \<Longrightarrow> Q k"
  shows "msum f P \<le> msum f Q"
  unfolding msum_def using assms by (intro sum_mono2) auto

lemma msum_split:
  assumes "finite (dom f)"
  shows "msum f P = msum f (\<lambda>k. P k \<and> Q k) + msum f (\<lambda>k. P k \<and> \<not> Q k)"
proof -
  have "{k \<in> dom f. P k} = {k \<in> dom f. P k \<and> Q k} \<union> {k \<in> dom f. P k \<and> \<not> Q k}" by auto
  then show ?thesis unfolding msum_def using assms
    by (simp add: sum.union_disjoint disjoint_iff)
qed

lemma msum_key:
  assumes "finite (dom f)" "\<And>x. P x \<longleftrightarrow> x = k"
  shows "msum f P = val0 f k"
proof (cases "k \<in> dom f")
  case True
  then have "{x \<in> dom f. P x} = {k}" using assms(2) by auto
  then show ?thesis by (simp add: msum_def)
next
  case False
  then have "{x \<in> dom f. P x} = {}" using assms(2) by auto
  with False show ?thesis by (simp add: msum_def val0_def domIff del: Collect_empty_eq)
qed

lemma msum_none: "(\<And>k. k \<in> dom f \<Longrightarrow> \<not> P k) \<Longrightarrow> msum f P = 0"
proof -
  assume "\<And>k. k \<in> dom f \<Longrightarrow> \<not> P k"
  then have "{k \<in> dom f. P k} = {}" by auto
  then show ?thesis unfolding msum_def by (metis sum.empty)
qed

lemma msum_keys:
  assumes "finite (dom f)" "finite K" "\<And>k. k \<in> dom f \<Longrightarrow> P k \<longleftrightarrow> k \<in> K"
  shows "msum f P = (\<Sum>k \<in> K. val0 f k)"
proof -
  have eq: "{k \<in> dom f. P k} = K \<inter> dom f" using assms(3) by auto
  have "(\<Sum>k \<in> K. val0 f k) = (\<Sum>k \<in> K \<inter> dom f. val0 f k)"
    by (rule sum.mono_neutral_right) (use assms(2) in \<open>auto simp: val0_def domIff split: option.splits\<close>)
  then show ?thesis by (simp add: msum_def eq)
qed

section \<open>Transaction sequences\<close>

text \<open>One call of a sequence: a failing call is rolled back.\<close>

definition commit :: "('s \<Rightarrow> 'op \<Rightarrow> 'e + 's) \<Rightarrow> 's \<Rightarrow> 'op \<Rightarrow> 's" where
  "commit step s x = (case step s x of Inl _ \<Rightarrow> s | Inr s' \<Rightarrow> s')"

fun run :: "('s \<Rightarrow> 'op \<Rightarrow> 'e + 's) \<Rightarrow> 's \<Rightarrow> 'op list \<Rightarrow> 's" where
  "run step s [] = s"
| "run step s (x # xs) = run step (commit step s x) xs"

lemma run_append: "run step s (xs @ ys) = run step (run step s xs) ys"
  by (induction xs arbitrary: s) simp_all

text \<open>A machine whose calls keep an invariant.\<close>

locale transactional =
  fixes step :: "'s \<Rightarrow> 'op \<Rightarrow> 'e + 's"
    and legal :: "'op \<Rightarrow> bool"
    and inv :: "'s \<Rightarrow> bool"
  assumes step_inv: "inv s \<Longrightarrow> legal x \<Longrightarrow> step s x = Inr s' \<Longrightarrow> inv s'"
begin

lemma commit_inv: "inv s \<Longrightarrow> legal x \<Longrightarrow> inv (commit step s x)"
  by (auto simp: commit_def step_inv split: sum.splits)

lemma run_inv: "inv s \<Longrightarrow> list_all legal xs \<Longrightarrow> inv (run step s xs)"
  by (induction xs arbitrary: s) (simp_all add: commit_inv)

end

text \<open>A machine whose calls, under the invariant, move forward in a preorder.\<close>

locale evolving = transactional +
  fixes evolves :: "'s \<Rightarrow> 's \<Rightarrow> bool"
  assumes evolves_refl: "evolves s s"
    and evolves_trans: "evolves s t \<Longrightarrow> evolves t u \<Longrightarrow> evolves s u"
    and step_evolves: "inv s \<Longrightarrow> legal x \<Longrightarrow> step s x = Inr s' \<Longrightarrow> evolves s s'"
begin

lemma commit_evolves: "inv s \<Longrightarrow> legal x \<Longrightarrow> evolves s (commit step s x)"
  by (auto simp: commit_def evolves_refl step_evolves split: sum.splits)

lemma run_evolves: "inv s \<Longrightarrow> list_all legal xs \<Longrightarrow> evolves s (run step s xs)"
proof (induction xs arbitrary: s)
  case Nil
  show ?case by (simp add: evolves_refl)
next
  case (Cons x xs)
  then have "evolves s (commit step s x)" and "evolves (commit step s x) (run step (commit step s x) xs)"
    by (simp_all add: commit_evolves commit_inv)
  then show ?case by (simp add: evolves_trans [of s "commit step s x"])
qed

end

end
