(* ===== verification/Soroban.thy ===== *)
theory Soroban
  imports CF_Prelude
begin

text \<open>
  What the contracts use of the Soroban host: who authorised the invocation, the ledger time, the
  address of the running contract, and the SEP-41 token interface. The token is another contract, so
  its \<open>transfer\<close> is a parameter of every definition that calls it; \<open>sep41\<close> states the documented
  effect of a transfer on balances and \<open>sep41_pays\<close> that a covered transfer succeeds.
  A panic rolls the invocation back, so a call is a function into a sum type.
  Entry time-to-live extension (\<open>extend_ttl\<close>) has no effect on the values stored and is not modelled.
\<close>

type_synonym address = nat

type_synonym bytes32 = "nat list"

record invocation =
  authorized :: "address list"
  ledger_timestamp :: nat
  current_contract :: address

datatype 'e trap =
    ContractError 'e
  | AuthTrap
  | TokenTrap

definition require_auth :: "invocation \<Rightarrow> address \<Rightarrow> 'e trap + unit" where
  "require_auth e a = guard (a \<in> set (authorized e)) AuthTrap"

lemma require_auth_Inr [result_simps]: "require_auth e a = Inr u \<longleftrightarrow> a \<in> set (authorized e)"
  by (simp add: require_auth_def guard_Inr)

text \<open>An external caller cannot produce the authorization of the contract itself.\<close>

definition external_caller :: "invocation \<Rightarrow> bool" where
  "external_caller e \<longleftrightarrow> current_contract e \<notin> set (authorized e)"

section \<open>The token interface\<close>

text \<open>Arguments: token contract, sender, receiver, amount, token ledger.\<close>

type_synonym 't transfer_fn = "address \<Rightarrow> address \<Rightarrow> address \<Rightarrow> int \<Rightarrow> 't \<Rightarrow> 't option"

type_synonym 't balance_fn = "address \<Rightarrow> address \<Rightarrow> 't \<Rightarrow> int"

definition token_transfer ::
  "'t transfer_fn \<Rightarrow> address \<Rightarrow> address \<Rightarrow> address \<Rightarrow> int \<Rightarrow> 't \<Rightarrow> 'e trap + 't" where
  "token_transfer transfer tok from_a to_a amount t = ok_or (transfer tok from_a to_a amount t) TokenTrap"

lemma token_transfer_Inr [result_simps]:
  "token_transfer transfer tok from_a to_a amount t = Inr t' \<longleftrightarrow> transfer tok from_a to_a amount t = Some t'"
  by (simp add: token_transfer_def ok_or_Inr)

definition sep41 :: "'t transfer_fn \<Rightarrow> 't balance_fn \<Rightarrow> bool" where
  "sep41 transfer balance \<longleftrightarrow>
     (\<forall>tok from_a to_a amount t t'. transfer tok from_a to_a amount t = Some t' \<longrightarrow>
        0 \<le> amount \<and>
        (\<forall>tok' a. balance tok' a t' = balance tok' a t
            - (if tok' = tok \<and> a = from_a then amount else 0)
            + (if tok' = tok \<and> a = to_a then amount else 0)))"

definition sep41_pays :: "'t transfer_fn \<Rightarrow> 't balance_fn \<Rightarrow> bool" where
  "sep41_pays transfer balance \<longleftrightarrow>
     (\<forall>tok from_a to_a amount t. 0 \<le> amount \<and> amount \<le> balance tok from_a t \<longrightarrow>
        (\<exists>t'. transfer tok from_a to_a amount t = Some t'))"

lemma sep41_amount: "sep41 transfer balance \<Longrightarrow> transfer tok a b n t = Some t' \<Longrightarrow> 0 \<le> n"
  unfolding sep41_def by blast

lemma sep41_balance:
  assumes "sep41 transfer balance" "transfer tok a b n t = Some t'"
  shows "balance tok' c t' = balance tok' c t
           - (if tok' = tok \<and> c = a then n else 0) + (if tok' = tok \<and> c = b then n else 0)"
  using assms unfolding sep41_def by blast

lemma sep41_keeps:
  assumes "sep41 transfer balance" "transfer tok a b n t = Some t'" "c \<noteq> a"
  shows "balance tok' c t \<le> balance tok' c t'"
  using sep41_balance [OF assms(1,2), of tok' c] sep41_amount [OF assms(1,2)] assms(3) by simp

text \<open>A plain ledger with the interface, on which concrete runs are evaluated.\<close>

type_synonym ledger = "address \<times> address \<Rightarrow> int"

definition ledger_transfer :: "ledger transfer_fn" where
  "ledger_transfer tok from_a to_a amount t =
     (if 0 \<le> amount \<and> amount \<le> t (tok, from_a)
      then let t1 = t((tok, from_a) := t (tok, from_a) - amount)
           in Some (t1((tok, to_a) := t1 (tok, to_a) + amount))
      else None)"

definition ledger_balance :: "ledger balance_fn" where
  "ledger_balance tok a t = t (tok, a)"

lemma sep41_ledger: "sep41 ledger_transfer ledger_balance"
  by (auto simp: sep41_def ledger_transfer_def ledger_balance_def Let_def split: if_splits)

lemma sep41_pays_ledger: "sep41_pays ledger_transfer ledger_balance"
  by (auto simp: sep41_pays_def ledger_transfer_def ledger_balance_def)

end
