(* ===== verification/Prediction_Market.thy ===== *)
theory Prediction_Market
  imports Soroban
begin

text \<open>
  The Soroban contract \<open>contracts/prediction-market/src/lib.rs\<close>: its storage, one definition per
  storage accessor and per entry point in the order of the source, and the invariant that ties the
  per-user positions, the option pools, the market totals and the claim counters together.
\<close>

section \<open>Constants, errors, storage\<close>

abbreviation (input) OPEN :: nat where "OPEN \<equiv> 0"
abbreviation (input) RESOLUTION_PENDING :: nat where "RESOLUTION_PENDING \<equiv> 1"
abbreviation (input) RESOLVED :: nat where "RESOLVED \<equiv> 2"
abbreviation (input) CANCELLED :: nat where "CANCELLED \<equiv> 3"
abbreviation (input) BPS_DENOMINATOR :: int where "BPS_DENOMINATOR \<equiv> 10000"
abbreviation (input) MAX_FEE_BPS :: nat where "MAX_FEE_BPS \<equiv> 1000"
abbreviation (input) MAX_OPTIONS :: nat where "MAX_OPTIONS \<equiv> 32"

datatype pm_error =
    NotInitialized | AlreadyInitialized | Paused | MarketNotFound | InvalidOption | InvalidAmount
  | MarketClosed | MarketStillOpen | InvalidStatus | AlreadyClaimed | NothingToClaim | NotCancelled
  | InvalidParams | NoWinningStake | NothingToUnstake | ResolutionDelayActive | Arithmetic

record MarketInfo =
  question :: string
  category :: string
  num_options :: nat
  close_time :: nat
  resolution_delay :: nat
  fee_bps :: nat
  resolver :: address
  treasury :: address
  status :: nat
  winning_option :: nat
  result_hash :: bytes32
  proposed_at :: nat
  total_pool :: int
  claimed_gross :: int
  claimed_winning_stake :: int

text \<open>One field per constructor of \<open>DataKey\<close>; a missing entry is \<open>None\<close>.\<close>

record DataKeys =
  Admin_key :: "address option"
  Token_key :: "address option"
  Paused_key :: "bool option"
  MarketCount_key :: "nat option"
  Market_key :: "nat \<rightharpoonup> MarketInfo"
  Pool_key :: "nat \<times> nat \<rightharpoonup> int"
  Position_key :: "nat \<times> address \<times> nat \<rightharpoonup> int"
  Claimed_key :: "nat \<times> address \<rightharpoonup> bool"

datatype pm_event =
    Ev_init address
  | Ev_create nat nat
  | Ev_stake nat address nat int
  | Ev_unstake nat address nat int
  | Ev_proposal nat nat bytes32
  | Ev_finalize nat nat bytes32
  | Ev_cancel nat
  | Ev_claim nat address int int int
  | Ev_refund nat address int

text \<open>The state a call can change: the contract's storage, the token ledger, the events.\<close>

record 't pm_world =
  storage :: DataKeys
  tokens :: 't
  events :: "pm_event list"

type_synonym ('t, 'a) pm_result = "pm_error trap + ('t pm_world \<times> 'a)"

abbreviation fail :: "pm_error \<Rightarrow> pm_error trap + 'a" where
  "fail err \<equiv> Inl (ContractError err)"

section \<open>Storage accessors\<close>

definition read_admin :: "DataKeys \<Rightarrow> pm_error trap + address" where
  "read_admin s = ok_or (Admin_key s) (ContractError NotInitialized)"

definition require_admin :: "invocation \<Rightarrow> DataKeys \<Rightarrow> pm_error trap + unit" where
  "require_admin e s = bind_result (read_admin s) (require_auth e)"

definition token_client :: "DataKeys \<Rightarrow> pm_error trap + address" where
  "token_client s = ok_or (Token_key s) (ContractError NotInitialized)"

definition is_paused :: "DataKeys \<Rightarrow> bool" where
  "is_paused s = (case Paused_key s of None \<Rightarrow> False | Some b \<Rightarrow> b)"

definition read_market :: "DataKeys \<Rightarrow> nat \<Rightarrow> pm_error trap + MarketInfo" where
  "read_market s market_id = ok_or (Market_key s market_id) (ContractError MarketNotFound)"

definition write_market :: "nat \<Rightarrow> MarketInfo \<Rightarrow> DataKeys \<Rightarrow> DataKeys" where
  "write_market market_id market s = s\<lparr>Market_key := (Market_key s)(market_id \<mapsto> market)\<rparr>"

definition read_pool :: "DataKeys \<Rightarrow> nat \<Rightarrow> nat \<Rightarrow> int" where
  "read_pool s market_id opt = val0 (Pool_key s) (market_id, opt)"

definition write_pool :: "nat \<Rightarrow> nat \<Rightarrow> int \<Rightarrow> DataKeys \<Rightarrow> DataKeys" where
  "write_pool market_id opt amount s = s\<lparr>Pool_key := (Pool_key s)((market_id, opt) \<mapsto> amount)\<rparr>"

definition read_position :: "DataKeys \<Rightarrow> nat \<Rightarrow> address \<Rightarrow> nat \<Rightarrow> int" where
  "read_position s market_id user opt = val0 (Position_key s) (market_id, user, opt)"

definition write_position :: "nat \<Rightarrow> address \<Rightarrow> nat \<Rightarrow> int \<Rightarrow> DataKeys \<Rightarrow> DataKeys" where
  "write_position market_id user opt amount s =
     s\<lparr>Position_key := (Position_key s)((market_id, user, opt) \<mapsto> amount)\<rparr>"

definition read_claimed :: "DataKeys \<Rightarrow> nat \<Rightarrow> address \<Rightarrow> bool" where
  "read_claimed s market_id user =
     (case Claimed_key s (market_id, user) of None \<Rightarrow> False | Some b \<Rightarrow> b)"

definition write_claimed :: "nat \<Rightarrow> address \<Rightarrow> DataKeys \<Rightarrow> DataKeys" where
  "write_claimed market_id user s = s\<lparr>Claimed_key := (Claimed_key s)((market_id, user) \<mapsto> True)\<rparr>"

definition checked_add :: "int \<Rightarrow> int \<Rightarrow> pm_error trap + int" where
  "checked_add left right = ok_or (checked_i128 (left + right)) (ContractError Arithmetic)"

definition checked_sub :: "int \<Rightarrow> int \<Rightarrow> pm_error trap + int" where
  "checked_sub left right = ok_or (checked_i128 (left - right)) (ContractError Arithmetic)"

definition checked_mul :: "int \<Rightarrow> int \<Rightarrow> pm_error trap + int" where
  "checked_mul left right = ok_or (checked_i128 (left * right)) (ContractError Arithmetic)"

lemma checked_Inr [result_simps]:
  "checked_add a b = Inr c \<longleftrightarrow> c = a + b \<and> i128_min \<le> a + b \<and> a + b \<le> i128_max"
  "checked_sub a b = Inr c \<longleftrightarrow> c = a - b \<and> i128_min \<le> a - b \<and> a - b \<le> i128_max"
  "checked_mul a b = Inr c \<longleftrightarrow> c = a * b \<and> i128_min \<le> a * b \<and> a * b \<le> i128_max"
  by (auto simp: checked_add_def checked_sub_def checked_mul_def ok_or_Inr)

definition publish :: "pm_event \<Rightarrow> 't pm_world \<Rightarrow> 't pm_world" where
  "publish ev w = w\<lparr>events := events w @ [ev]\<rparr>"

section \<open>Entry points\<close>

definition initialize :: "'t pm_world \<Rightarrow> address \<Rightarrow> address \<Rightarrow> ('t, unit) pm_result" where
  "initialize w admin token =
     (if Admin_key (storage w) \<noteq> None then fail AlreadyInitialized
      else let s = (storage w)\<lparr>Admin_key := Some admin, Token_key := Some token,
                                Paused_key := Some False, MarketCount_key := Some 0\<rparr>
           in Inr (publish (Ev_init admin) (w\<lparr>storage := s\<rparr>), ()))"

definition create_market ::
  "invocation \<Rightarrow> 't pm_world \<Rightarrow> string \<Rightarrow> string \<Rightarrow> nat \<Rightarrow> nat \<Rightarrow> nat \<Rightarrow> nat \<Rightarrow> address \<Rightarrow> address
   \<Rightarrow> ('t, nat) pm_result" where
  "create_market e w question_a category_a num_options_a close_time_a resolution_delay_a fee_bps_a
       resolver_a treasury_a =
     bind_result (require_admin e (storage w)) (\<lambda>_.
     if num_options_a < 2 \<or> num_options_a > MAX_OPTIONS \<or> close_time_a \<le> ledger_timestamp e
        \<or> fee_bps_a > MAX_FEE_BPS
     then fail InvalidParams
     else
     bind_result (ok_or (checked_u32 ((case MarketCount_key (storage w) of None \<Rightarrow> 0 | Some n \<Rightarrow> n) + 1))
                    (ContractError Arithmetic)) (\<lambda>market_id.
     let market = \<lparr>question = question_a, category = category_a, num_options = num_options_a,
           close_time = close_time_a, resolution_delay = resolution_delay_a, fee_bps = fee_bps_a,
           resolver = resolver_a, treasury = treasury_a, status = OPEN, winning_option = 0,
           result_hash = replicate 32 0, proposed_at = 0, total_pool = 0, claimed_gross = 0,
           claimed_winning_stake = 0\<rparr>;
         s = (write_market market_id market (storage w))\<lparr>MarketCount_key := Some market_id\<rparr>
     in Inr (publish (Ev_create market_id num_options_a) (w\<lparr>storage := s\<rparr>), market_id)))"

definition stake ::
  "'t transfer_fn \<Rightarrow> invocation \<Rightarrow> 't pm_world \<Rightarrow> address \<Rightarrow> nat \<Rightarrow> nat \<Rightarrow> int \<Rightarrow> ('t, unit) pm_result" where
  "stake transfer e w from_a market_id opt amount =
     bind_result (require_auth e from_a) (\<lambda>_.
     if is_paused (storage w) then fail Paused
     else if amount \<le> 0 then fail InvalidAmount
     else
     bind_result (read_market (storage w) market_id) (\<lambda>market.
     if status market \<noteq> OPEN \<or> close_time market \<le> ledger_timestamp e then fail MarketClosed
     else if num_options market \<le> opt then fail InvalidOption
     else
     bind_result (token_client (storage w)) (\<lambda>tok.
     bind_result (token_transfer transfer tok from_a (current_contract e) amount (tokens w)) (\<lambda>t'.
     bind_result (checked_add (read_pool (storage w) market_id opt) amount) (\<lambda>option_pool.
     bind_result (checked_add (read_position (storage w) market_id from_a opt) amount) (\<lambda>position.
     bind_result (checked_add (total_pool market) amount) (\<lambda>total.
     let s = write_market market_id (market\<lparr>total_pool := total\<rparr>)
               (write_position market_id from_a opt position
                 (write_pool market_id opt option_pool (storage w)))
     in Inr (publish (Ev_stake market_id from_a opt amount) (w\<lparr>storage := s, tokens := t'\<rparr>), ()))))))))"

definition unstake ::
  "'t transfer_fn \<Rightarrow> invocation \<Rightarrow> 't pm_world \<Rightarrow> address \<Rightarrow> nat \<Rightarrow> nat \<Rightarrow> ('t, int) pm_result" where
  "unstake transfer e w from_a market_id opt =
     bind_result (require_auth e from_a) (\<lambda>_.
     bind_result (read_market (storage w) market_id) (\<lambda>market.
     if status market \<noteq> OPEN \<or> close_time market \<le> ledger_timestamp e then fail MarketClosed
     else if num_options market \<le> opt then fail InvalidOption
     else
     let position = read_position (storage w) market_id from_a opt in
     if position \<le> 0 then fail NothingToUnstake
     else
     bind_result (checked_sub (read_pool (storage w) market_id opt) position) (\<lambda>option_pool.
     bind_result (checked_sub (total_pool market) position) (\<lambda>total.
     let s = write_market market_id (market\<lparr>total_pool := total\<rparr>)
               (write_position market_id from_a opt 0
                 (write_pool market_id opt option_pool (storage w)))
     in
     bind_result (token_client s) (\<lambda>tok.
     bind_result (token_transfer transfer tok (current_contract e) from_a position (tokens w)) (\<lambda>t'.
     Inr (publish (Ev_unstake market_id from_a opt position) (w\<lparr>storage := s, tokens := t'\<rparr>), position)))))))"

definition propose_resolution ::
  "invocation \<Rightarrow> 't pm_world \<Rightarrow> nat \<Rightarrow> nat \<Rightarrow> bytes32 \<Rightarrow> ('t, unit) pm_result" where
  "propose_resolution e w market_id winning rhash =
     bind_result (read_market (storage w) market_id) (\<lambda>market.
     bind_result (require_auth e (resolver market)) (\<lambda>_.
     if status market \<noteq> OPEN then fail InvalidStatus
     else if ledger_timestamp e < close_time market then fail MarketStillOpen
     else if num_options market \<le> winning then fail InvalidOption
     else if read_pool (storage w) market_id winning \<le> 0 then fail NoWinningStake
     else
     let market' = market\<lparr>status := RESOLUTION_PENDING, winning_option := winning,
                          result_hash := rhash, proposed_at := ledger_timestamp e\<rparr>
     in Inr (publish (Ev_proposal market_id winning rhash)
               (w\<lparr>storage := write_market market_id market' (storage w)\<rparr>), ())))"

definition finalize_resolution :: "invocation \<Rightarrow> 't pm_world \<Rightarrow> nat \<Rightarrow> ('t, unit) pm_result" where
  "finalize_resolution e w market_id =
     bind_result (read_market (storage w) market_id) (\<lambda>market.
     bind_result (require_auth e (resolver market)) (\<lambda>_.
     if status market \<noteq> RESOLUTION_PENDING then fail InvalidStatus
     else
     bind_result (ok_or (checked_u64 (proposed_at market + resolution_delay market))
                    (ContractError Arithmetic)) (\<lambda>finalizable_at.
     if ledger_timestamp e < finalizable_at then fail ResolutionDelayActive
     else
     Inr (publish (Ev_finalize market_id (winning_option market) (result_hash market))
            (w\<lparr>storage := write_market market_id (market\<lparr>status := RESOLVED\<rparr>) (storage w)\<rparr>), ()))))"

definition cancel_market :: "invocation \<Rightarrow> 't pm_world \<Rightarrow> nat \<Rightarrow> ('t, unit) pm_result" where
  "cancel_market e w market_id =
     bind_result (require_admin e (storage w)) (\<lambda>_.
     bind_result (read_market (storage w) market_id) (\<lambda>market.
     if status market = RESOLVED \<or> status market = CANCELLED then fail InvalidStatus
     else
     Inr (publish (Ev_cancel market_id)
            (w\<lparr>storage := write_market market_id (market\<lparr>status := CANCELLED\<rparr>) (storage w)\<rparr>), ())))"

text \<open>The arithmetic of \<open>claim\<close>: gross share, fee and net payout of one winner.\<close>

definition claim_gross :: "MarketInfo \<Rightarrow> int \<Rightarrow> int \<Rightarrow> int \<Rightarrow> pm_error trap + int" where
  "claim_gross market winning_pool stk next_claimed_stake =
     (if next_claimed_stake = winning_pool
      then checked_sub (total_pool market) (claimed_gross market)
      else bind_result (checked_mul stk (total_pool market)) (\<lambda>p. Inr (p sdiv winning_pool)))"

definition claim_split :: "MarketInfo \<Rightarrow> int \<Rightarrow> int \<Rightarrow> pm_error trap + (int \<times> int)" where
  "claim_split market gross stk =
     bind_result (checked_sub gross stk) (\<lambda>profit.
     bind_result (checked_mul profit (int (fee_bps market))) (\<lambda>p.
     let fee = p sdiv BPS_DENOMINATOR in
     bind_result (checked_sub gross fee) (\<lambda>net. Inr (fee, net))))"

definition claim ::
  "'t transfer_fn \<Rightarrow> invocation \<Rightarrow> 't pm_world \<Rightarrow> address \<Rightarrow> nat \<Rightarrow> ('t, int) pm_result" where
  "claim transfer e w from_a market_id =
     bind_result (require_auth e from_a) (\<lambda>_.
     bind_result (read_market (storage w) market_id) (\<lambda>market.
     if status market \<noteq> RESOLVED then fail InvalidStatus
     else if read_claimed (storage w) market_id from_a then fail AlreadyClaimed
     else
     let stk = read_position (storage w) market_id from_a (winning_option market) in
     if stk \<le> 0 then fail NothingToClaim
     else
     let winning_pool = read_pool (storage w) market_id (winning_option market) in
     if winning_pool \<le> 0 then fail NoWinningStake
     else
     bind_result (checked_add (claimed_winning_stake market) stk) (\<lambda>next_claimed_stake.
     bind_result (claim_gross market winning_pool stk next_claimed_stake) (\<lambda>gross.
     bind_result (claim_split market gross stk) (\<lambda>(fee, net).
     bind_result (checked_add (claimed_gross market) gross) (\<lambda>claimed_gross'.
     let market' = market\<lparr>claimed_winning_stake := next_claimed_stake, claimed_gross := claimed_gross'\<rparr>;
         s = write_market market_id market' (write_claimed market_id from_a (storage w))
     in
     bind_result (token_client s) (\<lambda>tok.
     bind_result (if fee > 0
                  then token_transfer transfer tok (current_contract e) (treasury market') fee (tokens w)
                  else Inr (tokens w)) (\<lambda>t1.
     bind_result (token_transfer transfer tok (current_contract e) from_a net t1) (\<lambda>t2.
     Inr (publish (Ev_claim market_id from_a gross fee net) (w\<lparr>storage := s, tokens := t2\<rparr>), net))))))))))"

definition refund ::
  "'t transfer_fn \<Rightarrow> invocation \<Rightarrow> 't pm_world \<Rightarrow> address \<Rightarrow> nat \<Rightarrow> ('t, int) pm_result" where
  "refund transfer e w from_a market_id =
     bind_result (require_auth e from_a) (\<lambda>_.
     bind_result (read_market (storage w) market_id) (\<lambda>market.
     if status market \<noteq> CANCELLED then fail NotCancelled
     else if read_claimed (storage w) market_id from_a then fail AlreadyClaimed
     else
     bind_result (try_fold (\<lambda>total opt. checked_add total (read_position (storage w) market_id from_a opt))
                    0 [0..<num_options market]) (\<lambda>total.
     if total \<le> 0 then fail NothingToClaim
     else
     let s = write_claimed market_id from_a (storage w) in
     bind_result (token_client s) (\<lambda>tok.
     bind_result (token_transfer transfer tok (current_contract e) from_a total (tokens w)) (\<lambda>t'.
     Inr (publish (Ev_refund market_id from_a total) (w\<lparr>storage := s, tokens := t'\<rparr>), total))))))"

definition set_paused_flag :: "bool \<Rightarrow> 't pm_world \<Rightarrow> 't pm_world" where
  "set_paused_flag b w = w\<lparr>storage := (storage w)\<lparr>Paused_key := Some b\<rparr>\<rparr>"

definition pause_staking :: "invocation \<Rightarrow> 't pm_world \<Rightarrow> ('t, unit) pm_result" where
  "pause_staking e w =
     bind_result (require_admin e (storage w)) (\<lambda>_. Inr (set_paused_flag True w, ()))"

definition unpause_staking :: "invocation \<Rightarrow> 't pm_world \<Rightarrow> ('t, unit) pm_result" where
  "unpause_staking e w =
     bind_result (require_admin e (storage w)) (\<lambda>_. Inr (set_paused_flag False w, ()))"

definition transfer_admin :: "invocation \<Rightarrow> 't pm_world \<Rightarrow> address \<Rightarrow> ('t, unit) pm_result" where
  "transfer_admin e w new_admin =
     bind_result (require_admin e (storage w)) (\<lambda>_.
       Inr (w\<lparr>storage := (storage w)\<lparr>Admin_key := Some new_admin\<rparr>\<rparr>, ()))"

text \<open>The read-only entry points.\<close>

definition market :: "'t pm_world \<Rightarrow> nat \<Rightarrow> pm_error trap + MarketInfo" where
  "market w market_id = read_market (storage w) market_id"

definition pool_of :: "'t pm_world \<Rightarrow> nat \<Rightarrow> nat \<Rightarrow> int" where
  "pool_of w market_id opt = read_pool (storage w) market_id opt"

definition position_of :: "'t pm_world \<Rightarrow> nat \<Rightarrow> address \<Rightarrow> nat \<Rightarrow> int" where
  "position_of w market_id user opt = read_position (storage w) market_id user opt"

definition has_claimed :: "'t pm_world \<Rightarrow> nat \<Rightarrow> address \<Rightarrow> bool" where
  "has_claimed w market_id user = read_claimed (storage w) market_id user"

definition market_count :: "'t pm_world \<Rightarrow> nat" where
  "market_count w = (case MarketCount_key (storage w) of None \<Rightarrow> 0 | Some n \<Rightarrow> n)"

definition paused :: "'t pm_world \<Rightarrow> bool" where
  "paused w = is_paused (storage w)"

definition admin :: "'t pm_world \<Rightarrow> pm_error trap + address" where
  "admin w = read_admin (storage w)"

section \<open>The contract as a machine\<close>

text \<open>
  Every state-changing entry point with its arguments, and the token activity of anyone else
  (\<open>Foreign\<close>: a transfer on any token contract that the market contract did not make).
\<close>

datatype pm_call =
    Initialize address address
  | CreateMarket string string nat nat nat nat address address
  | Stake address nat nat int
  | Unstake address nat nat
  | Propose nat nat bytes32
  | Finalize nat
  | Cancel nat
  | Claim address nat
  | Refund address nat
  | Pause
  | Unpause
  | TransferAdmin address
  | Foreign address address address int

fun pm_call_step ::
  "'t transfer_fn \<Rightarrow> invocation \<Rightarrow> 't pm_world \<Rightarrow> pm_call \<Rightarrow> pm_error trap + 't pm_world" where
  "pm_call_step transfer e w (Initialize a t) = map_sum id fst (initialize w a t)"
| "pm_call_step transfer e w (CreateMarket q c n ct d f r t) = map_sum id fst (create_market e w q c n ct d f r t)"
| "pm_call_step transfer e w (Stake f m opt n) = map_sum id fst (stake transfer e w f m opt n)"
| "pm_call_step transfer e w (Unstake f m opt) = map_sum id fst (unstake transfer e w f m opt)"
| "pm_call_step transfer e w (Propose m win h) = map_sum id fst (propose_resolution e w m win h)"
| "pm_call_step transfer e w (Finalize m) = map_sum id fst (finalize_resolution e w m)"
| "pm_call_step transfer e w (Cancel m) = map_sum id fst (cancel_market e w m)"
| "pm_call_step transfer e w (Claim f m) = map_sum id fst (claim transfer e w f m)"
| "pm_call_step transfer e w (Refund f m) = map_sum id fst (refund transfer e w f m)"
| "pm_call_step transfer e w Pause = map_sum id fst (pause_staking e w)"
| "pm_call_step transfer e w Unpause = map_sum id fst (unpause_staking e w)"
| "pm_call_step transfer e w (TransferAdmin a) = map_sum id fst (transfer_admin e w a)"
| "pm_call_step transfer e w (Foreign tok a b n) =
     bind_result (require_auth e a) (\<lambda>_.
     bind_result (token_transfer transfer tok a b n (tokens w)) (\<lambda>t'. Inr (w\<lparr>tokens := t'\<rparr>)))"

definition pm_step ::
  "'t transfer_fn \<Rightarrow> 't pm_world \<Rightarrow> invocation \<times> pm_call \<Rightarrow> pm_error trap + 't pm_world" where
  "pm_step transfer w x = pm_call_step transfer (fst x) w (snd x)"

definition empty_storage :: DataKeys where
  "empty_storage = \<lparr>Admin_key = None, Token_key = None, Paused_key = None, MarketCount_key = None,
     Market_key = Map.empty, Pool_key = Map.empty, Position_key = Map.empty, Claimed_key = Map.empty\<rparr>"

definition deployed :: "'t \<Rightarrow> 't pm_world" where
  "deployed t = \<lparr>storage = empty_storage, tokens = t, events = []\<rparr>"

end
