(* ===== verification/Prediction_Market_Inv.thy ===== *)
theory Prediction_Market_Inv
  imports Prediction_Market
begin

text \<open>
  The invariant of the prediction-market contract and its preservation by every entry point:
  pools and totals are the sums of the recorded positions, the claim counters are the stakes of the
  users flagged as claimed, and the contract's token balance covers what every market still owes.
\<close>

section \<open>What a call does, by inversion\<close>

lemmas pm_reads = read_market_def token_client_def read_admin_def require_admin_def

lemmas pm_writes = write_market_def write_pool_def write_position_def write_claimed_def publish_def
  set_paused_flag_def

lemma require_admin_Inr [result_simps]:
  "require_admin e s = Inr u \<longleftrightarrow> (\<exists>a. Admin_key s = Some a \<and> a \<in> set (authorized e))"
  by (simp add: require_admin_def read_admin_def result_simps)

lemma initializeE:
  assumes "initialize w a tok = Inr (w', u)"
  obtains "Admin_key (storage w) = None"
    "w' = publish (Ev_init a) (w\<lparr>storage := (storage w)\<lparr>Admin_key := Some a, Token_key := Some tok,
            Paused_key := Some False, MarketCount_key := Some 0\<rparr>\<rparr>)"
  using assms by (auto simp: initialize_def Let_def split: if_splits)

lemma create_marketE:
  assumes "create_market e w q c n ct d f r t = Inr (w', i)"
  obtains a mi where "Admin_key (storage w) = Some a" "a \<in> set (authorized e)"
    "2 \<le> n" "n \<le> MAX_OPTIONS" "ledger_timestamp e < ct" "f \<le> MAX_FEE_BPS"
    "i = market_count w + 1" "i \<le> u32_max"
    "mi = \<lparr>question = q, category = c, num_options = n, close_time = ct, resolution_delay = d,
       fee_bps = f, resolver = r, treasury = t, status = OPEN, winning_option = 0,
       result_hash = replicate 32 0, proposed_at = 0, total_pool = 0, claimed_gross = 0,
       claimed_winning_stake = 0\<rparr>"
    "w' = publish (Ev_create i n)
       (w\<lparr>storage := (write_market i mi (storage w))\<lparr>MarketCount_key := Some i\<rparr>\<rparr>)"
  using assms
  by (auto simp: create_market_def Let_def result_simps market_count_def split: if_splits)

lemma stakeE:
  assumes "stake transfer e w f m opt n = Inr (w', u)"
  obtains mi tok t' where "f \<in> set (authorized e)" "\<not> is_paused (storage w)" "0 < n"
    "Market_key (storage w) m = Some mi" "status mi = OPEN" "ledger_timestamp e < close_time mi"
    "opt < num_options mi" "Token_key (storage w) = Some tok"
    "transfer tok f (current_contract e) n (tokens w) = Some t'" "total_pool mi + n \<le> i128_max"
    "w' = publish (Ev_stake m f opt n) (w\<lparr>storage := write_market m (mi\<lparr>total_pool := total_pool mi + n\<rparr>)
       (write_position m f opt (read_position (storage w) m f opt + n)
         (write_pool m opt (read_pool (storage w) m opt + n) (storage w))), tokens := t'\<rparr>)"
  using assms
  by (auto simp: stake_def Let_def result_simps read_market_def token_client_def split: if_splits)

lemma unstakeE:
  assumes "unstake transfer e w f m opt = Inr (w', r)"
  obtains mi tok t' where "f \<in> set (authorized e)" "0 < r" "r = read_position (storage w) m f opt"
    "Market_key (storage w) m = Some mi" "status mi = OPEN" "ledger_timestamp e < close_time mi"
    "opt < num_options mi" "Token_key (storage w) = Some tok"
    "transfer tok (current_contract e) f r (tokens w) = Some t'"
    "w' = publish (Ev_unstake m f opt r) (w\<lparr>storage := write_market m (mi\<lparr>total_pool := total_pool mi - r\<rparr>)
       (write_position m f opt 0
         (write_pool m opt (read_pool (storage w) m opt - r) (storage w))), tokens := t'\<rparr>)"
  using assms
  by (auto simp: unstake_def Let_def result_simps read_market_def token_client_def pm_writes
      split: if_splits)

lemma proposeE:
  assumes "propose_resolution e w m win h = Inr (w', u)"
  obtains mi where "Market_key (storage w) m = Some mi" "resolver mi \<in> set (authorized e)"
    "status mi = OPEN" "close_time mi \<le> ledger_timestamp e" "win < num_options mi"
    "0 < read_pool (storage w) m win"
    "w' = publish (Ev_proposal m win h) (w\<lparr>storage := write_market m (mi\<lparr>status := RESOLUTION_PENDING,
       winning_option := win, result_hash := h, proposed_at := ledger_timestamp e\<rparr>) (storage w)\<rparr>)"
  using assms
  by (auto simp: propose_resolution_def Let_def result_simps read_market_def split: if_splits)

lemma finalizeE:
  assumes "finalize_resolution e w m = Inr (w', u)"
  obtains mi where "Market_key (storage w) m = Some mi" "resolver mi \<in> set (authorized e)"
    "status mi = RESOLUTION_PENDING" "proposed_at mi + resolution_delay mi \<le> ledger_timestamp e"
    "w' = publish (Ev_finalize m (winning_option mi) (result_hash mi))
       (w\<lparr>storage := write_market m (mi\<lparr>status := RESOLVED\<rparr>) (storage w)\<rparr>)"
  using assms
  by (auto simp: finalize_resolution_def Let_def result_simps read_market_def split: if_splits)

lemma cancelE:
  assumes "cancel_market e w m = Inr (w', u)"
  obtains a mi where "Admin_key (storage w) = Some a" "a \<in> set (authorized e)"
    "Market_key (storage w) m = Some mi" "status mi \<noteq> RESOLVED" "status mi \<noteq> CANCELLED"
    "w' = publish (Ev_cancel m)
       (w\<lparr>storage := write_market m (mi\<lparr>status := CANCELLED\<rparr>) (storage w)\<rparr>)"
  using assms
  by (auto simp: cancel_market_def Let_def result_simps read_market_def split: if_splits)

text \<open>The gross share, fee and payout of a successful claim, in closed form.\<close>

definition winner_stake :: "DataKeys \<Rightarrow> nat \<Rightarrow> MarketInfo \<Rightarrow> address \<Rightarrow> int" where
  "winner_stake s m mi f = read_position s m f (winning_option mi)"

definition gross_of :: "DataKeys \<Rightarrow> nat \<Rightarrow> MarketInfo \<Rightarrow> address \<Rightarrow> int" where
  "gross_of s m mi f =
     (if claimed_winning_stake mi + winner_stake s m mi f = read_pool s m (winning_option mi)
      then total_pool mi - claimed_gross mi
      else (winner_stake s m mi f * total_pool mi) sdiv read_pool s m (winning_option mi))"

definition fee_of :: "DataKeys \<Rightarrow> nat \<Rightarrow> MarketInfo \<Rightarrow> address \<Rightarrow> int" where
  "fee_of s m mi f =
     ((gross_of s m mi f - winner_stake s m mi f) * int (fee_bps mi)) sdiv BPS_DENOMINATOR"

lemma claim_gross_Inr:
  assumes "claim_gross mi (read_pool s m (winning_option mi)) (winner_stake s m mi f)
             (claimed_winning_stake mi + winner_stake s m mi f) = Inr g"
  shows "g = gross_of s m mi f"
  using assms by (auto simp: claim_gross_def gross_of_def result_simps split: if_splits)

lemma claim_split_Inr:
  assumes "claim_split mi (gross_of s m mi f) (winner_stake s m mi f) = Inr p"
  shows "p = (fee_of s m mi f, gross_of s m mi f - fee_of s m mi f)"
  using assms by (auto simp: claim_split_def fee_of_def Let_def result_simps)

lemma claimE:
  assumes "claim transfer e w f m = Inr (w', r)"
  obtains mi tok t1 t2 where "f \<in> set (authorized e)"
    "Market_key (storage w) m = Some mi" "status mi = RESOLVED" "\<not> read_claimed (storage w) m f"
    "0 < winner_stake (storage w) m mi f"
    "0 < read_pool (storage w) m (winning_option mi)"
    "r = gross_of (storage w) m mi f - fee_of (storage w) m mi f"
    "Token_key (storage w) = Some tok"
    "(if 0 < fee_of (storage w) m mi f
      then transfer tok (current_contract e) (treasury mi) (fee_of (storage w) m mi f) (tokens w)
      else Some (tokens w)) = Some t1"
    "transfer tok (current_contract e) f r t1 = Some t2"
    "w' = publish (Ev_claim m f (gross_of (storage w) m mi f) (fee_of (storage w) m mi f) r)
      (w\<lparr>storage := write_market m
        (mi\<lparr>claimed_winning_stake := claimed_winning_stake mi + winner_stake (storage w) m mi f,
            claimed_gross := claimed_gross mi + gross_of (storage w) m mi f\<rparr>)
        (write_claimed m f (storage w)), tokens := t2\<rparr>)"
proof -
  from assms obtain mi gross fee net where a:
    "f \<in> set (authorized e)" "Market_key (storage w) m = Some mi" "status mi = RESOLVED"
    "\<not> read_claimed (storage w) m f" "0 < winner_stake (storage w) m mi f"
    "0 < read_pool (storage w) m (winning_option mi)"
    and g: "claim_gross mi (read_pool (storage w) m (winning_option mi)) (winner_stake (storage w) m mi f)
        (claimed_winning_stake mi + winner_stake (storage w) m mi f) = Inr gross"
    and sp: "claim_split mi gross (winner_stake (storage w) m mi f) = Inr (fee, net)"
    and rest: "bind_result (checked_add (claimed_gross mi) gross) (\<lambda>claimed_gross'.
     let market' = mi\<lparr>claimed_winning_stake := claimed_winning_stake mi + winner_stake (storage w) m mi f,
           claimed_gross := claimed_gross'\<rparr>;
         s = write_market m market' (write_claimed m f (storage w))
     in
     bind_result (token_client s) (\<lambda>tok.
     bind_result (if fee > 0
                  then token_transfer transfer tok (current_contract e) (treasury market') fee (tokens w)
                  else Inr (tokens w)) (\<lambda>t1.
     bind_result (token_transfer transfer tok (current_contract e) f net t1) (\<lambda>t2.
     Inr (publish (Ev_claim m f gross fee net) (w\<lparr>storage := s, tokens := t2\<rparr>), net))))) = Inr (w', r)"
    unfolding claim_def
    by (auto simp: Let_def bind_result_Inr require_auth_Inr read_market_def ok_or_Inr
        checked_Inr winner_stake_def split: if_splits)
  from g have g': "gross = gross_of (storage w) m mi f" by (rule claim_gross_Inr)
  from sp [unfolded g'] have "fee = fee_of (storage w) m mi f"
    and "net = gross_of (storage w) m mi f - fee_of (storage w) m mi f"
    using claim_split_Inr by blast+
  with rest g' obtain tok t1 t2 where "Token_key (storage w) = Some tok"
    "(if 0 < fee_of (storage w) m mi f
      then transfer tok (current_contract e) (treasury mi) (fee_of (storage w) m mi f) (tokens w)
      else Some (tokens w)) = Some t1"
    "r = gross_of (storage w) m mi f - fee_of (storage w) m mi f"
    "transfer tok (current_contract e) f r t1 = Some t2"
    "w' = publish (Ev_claim m f (gross_of (storage w) m mi f) (fee_of (storage w) m mi f) r)
      (w\<lparr>storage := write_market m
        (mi\<lparr>claimed_winning_stake := claimed_winning_stake mi + winner_stake (storage w) m mi f,
            claimed_gross := claimed_gross mi + gross_of (storage w) m mi f\<rparr>)
        (write_claimed m f (storage w)), tokens := t2\<rparr>)"
    by (cases "0 < fee_of (storage w) m mi f")
      (auto simp: Let_def bind_result_Inr checked_Inr token_transfer_Inr token_client_def ok_or_Inr
        write_market_def write_claimed_def)
  with a show thesis by (intro that) assumption+
qed

lemma try_fold_checked_add:
  "try_fold (\<lambda>total opt. checked_add total (g opt)) acc xs = Inr r \<Longrightarrow> r = acc + sum_list (map g xs)"
proof (induction xs arbitrary: acc)
  case (Cons a xs)
  from Cons.prems have "try_fold (\<lambda>total opt. checked_add total (g opt)) (acc + g a) xs = Inr r"
    by (auto simp: result_simps)
  from Cons.IH [OF this] show ?case by simp
qed simp

lemma refundE:
  assumes "refund transfer e w f m = Inr (w', r)"
  obtains mi tok t' where "f \<in> set (authorized e)"
    "Market_key (storage w) m = Some mi" "status mi = CANCELLED" "\<not> read_claimed (storage w) m f"
    "r = (\<Sum>opt < num_options mi. read_position (storage w) m f opt)" "0 < r"
    "Token_key (storage w) = Some tok"
    "transfer tok (current_contract e) f r (tokens w) = Some t'"
    "w' = publish (Ev_refund m f r) (w\<lparr>storage := write_claimed m f (storage w), tokens := t'\<rparr>)"
  using assms
  by (auto simp: refund_def Let_def result_simps read_market_def token_client_def pm_writes
      interv_sum_list_conv_sum_set_nat atLeast0LessThan
      dest!: try_fold_checked_add split: if_splits)

section \<open>The invariant\<close>

text \<open>Sums of the recorded positions: of one option, of one market, of the users with or without
  the claimed flag.\<close>

definition option_stake :: "DataKeys \<Rightarrow> nat \<Rightarrow> nat \<Rightarrow> int" where
  "option_stake s m opt = msum (Position_key s) (\<lambda>(m', u, opt'). m' = m \<and> opt' = opt)"

definition market_stake :: "DataKeys \<Rightarrow> nat \<Rightarrow> int" where
  "market_stake s m = msum (Position_key s) (\<lambda>(m', u, opt'). m' = m)"

definition claimed_stake :: "DataKeys \<Rightarrow> nat \<Rightarrow> nat \<Rightarrow> int" where
  "claimed_stake s m opt =
     msum (Position_key s) (\<lambda>(m', u, opt'). m' = m \<and> opt' = opt \<and> read_claimed s m u)"

definition refundable :: "DataKeys \<Rightarrow> nat \<Rightarrow> int" where
  "refundable s m = msum (Position_key s) (\<lambda>(m', u, opt'). m' = m \<and> \<not> read_claimed s m u)"

definition settling_ok :: "DataKeys \<Rightarrow> nat \<Rightarrow> MarketInfo \<Rightarrow> bool" where
  "settling_ok s m mi \<longleftrightarrow>
     claimed_winning_stake mi = claimed_stake s m (winning_option mi) \<and> 0 \<le> claimed_gross mi \<and>
     claimed_gross mi * read_pool s m (winning_option mi) \<le> claimed_winning_stake mi * total_pool mi \<and>
     (claimed_winning_stake mi = read_pool s m (winning_option mi) \<longrightarrow> claimed_gross mi = total_pool mi)"

definition market_ok :: "DataKeys \<Rightarrow> nat \<Rightarrow> MarketInfo \<Rightarrow> bool" where
  "market_ok s m mi \<longleftrightarrow>
     (\<forall>opt. read_pool s m opt = option_stake s m opt) \<and>
     total_pool mi = market_stake s m \<and> total_pool mi \<le> i128_max \<and>
     (\<forall>u opt. (m, u, opt) \<in> dom (Position_key s) \<longrightarrow> opt < num_options mi) \<and>
     fee_bps mi \<le> MAX_FEE_BPS \<and> status mi \<le> CANCELLED \<and>
     (status mi = OPEN \<or> status mi = RESOLUTION_PENDING \<longrightarrow>
        claimed_gross mi = 0 \<and> claimed_winning_stake mi = 0 \<and> (\<forall>u. \<not> read_claimed s m u)) \<and>
     (status mi = RESOLUTION_PENDING \<or> status mi = RESOLVED \<longrightarrow>
        winning_option mi < num_options mi \<and> 0 < read_pool s m (winning_option mi)) \<and>
     (status mi = RESOLVED \<longrightarrow> settling_ok s m mi)"

definition liability :: "DataKeys \<Rightarrow> nat \<Rightarrow> MarketInfo \<Rightarrow> int" where
  "liability s m mi =
     (if status mi = RESOLVED then total_pool mi - claimed_gross mi
      else if status mi = CANCELLED then refundable s m else total_pool mi)"

definition total_liability :: "DataKeys \<Rightarrow> int" where
  "total_liability s = (\<Sum>m \<in> dom (Market_key s). liability s m (the (Market_key s m)))"

definition storage_ok :: "DataKeys \<Rightarrow> bool" where
  "storage_ok s \<longleftrightarrow>
     finite (dom (Market_key s)) \<and> finite (dom (Position_key s)) \<and>
     (\<forall>k. 0 \<le> val0 (Position_key s) k) \<and>
     (\<forall>m. m \<in> dom (Market_key s) \<longrightarrow> m \<le> (case MarketCount_key s of None \<Rightarrow> 0 | Some n \<Rightarrow> n)) \<and>
     (\<forall>m. Market_key s m = None \<longrightarrow>
        (\<forall>opt. read_pool s m opt = 0) \<and> (\<forall>u opt. (m, u, opt) \<notin> dom (Position_key s)) \<and>
        (\<forall>u. \<not> read_claimed s m u)) \<and>
     (\<forall>m mi. Market_key s m = Some mi \<longrightarrow> market_ok s m mi)"

definition solvent :: "'t balance_fn \<Rightarrow> address \<Rightarrow> 't pm_world \<Rightarrow> bool" where
  "solvent balance self w \<longleftrightarrow>
     (case Token_key (storage w) of
        None \<Rightarrow> Admin_key (storage w) = None \<and> Market_key (storage w) = Map.empty
                \<and> (\<forall>tok. 0 \<le> balance tok self (tokens w))
      | Some tok \<Rightarrow> Admin_key (storage w) \<noteq> None
                \<and> total_liability (storage w) \<le> balance tok self (tokens w))"

definition pm_inv :: "'t balance_fn \<Rightarrow> address \<Rightarrow> 't pm_world \<Rightarrow> bool" where
  "pm_inv balance self w \<longleftrightarrow> storage_ok (storage w) \<and> solvent balance self w"

section \<open>Sums under storage writes\<close>

text \<open>Two storages that agree on everything recorded about one market.\<close>

definition agree_on :: "nat \<Rightarrow> DataKeys \<Rightarrow> DataKeys \<Rightarrow> bool" where
  "agree_on m s s' \<longleftrightarrow>
     (\<forall>opt. read_pool s' m opt = read_pool s m opt) \<and>
     (\<forall>u opt. Position_key s' (m, u, opt) = Position_key s (m, u, opt)) \<and>
     (\<forall>u. read_claimed s' m u = read_claimed s m u)"

lemma msum_agree:
  assumes "\<And>k. P k \<Longrightarrow> f k = g k"
  shows "msum f P = msum g P"
proof -
  have "{k \<in> dom f. P k} = {k \<in> dom g. P k}" using assms by (auto simp: domIff)
  then show ?thesis unfolding msum_def val0_def by (rule sum.cong) (use assms in auto)
qed

lemma agree_on_sums:
  assumes "agree_on m s s'"
  shows "option_stake s' m opt = option_stake s m opt" "market_stake s' m = market_stake s m"
    "claimed_stake s' m opt = claimed_stake s m opt" "refundable s' m = refundable s m"
  using assms unfolding agree_on_def option_stake_def market_stake_def claimed_stake_def refundable_def
  by (auto intro!: msum_agree)

lemma agree_on_market_ok:
  assumes "agree_on m s s'"
  shows "market_ok s' m mi = market_ok s m mi" "liability s' m mi = liability s m mi"
proof -
  from assms have "\<And>opt. read_pool s' m opt = read_pool s m opt"
    "\<And>u opt. (m, u, opt) \<in> dom (Position_key s') \<longleftrightarrow> (m, u, opt) \<in> dom (Position_key s)"
    "\<And>u. read_claimed s' m u = read_claimed s m u"
    by (auto simp: agree_on_def domIff)
  then show "market_ok s' m mi = market_ok s m mi" "liability s' m mi = liability s m mi"
    unfolding market_ok_def settling_ok_def liability_def agree_on_sums [OF assms] by simp_all
qed

lemma total_liability_upd:
  assumes "finite (dom (Market_key s))" "Market_key s' = (Market_key s)(m \<mapsto> mi')"
    and "\<And>m'. m' \<noteq> m \<Longrightarrow> agree_on m' s s'"
  shows "total_liability s' = total_liability s
     - (case Market_key s m of None \<Rightarrow> 0 | Some mi \<Rightarrow> liability s m mi) + liability s' m mi'"
proof -
  let ?A = "dom (Market_key s) - {m}"
  have fin: "finite ?A" using assms(1) by simp
  have dom': "dom (Market_key s') = insert m ?A" using assms(2) by auto
  have rest: "(\<Sum>x \<in> ?A. liability s' x (the (Market_key s' x)))
      = (\<Sum>x \<in> ?A. liability s x (the (Market_key s x)))"
    using assms(2,3) by (intro sum.cong) (auto simp: agree_on_market_ok)
  have new: "total_liability s' = liability s' m mi' + (\<Sum>x \<in> ?A. liability s x (the (Market_key s x)))"
    unfolding total_liability_def dom' using fin rest
    by (subst sum.insert) (simp_all add: assms(2) del: insert_Diff_single)
  have old: "total_liability s = (case Market_key s m of None \<Rightarrow> 0 | Some mi \<Rightarrow> liability s m mi)
      + (\<Sum>x \<in> ?A. liability s x (the (Market_key s x)))"
  proof (cases "Market_key s m")
    case None
    then have "dom (Market_key s) = ?A" by auto
    with None show ?thesis by (simp add: total_liability_def)
  next
    case (Some mi)
    then have "m \<in> dom (Market_key s)" by auto
    from sum.remove [OF assms(1) this, of "\<lambda>x. liability s x (the (Market_key s x))"] Some
    show ?thesis by (simp add: total_liability_def)
  qed
  from new old show ?thesis by simp
qed

text \<open>
  A call that writes one market: every other market is untouched, so the invariant is a matter of
  that market's own records and of the change of its liability against the contract's balance.
\<close>

lemma pm_inv_one_market:
  assumes inv: "pm_inv balance self w"
    and keys: "Admin_key s' = Admin_key (storage w)" "Token_key s' = Some tok"
      "Token_key (storage w) = Some tok"
    and mk: "Market_key s' = (Market_key (storage w))(m \<mapsto> mi')"
    and cnt: "(case MarketCount_key (storage w) of None \<Rightarrow> 0 | Some n \<Rightarrow> n)
        \<le> (case MarketCount_key s' of None \<Rightarrow> 0 | Some n \<Rightarrow> n)"
      "m \<le> (case MarketCount_key s' of None \<Rightarrow> 0 | Some n \<Rightarrow> n)"
    and others: "\<And>m'. m' \<noteq> m \<Longrightarrow> agree_on m' (storage w) s'"
    and fin: "finite (dom (Position_key s'))" and nonneg: "\<And>k. 0 \<le> val0 (Position_key s') k"
    and ok: "market_ok s' m mi'"
    and bal: "liability s' m mi'
        - (case Market_key (storage w) m of None \<Rightarrow> 0 | Some mi \<Rightarrow> liability (storage w) m mi)
        \<le> balance tok self t' - balance tok self (tokens w)"
  shows "pm_inv balance self (w\<lparr>storage := s', tokens := t', events := evs\<rparr>)"
proof -
  let ?s = "storage w"
  from inv have so: "storage_ok ?s" and sv: "solvent balance self w" by (simp_all add: pm_inv_def)
  from so have fm: "finite (dom (Market_key ?s))" by (simp add: storage_ok_def)
  have "storage_ok s'"
    unfolding storage_ok_def
  proof (intro conjI allI impI)
    show "finite (dom (Market_key s'))" using fm mk by simp
    show "finite (dom (Position_key s'))" by (rule fin)
    show "0 \<le> val0 (Position_key s') k" for k by (rule nonneg)
    show "m' \<le> (case MarketCount_key s' of None \<Rightarrow> 0 | Some n \<Rightarrow> n)"
      if "m' \<in> dom (Market_key s')" for m'
    proof (cases "m' = m")
      case True
      with cnt(2) show ?thesis by simp
    next
      case False
      with that mk have "m' \<in> dom (Market_key ?s)" by auto
      with so have "m' \<le> (case MarketCount_key ?s of None \<Rightarrow> 0 | Some n \<Rightarrow> n)"
        by (simp add: storage_ok_def)
      with cnt(1) show ?thesis by linarith
    qed
  next
    fix m' mi
    assume "Market_key s' m' = Some mi"
    show "market_ok s' m' mi"
    proof (cases "m' = m")
      case True
      with \<open>Market_key s' m' = Some mi\<close> mk ok show ?thesis by simp
    next
      case False
      with \<open>Market_key s' m' = Some mi\<close> mk so have "market_ok ?s m' mi" by (simp add: storage_ok_def)
      with agree_on_market_ok(1) [OF others [OF False]] show ?thesis by simp
    qed
  next
    fix m' opt u
    assume none: "Market_key s' m' = None"
    with mk have neq: "m' \<noteq> m" and none0: "Market_key ?s m' = None" by (auto split: if_splits)
    from none0 so have "read_pool ?s m' opt = 0" "(m', u, opt) \<notin> dom (Position_key ?s)"
      "\<not> read_claimed ?s m' u" by (auto simp: storage_ok_def)
    with others [OF neq] show "read_pool s' m' opt = 0" "(m', u, opt) \<notin> dom (Position_key s')"
      "\<not> read_claimed s' m' u" by (auto simp: agree_on_def domIff)
  qed
  moreover have "total_liability s' \<le> balance tok self t'"
    using total_liability_upd [OF fm mk others] sv bal keys by (simp add: solvent_def)
  ultimately show ?thesis using sv keys by (simp add: pm_inv_def solvent_def)
qed

end
