(* ===== verification/Prediction_Market_Steps.thy ===== *)
theory Prediction_Market_Steps
  imports Prediction_Market_Inv
begin

text \<open>
  Every entry point of the prediction-market contract keeps \<open>pm_inv\<close>: how each storage write moves
  the sums, one preservation lemma per entry point, and the contract as an instance of the
  transactional locales.
\<close>

section \<open>Reads after writes\<close>

named_theorems pm_frame \<open>reads and sums of the contract storage after a write\<close>

lemma pm_read_write [pm_frame]:
  "read_pool (write_pool m opt n s) m' opt' = (if m' = m \<and> opt' = opt then n else read_pool s m' opt')"
  "read_pool (write_position m u opt n s) = read_pool s"
  "read_pool (write_market m mi s) = read_pool s"
  "read_pool (write_claimed m u s) = read_pool s"
  "read_claimed (write_pool m opt n s) = read_claimed s"
  "read_claimed (write_position m u opt n s) = read_claimed s"
  "read_claimed (write_market m mi s) = read_claimed s"
  "read_claimed (write_claimed m u s) m' u' = ((m' = m \<and> u' = u) \<or> read_claimed s m' u')"
  by (auto simp: fun_eq_iff read_pool_def read_claimed_def pm_writes)

lemma pm_keys_write [pm_frame]:
  "Position_key (write_pool m opt n s) = Position_key s"
  "Position_key (write_position m u opt n s) = (Position_key s)((m, u, opt) \<mapsto> n)"
  "Position_key (write_market m mi s) = Position_key s"
  "Position_key (write_claimed m u s) = Position_key s"
  "Market_key (write_pool m opt n s) = Market_key s"
  "Market_key (write_position m u opt n s) = Market_key s"
  "Market_key (write_market m mi s) = (Market_key s)(m \<mapsto> mi)"
  "Market_key (write_claimed m u s) = Market_key s"
  "Admin_key (write_pool m opt n s) = Admin_key s"
  "Admin_key (write_position m u opt n s) = Admin_key s"
  "Admin_key (write_market m mi s) = Admin_key s"
  "Admin_key (write_claimed m u s) = Admin_key s"
  "Token_key (write_pool m opt n s) = Token_key s"
  "Token_key (write_position m u opt n s) = Token_key s"
  "Token_key (write_market m mi s) = Token_key s"
  "Token_key (write_claimed m u s) = Token_key s"
  "MarketCount_key (write_pool m opt n s) = MarketCount_key s"
  "MarketCount_key (write_position m u opt n s) = MarketCount_key s"
  "MarketCount_key (write_market m mi s) = MarketCount_key s"
  "MarketCount_key (write_claimed m u s) = MarketCount_key s"
  by (simp_all add: pm_writes)

lemma agree_on_refl [pm_frame]: "agree_on m s s"
  by (simp add: agree_on_def)

lemma agree_on_write [pm_frame]:
  "agree_on m' s (write_market m mi t) = agree_on m' s t"
  "m' \<noteq> m \<Longrightarrow> agree_on m' s (write_pool m opt n t) = agree_on m' s t"
  "m' \<noteq> m \<Longrightarrow> agree_on m' s (write_position m u opt n t) = agree_on m' s t"
  "m' \<noteq> m \<Longrightarrow> agree_on m' s (write_claimed m u t) = agree_on m' s t"
  by (simp_all add: agree_on_def pm_read_write pm_keys_write)

lemma sums_write_market [pm_frame]:
  "option_stake (write_market m mi s) = option_stake s"
  "market_stake (write_market m mi s) = market_stake s"
  "claimed_stake (write_market m mi s) = claimed_stake s"
  "refundable (write_market m mi s) = refundable s"
  by (simp_all add: fun_eq_iff option_stake_def market_stake_def claimed_stake_def refundable_def
      pm_keys_write pm_read_write)

lemma sums_write_pool [pm_frame]:
  "option_stake (write_pool m opt n s) = option_stake s"
  "market_stake (write_pool m opt n s) = market_stake s"
  "claimed_stake (write_pool m opt n s) = claimed_stake s"
  "refundable (write_pool m opt n s) = refundable s"
  by (simp_all add: fun_eq_iff option_stake_def market_stake_def claimed_stake_def refundable_def
      pm_keys_write pm_read_write)

lemma sums_write_position:
  assumes "finite (dom (Position_key s))"
  shows "option_stake (write_position m u opt n s) m opt'
      = option_stake s m opt' + (if opt' = opt then n - read_position s m u opt else 0)"
    "market_stake (write_position m u opt n s) m = market_stake s m + n - read_position s m u opt"
  using assms
  by (simp_all add: option_stake_def market_stake_def pm_keys_write msum_upd read_position_def)

lemma sums_write_claimed [pm_frame]:
  "option_stake (write_claimed m u s) = option_stake s"
  "market_stake (write_claimed m u s) = market_stake s"
  by (simp_all add: fun_eq_iff option_stake_def market_stake_def pm_keys_write)

lemma claimed_stake_write_claimed:
  assumes fin: "finite (dom (Position_key s))" and new: "\<not> read_claimed s m u"
  shows "claimed_stake (write_claimed m u s) m opt = claimed_stake s m opt + read_position s m u opt"
proof -
  let ?P = "\<lambda>(m', u', opt'). m' = m \<and> opt' = opt \<and> (u' = u \<or> read_claimed s m u')"
  let ?Q = "\<lambda>(m', u', opt'). read_claimed s m u'"
  have "msum (Position_key s) ?P
      = msum (Position_key s) (\<lambda>k. ?P k \<and> ?Q k) + msum (Position_key s) (\<lambda>k. ?P k \<and> \<not> ?Q k)"
    by (rule msum_split [OF fin])
  moreover have "msum (Position_key s) (\<lambda>k. ?P k \<and> ?Q k) = claimed_stake s m opt"
    unfolding claimed_stake_def by (rule msum_cong) auto
  moreover have "msum (Position_key s) (\<lambda>k. ?P k \<and> \<not> ?Q k) = read_position s m u opt"
    unfolding read_position_def by (rule msum_key [OF fin]) (use new in auto)
  moreover have "claimed_stake (write_claimed m u s) m opt = msum (Position_key s) ?P"
    unfolding claimed_stake_def pm_keys_write by (rule msum_cong) (auto simp: pm_read_write)
  ultimately show ?thesis by simp
qed

lemma refundable_write_claimed:
  assumes fin: "finite (dom (Position_key s))" and new: "\<not> read_claimed s m u"
    and opts: "\<And>u opt. (m, u, opt) \<in> dom (Position_key s) \<Longrightarrow> opt < n"
  shows "refundable (write_claimed m u s) m
      = refundable s m - (\<Sum>opt < n. read_position s m u opt)"
proof -
  let ?P = "\<lambda>(m', u', opt'). m' = m \<and> \<not> read_claimed s m u'"
  let ?Q = "\<lambda>(m', u', opt'). u' = u"
  have "msum (Position_key s) ?P
      = msum (Position_key s) (\<lambda>k. ?P k \<and> ?Q k) + msum (Position_key s) (\<lambda>k. ?P k \<and> \<not> ?Q k)"
    by (rule msum_split [OF fin])
  moreover have "msum (Position_key s) (\<lambda>k. ?P k \<and> ?Q k)
      = (\<Sum>k \<in> (\<lambda>opt. (m, u, opt)) ` {..<n}. val0 (Position_key s) k)"
    by (rule msum_keys [OF fin]) (use new opts in \<open>auto simp: domIff\<close>)
  moreover have "\<dots> = (\<Sum>opt < n. read_position s m u opt)"
    by (subst sum.reindex) (auto simp: inj_on_def read_position_def)
  moreover have "refundable (write_claimed m u s) m
      = msum (Position_key s) (\<lambda>k. ?P k \<and> \<not> ?Q k)"
    unfolding refundable_def pm_keys_write by (rule msum_cong) (auto simp: pm_read_write)
  ultimately show ?thesis by (simp add: refundable_def)
qed

lemma option_stake_le:
  assumes "finite (dom (Position_key s))" "\<And>k. 0 \<le> val0 (Position_key s) k"
  shows "option_stake s m opt \<le> market_stake s m" "claimed_stake s m opt \<le> option_stake s m opt"
    "0 \<le> option_stake s m opt"
  unfolding option_stake_def market_stake_def claimed_stake_def
  using assms by (auto intro!: msum_mono msum_nonneg)

section \<open>One preservation lemma per entry point\<close>

lemma pm_inv_marketD:
  assumes "pm_inv balance self w" "Market_key (storage w) m = Some mi"
  shows "market_ok (storage w) m mi" "finite (dom (Position_key (storage w)))"
    "\<And>k. 0 \<le> val0 (Position_key (storage w)) k"
    "m \<le> (case MarketCount_key (storage w) of None \<Rightarrow> 0 | Some n \<Rightarrow> n)"
    "\<exists>tok. Token_key (storage w) = Some tok"
  using assms by (auto simp: pm_inv_def storage_ok_def solvent_def split: option.splits)

lemma initialize_inv:
  assumes "pm_inv balance self w" "initialize w a tok = Inr (w', u)"
  shows "pm_inv balance self w'"
proof -
  from assms(2) have none: "Admin_key (storage w) = None"
    and w': "w' = publish (Ev_init a) (w\<lparr>storage := (storage w)\<lparr>Admin_key := Some a,
      Token_key := Some tok, Paused_key := Some False, MarketCount_key := Some 0\<rparr>\<rparr>)"
    by (auto elim: initializeE)
  from assms(1) none have empty: "Market_key (storage w) = Map.empty"
    and nonneg: "\<And>tok. 0 \<le> balance tok self (tokens w)"
    by (auto simp: pm_inv_def solvent_def split: option.splits)
  with assms(1) show ?thesis
    by (simp add: w' publish_def pm_inv_def storage_ok_def solvent_def total_liability_def
        read_pool_def read_claimed_def)
qed

lemma create_market_inv:
  assumes inv: "pm_inv balance self w"
    and call: "create_market e w q c n ct d f r t = Inr (w', i)"
  shows "pm_inv balance self w'"
proof -
  from call obtain a mi where a: "Admin_key (storage w) = Some a" and f: "f \<le> MAX_FEE_BPS"
    and i: "i = market_count w + 1"
    and mi: "mi = \<lparr>question = q, category = c, num_options = n, close_time = ct, resolution_delay = d,
       fee_bps = f, resolver = r, treasury = t, status = OPEN, winning_option = 0,
       result_hash = replicate 32 0, proposed_at = 0, total_pool = 0, claimed_gross = 0,
       claimed_winning_stake = 0\<rparr>"
    and w': "w' = publish (Ev_create i n)
       (w\<lparr>storage := (write_market i mi (storage w))\<lparr>MarketCount_key := Some i\<rparr>\<rparr>)"
    by (rule create_marketE) blast
  let ?s = "storage w" and ?s' = "(write_market i mi (storage w))\<lparr>MarketCount_key := Some i\<rparr>"
  from inv a obtain tok where tok: "Token_key ?s = Some tok"
    by (auto simp: pm_inv_def solvent_def split: option.splits)
  from inv i have fresh: "Market_key ?s i = None"
    by (force simp: pm_inv_def storage_ok_def market_count_def)
  have fr: "\<And>opt. read_pool ?s i opt = 0" "\<And>u opt. (i, u, opt) \<notin> dom (Position_key ?s)"
    "\<And>u. \<not> read_claimed ?s i u" "finite (dom (Position_key ?s))"
    "\<And>k. 0 \<le> val0 (Position_key ?s) k"
    using inv fresh by (auto simp: pm_inv_def storage_ok_def)
  have zero: "option_stake ?s i opt = 0" "market_stake ?s i = 0" for opt
    unfolding option_stake_def market_stake_def
    by (rule msum_none; use fr(2) in auto)+
  have same: "agree_on m' ?s ?s'" for m'
    by (simp add: agree_on_def write_market_def read_pool_def read_claimed_def)
  have ok0: "market_ok ?s i mi"
    using fr zero f int_type_bounds(4) by (auto simp: market_ok_def mi)
  have "pm_inv balance self (w\<lparr>storage := ?s', tokens := tokens w, events := events w @ [Ev_create i n]\<rparr>)"
  proof (rule pm_inv_one_market [OF inv, where tok = tok and m = i and mi' = mi])
    show "market_ok ?s' i mi" using ok0 agree_on_market_ok(1) [OF same] by simp
    show "liability ?s' i mi
        - (case Market_key ?s i of None \<Rightarrow> 0 | Some mi \<Rightarrow> liability ?s i mi)
        \<le> balance tok self (tokens w) - balance tok self (tokens w)"
      by (simp add: fresh liability_def mi)
    show "(case MarketCount_key ?s of None \<Rightarrow> 0 | Some n \<Rightarrow> n)
        \<le> (case MarketCount_key ?s' of None \<Rightarrow> 0 | Some n \<Rightarrow> n)"
      by (simp add: i market_count_def)
  qed (use tok fr same in \<open>simp_all add: write_market_def\<close>)
  then show ?thesis by (simp add: w' publish_def)
qed

text \<open>Calls that only rewrite one market record.\<close>

lemma rewrite_market_inv:
  assumes inv: "pm_inv balance self w" and mi: "Market_key (storage w) m = Some mi"
    and ok: "market_ok (storage w) m mi'"
    and le: "liability (storage w) m mi' \<le> liability (storage w) m mi"
  shows "pm_inv balance self (publish ev (w\<lparr>storage := write_market m mi' (storage w)\<rparr>))"
proof -
  note d = pm_inv_marketD [OF inv mi]
  from d(5) obtain tok where tok: "Token_key (storage w) = Some tok" ..
  have same: "agree_on m' (storage w) (write_market m mi' (storage w))" for m'
    by (simp add: pm_frame)
  have "pm_inv balance self (w\<lparr>storage := write_market m mi' (storage w), tokens := tokens w,
      events := events w @ [ev]\<rparr>)"
    by (rule pm_inv_one_market [OF inv, where tok = tok and m = m and mi' = mi'])
      (use d tok mi ok le agree_on_market_ok [OF same] in \<open>simp_all add: pm_frame\<close>)
  then show ?thesis by (simp add: publish_def)
qed

lemma propose_inv:
  assumes "pm_inv balance self w" "propose_resolution e w m win h = Inr (w', u)"
  shows "pm_inv balance self w'"
  using assms(2)
proof (rule proposeE)
  fix mi assume mi: "Market_key (storage w) m = Some mi" and st: "status mi = OPEN"
    and win: "win < num_options mi" "0 < read_pool (storage w) m win"
    and w': "w' = publish (Ev_proposal m win h) (w\<lparr>storage := write_market m
      (mi\<lparr>status := RESOLUTION_PENDING, winning_option := win, result_hash := h,
          proposed_at := ledger_timestamp e\<rparr>) (storage w)\<rparr>)"
  show ?thesis unfolding w'
    by (rule rewrite_market_inv [OF assms(1) mi])
      (use pm_inv_marketD(1) [OF assms(1) mi] st win in \<open>auto simp: market_ok_def liability_def\<close>)
qed

lemma finalize_inv:
  assumes "pm_inv balance self w" "finalize_resolution e w m = Inr (w', u)"
  shows "pm_inv balance self w'"
  using assms(2)
proof (rule finalizeE)
  fix mi assume mi: "Market_key (storage w) m = Some mi" and st: "status mi = RESOLUTION_PENDING"
    and w': "w' = publish (Ev_finalize m (winning_option mi) (result_hash mi))
       (w\<lparr>storage := write_market m (mi\<lparr>status := RESOLVED\<rparr>) (storage w)\<rparr>)"
  note ok = pm_inv_marketD(1) [OF assms(1) mi]
  from ok st have none: "\<And>u. \<not> read_claimed (storage w) m u" by (simp add: market_ok_def)
  then have "claimed_stake (storage w) m opt = 0" for opt
    unfolding claimed_stake_def by (intro msum_none) auto
  with ok st show ?thesis unfolding w'
    by (intro rewrite_market_inv [OF assms(1) mi])
      (auto simp: market_ok_def liability_def settling_ok_def)
qed

lemma cancel_inv:
  assumes "pm_inv balance self w" "cancel_market e w m = Inr (w', u)"
  shows "pm_inv balance self w'"
  using assms(2)
proof (rule cancelE)
  fix a mi assume mi: "Market_key (storage w) m = Some mi"
    and st: "status mi \<noteq> RESOLVED" "status mi \<noteq> CANCELLED"
    and w': "w' = publish (Ev_cancel m)
       (w\<lparr>storage := write_market m (mi\<lparr>status := CANCELLED\<rparr>) (storage w)\<rparr>)"
  note d = pm_inv_marketD [OF assms(1) mi]
  have "refundable (storage w) m \<le> market_stake (storage w) m"
    unfolding refundable_def market_stake_def using d(2,3) by (intro msum_mono) auto
  with d(1) st show ?thesis unfolding w'
    by (intro rewrite_market_inv [OF assms(1) mi]) (auto simp: market_ok_def liability_def)
qed

text \<open>Writing one position of an open market together with its pool and total.\<close>

lemma rewrite_position_inv:
  assumes inv: "pm_inv balance self w" and mi: "Market_key (storage w) m = Some mi"
    and st: "status mi = OPEN" and opt: "opt < num_options mi"
    and tok: "Token_key (storage w) = Some tok"
    and delta: "n = read_position (storage w) m u opt + d" "0 \<le> n" "total_pool mi + d \<le> i128_max"
    and bal: "d \<le> balance tok self t' - balance tok self (tokens w)"
  shows "pm_inv balance self (publish ev (w\<lparr>storage := write_market m (mi\<lparr>total_pool := total_pool mi + d\<rparr>)
       (write_position m u opt n
         (write_pool m opt (read_pool (storage w) m opt + d) (storage w))), tokens := t'\<rparr>))"
proof -
  note dd = pm_inv_marketD [OF inv mi]
  let ?s = "storage w"
  let ?s' = "write_market m (mi\<lparr>total_pool := total_pool mi + d\<rparr>)
       (write_position m u opt n (write_pool m opt (read_pool ?s m opt + d) ?s))"
  have pos: "read_position (write_pool m opt x ?s) m u opt = n - d" for x
    using delta(1) by (simp add: read_position_def pm_frame)
  have "market_ok ?s' m (mi\<lparr>total_pool := total_pool mi + d\<rparr>)"
    using dd(1) st opt delta(3) unfolding market_ok_def
    by (simp add: pm_frame sums_write_position dd(2) pos)
  moreover have "0 \<le> val0 (Position_key ?s') k" for k using dd(3) delta(2) by (simp add: pm_frame)
  moreover have "agree_on m' ?s ?s'" if "m' \<noteq> m" for m' using that by (simp add: pm_frame)
  ultimately have "pm_inv balance self (w\<lparr>storage := ?s', tokens := t', events := events w @ [ev]\<rparr>)"
    using dd tok mi st bal
    by (intro pm_inv_one_market [OF inv, where tok = tok and m = m
          and mi' = "mi\<lparr>total_pool := total_pool mi + d\<rparr>"])
      (simp_all add: pm_frame liability_def)
  then show ?thesis by (simp add: publish_def)
qed

lemma stake_inv:
  assumes tk: "sep41 transfer balance" and ext: "external_caller e" and self: "current_contract e = self"
    and inv: "pm_inv balance self w" and call: "stake transfer e w f m opt n = Inr (w', u)"
  shows "pm_inv balance self w'"
  using call
proof (rule stakeE)
  fix mi tok t' assume a: "f \<in> set (authorized e)" "0 < n" "Market_key (storage w) m = Some mi"
    "status mi = OPEN" "opt < num_options mi" "Token_key (storage w) = Some tok"
    "total_pool mi + n \<le> i128_max"
    and tr: "transfer tok f (current_contract e) n (tokens w) = Some t'"
    and w': "w' = publish (Ev_stake m f opt n) (w\<lparr>storage := write_market m
       (mi\<lparr>total_pool := total_pool mi + n\<rparr>)
       (write_position m f opt (read_position (storage w) m f opt + n)
         (write_pool m opt (read_pool (storage w) m opt + n) (storage w))), tokens := t'\<rparr>)"
  from a(1) ext self have "f \<noteq> self" by (auto simp: external_caller_def)
  then have "balance tok self t' = balance tok self (tokens w) + n"
    using sep41_balance [OF tk tr, of tok self] self by simp
  moreover have "0 \<le> read_position (storage w) m f opt"
    using pm_inv_marketD(3) [OF inv a(3)] by (simp add: read_position_def)
  ultimately show ?thesis unfolding w' using a
    by (intro rewrite_position_inv [OF inv]) auto
qed

lemma unstake_inv:
  assumes tk: "sep41 transfer balance" and self: "current_contract e = self"
    and inv: "pm_inv balance self w" and call: "unstake transfer e w f m opt = Inr (w', r)"
  shows "pm_inv balance self w'"
  using call
proof (rule unstakeE)
  fix mi tok t' assume a: "0 < r" "r = read_position (storage w) m f opt"
    "Market_key (storage w) m = Some mi" "status mi = OPEN" "opt < num_options mi"
    "Token_key (storage w) = Some tok"
    and tr: "transfer tok (current_contract e) f r (tokens w) = Some t'"
    and w': "w' = publish (Ev_unstake m f opt r) (w\<lparr>storage := write_market m
       (mi\<lparr>total_pool := total_pool mi - r\<rparr>)
       (write_position m f opt 0
         (write_pool m opt (read_pool (storage w) m opt - r) (storage w))), tokens := t'\<rparr>)"
  have "- r \<le> balance tok self t' - balance tok self (tokens w)"
    using sep41_balance [OF tk tr, of tok self] a(1) self by simp
  moreover have "total_pool mi - r \<le> i128_max"
    using pm_inv_marketD(1) [OF inv a(3)] a(1) by (simp add: market_ok_def)
  ultimately show ?thesis unfolding w'
    using rewrite_position_inv [OF inv a(3,4,5,6), where n = 0 and u = f and d = "- r"
        and t' = t' and ev = "Ev_unstake m f opt r"] a
    by simp
qed

text \<open>The arithmetic of one claim on a resolved market.\<close>

lemma claim_arith:
  assumes ok: "market_ok s m mi" and st: "status mi = RESOLVED"
    and fin: "finite (dom (Position_key s))" and nonneg: "\<And>k. 0 \<le> val0 (Position_key s) k"
    and new: "\<not> read_claimed s m f" and pos: "0 < winner_stake s m mi f"
  shows "winner_stake s m mi f \<le> gross_of s m mi f"
    "gross_of s m mi f \<le> total_pool mi - claimed_gross mi"
    "0 \<le> fee_of s m mi f" "fee_of s m mi f \<le> gross_of s m mi f - winner_stake s m mi f"
    "settling_ok (write_claimed m f s) m
       (mi\<lparr>claimed_winning_stake := claimed_winning_stake mi + winner_stake s m mi f,
           claimed_gross := claimed_gross mi + gross_of s m mi f\<rparr>)"
proof -
  let ?k = "winner_stake s m mi f" and ?win = "winning_option mi"
  let ?W = "read_pool s m ?win" and ?T = "total_pool mi"
  let ?c = "claimed_winning_stake mi" and ?g = "claimed_gross mi" and ?G = "gross_of s m mi f"
  from ok st have so: "settling_ok s m mi" and fee: "fee_bps mi \<le> 1000"
    and W: "0 < ?W" "?W = option_stake s m ?win" and T: "?T = market_stake s m"
    unfolding market_ok_def by blast+
  from so have g0: "0 \<le> ?g" and cg: "?g * ?W \<le> ?c * ?T" and c: "?c = claimed_stake s m ?win"
    unfolding settling_ok_def by blast+
  have WT: "?W \<le> ?T" using option_stake_le(1) [OF fin nonneg] by (simp add: W(2) T)
  have c': "claimed_stake (write_claimed m f s) m ?win = ?c + ?k"
    using claimed_stake_write_claimed [OF fin new] c by (simp add: winner_stake_def)
  have cW: "?c + ?k \<le> ?W"
    using option_stake_le(2) [of "write_claimed m f s" m ?win] fin nonneg c' by (simp add: pm_frame W(2))
  have share: "?G * ?W \<le> ?k * ?T \<and> ?k \<le> ?G" if "?c + ?k \<noteq> ?W"
  proof -
    from that pos W(1) WT have G: "?G = (?k * ?T) div ?W" by (simp add: gross_of_def)
    show ?thesis unfolding G
      using floor_share_le [OF W(1), of ?k ?T] floor_share_ge [OF W(1) WT] pos by simp
  qed
  have last: "?k \<le> ?T - ?g" 
  proof -
    have "?g * ?W \<le> (?W - ?k) * ?T"
      using cg cW WT W(1) by (smt (verit) mult_right_mono)
    then have "?k * ?T \<le> (?T - ?g) * ?W" by (simp add: algebra_simps)
    moreover have "?k * ?W \<le> ?k * ?T" using WT pos by (simp add: mult_left_mono)
    ultimately have "?k * ?W \<le> (?T - ?g) * ?W" by linarith
    with W(1) show ?thesis by simp
  qed
  show stake_le: "?k \<le> ?G"
    using share last by (cases "?c + ?k = ?W") (simp_all add: gross_of_def)
  show inv: "settling_ok (write_claimed m f s) m
       (mi\<lparr>claimed_winning_stake := ?c + ?k, claimed_gross := ?g + ?G\<rparr>)"
  proof (cases "?c + ?k = ?W")
    case True
    then have "?G = ?T - ?g" by (simp add: gross_of_def)
    with True W(1) WT c' show ?thesis by (simp add: settling_ok_def pm_frame)
  next
    case False
    with share cg have "(?g + ?G) * ?W \<le> (?c + ?k) * ?T" by (simp add: distrib_right)
    with False g0 stake_le pos c' show ?thesis by (simp add: settling_ok_def pm_frame)
  qed
  show "?G \<le> ?T - ?g"
  proof -
    from inv c' have "(?g + ?G) * ?W \<le> (?c + ?k) * ?T" by (simp add: settling_ok_def pm_frame)
    also have "\<dots> \<le> ?T * ?W" using cW WT W(1) by (simp add: mult.commute mult_left_mono)
    finally show ?thesis using W(1) by simp
  qed
  have prod: "0 \<le> (?G - ?k) * int (fee_bps mi)" using stake_le by simp
  then have f: "fee_of s m mi f = ((?G - ?k) * int (fee_bps mi)) div 10000"
    by (simp add: fee_of_def)
  show "0 \<le> fee_of s m mi f" using prod f by simp
  have "(?G - ?k) * int (fee_bps mi) \<le> (?G - ?k) * 10000"
    using fee stake_le by (intro mult_left_mono) auto
  then have "((?G - ?k) * int (fee_bps mi)) div 10000 \<le> ((?G - ?k) * 10000) div 10000"
    by (rule zdiv_mono1) simp
  then show "fee_of s m mi f \<le> ?G - ?k" using f by simp
qed

lemma claim_inv:
  assumes tk: "sep41 transfer balance" and ext: "external_caller e" and self: "current_contract e = self"
    and inv: "pm_inv balance self w" and call: "claim transfer e w f m = Inr (w', r)"
  shows "pm_inv balance self w'"
  using call
proof (rule claimE)
  fix mi tok t1 t2
  let ?s = "storage w"
  let ?G = "gross_of ?s m mi f" and ?F = "fee_of ?s m mi f" and ?k = "winner_stake ?s m mi f"
  let ?mi' = "mi\<lparr>claimed_winning_stake := claimed_winning_stake mi + ?k,
                  claimed_gross := claimed_gross mi + ?G\<rparr>"
  let ?s' = "write_market m ?mi' (write_claimed m f ?s)"
  assume mi: "Market_key ?s m = Some mi" and st: "status mi = RESOLVED"
    and new: "\<not> read_claimed ?s m f" and pos: "0 < ?k" and r: "r = ?G - ?F"
    and tok: "Token_key ?s = Some tok"
    and t1: "(if 0 < ?F then transfer tok (current_contract e) (treasury mi) ?F (tokens w)
              else Some (tokens w)) = Some t1"
    and t2: "transfer tok (current_contract e) f r t1 = Some t2"
    and w': "w' = publish (Ev_claim m f ?G ?F r) (w\<lparr>storage := ?s', tokens := t2\<rparr>)"
  note d = pm_inv_marketD [OF inv mi]
  note ar = claim_arith [OF d(1) st d(2,3) new pos]
  have b1: "balance tok self (tokens w) - ?F \<le> balance tok self t1"
    using t1 ar(3) self
    by (auto simp: sep41_balance [OF tk, of tok _ _ _ "tokens w" t1] split: if_splits)
  have b2: "balance tok self t1 - r \<le> balance tok self t2"
    using sep41_balance [OF tk t2, of tok self] sep41_amount [OF tk t2] self by auto
  have ok': "market_ok ?s' m ?mi'"
    using d(1) st ar(5) unfolding market_ok_def
    by (auto simp: pm_frame settling_ok_def)
  have "pm_inv balance self (w\<lparr>storage := ?s', tokens := t2, events := events w @ [Ev_claim m f ?G ?F r]\<rparr>)"
    using d tok mi st ok' b1 b2 r
    by (intro pm_inv_one_market [OF inv, where tok = tok and m = m and mi' = ?mi'])
      (simp_all add: pm_frame liability_def)
  then show ?thesis by (simp add: w' publish_def)
qed

lemma refund_inv:
  assumes tk: "sep41 transfer balance" and self: "current_contract e = self"
    and inv: "pm_inv balance self w" and call: "refund transfer e w f m = Inr (w', r)"
  shows "pm_inv balance self w'"
  using call
proof (rule refundE)
  fix mi tok t'
  let ?s = "storage w" and ?s' = "write_claimed m f (storage w)"
  assume mi: "Market_key ?s m = Some mi" and st: "status mi = CANCELLED"
    and new: "\<not> read_claimed ?s m f"
    and r: "r = (\<Sum>opt < num_options mi. read_position ?s m f opt)" and tok: "Token_key ?s = Some tok"
    and tr: "transfer tok (current_contract e) f r (tokens w) = Some t'"
    and w': "w' = publish (Ev_refund m f r) (w\<lparr>storage := ?s', tokens := t'\<rparr>)"
  note d = pm_inv_marketD [OF inv mi]
  have mk: "Market_key ?s' = (Market_key ?s)(m \<mapsto> mi)" using mi by (auto simp: pm_frame)
  have lia: "refundable ?s' m = refundable ?s m - r"
    unfolding r using d(1) by (intro refundable_write_claimed [OF d(2) new]) (auto simp: market_ok_def)
  have bal: "- r \<le> balance tok self t' - balance tok self (tokens w)"
    using sep41_balance [OF tk tr, of tok self] sep41_amount [OF tk tr] self by auto
  have "market_ok ?s' m mi" using d(1) st by (auto simp: market_ok_def pm_frame)
  then have "pm_inv balance self (w\<lparr>storage := ?s', tokens := t', events := events w @ [Ev_refund m f r]\<rparr>)"
    using d tok mi st bal lia mk
    by (intro pm_inv_one_market [OF inv, where tok = tok and m = m and mi' = mi])
      (simp_all add: pm_frame liability_def)
  then show ?thesis by (simp add: w' publish_def)
qed

text \<open>The remaining calls leave every market as it is.\<close>

lemma same_markets_inv:
  assumes inv: "pm_inv balance self w"
    and mk: "Market_key s' = Market_key (storage w)" "MarketCount_key s' = MarketCount_key (storage w)"
      "Token_key s' = Token_key (storage w)"
      "Admin_key s' = None \<longleftrightarrow> Admin_key (storage w) = None"
      "Pool_key s' = Pool_key (storage w)" "Position_key s' = Position_key (storage w)"
      "Claimed_key s' = Claimed_key (storage w)"
    and bal: "\<And>tok. balance tok self (tokens w) \<le> balance tok self t'"
  shows "pm_inv balance self (w\<lparr>storage := s', tokens := t'\<rparr>)"
proof -
  have same: "agree_on m (storage w) s'" for m
    using mk by (simp add: agree_on_def read_pool_def read_claimed_def)
  then have "storage_ok s'"
    using inv mk agree_on_market_ok(1) [OF same]
    by (auto simp: pm_inv_def storage_ok_def agree_on_def)
  moreover have "total_liability s' = total_liability (storage w)"
    by (simp add: total_liability_def mk agree_on_market_ok(2) [OF same])
  ultimately show ?thesis
    using inv mk bal by (auto simp: pm_inv_def solvent_def intro: order_trans split: option.splits)
qed

lemma set_paused_flag_inv: "pm_inv balance self w \<Longrightarrow> pm_inv balance self (set_paused_flag b w)"
  using same_markets_inv [of balance self w "(storage w)\<lparr>Paused_key := Some b\<rparr>" "tokens w"]
  by (simp add: set_paused_flag_def)

lemma transfer_admin_inv:
  assumes "pm_inv balance self w" "transfer_admin e w a = Inr (w', u)"
  shows "pm_inv balance self w'"
  using assms same_markets_inv [of balance self w "(storage w)\<lparr>Admin_key := Some a\<rparr>" "tokens w"]
  by (auto simp: transfer_admin_def result_simps)

lemma foreign_inv:
  assumes "sep41 transfer balance" "pm_inv balance self w" "transfer tok a b n (tokens w) = Some t'"
    and "a \<noteq> self"
  shows "pm_inv balance self (w\<lparr>tokens := t'\<rparr>)"
  using assms same_markets_inv [of balance self w "storage w" t']
    sep41_keeps [OF assms(1,3)] by simp

section \<open>The contract as an instance of the locales\<close>

definition pm_legal :: "address \<Rightarrow> invocation \<times> pm_call \<Rightarrow> bool" where
  "pm_legal self x \<longleftrightarrow> current_contract (fst x) = self \<and> external_caller (fst x)"

lemma pm_step_inv:
  assumes tk: "sep41 transfer balance" and inv: "pm_inv balance self w" and legal: "pm_legal self x"
    and call: "pm_step transfer w x = Inr w'"
  shows "pm_inv balance self w'"
proof -
  obtain e c where x: "x = (e, c)" by (cases x)
  from legal x have self: "current_contract e = self" and ext: "external_caller e"
    by (simp_all add: pm_legal_def)
  note call' = call [unfolded x pm_step_def fst_conv snd_conv]
  show ?thesis
  proof (cases c)
    case (Foreign tok a b n)
    with call' have "a \<in> set (authorized e)"
      and tr: "\<exists>t'. transfer tok a b n (tokens w) = Some t' \<and> w' = w\<lparr>tokens := t'\<rparr>"
      by (auto simp: result_simps)
    with ext self have "a \<noteq> self" by (auto simp: external_caller_def)
    with tr foreign_inv [OF tk inv] show ?thesis by auto
  next
    case Pause
    with call' show ?thesis
      by (auto simp: map_sum_fst_Inr pause_staking_def result_simps set_paused_flag_inv [OF inv])
  next
    case Unpause
    with call' show ?thesis
      by (auto simp: map_sum_fst_Inr unpause_staking_def result_simps set_paused_flag_inv [OF inv])
  qed (use call' in \<open>simp_all add: map_sum_fst_Inr\<close>,
      blast intro: initialize_inv [OF inv], blast intro: create_market_inv [OF inv],
      blast intro: stake_inv [OF tk ext self inv], blast intro: unstake_inv [OF tk self inv],
      blast intro: propose_inv [OF inv], blast intro: finalize_inv [OF inv],
      blast intro: cancel_inv [OF inv], blast intro: claim_inv [OF tk ext self inv],
      blast intro: refund_inv [OF tk self inv], blast intro: transfer_admin_inv [OF inv])
qed

lemma pm_inv_deployed:
  "(\<And>tok. 0 \<le> balance tok self t) \<Longrightarrow> pm_inv balance self (deployed t)"
  by (simp add: pm_inv_def storage_ok_def solvent_def deployed_def empty_storage_def
      read_pool_def read_claimed_def)

end
