(* ===== verification/Prediction_Market_Props.thy ===== *)
theory Prediction_Market_Props
  imports Prediction_Market_Steps
begin

text \<open>
  What the prediction-market contract promises, over any sequence of calls from deployment:
  solvency, immutable terms, a claim that pays and conserves, one-time refunds.
\<close>

section \<open>Evolution of a market\<close>

text \<open>The terms fixed when a market is created.\<close>

definition same_terms :: "MarketInfo \<Rightarrow> MarketInfo \<Rightarrow> bool" where
  "same_terms mi mi' \<longleftrightarrow>
     question mi' = question mi \<and> category mi' = category mi \<and> num_options mi' = num_options mi \<and>
     close_time mi' = close_time mi \<and> resolution_delay mi' = resolution_delay mi \<and>
     fee_bps mi' = fee_bps mi \<and> resolver mi' = resolver mi \<and> treasury mi' = treasury mi"

text \<open>The legal moves of the lifecycle, transitively closed, with the outcome frozen once proposed.\<close>

definition status_le :: "MarketInfo \<Rightarrow> MarketInfo \<Rightarrow> bool" where
  "status_le mi mi' \<longleftrightarrow>
     (status mi = RESOLVED \<longrightarrow> status mi' = RESOLVED) \<and>
     (status mi = CANCELLED \<longrightarrow> status mi' = CANCELLED) \<and>
     (status mi \<noteq> OPEN \<longrightarrow> status mi' \<noteq> OPEN \<and>
        winning_option mi' = winning_option mi \<and> result_hash mi' = result_hash mi \<and>
        proposed_at mi' = proposed_at mi \<and> total_pool mi' = total_pool mi)"

definition pm_evolves :: "'t pm_world \<Rightarrow> 't pm_world \<Rightarrow> bool" where
  "pm_evolves w w' \<longleftrightarrow>
     (\<forall>tok. Token_key (storage w) = Some tok \<longrightarrow> Token_key (storage w') = Some tok) \<and>
     (Admin_key (storage w) \<noteq> None \<longrightarrow> Admin_key (storage w') \<noteq> None) \<and>
     (\<forall>m mi. Market_key (storage w) m = Some mi \<longrightarrow>
        (\<exists>mi'. Market_key (storage w') m = Some mi' \<and> same_terms mi mi' \<and> status_le mi mi')) \<and>
     (\<forall>m u. has_claimed w m u \<longrightarrow> has_claimed w' m u)"

lemma same_terms_refl [simp]: "same_terms mi mi"
  by (simp add: same_terms_def)

lemma status_le_refl [simp]: "status_le mi mi"
  by (simp add: status_le_def)

lemma market_le_trans:
  "same_terms a b \<Longrightarrow> same_terms b c \<Longrightarrow> same_terms a c"
  "status_le a b \<Longrightarrow> status_le b c \<Longrightarrow> status_le a c"
  subgoal by (simp add: same_terms_def)
  subgoal by (auto simp: status_le_def)
  done

lemma pm_evolves_refl: "pm_evolves w w"
  by (auto simp: pm_evolves_def)

lemma pm_evolves_trans:
  assumes "pm_evolves u v" "pm_evolves v w"
  shows "pm_evolves u w"
  unfolding pm_evolves_def
proof (intro conjI allI impI)
  fix m mi
  assume "Market_key (storage u) m = Some mi"
  with assms(1) obtain mi1 where m1: "Market_key (storage v) m = Some mi1" "same_terms mi mi1" "status_le mi mi1"
    unfolding pm_evolves_def by blast
  with assms(2) obtain mi2 where m2: "Market_key (storage w) m = Some mi2"
    "same_terms mi1 mi2" "status_le mi1 mi2"
    unfolding pm_evolves_def by blast
  from m1 m2 market_le_trans
  show "\<exists>mi'. Market_key (storage w) m = Some mi' \<and> same_terms mi mi' \<and> status_le mi mi'" by blast
next
  show "Admin_key (storage w) \<noteq> None" if "Admin_key (storage u) \<noteq> None"
    using that assms unfolding pm_evolves_def by blast
qed (use assms in \<open>simp_all add: pm_evolves_def\<close>)

text \<open>A call that rewrites one market record along the lifecycle and keeps every claim flag.\<close>

lemma pm_evolves_market:
  assumes "Market_key (storage w') = (Market_key (storage w))(m \<mapsto> mi')"
    and "\<And>mi. Market_key (storage w) m = Some mi \<Longrightarrow> same_terms mi mi' \<and> status_le mi mi'"
    and "Token_key (storage w') = Token_key (storage w)"
    and "Admin_key (storage w') = Admin_key (storage w)"
    and "\<And>u. has_claimed w m u \<Longrightarrow> has_claimed w' m u"
    and "\<And>m' u. m' \<noteq> m \<Longrightarrow> has_claimed w m' u \<Longrightarrow> has_claimed w' m' u"
  shows "pm_evolves w w'"
  using assms unfolding pm_evolves_def by (auto split: if_splits) metis

lemma pm_evolves_same:
  assumes "Market_key (storage w') = Market_key (storage w)"
    and "Claimed_key (storage w') = Claimed_key (storage w)"
    and "Token_key (storage w) = None \<or> Token_key (storage w') = Token_key (storage w)"
    and "Admin_key (storage w) = None \<or> Admin_key (storage w') \<noteq> None"
  shows "pm_evolves w w'"
  using assms unfolding pm_evolves_def has_claimed_def read_claimed_def by auto

named_theorems pm_entry_evolves \<open>every entry point moves along the evolution order\<close>

lemma initialize_evolves [pm_entry_evolves]:
  assumes "pm_inv balance self w" "initialize w a tok = Inr (w', u)" shows "pm_evolves w w'"
proof -
  from assms(2) have "Admin_key (storage w) = None" by (auto elim: initializeE)
  with assms(1) have "Token_key (storage w) = None"
    by (auto simp: pm_inv_def solvent_def split: option.splits)
  with assms(2) show ?thesis
    by (auto elim!: initializeE intro!: pm_evolves_same simp: publish_def)
qed

lemma create_market_evolves [pm_entry_evolves]:
  assumes inv: "pm_inv balance self w" and call: "create_market e w q c n ct d f r t = Inr (w', i)"
  shows "pm_evolves w w'"
proof -
  from call obtain mi where i: "i = market_count w + 1"
    and w': "w' = publish (Ev_create i n)
       (w\<lparr>storage := (write_market i mi (storage w))\<lparr>MarketCount_key := Some i\<rparr>\<rparr>)"
    by (rule create_marketE) blast
  from inv i have "Market_key (storage w) i = None"
    by (force simp: pm_inv_def storage_ok_def market_count_def)
  then show ?thesis unfolding w'
    by (intro pm_evolves_market [where m = i and mi' = mi])
      (auto simp: publish_def write_market_def has_claimed_def read_claimed_def)
qed

lemma stake_evolves [pm_entry_evolves]:
  "stake transfer e w f m opt n = Inr (w', u) \<Longrightarrow> pm_evolves w w'"
  by (erule stakeE)
    (auto intro!: pm_evolves_market simp: publish_def pm_frame has_claimed_def same_terms_def status_le_def)

lemma unstake_evolves [pm_entry_evolves]:
  "unstake transfer e w f m opt = Inr (w', r) \<Longrightarrow> pm_evolves w w'"
  by (erule unstakeE)
    (auto intro!: pm_evolves_market simp: publish_def pm_frame has_claimed_def same_terms_def status_le_def)

lemma propose_evolves [pm_entry_evolves]:
  "propose_resolution e w m win h = Inr (w', u) \<Longrightarrow> pm_evolves w w'"
  by (erule proposeE)
    (auto intro!: pm_evolves_market simp: publish_def pm_frame has_claimed_def same_terms_def status_le_def)

lemma finalize_evolves [pm_entry_evolves]:
  "finalize_resolution e w m = Inr (w', u) \<Longrightarrow> pm_evolves w w'"
  by (erule finalizeE)
    (auto intro!: pm_evolves_market simp: publish_def pm_frame has_claimed_def same_terms_def status_le_def)

lemma cancel_evolves [pm_entry_evolves]:
  "cancel_market e w m = Inr (w', u) \<Longrightarrow> pm_evolves w w'"
  by (erule cancelE)
    (auto intro!: pm_evolves_market simp: publish_def pm_frame has_claimed_def same_terms_def status_le_def)

lemma claim_evolves [pm_entry_evolves]:
  "claim transfer e w f m = Inr (w', r) \<Longrightarrow> pm_evolves w w'"
  by (erule claimE)
    (auto intro!: pm_evolves_market simp: publish_def pm_frame has_claimed_def same_terms_def status_le_def)

lemma refund_evolves [pm_entry_evolves]:
  "refund transfer e w f m = Inr (w', r) \<Longrightarrow> pm_evolves w w'"
  by (erule refundE) (auto simp: pm_evolves_def publish_def pm_frame has_claimed_def)

lemma flags_evolve [pm_entry_evolves]:
  "pause_staking e w = Inr (w', u) \<Longrightarrow> pm_evolves w w'"
  "unpause_staking e w = Inr (w', u) \<Longrightarrow> pm_evolves w w'"
  "transfer_admin e w a = Inr (w', u) \<Longrightarrow> pm_evolves w w'"
  by (auto simp: pause_staking_def unpause_staking_def transfer_admin_def set_paused_flag_def
      result_simps intro!: pm_evolves_same)

lemma pm_step_evolves:
  assumes "pm_inv balance self w" "pm_step transfer w x = Inr w'"
  shows "pm_evolves w w'"
proof (cases "snd x")
  case (Foreign tok a b n)
  with assms(2) show ?thesis
    by (auto simp: pm_step_def result_simps intro!: pm_evolves_same)
qed (use assms(2) in \<open>simp_all add: pm_step_def map_sum_fst_Inr\<close>,
    (blast intro: pm_entry_evolves assms(1))+)

interpretation pm: evolving "pm_step transfer" "pm_legal self"
  "\<lambda>w. sep41 transfer balance \<and> pm_inv balance self w" pm_evolves
  for transfer balance self
  by unfold_locales (auto intro: pm_step_inv pm_evolves_refl pm_evolves_trans pm_step_evolves)

section \<open>Reachable states\<close>

definition pm_run :: "'t transfer_fn \<Rightarrow> 't \<Rightarrow> (invocation \<times> pm_call) list \<Rightarrow> 't pm_world" where
  "pm_run transfer t calls = run (pm_step transfer) (deployed t) calls"

lemma pm_run_inv:
  assumes "sep41 transfer balance" "\<And>tok. 0 \<le> balance tok self t" "list_all (pm_legal self) calls"
  shows "pm_inv balance self (pm_run transfer t calls)"
  using pm.run_inv [of transfer balance self "deployed t" calls] assms
  by (simp add: pm_run_def pm_inv_deployed)

text \<open>A resolution is proposed no earlier than the close time, and stays so.\<close>

definition timely :: "'t pm_world \<Rightarrow> bool" where
  "timely w \<longleftrightarrow> (\<forall>m mi. Market_key (storage w) m = Some mi \<longrightarrow>
     status mi = RESOLUTION_PENDING \<or> status mi = RESOLVED \<longrightarrow> close_time mi \<le> proposed_at mi)"

lemma timely_market:
  assumes "timely w" "Market_key (storage w') = (Market_key (storage w))(m \<mapsto> mi')"
    and "status mi' = RESOLUTION_PENDING \<or> status mi' = RESOLVED \<Longrightarrow> close_time mi' \<le> proposed_at mi'"
  shows "timely w'"
  using assms unfolding timely_def by (metis fun_upd_apply option.inject)

lemma timely_same: "timely w \<Longrightarrow> Market_key (storage w') = Market_key (storage w) \<Longrightarrow> timely w'"
  by (simp add: timely_def)

lemma pm_step_timely:
  assumes tm: "timely w" and call: "pm_step transfer w x = Inr w'"
  shows "timely w'"
proof (cases "snd x")
  case (Initialize a t)
  with call show ?thesis
    by (auto simp: pm_step_def map_sum_fst_Inr publish_def elim!: initializeE intro!: timely_same [OF tm])
next
  case (CreateMarket q c n ct d f r t)
  with call show ?thesis
    by (auto simp: pm_step_def map_sum_fst_Inr publish_def pm_frame elim!: create_marketE
        intro!: timely_market [OF tm])
next
  case (Stake f m opt n)
  with call show ?thesis
    by (auto simp: pm_step_def map_sum_fst_Inr publish_def pm_frame elim!: stakeE
        intro!: timely_market [OF tm])
next
  case (Unstake f m opt)
  with call show ?thesis
    by (auto simp: pm_step_def map_sum_fst_Inr publish_def pm_frame elim!: unstakeE
        intro!: timely_market [OF tm])
next
  case (Propose m win h)
  with call show ?thesis
    by (auto simp: pm_step_def map_sum_fst_Inr publish_def pm_frame elim!: proposeE
        intro!: timely_market [OF tm])
next
  case (Finalize m)
  with call tm show ?thesis
    by (auto simp: pm_step_def map_sum_fst_Inr publish_def pm_frame elim!: finalizeE
        intro!: timely_market [OF tm]) (simp add: timely_def)
next
  case (Cancel m)
  with call show ?thesis
    by (auto simp: pm_step_def map_sum_fst_Inr publish_def pm_frame elim!: cancelE
        intro!: timely_market [OF tm])
next
  case (Claim f m)
  with call have "\<exists>r. claim transfer (fst x) w f m = Inr (w', r)"
    by (auto simp: pm_step_def map_sum_fst_Inr)
  then obtain r where "claim transfer (fst x) w f m = Inr (w', r)" ..
  then show ?thesis
  proof (rule claimE)
    fix mi tok t1 t2
    let ?mi' = "mi\<lparr>claimed_winning_stake := claimed_winning_stake mi + winner_stake (storage w) m mi f,
            claimed_gross := claimed_gross mi + gross_of (storage w) m mi f\<rparr>"
    assume "Market_key (storage w) m = Some mi" "status mi = RESOLVED"
      and w': "w' = publish (Ev_claim m f (gross_of (storage w) m mi f) (fee_of (storage w) m mi f) r)
        (w\<lparr>storage := write_market m ?mi' (write_claimed m f (storage w)), tokens := t2\<rparr>)"
    with tm have "close_time mi \<le> proposed_at mi" by (simp add: timely_def)
    then show ?thesis
      by (intro timely_market [OF tm, of w' m ?mi']) (simp_all add: w' publish_def pm_frame)
  qed
next
  case (Refund f m)
  with call show ?thesis
    by (auto simp: pm_step_def map_sum_fst_Inr publish_def pm_frame elim!: refundE
        intro!: timely_same [OF tm])
qed (use call in \<open>auto simp: pm_step_def result_simps pause_staking_def unpause_staking_def
      set_paused_flag_def transfer_admin_def intro!: timely_same [OF tm]\<close>)

interpretation pm_time: transactional "pm_step transfer" "\<lambda>_. True" timely for transfer
  by unfold_locales (rule pm_step_timely)

lemma pm_run_timely: "timely (pm_run transfer t calls)"
  unfolding pm_run_def
  by (rule pm_time.run_inv) (simp_all add: timely_def deployed_def empty_storage_def list_all_iff)

section \<open>What a market owes is non-negative, and covered\<close>






section \<open>Properties\<close>

text \<open>C1: Solvency. After any sequence of calls from deployment (failing calls rolled back, other
  accounts moving tokens as they like), the contract's token balance covers the sum over all markets
  of what the market still owes: its pool while undecided, the unclaimed part once resolved, the
  unrefunded stakes once cancelled.\<close>
theorem market_solvent:
  assumes "sep41 transfer balance" "\<And>tok. 0 \<le> balance tok self t"
    and "list_all (pm_legal self) calls"
    and "Token_key (storage (pm_run transfer t calls)) = Some tok"
  shows "total_liability (storage (pm_run transfer t calls))
    \<le> balance tok self (tokens (pm_run transfer t calls))"
  using pm_run_inv [OF assms(1,2,3)] assms(4) by (simp add: pm_inv_def solvent_def)



text \<open>The pool is paid out exactly. Once every holder of the winning option has claimed, the gross
  amounts claimed add up to the whole pool: rounding leaves nothing behind.\<close>
theorem winners_exhaust_pool:
  assumes "sep41 transfer balance" "\<And>tok. 0 \<le> balance tok self t"
    and "list_all (pm_legal self) calls" "w = pm_run transfer t calls"
    and "market w m = Inr mi" "status mi = RESOLVED"
    and "\<And>u. 0 < position_of w m u (winning_option mi) \<Longrightarrow> has_claimed w m u"
  shows "claimed_gross mi = total_pool mi \<and> liability (storage w) m mi = 0"
proof -
  let ?s = "storage w" and ?win = "winning_option mi"
  have inv: "pm_inv balance self w" using pm_run_inv [OF assms(1,2,3)] assms(4) by simp
  from assms(5) have mi: "Market_key ?s m = Some mi"
    by (simp add: market_def read_market_def ok_or_Inr)
  note d = pm_inv_marketD [OF inv mi]
  let ?P = "\<lambda>(m', u, opt'). m' = m \<and> opt' = ?win" and ?Q = "\<lambda>(m', u, opt'). read_claimed ?s m u"
  have "val0 (Position_key ?s) k = 0" if "?P k \<and> \<not> ?Q k" for k
    using that assms(7) d(3) [of k]
    by (cases k) (force simp: position_of_def read_position_def has_claimed_def not_less)
  then have "msum (Position_key ?s) (\<lambda>k. ?P k \<and> \<not> ?Q k) = 0"
    unfolding msum_def by (intro sum.neutral) blast
  moreover have "msum (Position_key ?s) (\<lambda>k. ?P k \<and> ?Q k) = claimed_stake ?s m ?win"
    unfolding claimed_stake_def by (rule msum_cong) auto
  ultimately have "option_stake ?s m ?win = claimed_stake ?s m ?win"
    using msum_split [OF d(2), of ?P ?Q] by (simp add: option_stake_def)
  moreover from d(1) assms(6) have "settling_ok ?s m mi" "read_pool ?s m ?win = option_stake ?s m ?win"
    unfolding market_ok_def by blast+
  ultimately have "claimed_gross mi = total_pool mi" by (simp add: settling_ok_def)
  with assms(6) show ?thesis by (simp add: liability_def)
qed


text \<open>C11: Nobody is paid twice. After a claim or a refund of a user on a market, no later sequence of
  calls makes another claim or refund of that user on that market succeed.\<close>
theorem no_second_payout:
  assumes "sep41 transfer balance" "\<And>tok. 0 \<le> balance tok self t"
    and "list_all (pm_legal self) calls" "w = pm_run transfer t calls" "pm_legal self (e, c)"
    and "c = Claim f m \<or> c = Refund f m" "pm_step transfer w (e, c) = Inr w'"
    and "list_all (pm_legal self) later" "w'' = run (pm_step transfer) w' later"
  shows "\<forall>e' w3 r. claim transfer e' w'' f m \<noteq> Inr (w3, r) \<and> refund transfer e' w'' f m \<noteq> Inr (w3, r)"
proof -
  have inv: "pm_inv balance self w" using pm_run_inv [OF assms(1,2,3)] assms(4) by simp
  have inv': "pm_inv balance self w'" by (rule pm_step_inv [OF assms(1) inv assms(5,7)])
  have "has_claimed w' m f"
    using assms(6,7) by (auto simp: pm_step_def map_sum_fst_Inr has_claimed_def publish_def pm_frame
        elim!: claimE refundE)
  moreover have "pm_evolves w' w''"
    using pm.run_evolves [of transfer balance self w' later] assms(1,8,9) inv' by simp
  ultimately have "read_claimed (storage w'') m f"
    by (simp add: pm_evolves_def has_claimed_def)
  then show ?thesis by (auto elim!: claimE refundE)
qed

text \<open>The terms of a market never change, and a decided market stays decided. From any reachable
  state on, question, options, close time, review delay, fee, resolver and treasury of an existing
  market are kept; a resolved or cancelled market keeps its status; once a resolution is proposed the
  winning option, the result hash and the pool are final.\<close>
theorem market_terms_immutable:
  assumes "sep41 transfer balance" "\<And>tok. 0 \<le> balance tok self t"
    and "list_all (pm_legal self) calls" "w = pm_run transfer t calls"
    and "list_all (pm_legal self) later" "w' = run (pm_step transfer) w later"
    and "market w m = Inr mi"
  shows "\<exists>mi'. market w' m = Inr mi' \<and> same_terms mi mi' \<and> status_le mi mi'"
proof -
  have inv: "pm_inv balance self w" using pm_run_inv [OF assms(1,2,3)] assms(4) by simp
  have "pm_evolves w w'" using pm.run_evolves [of transfer balance self w later] assms(1,5,6) inv by simp
  with assms(7) show ?thesis
    unfolding pm_evolves_def market_def read_market_def by (simp add: ok_or_Inr)
qed

text \<open>The review delay is enforced. When a resolution is finalized on a reachable state, betting had
  closed before it was proposed and the whole review delay has passed since.\<close>
theorem finalize_waits_for_review:
  assumes "w = pm_run transfer t calls" "finalize_resolution e w m = Inr (w', u)"
    and "market w m = Inr mi"
  shows "close_time mi \<le> proposed_at mi \<and> proposed_at mi + resolution_delay mi \<le> ledger_timestamp e \<and>
    resolver mi \<in> set (authorized e) \<and> market w' m = Inr (mi\<lparr>status := RESOLVED\<rparr>)"
proof -
  from assms(3) have mi: "Market_key (storage w) m = Some mi"
    by (simp add: market_def read_market_def ok_or_Inr)
  have "timely w" using pm_run_timely assms(1) by simp
  with assms(2) mi show ?thesis
    by (auto elim!: finalizeE simp: timely_def market_def read_market_def publish_def pm_frame)
qed

end
