(* ===== verification/Prediction_Market_Witness.thy ===== *)
theory Prediction_Market_Witness
  imports Prediction_Market_Props
begin

text \<open>
  A concrete life of the prediction-market contract on the plain ledger of \<open>Soroban\<close>, and the
  properties of \<open>Prediction_Market_Props\<close> applied to it.
\<close>

definition at :: "nat \<Rightarrow> address list \<Rightarrow> invocation" where
  "at t who = \<lparr>authorized = who, ledger_timestamp = t, current_contract = 100\<rparr>"

definition demo_ledger :: ledger where
  "demo_ledger = (\<lambda>k. if k \<in> {(50, 10), (50, 11), (50, 12)} then 1000 else 0)"

definition demo_open :: "(invocation \<times> pm_call) list" where
  "demo_open =
    [(at 1000 [1], Initialize 1 50),
     (at 1000 [1], CreateMarket ''who'' ''final'' 2 2000 60 200 2 3),
     (at 1000 [10], Stake 10 1 0 100),
     (at 1000 [11], Stake 11 1 0 200),
     (at 1000 [12], Stake 12 1 1 100)]"

definition demo_pending :: "(invocation \<times> pm_call) list" where
  "demo_pending = demo_open @ [(at 2000 [2], Propose 1 0 [])]"

definition demo_resolved :: "(invocation \<times> pm_call) list" where
  "demo_resolved = demo_pending @ [(at 2060 [2], Finalize 1), (at 2061 [10], Claim 10 1)]"

definition demo_settled :: "(invocation \<times> pm_call) list" where
  "demo_settled = demo_resolved @ [(at 2062 [11], Claim 11 1)]"

definition demo_cancelled :: "(invocation \<times> pm_call) list" where
  "demo_cancelled = demo_open @ [(at 1500 [1], Cancel 1)]"

lemmas demo_defs = demo_settled_def demo_resolved_def demo_pending_def demo_cancelled_def demo_open_def

lemmas pm_eval = pm_run_def commit_def pm_step_def deployed_def empty_storage_def at_def
  initialize_def create_market_def stake_def unstake_def propose_resolution_def
  finalize_resolution_def cancel_market_def claim_def claim_gross_def claim_split_def refund_def
  pause_staking_def unpause_staking_def transfer_admin_def pm_reads pm_writes
  require_auth_def token_transfer_def is_paused_def read_pool_def read_position_def read_claimed_def
  val0_def checked_add_def checked_sub_def checked_mul_def checked_i128_def checked_u32_def
  checked_u64_def i128_min_def i128_max_def u32_max_def u64_max_def ledger_transfer_def demo_ledger_def
  position_of_def pool_of_def has_claimed_def market_def

abbreviation demo :: "(invocation \<times> pm_call) list \<Rightarrow> ledger pm_world" where
  "demo calls \<equiv> pm_run ledger_transfer demo_ledger calls"

lemma demo_ledger_nonneg: "0 \<le> ledger_balance tok 100 demo_ledger"
  by (simp add: ledger_balance_def demo_ledger_def)

lemma demo_legal:
  "list_all (pm_legal 100) demo_resolved" "list_all (pm_legal 100) demo_settled"
  "list_all (pm_legal 100) demo_cancelled"
  by (simp_all add: demo_defs pm_legal_def external_caller_def at_def)

theorem market_solvent_witness:
  "total_liability (storage (demo demo_resolved))
    \<le> ledger_balance 50 100 (tokens (demo demo_resolved))"
  by (rule market_solvent [where transfer = ledger_transfer and balance = ledger_balance,
        OF sep41_ledger demo_ledger_nonneg demo_legal(1)])
    (simp add: demo_defs pm_eval)

lemma demo_claim: "\<exists>w'. claim ledger_transfer (at 2062 [11]) (demo demo_resolved) 11 1 = Inr (w', 266)"
  by (simp add: demo_defs pm_eval)

lemma demo_market: "\<exists>mi. Market_key (storage (demo demo_resolved)) 1 = Some mi \<and> status mi = RESOLVED
   \<and> winning_option mi = 0 \<and> total_pool mi = 400 \<and> fee_bps mi = 200"
  by (simp add: demo_defs pm_eval)



theorem winners_exhaust_pool_witness:
  "\<exists>mi. market (demo demo_settled) 1 = Inr mi \<and> claimed_gross mi = total_pool mi"
proof -
  have "\<exists>mi. market (demo demo_settled) 1 = Inr mi \<and> status mi = RESOLVED \<and> winning_option mi = 0"
    by (simp add: demo_defs pm_eval)
  then obtain mi where mi: "market (demo demo_settled) 1 = Inr mi" "status mi = RESOLVED"
    "winning_option mi = 0" by blast
  have cl: "has_claimed (demo demo_settled) 1 u" if "0 < position_of (demo demo_settled) 1 u 0" for u
    using that by (simp add: demo_defs pm_eval split: if_splits)
  have "claimed_gross mi = total_pool mi \<and> liability (storage (demo demo_settled)) 1 mi = 0"
    by (rule winners_exhaust_pool [where transfer = ledger_transfer and balance = ledger_balance,
      OF sep41_ledger demo_ledger_nonneg demo_legal(2) refl mi(1,2)])
      (use cl mi(3) in simp)
  with mi(1) show ?thesis by blast
qed


theorem no_second_payout_witness:
  "\<exists>w'. pm_step ledger_transfer (demo demo_resolved) (at 2062 [11], Claim 11 1) = Inr w' \<and>
     (\<forall>e w3 r. claim ledger_transfer e w' 11 1 \<noteq> Inr (w3, r))"
proof -
  obtain w' where s: "pm_step ledger_transfer (demo demo_resolved) (at 2062 [11], Claim 11 1) = Inr w'"
    using demo_claim by (auto simp: pm_step_def)
  have "\<forall>e' w3 r. claim ledger_transfer e' w' 11 1 \<noteq> Inr (w3, r)
      \<and> refund ledger_transfer e' w' 11 1 \<noteq> Inr (w3, r)"
    by (rule no_second_payout [where transfer = ledger_transfer and balance = ledger_balance,
      OF sep41_ledger demo_ledger_nonneg demo_legal(1) refl _ _ s, where later = "[]"])
      (simp_all add: pm_legal_def external_caller_def at_def)
  with s show ?thesis by blast
qed

theorem market_terms_immutable_witness:
  "\<exists>mi mi'. market (demo demo_resolved) 1 = Inr mi \<and>
     market (run (pm_step ledger_transfer) (demo demo_resolved) [(at 2062 [11], Claim 11 1)]) 1 = Inr mi' \<and>
     same_terms mi mi' \<and> status_le mi mi'"
proof -
  obtain mi where m: "market (demo demo_resolved) 1 = Inr mi"
    using demo_market by (auto simp: market_def read_market_def)
  have "\<exists>mi'. market (run (pm_step ledger_transfer) (demo demo_resolved) [(at 2062 [11], Claim 11 1)]) 1
      = Inr mi' \<and> same_terms mi mi' \<and> status_le mi mi'"
    by (rule market_terms_immutable [where transfer = ledger_transfer and balance = ledger_balance,
      OF sep41_ledger demo_ledger_nonneg demo_legal(1) refl _ refl m])
      (simp add: pm_legal_def external_caller_def at_def)
  with m show ?thesis by blast
qed

theorem finalize_waits_for_review_witness:
  "\<exists>w' mi. finalize_resolution (at 2060 [2]) (demo demo_pending) 1 = Inr (w', ()) \<and>
     market (demo demo_pending) 1 = Inr mi \<and> proposed_at mi + resolution_delay mi \<le> 2060"
proof -
  have "\<exists>w'. finalize_resolution (at 2060 [2]) (demo demo_pending) 1 = Inr (w', ())"
    by (simp add: demo_defs pm_eval)
  then obtain w' where f: "finalize_resolution (at 2060 [2]) (demo demo_pending) 1 = Inr (w', ())" ..
  have "\<exists>mi. market (demo demo_pending) 1 = Inr mi" by (simp add: demo_defs pm_eval)
  then obtain mi where m: "market (demo demo_pending) 1 = Inr mi" ..
  show ?thesis using finalize_waits_for_review [OF refl f m] f m by (auto simp: at_def)
qed

end
