(* ===== verification/Audit_Anchor.thy ===== *)
theory Audit_Anchor
  imports Soroban
begin

text \<open>
  The Soroban contract \<open>contracts/audit-anchor/src/lib.rs\<close>: one tamper-evident checkpoint per voting
  round, written once by the administrator.
\<close>

section \<open>Storage and entry points\<close>

datatype aa_panic = Aa_missing_entry | Round_already_published

record Checkpoint =
  round_id :: nat
  merkle_root :: bytes32
  tally_hash :: bytes32
  total_votes :: nat
  timestamp :: nat

record aa_world =
  Aa_Admin :: "address option"
  Aa_Round :: "nat \<rightharpoonup> Checkpoint"
  aa_events :: "(nat \<times> bytes32) list"

definition aa_constructor :: "address \<Rightarrow> aa_world" where
  "aa_constructor admin = \<lparr>Aa_Admin = Some admin, Aa_Round = Map.empty, aa_events = []\<rparr>"

definition publish_round ::
  "invocation \<Rightarrow> aa_world \<Rightarrow> nat \<Rightarrow> bytes32 \<Rightarrow> bytes32 \<Rightarrow> nat \<Rightarrow> aa_panic trap + aa_world" where
  "publish_round e w rid root tally votes =
     bind_result (ok_or (Aa_Admin w) (ContractError Aa_missing_entry)) (\<lambda>admin.
     bind_result (require_auth e admin) (\<lambda>_.
     if Aa_Round w rid \<noteq> None then Inl (ContractError Round_already_published)
     else
     let cp = \<lparr>round_id = rid, merkle_root = root, tally_hash = tally, total_votes = votes,
               timestamp = ledger_timestamp e\<rparr>
     in Inr (w\<lparr>Aa_Round := (Aa_Round w)(rid \<mapsto> cp), aa_events := aa_events w @ [(rid, root)]\<rparr>)))"

definition get_round :: "aa_world \<Rightarrow> nat \<Rightarrow> Checkpoint option" where
  "get_round w rid = Aa_Round w rid"

definition aa_admin :: "aa_world \<Rightarrow> aa_panic trap + address" where
  "aa_admin w = ok_or (Aa_Admin w) (ContractError Aa_missing_entry)"

type_synonym aa_call = "nat \<times> bytes32 \<times> bytes32 \<times> nat"

definition aa_step :: "aa_world \<Rightarrow> invocation \<times> aa_call \<Rightarrow> aa_panic trap + aa_world" where
  "aa_step w x = (case x of (e, rid, root, tally, votes) \<Rightarrow> publish_round e w rid root tally votes)"

section \<open>Write-once checkpoints\<close>

lemma publish_roundE:
  assumes "publish_round e w rid root tally votes = Inr w'"
  obtains admin where "Aa_Admin w = Some admin" "admin \<in> set (authorized e)" "Aa_Round w rid = None"
    "w' = w\<lparr>Aa_Round := (Aa_Round w)(rid \<mapsto> \<lparr>round_id = rid, merkle_root = root, tally_hash = tally,
       total_votes = votes, timestamp = ledger_timestamp e\<rparr>), aa_events := aa_events w @ [(rid, root)]\<rparr>"
  using assms by (auto simp: publish_round_def Let_def result_simps split: if_splits)

text \<open>Every checkpoint is filed under its own round and was announced by an event.\<close>

definition aa_inv :: "aa_world \<Rightarrow> bool" where
  "aa_inv w \<longleftrightarrow> Aa_Admin w \<noteq> None \<and>
     (\<forall>r cp. Aa_Round w r = Some cp \<longrightarrow> round_id cp = r) \<and>
     (\<forall>r root. (r, root) \<in> set (aa_events w) \<longleftrightarrow>
        (\<exists>cp. Aa_Round w r = Some cp \<and> merkle_root cp = root)) \<and>
     distinct (map fst (aa_events w))"

definition aa_extends :: "aa_world \<Rightarrow> aa_world \<Rightarrow> bool" where
  "aa_extends w w' \<longleftrightarrow> Aa_Admin w' = Aa_Admin w \<and> Aa_Round w \<subseteq>\<^sub>m Aa_Round w'"

lemma aa_step_inv:
  assumes inv: "aa_inv w" and call: "aa_step w x = Inr w'"
  shows "aa_inv w'"
proof -
  obtain e rid root tally votes where "x = (e, rid, root, tally, votes)" by (cases x)
  with call have "publish_round e w rid root tally votes = Inr w'" by (simp add: aa_step_def)
  then show ?thesis
  proof (rule publish_roundE)
    assume fresh: "Aa_Round w rid = None"
      and w': "w' = w\<lparr>Aa_Round := (Aa_Round w)(rid \<mapsto> \<lparr>round_id = rid, merkle_root = root,
        tally_hash = tally, total_votes = votes, timestamp = ledger_timestamp e\<rparr>),
        aa_events := aa_events w @ [(rid, root)]\<rparr>"
    from inv fresh have "rid \<notin> fst ` set (aa_events w)" by (auto simp: aa_inv_def)
    with inv show ?thesis unfolding aa_inv_def w' by (auto simp: fresh)
  qed
qed

lemma aa_step_extends: "aa_step w x = Inr w' \<Longrightarrow> aa_extends w w'"
  by (cases x) (auto simp: aa_step_def aa_extends_def map_le_def elim!: publish_roundE)

interpretation aa: evolving aa_step "\<lambda>_. True" aa_inv aa_extends
  by unfold_locales
    (blast intro: aa_step_inv, simp add: aa_extends_def,
      metis aa_extends_def map_le_trans, rule aa_step_extends)

definition aa_run :: "address \<Rightarrow> (invocation \<times> aa_call) list \<Rightarrow> aa_world" where
  "aa_run admin calls = run aa_step (aa_constructor admin) calls"

lemma aa_run_inv: "aa_inv (aa_run admin calls)"
  unfolding aa_run_def
  by (rule aa.run_inv) (simp_all add: aa_inv_def aa_constructor_def list_all_iff)

section \<open>Properties\<close>

text \<open>A published checkpoint is never rewritten. Whatever calls follow, the checkpoint of a round
  that is readable once stays readable with the same root, tally hash, total and time.\<close>
theorem checkpoint_immutable:
  assumes "get_round w rid = Some cp"
  shows "get_round (run aa_step w later) rid = Some cp"
proof -
  have step: "Aa_Round v rid = Some cp \<Longrightarrow> Aa_Round (commit aa_step v x) rid = Some cp" for v x
    by (auto simp: commit_def aa_extends_def map_le_def dest!: aa_step_extends split: sum.splits)
      (metis domI)
  from assms show ?thesis unfolding get_round_def
    by (induction later arbitrary: w) (simp_all add: step)
qed

theorem checkpoint_immutable_witness:
  "get_round (run aa_step (aa_run 1 [(\<lparr>authorized = [1], ledger_timestamp = 5, current_contract = 9\<rparr>,
       7, [7], [9], 42)])
     [(\<lparr>authorized = [1], ledger_timestamp = 6, current_contract = 9\<rparr>, 7, [8], [8], 1)]) 7
   = Some \<lparr>round_id = 7, merkle_root = [7], tally_hash = [9], total_votes = 42, timestamp = 5\<rparr>"
  by (rule checkpoint_immutable)
    (simp add: aa_run_def aa_constructor_def commit_def aa_step_def publish_round_def
      require_auth_def get_round_def)

text \<open>Only the administrator publishes, once per round, and the log is the storage. In every
  reachable state a publish call goes through exactly when the deploying administrator authorized it
  and the round has no checkpoint; the announced roots are exactly the roots of the stored
  checkpoints and no round is announced twice.\<close>
theorem publish_admin_once:
  "((\<exists>w'. publish_round e (aa_run admin calls) rid root tally votes = Inr w') \<longleftrightarrow>
      admin \<in> set (authorized e) \<and> get_round (aa_run admin calls) rid = None) \<and>
   (\<forall>r x. (r, x) \<in> set (aa_events (aa_run admin calls)) \<longleftrightarrow>
      (\<exists>cp. get_round (aa_run admin calls) r = Some cp \<and> merkle_root cp = x)) \<and>
   distinct (map fst (aa_events (aa_run admin calls)))"
proof -
  have "aa_extends (aa_constructor admin) (aa_run admin calls)"
    unfolding aa_run_def by (rule aa.run_evolves)
      (simp_all add: aa_inv_def aa_constructor_def list_all_iff)
  then have adm: "Aa_Admin (aa_run admin calls) = Some admin"
    by (simp add: aa_extends_def aa_constructor_def)
  show ?thesis using aa_run_inv [of admin calls]
    by (auto simp: aa_inv_def get_round_def publish_round_def adm require_auth_def guard_def Let_def)
qed

end
