(* ===== verification/Sale_Splitter.thy ===== *)
theory Sale_Splitter
  imports Soroban
begin

text \<open>
  The Soroban contract \<open>contracts/sale-splitter/src/lib.rs\<close>: listings registered by the
  administrator and a \<open>buy\<close> that splits the listed price between contestant and platform.
  The workspace profile compiles with overflow checks, so the fee product traps outside \<open>i128\<close>.
\<close>

section \<open>Storage and entry points\<close>

abbreviation (input) MAX_BPS :: nat where "MAX_BPS \<equiv> 10000"

datatype ss_panic =
    Platform_bps_out_of_range | Price_must_be_positive | Sales_paused | No_such_listing
  | Listing_inactive | Ss_missing_entry | Ss_overflow

record Listing =
  price :: int
  contestant :: address
  active :: bool

record ss_storage =
  Ss_Admin :: "address option"
  Ss_Usdc :: "address option"
  Ss_Platform :: "address option"
  Ss_PlatformBps :: "nat option"
  Ss_Paused :: "bool option"
  Ss_Listing :: "nat \<rightharpoonup> Listing"

record 't ss_world =
  ss_store :: ss_storage
  ss_tokens :: 't
  ss_events :: "(nat \<times> address \<times> int) list"

definition ss_constructor ::
  "'t \<Rightarrow> address \<Rightarrow> address \<Rightarrow> address \<Rightarrow> nat \<Rightarrow> ss_panic trap + 't ss_world" where
  "ss_constructor t admin usdc platform platform_bps =
     (if platform_bps > MAX_BPS then Inl (ContractError Platform_bps_out_of_range)
      else Inr \<lparr>ss_store = \<lparr>Ss_Admin = Some admin, Ss_Usdc = Some usdc, Ss_Platform = Some platform,
              Ss_PlatformBps = Some platform_bps, Ss_Paused = Some False, Ss_Listing = Map.empty\<rparr>,
             ss_tokens = t, ss_events = []\<rparr>)"

definition ss_admin :: "ss_storage \<Rightarrow> ss_panic trap + address" where
  "ss_admin s = ok_or (Ss_Admin s) (ContractError Ss_missing_entry)"

definition set_listing ::
  "invocation \<Rightarrow> 't ss_world \<Rightarrow> nat \<Rightarrow> int \<Rightarrow> address \<Rightarrow> bool \<Rightarrow> ss_panic trap + 't ss_world" where
  "set_listing e w listing_id price_a contestant_a active_a =
     bind_result (ss_admin (ss_store w)) (\<lambda>admin.
     bind_result (require_auth e admin) (\<lambda>_.
     if price_a \<le> 0 then Inl (ContractError Price_must_be_positive)
     else Inr (w\<lparr>ss_store := (ss_store w)\<lparr>Ss_Listing := (Ss_Listing (ss_store w))(listing_id \<mapsto>
            \<lparr>price = price_a, contestant = contestant_a, active = active_a\<rparr>)\<rparr>\<rparr>)))"

definition ss_set_paused :: "invocation \<Rightarrow> 't ss_world \<Rightarrow> bool \<Rightarrow> ss_panic trap + 't ss_world" where
  "ss_set_paused e w b =
     bind_result (ss_admin (ss_store w)) (\<lambda>admin.
     bind_result (require_auth e admin) (\<lambda>_.
     Inr (w\<lparr>ss_store := (ss_store w)\<lparr>Ss_Paused := Some b\<rparr>\<rparr>)))"

definition buy ::
  "'t transfer_fn \<Rightarrow> invocation \<Rightarrow> 't ss_world \<Rightarrow> address \<Rightarrow> nat \<Rightarrow> ss_panic trap + ('t ss_world \<times> int)" where
  "buy transfer e w buyer listing_id =
     bind_result (require_auth e buyer) (\<lambda>_.
     if (case Ss_Paused (ss_store w) of None \<Rightarrow> False | Some b \<Rightarrow> b) then Inl (ContractError Sales_paused)
     else
     bind_result (ok_or (Ss_Listing (ss_store w) listing_id) (ContractError No_such_listing)) (\<lambda>listing.
     if \<not> active listing then Inl (ContractError Listing_inactive)
     else
     bind_result (ok_or (Ss_Usdc (ss_store w)) (ContractError Ss_missing_entry)) (\<lambda>usdc.
     bind_result (ok_or (Ss_Platform (ss_store w)) (ContractError Ss_missing_entry)) (\<lambda>platform.
     bind_result (ok_or (Ss_PlatformBps (ss_store w)) (ContractError Ss_missing_entry)) (\<lambda>bps.
     bind_result (ok_or (checked_i128 (price listing * int bps)) (ContractError Ss_overflow)) (\<lambda>product.
     let fee = product sdiv 10000 in
     bind_result (ok_or (checked_i128 (price listing - fee)) (ContractError Ss_overflow)) (\<lambda>to_contestant.
     bind_result (token_transfer transfer usdc buyer (contestant listing) to_contestant (ss_tokens w)) (\<lambda>t1.
     bind_result (token_transfer transfer usdc buyer platform fee t1) (\<lambda>t2.
     Inr (w\<lparr>ss_tokens := t2, ss_events := ss_events w @ [(listing_id, buyer, to_contestant)]\<rparr>,
          to_contestant))))))))))"

datatype ss_call = SetListing nat int address bool | SetPaused bool | Buy address nat

fun ss_call_step ::
  "'t transfer_fn \<Rightarrow> invocation \<Rightarrow> 't ss_world \<Rightarrow> ss_call \<Rightarrow> ss_panic trap + 't ss_world" where
  "ss_call_step transfer e w (SetListing i p c a) = set_listing e w i p c a"
| "ss_call_step transfer e w (SetPaused b) = ss_set_paused e w b"
| "ss_call_step transfer e w (Buy b i) = map_sum id fst (buy transfer e w b i)"

definition ss_step ::
  "'t transfer_fn \<Rightarrow> 't ss_world \<Rightarrow> invocation \<times> ss_call \<Rightarrow> ss_panic trap + 't ss_world" where
  "ss_step transfer w x = ss_call_step transfer (fst x) w (snd x)"

section \<open>Configuration invariant\<close>

definition fee_part :: "int \<Rightarrow> nat \<Rightarrow> int" where
  "fee_part p bps = (p * int bps) div 10000"

lemma buyE:
  assumes "buy transfer e w buyer i = Inr (w', r)"
  obtains li usdc platform bps t1 t2 where "buyer \<in> set (authorized e)"
    "Ss_Listing (ss_store w) i = Some li" "active li" "Ss_Usdc (ss_store w) = Some usdc"
    "Ss_Platform (ss_store w) = Some platform" "Ss_PlatformBps (ss_store w) = Some bps"
    "r = price li - (price li * int bps) sdiv 10000"
    "transfer usdc buyer (contestant li) r (ss_tokens w) = Some t1"
    "transfer usdc buyer platform ((price li * int bps) sdiv 10000) t1 = Some t2"
    "w' = w\<lparr>ss_tokens := t2, ss_events := ss_events w @ [(i, buyer, r)]\<rparr>"
  using assms by (auto simp: buy_def Let_def result_simps split: if_splits)

definition ss_inv :: "'t ss_world \<Rightarrow> bool" where
  "ss_inv w \<longleftrightarrow>
     (\<forall>bps. Ss_PlatformBps (ss_store w) = Some bps \<longrightarrow> bps \<le> MAX_BPS) \<and>
     (\<forall>i li. Ss_Listing (ss_store w) i = Some li \<longrightarrow> 0 < price li)"

text \<open>The part of the configuration fixed at deployment.\<close>

definition ss_fixed :: "'t ss_world \<Rightarrow> 't ss_world \<Rightarrow> bool" where
  "ss_fixed w w' \<longleftrightarrow> Ss_Admin (ss_store w') = Ss_Admin (ss_store w) \<and>
     Ss_Usdc (ss_store w') = Ss_Usdc (ss_store w) \<and> Ss_Platform (ss_store w') = Ss_Platform (ss_store w) \<and>
     Ss_PlatformBps (ss_store w') = Ss_PlatformBps (ss_store w)"

lemma ss_step_inv: "ss_inv w \<Longrightarrow> ss_step transfer w x = Inr w' \<Longrightarrow> ss_inv w'"
  by (cases "snd x")
    (auto simp: ss_step_def ss_inv_def set_listing_def ss_set_paused_def result_simps
      elim!: buyE split: if_splits)

lemma ss_step_fixed: "ss_step transfer w x = Inr w' \<Longrightarrow> ss_fixed w w'"
  by (cases "snd x")
    (auto simp: ss_step_def ss_fixed_def set_listing_def ss_set_paused_def result_simps
      elim!: buyE split: if_splits)

interpretation ss: evolving "ss_step transfer" "\<lambda>_. True" ss_inv ss_fixed for transfer
  by unfold_locales (blast intro: ss_step_inv, simp_all add: ss_fixed_def [of _ _],
      simp add: ss_step_fixed [unfolded ss_fixed_def])

lemma ss_reachable:
  assumes "ss_constructor t admin usdc platform bps = Inr w0" "w = run (ss_step transfer) w0 calls"
  shows "ss_inv w" "Ss_Admin (ss_store w) = Some admin" "Ss_Usdc (ss_store w) = Some usdc"
    "Ss_Platform (ss_store w) = Some platform" "Ss_PlatformBps (ss_store w) = Some bps" "bps \<le> MAX_BPS"
proof -
  from assms(1) have w0: "ss_inv w0" "Ss_Admin (ss_store w0) = Some admin" "Ss_Usdc (ss_store w0) = Some usdc"
    "Ss_Platform (ss_store w0) = Some platform" "Ss_PlatformBps (ss_store w0) = Some bps"
    by (auto simp: ss_constructor_def ss_inv_def split: if_splits)
  then show inv: "ss_inv w" using ss.run_inv [of w0 calls transfer] assms(2) by (simp add: list_all_iff)
  from w0 have "ss_fixed w0 w" using ss.run_evolves [of w0 calls transfer] assms(2) by (simp add: list_all_iff)
  with w0 show "Ss_Admin (ss_store w) = Some admin" "Ss_Usdc (ss_store w) = Some usdc"
    "Ss_Platform (ss_store w) = Some platform" and b: "Ss_PlatformBps (ss_store w) = Some bps"
    by (simp_all add: ss_fixed_def)
  from inv b show "bps \<le> MAX_BPS" by (simp add: ss_inv_def)
qed

section \<open>Properties\<close>

text \<open>C39: A sale splits exactly the listed price. On any state reached from construction, a successful
  purchase debits the buyer the stored price, credits the contestant the price less the platform's
  basis points (rounded in the contestant's favour) and the platform the rest, and touches no other
  balance; the returned amount is the contestant's part.\<close>
theorem sale_splits_listed_price:
  assumes "sep41 transfer balance" "ss_constructor t admin usdc platform bps = Inr w0"
    and "w = run (ss_step transfer) w0 calls" "buy transfer e w buyer i = Inr (w', r)"
  shows "\<exists>li. Ss_Listing (ss_store w) i = Some li \<and> active li \<and> 0 < price li \<and>
    0 \<le> fee_part (price li) bps \<and> r + fee_part (price li) bps = price li \<and> 0 \<le> r \<and>
    (\<forall>a. balance usdc a (ss_tokens w') = balance usdc a (ss_tokens w)
        - (if a = buyer then price li else 0)
        + (if a = contestant li then r else 0)
        + (if a = platform then fee_part (price li) bps else 0))"
  using assms(4)
proof (rule buyE)
  fix li u p b t1 t2
  note rc = ss_reachable [OF assms(2,3)]
  assume a: "Ss_Listing (ss_store w) i = Some li" "active li" "Ss_Usdc (ss_store w) = Some u"
    "Ss_Platform (ss_store w) = Some p" "Ss_PlatformBps (ss_store w) = Some b"
    "r = price li - (price li * int b) sdiv 10000"
    and t1: "transfer u buyer (contestant li) r (ss_tokens w) = Some t1"
    and t2: "transfer u buyer p ((price li * int b) sdiv 10000) t1 = Some t2"
    and w': "w' = w\<lparr>ss_tokens := t2, ss_events := ss_events w @ [(i, buyer, r)]\<rparr>"
  from rc(3-5) a(3-5) have eqs: "u = usdc" "p = platform" "b = bps" by simp_all
  from rc(1) a(1) have pos: "0 < price li" by (simp add: ss_inv_def)
  have fee: "(price li * int b) sdiv 10000 = fee_part (price li) bps"
    using pos eqs by (simp add: fee_part_def)
  have "0 \<le> fee_part (price li) bps" using pos
    by (simp add: fee_part_def pos_imp_zdiv_nonneg_iff)
  moreover have "0 \<le> r" using sep41_amount [OF assms(1) t1] .
  moreover have "r + fee_part (price li) bps = price li" using a(6) fee by simp
  ultimately show ?thesis
    using a(1,2) pos w' sep41_balance [OF assms(1) t1] sep41_balance [OF assms(1) t2] eqs fee
    by (intro exI [of _ li]) auto
qed

definition ss_demo :: "ledger ss_world" where
  "ss_demo = \<lparr>ss_store = \<lparr>Ss_Admin = Some 1, Ss_Usdc = Some 50, Ss_Platform = Some 2,
     Ss_PlatformBps = Some 1000, Ss_Paused = Some False, Ss_Listing = Map.empty\<rparr>,
     ss_tokens = (\<lambda>k. if k = (50, 7) then 500 else 0), ss_events = []\<rparr>"

definition ss_inv_of :: "address \<Rightarrow> invocation" where
  "ss_inv_of a = \<lparr>authorized = [a], ledger_timestamp = 0, current_contract = 9\<rparr>"

theorem sale_splits_listed_price_witness:
  "\<exists>w' r. buy ledger_transfer (ss_inv_of 7)
      (run (ss_step ledger_transfer) ss_demo [(ss_inv_of 1, SetListing 4 105 8 True)]) 7 4 = Inr (w', r) \<and>
     r + fee_part 105 1000 = 105 \<and> ledger_balance 50 8 (ss_tokens w') = r"
proof -
  let ?w = "run (ss_step ledger_transfer) ss_demo [(ss_inv_of 1, SetListing 4 105 8 True)]"
  have c: "ss_constructor (\<lambda>k. if k = (50, 7) then 500 else 0) 1 50 2 1000 = Inr ss_demo"
    by (simp add: ss_constructor_def ss_demo_def)
  have b: "\<exists>w'. buy ledger_transfer (ss_inv_of 7) ?w 7 4 = Inr (w', 95)"
    and l: "Ss_Listing (ss_store ?w) 4 = Some \<lparr>price = 105, contestant = 8, active = True\<rparr>"
    and t: "ledger_balance 50 8 (ss_tokens ?w) = 0"
    by (simp_all add: commit_def ss_step_def set_listing_def buy_def ss_admin_def ss_demo_def ss_inv_of_def
        require_auth_def checked_i128_def i128_min_def i128_max_def token_transfer_def
        ledger_transfer_def ledger_balance_def)
  from b obtain w' where b: "buy ledger_transfer (ss_inv_of 7) ?w 7 4 = Inr (w', 95)" ..
  from sale_splits_listed_price [OF sep41_ledger c refl b] l t
  have "95 + fee_part 105 1000 = 105" "ledger_balance 50 8 (ss_tokens w') = 95" by auto
  with b show ?thesis by blast
qed

text \<open>Nothing a buyer supplies changes prices, payees or configuration. On any reached state, a call
  that the administrator did not authorize leaves the whole configuration and every listing as it
  was; the administrator, token, treasury and platform share are those given at construction.\<close>
theorem listing_changes_need_admin:
  assumes "ss_constructor t admin usdc platform bps = Inr w0" "w = run (ss_step transfer) w0 calls"
    and "admin \<notin> set (authorized e)" "ss_step transfer w (e, c) = Inr w'"
  shows "ss_store w' = ss_store w \<and> Ss_Admin (ss_store w) = Some admin \<and>
    Ss_Usdc (ss_store w) = Some usdc \<and> Ss_Platform (ss_store w) = Some platform \<and>
    Ss_PlatformBps (ss_store w) = Some bps"
proof -
  note rc = ss_reachable [OF assms(1,2)]
  have "ss_store w' = ss_store w"
  proof (cases c)
    case (SetListing i p k act)
    with assms(3,4) rc(2) show ?thesis
      by (simp add: ss_step_def set_listing_def ss_admin_def require_auth_def)
  next
    case (SetPaused b)
    with assms(3,4) rc(2) show ?thesis
      by (simp add: ss_step_def ss_set_paused_def ss_admin_def require_auth_def)
  next
    case (Buy b i)
    with assms(4) show ?thesis by (auto simp: ss_step_def map_sum_fst_Inr elim!: buyE)
  qed
  with rc show ?thesis by simp
qed

theorem listing_changes_need_admin_witness:
  "\<exists>w'. ss_step ledger_transfer
      (run (ss_step ledger_transfer) ss_demo [(ss_inv_of 1, SetListing 4 105 8 True)])
      (ss_inv_of 7, Buy 7 4) = Inr w' \<and>
    Ss_Listing (ss_store w') 4 = Some \<lparr>price = 105, contestant = 8, active = True\<rparr>"
proof -
  let ?w = "run (ss_step ledger_transfer) ss_demo [(ss_inv_of 1, SetListing 4 105 8 True)]"
  have c: "ss_constructor (\<lambda>k. if k = (50, 7) then 500 else 0) 1 50 2 1000 = Inr ss_demo"
    by (simp add: ss_constructor_def ss_demo_def)
  have "\<exists>w'. ss_step ledger_transfer ?w (ss_inv_of 7, Buy 7 4) = Inr w'"
    and l: "Ss_Listing (ss_store ?w) 4 = Some \<lparr>price = 105, contestant = 8, active = True\<rparr>"
    by (simp_all add: commit_def ss_step_def set_listing_def buy_def ss_admin_def ss_demo_def ss_inv_of_def
        require_auth_def checked_i128_def i128_min_def i128_max_def token_transfer_def
        ledger_transfer_def)
  then obtain w' where s: "ss_step ledger_transfer ?w (ss_inv_of 7, Buy 7 4) = Inr w'" by blast
  have "ss_store w' = ss_store ?w"
    using listing_changes_need_admin [OF c refl _ s] by (simp add: ss_inv_of_def)
  with s l show ?thesis by auto
qed

end
