(* ===== verification/Nft_Contracts.thy ===== *)
theory Nft_Contracts
  imports Soroban
begin

text \<open>
  The token contracts \<open>contracts/ticket/src/lib.rs\<close>, \<open>contracts/collectible/src/lib.rs\<close> and
  \<open>contracts/usdc-test/src/lib.rs\<close>. The OpenZeppelin Stellar crates they build on are not part of the
  repository: the storage helpers of \<open>Base\<close> and \<open>ownable\<close> are the fields of \<open>oz\<close>, a parameter of every
  definition, and \<open>oz_laws\<close> states what their documentation promises. The entry points the crates add
  by default implementation (approvals, ownership transfer, enumeration) are the calls \<open>Other\<close>.
\<close>

section \<open>The library interface\<close>

record 'n oz =
  oz_set_metadata :: "string \<Rightarrow> string \<Rightarrow> string \<Rightarrow> 'n \<Rightarrow> 'n"
  oz_set_owner :: "address \<Rightarrow> 'n \<Rightarrow> 'n"
  oz_enforce_owner :: "invocation \<Rightarrow> 'n \<Rightarrow> bool"
  oz_sequential_mint :: "address \<Rightarrow> 'n \<Rightarrow> ('n \<times> nat) option"
  oz_transfer :: "invocation \<Rightarrow> address \<Rightarrow> address \<Rightarrow> nat \<Rightarrow> 'n \<Rightarrow> 'n option"
  oz_transfer_from :: "invocation \<Rightarrow> address \<Rightarrow> address \<Rightarrow> address \<Rightarrow> nat \<Rightarrow> 'n \<Rightarrow> 'n option"
  oz_set_default_royalty :: "address \<Rightarrow> nat \<Rightarrow> 'n \<Rightarrow> 'n option"
  oz_set_token_royalty :: "nat \<Rightarrow> address \<Rightarrow> nat \<Rightarrow> 'n \<Rightarrow> 'n option"
  oz_remove_token_royalty :: "nat \<Rightarrow> 'n \<Rightarrow> 'n option"
  oz_royalty_info :: "nat \<Rightarrow> int \<Rightarrow> 'n \<Rightarrow> (address \<times> int) option"
  oz_other :: "invocation \<Rightarrow> nat \<Rightarrow> 'n \<Rightarrow> 'n option"
  oz_owner_of :: "'n \<Rightarrow> nat \<rightharpoonup> address"

text \<open>Documented behaviour: a sequential mint gives a fresh token to the receiver, transfers move one
  existing token, nothing else changes ownership, and only the royalty setters change royalties.\<close>

definition oz_laws :: "'n oz \<Rightarrow> bool" where
  "oz_laws oz \<longleftrightarrow>
     (\<forall>a b c n. oz_owner_of oz (oz_set_metadata oz a b c n) = oz_owner_of oz n) \<and>
     (\<forall>a n. oz_owner_of oz (oz_set_owner oz a n) = oz_owner_of oz n) \<and>
     (\<forall>to_a n n' i. oz_sequential_mint oz to_a n = Some (n', i) \<longrightarrow>
        oz_owner_of oz n i = None \<and> oz_owner_of oz n' = (oz_owner_of oz n)(i \<mapsto> to_a) \<and>
        (\<forall>t p. oz_owner_of oz n t \<noteq> None \<longrightarrow> oz_royalty_info oz t p n' = oz_royalty_info oz t p n)) \<and>
     (\<forall>e f t i n n'. oz_transfer oz e f t i n = Some n' \<longrightarrow>
        oz_owner_of oz n i = Some f \<and> oz_owner_of oz n' = (oz_owner_of oz n)(i \<mapsto> t) \<and>
        (\<forall>k p. oz_royalty_info oz k p n' = oz_royalty_info oz k p n)) \<and>
     (\<forall>e s f t i n n'. oz_transfer_from oz e s f t i n = Some n' \<longrightarrow>
        oz_owner_of oz n i = Some f \<and> oz_owner_of oz n' = (oz_owner_of oz n)(i \<mapsto> t) \<and>
        (\<forall>k p. oz_royalty_info oz k p n' = oz_royalty_info oz k p n)) \<and>
     (\<forall>a b n n'. oz_set_default_royalty oz a b n = Some n' \<longrightarrow> oz_owner_of oz n' = oz_owner_of oz n) \<and>
     (\<forall>i a b n n'. oz_set_token_royalty oz i a b n = Some n' \<longrightarrow> oz_owner_of oz n' = oz_owner_of oz n) \<and>
     (\<forall>i n n'. oz_remove_token_royalty oz i n = Some n' \<longrightarrow> oz_owner_of oz n' = oz_owner_of oz n) \<and>
     (\<forall>e k n n'. oz_other oz e k n = Some n' \<longrightarrow> oz_owner_of oz n' = oz_owner_of oz n \<and>
        (\<forall>t p. oz_royalty_info oz t p n' = oz_royalty_info oz t p n))"

datatype nft_panic =
    Minting_paused | Max_supply_reached | Resale_window_closed | Royalty_bps_out_of_range
  | Supply_overflow | Library_panic

definition only_owner :: "'n oz \<Rightarrow> invocation \<Rightarrow> 'n \<Rightarrow> nft_panic trap + unit" where
  "only_owner oz e n = guard (oz_enforce_owner oz e n) AuthTrap"

definition unwrap_or :: "'a option \<Rightarrow> 'a \<Rightarrow> 'a" where
  "unwrap_or m d = (case m of None \<Rightarrow> d | Some x \<Rightarrow> x)"

section \<open>Ticket\<close>

record ticket_cfg =
  ResaleOpen :: "bool option"
  Tk_Paused :: "bool option"
  Tk_MaxSupply :: "nat option"
  Tk_Minted :: "nat option"

record 'n ticket_world =
  tk_cfg :: ticket_cfg
  tk_base :: 'n
  tk_events :: "(address \<times> nat) list"

definition ticket_constructor :: "'n oz \<Rightarrow> 'n \<Rightarrow> address \<Rightarrow> nat \<Rightarrow> 'n ticket_world" where
  "ticket_constructor oz n owner max_supply =
     (let n1 = oz_set_metadata oz ''ipfs://crownfi/tickets/'' ''CrownFi Ticket'' ''CFT'' n;
          n2 = oz_set_owner oz owner n1
      in \<lparr>tk_cfg = \<lparr>ResaleOpen = Some False, Tk_Paused = Some False, Tk_MaxSupply = Some max_supply,
                    Tk_Minted = Some 0\<rparr>,
          tk_base = n2, tk_events = []\<rparr>)"

definition ticket_mint ::
  "'n oz \<Rightarrow> invocation \<Rightarrow> 'n ticket_world \<Rightarrow> address \<Rightarrow> nft_panic trap + ('n ticket_world \<times> nat)" where
  "ticket_mint oz e w to_a =
     bind_result (only_owner oz e (tk_base w)) (\<lambda>_.
     if unwrap_or (Tk_Paused (tk_cfg w)) False then Inl (ContractError Minting_paused)
     else
     let max_a = unwrap_or (Tk_MaxSupply (tk_cfg w)) 0;
         minted = unwrap_or (Tk_Minted (tk_cfg w)) 0
     in
     if max_a \<noteq> 0 \<and> minted \<ge> max_a then Inl (ContractError Max_supply_reached)
     else
     bind_result (ok_or (oz_sequential_mint oz to_a (tk_base w)) (ContractError Library_panic)) (\<lambda>(n, i).
     bind_result (ok_or (checked_u32 (minted + 1)) (ContractError Supply_overflow)) (\<lambda>m.
     Inr (w\<lparr>tk_cfg := (tk_cfg w)\<lparr>Tk_Minted := Some m\<rparr>, tk_base := n,
            tk_events := tk_events w @ [(to_a, i)]\<rparr>, i))))"

definition set_resale_open ::
  "'n oz \<Rightarrow> invocation \<Rightarrow> 'n ticket_world \<Rightarrow> bool \<Rightarrow> nft_panic trap + 'n ticket_world" where
  "set_resale_open oz e w b =
     bind_result (only_owner oz e (tk_base w)) (\<lambda>_. Inr (w\<lparr>tk_cfg := (tk_cfg w)\<lparr>ResaleOpen := Some b\<rparr>\<rparr>))"

definition ticket_set_paused ::
  "'n oz \<Rightarrow> invocation \<Rightarrow> 'n ticket_world \<Rightarrow> bool \<Rightarrow> nft_panic trap + 'n ticket_world" where
  "ticket_set_paused oz e w b =
     bind_result (only_owner oz e (tk_base w)) (\<lambda>_. Inr (w\<lparr>tk_cfg := (tk_cfg w)\<lparr>Tk_Paused := Some b\<rparr>\<rparr>))"

definition resale_open :: "'n ticket_world \<Rightarrow> bool" where
  "resale_open w = unwrap_or (ResaleOpen (tk_cfg w)) False"

definition ticket_transfer ::
  "'n oz \<Rightarrow> invocation \<Rightarrow> 'n ticket_world \<Rightarrow> address \<Rightarrow> address \<Rightarrow> nat \<Rightarrow> nft_panic trap + 'n ticket_world" where
  "ticket_transfer oz e w from_a to_a i =
     (if \<not> unwrap_or (ResaleOpen (tk_cfg w)) False then Inl (ContractError Resale_window_closed)
      else bind_result (ok_or (oz_transfer oz e from_a to_a i (tk_base w)) (ContractError Library_panic))
             (\<lambda>n. Inr (w\<lparr>tk_base := n\<rparr>)))"

definition ticket_transfer_from ::
  "'n oz \<Rightarrow> invocation \<Rightarrow> 'n ticket_world \<Rightarrow> address \<Rightarrow> address \<Rightarrow> address \<Rightarrow> nat \<Rightarrow>
   nft_panic trap + 'n ticket_world" where
  "ticket_transfer_from oz e w spender from_a to_a i =
     (if \<not> unwrap_or (ResaleOpen (tk_cfg w)) False then Inl (ContractError Resale_window_closed)
      else bind_result
             (ok_or (oz_transfer_from oz e spender from_a to_a i (tk_base w)) (ContractError Library_panic))
             (\<lambda>n. Inr (w\<lparr>tk_base := n\<rparr>)))"

datatype ticket_call =
    TkMint address | TkSetResaleOpen bool | TkSetPaused bool
  | TkTransfer address address nat | TkTransferFrom address address address nat | TkOther nat

fun ticket_call_step ::
  "'n oz \<Rightarrow> invocation \<Rightarrow> 'n ticket_world \<Rightarrow> ticket_call \<Rightarrow> nft_panic trap + 'n ticket_world" where
  "ticket_call_step oz e w (TkMint a) = map_sum id fst (ticket_mint oz e w a)"
| "ticket_call_step oz e w (TkSetResaleOpen b) = set_resale_open oz e w b"
| "ticket_call_step oz e w (TkSetPaused b) = ticket_set_paused oz e w b"
| "ticket_call_step oz e w (TkTransfer f t i) = ticket_transfer oz e w f t i"
| "ticket_call_step oz e w (TkTransferFrom s f t i) = ticket_transfer_from oz e w s f t i"
| "ticket_call_step oz e w (TkOther k) =
     bind_result (ok_or (oz_other oz e k (tk_base w)) (ContractError Library_panic))
       (\<lambda>n. Inr (w\<lparr>tk_base := n\<rparr>))"

definition ticket_step ::
  "'n oz \<Rightarrow> 'n ticket_world \<Rightarrow> invocation \<times> ticket_call \<Rightarrow> nft_panic trap + 'n ticket_world" where
  "ticket_step oz w x = ticket_call_step oz (fst x) w (snd x)"

section \<open>Collectible\<close>

record collectible_cfg =
  Co_Paused :: "bool option"
  Co_MaxSupply :: "nat option"
  Co_Minted :: "nat option"

record 'n collectible_world =
  co_cfg :: collectible_cfg
  co_base :: 'n
  co_events :: "(address \<times> nat) list"

abbreviation (input) COLLECTIBLE_MAX_BPS :: nat where "COLLECTIBLE_MAX_BPS \<equiv> 10000"

definition collectible_constructor ::
  "'n oz \<Rightarrow> 'n \<Rightarrow> address \<Rightarrow> address \<Rightarrow> nat \<Rightarrow> nat \<Rightarrow> nft_panic trap + 'n collectible_world" where
  "collectible_constructor oz n owner royalty_receiver royalty_bps max_supply =
     (if royalty_bps > COLLECTIBLE_MAX_BPS then Inl (ContractError Royalty_bps_out_of_range)
      else
      let n1 = oz_set_metadata oz ''ipfs://crownfi/collectibles/'' ''CrownFi Collectible'' ''CFC'' n;
          n2 = oz_set_owner oz owner n1
      in bind_result (ok_or (oz_set_default_royalty oz royalty_receiver royalty_bps n2)
             (ContractError Library_panic)) (\<lambda>n3.
         Inr \<lparr>co_cfg = \<lparr>Co_Paused = Some False, Co_MaxSupply = Some max_supply, Co_Minted = Some 0\<rparr>,
              co_base = n3, co_events = []\<rparr>))"

definition collectible_mint ::
  "'n oz \<Rightarrow> invocation \<Rightarrow> 'n collectible_world \<Rightarrow> address \<Rightarrow> nft_panic trap + ('n collectible_world \<times> nat)" where
  "collectible_mint oz e w to_a =
     bind_result (only_owner oz e (co_base w)) (\<lambda>_.
     if unwrap_or (Co_Paused (co_cfg w)) False then Inl (ContractError Minting_paused)
     else
     let max_a = unwrap_or (Co_MaxSupply (co_cfg w)) 0;
         minted = unwrap_or (Co_Minted (co_cfg w)) 0
     in
     if max_a \<noteq> 0 \<and> minted \<ge> max_a then Inl (ContractError Max_supply_reached)
     else
     bind_result (ok_or (oz_sequential_mint oz to_a (co_base w)) (ContractError Library_panic)) (\<lambda>(n, i).
     bind_result (ok_or (checked_u32 (minted + 1)) (ContractError Supply_overflow)) (\<lambda>m.
     Inr (w\<lparr>co_cfg := (co_cfg w)\<lparr>Co_Minted := Some m\<rparr>, co_base := n,
            co_events := co_events w @ [(to_a, i)]\<rparr>, i))))"

definition collectible_set_paused ::
  "'n oz \<Rightarrow> invocation \<Rightarrow> 'n collectible_world \<Rightarrow> bool \<Rightarrow> nft_panic trap + 'n collectible_world" where
  "collectible_set_paused oz e w b =
     bind_result (only_owner oz e (co_base w)) (\<lambda>_. Inr (w\<lparr>co_cfg := (co_cfg w)\<lparr>Co_Paused := Some b\<rparr>\<rparr>))"

definition set_default_royalty ::
  "'n oz \<Rightarrow> invocation \<Rightarrow> 'n collectible_world \<Rightarrow> address \<Rightarrow> nat \<Rightarrow> address \<Rightarrow>
   nft_panic trap + 'n collectible_world" where
  "set_default_royalty oz e w receiver basis_points operator =
     bind_result (only_owner oz e (co_base w)) (\<lambda>_.
     bind_result (ok_or (oz_set_default_royalty oz receiver basis_points (co_base w))
       (ContractError Library_panic)) (\<lambda>n. Inr (w\<lparr>co_base := n\<rparr>)))"

definition set_token_royalty ::
  "'n oz \<Rightarrow> invocation \<Rightarrow> 'n collectible_world \<Rightarrow> nat \<Rightarrow> address \<Rightarrow> nat \<Rightarrow> address \<Rightarrow>
   nft_panic trap + 'n collectible_world" where
  "set_token_royalty oz e w token_id receiver basis_points operator =
     bind_result (only_owner oz e (co_base w)) (\<lambda>_.
     bind_result (ok_or (oz_set_token_royalty oz token_id receiver basis_points (co_base w))
       (ContractError Library_panic)) (\<lambda>n. Inr (w\<lparr>co_base := n\<rparr>)))"

definition remove_token_royalty ::
  "'n oz \<Rightarrow> invocation \<Rightarrow> 'n collectible_world \<Rightarrow> nat \<Rightarrow> address \<Rightarrow> nft_panic trap + 'n collectible_world" where
  "remove_token_royalty oz e w token_id operator =
     bind_result (only_owner oz e (co_base w)) (\<lambda>_.
     bind_result (ok_or (oz_remove_token_royalty oz token_id (co_base w))
       (ContractError Library_panic)) (\<lambda>n. Inr (w\<lparr>co_base := n\<rparr>)))"

definition royalty_info :: "'n oz \<Rightarrow> 'n collectible_world \<Rightarrow> nat \<Rightarrow> int \<Rightarrow> (address \<times> int) option" where
  "royalty_info oz w token_id sale_price = oz_royalty_info oz token_id sale_price (co_base w)"

datatype collectible_call =
    CoMint address | CoSetPaused bool | CoTransfer address address nat
  | CoTransferFrom address address address nat | CoSetDefaultRoyalty address nat address
  | CoSetTokenRoyalty nat address nat address | CoRemoveTokenRoyalty nat address | CoOther nat

fun collectible_call_step ::
  "'n oz \<Rightarrow> invocation \<Rightarrow> 'n collectible_world \<Rightarrow> collectible_call \<Rightarrow>
   nft_panic trap + 'n collectible_world" where
  "collectible_call_step oz e w (CoMint a) = map_sum id fst (collectible_mint oz e w a)"
| "collectible_call_step oz e w (CoSetPaused b) = collectible_set_paused oz e w b"
| "collectible_call_step oz e w (CoTransfer f t i) =
     bind_result (ok_or (oz_transfer oz e f t i (co_base w)) (ContractError Library_panic))
       (\<lambda>n. Inr (w\<lparr>co_base := n\<rparr>))"
| "collectible_call_step oz e w (CoTransferFrom s f t i) =
     bind_result (ok_or (oz_transfer_from oz e s f t i (co_base w)) (ContractError Library_panic))
       (\<lambda>n. Inr (w\<lparr>co_base := n\<rparr>))"
| "collectible_call_step oz e w (CoSetDefaultRoyalty r b p) = set_default_royalty oz e w r b p"
| "collectible_call_step oz e w (CoSetTokenRoyalty i r b p) = set_token_royalty oz e w i r b p"
| "collectible_call_step oz e w (CoRemoveTokenRoyalty i p) = remove_token_royalty oz e w i p"
| "collectible_call_step oz e w (CoOther k) =
     bind_result (ok_or (oz_other oz e k (co_base w)) (ContractError Library_panic))
       (\<lambda>n. Inr (w\<lparr>co_base := n\<rparr>))"

definition collectible_step ::
  "'n oz \<Rightarrow> 'n collectible_world \<Rightarrow> invocation \<times> collectible_call \<Rightarrow> nft_panic trap + 'n collectible_world" where
  "collectible_step oz w x = collectible_call_step oz (fst x) w (snd x)"

section \<open>Test token\<close>

text \<open>The fungible \<open>Base::mint\<close> and the ownership check are the parameters here.\<close>

definition usdc_constructor ::
  "(nat \<Rightarrow> string \<Rightarrow> string \<Rightarrow> 't \<Rightarrow> 't) \<Rightarrow> (address \<Rightarrow> 't \<Rightarrow> 't) \<Rightarrow> 't \<Rightarrow> address \<Rightarrow> 't" where
  "usdc_constructor set_metadata set_owner t owner =
     set_owner owner (set_metadata 7 ''USD Coin (Testnet)'' ''USDC'' t)"

definition usdc_mint ::
  "(invocation \<Rightarrow> 't \<Rightarrow> bool) \<Rightarrow> (address \<Rightarrow> int \<Rightarrow> 't \<Rightarrow> 't option) \<Rightarrow> invocation \<Rightarrow> 't \<Rightarrow> address \<Rightarrow> int \<Rightarrow>
   nft_panic trap + 't" where
  "usdc_mint enforce_owner base_mint e t to_a amount =
     bind_result (guard (enforce_owner e t) AuthTrap) (\<lambda>_.
     ok_or (base_mint to_a amount t) (ContractError Library_panic))"

end
