(* ===== verification/Nft_Props.thy ===== *)
theory Nft_Props
  imports Nft_Contracts
begin

text \<open>
  Supply caps, the soulbound policy of tickets and the owner gate on royalties, for any library that
  keeps \<open>oz_laws\<close>; a small concrete library (\<open>demo_oz\<close>) on which runs are evaluated.
\<close>

section \<open>The laws, one by one\<close>

lemma oz_mint_law:
  "oz_laws oz \<Longrightarrow> oz_sequential_mint oz a n = Some (n', i) \<Longrightarrow>
   oz_owner_of oz n i = None \<and> oz_owner_of oz n' = (oz_owner_of oz n)(i \<mapsto> a) \<and>
   (\<forall>t p. oz_owner_of oz n t \<noteq> None \<longrightarrow> oz_royalty_info oz t p n' = oz_royalty_info oz t p n)"
  unfolding oz_laws_def by (elim conjE) simp

lemma oz_transfer_law:
  "oz_laws oz \<Longrightarrow> oz_transfer oz e f t i n = Some n' \<Longrightarrow>
   oz_owner_of oz n i = Some f \<and> oz_owner_of oz n' = (oz_owner_of oz n)(i \<mapsto> t) \<and>
   (\<forall>k p. oz_royalty_info oz k p n' = oz_royalty_info oz k p n)"
  unfolding oz_laws_def by (elim conjE) simp

lemma oz_transfer_from_law:
  "oz_laws oz \<Longrightarrow> oz_transfer_from oz e s f t i n = Some n' \<Longrightarrow>
   oz_owner_of oz n i = Some f \<and> oz_owner_of oz n' = (oz_owner_of oz n)(i \<mapsto> t) \<and>
   (\<forall>k p. oz_royalty_info oz k p n' = oz_royalty_info oz k p n)"
  unfolding oz_laws_def by (elim conjE) simp

lemma oz_other_law:
  "oz_laws oz \<Longrightarrow> oz_other oz e k n = Some n' \<Longrightarrow>
   oz_owner_of oz n' = oz_owner_of oz n \<and> (\<forall>t p. oz_royalty_info oz t p n' = oz_royalty_info oz t p n)"
  unfolding oz_laws_def by (elim conjE) simp

lemma oz_owner_laws:
  assumes "oz_laws oz"
  shows "oz_owner_of oz (oz_set_metadata oz a b c n) = oz_owner_of oz n"
    "oz_owner_of oz (oz_set_owner oz o1 n) = oz_owner_of oz n"
    "oz_set_default_royalty oz r k n = Some n' \<Longrightarrow> oz_owner_of oz n' = oz_owner_of oz n"
    "oz_set_token_royalty oz i r k n = Some n' \<Longrightarrow> oz_owner_of oz n' = oz_owner_of oz n"
    "oz_remove_token_royalty oz i n = Some n' \<Longrightarrow> oz_owner_of oz n' = oz_owner_of oz n"
  using assms unfolding oz_laws_def by (elim conjE, simp)+

lemma only_owner_Inr [result_simps]: "only_owner oz e n = Inr u \<longleftrightarrow> oz_enforce_owner oz e n"
  by (simp add: only_owner_def guard_Inr)

lemma oz_transfer_dom:
  assumes "oz_laws oz"
  shows "oz_transfer oz e f t i n = Some n' \<Longrightarrow> dom (oz_owner_of oz n') = dom (oz_owner_of oz n)"
    "oz_transfer_from oz e s f t i n = Some n' \<Longrightarrow> dom (oz_owner_of oz n') = dom (oz_owner_of oz n)"
    "oz_other oz e k n = Some n' \<Longrightarrow> dom (oz_owner_of oz n') = dom (oz_owner_of oz n)"
  using oz_transfer_law [OF assms] oz_transfer_from_law [OF assms] oz_other_law [OF assms]
  by (auto simp: dom_def split: if_splits)

section \<open>Inversion of the entry points\<close>

lemma ticket_mintE:
  assumes "ticket_mint oz e w a = Inr (w', i)"
  obtains n where "oz_enforce_owner oz e (tk_base w)" "\<not> unwrap_or (Tk_Paused (tk_cfg w)) False"
    "unwrap_or (Tk_MaxSupply (tk_cfg w)) 0 \<noteq> 0 \<longrightarrow>
       unwrap_or (Tk_Minted (tk_cfg w)) 0 < unwrap_or (Tk_MaxSupply (tk_cfg w)) 0"
    "oz_sequential_mint oz a (tk_base w) = Some (n, i)" "unwrap_or (Tk_Minted (tk_cfg w)) 0 + 1 \<le> u32_max"
    "w' = w\<lparr>tk_cfg := (tk_cfg w)\<lparr>Tk_Minted := Some (unwrap_or (Tk_Minted (tk_cfg w)) 0 + 1)\<rparr>,
            tk_base := n, tk_events := tk_events w @ [(a, i)]\<rparr>"
  using assms by (auto simp: ticket_mint_def Let_def result_simps split: if_splits)

lemma collectible_mintE:
  assumes "collectible_mint oz e w a = Inr (w', i)"
  obtains n where "oz_enforce_owner oz e (co_base w)" "\<not> unwrap_or (Co_Paused (co_cfg w)) False"
    "unwrap_or (Co_MaxSupply (co_cfg w)) 0 \<noteq> 0 \<longrightarrow>
       unwrap_or (Co_Minted (co_cfg w)) 0 < unwrap_or (Co_MaxSupply (co_cfg w)) 0"
    "oz_sequential_mint oz a (co_base w) = Some (n, i)" "unwrap_or (Co_Minted (co_cfg w)) 0 + 1 \<le> u32_max"
    "w' = w\<lparr>co_cfg := (co_cfg w)\<lparr>Co_Minted := Some (unwrap_or (Co_Minted (co_cfg w)) 0 + 1)\<rparr>,
            co_base := n, co_events := co_events w @ [(a, i)]\<rparr>"
  using assms by (auto simp: collectible_mint_def Let_def result_simps split: if_splits)

section \<open>Supply\<close>

text \<open>The counter is the number of tokens in existence, and it respects the cap.\<close>

definition supply_ok :: "'n oz \<Rightarrow> nat \<Rightarrow> nat \<Rightarrow> nat option \<Rightarrow> nat option \<Rightarrow> 'n \<Rightarrow> bool" where
  "supply_ok oz start cap max_a minted n \<longleftrightarrow> finite (dom (oz_owner_of oz n)) \<and> max_a = Some cap \<and>
     (\<exists>m. minted = Some m \<and> card (dom (oz_owner_of oz n)) = start + m \<and> (cap \<noteq> 0 \<longrightarrow> m \<le> cap) \<and> m \<le> u32_max)"

lemma supply_ok_mint:
  assumes "oz_laws oz" "supply_ok oz start cap mx mn n" "oz_sequential_mint oz a n = Some (n', i)"
    and "unwrap_or mx 0 \<noteq> 0 \<longrightarrow> unwrap_or mn 0 < unwrap_or mx 0" "unwrap_or mn 0 + 1 \<le> u32_max"
  shows "supply_ok oz start cap mx (Some (unwrap_or mn 0 + 1)) n'"
proof -
  from oz_mint_law [OF assms(1,3)] have "i \<notin> dom (oz_owner_of oz n)"
    "dom (oz_owner_of oz n') = insert i (dom (oz_owner_of oz n))" by auto
  with assms(2,4,5) show ?thesis by (auto simp: supply_ok_def unwrap_or_def)
qed

lemma supply_ok_dom:
  "supply_ok oz start cap mx mn n \<Longrightarrow> dom (oz_owner_of oz n') = dom (oz_owner_of oz n) \<Longrightarrow>
   supply_ok oz start cap mx mn n'"
  by (simp add: supply_ok_def)

abbreviation ticket_supply_ok :: "'n oz \<Rightarrow> nat \<Rightarrow> nat \<Rightarrow> 'n ticket_world \<Rightarrow> bool" where
  "ticket_supply_ok oz start cap w \<equiv>
     supply_ok oz start cap (Tk_MaxSupply (tk_cfg w)) (Tk_Minted (tk_cfg w)) (tk_base w)"

lemma ticket_step_supply:
  assumes "oz_laws oz" "ticket_supply_ok oz start cap w" "ticket_step oz w x = Inr w'"
  shows "ticket_supply_ok oz start cap w'"
proof (cases "snd x")
  case (TkMint a)
  with assms(3) obtain i where "ticket_mint oz (fst x) w a = Inr (w', i)"
    by (auto simp: ticket_step_def result_simps)
  then show ?thesis
    by (rule ticket_mintE) (use supply_ok_mint [OF assms(1,2)] in simp)
next
  case (TkTransfer f t i)
  with assms show ?thesis
    by (auto simp: ticket_step_def ticket_transfer_def result_simps split: if_splits
        intro!: supply_ok_dom [OF assms(2)] oz_transfer_dom(1) [OF assms(1)])
next
  case (TkTransferFrom s f t i)
  with assms show ?thesis
    by (auto simp: ticket_step_def ticket_transfer_from_def result_simps split: if_splits
        intro!: supply_ok_dom [OF assms(2)] oz_transfer_dom(2) [OF assms(1)])
next
  case (TkOther k)
  with assms show ?thesis
    by (auto simp: ticket_step_def result_simps intro!: supply_ok_dom [OF assms(2)] oz_transfer_dom(3) [OF assms(1)])
qed (use assms in \<open>auto simp: ticket_step_def set_resale_open_def ticket_set_paused_def result_simps\<close>)

interpretation ticket: transactional "ticket_step oz" "\<lambda>_. True"
    "\<lambda>w. oz_laws oz \<and> ticket_supply_ok oz start cap w" for oz start cap
  by unfold_locales (blast intro: ticket_step_supply)

abbreviation collectible_supply_ok :: "'n oz \<Rightarrow> nat \<Rightarrow> nat \<Rightarrow> 'n collectible_world \<Rightarrow> bool" where
  "collectible_supply_ok oz start cap w \<equiv>
     supply_ok oz start cap (Co_MaxSupply (co_cfg w)) (Co_Minted (co_cfg w)) (co_base w)"

lemma collectible_step_supply:
  assumes "oz_laws oz" "collectible_supply_ok oz start cap w" "collectible_step oz w x = Inr w'"
  shows "collectible_supply_ok oz start cap w'"
proof (cases "snd x")
  case (CoMint a)
  with assms(3) obtain i where "collectible_mint oz (fst x) w a = Inr (w', i)"
    by (auto simp: collectible_step_def result_simps)
  then show ?thesis
    by (rule collectible_mintE) (use supply_ok_mint [OF assms(1,2)] in simp)
next
  case (CoTransfer f t i)
  with assms show ?thesis
    by (auto simp: collectible_step_def result_simps intro!: supply_ok_dom [OF assms(2)] oz_transfer_dom(1) [OF assms(1)])
next
  case (CoTransferFrom s f t i)
  with assms show ?thesis
    by (auto simp: collectible_step_def result_simps intro!: supply_ok_dom [OF assms(2)] oz_transfer_dom(2) [OF assms(1)])
qed (use assms in \<open>auto simp: collectible_step_def collectible_set_paused_def set_default_royalty_def
      set_token_royalty_def remove_token_royalty_def result_simps
      intro!: supply_ok_dom [OF assms(2)] arg_cong [where f = dom]
      intro: oz_transfer_dom(3) [OF assms(1)] oz_owner_laws [OF assms(1)] oz_other_law [OF assms(1), THEN conjunct1]\<close>)

interpretation collectible: transactional "collectible_step oz" "\<lambda>_. True"
    "\<lambda>w. oz_laws oz \<and> collectible_supply_ok oz start cap w" for oz start cap
  by unfold_locales (blast intro: collectible_step_supply)

section \<open>Ownership while resale is closed\<close>

definition soulbound :: "'n oz \<Rightarrow> 'n ticket_world \<Rightarrow> 'n ticket_world \<Rightarrow> bool" where
  "soulbound oz w w' \<longleftrightarrow> \<not> resale_open w' \<and>
     oz_owner_of oz (tk_base w) \<subseteq>\<^sub>m oz_owner_of oz (tk_base w')"

lemma ticket_step_soulbound:
  assumes "oz_laws oz" "\<not> resale_open w" "snd x \<noteq> TkSetResaleOpen True" "ticket_step oz w x = Inr w'"
  shows "soulbound oz w w'"
proof (cases "snd x")
  case (TkMint a)
  with assms(4) obtain i where "ticket_mint oz (fst x) w a = Inr (w', i)"
    by (auto simp: ticket_step_def result_simps)
  then show ?thesis
    by (rule ticket_mintE)
      (use assms(2) oz_mint_law [OF assms(1)] in \<open>auto simp: soulbound_def resale_open_def map_le_def\<close>)
next
  case (TkSetResaleOpen b)
  with assms show ?thesis
    by (auto simp: ticket_step_def set_resale_open_def result_simps soulbound_def resale_open_def
        unwrap_or_def)
qed (use assms in \<open>auto simp: ticket_step_def ticket_set_paused_def ticket_transfer_def
      ticket_transfer_from_def result_simps soulbound_def resale_open_def
      split: if_splits dest!: oz_other_law\<close>)

interpretation tk: evolving "ticket_step oz" "\<lambda>x. snd x \<noteq> TkSetResaleOpen True"
    "\<lambda>w. oz_laws oz \<and> \<not> resale_open w"
    "\<lambda>w w'. oz_owner_of oz (tk_base w) \<subseteq>\<^sub>m oz_owner_of oz (tk_base w')" for oz
  by unfold_locales
    (blast dest: ticket_step_soulbound [unfolded soulbound_def], simp, erule (1) map_le_trans,
      blast dest: ticket_step_soulbound [unfolded soulbound_def])

section \<open>A concrete library\<close>

record demo_nft =
  dn_owner :: "address option"
  dn_owners :: "nat \<rightharpoonup> address"
  dn_next :: nat
  dn_default :: "address \<times> nat"
  dn_special :: "nat \<rightharpoonup> address \<times> nat"

definition demo_oz :: "demo_nft oz" where
  "demo_oz = \<lparr>oz_set_metadata = (\<lambda>_ _ _ n. n),
     oz_set_owner = (\<lambda>a n. n\<lparr>dn_owner := Some a\<rparr>),
     oz_enforce_owner = (\<lambda>e n. case dn_owner n of None \<Rightarrow> False | Some a \<Rightarrow> a \<in> set (authorized e)),
     oz_sequential_mint = (\<lambda>a n. if dn_owners n (dn_next n) = None
        then Some (n\<lparr>dn_owners := (dn_owners n)(dn_next n \<mapsto> a), dn_next := dn_next n + 1\<rparr>, dn_next n) else None),
     oz_transfer = (\<lambda>e f t i n. if f \<in> set (authorized e) \<and> dn_owners n i = Some f
        then Some (n\<lparr>dn_owners := (dn_owners n)(i \<mapsto> t)\<rparr>) else None),
     oz_transfer_from = (\<lambda>_ _ _ _ _ _. None),
     oz_set_default_royalty = (\<lambda>a b n. if b \<le> 10000 then Some (n\<lparr>dn_default := (a, b)\<rparr>) else None),
     oz_set_token_royalty = (\<lambda>i a b n. if b \<le> 10000 then Some (n\<lparr>dn_special := (dn_special n)(i \<mapsto> (a, b))\<rparr>)
        else None),
     oz_remove_token_royalty = (\<lambda>i n. Some (n\<lparr>dn_special := (dn_special n)(i := None)\<rparr>)),
     oz_royalty_info = (\<lambda>i p n. let r = unwrap_or (dn_special n i) (dn_default n)
        in Some (fst r, p * int (snd r) div 10000)),
     oz_other = (\<lambda>_ _ n. Some n), oz_owner_of = dn_owners\<rparr>"

lemma demo_oz_laws: "oz_laws demo_oz"
  by (auto simp: oz_laws_def demo_oz_def Let_def split: if_splits)

definition demo_nft0 :: demo_nft where
  "demo_nft0 = \<lparr>dn_owner = None, dn_owners = Map.empty, dn_next = 0, dn_default = (0, 0), dn_special = Map.empty\<rparr>"

definition by_account :: "address \<Rightarrow> invocation" where
  "by_account a = \<lparr>authorized = [a], ledger_timestamp = 0, current_contract = 9\<rparr>"

lemmas nft_eval = demo_oz_def demo_nft0_def by_account_def commit_def ticket_constructor_def
  ticket_step_def ticket_mint_def only_owner_def unwrap_or_def resale_open_def ticket_transfer_def
  collectible_constructor_def collectible_step_def collectible_mint_def royalty_info_def
  set_default_royalty_def checked_u32_def u32_max_def guard_def

section \<open>Properties\<close>

text \<open>C40: Tickets are soulbound until resale opens. Starting from a state with resale closed, whatever
  calls are made short of the organizer opening resale, no token that exists changes owner (neither
  \<open>transfer\<close> nor \<open>transfer_from\<close> by an approved third party moves it), and resale stays closed.\<close>
theorem ticket_soulbound:
  assumes "oz_laws oz" "\<not> resale_open w" "\<forall>x \<in> set calls. snd x \<noteq> TkSetResaleOpen True"
    and "oz_owner_of oz (tk_base w) i = Some a"
  shows "oz_owner_of oz (tk_base (run (ticket_step oz) w calls)) i = Some a \<and>
    \<not> resale_open (run (ticket_step oz) w calls)"
proof -
  from assms(3) have l: "list_all (\<lambda>x. snd x \<noteq> TkSetResaleOpen True) calls" by (simp add: list_all_iff)
  from tk.run_evolves [OF _ l, of oz w] assms(1,2,4)
  have "oz_owner_of oz (tk_base (run (ticket_step oz) w calls)) i = Some a"
    by (auto simp: map_le_def) (metis domI)
  with tk.run_inv [OF _ l, of oz w] assms(1,2) show ?thesis by simp
qed

theorem ticket_soulbound_witness:
  "oz_owner_of demo_oz (tk_base (run (ticket_step demo_oz)
      (run (ticket_step demo_oz) (ticket_constructor demo_oz demo_nft0 1 5) [(by_account 1, TkMint 7)])
      [(by_account 7, TkTransfer 7 8 0), (by_account 1, TkMint 8)])) 0 = Some 7"
  by (rule ticket_soulbound [THEN conjunct1, OF demo_oz_laws]) (simp_all add: nft_eval)

text \<open>The ticket supply cap holds. From construction on a fresh token store with cap \<open>cap\<close>
  (0 meaning none), after any calls the stored counter is the number of tokens that exist, and it
  never exceeds a non-zero cap; minting pauses and failed calls included.\<close>
theorem ticket_supply_capped:
  assumes "oz_laws oz" "oz_owner_of oz n = Map.empty"
  shows "\<exists>m. Tk_Minted (tk_cfg (run (ticket_step oz) (ticket_constructor oz n owner cap) calls)) = Some m \<and>
    card (dom (oz_owner_of oz (tk_base (run (ticket_step oz) (ticket_constructor oz n owner cap) calls)))) = m \<and>
    (cap \<noteq> 0 \<longrightarrow> m \<le> cap)"
proof -
  have "ticket_supply_ok oz 0 cap (ticket_constructor oz n owner cap)"
    using assms by (simp add: ticket_constructor_def supply_ok_def oz_owner_laws Let_def)
  with assms(1) have "ticket_supply_ok oz 0 cap (run (ticket_step oz) (ticket_constructor oz n owner cap) calls)"
    using ticket.run_inv [of oz 0 cap "ticket_constructor oz n owner cap" calls] by (simp add: list_all_iff)
  then show ?thesis by (auto simp: supply_ok_def)
qed

theorem ticket_supply_capped_witness:
  "Tk_Minted (tk_cfg (run (ticket_step demo_oz) (ticket_constructor demo_oz demo_nft0 1 1)
     [(by_account 1, TkMint 7), (by_account 1, TkMint 8)])) = Some 1 \<and>
   (\<exists>m \<le> 1. Tk_Minted (tk_cfg (run (ticket_step demo_oz) (ticket_constructor demo_oz demo_nft0 1 1)
     [(by_account 1, TkMint 7), (by_account 1, TkMint 8)])) = Some m)"
proof
  show "Tk_Minted (tk_cfg (run (ticket_step demo_oz) (ticket_constructor demo_oz demo_nft0 1 1)
     [(by_account 1, TkMint 7), (by_account 1, TkMint 8)])) = Some 1"
    by (simp add: nft_eval)
  show "\<exists>m \<le> 1. Tk_Minted (tk_cfg (run (ticket_step demo_oz) (ticket_constructor demo_oz demo_nft0 1 1)
     [(by_account 1, TkMint 7), (by_account 1, TkMint 8)])) = Some m"
    using ticket_supply_capped [of demo_oz demo_nft0 1 1 "[(by_account 1, TkMint 7), (by_account 1, TkMint 8)]"]
    by (auto simp: demo_oz_laws) (auto simp: demo_oz_def demo_nft0_def)
qed

text \<open>Royalties and the collectible supply are the owner's alone. A call of a collectible that does
  not carry the contract owner's authorization mints nothing and leaves the royalty quoted for every
  token at every sale price as it was; and from construction on a fresh store (which refuses a default
  royalty above 100 percent) the number of tokens never exceeds a non-zero cap.\<close>
theorem royalties_need_owner:
  assumes "oz_laws oz" "oz_owner_of oz n = Map.empty"
    and "collectible_constructor oz n owner receiver bps cap = Inr w0"
    and "w = run (collectible_step oz) w0 calls"
    and "\<not> oz_enforce_owner oz e (co_base w)" "collectible_step oz w (e, c) = Inr w'"
  shows "royalty_info oz w' t p = royalty_info oz w t p \<and>
    dom (oz_owner_of oz (co_base w')) = dom (oz_owner_of oz (co_base w)) \<and> bps \<le> COLLECTIBLE_MAX_BPS \<and>
    (cap \<noteq> 0 \<longrightarrow> card (dom (oz_owner_of oz (co_base w))) \<le> cap)"
proof -
  from assms(1-3) have "collectible_supply_ok oz 0 cap w0" and bps: "bps \<le> COLLECTIBLE_MAX_BPS"
    by (auto simp: collectible_constructor_def supply_ok_def oz_owner_laws Let_def result_simps split: if_splits)
  then have "collectible_supply_ok oz 0 cap w"
    using collectible.run_inv [of oz 0 cap w0 calls] assms(1,4) by (simp add: list_all_iff)
  then have cap: "cap \<noteq> 0 \<longrightarrow> card (dom (oz_owner_of oz (co_base w))) \<le> cap" by (auto simp: supply_ok_def)
  have "royalty_info oz w' t p = royalty_info oz w t p \<and>
    dom (oz_owner_of oz (co_base w')) = dom (oz_owner_of oz (co_base w))"
  proof (cases c)
    case (CoTransfer f r i)
    with assms(6) obtain x where x: "oz_transfer oz e f r i (co_base w) = Some x" "w' = w\<lparr>co_base := x\<rparr>"
      by (auto simp: collectible_step_def result_simps)
    with oz_transfer_law [OF assms(1) x(1)] oz_transfer_dom(1) [OF assms(1) x(1)] show ?thesis
      by (simp add: royalty_info_def)
  next
    case (CoTransferFrom s f r i)
    with assms(6) obtain x where x: "oz_transfer_from oz e s f r i (co_base w) = Some x"
      "w' = w\<lparr>co_base := x\<rparr>"
      by (auto simp: collectible_step_def result_simps)
    with oz_transfer_from_law [OF assms(1) x(1)] oz_transfer_dom(2) [OF assms(1) x(1)] show ?thesis
      by (simp add: royalty_info_def)
  next
    case (CoOther k)
    with assms(1,6) show ?thesis
      by (auto simp: collectible_step_def royalty_info_def result_simps dest!: oz_other_law)
  qed (use assms(5,6) in \<open>auto simp: collectible_step_def collectible_mint_def collectible_set_paused_def
        set_default_royalty_def set_token_royalty_def remove_token_royalty_def result_simps\<close>)
  with bps cap show ?thesis by blast
qed

theorem royalties_need_owner_witness:
  "\<exists>w' w0. collectible_constructor demo_oz demo_nft0 1 5 1000 2 = Inr w0 \<and>
     collectible_step demo_oz (run (collectible_step demo_oz) w0 [(by_account 1, CoMint 7)])
       (by_account 7, CoTransfer 7 8 0) = Inr w' \<and> royalty_info demo_oz w' 0 50 = Some (5, 5)"
proof -
  obtain w0 where w0: "collectible_constructor demo_oz demo_nft0 1 5 1000 2 = Inr w0"
    by (simp add: nft_eval)
  let ?w = "run (collectible_step demo_oz) w0 [(by_account 1, CoMint 7)]"
  have na: "\<not> oz_enforce_owner demo_oz (by_account 7) (co_base ?w)"
    and r: "royalty_info demo_oz ?w 0 50 = Some (5, 5)"
    and ex: "\<exists>w'. collectible_step demo_oz ?w (by_account 7, CoTransfer 7 8 0) = Inr w'"
    using w0 by (auto simp: nft_eval)
  from ex obtain w' where s: "collectible_step demo_oz ?w (by_account 7, CoTransfer 7 8 0) = Inr w'" ..
  have "oz_owner_of demo_oz demo_nft0 = Map.empty" by (simp add: demo_oz_def demo_nft0_def)
  from royalties_need_owner [OF demo_oz_laws this w0 refl na s, of 0 50] r s w0 show ?thesis by auto
qed

end
