(* ===== verification/Api_Core.thy ===== *)
theory Api_Core
  imports CF_Prelude "HOL-Library.List_Lexorder" "HOL-Library.Char_ord" "HOL-Library.Product_Lexorder"
begin

text \<open>
  What the HTTP handlers of \<open>services/api\<close> share: the error type (\<open>error.rs\<close>), request headers and the
  two guards on them, JSON values, and the text validators that every module repeats with its own
  error code.

  Text is the UTF-8 byte sequence of the Rust string, one HOL \<open>char\<close> per byte, so that \<open>len\<close> is
  \<open>length\<close>. A UUID is its canonical text. Third-party code is a field of \<open>env\<close>: SHA-256 with
  hexadecimal output, the UUID and RFC 3339 parsers, the serde_json writer and the form of a timestamp in JSON.
\<close>

section \<open>Errors\<close>

datatype api_error =
    NotFound | InvalidRequest string | Conflict string | DuplicateVote | VotingClosed
  | Unauthorized | Forbidden | Database | Storage string | ServiceUnavailable string

record ErrorBody =
  eb_ok :: bool
  eb_error :: string
  eb_detail :: "string option"

fun error_text :: "api_error \<Rightarrow> string" where
  "error_text NotFound = ''not_found''"
| "error_text (InvalidRequest c) = ''invalid_request: '' @ c"
| "error_text (Conflict c) = ''conflict: '' @ c"
| "error_text DuplicateVote = ''duplicate_vote''"
| "error_text VotingClosed = ''voting_closed''"
| "error_text Unauthorized = ''unauthorized''"
| "error_text Forbidden = ''forbidden''"
| "error_text Database = ''database_error''"
| "error_text (Storage c) = ''storage_error: '' @ c"
| "error_text (ServiceUnavailable c) = ''service_unavailable: '' @ c"

fun error_status :: "api_error \<Rightarrow> nat" where
  "error_status NotFound = 404"
| "error_status (InvalidRequest _) = 400"
| "error_status (Conflict _) = 409"
| "error_status DuplicateVote = 409"
| "error_status VotingClosed = 409"
| "error_status Unauthorized = 401"
| "error_status Forbidden = 403"
| "error_status Database = 500"
| "error_status (Storage _) = 502"
| "error_status (ServiceUnavailable _) = 503"

definition into_response :: "api_error \<Rightarrow> nat \<times> ErrorBody" where
  "into_response e = (error_status e, \<lparr>eb_ok = False, eb_error = error_text e, eb_detail = None\<rparr>)"

section \<open>JSON\<close>

datatype json =
    JNull | JBool bool | JInt int | JReal string | JStr string | JArr "json list"
  | JObj "(string \<times> json) list"

fun is_object :: "json \<Rightarrow> bool" where
  "is_object (JObj _) = True"
| "is_object _ = False"

section \<open>The environment of a request\<close>

type_synonym uuid = string

text \<open>The configuration read by the handlers and the third-party functions they call.\<close>

record env =
  web_internal_token :: string
  api_mode :: string
  admin_demo_token :: string
  payout_worker_token :: "string option"
  database_configured :: bool
  sha256_hex :: "string \<Rightarrow> string"
  parse_uuid :: "string \<Rightarrow> uuid option"
  parse_rfc3339 :: "string \<Rightarrow> int option"
  json_to_vec :: "json \<Rightarrow> string"
  timestamp_json :: "int \<Rightarrow> json"

text \<open>The values a single request draws from outside: the \<open>n\<close>-th \<open>Uuid::new_v4\<close>, the \<open>n\<close>-th reading of
  the wall clock and the SQL \<open>now()\<close> of its transaction.\<close>

record draws =
  new_uuid :: "nat \<Rightarrow> uuid"
  now_utc :: "nat \<Rightarrow> int"
  sql_now :: int

text \<open>Header values whose \<open>to_str\<close> succeeds; a header that is absent or not visible ASCII is \<open>None\<close>.\<close>

type_synonym headers = "string \<rightharpoonup> string"

definition header_or_default :: "headers \<Rightarrow> string \<Rightarrow> string" where
  "header_or_default hdrs name = (case hdrs name of None \<Rightarrow> '''' | Some v \<Rightarrow> v)"

definition require_web_token :: "env \<Rightarrow> headers \<Rightarrow> api_error + unit" where
  "require_web_token env hdrs =
     (if web_internal_token env = '''' \<or> header_or_default hdrs ''x-crownfi-web-token'' \<noteq> web_internal_token env
      then Inl Unauthorized else Inr ())"

definition require_web_actor :: "env \<Rightarrow> headers \<Rightarrow> api_error + uuid" where
  "require_web_actor env hdrs =
     (let provided = header_or_default hdrs ''x-crownfi-web-token'' in
      if web_internal_token env = '''' \<or> provided \<noteq> web_internal_token env then Inl Unauthorized
      else case hdrs ''x-crownfi-user-id'' of
          None \<Rightarrow> Inl Unauthorized
        | Some value \<Rightarrow> ok_or (parse_uuid env value) Unauthorized)"

definition require_worker :: "env \<Rightarrow> headers \<Rightarrow> api_error + unit" where
  "require_worker env hdrs =
     (let provided = header_or_default hdrs ''x-crownfi-payout-worker-token'' in
      case payout_worker_token env of
        Some expected \<Rightarrow> if expected \<noteq> '''' \<and> provided = expected then Inr () else Inl Unauthorized
      | None \<Rightarrow> Inl Unauthorized)"

definition database_pool :: "env \<Rightarrow> api_error + unit" where
  "database_pool env = guard (database_configured env) (ServiceUnavailable ''database_not_configured'')"

definition hash_text :: "env \<Rightarrow> string \<Rightarrow> string" where
  "hash_text env value = sha256_hex env value"

section \<open>Text\<close>

text \<open>The UTF-8 encodings of the characters with the Unicode property White_Space.\<close>

definition white_space :: "string list" where
  "white_space =
     [[CHR 0x09], [CHR 0x0A], [CHR 0x0B], [CHR 0x0C], [CHR 0x0D], [CHR 0x20],
      [CHR 0xC2, CHR 0x85], [CHR 0xC2, CHR 0xA0], [CHR 0xE1, CHR 0x9A, CHR 0x80],
      [CHR 0xE2, CHR 0x80, CHR 0x80], [CHR 0xE2, CHR 0x80, CHR 0x81], [CHR 0xE2, CHR 0x80, CHR 0x82],
      [CHR 0xE2, CHR 0x80, CHR 0x83], [CHR 0xE2, CHR 0x80, CHR 0x84], [CHR 0xE2, CHR 0x80, CHR 0x85],
      [CHR 0xE2, CHR 0x80, CHR 0x86], [CHR 0xE2, CHR 0x80, CHR 0x87], [CHR 0xE2, CHR 0x80, CHR 0x88],
      [CHR 0xE2, CHR 0x80, CHR 0x89], [CHR 0xE2, CHR 0x80, CHR 0x8A], [CHR 0xE2, CHR 0x80, CHR 0xA8],
      [CHR 0xE2, CHR 0x80, CHR 0xA9], [CHR 0xE2, CHR 0x80, CHR 0xAF], [CHR 0xE2, CHR 0x81, CHR 0x9F],
      [CHR 0xE3, CHR 0x80, CHR 0x80]]"

definition starts_with_one :: "string list \<Rightarrow> string \<Rightarrow> string option" where
  "starts_with_one encs s = find (\<lambda>w. w \<noteq> [] \<and> take (length w) s = w) encs"

lemma starts_with_one_length: "starts_with_one encs s = Some w \<Longrightarrow> 0 < length w \<and> length w \<le> length s"
  unfolding starts_with_one_def by (auto simp: find_Some_iff) (metis length_take min.cobounded1)

function strip_leading :: "string list \<Rightarrow> string \<Rightarrow> string" where
  "strip_leading encs s =
     (case starts_with_one encs s of None \<Rightarrow> s | Some w \<Rightarrow> strip_leading encs (drop (length w) s))"
  by pat_completeness auto
termination
proof (relation "measure (\<lambda>(encs, s). length s)")
  fix encs s w
  assume "starts_with_one encs s = Some w"
  then show "((encs, drop (length w) s), (encs, s)) \<in> measure (\<lambda>(encs, s). length s)"
    using starts_with_one_length [of encs s w] by (cases s) auto
qed simp

declare strip_leading.simps [simp del]

definition trim :: "string \<Rightarrow> string" where
  "trim s = rev (strip_leading (map rev white_space) (rev (strip_leading white_space s)))"

definition byte_in :: "nat \<Rightarrow> nat \<Rightarrow> char \<Rightarrow> bool" where
  "byte_in lo hi c \<longleftrightarrow> lo \<le> (of_char c :: nat) \<and> (of_char c :: nat) \<le> hi"

definition ascii_lowercase_char :: "char \<Rightarrow> char" where
  "ascii_lowercase_char c = (if byte_in 65 90 c then char_of ((of_char c :: nat) + 32) else c)"

definition ascii_uppercase_char :: "char \<Rightarrow> char" where
  "ascii_uppercase_char c = (if byte_in 97 122 c then char_of ((of_char c :: nat) - 32) else c)"

definition to_ascii_lowercase :: "string \<Rightarrow> string" where
  "to_ascii_lowercase s = map ascii_lowercase_char s"

definition to_ascii_uppercase :: "string \<Rightarrow> string" where
  "to_ascii_uppercase s = map ascii_uppercase_char s"

definition is_ascii_digit :: "char \<Rightarrow> bool" where "is_ascii_digit c = byte_in 48 57 c"
definition is_ascii_lowercase :: "char \<Rightarrow> bool" where "is_ascii_lowercase c = byte_in 97 122 c"
definition is_ascii_uppercase :: "char \<Rightarrow> bool" where "is_ascii_uppercase c = byte_in 65 90 c"
definition is_ascii_hexdigit :: "char \<Rightarrow> bool" where
  "is_ascii_hexdigit c = (is_ascii_digit c \<or> byte_in 65 70 c \<or> byte_in 97 102 c)"

fun split_on :: "char \<Rightarrow> string \<Rightarrow> string list" where
  "split_on sep [] = [[]]"
| "split_on sep (c # s) =
     (if c = sep then [] # split_on sep s
      else case split_on sep s of [] \<Rightarrow> [[c]] | p # ps \<Rightarrow> (c # p) # ps)"

definition required_text :: "string \<Rightarrow> nat \<Rightarrow> string \<Rightarrow> api_error + string" where
  "required_text value max_a code =
     (let value = trim value in
      if value = '''' \<or> length value > max_a then Inl (InvalidRequest code) else Inr value)"

definition optional_text :: "string option \<Rightarrow> nat \<Rightarrow> string \<Rightarrow> api_error + string option" where
  "optional_text value max_a code =
     (case value of None \<Rightarrow> Inr None
      | Some v \<Rightarrow> map_sum id Some (required_text v max_a code))"

definition parse_timestamp :: "env \<Rightarrow> string \<Rightarrow> string \<Rightarrow> api_error + int" where
  "parse_timestamp env value code = ok_or (parse_rfc3339 env (trim value)) (InvalidRequest code)"

definition is_hash :: "string \<Rightarrow> bool" where
  "is_hash s \<longleftrightarrow> length s = 64 \<and> list_all is_ascii_hexdigit s"

definition validate_hash :: "string \<Rightarrow> string \<Rightarrow> api_error + string" where
  "validate_hash value code =
     (let value = to_ascii_lowercase (trim value) in
      if length value = 64 \<and> list_all is_ascii_hexdigit value then Inr value
      else Inl (InvalidRequest code))"

definition is_base32_char :: "char \<Rightarrow> bool" where
  "is_base32_char c \<longleftrightarrow> is_ascii_uppercase c \<or> byte_in 50 55 c"

text \<open>Stellar account (\<open>G...\<close>) and contract (\<open>C...\<close>) identifiers; only the shape is checked.\<close>

definition validate_strkey :: "char \<Rightarrow> string \<Rightarrow> string \<Rightarrow> api_error + string" where
  "validate_strkey first value code =
     (let value = to_ascii_uppercase (trim value) in
      if length value = 56 \<and> take 1 value = [first] \<and> list_all is_base32_char (drop 1 value)
      then Inr value else Inl (InvalidRequest code))"

text \<open>Numbers as text.\<close>

fun decimal_nat :: "nat \<Rightarrow> string" where
  "decimal_nat n = (if n < 10 then [char_of (48 + n)] else decimal_nat (n div 10) @ [char_of (48 + n mod 10)])"

declare decimal_nat.simps [simp del]

definition decimal :: "int \<Rightarrow> string" where
  "decimal i = (if i < 0 then CHR ''-'' # decimal_nat (nat (- i)) else decimal_nat (nat i))"

text \<open>What PostgreSQL's \<open>CHECK\<close> constraints see of text: characters and trimming of spaces.\<close>

definition char_length :: "string \<Rightarrow> nat" where
  "char_length s = length (filter (\<lambda>c. \<not> byte_in 128 191 c) s)"

definition btrim :: "string \<Rightarrow> string" where
  "btrim s = rev (dropWhile (\<lambda>c. c = CHR '' '') (rev (dropWhile (\<lambda>c. c = CHR '' '') s)))"

definition text_between :: "nat \<Rightarrow> nat \<Rightarrow> string \<Rightarrow> bool" where
  "text_between lo hi s \<longleftrightarrow> lo \<le> char_length (btrim s) \<and> char_length (btrim s) \<le> hi"

definition is_sha256_text :: "string \<Rightarrow> bool" where
  "is_sha256_text s \<longleftrightarrow> length s = 64 \<and> list_all (\<lambda>c. is_ascii_digit c \<or> byte_in 97 102 c) s"

definition slug_text :: "string \<Rightarrow> bool" where
  "slug_text s \<longleftrightarrow> list_all (\<lambda>part. part \<noteq> '''' \<and> list_all (\<lambda>c. is_ascii_lowercase c \<or> is_ascii_digit c) part)
     (split_on CHR ''-'' s)"

section \<open>Inversion of the validators\<close>

lemma required_text_Inr [result_simps]:
  "required_text v m c = Inr t \<longleftrightarrow> t = trim v \<and> t \<noteq> '''' \<and> length t \<le> m"
  by (auto simp: required_text_def Let_def)

lemma validate_hash_Inr [result_simps]:
  "validate_hash v c = Inr t \<longleftrightarrow> t = to_ascii_lowercase (trim v) \<and> is_hash t"
  by (auto simp: validate_hash_def Let_def is_hash_def)

lemma database_pool_Inr [result_simps]: "database_pool env = Inr u \<longleftrightarrow> database_configured env"
  by (simp add: database_pool_def guard_Inr)

lemma require_web_actor_Inr [result_simps]:
  "require_web_actor env hdrs = Inr u \<longleftrightarrow>
     web_internal_token env \<noteq> '''' \<and> header_or_default hdrs ''x-crownfi-web-token'' = web_internal_token env \<and>
     (\<exists>value. hdrs ''x-crownfi-user-id'' = Some value \<and> parse_uuid env value = Some u)"
  by (auto simp: require_web_actor_def Let_def ok_or_Inr split: option.splits)

lemma require_worker_Inr [result_simps]:
  "require_worker env hdrs = Inr u \<longleftrightarrow>
     (\<exists>expected. payout_worker_token env = Some expected \<and> expected \<noteq> '''' \<and>
       header_or_default hdrs ''x-crownfi-payout-worker-token'' = expected)"
  by (auto simp: require_worker_def Let_def split: option.splits if_splits)

lemma of_char_ascii_lowercase:
  "(of_char (ascii_lowercase_char c) :: nat) = (if byte_in 65 90 c then of_char c + 32 else of_char c)"
  by (auto simp: ascii_lowercase_char_def byte_in_def)

lemma ascii_lowercase_idem: "ascii_lowercase_char (ascii_lowercase_char c) = ascii_lowercase_char c"
proof (cases "byte_in 65 90 c")
  case True
  then have "\<not> byte_in 65 90 (ascii_lowercase_char c)"
    by (simp add: byte_in_def of_char_ascii_lowercase)
  then show ?thesis by (simp add: ascii_lowercase_char_def [of "ascii_lowercase_char c"])
qed (simp add: ascii_lowercase_char_def)

lemma to_ascii_lowercase_idem [simp]: "to_ascii_lowercase (to_ascii_lowercase s) = to_ascii_lowercase s"
  by (simp add: to_ascii_lowercase_def ascii_lowercase_idem)

text \<open>A lower-cased run of hexadecimal digits is what the database stores as a hash.\<close>

lemma hash_lower:
  assumes "is_hash (to_ascii_lowercase s)"
  shows "is_sha256_text (to_ascii_lowercase s)"
proof -
  have "is_ascii_digit c \<or> byte_in 97 102 c"
    if "c \<in> set (to_ascii_lowercase s)" "is_ascii_hexdigit c" for c
  proof -
    from that(1) obtain b where c: "c = ascii_lowercase_char b" by (auto simp: to_ascii_lowercase_def)
    then have "\<not> byte_in 65 70 c" by (auto simp: byte_in_def of_char_ascii_lowercase)
    with that(2) show ?thesis by (auto simp: is_ascii_hexdigit_def)
  qed
  with assms show ?thesis by (auto simp: is_hash_def is_sha256_text_def list_all_iff)
qed

lemma strip_leading_none: "starts_with_one encs s = None \<Longrightarrow> strip_leading encs s = s"
  by (simp add: strip_leading.simps [of encs s])

lemma starts_with_one_strip: "starts_with_one encs (strip_leading encs s) = None"
  by (induction encs s rule: strip_leading.induct)
    (subst strip_leading.simps, auto split: option.splits)

text \<open>Text without white space at its ends is kept by \<open>trim\<close>.\<close>

lemma trim_plain:
  "starts_with_one white_space s = None \<Longrightarrow> starts_with_one (map rev white_space) (rev s) = None \<Longrightarrow> trim s = s"
  by (simp add: trim_def strip_leading_none)

end
