(* ===== verification/Api_Store.thy ===== *)
theory Api_Store
  imports Api_Core
begin

text \<open>
  The relational store under the handlers. A table is the list of its rows; the SQL statements of the
  handlers are written with \<open>sql_insert\<close> (checks, then unique constraints), \<open>sql_update\<close>, \<open>find\<close> and
  \<open>filter\<close>. A handler body runs in \<open>transaction\<close>: an error discards every write. The locale
  \<open>keyed_table\<close> is the contract of a unique constraint. Foreign keys are implied wherever the handler
  has read the referenced row in the same transaction, and are not checked again.
\<close>

section \<open>Statements\<close>

datatype db_error =
    Unique_violation | Foreign_key_violation | Check_violation | Invalid_text_representation
  | Numeric_out_of_range | Other_database_error | Connection_error

definition sql_insert :: "('r \<Rightarrow> bool) \<Rightarrow> ('r \<Rightarrow> 'r \<Rightarrow> bool) \<Rightarrow> 'r \<Rightarrow> 'r list \<Rightarrow> db_error + 'r list" where
  "sql_insert check clash row rows =
     (if \<not> check row then Inl Check_violation
      else if list_ex (clash row) rows then Inl Unique_violation
      else Inr (rows @ [row]))"

definition sql_update :: "('r \<Rightarrow> bool) \<Rightarrow> ('r \<Rightarrow> 'r) \<Rightarrow> 'r list \<Rightarrow> 'r list" where
  "sql_update p f rows = map (\<lambda>r. if p r then f r else r) rows"

definition sql_count :: "('r \<Rightarrow> bool) \<Rightarrow> 'r list \<Rightarrow> int" where
  "sql_count p rows = int (length (filter p rows))"

text \<open>An update that touches a unique column, \<open>SUM(..)::BIGINT\<close>, and \<open>+\<close> on \<open>BIGINT\<close>.\<close>

definition sql_update_unique ::
  "('r \<Rightarrow> 'r \<Rightarrow> bool) \<Rightarrow> ('r \<Rightarrow> bool) \<Rightarrow> ('r \<Rightarrow> 'r) \<Rightarrow> 'r list \<Rightarrow> db_error + 'r list" where
  "sql_update_unique clash p f rows =
     (if list_ex (\<lambda>r. p r \<and> list_ex (\<lambda>s. \<not> p s \<and> clash (f r) s) rows) rows then Inl Unique_violation
      else Inr (sql_update p f rows))"

definition sql_bigint :: "int \<Rightarrow> db_error + int" where
  "sql_bigint x = ok_or (checked_i64 x) Numeric_out_of_range"

definition sql_sum :: "('r \<Rightarrow> int) \<Rightarrow> ('r \<Rightarrow> bool) \<Rightarrow> 'r list \<Rightarrow> int" where
  "sql_sum g p rows = (\<Sum>r \<leftarrow> filter p rows. g r)"

definition coalesce :: "'a option \<Rightarrow> 'a \<Rightarrow> 'a option" where
  "coalesce m d = (case m of None \<Rightarrow> Some d | Some x \<Rightarrow> Some x)"

definition or_db_error :: "(db_error \<Rightarrow> api_error) \<Rightarrow> db_error + 'a \<Rightarrow> api_error + 'a" where
  "or_db_error f m = map_sum f id m"

text \<open>PostgreSQL rejects a statement that names a column its table does not have, whatever the rows are.\<close>

definition sql_prepare :: "string list \<Rightarrow> string list \<Rightarrow> db_error + unit" where
  "sql_prepare columns named = guard (list_all (List.member columns) named) Other_database_error"

text \<open>A transaction: an error rolls back. What the handler reads after the commit is \<open>then_read\<close>.\<close>

definition transaction :: "('d \<Rightarrow> 'e + 'a \<times> 'd) \<Rightarrow> 'd \<Rightarrow> ('e + 'a) \<times> 'd" where
  "transaction body d = (case body d of Inl e \<Rightarrow> (Inl e, d) | Inr (x, d') \<Rightarrow> (Inr x, d'))"

definition then_read :: "('e + 'a) \<times> 'd \<Rightarrow> ('a \<Rightarrow> 'd \<Rightarrow> 'e + 'b) \<Rightarrow> ('e + 'b) \<times> 'd" where
  "then_read r f = (bind_result (fst r) (\<lambda>x. f x (snd r)), snd r)"

lemma sql_insert_Inr [result_simps]:
  "sql_insert check clash row rows = Inr rows' \<longleftrightarrow>
     check row \<and> (\<forall>r \<in> set rows. \<not> clash row r) \<and> rows' = rows @ [row]"
  by (auto simp: sql_insert_def list_ex_iff)

lemma or_db_error_Inr [result_simps]: "or_db_error f m = Inr x \<longleftrightarrow> m = Inr x"
  by (cases m) (simp_all add: or_db_error_def)

lemma or_db_error_simps [simp]: "or_db_error f (Inr x) = Inr x" "or_db_error f (Inl e) = Inl (f e)"
  by (simp_all add: or_db_error_def)

lemma transaction_Inr: "transaction body d = (Inr x, d') \<longleftrightarrow> body d = Inr (x, d')"
  by (auto simp: transaction_def split: sum.splits)

lemma transaction_cases:
  obtains (rolled_back) e where "transaction body d = (Inl e, d)" "body d = Inl e"
  | (committed) x d' where "transaction body d = (Inr x, d')" "body d = Inr (x, d')"
proof (cases "body d")
  case (Inl e)
  then show ?thesis using rolled_back by (simp add: transaction_def)
next
  case (Inr y)
  then show ?thesis using committed [of "fst y" "snd y"] by (cases y) (simp add: transaction_def)
qed

lemma snd_then_read [simp]: "snd (then_read r f) = snd r"
  by (simp add: then_read_def)

lemma then_read_Inr: "then_read r f = (Inr y, d) \<longleftrightarrow> (\<exists>x. fst r = Inr x \<and> f x (snd r) = Inr y) \<and> snd r = d"
  by (auto simp: then_read_def bind_result_Inr)

lemma snd_transaction: "snd (transaction body d) = (case body d of Inl e \<Rightarrow> d | Inr r \<Rightarrow> snd r)"
  by (auto simp: transaction_def split: sum.splits)

lemma set_sql_update: "set (sql_update p f rows) = (\<lambda>r. if p r then f r else r) ` set rows"
  by (simp add: sql_update_def)

lemma map_sql_update: "(\<And>r. p r \<Longrightarrow> g (f r) = g r) \<Longrightarrow> map g (sql_update p f rows) = map g rows"
  by (simp add: sql_update_def)

lemma length_sql_update [simp]: "length (sql_update p f rows) = length rows"
  by (simp add: sql_update_def)

lemma find_sql_update:
  "(\<And>r. p r \<Longrightarrow> q (f r) = q r) \<Longrightarrow>
   find q (sql_update p f rows) = map_option (\<lambda>r. if p r then f r else r) (find q rows)"
  by (induction rows) (auto simp: sql_update_def)

lemma find_Some_in: "find p xs = Some x \<Longrightarrow> x \<in> set xs \<and> p x"
  by (metis find_Some_iff nth_mem)

lemma find_append: "find p (xs @ ys) = (case find p xs of None \<Rightarrow> find p ys | Some x \<Rightarrow> Some x)"
  by (induction xs) auto

lemma in_sql_update_self:
  "r \<in> set (sql_update p f rows) \<Longrightarrow> (\<exists>s \<in> set rows. r = (if p s then f s else s))"
  by (auto simp: set_sql_update)

section \<open>Unique constraints\<close>

text \<open>A table with a unique constraint: rows that agree on \<open>key\<close> clash.\<close>

locale keyed_table =
  fixes key :: "'r \<Rightarrow> 'k"
    and clash :: "'r \<Rightarrow> 'r \<Rightarrow> bool"
  assumes key_clash: "key r = key s \<Longrightarrow> clash r s"
begin

lemma insert_new:
  "sql_insert check clash row rows = Inr rows' \<Longrightarrow> key row \<notin> key ` set rows"
  by (auto simp: sql_insert_Inr dest: key_clash)

lemma insert_distinct:
  "distinct (map key rows) \<Longrightarrow> sql_insert check clash row rows = Inr rows' \<Longrightarrow> distinct (map key rows')"
  using insert_new [of check row rows rows'] by (auto simp: sql_insert_Inr)

lemma insert_duplicate:
  "check row \<Longrightarrow> key row \<in> key ` set rows \<Longrightarrow> sql_insert check clash row rows = Inl Unique_violation"
  by (auto simp: sql_insert_def list_ex_iff dest: key_clash)

lemma update_distinct:
  "distinct (map key rows) \<Longrightarrow> (\<And>r. p r \<Longrightarrow> key (f r) = key r) \<Longrightarrow> distinct (map key (sql_update p f rows))"
  by (simp add: map_sql_update)

lemma find_key:
  assumes "distinct (map key rows)" "r \<in> set rows"
  shows "find (\<lambda>s. key s = key r) rows = Some r"
proof -
  have "find (\<lambda>s. key s = key r) rows \<noteq> None" using assms(2) by (auto simp: find_None_iff)
  then obtain x where x: "find (\<lambda>s. key s = key r) rows = Some x" by blast
  from find_Some_in [OF x] assms have "x = r" by (auto simp: distinct_map dest: inj_onD)
  with x show ?thesis by simp
qed

lemma find_inserted:
  assumes "sql_insert check clash row rows = Inr rows'"
  shows "find (\<lambda>s. key s = key row) rows' = Some row"
proof -
  from insert_new [OF assms] have "find (\<lambda>s. key s = key row) rows = None"
    by (auto simp: find_None_iff image_iff)
  with assms show ?thesis by (simp add: sql_insert_Inr find_append)
qed

lemma find_other:
  assumes "sql_insert check clash row rows = Inr rows'" "k \<noteq> key row"
  shows "find (\<lambda>s. key s = k) rows' = find (\<lambda>s. key s = k) rows"
  using assms by (auto simp: sql_insert_Inr find_append split: option.splits)

end

section \<open>Tables shared by the modules\<close>

record user_row =
  us_id :: uuid
  us_status :: string
  us_display_name :: string
  us_email :: "string option"
  us_created_at :: int
  us_updated_at :: int

record stellar_account_row =
  sa_id :: uuid
  sa_user_id :: uuid
  sa_network :: string
  sa_address :: string
  sa_is_primary :: bool
  sa_verified_at :: "int option"
  sa_created_at :: int

record organization_row =
  og_id :: uuid
  og_name :: string
  og_slug :: string
  og_status :: string
  og_created_by_user_id :: uuid
  og_created_at :: int
  og_updated_at :: int

record site_administrator_row =
  ad_user_id :: uuid
  ad_role :: string
  ad_status :: string
  ad_granted_by_user_id :: "uuid option"
  ad_created_at :: int
  ad_updated_at :: int

record organization_member_row =
  om_organization_id :: uuid
  om_user_id :: uuid
  om_role :: string
  om_status :: string
  om_invited_by_user_id :: "uuid option"
  om_created_at :: int
  om_updated_at :: int

record pageant_row =
  pg_id :: uuid
  pg_organization_id :: uuid
  pg_status :: string
  pg_name :: string
  pg_slug :: string
  pg_description :: "string option"
  pg_starts_at :: "int option"
  pg_ends_at :: "int option"
  pg_timezone :: string
  pg_venue_name :: "string option"
  pg_created_by_user_id :: uuid
  pg_created_at :: int
  pg_updated_at :: int

record category_row =
  cat_id :: uuid
  cat_pageant_id :: uuid
  cat_name :: string
  cat_slug :: string
  cat_description :: "string option"
  cat_status :: string
  cat_sort_order :: int
  cat_created_at :: int
  cat_updated_at :: int

record contestant_row =
  ct_id :: uuid
  ct_display_name :: string
  ct_country_code :: "string option"
  ct_legal_name :: "string option"
  ct_biography :: "string option"
  ct_created_by_user_id :: uuid
  ct_created_at :: int
  ct_updated_at :: int

record pageant_contestant_row =
  pc_id :: uuid
  pc_pageant_id :: uuid
  pc_contestant_id :: uuid
  pc_status :: string
  pc_sash :: "string option"
  pc_country_representation :: "string option"
  pc_contestant_number :: "int option"
  pc_payout_stellar_account_id :: "uuid option"
  pc_profile_json :: json
  pc_sort_order :: int
  pc_created_at :: int
  pc_updated_at :: int

record contestant_media_row =
  cm_id :: uuid
  cm_pageant_contestant_id :: uuid
  cm_media_asset_id :: uuid
  cm_role :: string
  cm_caption :: "string option"
  cm_sort_order :: int
  cm_created_at :: int

record media_asset_row =
  ma_id :: uuid
  ma_organization_id :: uuid
  ma_uploaded_by_user_id :: uuid
  ma_storage_provider :: string
  ma_bucket :: string
  ma_object_key :: string
  ma_original_filename :: string
  ma_content_type :: string
  ma_byte_size :: int
  ma_width :: "int option"
  ma_height :: "int option"
  ma_sha256 :: string
  ma_visibility :: string
  ma_status :: string
  ma_alt_text :: "string option"
  ma_created_at :: int
  ma_updated_at :: int

record ContractDeploymentRecord =
  cd_id :: uuid
  cd_network :: string
  cd_contract_kind :: string
  cd_contract_id :: string
  cd_wasm_sha256 :: "string option"
  cd_source_commit :: "string option"
  cd_deployment_tx_hash :: "string option"
  cd_status :: string
  cd_metadata :: json
  cd_created_by_user_id :: uuid
  cd_created_at :: int
  cd_updated_at :: int

record audit_row =
  al_id :: uuid
  al_organization_id :: "uuid option"
  al_actor_user_id :: "uuid option"
  al_action :: string
  al_entity_type :: string
  al_entity_id :: "uuid option"
  al_metadata :: json

record core_db =
  users :: "user_row list"
  stellar_accounts :: "stellar_account_row list"
  organizations :: "organization_row list"
  site_administrators :: "site_administrator_row list"
  organization_members :: "organization_member_row list"
  pageants :: "pageant_row list"
  categories :: "category_row list"
  contestants :: "contestant_row list"
  pageant_contestants :: "pageant_contestant_row list"
  category_memberships :: "(uuid \<times> uuid) list"
  contestant_media :: "contestant_media_row list"
  media_assets :: "media_asset_row list"
  contract_deployments :: "ContractDeploymentRecord list"
  audit_logs :: "audit_row list"

definition site_role :: "uuid \<Rightarrow> string list \<Rightarrow> ('x) core_db_scheme \<Rightarrow> bool" where
  "site_role user roles d = list_ex (\<lambda>a. ad_user_id a = user \<and> ad_status a = ''active'' \<and>
      List.member roles (ad_role a)) (site_administrators d)"

definition member_role :: "uuid \<Rightarrow> uuid \<Rightarrow> string list \<Rightarrow> ('x) core_db_scheme \<Rightarrow> bool" where
  "member_role org user roles d = list_ex (\<lambda>m. om_organization_id m = org \<and> om_user_id m = user \<and>
      om_status m = ''active'' \<and> List.member roles (om_role m)) (organization_members d)"

definition require_organization_editor :: "uuid \<Rightarrow> uuid \<Rightarrow> 'x core_db_scheme \<Rightarrow> api_error + unit" where
  "require_organization_editor org user d =
     (if site_role user [''owner'', ''admin''] d \<or> member_role org user [''owner'', ''admin'', ''editor''] d
      then Inr () else Inl Forbidden)"

definition require_organization_manager :: "uuid \<Rightarrow> uuid \<Rightarrow> 'x core_db_scheme \<Rightarrow> api_error + unit" where
  "require_organization_manager org user d =
     (if site_role user [''owner'', ''admin''] d \<or> member_role org user [''owner'', ''admin''] d
      then Inr () else Inl Forbidden)"

definition audit_clash :: "audit_row \<Rightarrow> audit_row \<Rightarrow> bool" where
  "audit_clash a b \<longleftrightarrow> al_id a = al_id b"

interpretation audit: keyed_table al_id audit_clash
  by unfold_locales (simp add: audit_clash_def)

definition insert_audit :: "audit_row \<Rightarrow> 'x core_db_scheme \<Rightarrow> db_error + 'x core_db_scheme" where
  "insert_audit row d =
     bind_result (sql_insert (\<lambda>r. is_object (al_metadata r)) audit_clash row (audit_logs d))
       (\<lambda>rows. Inr (d\<lparr>audit_logs := rows\<rparr>))"

lemma insert_audit_Inr [result_simps]:
  "insert_audit row d = Inr d' \<longleftrightarrow> is_object (al_metadata row) \<and>
     (\<forall>r \<in> set (audit_logs d). al_id r \<noteq> al_id row) \<and> d' = d\<lparr>audit_logs := audit_logs d @ [row]\<rparr>"
  by (auto simp: insert_audit_def result_simps audit_clash_def)

end
