(* ===== verification/Voting_Data.thy ===== *)
theory Voting_Data
  imports Api_Store
begin

text \<open>
  The voting tables of the migrations \<open>202607170001\<close>, \<open>202607170004\<close> and \<open>202607170007\<close>, with the
  request and response types of \<open>voting.rs\<close>, \<open>voting_proofs.rs\<close> and \<open>voting_anchor.rs\<close>. Status columns
  are enumerations, as their \<open>CHECK\<close> constraints make them. Round statuses are ordered along the life
  of a round.
\<close>

section \<open>Statuses\<close>

datatype round_status = Draft | Scheduled | Open | Closing | Closed | Anchored | Cancelled

fun round_rank :: "round_status \<Rightarrow> nat" where
  "round_rank Draft = 0" | "round_rank Scheduled = 1" | "round_rank Open = 2" | "round_rank Closing = 3"
| "round_rank Closed = 4" | "round_rank Anchored = 5" | "round_rank Cancelled = 6"

fun round_status_text :: "round_status \<Rightarrow> string" where
  "round_status_text Draft = ''draft''" | "round_status_text Scheduled = ''scheduled''"
| "round_status_text Open = ''open''" | "round_status_text Closing = ''closing''"
| "round_status_text Closed = ''closed''" | "round_status_text Anchored = ''anchored''"
| "round_status_text Cancelled = ''cancelled''"

lemma round_rank_inj: "round_rank s = round_rank t \<Longrightarrow> s = t"
  by (cases s; cases t) simp_all

instantiation round_status :: linorder
begin
definition less_eq_round_status :: "round_status \<Rightarrow> round_status \<Rightarrow> bool" where
  "s \<le> t \<longleftrightarrow> round_rank s \<le> round_rank t"
definition less_round_status :: "round_status \<Rightarrow> round_status \<Rightarrow> bool" where
  "s < t \<longleftrightarrow> round_rank s < round_rank t"
instance
  by intro_classes (auto simp: less_eq_round_status_def less_round_status_def round_rank_inj)
end

datatype snapshot_status = Snap_created | Snap_anchor_pending | Snap_anchored | Snap_failed

datatype anchor_status = Intent_created | Intent_submitted | Intent_confirmed | Intent_failed

section \<open>Rounds and votes\<close>

record VotingRoundRecord =
  vr_id :: uuid
  vr_organization_id :: uuid
  vr_pageant_id :: uuid
  vr_category_id :: uuid
  vr_slug :: string
  vr_title :: string
  vr_description :: "string option"
  vr_status :: round_status
  vr_opens_at :: int
  vr_closes_at :: int
  vr_max_votes_per_user :: int
  vr_eligibility_json :: json
  vr_created_by_user_id :: uuid
  vr_opened_at :: "int option"
  vr_closed_at :: "int option"
  vr_created_at :: int
  vr_updated_at :: int

record RoundContestantRecord =
  rcr_pageant_contestant_id :: uuid
  rcr_display_name :: string
  rcr_sash :: "string option"
  rcr_sort_order :: int

record VotingRoundDetail =
  vd_round :: VotingRoundRecord
  vd_contestants :: "RoundContestantRecord list"

record CreateRoundRequest =
  crq_organization_id :: uuid
  crq_pageant_id :: uuid
  crq_category_id :: uuid
  crq_slug :: string
  crq_title :: string
  crq_description :: "string option"
  crq_opens_at :: string
  crq_closes_at :: string
  crq_contestant_ids :: "uuid list"
  crq_eligibility :: json
  crq_reason :: "string option"

record CastVoteRequest =
  cvq_pageant_contestant_id :: uuid
  cvq_idempotency_key :: string

record VoteReceiptRecord =
  rcp_vote_id :: uuid
  rcp_round_id :: uuid
  rcp_pageant_contestant_id :: uuid
  rcp_receipt_hash :: string
  rcp_accepted_at :: int

record TallyEntry =
  te_pageant_contestant_id :: uuid
  te_display_name :: string
  te_sash :: "string option"
  te_votes :: int

record TallyResponse =
  tr_round_id :: uuid
  tr_status :: round_status
  tr_total_votes :: int
  tr_entries :: "TallyEntry list"

record round_contestant_row =
  rc_round_id :: uuid
  rc_pageant_contestant_id :: uuid
  rc_sort_order :: int

record vote_row =
  vt_id :: uuid
  vt_organization_id :: uuid
  vt_pageant_id :: uuid
  vt_round_id :: uuid
  vt_pageant_contestant_id :: uuid
  vt_voter_user_id :: uuid
  vt_idempotency_key :: string
  vt_request_sha256 :: string
  vt_receipt_hash :: string
  vt_accepted_at :: int

record round_event_row =
  re_id :: uuid
  re_organization_id :: uuid
  re_round_id :: uuid
  re_actor_user_id :: uuid
  re_action :: string
  re_previous_status :: "round_status option"
  re_new_status :: round_status
  re_reason :: string
  re_metadata :: json

section \<open>Snapshots\<close>

record VotingSnapshotRecord =
  vs_id :: uuid
  vs_organization_id :: uuid
  vs_pageant_id :: uuid
  vs_round_id :: uuid
  vs_version :: int
  vs_status :: snapshot_status
  vs_total_votes :: int
  vs_tally_sha256 :: string
  vs_merkle_root :: string
  vs_tally_json :: json
  vs_anchor_tx_hash :: "string option"
  vs_anchor_contract_event_id :: "string option"
  vs_accepted_evidence_id :: "uuid option"
  vs_created_by_user_id :: uuid
  vs_created_at :: int
  vs_anchored_at :: "int option"

record snapshot_leaf_row =
  sl_snapshot_id :: uuid
  sl_vote_id :: uuid
  sl_receipt_hash :: string
  sl_leaf_index :: int
  sl_leaf_hash :: string

section \<open>Anchoring\<close>

record AnchorIntentRecord =
  ai_id :: uuid
  ai_organization_id :: uuid
  ai_snapshot_id :: uuid
  ai_round_id :: uuid
  ai_contract_deployment_id :: uuid
  ai_contract_round_key :: int
  ai_network :: string
  ai_contract_id :: string
  ai_function_name :: string
  ai_merkle_root :: string
  ai_tally_sha256 :: string
  ai_total_votes :: int
  ai_operation_json :: json
  ai_request_sha256 :: string
  ai_idempotency_key :: string
  ai_status :: anchor_status
  ai_submitted_tx_hash :: "string option"
  ai_failure_code :: "string option"
  ai_created_by_user_id :: uuid
  ai_submitted_at :: "int option"
  ai_confirmed_at :: "int option"
  ai_created_at :: int
  ai_updated_at :: int

record AnchorEvidenceRecord =
  ae_id :: uuid
  ae_organization_id :: uuid
  ae_anchor_intent_id :: uuid
  ae_snapshot_id :: uuid
  ae_contract_deployment_id :: uuid
  ae_contract_round_key :: int
  ae_contract_id :: string
  ae_transaction_hash :: string
  ae_ledger_sequence :: int
  ae_event_reference :: string
  ae_merkle_root :: string
  ae_tally_sha256 :: string
  ae_total_votes :: int
  ae_raw_event :: json
  ae_accepted_at :: int
  ae_created_at :: int

record voting_db = core_db +
  voting_rounds :: "VotingRoundRecord list"
  voting_round_contestants :: "round_contestant_row list"
  votes :: "vote_row list"
  voting_round_events :: "round_event_row list"
  voting_snapshots :: "VotingSnapshotRecord list"
  voting_snapshot_leaves :: "snapshot_leaf_row list"
  voting_anchor_intents :: "AnchorIntentRecord list"
  voting_anchor_evidence :: "AnchorEvidenceRecord list"
  voting_anchor_round_key_seq :: int

section \<open>Constraints\<close>

definition round_clash :: "VotingRoundRecord \<Rightarrow> VotingRoundRecord \<Rightarrow> bool" where
  "round_clash a b \<longleftrightarrow> vr_id a = vr_id b \<or> (vr_pageant_id a = vr_pageant_id b \<and> vr_slug a = vr_slug b)"

definition round_check :: "VotingRoundRecord \<Rightarrow> bool" where
  "round_check r \<longleftrightarrow> vr_opens_at r < vr_closes_at r \<and> vr_max_votes_per_user r = 1 \<and>
     is_object (vr_eligibility_json r) \<and> text_between 1 200 (vr_title r)"

definition round_contestant_clash :: "round_contestant_row \<Rightarrow> round_contestant_row \<Rightarrow> bool" where
  "round_contestant_clash a b \<longleftrightarrow> rc_round_id a = rc_round_id b \<and>
     (rc_pageant_contestant_id a = rc_pageant_contestant_id b \<or> rc_sort_order a = rc_sort_order b)"

definition vote_clash :: "vote_row \<Rightarrow> vote_row \<Rightarrow> bool" where
  "vote_clash a b \<longleftrightarrow> vt_id a = vt_id b \<or> vt_receipt_hash a = vt_receipt_hash b \<or>
     (vt_round_id a = vt_round_id b \<and> vt_voter_user_id a = vt_voter_user_id b)"

definition vote_check :: "vote_row \<Rightarrow> bool" where
  "vote_check v \<longleftrightarrow> text_between 1 200 (vt_idempotency_key v) \<and> is_sha256_text (vt_request_sha256 v) \<and>
     is_sha256_text (vt_receipt_hash v)"

definition round_event_clash :: "round_event_row \<Rightarrow> round_event_row \<Rightarrow> bool" where
  "round_event_clash a b \<longleftrightarrow> re_id a = re_id b"

definition round_event_check :: "round_event_row \<Rightarrow> bool" where
  "round_event_check e \<longleftrightarrow> text_between 1 1000 (re_reason e) \<and> is_object (re_metadata e)"

definition snapshot_clash :: "VotingSnapshotRecord \<Rightarrow> VotingSnapshotRecord \<Rightarrow> bool" where
  "snapshot_clash a b \<longleftrightarrow> vs_id a = vs_id b \<or> vs_round_id a = vs_round_id b"

fun is_array :: "json \<Rightarrow> bool" where
  "is_array (JArr _) = True"
| "is_array _ = False"

definition snapshot_check :: "VotingSnapshotRecord \<Rightarrow> bool" where
  "snapshot_check s \<longleftrightarrow> 0 \<le> vs_total_votes s \<and> is_sha256_text (vs_tally_sha256 s) \<and>
     is_sha256_text (vs_merkle_root s) \<and> is_array (vs_tally_json s)"

definition leaf_clash :: "snapshot_leaf_row \<Rightarrow> snapshot_leaf_row \<Rightarrow> bool" where
  "leaf_clash a b \<longleftrightarrow> sl_vote_id a = sl_vote_id b \<or> sl_receipt_hash a = sl_receipt_hash b \<or>
     (sl_snapshot_id a = sl_snapshot_id b \<and>
       (sl_leaf_index a = sl_leaf_index b \<or> sl_leaf_hash a = sl_leaf_hash b))"

definition leaf_check :: "snapshot_leaf_row \<Rightarrow> bool" where
  "leaf_check l \<longleftrightarrow> is_sha256_text (sl_receipt_hash l) \<and> 0 \<le> sl_leaf_index l \<and> is_sha256_text (sl_leaf_hash l)"

definition intent_clash :: "AnchorIntentRecord \<Rightarrow> AnchorIntentRecord \<Rightarrow> bool" where
  "intent_clash a b \<longleftrightarrow> ai_id a = ai_id b \<or> ai_snapshot_id a = ai_snapshot_id b \<or> ai_round_id a = ai_round_id b \<or>
     (ai_network a = ai_network b \<and> ai_contract_id a = ai_contract_id b \<and>
       ai_contract_round_key a = ai_contract_round_key b) \<or>
     (ai_organization_id a = ai_organization_id b \<and> ai_idempotency_key a = ai_idempotency_key b)"

definition intent_check :: "AnchorIntentRecord \<Rightarrow> bool" where
  "intent_check i \<longleftrightarrow> 1 \<le> ai_contract_round_key i \<and> ai_contract_round_key i \<le> 4294967295 \<and>
     ai_network i = ''testnet'' \<and> ai_function_name i = ''publish'' \<and> is_sha256_text (ai_merkle_root i) \<and>
     is_sha256_text (ai_tally_sha256 i) \<and> 0 \<le> ai_total_votes i \<and> ai_total_votes i \<le> 4294967295 \<and>
     is_object (ai_operation_json i) \<and> is_sha256_text (ai_request_sha256 i) \<and>
     text_between 1 200 (ai_idempotency_key i)"

definition evidence_clash :: "AnchorEvidenceRecord \<Rightarrow> AnchorEvidenceRecord \<Rightarrow> bool" where
  "evidence_clash a b \<longleftrightarrow> ae_id a = ae_id b \<or> ae_anchor_intent_id a = ae_anchor_intent_id b \<or>
     ae_snapshot_id a = ae_snapshot_id b \<or> ae_event_reference a = ae_event_reference b"

definition evidence_check :: "AnchorEvidenceRecord \<Rightarrow> bool" where
  "evidence_check e \<longleftrightarrow> 1 \<le> ae_contract_round_key e \<and> ae_contract_round_key e \<le> 4294967295 \<and>
     is_sha256_text (ae_transaction_hash e) \<and> 0 < ae_ledger_sequence e \<and>
     text_between 1 240 (ae_event_reference e) \<and> is_sha256_text (ae_merkle_root e) \<and>
     is_sha256_text (ae_tally_sha256 e) \<and> 0 \<le> ae_total_votes e \<and> ae_total_votes e \<le> 4294967295 \<and>
     is_object (ae_raw_event e)"

interpretation rounds: keyed_table vr_id round_clash
  by unfold_locales (simp add: round_clash_def)

interpretation vote_ids: keyed_table vt_id vote_clash
  by unfold_locales (simp add: vote_clash_def)

interpretation vote_voters: keyed_table "\<lambda>v. (vt_round_id v, vt_voter_user_id v)" vote_clash
  by unfold_locales (simp add: vote_clash_def)

interpretation vote_receipts: keyed_table vt_receipt_hash vote_clash
  by unfold_locales (simp add: vote_clash_def)

interpretation slots: keyed_table "\<lambda>c. (rc_round_id c, rc_pageant_contestant_id c)" round_contestant_clash
  by unfold_locales (simp add: round_contestant_clash_def)

interpretation snapshots: keyed_table vs_id snapshot_clash
  by unfold_locales (simp add: snapshot_clash_def)

interpretation snapshot_rounds: keyed_table vs_round_id snapshot_clash
  by unfold_locales (simp add: snapshot_clash_def)

interpretation leaf_receipts: keyed_table sl_receipt_hash leaf_clash
  by unfold_locales (simp add: leaf_clash_def)

interpretation intents: keyed_table ai_id intent_clash
  by unfold_locales (simp add: intent_clash_def)

interpretation intent_snapshots: keyed_table ai_snapshot_id intent_clash
  by unfold_locales (simp add: intent_clash_def)

interpretation intent_rounds: keyed_table ai_round_id intent_clash
  by unfold_locales (simp add: intent_clash_def)

interpretation evidence_intents: keyed_table ae_anchor_intent_id evidence_clash
  by unfold_locales (simp add: evidence_clash_def)

end
