(* ===== verification/Voting.thy ===== *)
theory Voting
  imports Voting_Data
begin

text \<open>
  The handlers of \<open>services/api/src/voting.rs\<close>: creating, opening and closing rounds, casting votes,
  reading rounds and tallies, and the public listing of \<open>voting_public.rs\<close>. \<open>cast_vote\<close> reads the round
  without locking it, so its reads (\<open>cast_vote_check\<close>) and its writes (\<open>cast_vote_write\<close>) are separate
  definitions: \<open>cast_vote\<close> is their composition in one transaction, and the voting system of
  \<open>Voting_System\<close> interleaves them with other requests.
\<close>

section \<open>Validation and errors\<close>

fun voting_db_error :: "db_error \<Rightarrow> api_error" where
  "voting_db_error Unique_violation = Conflict ''voting_resource_already_exists''"
| "voting_db_error Foreign_key_violation = InvalidRequest ''voting_related_resource_not_found''"
| "voting_db_error Check_violation = InvalidRequest ''voting_constraint_failed''"
| "voting_db_error Invalid_text_representation = InvalidRequest ''voting_constraint_failed''"
| "voting_db_error Numeric_out_of_range = Database"
| "voting_db_error Other_database_error = Database"
| "voting_db_error Connection_error = Database"

definition validate_slug :: "string \<Rightarrow> api_error + string" where
  "validate_slug value =
     (let value = to_ascii_lowercase (trim value);
          valid = (value \<noteq> '''' \<and> length value \<le> 120 \<and>
            list_all (\<lambda>part. part \<noteq> '''' \<and> list_all (\<lambda>c. is_ascii_lowercase c \<or> is_ascii_digit c) part)
              (split_on CHR ''-'' value))
      in if valid then Inr value else Inl (InvalidRequest ''invalid_voting_round_slug''))"

section \<open>Shared writes\<close>

definition voting_write_audit ::
  "uuid \<Rightarrow> uuid \<Rightarrow> uuid \<Rightarrow> string \<Rightarrow> uuid \<Rightarrow> json \<Rightarrow> 'x voting_db_scheme \<Rightarrow> api_error + 'x voting_db_scheme" where
  "voting_write_audit new_id organization_id actor_user_id action entity_id metadata d =
     or_db_error voting_db_error (insert_audit
       \<lparr>al_id = new_id, al_organization_id = Some organization_id, al_actor_user_id = Some actor_user_id,
        al_action = action, al_entity_type = ''voting'', al_entity_id = Some entity_id, al_metadata = metadata\<rparr> d)"

definition write_round_event ::
  "uuid \<Rightarrow> uuid \<Rightarrow> uuid \<Rightarrow> uuid \<Rightarrow> string \<Rightarrow> round_status option \<Rightarrow> round_status \<Rightarrow> string \<Rightarrow> json \<Rightarrow>
   voting_db \<Rightarrow> api_error + voting_db" where
  "write_round_event new_id organization_id round_id actor_user_id action previous_status new_status reason
     metadata d =
     map_sum id (\<lambda>rows. d\<lparr>voting_round_events := rows\<rparr>)
       (or_db_error voting_db_error (sql_insert round_event_check round_event_clash
         \<lparr>re_id = new_id, re_organization_id = organization_id, re_round_id = round_id,
          re_actor_user_id = actor_user_id, re_action = action, re_previous_status = previous_status,
          re_new_status = new_status, re_reason = reason, re_metadata = metadata\<rparr>
         (voting_round_events d)))"

section \<open>Reading a round\<close>

text \<open>\<open>voting_round_contestants JOIN pageant_contestants JOIN contestants\<close> for one round.\<close>

definition round_entries ::
  "uuid \<Rightarrow> voting_db \<Rightarrow> (round_contestant_row \<times> pageant_contestant_row \<times> contestant_row) list" where
  "round_entries round_id d =
     [(vrc, pc, c). vrc \<leftarrow> voting_round_contestants d, rc_round_id vrc = round_id,
        pc \<leftarrow> pageant_contestants d, pc_id pc = rc_pageant_contestant_id vrc,
        c \<leftarrow> contestants d, ct_id c = pc_contestant_id pc]"

definition load_round :: "uuid \<Rightarrow> voting_db \<Rightarrow> api_error + VotingRoundDetail" where
  "load_round round_id d =
     bind_result (ok_or (find (\<lambda>r. vr_id r = round_id) (voting_rounds d)) NotFound) (\<lambda>round.
     Inr \<lparr>vd_round = round,
          vd_contestants = map (\<lambda>(vrc, pc, c). \<lparr>rcr_pageant_contestant_id = pc_id pc,
              rcr_display_name = ct_display_name c, rcr_sash = pc_sash pc, rcr_sort_order = rc_sort_order vrc\<rparr>)
            (sort_key (\<lambda>(vrc, pc, c). (rc_sort_order vrc, ct_display_name c)) (round_entries round_id d))\<rparr>)"

definition get_round :: "env \<Rightarrow> uuid \<Rightarrow> voting_db \<Rightarrow> api_error + VotingRoundDetail" where
  "get_round env round_id d = bind_result (database_pool env) (\<lambda>_. load_round round_id d)"

section \<open>Creating a round\<close>

fun check_eligible :: "uuid \<Rightarrow> uuid \<Rightarrow> uuid list \<Rightarrow> voting_db \<Rightarrow> api_error + unit" where
  "check_eligible pageant_id category_id [] d = Inr ()"
| "check_eligible pageant_id category_id (contestant_id # rest) d =
     (if list_ex (\<lambda>pc. pc_id pc = contestant_id \<and> pc_pageant_id pc = pageant_id \<and> pc_status pc = ''active'' \<and>
           List.member (category_memberships d) (pc_id pc, category_id)) (pageant_contestants d)
      then check_eligible pageant_id category_id rest d
      else Inl (InvalidRequest ''voting_contestant_not_eligible''))"

fun insert_contestants ::
  "uuid \<Rightarrow> nat \<Rightarrow> uuid list \<Rightarrow> round_contestant_row list \<Rightarrow> api_error + round_contestant_row list" where
  "insert_contestants round_id sort_order [] rows = Inr rows"
| "insert_contestants round_id sort_order (contestant_id # rest) rows =
     bind_result (guard (int sort_order \<le> 2147483647) (InvalidRequest ''too_many_voting_contestants'')) (\<lambda>_.
     bind_result (or_db_error voting_db_error (sql_insert (\<lambda>c. 0 \<le> rc_sort_order c) round_contestant_clash
         \<lparr>rc_round_id = round_id, rc_pageant_contestant_id = contestant_id, rc_sort_order = int sort_order\<rparr>
         rows)) (\<lambda>rows.
     insert_contestants round_id (Suc sort_order) rest rows))"

definition round_created_reason :: "string option \<Rightarrow> string" where
  "round_created_reason reason =
     (case reason of None \<Rightarrow> ''Voting round configured.'' | Some r \<Rightarrow> r)"

definition created_round ::
  "draws \<Rightarrow> uuid \<Rightarrow> string \<Rightarrow> string \<Rightarrow> string option \<Rightarrow> int \<Rightarrow> int \<Rightarrow> CreateRoundRequest \<Rightarrow> VotingRoundRecord"
  where
  "created_round q actor_user_id slug title description opens_at closes_at body =
     \<lparr>vr_id = new_uuid q 0, vr_organization_id = crq_organization_id body, vr_pageant_id = crq_pageant_id body,
      vr_category_id = crq_category_id body, vr_slug = slug, vr_title = title,
      vr_description = description, vr_status = Scheduled, vr_opens_at = opens_at,
      vr_closes_at = closes_at, vr_max_votes_per_user = 1, vr_eligibility_json = crq_eligibility body,
      vr_created_by_user_id = actor_user_id, vr_opened_at = None, vr_closed_at = None,
      vr_created_at = sql_now q, vr_updated_at = sql_now q\<rparr>"

definition create_round_tx ::
  "env \<Rightarrow> draws \<Rightarrow> headers \<Rightarrow> CreateRoundRequest \<Rightarrow> voting_db \<Rightarrow> api_error + uuid \<times> voting_db" where
  "create_round_tx env q hdrs body d =
     bind_result (require_web_actor env hdrs) (\<lambda>actor_user_id.
     bind_result (database_pool env) (\<lambda>_.
     bind_result (require_organization_editor (crq_organization_id body) actor_user_id d) (\<lambda>_.
     bind_result (validate_slug (crq_slug body)) (\<lambda>slug.
     bind_result (required_text (crq_title body) 200 ''invalid_voting_round_title'') (\<lambda>title.
     bind_result (optional_text (crq_description body) 4000 ''invalid_voting_round_description'') (\<lambda>description.
     bind_result (parse_timestamp env (crq_opens_at body) ''invalid_voting_opens_at'') (\<lambda>opens_at.
     bind_result (parse_timestamp env (crq_closes_at body) ''invalid_voting_closes_at'') (\<lambda>closes_at.
     if closes_at \<le> opens_at then Inl (InvalidRequest ''voting_close_must_follow_open'')
     else if closes_at \<le> now_utc q 0 then Inl (InvalidRequest ''voting_close_must_be_future'')
     else if \<not> is_object (crq_eligibility body) then Inl (InvalidRequest ''invalid_voting_eligibility'')
     else if \<not> distinct (crq_contestant_ids body) \<or> length (crq_contestant_ids body) < 2
       then Inl (InvalidRequest ''voting_round_requires_unique_contestants'')
     else if \<not> (list_ex (\<lambda>p. pg_id p = crq_pageant_id body \<and> pg_organization_id p = crq_organization_id body)
             (pageants d) \<and>
           list_ex (\<lambda>c. cat_id c = crq_category_id body \<and> cat_pageant_id c = crq_pageant_id body) (categories d))
       then Inl (InvalidRequest ''voting_pageant_category_mismatch'')
     else
     bind_result (check_eligible (crq_pageant_id body) (crq_category_id body) (crq_contestant_ids body) d) (\<lambda>_.
     let round_id = new_uuid q 0 in
     bind_result (or_db_error voting_db_error (sql_insert round_check round_clash
         (created_round q actor_user_id slug title description opens_at closes_at body) (voting_rounds d))) (\<lambda>rounds.
     bind_result (insert_contestants round_id 0 (crq_contestant_ids body) (voting_round_contestants d)) (\<lambda>entries.
     bind_result (write_round_event (new_uuid q 1) (crq_organization_id body) round_id actor_user_id ''create''
         None Scheduled (round_created_reason (crq_reason body))
         (JObj [(''pageant_id'', JStr (crq_pageant_id body)), (''category_id'', JStr (crq_category_id body))])
         (d\<lparr>voting_rounds := rounds, voting_round_contestants := entries\<rparr>)) (\<lambda>d.
     bind_result (voting_write_audit (new_uuid q 2) (crq_organization_id body) actor_user_id
         ''voting_round.create'' round_id
         (JObj [(''slug'', JStr slug), (''contestant_count'', JInt (int (length (crq_contestant_ids body))))]) d)
       (\<lambda>d. Inr (round_id, d))))))))))))))"

definition create_round ::
  "env \<Rightarrow> draws \<Rightarrow> headers \<Rightarrow> CreateRoundRequest \<Rightarrow> voting_db \<Rightarrow> (api_error + nat \<times> VotingRoundDetail) \<times> voting_db"
  where
  "create_round env q hdrs body d =
     then_read (transaction (create_round_tx env q hdrs body) d)
       (\<lambda>round_id d. map_sum id (Pair 201) (load_round round_id d))"

section \<open>Opening and closing\<close>

definition transition_round_tx ::
  "env \<Rightarrow> draws \<Rightarrow> headers \<Rightarrow> uuid \<Rightarrow> string \<Rightarrow> bool \<Rightarrow> voting_db \<Rightarrow> api_error + unit \<times> voting_db" where
  "transition_round_tx env q hdrs round_id reason opening d =
     bind_result (require_web_actor env hdrs) (\<lambda>actor_user_id.
     bind_result (database_pool env) (\<lambda>_.
     bind_result (required_text reason 1000 ''invalid_voting_transition_reason'') (\<lambda>reason.
     bind_result (ok_or (find (\<lambda>r. vr_id r = round_id) (voting_rounds d)) NotFound) (\<lambda>current.
     bind_result (require_organization_editor (vr_organization_id current) actor_user_id d) (\<lambda>_.
     bind_result
       (if opening then
          (if \<not> (vr_status current = Draft \<or> vr_status current = Scheduled)
             then Inl (Conflict ''voting_round_not_openable'')
           else if now_utc q 0 < vr_opens_at current then Inl (Conflict ''voting_round_not_started'')
           else if now_utc q 0 \<ge> vr_closes_at current then Inl (Conflict ''voting_round_expired'')
           else Inr (''open'', Open, d\<lparr>voting_rounds := sql_update (\<lambda>r. vr_id r = round_id)
                (\<lambda>r. r\<lparr>vr_status := Open, vr_opened_at := coalesce (vr_opened_at r) (sql_now q),
                       vr_updated_at := sql_now q\<rparr>) (voting_rounds d)\<rparr>))
        else
          (if \<not> (vr_status current = Open \<or> vr_status current = Closing)
             then Inl (Conflict ''voting_round_not_closable'')
           else Inr (''close'', Closed, d\<lparr>voting_rounds := sql_update (\<lambda>r. vr_id r = round_id)
                (\<lambda>r. r\<lparr>vr_status := Closed, vr_closed_at := coalesce (vr_closed_at r) (sql_now q),
                       vr_updated_at := sql_now q\<rparr>) (voting_rounds d)\<rparr>)))
       (\<lambda>(action, target_status, d).
     bind_result (write_round_event (new_uuid q 0) (vr_organization_id current) round_id actor_user_id action
         (Some (vr_status current)) target_status reason (JObj []) d) (\<lambda>d.
     bind_result (voting_write_audit (new_uuid q 1) (vr_organization_id current) actor_user_id
         (''voting_round.'' @ action) round_id
         (JObj [(''previous_status'', JStr (round_status_text (vr_status current))),
                (''new_status'', JStr (round_status_text target_status))]) d)
       (\<lambda>d. Inr ((), d)))))))))"

definition transition_round ::
  "env \<Rightarrow> draws \<Rightarrow> headers \<Rightarrow> uuid \<Rightarrow> string \<Rightarrow> bool \<Rightarrow> voting_db \<Rightarrow>
   (api_error + VotingRoundDetail) \<times> voting_db" where
  "transition_round env q hdrs round_id reason opening d =
     then_read (transaction (transition_round_tx env q hdrs round_id reason opening) d)
       (\<lambda>_ d. load_round round_id d)"

definition open_round where
  "open_round env q hdrs round_id reason d = transition_round env q hdrs round_id reason True d"

definition close_round where
  "close_round env q hdrs round_id reason d = transition_round env q hdrs round_id reason False d"

section \<open>Casting a vote\<close>

text \<open>What the reads of \<open>cast_vote\<close> settle: the answer to a replay, or the row to be inserted.\<close>

record vote_plan =
  vp_organization_id :: uuid
  vp_pageant_id :: uuid
  vp_round_id :: uuid
  vp_pageant_contestant_id :: uuid
  vp_voter_user_id :: uuid
  vp_idempotency_key :: string
  vp_request_sha256 :: string

definition vote_request_text :: "uuid \<Rightarrow> uuid \<Rightarrow> uuid \<Rightarrow> string \<Rightarrow> string" where
  "vote_request_text round_id voter contestant key =
     ''round='' @ round_id @ '';voter='' @ voter @ '';contestant='' @ contestant @ '';key='' @ key"

definition vote_receipt_text :: "uuid \<Rightarrow> vote_plan \<Rightarrow> string" where
  "vote_receipt_text vote_id p =
     ''vote='' @ vote_id @ '';round='' @ vp_round_id p @ '';voter='' @ vp_voter_user_id p @
     '';contestant='' @ vp_pageant_contestant_id p @ '';request='' @ vp_request_sha256 p"

definition receipt_of :: "vote_row \<Rightarrow> VoteReceiptRecord" where
  "receipt_of v = \<lparr>rcp_vote_id = vt_id v, rcp_round_id = vt_round_id v,
     rcp_pageant_contestant_id = vt_pageant_contestant_id v, rcp_receipt_hash = vt_receipt_hash v,
     rcp_accepted_at = vt_accepted_at v\<rparr>"

definition voter_active :: "uuid \<Rightarrow> voting_db \<Rightarrow> bool" where
  "voter_active voter d \<longleftrightarrow>
     list_ex (\<lambda>u. us_id u = voter \<and> us_status u = ''active'') (users d) \<and>
     list_ex (\<lambda>sa. sa_user_id sa = voter \<and> sa_network sa = ''testnet'' \<and> sa_verified_at sa \<noteq> None)
       (stellar_accounts d)"

definition contestant_allowed :: "uuid \<Rightarrow> uuid \<Rightarrow> uuid \<Rightarrow> voting_db \<Rightarrow> bool" where
  "contestant_allowed round_id contestant pageant_id d \<longleftrightarrow>
     list_ex (\<lambda>vrc. rc_round_id vrc = round_id \<and> rc_pageant_contestant_id vrc = contestant \<and>
       list_ex (\<lambda>pc. pc_id pc = rc_pageant_contestant_id vrc \<and> pc_pageant_id pc = pageant_id \<and>
         pc_status pc = ''active'') (pageant_contestants d)) (voting_round_contestants d)"

definition cast_vote_check ::
  "env \<Rightarrow> draws \<Rightarrow> headers \<Rightarrow> uuid \<Rightarrow> CastVoteRequest \<Rightarrow> voting_db \<Rightarrow>
   api_error + (VoteReceiptRecord + vote_plan)" where
  "cast_vote_check env q hdrs round_id body d =
     bind_result (require_web_actor env hdrs) (\<lambda>voter_user_id.
     bind_result (database_pool env) (\<lambda>_.
     bind_result (required_text (cvq_idempotency_key body) 200 ''invalid_vote_idempotency_key'') (\<lambda>key.
     let request_sha256 = hash_text env
           (vote_request_text round_id voter_user_id (cvq_pageant_contestant_id body) key) in
     bind_result (ok_or (find (\<lambda>r. vr_id r = round_id) (voting_rounds d)) NotFound) (\<lambda>round.
     if vr_status round \<noteq> Open \<or> now_utc q 0 < vr_opens_at round \<or> now_utc q 0 \<ge> vr_closes_at round
       then Inl VotingClosed
     else if \<not> voter_active voter_user_id d then Inl Forbidden
     else if \<not> contestant_allowed round_id (cvq_pageant_contestant_id body) (vr_pageant_id round) d
       then Inl (InvalidRequest ''contestant_not_in_voting_round'')
     else case find (\<lambda>v. vt_round_id v = round_id \<and> vt_voter_user_id v = voter_user_id \<and>
            vt_idempotency_key v = key) (votes d) of
         Some existing \<Rightarrow>
           bind_result (ok_or (map_option vt_request_sha256 (find (\<lambda>v. vt_id v = vt_id existing) (votes d)))
               (voting_db_error Connection_error)) (\<lambda>existing_hash.
           if existing_hash \<noteq> request_sha256 then Inl (Conflict ''vote_idempotency_key_reused'')
           else Inr (Inl (receipt_of existing)))
       | None \<Rightarrow>
           Inr (Inr \<lparr>vp_organization_id = vr_organization_id round, vp_pageant_id = vr_pageant_id round,
              vp_round_id = round_id, vp_pageant_contestant_id = cvq_pageant_contestant_id body,
              vp_voter_user_id = voter_user_id, vp_idempotency_key = key,
              vp_request_sha256 = request_sha256\<rparr>)))))"

definition vote_of_plan :: "env \<Rightarrow> draws \<Rightarrow> vote_plan \<Rightarrow> vote_row" where
  "vote_of_plan env q p =
     \<lparr>vt_id = new_uuid q 0, vt_organization_id = vp_organization_id p, vt_pageant_id = vp_pageant_id p,
      vt_round_id = vp_round_id p, vt_pageant_contestant_id = vp_pageant_contestant_id p,
      vt_voter_user_id = vp_voter_user_id p, vt_idempotency_key = vp_idempotency_key p,
      vt_request_sha256 = vp_request_sha256 p,
      vt_receipt_hash = hash_text env (vote_receipt_text (new_uuid q 0) p), vt_accepted_at = now_utc q 1\<rparr>"

definition cast_vote_write ::
  "env \<Rightarrow> draws \<Rightarrow> vote_plan \<Rightarrow> voting_db \<Rightarrow> api_error + (nat \<times> VoteReceiptRecord) \<times> voting_db" where
  "cast_vote_write env q p d =
     (let v = vote_of_plan env q p in
      case sql_insert vote_check vote_clash v (votes d) of
        Inl error \<Rightarrow> if error = Unique_violation then Inl DuplicateVote else Inl (voting_db_error error)
      | Inr rows \<Rightarrow>
          bind_result (voting_write_audit (new_uuid q 1) (vp_organization_id p) (vp_voter_user_id p)
              ''vote.accept'' (vt_id v)
              (JObj [(''round_id'', JStr (vp_round_id p)), (''receipt_hash'', JStr (vt_receipt_hash v))])
              (d\<lparr>votes := rows\<rparr>))
            (\<lambda>d. Inr ((201, receipt_of v), d)))"

definition cast_vote ::
  "env \<Rightarrow> draws \<Rightarrow> headers \<Rightarrow> uuid \<Rightarrow> CastVoteRequest \<Rightarrow> voting_db \<Rightarrow>
   (api_error + nat \<times> VoteReceiptRecord) \<times> voting_db" where
  "cast_vote env q hdrs round_id body d =
     transaction (\<lambda>d. bind_result (cast_vote_check env q hdrs round_id body d) (\<lambda>m.
       case m of Inl existing \<Rightarrow> Inr ((200, existing), d) | Inr p \<Rightarrow> cast_vote_write env q p d)) d"

section \<open>Tallies\<close>

definition tally_entries :: "uuid \<Rightarrow> voting_db \<Rightarrow> (round_contestant_row \<times> TallyEntry) list" where
  "tally_entries round_id d =
     map (\<lambda>(vrc, pc, c). (vrc, \<lparr>te_pageant_contestant_id = pc_id pc, te_display_name = ct_display_name c,
         te_sash = pc_sash pc,
         te_votes = sql_count (\<lambda>v. vt_round_id v = rc_round_id vrc \<and> vt_pageant_contestant_id v = pc_id pc)
           (votes d)\<rparr>))
       (round_entries round_id d)"

definition get_tally :: "env \<Rightarrow> uuid \<Rightarrow> voting_db \<Rightarrow> api_error + TallyResponse" where
  "get_tally env round_id d =
     bind_result (database_pool env) (\<lambda>_.
     bind_result (ok_or (map_option vr_status (find (\<lambda>r. vr_id r = round_id) (voting_rounds d))) NotFound)
       (\<lambda>status.
     if \<not> (status = Closed \<or> status = Anchored) then Inl (Conflict ''voting_tally_not_published'')
     else
     let entries = map snd (sort_key (\<lambda>(vrc, e). (- te_votes e, rc_sort_order vrc, te_display_name e))
           (tally_entries round_id d))
     in Inr \<lparr>tr_round_id = round_id, tr_status = status, tr_total_votes = sum_list (map te_votes entries),
             tr_entries = entries\<rparr>))"

section \<open>Public listing\<close>

record PublicVotingRound =
  pvr_id :: uuid
  pvr_pageant_id :: uuid
  pvr_category_id :: uuid
  pvr_slug :: string
  pvr_title :: string
  pvr_description :: "string option"
  pvr_status :: round_status
  pvr_opens_at :: int
  pvr_closes_at :: int
  pvr_eligibility_json :: json
  pvr_total_votes :: int

record PublicRoundContestant =
  prc_pageant_contestant_id :: uuid
  prc_display_name :: string
  prc_country_code :: "string option"
  prc_country_representation :: "string option"
  prc_sash :: "string option"
  prc_portrait_url :: "string option"
  prc_sort_order :: int

record PublicRoundView =
  prv_round :: PublicVotingRound
  prv_contestants :: "PublicRoundContestant list"

fun public_status_rank :: "round_status \<Rightarrow> int" where
  "public_status_rank Open = 0" | "public_status_rank Scheduled = 1" | "public_status_rank Closing = 2"
| "public_status_rank Closed = 3" | "public_status_rank _ = 4"

definition public_round :: "voting_db \<Rightarrow> VotingRoundRecord \<Rightarrow> PublicVotingRound" where
  "public_round d r = \<lparr>pvr_id = vr_id r, pvr_pageant_id = vr_pageant_id r, pvr_category_id = vr_category_id r,
     pvr_slug = vr_slug r, pvr_title = vr_title r, pvr_description = vr_description r,
     pvr_status = vr_status r, pvr_opens_at = vr_opens_at r, pvr_closes_at = vr_closes_at r,
     pvr_eligibility_json = vr_eligibility_json r,
     pvr_total_votes = sql_count (\<lambda>v. vt_round_id v = vr_id r) (votes d)\<rparr>"

text \<open>The columns of the two tables that the query of the contestants joins, as the migrations declare them.\<close>

definition contestant_media_columns :: "string list" where
  "contestant_media_columns = [''id'', ''pageant_contestant_id'', ''media_asset_id'', ''role'', ''caption'',
     ''sort_order'', ''created_at'']"

definition media_asset_columns :: "string list" where
  "media_asset_columns = [''id'', ''organization_id'', ''uploaded_by_user_id'', ''storage_provider'', ''bucket'',
     ''object_key'', ''original_filename'', ''content_type'', ''byte_size'', ''width'', ''height'', ''sha256'',
     ''visibility'', ''status'', ''alt_text'', ''created_at'', ''updated_at'']"

text \<open>The query names the columns \<open>cm.purpose\<close>, \<open>cm.is_primary\<close> and \<open>ma.public_url\<close>. What its left joins for
  the portrait would yield is not described, since the statement has to be prepared first.\<close>

definition public_contestants :: "voting_db \<Rightarrow> uuid \<Rightarrow> db_error + PublicRoundContestant list" where
  "public_contestants d round_id =
     bind_result (sql_prepare contestant_media_columns
       [''pageant_contestant_id'', ''purpose'', ''is_primary'', ''media_asset_id'']) (\<lambda>_.
     bind_result (sql_prepare media_asset_columns [''id'', ''status'', ''public_url'']) (\<lambda>_.
     Inr (sort_key (\<lambda>p. (prc_sort_order p, prc_display_name p))
       [\<lparr>prc_pageant_contestant_id = pc_id pc, prc_display_name = ct_display_name c,
         prc_country_code = ct_country_code c, prc_country_representation = pc_country_representation pc,
         prc_sash = pc_sash pc, prc_portrait_url = None, prc_sort_order = rc_sort_order vrc\<rparr>.
        (vrc, pc, c) \<leftarrow> round_entries round_id d, pc_status pc = ''active''])))"

definition listed_rounds :: "voting_db \<Rightarrow> uuid \<Rightarrow> VotingRoundRecord list" where
  "listed_rounds d pageant_id =
     sort_key (\<lambda>r. (public_status_rank (vr_status r), - vr_opens_at r, - vr_created_at r))
       (filter (\<lambda>r. vr_pageant_id r = pageant_id \<and>
          List.member [Scheduled, Open, Closing, Closed, Anchored] (vr_status r)) (voting_rounds d))"

definition pageant_visible :: "voting_db \<Rightarrow> uuid \<Rightarrow> bool" where
  "pageant_visible d pageant_id \<longleftrightarrow> list_ex (\<lambda>p. pg_id p = pageant_id \<and>
      List.member [''published'', ''active'', ''completed''] (pg_status p)) (pageants d)"

definition list_pageant_rounds :: "env \<Rightarrow> uuid \<Rightarrow> voting_db \<Rightarrow> api_error + PublicRoundView list" where
  "list_pageant_rounds env pageant_id d =
     bind_result (database_pool env) (\<lambda>_.
     if \<not> pageant_visible d pageant_id then Inl NotFound
     else try_fold (\<lambda>views r.
       bind_result (or_db_error (\<lambda>_. Database) (public_contestants d (vr_id r))) (\<lambda>contestants.
       Inr (views @ [\<lparr>prv_round = public_round d r, prv_contestants = contestants\<rparr>])))
       [] (listed_rounds d pageant_id))"

lemma public_contestants_rejected: "public_contestants d round_id = Inl Other_database_error"
  by (simp add: public_contestants_def sql_prepare_def contestant_media_columns_def guard_def)

end
