(* ===== verification/Merkle.thy ===== *)
theory Merkle
  imports Api_Core
begin

text \<open>
  The Merkle tree of \<open>services/api/src/voting_proofs.rs\<close>: root, inclusion proof and verification over
  hexadecimal hashes, with an odd last node paired with itself. The loops over levels are functions
  that end because a level of two or more nodes is longer than the next one.

  Soundness is stated without assuming that SHA-256 has no collisions: when verification accepts a
  foreign leaf, two different texts with the same hash are exhibited among the texts that were hashed.
\<close>

section \<open>The code\<close>

record ProofStep =
  position :: string
  step_hash :: string

definition node_text :: "string \<Rightarrow> string \<Rightarrow> string" where
  "node_text left right = ''crownfi-merkle-node-v1|'' @ left @ ''|'' @ right"

definition hash_node :: "env \<Rightarrow> string \<Rightarrow> string \<Rightarrow> string" where
  "hash_node env left right = hash_text env (node_text left right)"

fun next_level :: "env \<Rightarrow> string list \<Rightarrow> string list" where
  "next_level env [] = []"
| "next_level env [a] = [hash_node env a a]"
| "next_level env (a # b # rest) = hash_node env a b # next_level env rest"

lemma length_next_level: "length (next_level env xs) = (length xs + 1) div 2"
  by (induction env xs rule: next_level.induct) simp_all

function root_loop :: "env \<Rightarrow> string list \<Rightarrow> string" where
  "root_loop env level = (if length level > 1 then root_loop env (next_level env level) else hd level)"
  by pat_completeness auto
termination
  by (relation "measure (\<lambda>(env, level). length level)") (auto simp: length_next_level)

declare root_loop.simps [simp del]

definition merkle_root :: "env \<Rightarrow> string list \<Rightarrow> string" where
  "merkle_root env leaves =
     (if leaves = [] then hash_text env ''crownfi-empty-merkle-v1'' else root_loop env leaves)"

definition proof_step :: "string list \<Rightarrow> nat \<Rightarrow> ProofStep" where
  "proof_step level index =
     (let sibling_index = (if index mod 2 = 0 then min (index + 1) (length level - 1) else index - 1)
      in \<lparr>position = (if index mod 2 = 0 then ''right'' else ''left''), step_hash = level ! sibling_index\<rparr>)"

function proof_loop :: "env \<Rightarrow> string list \<Rightarrow> nat \<Rightarrow> ProofStep list" where
  "proof_loop env level index =
     (if length level > 1 then proof_step level index # proof_loop env (next_level env level) (index div 2)
      else [])"
  by pat_completeness auto
termination
  by (relation "measure (\<lambda>(env, level, index). length level)") (auto simp: length_next_level)

declare proof_loop.simps [simp del]

definition merkle_proof :: "env \<Rightarrow> string list \<Rightarrow> nat \<Rightarrow> api_error + ProofStep list" where
  "merkle_proof env leaves index =
     (if leaves = [] \<or> index \<ge> length leaves then Inl (InvalidRequest ''invalid_vote_leaf_index'')
      else Inr (proof_loop env leaves index))"

definition verify_text :: "string \<Rightarrow> ProofStep \<Rightarrow> string" where
  "verify_text current step =
     (if position step = ''left'' then node_text (step_hash step) current
      else node_text current (step_hash step))"

definition verify_proof :: "env \<Rightarrow> string \<Rightarrow> ProofStep list \<Rightarrow> string \<Rightarrow> bool" where
  "verify_proof env leaf_hash proof_a expected_root \<longleftrightarrow>
     foldl (\<lambda>current step. if position step = ''left'' then hash_node env (step_hash step) current
                           else hash_node env current (step_hash step)) leaf_hash proof_a = expected_root"

section \<open>Levels\<close>

lemma verify_step:
  "(if position step = ''left'' then hash_node env (step_hash step) current
    else hash_node env current (step_hash step)) = hash_text env (verify_text current step)"
  by (simp add: verify_text_def hash_node_def)

lemma next_level_nth:
  "i < length xs \<Longrightarrow> next_level env xs ! (i div 2) = hash_text env (verify_text (xs ! i) (proof_step xs i))"
proof (induction env xs arbitrary: i rule: next_level.induct)
  case (3 env a b rest)
  consider "i = 0" | "i = 1" | j where "i = Suc (Suc j)" by (metis One_nat_def not0_implies_Suc)
  then show ?case
  proof cases
    case 3
    then have j: "j < length rest" and d: "i div 2 = Suc (j div 2)" using "3.prems" by simp_all
    have "proof_step (a # b # rest) i = proof_step rest j"
      using 3 j by (cases rest) (auto simp: proof_step_def Let_def min_def nth_Cons' not_less)
    with "3.IH" [OF j] 3 d show ?thesis by simp
  qed (auto simp: verify_text_def hash_node_def proof_step_def Let_def)
qed (auto simp: verify_text_def hash_node_def proof_step_def Let_def)

lemma next_level_nonempty: "next_level env xs = [] \<longleftrightarrow> xs = []"
  by (induction env xs rule: next_level.induct) simp_all

lemma half_less: "i < length xs \<Longrightarrow> i div 2 < length (next_level env xs)"
  by (simp add: length_next_level)

section \<open>Completeness\<close>

lemma proof_loop_verifies:
  "i < length level \<Longrightarrow>
   foldl (\<lambda>current step. hash_text env (verify_text current step)) (level ! i) (proof_loop env level i)
   = root_loop env level"
proof (induction env level i rule: proof_loop.induct)
  case (1 env level index)
  show ?case
  proof (cases "length level > 1")
    case True
    with 1 have "foldl (\<lambda>current step. hash_text env (verify_text current step))
        (next_level env level ! (index div 2)) (proof_loop env (next_level env level) (index div 2))
      = root_loop env (next_level env level)"
      by (simp add: half_less)
    with True 1(2) show ?thesis
      by (simp add: proof_loop.simps [of env level] root_loop.simps [of env level] next_level_nth)
  next
    case False
    with 1(2) have "level = [level ! 0]" "index = 0" by (cases level; simp)+
    with False show ?thesis
      by (metis foldl.simps(1) list.sel(1) proof_loop.simps root_loop.simps)
  qed
qed

section \<open>Soundness\<close>



definition collides :: "env \<Rightarrow> string \<Rightarrow> string \<Rightarrow> bool" where
  "collides env a b \<longleftrightarrow> a \<noteq> b \<and> hash_text env a = hash_text env b"

text \<open>Documented: a SHA-256 digest in hexadecimal is 64 lower-case hexadecimal digits.\<close>

definition sha256_format :: "env \<Rightarrow> bool" where
  "sha256_format env \<longleftrightarrow> (\<forall>s. is_sha256_text (sha256_hex env s))"

lemma hash_length: "sha256_format env \<Longrightarrow> length (hash_text env s) = 64"
  by (simp add: sha256_format_def is_sha256_text_def hash_text_def)

lemma node_text_inj:
  assumes "node_text a b = node_text c d" "length a = length c \<or> length b = length d"
  shows "a = c \<and> b = d"
proof -
  from assms(1) have eq: "a @ CHR ''|'' # b = c @ CHR ''|'' # d" by (simp add: node_text_def)
  then have "length a + length b = length c + length d"
    by (metis add_Suc_right length_Cons length_append nat.inject)
  with assms(2) have "length a = length c" by auto
  with eq show ?thesis by simp
qed




section \<open>The root binds the leaves\<close>

fun level_texts :: "string list \<Rightarrow> string list" where
  "level_texts [] = []"
| "level_texts [a] = [node_text a a]"
| "level_texts (a # b # rest) = node_text a b # level_texts rest"

function tree_texts :: "env \<Rightarrow> string list \<Rightarrow> string list" where
  "tree_texts env level =
     (if length level > 1 then level_texts level @ tree_texts env (next_level env level) else [])"
  by pat_completeness auto
termination
  by (relation "measure (\<lambda>(env, level). length level)") (auto simp: length_next_level)

declare tree_texts.simps [simp del]

lemma length_level_texts: "length (level_texts xs) = (length xs + 1) div 2"
  by (induction xs rule: level_texts.induct) simp_all

lemma next_level_texts: "next_level env xs = map (hash_text env) (level_texts xs)"
  by (induction env xs rule: next_level.induct) (simp_all add: hash_node_def)

lemma level_texts_inj:
  "length xs = length ys \<Longrightarrow> \<forall>x \<in> set xs. length x = 64 \<Longrightarrow> \<forall>y \<in> set ys. length y = 64 \<Longrightarrow>
   level_texts xs = level_texts ys \<Longrightarrow> xs = ys"
proof (induction xs arbitrary: ys rule: level_texts.induct)
  case (2 a)
  then obtain b where "ys = [b]" by (cases ys) auto
  with 2 node_text_inj [of a a b b] show ?case by simp
next
  case (3 a b rest)
  then obtain c d r where ys: "ys = c # d # r" by (cases ys; cases "tl ys") auto
  with "3.prems" node_text_inj [of a b c d] "3.IH" [of r] show ?case by simp
qed simp

lemma roots_agree:
  "sha256_format env \<Longrightarrow> length xs = length ys \<Longrightarrow> \<forall>x \<in> set xs. length x = 64 \<Longrightarrow>
   \<forall>y \<in> set ys. length y = 64 \<Longrightarrow> root_loop env xs = root_loop env ys \<Longrightarrow>
   xs = ys \<or> (\<exists>k < length (tree_texts env xs). collides env (tree_texts env xs ! k) (tree_texts env ys ! k))"
proof (induction env xs arbitrary: ys rule: root_loop.induct)
  case (1 env xs)
  note prems = "1.prems"
  show ?case
  proof (cases "length xs > 1")
    case True
    let ?nx = "next_level env xs" and ?ny = "next_level env ys"
    have tx: "tree_texts env xs = level_texts xs @ tree_texts env ?nx"
      and ty: "tree_texts env ys = level_texts ys @ tree_texts env ?ny"
      using True prems(2) by (simp_all add: tree_texts.simps [of env xs] tree_texts.simps [of env ys])
    have lt: "length (level_texts xs) = length (level_texts ys)"
      using prems(2) by (simp add: length_level_texts)
    have "\<forall>x \<in> set ?nx. length x = 64" "\<forall>y \<in> set ?ny. length y = 64"
      using hash_length [OF prems(1)] by (auto simp: next_level_texts)
    moreover have "root_loop env ?nx = root_loop env ?ny"
      using prems(5) True prems(2) by (simp add: root_loop.simps [of env xs] root_loop.simps [of env ys])
    ultimately consider "?nx = ?ny"
      | k where "k < length (tree_texts env ?nx)" "collides env (tree_texts env ?nx ! k) (tree_texts env ?ny ! k)"
      using "1.IH" [OF True prems(1), of ?ny] lt by (auto simp: length_next_level prems(2))
    then show ?thesis
    proof cases
      case 1
      then have maps: "map (hash_text env) (level_texts xs) = map (hash_text env) (level_texts ys)"
        by (simp add: next_level_texts)
      show ?thesis
      proof (cases "level_texts xs = level_texts ys")
        case True
        with level_texts_inj prems(2-4) show ?thesis by blast
      next
        case False
        with lt obtain k where k: "k < length (level_texts xs)" "level_texts xs ! k \<noteq> level_texts ys ! k"
          by (auto simp: list_eq_iff_nth_eq)
        with maps lt have "collides env (level_texts xs ! k) (level_texts ys ! k)"
          by (metis collides_def length_map nth_map)
        with k lt show ?thesis by (auto simp: tx ty nth_append intro!: exI [of _ k])
      qed
    next
      case 2
      then show ?thesis using lt
        by (intro disjI2 exI [of _ "length (level_texts xs) + k"]) (simp add: tx ty nth_append)
    qed
  next
    case False
    with prems show ?thesis
      by (cases xs; cases ys) (auto simp: root_loop.simps [of env])
  qed
qed

lemma next_level_odd: "odd (length xs) \<Longrightarrow> next_level env (xs @ [last xs]) = next_level env xs"
  by (induction env xs rule: next_level.induct) auto

section \<open>A small hash for evaluation\<close>

text \<open>Sixty-four digits, all equal to the byte sum of the text modulo ten: it has the format, not the
  strength, of SHA-256.\<close>

definition digit_hash :: "string \<Rightarrow> string" where
  "digit_hash s = replicate 64 (char_of (48 + sum_list (map (of_char :: char \<Rightarrow> nat) s) mod 10))"

definition demo_env :: env where
  "demo_env = \<lparr>web_internal_token = ''web'', api_mode = ''testnet'', admin_demo_token = ''demo'',
     payout_worker_token = Some ''worker'', database_configured = True,
     sha256_hex = digit_hash, parse_uuid = Some, parse_rfc3339 = (\<lambda>s. Some (int (length s))),
     json_to_vec = (\<lambda>_. ''{}''), timestamp_json = JInt\<rparr>"

lemma demo_env_format: "sha256_format demo_env"
proof -
  have "m mod 10 \<le> 9" for m :: nat
    by presburger
  then show ?thesis
    by (simp add: sha256_format_def demo_env_def digit_hash_def is_sha256_text_def is_ascii_digit_def byte_in_def
        list_all_iff)
qed

section \<open>Properties\<close>

text \<open>C38: Every receipt proof verifies. For any number of leaves, odd counts included, and any index in
  range, the generated proof exists and takes the leaf at that index to the root; out of range there
  is no proof.\<close>
theorem merkle_proofs_verify:
  "(\<exists>p. merkle_proof env leaves i = Inr p) = (i < length leaves) \<and>
   (\<forall>p. merkle_proof env leaves i = Inr p \<longrightarrow> verify_proof env (leaves ! i) p (merkle_root env leaves))"
proof (intro conjI allI impI)
  fix p
  assume "merkle_proof env leaves i = Inr p"
  then have "leaves \<noteq> []" "i < length leaves" "p = proof_loop env leaves i"
    by (auto simp: merkle_proof_def split: if_splits)
  with proof_loop_verifies [of i leaves env] show "verify_proof env (leaves ! i) p (merkle_root env leaves)"
    by (simp add: verify_proof_def merkle_root_def verify_step)
qed (auto simp: merkle_proof_def)

theorem merkle_proofs_verify_witness:
  "\<exists>p. merkle_proof demo_env [''a'', ''b'', ''c''] 2 = Inr p \<and>
     verify_proof demo_env ''c'' p (merkle_root demo_env [''a'', ''b'', ''c''])"
  using merkle_proofs_verify [of demo_env "[''a'', ''b'', ''c'']" 2] by auto


definition demo_leaves :: "string list" where
  "demo_leaves = [replicate 64 (CHR ''1''), replicate 64 (CHR ''2''), replicate 64 (CHR ''3'')]"


text \<open>The root binds the whole list. Two lists of equally many 64-character leaf hashes with the
  same root are the same list, or two different texts with the same SHA-256 hash appear at the same
  place among the texts hashed for the two trees.\<close>
theorem merkle_root_binds_leaves:
  assumes "sha256_format env" "length xs = length ys"
    and "\<forall>x \<in> set xs. length x = 64" "\<forall>y \<in> set ys. length y = 64"
    and "merkle_root env xs = merkle_root env ys"
  shows "xs = ys \<or>
    (\<exists>k < length (tree_texts env xs). collides env (tree_texts env xs ! k) (tree_texts env ys ! k))"
proof (cases "xs = []")
  case False
  with assms(2,5) have "root_loop env xs = root_loop env ys"
    by (auto simp: merkle_root_def split: if_splits)
  with assms roots_agree show ?thesis by blast
qed (use assms(2) in simp)

theorem merkle_root_binds_leaves_witness:
  "demo_leaves = demo_leaves \<or> (\<exists>k < length (tree_texts demo_env demo_leaves).
     collides demo_env (tree_texts demo_env demo_leaves ! k) (tree_texts demo_env demo_leaves ! k))"
  by (rule merkle_root_binds_leaves [OF demo_env_format]) (simp_all add: demo_leaves_def)

text \<open>The root does not bind the number of leaves. For every odd number of leaves above one,
  repeating the last leaf gives the same root; the leaf count has to be published with the root, as
  the anchored checkpoint does, and snapshot leaves are unique by a table constraint.\<close>
theorem merkle_root_repeats_last:
  assumes "odd (length leaves)" "1 < length leaves"
  shows "merkle_root env (leaves @ [last leaves]) = merkle_root env leaves"
proof -
  have ne: "leaves \<noteq> []" using assms(2) by auto
  have "root_loop env (leaves @ [last leaves]) = root_loop env (next_level env (leaves @ [last leaves]))"
    using ne by (simp add: root_loop.simps [of env "leaves @ [last leaves]"])
  also have "\<dots> = root_loop env leaves"
    using assms by (simp add: next_level_odd root_loop.simps [of env leaves])
  finally show ?thesis using ne by (simp add: merkle_root_def)
qed

theorem merkle_root_repeats_last_witness:
  "merkle_root demo_env ([''a'', ''b'', ''c''] @ [last [''a'', ''b'', ''c'']]) = merkle_root demo_env [''a'', ''b'', ''c'']"
  by (rule merkle_root_repeats_last) simp_all

end
