(* ===== verification/Voting_Proofs.thy ===== *)
theory Voting_Proofs
  imports Voting Merkle
begin

text \<open>
  The handlers of \<open>services/api/src/voting_proofs.rs\<close>: the snapshot of a closed round (tally, Merkle
  root over the receipts in receipt order, one leaf row per vote) and the inclusion proof of a receipt.
\<close>

fun proofs_db_error :: "db_error \<Rightarrow> api_error" where
  "proofs_db_error Unique_violation = Conflict ''voting_snapshot_already_exists''"
| "proofs_db_error Foreign_key_violation = InvalidRequest ''voting_snapshot_resource_missing''"
| "proofs_db_error Check_violation = InvalidRequest ''voting_snapshot_constraint_failed''"
| "proofs_db_error Invalid_text_representation = InvalidRequest ''voting_snapshot_constraint_failed''"
| "proofs_db_error Numeric_out_of_range = Database"
| "proofs_db_error Other_database_error = Database"
| "proofs_db_error Connection_error = Database"

record SnapshotTallyEntry =
  ste_pageant_contestant_id :: uuid
  ste_display_name :: string
  ste_sash :: "string option"
  ste_votes :: int

record SnapshotVote =
  sv_vote_id :: uuid
  sv_pageant_contestant_id :: uuid
  sv_receipt_hash :: string

record ReceiptProofResponse =
  rp_snapshot_id :: uuid
  rp_round_id :: uuid
  rp_snapshot_status :: snapshot_status
  rp_receipt_hash :: string
  rp_leaf_index :: int
  rp_leaf_hash :: string
  rp_merkle_root :: string
  rp_proof :: "ProofStep list"

definition proofs_write_audit ::
  "uuid \<Rightarrow> uuid \<Rightarrow> uuid \<Rightarrow> string \<Rightarrow> uuid \<Rightarrow> json \<Rightarrow> 'x voting_db_scheme \<Rightarrow> api_error + 'x voting_db_scheme" where
  "proofs_write_audit new_id organization_id actor_user_id action entity_id metadata d =
     or_db_error proofs_db_error (insert_audit
       \<lparr>al_id = new_id, al_organization_id = Some organization_id, al_actor_user_id = Some actor_user_id,
        al_action = action, al_entity_type = ''voting_snapshot'', al_entity_id = Some entity_id,
        al_metadata = metadata\<rparr> d)"

definition load_snapshot :: "uuid \<Rightarrow> voting_db \<Rightarrow> api_error + VotingSnapshotRecord" where
  "load_snapshot snapshot_id d = ok_or (find (\<lambda>s. vs_id s = snapshot_id) (voting_snapshots d)) NotFound"

section \<open>Creating a snapshot\<close>

definition snapshot_tally :: "uuid \<Rightarrow> voting_db \<Rightarrow> SnapshotTallyEntry list" where
  "snapshot_tally round_id d =
     map (\<lambda>(vrc, pc, c). \<lparr>ste_pageant_contestant_id = pc_id pc, ste_display_name = ct_display_name c,
         ste_sash = pc_sash pc,
         ste_votes = sql_count (\<lambda>v. vt_round_id v = rc_round_id vrc \<and> vt_pageant_contestant_id v = pc_id pc)
           (votes d)\<rparr>)
       (sort_key (\<lambda>(vrc, pc, c). (rc_sort_order vrc, pc_id pc)) (round_entries round_id d))"

definition snapshot_votes :: "uuid \<Rightarrow> voting_db \<Rightarrow> SnapshotVote list" where
  "snapshot_votes round_id d =
     map (\<lambda>v. \<lparr>sv_vote_id = vt_id v, sv_pageant_contestant_id = vt_pageant_contestant_id v,
               sv_receipt_hash = vt_receipt_hash v\<rparr>)
       (sort_key (\<lambda>v. (vt_receipt_hash v, vt_id v)) (filter (\<lambda>v. vt_round_id v = round_id) (votes d)))"

fun opt_json :: "string option \<Rightarrow> json" where
  "opt_json None = JNull"
| "opt_json (Some s) = JStr s"

definition tally_json_of :: "SnapshotTallyEntry list \<Rightarrow> json" where
  "tally_json_of tally =
     JArr (map (\<lambda>e. JObj [(''display_name'', JStr (ste_display_name e)),
        (''pageant_contestant_id'', JStr (ste_pageant_contestant_id e)), (''sash'', opt_json (ste_sash e)),
        (''votes'', JInt (ste_votes e))]) tally)"

definition tally_total_of :: "SnapshotTallyEntry list \<Rightarrow> api_error + int" where
  "tally_total_of tally =
     try_fold (\<lambda>total entry. ok_or (checked_i64 (total + ste_votes entry))
       (InvalidRequest ''voting_tally_overflow'')) 0 tally"

definition leaf_text :: "uuid \<Rightarrow> SnapshotVote \<Rightarrow> string" where
  "leaf_text round_id v = ''crownfi-vote-leaf-v1|'' @ round_id @ ''|'' @ sv_receipt_hash v @ ''|'' @
     sv_pageant_contestant_id v"

definition leaf_hashes :: "env \<Rightarrow> uuid \<Rightarrow> SnapshotVote list \<Rightarrow> string list" where
  "leaf_hashes env round_id vs = map (\<lambda>v. hash_text env (leaf_text round_id v)) vs"

fun insert_leaves ::
  "uuid \<Rightarrow> nat \<Rightarrow> (SnapshotVote \<times> string) list \<Rightarrow> snapshot_leaf_row list \<Rightarrow> api_error + snapshot_leaf_row list"
  where
  "insert_leaves snapshot_id index [] rows = Inr rows"
| "insert_leaves snapshot_id index ((v, leaf_hash) # rest) rows =
     bind_result (ok_or (checked_i64 (int index)) (InvalidRequest ''voting_snapshot_too_large'')) (\<lambda>leaf_index.
     bind_result (or_db_error proofs_db_error (sql_insert leaf_check leaf_clash
         \<lparr>sl_snapshot_id = snapshot_id, sl_vote_id = sv_vote_id v, sl_receipt_hash = sv_receipt_hash v,
          sl_leaf_index = leaf_index, sl_leaf_hash = leaf_hash\<rparr> rows)) (\<lambda>rows.
     insert_leaves snapshot_id (Suc index) rest rows))"

text \<open>The counts and hashes of a snapshot, before anything is written.\<close>

definition snapshot_row ::
  "env \<Rightarrow> draws \<Rightarrow> uuid \<Rightarrow> VotingRoundRecord \<Rightarrow> voting_db \<Rightarrow> api_error + VotingSnapshotRecord" where
  "snapshot_row env q actor_user_id round d =
     (let round_id = vr_id round; tally = snapshot_tally round_id d; vs = snapshot_votes round_id d in
      bind_result (ok_or (checked_i64 (int (length vs))) (InvalidRequest ''voting_snapshot_too_large''))
        (\<lambda>total_votes.
      bind_result (tally_total_of tally) (\<lambda>tally_total.
      if total_votes \<noteq> tally_total then Inl (Conflict ''voting_snapshot_tally_mismatch'')
      else
      let tally_json = tally_json_of tally;
          tally_sha256 = hash_text env (json_to_vec env tally_json)
      in Inr \<lparr>vs_id = new_uuid q 0, vs_organization_id = vr_organization_id round,
           vs_pageant_id = vr_pageant_id round, vs_round_id = round_id, vs_version = 1,
           vs_status = Snap_created, vs_total_votes = total_votes, vs_tally_sha256 = tally_sha256,
           vs_merkle_root = merkle_root env (leaf_hashes env round_id vs), vs_tally_json = tally_json,
           vs_anchor_tx_hash = None, vs_anchor_contract_event_id = None, vs_accepted_evidence_id = None,
           vs_created_by_user_id = actor_user_id, vs_created_at = sql_now q, vs_anchored_at = None\<rparr>)))"

definition create_snapshot_tx ::
  "env \<Rightarrow> draws \<Rightarrow> headers \<Rightarrow> uuid \<Rightarrow> voting_db \<Rightarrow> api_error + (nat \<times> uuid) \<times> voting_db" where
  "create_snapshot_tx env q hdrs round_id d =
     bind_result (require_web_actor env hdrs) (\<lambda>actor_user_id.
     bind_result (database_pool env) (\<lambda>_.
     bind_result (ok_or (find (\<lambda>r. vr_id r = round_id) (voting_rounds d)) NotFound) (\<lambda>round.
     bind_result (require_organization_editor (vr_organization_id round) actor_user_id d) (\<lambda>_.
     if \<not> (vr_status round = Closed \<or> vr_status round = Anchored)
       then Inl (Conflict ''voting_round_not_closed'')
     else case find (\<lambda>s. vs_round_id s = round_id) (voting_snapshots d) of
         Some s \<Rightarrow> Inr ((200, vs_id s), d)
       | None \<Rightarrow>
           bind_result (snapshot_row env q actor_user_id round d) (\<lambda>s.
           bind_result (or_db_error proofs_db_error
               (sql_insert snapshot_check snapshot_clash s (voting_snapshots d))) (\<lambda>snaps.
           bind_result (let vs = snapshot_votes round_id d in
               insert_leaves (vs_id s) 0 (zip vs (leaf_hashes env round_id vs)) (voting_snapshot_leaves d)) (\<lambda>leaves.
           bind_result (proofs_write_audit (new_uuid q 1) (vr_organization_id round) actor_user_id
               ''voting_snapshot.create'' (vs_id s)
               (JObj [(''round_id'', JStr round_id), (''total_votes'', JInt (vs_total_votes s)),
                  (''tally_sha256'', JStr (vs_tally_sha256 s)), (''merkle_root'', JStr (vs_merkle_root s))])
               (d\<lparr>voting_snapshots := snaps, voting_snapshot_leaves := leaves\<rparr>))
             (\<lambda>d. Inr ((201, vs_id s), d)))))))))"

definition create_snapshot ::
  "env \<Rightarrow> draws \<Rightarrow> headers \<Rightarrow> uuid \<Rightarrow> voting_db \<Rightarrow> (api_error + nat \<times> VotingSnapshotRecord) \<times> voting_db" where
  "create_snapshot env q hdrs round_id d =
     then_read (transaction (create_snapshot_tx env q hdrs round_id) d)
       (\<lambda>(status, snapshot_id) d. map_sum id (Pair status) (load_snapshot snapshot_id d))"

section \<open>Reading\<close>

definition get_snapshot :: "env \<Rightarrow> uuid \<Rightarrow> voting_db \<Rightarrow> api_error + VotingSnapshotRecord" where
  "get_snapshot env round_id d =
     bind_result (database_pool env) (\<lambda>_.
     bind_result (ok_or (map_option vs_id (find (\<lambda>s. vs_round_id s = round_id) (voting_snapshots d))) NotFound)
       (\<lambda>snapshot_id. load_snapshot snapshot_id d))"

definition snapshot_leaf_hashes :: "uuid \<Rightarrow> voting_db \<Rightarrow> string list" where
  "snapshot_leaf_hashes snapshot_id d =
     map sl_leaf_hash (sort_key sl_leaf_index
       (filter (\<lambda>l. sl_snapshot_id l = snapshot_id) (voting_snapshot_leaves d)))"

definition get_receipt_proof :: "env \<Rightarrow> string \<Rightarrow> voting_db \<Rightarrow> api_error + ReceiptProofResponse" where
  "get_receipt_proof env receipt_hash d =
     bind_result (validate_hash receipt_hash ''invalid_vote_receipt_hash'') (\<lambda>receipt_hash.
     bind_result (database_pool env) (\<lambda>_.
     bind_result (ok_or (find (\<lambda>l. sl_receipt_hash l = receipt_hash) (voting_snapshot_leaves d)) NotFound) (\<lambda>leaf.
     bind_result (load_snapshot (sl_snapshot_id leaf) d) (\<lambda>snapshot.
     let leaves = snapshot_leaf_hashes (sl_snapshot_id leaf) d in
     bind_result (guard (0 \<le> sl_leaf_index leaf) (InvalidRequest ''invalid_vote_leaf_index'')) (\<lambda>_.
     let index = nat (sl_leaf_index leaf) in
     if index \<ge> length leaves \<or> leaves ! index \<noteq> sl_leaf_hash leaf
       then Inl (Conflict ''voting_snapshot_leaf_drift'')
     else
     bind_result (merkle_proof env leaves index) (\<lambda>proof_a.
     if \<not> verify_proof env (sl_leaf_hash leaf) proof_a (vs_merkle_root snapshot)
       then Inl (Conflict ''voting_snapshot_proof_invalid'')
     else Inr \<lparr>rp_snapshot_id = vs_id snapshot, rp_round_id = vs_round_id snapshot,
         rp_snapshot_status = vs_status snapshot, rp_receipt_hash = sl_receipt_hash leaf,
         rp_leaf_index = sl_leaf_index leaf, rp_leaf_hash = sl_leaf_hash leaf,
         rp_merkle_root = vs_merkle_root snapshot, rp_proof = proof_a\<rparr>))))))"

end
