(* ===== verification/Voting_Anchor.thy ===== *)
theory Voting_Anchor
  imports Voting_Data
begin

text \<open>
  The handlers of \<open>services/api/src/voting_anchor.rs\<close>: the request to publish a snapshot on the audit
  anchor contract, the worker's submission of a transaction and its acceptance of chain evidence.
\<close>

fun anchor_db_error :: "db_error \<Rightarrow> api_error" where
  "anchor_db_error Unique_violation = Conflict ''voting_anchor_resource_already_exists''"
| "anchor_db_error Foreign_key_violation = InvalidRequest ''voting_anchor_resource_missing''"
| "anchor_db_error Check_violation = InvalidRequest ''voting_anchor_constraint_failed''"
| "anchor_db_error Invalid_text_representation = InvalidRequest ''voting_anchor_constraint_failed''"
| "anchor_db_error Numeric_out_of_range = Database"
| "anchor_db_error Other_database_error = Database"
| "anchor_db_error Connection_error = Database"

record AnchorEvidenceRequest =
  aer_transaction_hash :: string
  aer_ledger_sequence :: int
  aer_event_reference :: string
  aer_contract_id :: string
  aer_contract_round_key :: int
  aer_merkle_root :: string
  aer_tally_sha256 :: string
  aer_total_votes :: int
  aer_raw_event :: json

record RoundAnchorResponse =
  rar_intent :: AnchorIntentRecord
  rar_evidence :: "AnchorEvidenceRecord option"

definition validate_contract_id :: "string \<Rightarrow> api_error + string" where
  "validate_contract_id value = validate_strkey (CHR ''C'') value ''invalid_audit_anchor_contract_id''"

definition anchor_write_audit ::
  "uuid \<Rightarrow> uuid \<Rightarrow> uuid option \<Rightarrow> string \<Rightarrow> string \<Rightarrow> uuid \<Rightarrow> json \<Rightarrow> 'x voting_db_scheme \<Rightarrow>
   api_error + 'x voting_db_scheme" where
  "anchor_write_audit new_id organization_id actor_user_id action entity_type entity_id metadata d =
     or_db_error anchor_db_error (insert_audit
       \<lparr>al_id = new_id, al_organization_id = Some organization_id, al_actor_user_id = actor_user_id,
        al_action = action, al_entity_type = entity_type, al_entity_id = Some entity_id, al_metadata = metadata\<rparr> d)"

definition load_intent_tx :: "uuid \<Rightarrow> voting_db \<Rightarrow> api_error + AnchorIntentRecord" where
  "load_intent_tx intent_id d = ok_or (find (\<lambda>i. ai_id i = intent_id) (voting_anchor_intents d)) NotFound"

definition load_evidence_tx :: "uuid \<Rightarrow> voting_db \<Rightarrow> AnchorEvidenceRecord option" where
  "load_evidence_tx intent_id d = find (\<lambda>e. ae_anchor_intent_id e = intent_id) (voting_anchor_evidence d)"

section \<open>Requesting an anchor\<close>

text \<open>The most recently recorded verified audit anchor deployment on testnet.\<close>

definition verified_deployment :: "voting_db \<Rightarrow> ContractDeploymentRecord option" where
  "verified_deployment d =
     (case sort_key (\<lambda>c. - cd_created_at c)
        (filter (\<lambda>c. cd_network c = ''testnet'' \<and> cd_contract_kind c = ''audit-anchor'' \<and>
           cd_status c = ''verified'') (contract_deployments d)) of
        [] \<Rightarrow> None | c # _ \<Rightarrow> Some c)"

definition next_round_key :: "voting_db \<Rightarrow> db_error + int \<times> voting_db" where
  "next_round_key d =
     (let k = voting_anchor_round_key_seq d in
      if k > 4294967295 then Inl Other_database_error
      else Inr (k, d\<lparr>voting_anchor_round_key_seq := k + 1\<rparr>))"

definition anchor_operation :: "VotingSnapshotRecord \<Rightarrow> ContractDeploymentRecord \<Rightarrow> int \<Rightarrow> json" where
  "anchor_operation snapshot deployment round_key =
     JObj [(''network'', JStr ''testnet''), (''contract_id'', JStr (cd_contract_id deployment)),
       (''function'', JStr ''publish''),
       (''arguments'', JObj [(''round_id_u32'', JInt round_key),
          (''merkle_root_bytes32_hex'', JStr (vs_merkle_root snapshot)),
          (''tally_hash_bytes32_hex'', JStr (vs_tally_sha256 snapshot)),
          (''total_votes_u32'', JInt (vs_total_votes snapshot))]),
       (''source'', JObj [(''snapshot_id'', JStr (vs_id snapshot)), (''round_id'', JStr (vs_round_id snapshot)),
          (''pageant_id'', JStr (vs_pageant_id snapshot))])]"

definition anchor_intent ::
  "env \<Rightarrow> draws \<Rightarrow> uuid \<Rightarrow> string \<Rightarrow> VotingSnapshotRecord \<Rightarrow> ContractDeploymentRecord \<Rightarrow> int \<Rightarrow> AnchorIntentRecord"
  where
  "anchor_intent env q actor_user_id key snapshot deployment round_key =
     (let operation_json = anchor_operation snapshot deployment round_key in
      \<lparr>ai_id = new_uuid q 0, ai_organization_id = vs_organization_id snapshot, ai_snapshot_id = vs_id snapshot,
       ai_round_id = vs_round_id snapshot, ai_contract_deployment_id = cd_id deployment,
       ai_contract_round_key = round_key, ai_network = ''testnet'', ai_contract_id = cd_contract_id deployment,
       ai_function_name = ''publish'', ai_merkle_root = vs_merkle_root snapshot,
       ai_tally_sha256 = vs_tally_sha256 snapshot, ai_total_votes = vs_total_votes snapshot,
       ai_operation_json = operation_json, ai_request_sha256 = hash_text env (json_to_vec env operation_json),
       ai_idempotency_key = key, ai_status = Intent_created, ai_submitted_tx_hash = None,
       ai_failure_code = None, ai_created_by_user_id = actor_user_id, ai_submitted_at = None,
       ai_confirmed_at = None, ai_created_at = sql_now q, ai_updated_at = sql_now q\<rparr>)"

definition create_anchor_intent_tx ::
  "env \<Rightarrow> draws \<Rightarrow> headers \<Rightarrow> uuid \<Rightarrow> string \<Rightarrow> voting_db \<Rightarrow>
   api_error + (nat \<times> AnchorIntentRecord) \<times> voting_db" where
  "create_anchor_intent_tx env q hdrs snapshot_id idempotency_key d =
     bind_result (require_web_actor env hdrs) (\<lambda>actor_user_id.
     bind_result (required_text idempotency_key 200 ''invalid_voting_anchor_idempotency_key'') (\<lambda>key.
     bind_result (database_pool env) (\<lambda>_.
     bind_result (ok_or (find (\<lambda>s. vs_id s = snapshot_id) (voting_snapshots d)) NotFound) (\<lambda>snapshot.
     bind_result (require_organization_editor (vs_organization_id snapshot) actor_user_id d) (\<lambda>_.
     if \<not> (vs_status snapshot = Snap_created \<or> vs_status snapshot = Snap_anchor_pending)
       then Inl (Conflict ''voting_snapshot_not_anchorable'')
     else case find (\<lambda>i. ai_snapshot_id i = snapshot_id) (voting_anchor_intents d) of
         Some existing \<Rightarrow>
           if ai_idempotency_key existing \<noteq> key then Inl (Conflict ''voting_snapshot_anchor_already_requested'')
           else Inr ((200, existing), d)
       | None \<Rightarrow>
           bind_result (ok_or (verified_deployment d) (Conflict ''verified_audit_anchor_contract_missing''))
             (\<lambda>deployment.
           bind_result (or_db_error anchor_db_error (next_round_key d)) (\<lambda>key_and_db.
           let round_key = fst key_and_db; d = snd key_and_db;
               intent = anchor_intent env q actor_user_id key snapshot deployment round_key in
           bind_result (or_db_error anchor_db_error
               (sql_insert intent_check intent_clash intent (voting_anchor_intents d))) (\<lambda>intents.
           bind_result (anchor_write_audit (new_uuid q 1) (vs_organization_id snapshot) (Some actor_user_id)
               ''voting_anchor.intent.create'' ''voting_anchor_intent'' (ai_id intent)
               (JObj [(''snapshot_id'', JStr snapshot_id), (''round_id'', JStr (vs_round_id snapshot)),
                  (''contract_deployment_id'', JStr (cd_id deployment)),
                  (''contract_round_key'', JInt round_key),
                  (''request_sha256'', JStr (ai_request_sha256 intent))])
               (d\<lparr>voting_anchor_intents := intents,
                  voting_snapshots := sql_update (\<lambda>s. vs_id s = snapshot_id \<and> vs_status s = Snap_created)
                    (\<lambda>s. s\<lparr>vs_status := Snap_anchor_pending\<rparr>) (voting_snapshots d)\<rparr>)) (\<lambda>d.
           bind_result (load_intent_tx (ai_id intent) d) (\<lambda>record_a. Inr ((201, record_a), d)))))))))))"

definition create_anchor_intent where
  "create_anchor_intent env q hdrs snapshot_id key d =
     transaction (create_anchor_intent_tx env q hdrs snapshot_id key) d"

section \<open>Submission\<close>

definition record_anchor_submission_tx ::
  "env \<Rightarrow> draws \<Rightarrow> headers \<Rightarrow> uuid \<Rightarrow> string \<Rightarrow> voting_db \<Rightarrow> api_error + AnchorIntentRecord \<times> voting_db" where
  "record_anchor_submission_tx env q hdrs intent_id transaction_hash d =
     bind_result (require_worker env hdrs) (\<lambda>_.
     bind_result (validate_hash transaction_hash ''invalid_voting_anchor_transaction_hash'') (\<lambda>hash.
     bind_result (database_pool env) (\<lambda>_.
     bind_result (load_intent_tx intent_id d) (\<lambda>intent.
     if ai_status intent = Intent_confirmed then Inl (Conflict ''voting_anchor_already_confirmed'')
     else if ai_status intent = Intent_submitted then
       (if ai_submitted_tx_hash intent \<noteq> Some hash then Inl (Conflict ''voting_anchor_submission_conflict'')
        else Inr (intent, d))
     else if ai_status intent \<noteq> Intent_created then Inl (Conflict ''voting_anchor_not_submittable'')
     else
     bind_result (anchor_write_audit (new_uuid q 0) (ai_organization_id intent) None ''voting_anchor.submit''
         ''voting_anchor_intent'' intent_id (JObj [(''transaction_hash'', JStr hash)])
         (d\<lparr>voting_anchor_intents := sql_update (\<lambda>i. ai_id i = intent_id \<and> ai_status i = Intent_created)
            (\<lambda>i. i\<lparr>ai_status := Intent_submitted, ai_submitted_tx_hash := Some hash,
                   ai_submitted_at := Some (sql_now q), ai_updated_at := sql_now q\<rparr>)
            (voting_anchor_intents d)\<rparr>)) (\<lambda>d.
     bind_result (load_intent_tx intent_id d) (\<lambda>record_a. Inr (record_a, d)))))))"

definition record_anchor_submission where
  "record_anchor_submission env q hdrs intent_id hash d =
     transaction (record_anchor_submission_tx env q hdrs intent_id hash) d"

section \<open>Evidence\<close>

definition anchor_evidence ::
  "draws \<Rightarrow> AnchorIntentRecord \<Rightarrow> AnchorEvidenceRequest \<Rightarrow> string \<Rightarrow> string \<Rightarrow> string \<Rightarrow> string \<Rightarrow> AnchorEvidenceRecord"
  where
  "anchor_evidence q intent body hash event_reference root tally =
     \<lparr>ae_id = new_uuid q 0, ae_organization_id = ai_organization_id intent, ae_anchor_intent_id = ai_id intent,
      ae_snapshot_id = ai_snapshot_id intent, ae_contract_deployment_id = ai_contract_deployment_id intent,
      ae_contract_round_key = ai_contract_round_key intent, ae_contract_id = ai_contract_id intent,
      ae_transaction_hash = hash, ae_ledger_sequence = aer_ledger_sequence body,
      ae_event_reference = event_reference, ae_merkle_root = root, ae_tally_sha256 = tally,
      ae_total_votes = aer_total_votes body, ae_raw_event = aer_raw_event body,
      ae_accepted_at = now_utc q 0, ae_created_at = sql_now q\<rparr>"

definition confirm_anchor ::
  "draws \<Rightarrow> AnchorIntentRecord \<Rightarrow> AnchorEvidenceRecord \<Rightarrow> voting_db \<Rightarrow> voting_db" where
  "confirm_anchor q intent ev d =
     d\<lparr>voting_anchor_intents := sql_update (\<lambda>i. ai_id i = ai_id intent)
         (\<lambda>i. i\<lparr>ai_status := Intent_confirmed, ai_confirmed_at := Some (ae_accepted_at ev),
                ai_updated_at := sql_now q\<rparr>) (voting_anchor_intents d),
       voting_snapshots := sql_update (\<lambda>s. vs_id s = ai_snapshot_id intent \<and> vs_status s = Snap_anchor_pending)
         (\<lambda>s. s\<lparr>vs_status := Snap_anchored, vs_anchor_tx_hash := Some (ae_transaction_hash ev),
                vs_anchor_contract_event_id := Some (ae_event_reference ev),
                vs_accepted_evidence_id := Some (ae_id ev), vs_anchored_at := Some (ae_accepted_at ev)\<rparr>)
         (voting_snapshots d),
       voting_rounds := sql_update (\<lambda>r. vr_id r = ai_round_id intent \<and> vr_status r = Closed)
         (\<lambda>r. r\<lparr>vr_status := Anchored, vr_updated_at := sql_now q\<rparr>) (voting_rounds d)\<rparr>"

definition accept_anchor_evidence_tx ::
  "env \<Rightarrow> draws \<Rightarrow> headers \<Rightarrow> uuid \<Rightarrow> AnchorEvidenceRequest \<Rightarrow> voting_db \<Rightarrow>
   api_error + (nat \<times> AnchorEvidenceRecord) \<times> voting_db" where
  "accept_anchor_evidence_tx env q hdrs intent_id body d =
     bind_result (require_worker env hdrs) (\<lambda>_.
     bind_result (validate_hash (aer_transaction_hash body) ''invalid_voting_anchor_transaction_hash'') (\<lambda>hash.
     bind_result (required_text (aer_event_reference body) 240 ''invalid_voting_anchor_event_reference'')
       (\<lambda>event_reference.
     bind_result (validate_contract_id (aer_contract_id body)) (\<lambda>contract_id.
     bind_result (validate_hash (aer_merkle_root body) ''invalid_voting_merkle_root'') (\<lambda>root.
     bind_result (validate_hash (aer_tally_sha256 body) ''invalid_voting_tally_hash'') (\<lambda>tally.
     if aer_ledger_sequence body \<le> 0 \<or>
        \<not> (1 \<le> aer_contract_round_key body \<and> aer_contract_round_key body \<le> 4294967295) \<or>
        \<not> (0 \<le> aer_total_votes body \<and> aer_total_votes body \<le> 4294967295) \<or>
        \<not> is_object (aer_raw_event body)
       then Inl (InvalidRequest ''invalid_voting_anchor_evidence'')
     else
     bind_result (database_pool env) (\<lambda>_.
     bind_result (load_intent_tx intent_id d) (\<lambda>intent.
     case load_evidence_tx intent_id d of
       Some existing \<Rightarrow>
         if ae_transaction_hash existing \<noteq> hash \<or> ae_event_reference existing \<noteq> event_reference \<or>
            ae_merkle_root existing \<noteq> root \<or> ae_tally_sha256 existing \<noteq> tally
         then Inl (Conflict ''voting_anchor_evidence_conflict'')
         else Inr ((200, existing), d)
     | None \<Rightarrow>
         if ai_status intent \<noteq> Intent_submitted \<or> ai_submitted_tx_hash intent \<noteq> Some hash
           then Inl (Conflict ''voting_anchor_not_submitted'')
         else if ai_contract_id intent \<noteq> contract_id \<or>
            ai_contract_round_key intent \<noteq> aer_contract_round_key body \<or> ai_merkle_root intent \<noteq> root \<or>
            ai_tally_sha256 intent \<noteq> tally \<or> ai_total_votes intent \<noteq> aer_total_votes body
           then Inl (Conflict ''voting_anchor_evidence_mismatch'')
         else
         let ev = anchor_evidence q intent body hash event_reference root tally in
         bind_result (or_db_error anchor_db_error
             (sql_insert evidence_check evidence_clash ev (voting_anchor_evidence d))) (\<lambda>rows.
         bind_result (anchor_write_audit (new_uuid q 1) (ai_organization_id intent) None
             ''voting_anchor.confirm'' ''voting_anchor_evidence'' (ae_id ev)
             (JObj [(''intent_id'', JStr intent_id), (''snapshot_id'', JStr (ai_snapshot_id intent)),
                (''round_id'', JStr (ai_round_id intent)),
                (''contract_round_key'', JInt (ai_contract_round_key intent)),
                (''transaction_hash'', JStr hash), (''ledger_sequence'', JInt (aer_ledger_sequence body)),
                (''event_reference'', JStr event_reference)])
             (confirm_anchor q intent ev (d\<lparr>voting_anchor_evidence := rows\<rparr>))) (\<lambda>d.
         bind_result (ok_or (load_evidence_tx intent_id d) NotFound) (\<lambda>evidence.
         Inr ((201, evidence), d))))))))))))"

definition accept_anchor_evidence where
  "accept_anchor_evidence env q hdrs intent_id body d =
     transaction (accept_anchor_evidence_tx env q hdrs intent_id body) d"

definition get_round_anchor :: "env \<Rightarrow> uuid \<Rightarrow> voting_db \<Rightarrow> api_error + RoundAnchorResponse" where
  "get_round_anchor env round_id d =
     bind_result (database_pool env) (\<lambda>_.
     bind_result (ok_or (find (\<lambda>i. ai_round_id i = round_id) (voting_anchor_intents d)) NotFound) (\<lambda>intent.
     Inr \<lparr>rar_intent = intent,
          rar_evidence = find (\<lambda>e. ae_anchor_intent_id e = ai_id intent) (voting_anchor_evidence d)\<rparr>))"

end
