(* ===== verification/Voting_Effects.thy ===== *)
theory Voting_Effects
  imports Voting_Proofs Voting_Anchor
begin

text \<open>
  What each voting handler does to the tables when it commits, as elimination rules: the facts its
  guards established and the new state as an update of the old one. Later proofs use these rules
  instead of the handlers' definitions.
\<close>

section \<open>Single statements\<close>

lemma write_round_event_Inr:
  "write_round_event i o1 r a act prev new why meta d = Inr d' \<Longrightarrow>
     d' = d\<lparr>voting_round_events := voting_round_events d'\<rparr>"
  by (auto simp: write_round_event_def or_db_error_def sql_insert_def split: if_splits)

lemma voting_write_audit_Inr [result_simps]:
  "voting_write_audit i o1 a act ent meta d = Inr d' \<longleftrightarrow> is_object meta \<and>
     (\<forall>r \<in> set (audit_logs d). al_id r \<noteq> i) \<and>
     d' = d\<lparr>audit_logs := audit_logs d @ [\<lparr>al_id = i, al_organization_id = Some o1, al_actor_user_id = Some a,
       al_action = act, al_entity_type = ''voting'', al_entity_id = Some ent, al_metadata = meta\<rparr>]\<rparr>"
  by (simp add: voting_write_audit_def result_simps)

lemma proofs_write_audit_Inr [result_simps]:
  "proofs_write_audit i o1 a act ent meta d = Inr d' \<longleftrightarrow> is_object meta \<and>
     (\<forall>r \<in> set (audit_logs d). al_id r \<noteq> i) \<and>
     d' = d\<lparr>audit_logs := audit_logs d @ [\<lparr>al_id = i, al_organization_id = Some o1, al_actor_user_id = Some a,
       al_action = act, al_entity_type = ''voting_snapshot'', al_entity_id = Some ent, al_metadata = meta\<rparr>]\<rparr>"
  by (simp add: proofs_write_audit_def result_simps)

lemma anchor_write_audit_Inr [result_simps]:
  "anchor_write_audit i o1 a act et ent meta d = Inr d' \<longleftrightarrow> is_object meta \<and>
     (\<forall>r \<in> set (audit_logs d). al_id r \<noteq> i) \<and>
     d' = d\<lparr>audit_logs := audit_logs d @ [\<lparr>al_id = i, al_organization_id = Some o1, al_actor_user_id = a,
       al_action = act, al_entity_type = et, al_entity_id = Some ent, al_metadata = meta\<rparr>]\<rparr>"
  by (simp add: anchor_write_audit_def result_simps)

section \<open>Loops\<close>

lemma insert_contestants_rows:
  "insert_contestants rid k cs rows = Inr rows' \<Longrightarrow>
   rows' = rows @ map (\<lambda>(i, c). \<lparr>rc_round_id = rid, rc_pageant_contestant_id = c, rc_sort_order = int i\<rparr>)
     (enumerate k cs)"
  by (induction rid k cs rows rule: insert_contestants.induct) (simp, fastforce simp: result_simps)

lemma insert_contestants_distinct:
  "insert_contestants rid k cs rows = Inr rows' \<Longrightarrow>
   distinct (map (\<lambda>c. (rc_round_id c, rc_pageant_contestant_id c)) rows) \<Longrightarrow>
   distinct (map (\<lambda>c. (rc_round_id c, rc_pageant_contestant_id c)) rows')"
proof (induction rid k cs rows rule: insert_contestants.induct)
  case (2 rid k c cs rows)
  from "2.prems"(1) obtain rows1 where
    1: "sql_insert (\<lambda>c. 0 \<le> rc_sort_order c) round_contestant_clash
       \<lparr>rc_round_id = rid, rc_pageant_contestant_id = c, rc_sort_order = int k\<rparr> rows = Inr rows1"
    and 2: "insert_contestants rid (Suc k) cs rows1 = Inr rows'" and g: "int k \<le> 2147483647"
    by (auto simp only: insert_contestants.simps bind_result_Inr or_db_error_Inr guard_Inr)
  from slots.insert_distinct [OF "2.prems"(2) 1]
  have "distinct (map (\<lambda>c. (rc_round_id c, rc_pageant_contestant_id c)) rows1)" .
  with "2.IH" [of rows1] 1 2 g show ?case by (simp add: guard_Inr)
qed simp

lemma insert_leaves_rows:
  "insert_leaves sid k vs rows = Inr rows' \<Longrightarrow>
   rows' = rows @ map (\<lambda>(i, v, h). \<lparr>sl_snapshot_id = sid, sl_vote_id = sv_vote_id v,
       sl_receipt_hash = sv_receipt_hash v, sl_leaf_index = int i, sl_leaf_hash = h\<rparr>) (enumerate k vs)"
  by (induction sid k vs rows rule: insert_leaves.induct) (simp, fastforce simp: result_simps)

lemma insert_leaves_distinct:
  "insert_leaves sid k vs rows = Inr rows' \<Longrightarrow> distinct (map sl_receipt_hash rows) \<Longrightarrow>
   distinct (map sl_receipt_hash rows')"
proof (induction sid k vs rows rule: insert_leaves.induct)
  case (2 sid k v h vs rows)
  from "2.prems"(1) obtain rows1 where k: "checked_i64 (int k) = Some (int k)"
    and 1: "sql_insert leaf_check leaf_clash
       \<lparr>sl_snapshot_id = sid, sl_vote_id = sv_vote_id v, sl_receipt_hash = sv_receipt_hash v,
        sl_leaf_index = int k, sl_leaf_hash = h\<rparr> rows = Inr rows1"
    and 2: "insert_leaves sid (Suc k) vs rows1 = Inr rows'"
    by (auto simp only: insert_leaves.simps bind_result_Inr or_db_error_Inr ok_or_Inr checked_Some)
  from leaf_receipts.insert_distinct [OF "2.prems"(2) 1] have "distinct (map sl_receipt_hash rows1)" .
  with "2.IH" [of rows1] 1 2 k show ?case by simp
qed simp

section \<open>Rounds\<close>

lemma create_round_txE:
  assumes "create_round_tx env q hdrs b d = Inr (rid, d')"
  obtains r rows es al where
    "vr_id r = rid" "vr_status r = Scheduled" "vr_pageant_id r = crq_pageant_id b"
    "vr_organization_id r = crq_organization_id b" "vr_opens_at r < vr_closes_at r"
    "sql_insert round_check round_clash r (voting_rounds d) = Inr (voting_rounds d @ [r])"
    "distinct (crq_contestant_ids b)" "2 \<le> length (crq_contestant_ids b)"
    "check_eligible (crq_pageant_id b) (crq_category_id b) (crq_contestant_ids b) d = Inr ()"
    "insert_contestants rid 0 (crq_contestant_ids b) (voting_round_contestants d) = Inr rows"
    "d' = d\<lparr>voting_rounds := voting_rounds d @ [r], voting_round_contestants := rows,
            voting_round_events := es, audit_logs := al\<rparr>"
proof -
  from assms obtain actor slug title desc o1 c1 rounds rows d1 where
    ins: "or_db_error voting_db_error (sql_insert round_check round_clash
      (created_round q actor slug title desc o1 c1 b) (voting_rounds d)) = Inr rounds"
    and rows: "insert_contestants (new_uuid q 0) 0 (crq_contestant_ids b) (voting_round_contestants d) = Inr rows"
    and ev: "write_round_event (new_uuid q 1) (crq_organization_id b) (new_uuid q 0) actor ''create'' None Scheduled
      (round_created_reason (crq_reason b))
      (JObj [(''pageant_id'', JStr (crq_pageant_id b)), (''category_id'', JStr (crq_category_id b))])
      (d\<lparr>voting_rounds := rounds, voting_round_contestants := rows\<rparr>) = Inr d1"
    and el: "check_eligible (crq_pageant_id b) (crq_category_id b) (crq_contestant_ids b) d = Inr ()"
    and t: "\<not> c1 \<le> o1" "\<not> (\<not> distinct (crq_contestant_ids b) \<or> length (crq_contestant_ids b) < 2)"
    and au: "bind_result (voting_write_audit (new_uuid q 2) (crq_organization_id b) actor
         ''voting_round.create'' (new_uuid q 0)
         (JObj [(''slug'', JStr slug), (''contestant_count'', JInt (int (length (crq_contestant_ids b))))]) d1)
       (\<lambda>d. Inr (new_uuid q 0, d)) = Inr (rid, d')"
    unfolding create_round_tx_def Let_def
    by (elim bind_InrE if_InrE) (rule that, assumption+, simp, assumption+, simp)
  let ?r = "created_round q actor slug title desc o1 c1 b"
  from au have "d' = d1\<lparr>audit_logs := audit_logs d'\<rparr>" and rid: "rid = new_uuid q 0"
    by (auto simp: bind_result_Inr voting_write_audit_Inr)
  moreover have "d1 = d\<lparr>voting_rounds := rounds, voting_round_contestants := rows,
      voting_round_events := voting_round_events d1\<rparr>" using write_round_event_Inr [OF ev] by simp
  moreover have "rounds = voting_rounds d @ [?r]" using ins by (simp add: or_db_error_Inr sql_insert_Inr)
  ultimately have "d' = d\<lparr>voting_rounds := voting_rounds d @ [?r], voting_round_contestants := rows,
      voting_round_events := voting_round_events d1, audit_logs := audit_logs d'\<rparr>" by metis
  then show thesis
    by (rule that [rotated 10])
      (use t el ins rows rid in \<open>simp_all add: created_round_def or_db_error_Inr sql_insert_Inr\<close>)
qed

lemma transition_round_txE:
  assumes "transition_round_tx env q hdrs rid why opening d = Inr (u, d')"
  obtains r f es al where
    "find (\<lambda>r. vr_id r = rid) (voting_rounds d) = Some r"
    "opening \<Longrightarrow> (vr_status r = Draft \<or> vr_status r = Scheduled) \<and> vr_opens_at r \<le> now_utc q 0 \<and>
       now_utc q 0 < vr_closes_at r"
    "\<not> opening \<Longrightarrow> vr_status r = Open \<or> vr_status r = Closing"
    "\<And>x. vr_status (f x) = (if opening then Open else Closed)"
    "\<And>x. vr_id (f x) = vr_id x \<and> vr_organization_id (f x) = vr_organization_id x \<and>
       vr_pageant_id (f x) = vr_pageant_id x \<and> vr_category_id (f x) = vr_category_id x \<and>
       vr_slug (f x) = vr_slug x \<and> vr_opens_at (f x) = vr_opens_at x \<and> vr_closes_at (f x) = vr_closes_at x"
    "d' = d\<lparr>voting_rounds := sql_update (\<lambda>r. vr_id r = rid) f (voting_rounds d),
            voting_round_events := es, audit_logs := al\<rparr>"
proof (cases "opening")
  case True
  with assms obtain r actor o1 act1 why1 meta d1 where
    r: "find (\<lambda>r. vr_id r = rid) (voting_rounds d) = Some r"
    "vr_status r = Draft \<or> vr_status r = Scheduled" "vr_opens_at r \<le> now_utc q 0" "now_utc q 0 < vr_closes_at r"
    and ev: "write_round_event (new_uuid q 0) o1 rid actor act1 (Some (vr_status r)) Open why1 meta
      (d\<lparr>voting_rounds := sql_update (\<lambda>r. vr_id r = rid) (\<lambda>r. r\<lparr>vr_status := Open,
         vr_opened_at := coalesce (vr_opened_at r) (sql_now q), vr_updated_at := sql_now q\<rparr>) (voting_rounds d)\<rparr>)
      = Inr d1"
    and au: "d' = d1\<lparr>audit_logs := audit_logs d'\<rparr>"
    by (auto simp: transition_round_tx_def bind_result_Inr ok_or_Inr if_Inl_Inr voting_write_audit_Inr)
  from au write_round_event_Inr [OF ev] have
    "d' = d\<lparr>voting_rounds := sql_update (\<lambda>r. vr_id r = rid) (\<lambda>r. r\<lparr>vr_status := Open,
         vr_opened_at := coalesce (vr_opened_at r) (sql_now q), vr_updated_at := sql_now q\<rparr>) (voting_rounds d),
       voting_round_events := voting_round_events d1, audit_logs := audit_logs d'\<rparr>"
    by (metis (no_types, lifting) voting_db.update_convs(4))
  then show thesis by (rule that [rotated 5]) (use r True in simp_all)
next
  case False
  with assms obtain r actor o1 act1 why1 meta d1 where
    r: "find (\<lambda>r. vr_id r = rid) (voting_rounds d) = Some r" "vr_status r = Open \<or> vr_status r = Closing"
    and ev: "write_round_event (new_uuid q 0) o1 rid actor act1 (Some (vr_status r)) Closed why1 meta
      (d\<lparr>voting_rounds := sql_update (\<lambda>r. vr_id r = rid) (\<lambda>r. r\<lparr>vr_status := Closed,
         vr_closed_at := coalesce (vr_closed_at r) (sql_now q), vr_updated_at := sql_now q\<rparr>) (voting_rounds d)\<rparr>)
      = Inr d1"
    and au: "d' = d1\<lparr>audit_logs := audit_logs d'\<rparr>"
    by (auto simp: transition_round_tx_def bind_result_Inr ok_or_Inr if_Inl_Inr voting_write_audit_Inr)
  from au write_round_event_Inr [OF ev] have
    "d' = d\<lparr>voting_rounds := sql_update (\<lambda>r. vr_id r = rid) (\<lambda>r. r\<lparr>vr_status := Closed,
         vr_closed_at := coalesce (vr_closed_at r) (sql_now q), vr_updated_at := sql_now q\<rparr>) (voting_rounds d),
       voting_round_events := voting_round_events d1, audit_logs := audit_logs d'\<rparr>"
    by (metis (no_types, lifting) voting_db.update_convs(4))
  then show thesis by (rule that [rotated 5]) (use r False in simp_all)
qed

section \<open>Votes\<close>

lemma cast_vote_check_planE:
  assumes "cast_vote_check env q hdrs rid b d = Inr (Inr p)"
  obtains r where
    "find (\<lambda>r. vr_id r = rid) (voting_rounds d) = Some r" "vr_status r = Open"
    "vr_opens_at r \<le> now_utc q 0" "now_utc q 0 < vr_closes_at r"
    "voter_active (vp_voter_user_id p) d"
    "contestant_allowed rid (vp_pageant_contestant_id p) (vr_pageant_id r) d"
    "require_web_actor env hdrs = Inr (vp_voter_user_id p)"
    "vp_round_id p = rid" "vp_pageant_contestant_id p = cvq_pageant_contestant_id b"
    "vp_pageant_id p = vr_pageant_id r" "vp_organization_id p = vr_organization_id r"
    "vp_idempotency_key p = trim (cvq_idempotency_key b)"
    "vp_request_sha256 p = hash_text env (vote_request_text rid (vp_voter_user_id p)
        (cvq_pageant_contestant_id b) (vp_idempotency_key p))"
    "find (\<lambda>v. vt_round_id v = rid \<and> vt_voter_user_id v = vp_voter_user_id p \<and>
        vt_idempotency_key v = vp_idempotency_key p) (votes d) = None"
proof -
  from assms obtain r where
    1: "find (\<lambda>r. vr_id r = rid) (voting_rounds d) = Some r" "vr_status r = Open"
    "vr_opens_at r \<le> now_utc q 0" "now_utc q 0 < vr_closes_at r"
    "voter_active (vp_voter_user_id p) d"
    "contestant_allowed rid (vp_pageant_contestant_id p) (vr_pageant_id r) d"
    "require_web_actor env hdrs = Inr (vp_voter_user_id p)"
    "vp_round_id p = rid" "vp_pageant_contestant_id p = cvq_pageant_contestant_id b"
    "vp_pageant_id p = vr_pageant_id r" "vp_organization_id p = vr_organization_id r"
    "vp_idempotency_key p = trim (cvq_idempotency_key b)"
    "vp_request_sha256 p = hash_text env (vote_request_text rid (vp_voter_user_id p)
        (cvq_pageant_contestant_id b) (vp_idempotency_key p))"
    "find (\<lambda>v. vt_round_id v = rid \<and> vt_voter_user_id v = vp_voter_user_id p \<and>
        vt_idempotency_key v = vp_idempotency_key p) (votes d) = None"
    unfolding cast_vote_check_def Let_def
    by (auto simp del: require_web_actor_Inr
        simp: bind_result_Inr ok_or_Inr required_text_Inr database_pool_Inr if_Inl_Inr
        split: option.splits if_splits)
  show thesis by (rule that) (fact 1)+
qed

lemma cast_vote_writeE:
  assumes "cast_vote_write env q p d = Inr (x, d')"
  obtains a where "sql_insert vote_check vote_clash (vote_of_plan env q p) (votes d)
       = Inr (votes d @ [vote_of_plan env q p])"
    "x = (201, receipt_of (vote_of_plan env q p))"
    "d' = d\<lparr>votes := votes d @ [vote_of_plan env q p], audit_logs := audit_logs d @ [a]\<rparr>"
  using assms
  by (auto simp: cast_vote_write_def Let_def result_simps sql_insert_Inr split: sum.splits if_splits)

lemma cast_voteE:
  assumes "cast_vote env q hdrs rid b d = (Inr (status, rcp), d')"
  obtains (replay) "cast_vote_check env q hdrs rid b d = Inr (Inl rcp)" "status = 200" "d' = d"
  | (new) p where "cast_vote_check env q hdrs rid b d = Inr (Inr p)"
      "cast_vote_write env q p d = Inr ((status, rcp), d')" "status = 201"
proof -
  from assms obtain m where m: "cast_vote_check env q hdrs rid b d = Inr m"
    and c: "(case m of Inl existing \<Rightarrow> Inr ((200, existing), d) | Inr p \<Rightarrow> cast_vote_write env q p d)
      = Inr ((status, rcp), d')"
    by (auto simp: cast_vote_def transaction_Inr bind_result_Inr)
  show thesis
  proof (cases m)
    case (Inl e)
    with c have "e = rcp" "status = 200" "d' = d" by simp_all
    with m Inl show ?thesis by (intro replay) simp_all
  next
    case (Inr p)
    with c have w: "cast_vote_write env q p d = Inr ((status, rcp), d')" by simp
    then have "status = 201" by (auto elim: cast_vote_writeE)
    with new m Inr w show ?thesis by blast
  qed
qed

section \<open>Snapshots\<close>

lemma snapshot_rowE:
  assumes "snapshot_row env q actor r d = Inr s"
  obtains "vs_id s = new_uuid q 0" "vs_round_id s = vr_id r" "vs_organization_id s = vr_organization_id r"
    "vs_pageant_id s = vr_pageant_id r" "vs_status s = Snap_created"
    "vs_total_votes s = int (length (snapshot_votes (vr_id r) d))"
    "vs_merkle_root s = merkle_root env (leaf_hashes env (vr_id r) (snapshot_votes (vr_id r) d))"
    "vs_tally_json s = tally_json_of (snapshot_tally (vr_id r) d)"
    "tally_total_of (snapshot_tally (vr_id r) d) = Inr (vs_total_votes s)"
  using assms by (auto simp: snapshot_row_def Let_def result_simps)

lemma create_snapshot_txE:
  assumes "create_snapshot_tx env q hdrs rid d = Inr ((status, sid), d')"
  obtains (existing) s where "find (\<lambda>s. vs_round_id s = rid) (voting_snapshots d) = Some s" "sid = vs_id s"
      "status = 200" "d' = d"
  | (new) r s rows al actor where "find (\<lambda>r. vr_id r = rid) (voting_rounds d) = Some r"
      "vr_status r = Closed \<or> vr_status r = Anchored" "status = 201" "sid = vs_id s"
      "find (\<lambda>s. vs_round_id s = rid) (voting_snapshots d) = None" "snapshot_row env q actor r d = Inr s"
      "sql_insert snapshot_check snapshot_clash s (voting_snapshots d) = Inr (voting_snapshots d @ [s])"
      "insert_leaves (vs_id s) 0 (zip (snapshot_votes rid d) (leaf_hashes env rid (snapshot_votes rid d)))
        (voting_snapshot_leaves d) = Inr rows"
      "d' = d\<lparr>voting_snapshots := voting_snapshots d @ [s], voting_snapshot_leaves := rows,
              audit_logs := al\<rparr>"
proof (cases "find (\<lambda>s. vs_round_id s = rid) (voting_snapshots d)")
  case (Some s)
  from assms have "Inr ((200, vs_id s), d) = (Inr ((status, sid), d') :: api_error + _)"
    unfolding create_snapshot_tx_def Let_def Some option.case by (elim bind_InrE if_InrE)
  with existing Some show ?thesis by simp
next
  case None
  from assms obtain actor r s snaps rows where
    r: "ok_or (find (\<lambda>r. vr_id r = rid) (voting_rounds d)) NotFound = Inr r"
    and st: "\<not> \<not> (vr_status r = Closed \<or> vr_status r = Anchored)" and s: "snapshot_row env q actor r d = Inr s"
    and snaps: "or_db_error proofs_db_error (sql_insert snapshot_check snapshot_clash s (voting_snapshots d)) = Inr snaps"
    and rows: "insert_leaves (vs_id s) 0 (zip (snapshot_votes rid d) (leaf_hashes env rid (snapshot_votes rid d)))
        (voting_snapshot_leaves d) = Inr rows"
    and au: "bind_result (proofs_write_audit (new_uuid q 1) (vr_organization_id r) actor
               ''voting_snapshot.create'' (vs_id s)
               (JObj [(''round_id'', JStr rid), (''total_votes'', JInt (vs_total_votes s)),
                  (''tally_sha256'', JStr (vs_tally_sha256 s)), (''merkle_root'', JStr (vs_merkle_root s))])
               (d\<lparr>voting_snapshots := snaps, voting_snapshot_leaves := rows\<rparr>))
             (\<lambda>d. Inr ((201, vs_id s), d)) = Inr ((status, sid), d')"
    unfolding create_snapshot_tx_def Let_def None option.case
    by (elim bind_InrE if_InrE) (rule that, assumption+, simp)
  from snaps have sn: "snaps = voting_snapshots d @ [s]"
    and ins: "sql_insert snapshot_check snapshot_clash s (voting_snapshots d) = Inr (voting_snapshots d @ [s])"
    by (auto simp: or_db_error_Inr sql_insert_Inr)
  from au obtain al where "d' = d\<lparr>voting_snapshots := snaps, voting_snapshot_leaves := rows, audit_logs := al\<rparr>"
    "status = 201" "sid = vs_id s"
    by (auto simp: bind_result_Inr proofs_write_audit_Inr)
  with r st s rows None ins sn show ?thesis by (intro new) (simp_all add: ok_or_Inr)
qed

section \<open>Anchors\<close>

lemma create_anchor_intent_txE:
  assumes "create_anchor_intent_tx env q hdrs sid key d = Inr ((status, i), d')"
  obtains (existing) "find (\<lambda>i. ai_snapshot_id i = sid) (voting_anchor_intents d) = Some i" "status = 200"
      "ai_idempotency_key i = trim key" "d' = d"
  | (new) s c k actor al intent where "find (\<lambda>s. vs_id s = sid) (voting_snapshots d) = Some s"
      "vs_status s = Snap_created \<or> vs_status s = Snap_anchor_pending"
      "find (\<lambda>i. ai_snapshot_id i = sid) (voting_anchor_intents d) = None"
      "verified_deployment d = Some c" "k = voting_anchor_round_key_seq d" "k \<le> 4294967295" "status = 201"
      "intent = anchor_intent env q actor (trim key) s c k"
      "sql_insert intent_check intent_clash intent (voting_anchor_intents d)
         = Inr (voting_anchor_intents d @ [intent])"
      "d' = d\<lparr>voting_anchor_round_key_seq := k + 1, voting_anchor_intents := voting_anchor_intents d @ [intent],
          voting_snapshots := sql_update (\<lambda>s. vs_id s = sid \<and> vs_status s = Snap_created)
            (\<lambda>s. s\<lparr>vs_status := Snap_anchor_pending\<rparr>) (voting_snapshots d),
          audit_logs := al\<rparr>"
proof (cases "find (\<lambda>i. ai_snapshot_id i = sid) (voting_anchor_intents d)")
  case (Some i')
  with assms existing show ?thesis
    by (auto simp: create_anchor_intent_tx_def bind_result_Inr ok_or_Inr if_Inl_Inr required_text_Inr)
next
  case None
  from assms obtain actor s c kd intents d2 where
    s: "ok_or (find (\<lambda>s. vs_id s = sid) (voting_snapshots d)) NotFound = Inr s"
    and c: "ok_or (verified_deployment d) (Conflict ''verified_audit_anchor_contract_missing'') = Inr c"
    and kd: "or_db_error anchor_db_error (next_round_key d) = Inr kd"
    and st: "\<not> \<not> (vs_status s = Snap_created \<or> vs_status s = Snap_anchor_pending)"
    and ins0: "or_db_error anchor_db_error (sql_insert intent_check intent_clash
       (anchor_intent env q actor (trim key) s c (fst kd)) (voting_anchor_intents (snd kd))) = Inr intents"
    and au0: "anchor_write_audit (new_uuid q 1) (vs_organization_id s) (Some actor)
               ''voting_anchor.intent.create'' ''voting_anchor_intent''
               (ai_id (anchor_intent env q actor (trim key) s c (fst kd)))
               (JObj [(''snapshot_id'', JStr sid), (''round_id'', JStr (vs_round_id s)),
                  (''contract_deployment_id'', JStr (cd_id c)),
                  (''contract_round_key'', JInt (fst kd)),
                  (''request_sha256'', JStr (ai_request_sha256 (anchor_intent env q actor (trim key) s c (fst kd))))])
               ((snd kd)\<lparr>voting_anchor_intents := intents,
                  voting_snapshots := sql_update (\<lambda>s. vs_id s = sid \<and> vs_status s = Snap_created)
                    (\<lambda>s. s\<lparr>vs_status := Snap_anchor_pending\<rparr>) (voting_snapshots (snd kd))\<rparr>) = Inr d2"
    and r: "status = 201" "d' = d2"
    unfolding create_anchor_intent_tx_def Let_def None option.case
    by (elim bind_InrE if_InrE)
      (rule that, assumption+, simp_all only: required_text_Inr sum.inject prod.inject simp_thms)
  obtain k d1 where "kd = (k, d1)" by (cases kd)
  with kd ins0 have k: "or_db_error anchor_db_error (next_round_key d) = Inr (k, d1)"
    and ins: "or_db_error anchor_db_error (sql_insert intent_check intent_clash
       (anchor_intent env q actor (trim key) s c k) (voting_anchor_intents d1)) = Inr intents" by simp_all
  from au0 r \<open>kd = (k, d1)\<close> have au: "\<exists>al. d' = d1\<lparr>voting_anchor_intents := intents,
          voting_snapshots := sql_update (\<lambda>s. vs_id s = sid \<and> vs_status s = Snap_created)
            (\<lambda>s. s\<lparr>vs_status := Snap_anchor_pending\<rparr>) (voting_snapshots d1), audit_logs := al\<rparr>"
    by (auto simp: anchor_write_audit_Inr)
  from k have d1: "d1 = d\<lparr>voting_anchor_round_key_seq := k + 1\<rparr>" "k = voting_anchor_round_key_seq d"
    "k \<le> 4294967295"
    by (auto simp: next_round_key_def Let_def or_db_error_Inr split: if_splits)
  let ?i = "anchor_intent env q actor (trim key) s c k"
  from ins d1(1) have I: "intents = voting_anchor_intents d @ [?i]"
    and I2: "sql_insert intent_check intent_clash ?i (voting_anchor_intents d) = Inr (voting_anchor_intents d @ [?i])"
    by (auto simp: or_db_error_Inr sql_insert_Inr)
  from au d1(1) I obtain al where d': "d' = d\<lparr>voting_anchor_round_key_seq := k + 1,
      voting_anchor_intents := voting_anchor_intents d @ [?i],
      voting_snapshots := sql_update (\<lambda>s. vs_id s = sid \<and> vs_status s = Snap_created)
        (\<lambda>s. s\<lparr>vs_status := Snap_anchor_pending\<rparr>) (voting_snapshots d), audit_logs := al\<rparr>"
    by auto
  show ?thesis
    by (rule new [OF _ _ None _ d1(2,3) r(1) refl I2 d']) (use s c st in \<open>simp_all add: ok_or_Inr\<close>)
qed

lemma record_anchor_submission_txE:
  assumes "record_anchor_submission_tx env q hdrs iid raw d = Inr (i', d')"
  obtains (existing) "find (\<lambda>i. ai_id i = iid) (voting_anchor_intents d) = Some i'" "ai_status i' = Intent_submitted"
      "ai_submitted_tx_hash i' = Some (to_ascii_lowercase (trim raw))" "d' = d"
  | (new) i al where "find (\<lambda>i. ai_id i = iid) (voting_anchor_intents d) = Some i" "ai_status i = Intent_created"
      "d' = d\<lparr>voting_anchor_intents := sql_update (\<lambda>i. ai_id i = iid \<and> ai_status i = Intent_created)
            (\<lambda>i. i\<lparr>ai_status := Intent_submitted, ai_submitted_tx_hash := Some (to_ascii_lowercase (trim raw)),
                   ai_submitted_at := Some (sql_now q), ai_updated_at := sql_now q\<rparr>)
            (voting_anchor_intents d), audit_logs := al\<rparr>"
  using assms
  by (auto simp: record_anchor_submission_tx_def bind_result_Inr ok_or_Inr if_Inl_Inr validate_hash_Inr
      load_intent_tx_def anchor_write_audit_Inr split: if_splits)

lemma accept_anchor_evidence_txE:
  assumes "accept_anchor_evidence_tx env q hdrs iid b d = Inr ((status, e), d')"
  obtains (existing) "find (\<lambda>e. ae_anchor_intent_id e = iid) (voting_anchor_evidence d) = Some e" "status = 200"
      "d' = d"
  | (new) i al where "find (\<lambda>i. ai_id i = iid) (voting_anchor_intents d) = Some i"
      "find (\<lambda>e. ae_anchor_intent_id e = iid) (voting_anchor_evidence d) = None"
      "ai_status i = Intent_submitted" "ai_submitted_tx_hash i = Some (ae_transaction_hash e)"
      "ae_merkle_root e = ai_merkle_root i" "ae_tally_sha256 e = ai_tally_sha256 i"
      "ae_total_votes e = ai_total_votes i" "ae_contract_id e = ai_contract_id i"
      "ae_contract_round_key e = ai_contract_round_key i" "ae_anchor_intent_id e = iid"
      "ae_snapshot_id e = ai_snapshot_id i" "0 < ae_ledger_sequence e" "status = 201"
      "sql_insert evidence_check evidence_clash e (voting_anchor_evidence d) = Inr (voting_anchor_evidence d @ [e])"
      "d' = (confirm_anchor q i e (d\<lparr>voting_anchor_evidence := voting_anchor_evidence d @ [e]\<rparr>))
         \<lparr>audit_logs := al\<rparr>"
proof (cases "find (\<lambda>e. ae_anchor_intent_id e = iid) (voting_anchor_evidence d)")
  case (Some e')
  from assms have "Inr ((200, e'), d) = (Inr ((status, e), d') :: api_error + _)"
    unfolding accept_anchor_evidence_tx_def load_evidence_tx_def Let_def Some option.case
    by (elim bind_InrE if_InrE)
  with existing Some show ?thesis by simp
next
  case None
  from assms obtain i hash er cid root tally rows d1 e1 where
    i0: "load_intent_tx iid d = Inr i"
    and er: "required_text (aer_event_reference b) 240 ''invalid_voting_anchor_event_reference'' = Inr er"
    and g0: "\<not> (ai_status i \<noteq> Intent_submitted \<or> ai_submitted_tx_hash i \<noteq> Some hash)"
    and m0: "\<not> (ai_contract_id i \<noteq> cid \<or>
            ai_contract_round_key i \<noteq> aer_contract_round_key b \<or> ai_merkle_root i \<noteq> root \<or>
            ai_tally_sha256 i \<noteq> tally \<or> ai_total_votes i \<noteq> aer_total_votes b)"
    and l0: "\<not> (aer_ledger_sequence b \<le> 0 \<or>
        \<not> (1 \<le> aer_contract_round_key b \<and> aer_contract_round_key b \<le> 4294967295) \<or>
        \<not> (0 \<le> aer_total_votes b \<and> aer_total_votes b \<le> 4294967295) \<or> \<not> is_object (aer_raw_event b))"
    and ins0: "or_db_error anchor_db_error (sql_insert evidence_check evidence_clash
       (anchor_evidence q i b hash er root tally) (voting_anchor_evidence d)) = Inr rows"
    and au1: "anchor_write_audit (new_uuid q 1) (ai_organization_id i) None
             ''voting_anchor.confirm'' ''voting_anchor_evidence'' (ae_id (anchor_evidence q i b hash er root tally))
             (JObj [(''intent_id'', JStr iid), (''snapshot_id'', JStr (ai_snapshot_id i)),
                (''round_id'', JStr (ai_round_id i)),
                (''contract_round_key'', JInt (ai_contract_round_key i)),
                (''transaction_hash'', JStr hash), (''ledger_sequence'', JInt (aer_ledger_sequence b)),
                (''event_reference'', JStr er)])
             (confirm_anchor q i (anchor_evidence q i b hash er root tally) (d\<lparr>voting_anchor_evidence := rows\<rparr>))
          = Inr d1"
    and e1: "ok_or (find (\<lambda>e. ae_anchor_intent_id e = iid) (voting_anchor_evidence d1)) NotFound = Inr e1"
    and fin: "Inr ((201, e1), d1) = (Inr ((status, e), d') :: api_error + _)"
    unfolding accept_anchor_evidence_tx_def load_evidence_tx_def Let_def None option.case
    by (elim bind_InrE if_InrE) (rule that, assumption+)
  have er': "er = trim (aer_event_reference b)" using er by (simp add: required_text_Inr)
  from fin have fin: "status = 201" "d1 = d'" "e1 = e" by simp_all
  note st = fin(1)
  from au1 fin er' have au0: "\<exists>al. d' = (confirm_anchor q i (anchor_evidence q i b hash (trim (aer_event_reference b))
      root tally) (d\<lparr>voting_anchor_evidence := rows\<rparr>))\<lparr>audit_logs := al\<rparr>"
    unfolding anchor_write_audit_Inr by blast
  have e0: "load_evidence_tx iid d' = Some e" using e1 fin by (simp add: load_evidence_tx_def ok_or_Inr)
  note ins0 = ins0 [unfolded er']
  define ev where "ev = anchor_evidence q i b hash (trim (aer_event_reference b)) root tally"
  from i0 have i: "find (\<lambda>i. ai_id i = iid) (voting_anchor_intents d) = Some i"
    by (simp add: load_intent_tx_def ok_or_Inr)
  from g0 m0 l0 have g: "ai_status i = Intent_submitted" "ai_submitted_tx_hash i = Some hash"
    "ai_merkle_root i = root" "ai_tally_sha256 i = tally" "ai_total_votes i = aer_total_votes b"
    "0 < aer_ledger_sequence b" by auto
  from ins0 have ins: "sql_insert evidence_check evidence_clash ev (voting_anchor_evidence d)
       = Inr (voting_anchor_evidence d @ [ev])" and rows: "rows = voting_anchor_evidence d @ [ev]"
    by (auto simp: or_db_error_Inr sql_insert_Inr ev_def)
  from au0 rows have aud: "\<exists>al. d' = (confirm_anchor q i ev
      (d\<lparr>voting_anchor_evidence := voting_anchor_evidence d @ [ev]\<rparr>))\<lparr>audit_logs := al\<rparr>"
    by (simp add: ev_def)
  from e0 have e: "find (\<lambda>e. ae_anchor_intent_id e = iid) (voting_anchor_evidence d') = Some e"
    by (simp add: load_evidence_tx_def)
  from aud obtain al where d': "d' = (confirm_anchor q i ev
      (d\<lparr>voting_anchor_evidence := voting_anchor_evidence d @ [ev]\<rparr>))\<lparr>audit_logs := al\<rparr>" ..
  have id: "ai_id i = iid" using find_Some_in [OF i] by simp
  with e None have "e = ev"
    by (simp add: d' confirm_anchor_def find_append ev_def anchor_evidence_def)
  then have f: "ai_submitted_tx_hash i = Some (ae_transaction_hash e)" "ae_merkle_root e = ai_merkle_root i"
    "ae_tally_sha256 e = ai_tally_sha256 i" "ae_total_votes e = ai_total_votes i"
    "ae_contract_id e = ai_contract_id i" "ae_contract_round_key e = ai_contract_round_key i"
    "ae_anchor_intent_id e = iid" "ae_snapshot_id e = ai_snapshot_id i" "0 < ae_ledger_sequence e"
    using g id by (simp_all add: ev_def anchor_evidence_def)
  show ?thesis
    by (rule new [OF i None g(1) f st]) (use ins d' \<open>e = ev\<close> in simp_all)
qed

end
