(* ===== verification/Voting_System.thy ===== *)
theory Voting_System
  imports Voting_Effects
begin

text \<open>
  The voting subsystem as a transition system. A state is the database and the vote transactions in
  flight: \<open>cast_vote\<close> may be interrupted between its reads and its write, since it locks nothing, while
  every other handler reads its rows \<open>FOR UPDATE\<close> and is one step. The rest of the platform may change
  every table that is not a voting table, within the foreign keys. The invariant \<open>voting_inv\<close> holds in
  every reachable state.
\<close>

section \<open>Steps\<close>

record voting_system =
  sys_db :: voting_db
  sys_pending :: "vote_plan list"

definition core_ok :: "voting_db \<Rightarrow> bool" where
  "core_ok d \<longleftrightarrow> distinct (map pc_id (pageant_contestants d)) \<and> distinct (map ct_id (contestants d)) \<and>
     (\<forall>pc \<in> set (pageant_contestants d). pc_contestant_id pc \<in> ct_id ` set (contestants d)) \<and>
     (\<forall>c \<in> set (voting_round_contestants d). rc_pageant_contestant_id c \<in> pc_id ` set (pageant_contestants d))"

definition same_voting_tables :: "voting_db \<Rightarrow> voting_db \<Rightarrow> bool" where
  "same_voting_tables d d' \<longleftrightarrow>
     voting_rounds d' = voting_rounds d \<and> voting_round_contestants d' = voting_round_contestants d \<and>
     votes d' = votes d \<and> voting_round_events d' = voting_round_events d \<and>
     voting_snapshots d' = voting_snapshots d \<and> voting_snapshot_leaves d' = voting_snapshot_leaves d \<and>
     voting_anchor_intents d' = voting_anchor_intents d \<and> voting_anchor_evidence d' = voting_anchor_evidence d"

inductive voting_step :: "env \<Rightarrow> voting_system \<Rightarrow> voting_system \<Rightarrow> bool" for env where
  step_create_round:
    "voting_step env s (s\<lparr>sys_db := snd (create_round env q hdrs b (sys_db s))\<rparr>)"
| step_transition:
    "voting_step env s (s\<lparr>sys_db := snd (transition_round env q hdrs rid why opening_a (sys_db s))\<rparr>)"
| step_vote:
    "voting_step env s (s\<lparr>sys_db := snd (cast_vote env q hdrs rid v (sys_db s))\<rparr>)"
| step_vote_read:
    "cast_vote_check env q hdrs rid v (sys_db s) = Inr (Inr p) \<Longrightarrow>
     voting_step env s (s\<lparr>sys_pending := p # sys_pending s\<rparr>)"
| step_vote_write:
    "p \<in> set (sys_pending s) \<Longrightarrow>
     voting_step env s (s\<lparr>sys_db := snd (transaction (cast_vote_write env q p) (sys_db s))\<rparr>)"
| step_snapshot:
    "voting_step env s (s\<lparr>sys_db := snd (create_snapshot env q hdrs rid (sys_db s))\<rparr>)"
| step_anchor_intent:
    "voting_step env s (s\<lparr>sys_db := snd (create_anchor_intent env q hdrs sid key (sys_db s))\<rparr>)"
| step_anchor_submission:
    "voting_step env s (s\<lparr>sys_db := snd (record_anchor_submission env q hdrs iid hash (sys_db s))\<rparr>)"
| step_anchor_evidence:
    "voting_step env s (s\<lparr>sys_db := snd (accept_anchor_evidence env q hdrs iid e (sys_db s))\<rparr>)"
| step_other:
    "same_voting_tables (sys_db s) d' \<Longrightarrow> core_ok d' \<Longrightarrow> voting_step env s (s\<lparr>sys_db := d'\<rparr>)"

text \<open>A freshly migrated database: no voting rows yet.\<close>

definition voting_start :: "voting_system \<Rightarrow> bool" where
  "voting_start s \<longleftrightarrow> core_ok (sys_db s) \<and> voting_rounds (sys_db s) = [] \<and> voting_round_contestants (sys_db s) = [] \<and>
     votes (sys_db s) = [] \<and> voting_snapshots (sys_db s) = [] \<and> voting_snapshot_leaves (sys_db s) = [] \<and>
     voting_anchor_intents (sys_db s) = [] \<and> voting_anchor_evidence (sys_db s) = [] \<and> sys_pending s = []"

inductive voting_reachable :: "env \<Rightarrow> voting_system \<Rightarrow> bool" for env where
  reach_start: "voting_start s \<Longrightarrow> voting_reachable env s"
| reach_step: "voting_reachable env s \<Longrightarrow> voting_step env s s' \<Longrightarrow> voting_reachable env s'"

lemma transaction_preserves:
  assumes "P d" "\<And>x d'. body d = Inr (x, d') \<Longrightarrow> P d'"
  shows "P (snd (transaction body d))"
  using assms by (cases rule: transaction_cases [of body d]) auto

section \<open>The invariant\<close>

abbreviation slot_key :: "round_contestant_row \<Rightarrow> uuid \<times> uuid" where
  "slot_key c \<equiv> (rc_round_id c, rc_pageant_contestant_id c)"

abbreviation ballot_slots :: "voting_db \<Rightarrow> (uuid \<times> uuid) set" where
  "ballot_slots d \<equiv> slot_key ` set (voting_round_contestants d)"

definition ballots_ok :: "voting_db \<Rightarrow> bool" where
  "ballots_ok d \<longleftrightarrow> distinct (map vr_id (voting_rounds d)) \<and> distinct (map slot_key (voting_round_contestants d)) \<and>
     distinct (map (\<lambda>v. (vt_round_id v, vt_voter_user_id v)) (votes d)) \<and>
     distinct (map vt_receipt_hash (votes d)) \<and> distinct (map vt_id (votes d)) \<and>
     (\<forall>v \<in> set (votes d). (vt_round_id v, vt_pageant_contestant_id v) \<in> ballot_slots d) \<and>
     (\<forall>c \<in> set (voting_round_contestants d). rc_round_id c \<in> vr_id ` set (voting_rounds d))"

definition plans_ok :: "voting_db \<Rightarrow> vote_plan list \<Rightarrow> bool" where
  "plans_ok d ps \<longleftrightarrow> (\<forall>p \<in> set ps. (vp_round_id p, vp_pageant_contestant_id p) \<in> ballot_slots d)"

definition leaves_of :: "voting_db \<Rightarrow> uuid \<Rightarrow> snapshot_leaf_row list" where
  "leaves_of d sid = filter (\<lambda>l. sl_snapshot_id l = sid) (voting_snapshot_leaves d)"

definition snapshot_ok :: "env \<Rightarrow> voting_db \<Rightarrow> VotingSnapshotRecord \<Rightarrow> bool" where
  "snapshot_ok env d s \<longleftrightarrow>
     map sl_leaf_index (leaves_of d (vs_id s)) = map int [0 ..< length (leaves_of d (vs_id s))] \<and>
     vs_total_votes s = int (length (leaves_of d (vs_id s))) \<and>
     vs_merkle_root s = merkle_root env (map sl_leaf_hash (leaves_of d (vs_id s)))"

definition round_done :: "voting_db \<Rightarrow> uuid \<Rightarrow> bool" where
  "round_done d rid \<longleftrightarrow> (\<exists>r \<in> set (voting_rounds d). vr_id r = rid \<and> (vr_status r = Closed \<or> vr_status r = Anchored))"

definition snapshots_ok :: "env \<Rightarrow> voting_db \<Rightarrow> bool" where
  "snapshots_ok env d \<longleftrightarrow> distinct (map vs_id (voting_snapshots d)) \<and> distinct (map vs_round_id (voting_snapshots d)) \<and>
     distinct (map sl_receipt_hash (voting_snapshot_leaves d)) \<and>
     (\<forall>s \<in> set (voting_snapshots d). snapshot_ok env d s \<and> round_done d (vs_round_id s)) \<and>
     (\<forall>l \<in> set (voting_snapshot_leaves d). sl_snapshot_id l \<in> vs_id ` set (voting_snapshots d))"

definition evidence_matches :: "AnchorEvidenceRecord \<Rightarrow> AnchorIntentRecord \<Rightarrow> bool" where
  "evidence_matches e i \<longleftrightarrow> ae_anchor_intent_id e = ai_id i \<and> ae_merkle_root e = ai_merkle_root i \<and>
     ae_tally_sha256 e = ai_tally_sha256 i \<and> ae_total_votes e = ai_total_votes i \<and>
     ae_contract_id e = ai_contract_id i \<and> ae_contract_round_key e = ai_contract_round_key i \<and>
     ai_submitted_tx_hash i = Some (ae_transaction_hash e)"

definition intent_for :: "AnchorIntentRecord \<Rightarrow> VotingSnapshotRecord \<Rightarrow> bool" where
  "intent_for i s \<longleftrightarrow> ai_snapshot_id i = vs_id s \<and> ai_round_id i = vs_round_id s \<and>
     ai_merkle_root i = vs_merkle_root s \<and> ai_tally_sha256 i = vs_tally_sha256 s \<and>
     ai_total_votes i = vs_total_votes s \<and> 0 \<le> ai_total_votes i \<and> ai_total_votes i \<le> 4294967295"

definition confirmed_by :: "AnchorIntentRecord \<Rightarrow> VotingSnapshotRecord \<Rightarrow> AnchorEvidenceRecord \<Rightarrow> bool" where
  "confirmed_by i s e \<longleftrightarrow> ai_status i = Intent_confirmed \<and> vs_status s = Snap_anchored \<and> evidence_matches e i \<and>
     vs_anchor_tx_hash s = Some (ae_transaction_hash e) \<and> vs_accepted_evidence_id s = Some (ae_id e)"

definition intent_state :: "AnchorEvidenceRecord list \<Rightarrow> AnchorIntentRecord \<Rightarrow> VotingSnapshotRecord \<Rightarrow> bool" where
  "intent_state evs i s \<longleftrightarrow>
     (ai_status i = Intent_confirmed \<longrightarrow> (\<exists>e \<in> set evs. confirmed_by i s e)) \<and>
     (ai_status i = Intent_created \<or> ai_status i = Intent_submitted \<longrightarrow> vs_status s = Snap_anchor_pending)"

definition anchors_ok :: "voting_db \<Rightarrow> bool" where
  "anchors_ok d \<longleftrightarrow> distinct (map ai_id (voting_anchor_intents d)) \<and>
     distinct (map ai_snapshot_id (voting_anchor_intents d)) \<and>
     (\<forall>i \<in> set (voting_anchor_intents d). \<exists>s \<in> set (voting_snapshots d). intent_for i s \<and>
        intent_state (voting_anchor_evidence d) i s) \<and>
     (\<forall>e \<in> set (voting_anchor_evidence d). \<exists>i \<in> set (voting_anchor_intents d).
        ae_anchor_intent_id e = ai_id i \<and> ai_status i = Intent_confirmed) \<and>
     (\<forall>s \<in> set (voting_snapshots d). vs_status s = Snap_anchored \<longrightarrow>
        (\<exists>i \<in> set (voting_anchor_intents d). ai_snapshot_id i = vs_id s \<and> ai_status i = Intent_confirmed)) \<and>
     (\<forall>r \<in> set (voting_rounds d). vr_status r = Anchored \<longrightarrow>
        (\<exists>i \<in> set (voting_anchor_intents d). ai_round_id i = vr_id r \<and> ai_status i = Intent_confirmed))"

definition voting_inv :: "env \<Rightarrow> voting_system \<Rightarrow> bool" where
  "voting_inv env s \<longleftrightarrow> core_ok (sys_db s) \<and> ballots_ok (sys_db s) \<and> plans_ok (sys_db s) (sys_pending s) \<and>
     snapshots_ok env (sys_db s) \<and> anchors_ok (sys_db s)"

lemmas voting_inv_defs = voting_inv_def core_ok_def ballots_ok_def plans_ok_def snapshots_ok_def anchors_ok_def

section \<open>Preservation by each handler\<close>

lemma find_unique:
  "distinct (map k xs) \<Longrightarrow> find (\<lambda>x. k x = a) xs = Some x \<Longrightarrow> y \<in> set xs \<Longrightarrow> k y = a \<Longrightarrow> y = x"
  by (drule find_Some_in) (auto simp: distinct_map dest: inj_onD)

lemma check_eligible_in:
  "check_eligible pg cat cs d = Inr () \<Longrightarrow> set cs \<subseteq> pc_id ` set (pageant_contestants d)"
  by (induction pg cat cs d rule: check_eligible.induct) (auto simp: list_ex_iff split: if_splits)

lemma create_round_inv:
  assumes inv: "voting_inv env (s\<lparr>sys_db := d\<rparr>)" and c: "create_round_tx env q hdrs b d = Inr (rid, d')"
  shows "voting_inv env (s\<lparr>sys_db := d'\<rparr>)"
  using c
proof (rule create_round_txE)
  fix r rows es al
  assume id: "vr_id r = rid" and st: "vr_status r = Scheduled"
    and ins: "sql_insert round_check round_clash r (voting_rounds d) = Inr (voting_rounds d @ [r])"
    and el: "check_eligible (crq_pageant_id b) (crq_category_id b) (crq_contestant_ids b) d = Inr ()"
    and rows: "insert_contestants rid 0 (crq_contestant_ids b) (voting_round_contestants d) = Inr rows"
    and d': "d' = d\<lparr>voting_rounds := voting_rounds d @ [r], voting_round_contestants := rows,
            voting_round_events := es, audit_logs := al\<rparr>"
  have sub: "set (voting_round_contestants d) \<subseteq> set rows"
    using insert_contestants_rows [OF rows] by auto
  have new: "rc_round_id c = rid \<and> rc_pageant_contestant_id c \<in> pc_id ` set (pageant_contestants d)"
    if "c \<in> set rows" "c \<notin> set (voting_round_contestants d)" for c
    using that insert_contestants_rows [OF rows] check_eligible_in [OF el] in_set_enumerate_eq
    by (fastforce simp: in_set_enumerate_eq)
  have "distinct (map vr_id (voting_rounds d @ [r]))"
    by (rule rounds.insert_distinct [OF _ ins]) (use inv in \<open>simp add: voting_inv_defs\<close>)
  moreover have "distinct (map slot_key rows)"
    by (rule insert_contestants_distinct [OF rows]) (use inv in \<open>simp add: voting_inv_defs\<close>)
  ultimately have "ballots_ok d'"
    using inv sub new id unfolding voting_inv_def ballots_ok_def d' by (auto 0 3)
  moreover have "core_ok d'" using inv new unfolding voting_inv_def core_ok_def d' by (auto 0 3)
  moreover have "plans_ok d' (sys_pending s)" using inv sub unfolding voting_inv_def plans_ok_def d' by (auto 0 3)
  moreover have "snapshots_ok env d'"
    using inv unfolding voting_inv_def snapshots_ok_def d'
    by (auto simp: snapshot_ok_def leaves_of_def round_done_def)
  moreover have "anchors_ok d'" using inv st unfolding voting_inv_def anchors_ok_def d' by auto
  ultimately show ?thesis by (simp add: voting_inv_def)
qed

lemma transition_inv:
  assumes inv: "voting_inv env (s\<lparr>sys_db := d\<rparr>)"
    and c: "transition_round_tx env q hdrs rid why opening_a d = Inr (u, d')"
  shows "voting_inv env (s\<lparr>sys_db := d'\<rparr>)"
  using c
proof (rule transition_round_txE)
  fix r f es al
  assume r: "find (\<lambda>r. vr_id r = rid) (voting_rounds d) = Some r"
    and o1: "opening_a \<Longrightarrow> (vr_status r = Draft \<or> vr_status r = Scheduled) \<and> vr_opens_at r \<le> now_utc q 0 \<and>
       now_utc q 0 < vr_closes_at r"
    and o2: "\<not> opening_a \<Longrightarrow> vr_status r = Open \<or> vr_status r = Closing"
    and st: "\<And>x. vr_status (f x) = (if opening_a then Open else Closed)"
    and fix1: "\<And>x. vr_id (f x) = vr_id x \<and> vr_organization_id (f x) = vr_organization_id x \<and>
       vr_pageant_id (f x) = vr_pageant_id x \<and> vr_category_id (f x) = vr_category_id x \<and>
       vr_slug (f x) = vr_slug x \<and> vr_opens_at (f x) = vr_opens_at x \<and> vr_closes_at (f x) = vr_closes_at x"
    and d': "d' = d\<lparr>voting_rounds := sql_update (\<lambda>r. vr_id r = rid) f (voting_rounds d),
            voting_round_events := es, audit_logs := al\<rparr>"
  let ?R = "sql_update (\<lambda>r. vr_id r = rid) f (voting_rounds d)"
  have ids: "map vr_id ?R = map vr_id (voting_rounds d)" using fix1 by (simp add: map_sql_update)
  then have idset: "vr_id ` set ?R = vr_id ` set (voting_rounds d)" by (metis list.set_map)
  have dist: "distinct (map vr_id (voting_rounds d))" using inv by (simp add: voting_inv_defs)
  have notdone: "\<not> (vr_status r = Closed \<or> vr_status r = Anchored)" using o1 o2 by (cases opening_a) auto
  have "round_done d' x" if "round_done d x" for x
  proof -
    from that obtain r' where r': "r' \<in> set (voting_rounds d)" "vr_id r' = x"
      "vr_status r' = Closed \<or> vr_status r' = Anchored" by (auto simp: round_done_def)
    then have "vr_id r' \<noteq> rid" using find_unique [OF dist r] notdone by blast
    with r' show ?thesis unfolding round_done_def d' by (auto simp: set_sql_update intro!: bexI [of _ r'])
  qed
  then have "snapshots_ok env d'"
    using inv unfolding voting_inv_def snapshots_ok_def d' by (auto simp: snapshot_ok_def leaves_of_def)
  moreover have "anchors_ok d'"
    using inv st unfolding voting_inv_def anchors_ok_def d' by (auto simp: set_sql_update split: if_splits)
  moreover have "ballots_ok d'" using inv ids idset unfolding voting_inv_def ballots_ok_def d' by simp
  ultimately show ?thesis using inv by (simp add: voting_inv_def core_ok_def plans_ok_def d')
qed

lemma vote_write_inv:
  assumes inv: "voting_inv env (s\<lparr>sys_db := d\<rparr>)" and c: "cast_vote_write env q p d = Inr (x, d')"
    and slot: "(vp_round_id p, vp_pageant_contestant_id p) \<in> ballot_slots d"
  shows "voting_inv env (s\<lparr>sys_db := d'\<rparr>)"
  using c
proof (rule cast_vote_writeE)
  fix a
  let ?v = "vote_of_plan env q p"
  assume ins: "sql_insert vote_check vote_clash ?v (votes d) = Inr (votes d @ [?v])"
    and d': "d' = d\<lparr>votes := votes d @ [?v], audit_logs := audit_logs d @ [a]\<rparr>"
  from inv have b: "ballots_ok d" by (simp add: voting_inv_def)
  have "distinct (map (\<lambda>v. (vt_round_id v, vt_voter_user_id v)) (votes d @ [?v]))"
    by (rule vote_voters.insert_distinct [OF _ ins]) (use b in \<open>simp add: ballots_ok_def\<close>)
  moreover have "distinct (map vt_receipt_hash (votes d @ [?v]))"
    by (rule vote_receipts.insert_distinct [OF _ ins]) (use b in \<open>simp add: ballots_ok_def\<close>)
  moreover have "distinct (map vt_id (votes d @ [?v]))"
    by (rule vote_ids.insert_distinct [OF _ ins]) (use b in \<open>simp add: ballots_ok_def\<close>)
  moreover have "(vt_round_id ?v, vt_pageant_contestant_id ?v) \<in> ballot_slots d"
    using slot by (simp add: vote_of_plan_def)
  ultimately have "ballots_ok d'" using b unfolding ballots_ok_def d' by simp
  moreover have "anchors_ok d'" using inv unfolding voting_inv_def anchors_ok_def d' by auto
  ultimately show ?thesis
    using inv by (simp add: voting_inv_def core_ok_def plans_ok_def snapshots_ok_def snapshot_ok_def
        leaves_of_def round_done_def d')
qed

lemma plan_slot:
  assumes "cast_vote_check env q hdrs rid v d = Inr (Inr p)"
  shows "(vp_round_id p, vp_pageant_contestant_id p) \<in> ballot_slots d"
  using assms by (rule cast_vote_check_planE) (force simp: contestant_allowed_def list_ex_iff)

lemma cast_vote_inv:
  assumes inv: "voting_inv env (s\<lparr>sys_db := d\<rparr>)"
  shows "voting_inv env (s\<lparr>sys_db := snd (cast_vote env q hdrs rid v d)\<rparr>)"
proof -
  obtain res d' where c: "cast_vote env q hdrs rid v d = (res, d')" by fastforce
  show ?thesis
  proof (cases res)
    case (Inl e)
    with c have "d' = d" by (auto simp: cast_vote_def transaction_def split: sum.splits)
    with c inv show ?thesis by simp
  next
    case (Inr y)
    obtain st rcp where "y = (st, rcp)" by fastforce
    with c Inr have "cast_vote env q hdrs rid v d = (Inr (st, rcp), d')" by simp
    then show ?thesis
    proof (cases rule: cast_voteE)
      case replay
      with c inv show ?thesis by simp
    next
      case (new p)
      with vote_write_inv [OF inv new(2) plan_slot [OF new(1)]] c show ?thesis by simp
    qed
  qed
qed

lemma map_fst_zip_votes: "map fst (zip vs (leaf_hashes env rid vs)) = vs"
  by (simp add: leaf_hashes_def)

lemma create_snapshot_inv:
  assumes inv: "voting_inv env (s\<lparr>sys_db := d\<rparr>)" and c: "create_snapshot_tx env q hdrs rid d = Inr ((st, sid), d')"
  shows "voting_inv env (s\<lparr>sys_db := d'\<rparr>)"
  using c
proof (cases rule: create_snapshot_txE)
  case existing
  with inv show ?thesis by simp
next
  case (new r sn rows al actor)
  let ?vs = "snapshot_votes rid d" and ?hs = "leaf_hashes env rid (snapshot_votes rid d)"
  from inv have S: "snapshots_ok env d" by (simp add: voting_inv_def)
  from find_Some_in [OF new(1)] have r: "r \<in> set (voting_rounds d)" "vr_id r = rid" by simp_all
  have sn: "vs_round_id sn = rid" "vs_status sn = Snap_created"
    "vs_total_votes sn = int (length ?vs)" "vs_merkle_root sn = merkle_root env ?hs"
    using new(6) r(2) by (auto elim: snapshot_rowE)
  have d1: "distinct (map vs_id (voting_snapshots d @ [sn]))"
    by (rule snapshots.insert_distinct [OF _ new(7)]) (use S in \<open>simp add: snapshots_ok_def\<close>)
  have d2: "distinct (map vs_round_id (voting_snapshots d @ [sn]))"
    by (rule snapshot_rounds.insert_distinct [OF _ new(7)]) (use S in \<open>simp add: snapshots_ok_def\<close>)
  have d3: "distinct (map sl_receipt_hash rows)"
    by (rule insert_leaves_distinct [OF new(8)]) (use S in \<open>simp add: snapshots_ok_def\<close>)
  define fresh where "fresh = map (\<lambda>(i, v, h). \<lparr>sl_snapshot_id = vs_id sn, sl_vote_id = sv_vote_id v,
       sl_receipt_hash = sv_receipt_hash v, sl_leaf_index = int i, sl_leaf_hash = h\<rparr>) (enumerate 0 (zip ?vs ?hs))"
  have rows: "rows = voting_snapshot_leaves d @ fresh"
    using insert_leaves_rows [OF new(8)] by (simp add: fresh_def)
  have freshid: "sl_snapshot_id l = vs_id sn" if "l \<in> set fresh" for l
    using that by (auto simp: fresh_def)
  have old: "sl_snapshot_id l \<noteq> vs_id sn" if "l \<in> set (voting_snapshot_leaves d)" for l
  proof -
    from that S have "sl_snapshot_id l \<in> vs_id ` set (voting_snapshots d)" by (simp add: snapshots_ok_def)
    with d1 show ?thesis by auto
  qed
  have leaves_new: "leaves_of d' (vs_id sn) = fresh"
    using old freshid by (simp add: leaves_of_def new(9) rows filter_empty_conv filter_id_conv)
  have leaves_old: "leaves_of d' x = leaves_of d x" if "x \<noteq> vs_id sn" for x
    using that freshid by (auto simp: leaves_of_def new(9) rows filter_empty_conv)
  have len: "length ?hs = length ?vs" by (simp add: leaf_hashes_def)
  have "map sl_leaf_hash fresh = ?hs"
    by (simp add: fresh_def case_prod_unfold comp_def len flip: map_map [of snd snd, unfolded comp_def])
  moreover have "map sl_leaf_index fresh = map int [0 ..< length fresh]"
    by (simp add: fresh_def case_prod_unfold comp_def len flip: map_map [of int fst, unfolded comp_def])
  ultimately have "snapshot_ok env d' sn"
    using sn len by (simp add: snapshot_ok_def leaves_new) (metis len length_map)
  moreover have "snapshot_ok env d' s'" if "s' \<in> set (voting_snapshots d)" for s'
  proof -
    from d1 have "vs_id sn \<notin> vs_id ` set (voting_snapshots d)" by simp
    with that have "vs_id s' \<noteq> vs_id sn" by (metis imageI)
    with that S show ?thesis by (simp add: snapshot_ok_def leaves_old snapshots_ok_def)
  qed
  moreover have "round_done d' x = round_done d x" for x by (simp add: round_done_def new(9))
  moreover have "round_done d rid" using r new(2) by (auto simp: round_done_def)
  ultimately have "snapshots_ok env d'"
    using S d1 d2 d3 sn(1) freshid by (auto simp: snapshots_ok_def new(9) rows)
  moreover have "anchors_ok d'"
    using inv sn(2) unfolding voting_inv_def anchors_ok_def new(9)
    by auto
  ultimately show ?thesis
    using inv by (simp add: voting_inv_def core_ok_def plans_ok_def ballots_ok_def new(9))
qed

lemma snapshots_ok_update:
  assumes "snapshots_ok env d" "\<And>x. vs_id (f x) = vs_id x \<and> vs_round_id (f x) = vs_round_id x \<and>
      vs_total_votes (f x) = vs_total_votes x \<and> vs_merkle_root (f x) = vs_merkle_root x"
    and "voting_snapshots d' = sql_update p f (voting_snapshots d)"
    and "voting_snapshot_leaves d' = voting_snapshot_leaves d" "\<And>x. round_done d x \<Longrightarrow> round_done d' x"
  shows "snapshots_ok env d'"
proof -
  have maps: "map vs_id (voting_snapshots d') = map vs_id (voting_snapshots d)"
    "map vs_round_id (voting_snapshots d') = map vs_round_id (voting_snapshots d)"
    unfolding assms(3) by (simp_all add: map_sql_update assms(2))
  then have "vs_id ` set (voting_snapshots d') = vs_id ` set (voting_snapshots d)" by (metis list.set_map)
  moreover have "snapshot_ok env d' s \<and> round_done d' (vs_round_id s)" if "s \<in> set (voting_snapshots d')" for s
    using that assms(1,2,5)
    by (auto simp: assms(3,4) set_sql_update snapshots_ok_def snapshot_ok_def leaves_of_def split: if_splits)
  ultimately show ?thesis using assms(1) maps by (simp add: snapshots_ok_def assms(4))
qed

lemma create_anchor_intent_inv:
  assumes inv: "voting_inv env (s\<lparr>sys_db := d\<rparr>)" and c: "create_anchor_intent_tx env q hdrs sid key d = Inr ((st, i), d')"
  shows "voting_inv env (s\<lparr>sys_db := d'\<rparr>)"
  using c
proof (cases rule: create_anchor_intent_txE)
  case existing
  with inv show ?thesis by simp
next
  case (new sn c k actor al intent)
  let ?f = "\<lambda>s. s\<lparr>vs_status := Snap_anchor_pending\<rparr>"
  let ?p = "\<lambda>s. vs_id s = sid \<and> vs_status s = Snap_created"
  from inv have A: "anchors_ok d" and S: "snapshots_ok env d" by (simp_all add: voting_inv_def)
  from find_Some_in [OF new(1)] have sn: "sn \<in> set (voting_snapshots d)" "vs_id sn = sid" by simp_all
  have uniq: "x = sn" if "x \<in> set (voting_snapshots d)" "vs_id x = sid" for x
    using find_unique [OF _ new(1) that] S by (simp add: snapshots_ok_def)
  have st: "ai_status intent = Intent_created" "ai_snapshot_id intent = sid"
    "ai_round_id intent = vs_round_id sn" "ai_merkle_root intent = vs_merkle_root sn"
    "ai_tally_sha256 intent = vs_tally_sha256 sn" "ai_total_votes intent = vs_total_votes sn"
    using sn by (simp_all add: new(8) anchor_intent_def Let_def)
  have chk: "0 \<le> ai_total_votes intent" "ai_total_votes intent \<le> 4294967295"
    using new(9) by (auto simp: sql_insert_Inr intent_check_def)
  have d1: "distinct (map ai_id (voting_anchor_intents d @ [intent]))"
    by (rule intents.insert_distinct [OF _ new(9)]) (use A in \<open>simp add: anchors_ok_def\<close>)
  have d2: "distinct (map ai_snapshot_id (voting_anchor_intents d @ [intent]))"
    by (rule intent_snapshots.insert_distinct [OF _ new(9)]) (use A in \<open>simp add: anchors_ok_def\<close>)
  have none: "ai_snapshot_id j \<noteq> sid" if "j \<in> set (voting_anchor_intents d)" for j
    using that new(3) by (auto simp: find_None_iff)
  have "\<exists>x \<in> set (voting_snapshots d'). intent_for j x \<and> intent_state (voting_anchor_evidence d') j x"
    if j: "j \<in> set (voting_anchor_intents d')" for j
  proof (cases "j = intent")
    case True
    let ?x = "if ?p sn then ?f sn else sn"
    have "?x \<in> set (voting_snapshots d')" using sn by (auto simp: new(10) set_sql_update)
    moreover have "intent_for j ?x \<and> intent_state (voting_anchor_evidence d') j ?x"
      using True st chk new(2) sn(2) by (auto simp: intent_for_def intent_state_def)
    ultimately show ?thesis by blast
  next
    case False
    with j have j: "j \<in> set (voting_anchor_intents d)" by (simp add: new(10))
    with A obtain x where x: "x \<in> set (voting_snapshots d)" "intent_for j x"
      "intent_state (voting_anchor_evidence d) j x" by (auto simp: anchors_ok_def)
    with none [OF j] have "vs_id x \<noteq> sid" by (auto simp: intent_for_def)
    with x show ?thesis by (intro bexI [of _ x]) (auto simp: new(10) set_sql_update)
  qed
  moreover have "\<exists>i \<in> set (voting_anchor_intents d'). ai_snapshot_id i = vs_id x \<and> ai_status i = Intent_confirmed"
    if "x \<in> set (voting_snapshots d')" "vs_status x = Snap_anchored" for x
    using that A by (auto simp: new(10) set_sql_update anchors_ok_def split: if_splits)
  ultimately have "anchors_ok d'"
    using A d1 d2 unfolding anchors_ok_def by (simp add: new(10))
  moreover have "snapshots_ok env d'"
    by (rule snapshots_ok_update [OF S, of ?f d' ?p]) (simp_all add: new(10) round_done_def)
  ultimately show ?thesis
    using inv by (simp add: voting_inv_def core_ok_def plans_ok_def ballots_ok_def new(10))
qed

lemma submission_inv:
  assumes inv: "voting_inv env (s\<lparr>sys_db := d\<rparr>)" and c: "record_anchor_submission_tx env q hdrs iid raw d = Inr (i, d')"
  shows "voting_inv env (s\<lparr>sys_db := d'\<rparr>)"
  using c
proof (cases rule: record_anchor_submission_txE)
  case existing
  with inv show ?thesis by simp
next
  case (new j al)
  let ?f = "\<lambda>i. i\<lparr>ai_status := Intent_submitted, ai_submitted_tx_hash := Some (to_ascii_lowercase (trim raw)),
                   ai_submitted_at := Some (sql_now q), ai_updated_at := sql_now q\<rparr>"
  let ?p = "\<lambda>i. ai_id i = iid \<and> ai_status i = Intent_created"
  from inv have A: "anchors_ok d" by (simp add: voting_inv_def)
  have maps: "map ai_id (sql_update ?p ?f (voting_anchor_intents d)) = map ai_id (voting_anchor_intents d)"
    "map ai_snapshot_id (sql_update ?p ?f (voting_anchor_intents d)) = map ai_snapshot_id (voting_anchor_intents d)"
    by (simp_all add: map_sql_update)
  have keep: "\<exists>i' \<in> set (voting_anchor_intents d'). ai_id i' = ai_id i \<and> ai_snapshot_id i' = ai_snapshot_id i \<and>
      ai_round_id i' = ai_round_id i \<and> ai_status i' = Intent_confirmed"
    if "i \<in> set (voting_anchor_intents d)" "ai_status i = Intent_confirmed" for i
    using that by (intro bexI [of _ i]) (auto simp: new(3) set_sql_update)
  have "\<exists>x \<in> set (voting_snapshots d'). intent_for j x \<and> intent_state (voting_anchor_evidence d') j x"
    if j: "j \<in> set (voting_anchor_intents d')" for j
  proof -
    from j obtain i where i: "i \<in> set (voting_anchor_intents d)" "j = (if ?p i then ?f i else i)"
      by (auto simp: new(3) set_sql_update)
    with A obtain x where "x \<in> set (voting_snapshots d)" "intent_for i x"
      "intent_state (voting_anchor_evidence d) i x" by (auto simp: anchors_ok_def)
    with i show ?thesis
      by (intro bexI [of _ x]) (auto simp: new(3) intent_for_def intent_state_def)
  qed
  moreover have "\<exists>i \<in> set (voting_anchor_intents d'). ae_anchor_intent_id e = ai_id i \<and> ai_status i = Intent_confirmed"
    if "e \<in> set (voting_anchor_evidence d)" for e
    using that A keep by (auto simp: anchors_ok_def) metis
  moreover have "\<exists>i \<in> set (voting_anchor_intents d'). ai_snapshot_id i = vs_id x \<and> ai_status i = Intent_confirmed"
    if "x \<in> set (voting_snapshots d)" "vs_status x = Snap_anchored" for x
    using that A keep by (auto simp: anchors_ok_def) metis
  moreover have "\<exists>i \<in> set (voting_anchor_intents d'). ai_round_id i = vr_id r \<and> ai_status i = Intent_confirmed"
    if "r \<in> set (voting_rounds d)" "vr_status r = Anchored" for r
    using that A keep by (auto simp: anchors_ok_def) metis
  ultimately have "anchors_ok d'"
    using A maps unfolding anchors_ok_def by (simp add: new(3))
  then show ?thesis
    using inv by (simp add: voting_inv_def core_ok_def plans_ok_def ballots_ok_def snapshots_ok_def snapshot_ok_def
        leaves_of_def round_done_def new(3))
qed

lemma evidence_inv:
  assumes inv: "voting_inv env (s\<lparr>sys_db := d\<rparr>)" and c: "accept_anchor_evidence_tx env q hdrs iid b d = Inr ((st, e), d')"
  shows "voting_inv env (s\<lparr>sys_db := d'\<rparr>)"
  using c
proof (cases rule: accept_anchor_evidence_txE)
  case existing
  with inv show ?thesis by simp
next
  case (new i al)
  let ?fi = "\<lambda>i. i\<lparr>ai_status := Intent_confirmed, ai_confirmed_at := Some (ae_accepted_at e), ai_updated_at := sql_now q\<rparr>"
  let ?fs = "\<lambda>s. s\<lparr>vs_status := Snap_anchored, vs_anchor_tx_hash := Some (ae_transaction_hash e),
                vs_anchor_contract_event_id := Some (ae_event_reference e),
                vs_accepted_evidence_id := Some (ae_id e), vs_anchored_at := Some (ae_accepted_at e)\<rparr>"
  let ?fr = "\<lambda>r. r\<lparr>vr_status := Anchored, vr_updated_at := sql_now q\<rparr>"
  let ?pi = "\<lambda>j. ai_id j = ai_id i" and ?ps = "\<lambda>s. vs_id s = ai_snapshot_id i \<and> vs_status s = Snap_anchor_pending"
    and ?pr = "\<lambda>r. vr_id r = ai_round_id i \<and> vr_status r = Closed"
  have tabs: "voting_anchor_intents d' = sql_update ?pi ?fi (voting_anchor_intents d)"
    "voting_snapshots d' = sql_update ?ps ?fs (voting_snapshots d)"
    "voting_rounds d' = sql_update ?pr ?fr (voting_rounds d)"
    "voting_anchor_evidence d' = voting_anchor_evidence d @ [e]"
    "voting_snapshot_leaves d' = voting_snapshot_leaves d" "votes d' = votes d"
    "voting_round_contestants d' = voting_round_contestants d" "pageant_contestants d' = pageant_contestants d"
    "contestants d' = contestants d"
    by (simp_all add: new(15) confirm_anchor_def)
  from inv have A: "anchors_ok d" and S: "snapshots_ok env d" and B: "ballots_ok d" by (simp_all add: voting_inv_def)
  from find_Some_in [OF new(1)] have i: "i \<in> set (voting_anchor_intents d)" "ai_id i = iid" by simp_all
  from A i new(3) obtain sn where sn: "sn \<in> set (voting_snapshots d)" "intent_for i sn" "vs_status sn = Snap_anchor_pending"
    by (auto simp: anchors_ok_def intent_state_def)
  have uniq_i: "j = i" if "j \<in> set (voting_anchor_intents d)" "ai_id j = ai_id i" for j
    using that i A by (auto simp: anchors_ok_def distinct_map dest: inj_onD)
  have uniq_s: "x = sn" if "x \<in> set (voting_snapshots d)" "vs_id x = ai_snapshot_id i" for x
    using that sn S by (auto simp: snapshots_ok_def intent_for_def distinct_map dest: inj_onD)
  have maps: "map ai_id (voting_anchor_intents d') = map ai_id (voting_anchor_intents d)"
    "map ai_snapshot_id (voting_anchor_intents d') = map ai_snapshot_id (voting_anchor_intents d)"
    "map vr_id (voting_rounds d') = map vr_id (voting_rounds d)"
    by (simp_all add: tabs map_sql_update)
  have i': "?fi i \<in> set (voting_anchor_intents d')" using i by (auto simp: tabs set_sql_update)
  have keep: "\<exists>j' \<in> set (voting_anchor_intents d'). ai_id j' = ai_id j \<and> ai_snapshot_id j' = ai_snapshot_id j \<and>
      ai_round_id j' = ai_round_id j \<and> ai_status j' = Intent_confirmed"
    if "j \<in> set (voting_anchor_intents d)" "ai_status j = Intent_confirmed" for j
  proof -
    from that uniq_i new(3) have "ai_id j \<noteq> ai_id i" by fastforce
    with that show ?thesis by (intro bexI [of _ j]) (auto simp: tabs set_sql_update)
  qed
  have "\<exists>x \<in> set (voting_snapshots d'). intent_for j x \<and> intent_state (voting_anchor_evidence d') j x"
    if j: "j \<in> set (voting_anchor_intents d')" for j
  proof (cases "ai_id j = ai_id i")
    case True
    with j uniq_i have j: "j = ?fi i" by (auto simp: tabs set_sql_update split: if_splits)
    have "?ps sn" using sn by (simp add: intent_for_def)
    then have "?fs sn \<in> set (voting_snapshots d')" using sn(1) by (auto simp: tabs set_sql_update)
    moreover have "intent_for j (?fs sn)" using sn(2) j by (simp add: intent_for_def)
    moreover have "confirmed_by j (?fs sn) e" using new i j by (simp add: confirmed_by_def evidence_matches_def)
    ultimately show ?thesis using j by (intro bexI [of _ "?fs sn"]) (auto simp: intent_state_def tabs)
  next
    case False
    with j have j: "j \<in> set (voting_anchor_intents d)" by (auto simp: tabs set_sql_update split: if_splits)
    with A obtain x where x: "x \<in> set (voting_snapshots d)" "intent_for j x"
      "intent_state (voting_anchor_evidence d) j x" by (auto simp: anchors_ok_def)
    have "ai_snapshot_id j \<noteq> ai_snapshot_id i"
      using A i j False by (auto simp: anchors_ok_def distinct_map dest: inj_onD)
    with x have "vs_id x \<noteq> ai_snapshot_id i" by (simp add: intent_for_def)
    with x have "x \<in> set (voting_snapshots d')" by (auto simp: tabs set_sql_update)
    with x show ?thesis by (intro bexI [of _ x]) (auto simp: intent_state_def tabs)
  qed
  moreover have "\<exists>j \<in> set (voting_anchor_intents d'). ae_anchor_intent_id x = ai_id j \<and> ai_status j = Intent_confirmed"
    if "x \<in> set (voting_anchor_evidence d')" for x
  proof (cases "x = e")
    case True
    then show ?thesis using i' i(2) new(10) by (intro bexI [OF _ i']) simp
  next
    case False
    with that A keep show ?thesis by (auto simp: anchors_ok_def tabs(4)) metis
  qed
  moreover have "\<exists>j \<in> set (voting_anchor_intents d'). ai_snapshot_id j = vs_id x \<and> ai_status j = Intent_confirmed"
    if x: "x \<in> set (voting_snapshots d')" "vs_status x = Snap_anchored" for x
  proof (cases "vs_id x = ai_snapshot_id i")
    case True
    then show ?thesis by (intro bexI [OF _ i']) simp
  next
    case False
    with x have "x \<in> set (voting_snapshots d)" by (auto simp: tabs set_sql_update split: if_splits)
    with x A keep show ?thesis by (auto simp: anchors_ok_def) metis
  qed
  moreover have "\<exists>j \<in> set (voting_anchor_intents d'). ai_round_id j = vr_id r \<and> ai_status j = Intent_confirmed"
    if r: "r \<in> set (voting_rounds d')" "vr_status r = Anchored" for r
  proof (cases "vr_id r = ai_round_id i")
    case True
    then show ?thesis by (intro bexI [OF _ i']) simp
  next
    case False
    with r have "r \<in> set (voting_rounds d)" by (auto simp: tabs set_sql_update split: if_splits)
    with r A keep show ?thesis by (auto simp: anchors_ok_def) metis
  qed
  ultimately have "anchors_ok d'" using A unfolding anchors_ok_def maps by simp
  moreover have "snapshots_ok env d'"
  proof (rule snapshots_ok_update [OF S, of ?fs d' ?ps])
    show "round_done d' x" if "round_done d x" for x
    proof -
      from that obtain r where r: "r \<in> set (voting_rounds d)" "vr_id r = x"
        "vr_status r = Closed \<or> vr_status r = Anchored" by (auto simp: round_done_def)
      let ?r = "if ?pr r then ?fr r else r"
      have "?r \<in> set (voting_rounds d')" unfolding tabs set_sql_update using r(1) by blast
      moreover have "vr_id ?r = x \<and> (vr_status ?r = Closed \<or> vr_status ?r = Anchored)" using r by simp
      ultimately show ?thesis unfolding round_done_def by blast
    qed
  qed (simp_all add: tabs)
  moreover have "ballots_ok d'"
  proof -
    have "vr_id ` set (voting_rounds d') = vr_id ` set (voting_rounds d)" using maps(3) by (metis list.set_map)
    then show ?thesis using B unfolding ballots_ok_def maps tabs(6,7) by simp
  qed
  ultimately show ?thesis using inv by (simp add: voting_inv_def core_ok_def plans_ok_def tabs)
qed

lemma other_inv:
  assumes "voting_inv env (s\<lparr>sys_db := d\<rparr>)" "same_voting_tables d d'" "core_ok d'"
  shows "voting_inv env (s\<lparr>sys_db := d'\<rparr>)"
  using assms
  by (simp add: voting_inv_def same_voting_tables_def ballots_ok_def plans_ok_def snapshots_ok_def snapshot_ok_def
      leaves_of_def round_done_def anchors_ok_def)

section \<open>Every reachable state\<close>

lemma voting_step_inv:
  assumes "voting_inv env s" "voting_step env s s'"
  shows "voting_inv env s'"
proof -
  note inv = assms(1)
  have inv0: "voting_inv env (s\<lparr>sys_db := sys_db s\<rparr>)" using inv by simp
  let ?P = "\<lambda>d. voting_inv env (s\<lparr>sys_db := d\<rparr>)"
  from assms(2) show ?thesis
  proof cases
    case (step_create_round q hdrs b)
    show ?thesis unfolding step_create_round create_round_def snd_then_read
      by (rule transaction_preserves [where P = ?P, OF inv0]) (rule create_round_inv [OF inv0])
  next
    case (step_transition q hdrs rid why opening_a)
    show ?thesis unfolding step_transition transition_round_def snd_then_read
      by (rule transaction_preserves [where P = ?P, OF inv0]) (rule transition_inv [OF inv0])
  next
    case (step_vote q hdrs rid v)
    show ?thesis unfolding step_vote by (rule cast_vote_inv [OF inv0])
  next
    case (step_vote_read q hdrs rid v p)
    with plan_slot [OF step_vote_read(2)] inv show ?thesis by (auto simp: voting_inv_def plans_ok_def)
  next
    case (step_vote_write p q)
    then have "(vp_round_id p, vp_pageant_contestant_id p) \<in> ballot_slots (sys_db s)"
      using inv by (simp add: voting_inv_def plans_ok_def)
    then show ?thesis unfolding step_vote_write
      by (intro transaction_preserves [where P = ?P, OF inv0]) (rule vote_write_inv [OF inv0])
  next
    case (step_snapshot q hdrs rid)
    show ?thesis unfolding step_snapshot create_snapshot_def snd_then_read
      by (rule transaction_preserves [where P = ?P, OF inv0])
        (metis create_snapshot_inv [OF inv0] surj_pair)
  next
    case (step_anchor_intent q hdrs sid key)
    show ?thesis unfolding step_anchor_intent create_anchor_intent_def
      by (rule transaction_preserves [where P = ?P, OF inv0])
        (metis create_anchor_intent_inv [OF inv0] surj_pair)
  next
    case (step_anchor_submission q hdrs iid hash)
    show ?thesis unfolding step_anchor_submission record_anchor_submission_def
      by (rule transaction_preserves [where P = ?P, OF inv0]) (rule submission_inv [OF inv0])
  next
    case (step_anchor_evidence q hdrs iid e)
    show ?thesis unfolding step_anchor_evidence accept_anchor_evidence_def
      by (rule transaction_preserves [where P = ?P, OF inv0])
        (metis evidence_inv [OF inv0] surj_pair)
  next
    case (step_other d')
    with other_inv [OF inv0] show ?thesis by simp
  qed
qed

lemma voting_reachable_inv: "voting_reachable env s \<Longrightarrow> voting_inv env s"
proof (induction rule: voting_reachable.induct)
  case (reach_start s)
  then show ?case
    by (auto simp: voting_start_def voting_inv_def ballots_ok_def plans_ok_def snapshots_ok_def anchors_ok_def)
next
  case (reach_step s s')
  then show ?case by (blast intro: voting_step_inv)
qed

end
