(* ===== verification/Voting_Later.thy ===== *)
theory Voting_Later
  imports Voting_System
begin

text \<open>
  How a voting database may differ from an earlier one: rounds stay, keep their terms and move forward
  in the order of \<open>round_status\<close>; votes are only appended. Every step moves in this preorder.
  The second half relates the tally queries to the votes table.
\<close>

section \<open>Moving forward\<close>

definition round_later :: "VotingRoundRecord \<Rightarrow> VotingRoundRecord \<Rightarrow> bool" where
  "round_later r r' \<longleftrightarrow> vr_id r' = vr_id r \<and> vr_status r \<le> vr_status r' \<and>
     vr_organization_id r' = vr_organization_id r \<and> vr_pageant_id r' = vr_pageant_id r \<and>
     vr_category_id r' = vr_category_id r \<and> vr_slug r' = vr_slug r \<and>
     vr_opens_at r' = vr_opens_at r \<and> vr_closes_at r' = vr_closes_at r"

definition voting_later :: "voting_db \<Rightarrow> voting_db \<Rightarrow> bool" where
  "voting_later d d' \<longleftrightarrow> (\<forall>r \<in> set (voting_rounds d). \<exists>r' \<in> set (voting_rounds d'). round_later r r') \<and>
     (\<exists>new. votes d' = votes d @ new)"

lemma round_later_refl [simp]: "round_later r r"
  by (simp add: round_later_def)

lemma voting_later_refl: "voting_later d d"
  by (auto simp: voting_later_def intro!: bexI)

lemma round_later_trans: "round_later a b \<Longrightarrow> round_later b c \<Longrightarrow> round_later a c"
  by (auto simp: round_later_def intro: order_trans)

lemma voting_later_trans:
  assumes "voting_later a b" "voting_later b c"
  shows "voting_later a c"
  unfolding voting_later_def
proof (intro conjI ballI)
  show "\<exists>new. votes c = votes a @ new" using assms by (auto simp: voting_later_def)
  fix r
  assume "r \<in> set (voting_rounds a)"
  with assms(1) obtain r1 where r1: "r1 \<in> set (voting_rounds b)" "round_later r r1" by (auto simp: voting_later_def)
  with assms(2) obtain r2 where "r2 \<in> set (voting_rounds c)" "round_later r1 r2" by (auto simp: voting_later_def)
  with r1 show "\<exists>r' \<in> set (voting_rounds c). round_later r r'" by (blast intro: round_later_trans)
qed

lemma transaction_later:
  "(\<And>x d'. body d = Inr (x, d') \<Longrightarrow> voting_later d d') \<Longrightarrow> voting_later d (snd (transaction body d))"
  by (rule transaction_preserves [where P = "voting_later d"]) (rule voting_later_refl)

lemma voting_later_same:
  "voting_rounds d' = voting_rounds d \<Longrightarrow> votes d' = votes d \<Longrightarrow> voting_later d d'"
  by (auto simp: voting_later_def intro!: bexI)

lemma voting_later_update:
  assumes "voting_rounds d' = sql_update p f (voting_rounds d)" "votes d' = votes d"
    and "\<And>r. r \<in> set (voting_rounds d) \<Longrightarrow> p r \<Longrightarrow> round_later r (f r)"
  shows "voting_later d d'"
  unfolding voting_later_def
proof (intro conjI ballI)
  fix r
  assume r: "r \<in> set (voting_rounds d)"
  then have "(if p r then f r else r) \<in> set (voting_rounds d')" unfolding assms(1) set_sql_update by blast
  with r assms(3) show "\<exists>r' \<in> set (voting_rounds d'). round_later r r'"
    by (metis (full_types) round_later_refl)
qed (simp add: assms(2))

lemma transition_later:
  assumes inv: "ballots_ok d" and c: "transition_round_tx env q hdrs rid why opening_a d = Inr (u, d')"
  shows "voting_later d d'"
  using c
proof (rule transition_round_txE)
  fix r f es al
  assume r: "find (\<lambda>r. vr_id r = rid) (voting_rounds d) = Some r"
    and o1: "opening_a \<Longrightarrow> (vr_status r = Draft \<or> vr_status r = Scheduled) \<and> vr_opens_at r \<le> now_utc q 0 \<and>
       now_utc q 0 < vr_closes_at r"
    and o2: "\<not> opening_a \<Longrightarrow> vr_status r = Open \<or> vr_status r = Closing"
    and st: "\<And>x. vr_status (f x) = (if opening_a then Open else Closed)"
    and fix1: "\<And>x. vr_id (f x) = vr_id x \<and> vr_organization_id (f x) = vr_organization_id x \<and>
       vr_pageant_id (f x) = vr_pageant_id x \<and> vr_category_id (f x) = vr_category_id x \<and>
       vr_slug (f x) = vr_slug x \<and> vr_opens_at (f x) = vr_opens_at x \<and> vr_closes_at (f x) = vr_closes_at x"
    and d': "d' = d\<lparr>voting_rounds := sql_update (\<lambda>r. vr_id r = rid) f (voting_rounds d),
            voting_round_events := es, audit_logs := al\<rparr>"
  have le: "vr_status r \<le> vr_status (f r)"
    using o1 o2 st by (cases opening_a) (auto simp: less_eq_round_status_def)
  have "round_later x (f x)" if "x \<in> set (voting_rounds d)" "vr_id x = rid" for x
  proof -
    have "x = r" using find_unique [OF _ r that] inv by (simp add: ballots_ok_def)
    with le fix1 show ?thesis by (simp add: round_later_def)
  qed
  then show ?thesis by (intro voting_later_update [of d' "\<lambda>r. vr_id r = rid" f d]) (simp_all add: d')
qed

lemma cast_vote_write_later: "cast_vote_write env q p d = Inr (x, d') \<Longrightarrow> voting_later d d'"
  by (erule cast_vote_writeE) (auto simp: voting_later_def intro!: bexI)

lemma cast_vote_later: "voting_later d (snd (cast_vote env q hdrs rid v d))"
  unfolding cast_vote_def
proof (rule transaction_later)
  fix x d'
  assume "bind_result (cast_vote_check env q hdrs rid v d) (\<lambda>m.
       case m of Inl existing \<Rightarrow> Inr ((200, existing), d) | Inr p \<Rightarrow> cast_vote_write env q p d) = Inr (x, d')"
  then show "voting_later d d'"
    by (elim bind_InrE) (auto simp: voting_later_refl cast_vote_write_later split: sum.splits)
qed

lemma create_round_later: "create_round_tx env q hdrs b d = Inr (rid, d') \<Longrightarrow> voting_later d d'"
  by (erule create_round_txE) (auto simp: voting_later_def intro!: bexI)

lemma evidence_later: "accept_anchor_evidence_tx env q hdrs iid b d = Inr ((st, e), d') \<Longrightarrow> voting_later d d'"
proof (erule accept_anchor_evidence_txE)
  assume "d' = d"
  then show ?thesis by (simp add: voting_later_refl)
next
  fix i al
  assume d': "d' = (confirm_anchor q i e (d\<lparr>voting_anchor_evidence := voting_anchor_evidence d @ [e]\<rparr>))
         \<lparr>audit_logs := al\<rparr>"
  show ?thesis
    by (rule voting_later_update [of d' "\<lambda>r. vr_id r = ai_round_id i \<and> vr_status r = Closed"
          "\<lambda>r. r\<lparr>vr_status := Anchored, vr_updated_at := sql_now q\<rparr>"])
      (auto simp: d' confirm_anchor_def round_later_def less_eq_round_status_def)
qed

lemma voting_step_later:
  assumes "voting_inv env s" "voting_step env s s'"
  shows "voting_later (sys_db s) (sys_db s')"
proof -
  let ?d = "sys_db s"
  have b: "ballots_ok ?d" using assms(1) by (simp add: voting_inv_def)
  have 1: "voting_later ?d (snd (create_round env q hdrs rq ?d))" for q hdrs rq
    unfolding create_round_def snd_then_read by (rule transaction_later, rule create_round_later)
  have 2: "voting_later ?d (snd (transition_round env q hdrs rid why o1 ?d))" for q hdrs rid why o1
    unfolding transition_round_def snd_then_read by (rule transaction_later, rule transition_later [OF b])
  have 3: "voting_later ?d (snd (transaction (cast_vote_write env q p) ?d))" for q p
    by (rule transaction_later, rule cast_vote_write_later)
  have 4: "voting_later ?d (snd (create_snapshot env q hdrs rid ?d))" for q hdrs rid
    unfolding create_snapshot_def snd_then_read
  proof (rule transaction_later)
    fix x d'
    assume "create_snapshot_tx env q hdrs rid ?d = Inr (x, d')"
    then show "voting_later ?d d'"
      by (cases x) (auto elim!: create_snapshot_txE intro: voting_later_same)
  qed
  have 5: "voting_later ?d (snd (create_anchor_intent env q hdrs sid key ?d))" for q hdrs sid key
    unfolding create_anchor_intent_def
  proof (rule transaction_later)
    fix x d'
    assume "create_anchor_intent_tx env q hdrs sid key ?d = Inr (x, d')"
    then show "voting_later ?d d'"
      by (cases x) (auto elim!: create_anchor_intent_txE intro: voting_later_same)
  qed
  have 6: "voting_later ?d (snd (record_anchor_submission env q hdrs iid hash ?d))" for q hdrs iid hash
    unfolding record_anchor_submission_def
    by (rule transaction_later) (auto elim!: record_anchor_submission_txE intro: voting_later_same)
  have 7: "voting_later ?d (snd (accept_anchor_evidence env q hdrs iid e ?d))" for q hdrs iid e
    unfolding accept_anchor_evidence_def
    by (rule transaction_later) (metis evidence_later surj_pair)
  from assms(2) show ?thesis
    by cases (auto simp: 1 2 3 4 5 6 7 cast_vote_later voting_later_refl same_voting_tables_def
        intro: voting_later_same)
qed

lemma voting_steps:
  assumes "voting_reachable env s" "(voting_step env)\<^sup>*\<^sup>* s s'"
  shows "voting_reachable env s' \<and> voting_later (sys_db s) (sys_db s')"
  using assms(2)
proof (induction rule: rtranclp_induct)
  case base
  then show ?case using assms(1) by (simp add: voting_later_refl)
next
  case (step s1 s2)
  from step voting_step_later [OF voting_reachable_inv step(2)] show ?case
    by (blast intro: reach_step voting_later_trans)
qed

section \<open>Tallies count votes\<close>

text \<open>Under the foreign keys every ballot slot joins to exactly one contestant.\<close>

lemma filter_key_single:
  "distinct (map k xs) \<Longrightarrow> x \<in> set xs \<Longrightarrow> filter (\<lambda>y. k y = k x) xs = [x]"
proof (induction xs)
  case (Cons a xs)
  show ?case
  proof (cases "a = x")
    case True
    with Cons.prems have "filter (\<lambda>y. k y = k x) xs = []" by (simp add: filter_empty_conv) (metis imageI)
    with True show ?thesis by simp
  next
    case False
    with Cons show ?thesis by auto
  qed
qed simp

lemma concat_if_filter: "concat (map (\<lambda>x. if P x then f x else []) xs) = concat (map f (filter P xs))"
  by (induction xs) simp_all

lemma round_entries_slots:
  assumes "core_ok d"
  shows "map fst (round_entries rid d) = filter (\<lambda>c. rc_round_id c = rid) (voting_round_contestants d)"
    and "\<And>e. e \<in> set (round_entries rid d) \<Longrightarrow> pc_id (fst (snd e)) = rc_pageant_contestant_id (fst e)"
proof -
  have one: "map fst (concat (map (\<lambda>pc. if pc_id pc = rc_pageant_contestant_id c
      then concat (map (\<lambda>x. if ct_id x = pc_contestant_id pc then [(c, pc, x)] else []) (contestants d)) else [])
      (pageant_contestants d))) = [c]" if c: "c \<in> set (voting_round_contestants d)" for c
  proof -
    from c assms obtain pc where pc: "pc \<in> set (pageant_contestants d)" "rc_pageant_contestant_id c = pc_id pc"
      by (auto simp: core_ok_def)
    from pc assms obtain x where x: "x \<in> set (contestants d)" "pc_contestant_id pc = ct_id x"
      by (auto simp: core_ok_def)
    have "filter (\<lambda>y. pc_id y = pc_id pc) (pageant_contestants d) = [pc]"
      "filter (\<lambda>y. ct_id y = ct_id x) (contestants d) = [x]"
      using assms pc x by (simp_all add: core_ok_def filter_key_single)
    then show ?thesis by (simp add: concat_if_filter pc(2) x(2))
  qed
  have "map fst (concat (map (\<lambda>c. if rc_round_id c = rid then f c else []) cs)) = filter (\<lambda>c. rc_round_id c = rid) cs"
    if "\<And>c. c \<in> set cs \<Longrightarrow> map fst (f c) = [c]" for cs and f :: "round_contestant_row \<Rightarrow> (round_contestant_row \<times> 'z) list"
    using that by (induction cs) auto
  from this [OF one] show "map fst (round_entries rid d)
      = filter (\<lambda>c. rc_round_id c = rid) (voting_round_contestants d)"
    by (simp add: round_entries_def)
  show "\<And>e. e \<in> set (round_entries rid d) \<Longrightarrow> pc_id (fst (snd e)) = rc_pageant_contestant_id (fst e)"
    by (auto simp: round_entries_def split: if_splits)
qed

lemma sum_counts:
  assumes "distinct ks" "\<And>x. x \<in> set xs \<Longrightarrow> P x \<Longrightarrow> g x \<in> set ks"
  shows "(\<Sum>k \<leftarrow> ks. int (length (filter (\<lambda>x. P x \<and> g x = k) xs))) = int (length (filter P xs))"
  using assms(2)
proof (induction xs)
  case (Cons x xs)
  have "int (length (filter (\<lambda>y. P y \<and> g y = k) (x # xs)))
      = (if P x \<and> g x = k then 1 else 0) + int (length (filter (\<lambda>y. P y \<and> g y = k) xs))" for k
    by simp
  then have "(\<Sum>k \<leftarrow> ks. int (length (filter (\<lambda>y. P y \<and> g y = k) (x # xs))))
      = (\<Sum>k \<leftarrow> ks. (if P x \<and> g x = k then 1 else 0)) + (\<Sum>k \<leftarrow> ks. int (length (filter (\<lambda>y. P y \<and> g y = k) xs)))"
    by (simp only: sum_list_addf)
  also have "(\<Sum>k \<leftarrow> ks. (if P x \<and> g x = k then 1 else 0)) = (if P x then 1 else (0 :: int))"
  proof (cases "P x")
    case True
    with Cons.prems have "g x \<in> set ks" by simp
    have zero: "g x \<notin> set ks \<Longrightarrow> (\<Sum>k \<leftarrow> ks. (if g x = k then 1 else (0 :: int))) = 0" for ks
      by (induction ks) auto
    have "(\<Sum>k \<leftarrow> ks. (if g x = k then 1 else (0 :: int))) = 1"
      using assms(1) \<open>g x \<in> set ks\<close> by (induction ks) (auto simp: zero)
    with True show ?thesis by simp
  qed simp
  finally show ?case using Cons by simp
qed simp

lemma round_keys:
  assumes "core_ok d" "ballots_ok d"
  shows "map (\<lambda>e. pc_id (fst (snd e))) (round_entries rid d)
      = map rc_pageant_contestant_id (filter (\<lambda>c. rc_round_id c = rid) (voting_round_contestants d))"
    and "distinct (map (\<lambda>e. pc_id (fst (snd e))) (round_entries rid d))"
proof -
  show eq: "map (\<lambda>e. pc_id (fst (snd e))) (round_entries rid d)
      = map rc_pageant_contestant_id (filter (\<lambda>c. rc_round_id c = rid) (voting_round_contestants d))"
  proof -
    have "map (\<lambda>e. pc_id (fst (snd e))) (round_entries rid d)
        = map (\<lambda>e. rc_pageant_contestant_id (fst e)) (round_entries rid d)"
      using round_entries_slots(2) [OF assms(1)] by simp
    also have "\<dots> = map rc_pageant_contestant_id (map fst (round_entries rid d))" by simp
    finally show ?thesis by (simp only: round_entries_slots(1) [OF assms(1)])
  qed
  have "inj_on slot_key (set (voting_round_contestants d))" and dr: "distinct (voting_round_contestants d)"
    using assms(2) by (simp_all add: ballots_ok_def distinct_map)
  then have "inj_on rc_pageant_contestant_id (set (filter (\<lambda>c. rc_round_id c = rid) (voting_round_contestants d)))"
    by (auto simp: inj_on_def)
  with dr show "distinct (map (\<lambda>e. pc_id (fst (snd e))) (round_entries rid d))"
    unfolding eq by (simp add: distinct_map)
qed

lemma entries_count_votes:
  assumes "core_ok d" "ballots_ok d"
  shows "(\<Sum>e \<leftarrow> round_entries rid d.
      sql_count (\<lambda>v. vt_round_id v = rid \<and> vt_pageant_contestant_id v = pc_id (fst (snd e))) (votes d))
    = sql_count (\<lambda>v. vt_round_id v = rid) (votes d)"
proof -
  have "vt_pageant_contestant_id v \<in> set (map (\<lambda>e. pc_id (fst (snd e))) (round_entries rid d))"
    if "v \<in> set (votes d)" "vt_round_id v = rid" for v
    using that assms(2) unfolding round_keys(1) [OF assms] by (force simp: ballots_ok_def)
  from sum_counts [OF round_keys(2) [OF assms, of rid] this]
  show ?thesis by (simp add: sql_count_def comp_def)
qed

lemma entries_round: "e \<in> set (round_entries rid d) \<Longrightarrow> rc_round_id (fst e) = rid"
  by (auto simp: round_entries_def split: if_splits)

end
