(* ===== verification/Voting_Demo.thy ===== *)
theory Voting_Demo
  imports Voting_Later
begin

text \<open>
  A concrete voting run on which the theorems are instantiated: one round with two contestants is
  created, opened, voted in, closed, snapshotted, and anchored. Every database of the run is written
  out and each step of it is evaluated from the handlers' definitions.
\<close>

section \<open>The environment\<close>

definition flat_hash :: string where "flat_hash = replicate 64 (CHR ''a'')"

definition flat_env :: env where
  "flat_env = \<lparr>web_internal_token = ''w'', api_mode = ''testnet'', admin_demo_token = ''demo'',
     payout_worker_token = Some ''k'', database_configured = True,
     sha256_hex = (\<lambda>_. flat_hash), parse_uuid = Some, parse_rfc3339 = (\<lambda>s. Some (int (length s))),
     json_to_vec = (\<lambda>_. ''''), timestamp_json = JInt\<rparr>"

definition dq :: "string \<Rightarrow> draws" where
  "dq p = \<lparr>new_uuid = (\<lambda>n. p @ replicate n (CHR ''x'')), now_utc = (\<lambda>_. 5), sql_now = 5\<rparr>"

definition user_headers :: "string \<Rightarrow> headers" where
  "user_headers u = [''x-crownfi-web-token'' \<mapsto> ''w'', ''x-crownfi-user-id'' \<mapsto> u]"

definition worker_headers :: headers where
  "worker_headers = [''x-crownfi-payout-worker-token'' \<mapsto> ''k'']"

definition demo_contract :: string where "demo_contract = CHR ''C'' # replicate 55 (CHR ''A'')"

definition demo0 :: voting_db where
  "demo0 = \<lparr>users = [\<lparr>us_id = ''u'', us_status = ''active'', us_display_name = ''n'', us_email = None,
        us_created_at = 0, us_updated_at = 0\<rparr>],
     stellar_accounts = [\<lparr>sa_id = ''s'', sa_user_id = ''u'', sa_network = ''testnet'', sa_address = ''G'',
        sa_is_primary = True, sa_verified_at = Some 1, sa_created_at = 0\<rparr>],
     organizations = [], site_administrators = [\<lparr>ad_user_id = ''m'', ad_role = ''owner'', ad_status = ''active'',
        ad_granted_by_user_id = None, ad_created_at = 0, ad_updated_at = 0\<rparr>],
     organization_members = [], pageants = [\<lparr>pg_id = ''p'', pg_organization_id = ''o'', pg_status = ''active'',
        pg_name = ''P'', pg_slug = ''p'', pg_description = None, pg_starts_at = None, pg_ends_at = None, pg_timezone = ''Asia/Manila'',
        pg_venue_name = None, pg_created_by_user_id = ''m'', pg_created_at = 0, pg_updated_at = 0\<rparr>],
     categories = [\<lparr>cat_id = ''t'', cat_pageant_id = ''p'', cat_name = ''T'', cat_slug = ''t'', cat_description = None, cat_status = ''open'',
        cat_sort_order = 0, cat_created_at = 0, cat_updated_at = 0\<rparr>],
     contestants = [\<lparr>ct_id = ''1'', ct_display_name = ''Ana'', ct_country_code = None, ct_legal_name = None,
        ct_biography = None, ct_created_by_user_id = ''m'', ct_created_at = 0, ct_updated_at = 0\<rparr>,
        \<lparr>ct_id = ''2'', ct_display_name = ''Bea'', ct_country_code = None, ct_legal_name = None,
        ct_biography = None, ct_created_by_user_id = ''m'', ct_created_at = 0, ct_updated_at = 0\<rparr>],
     pageant_contestants = [\<lparr>pc_id = ''y'', pc_pageant_id = ''p'', pc_contestant_id = ''1'', pc_status = ''active'',
         pc_sash = None, pc_country_representation = None, pc_contestant_number = None,
         pc_payout_stellar_account_id = None, pc_profile_json = JObj [], pc_sort_order = 0, pc_created_at = 0, pc_updated_at = 0\<rparr>,
        \<lparr>pc_id = ''z'', pc_pageant_id = ''p'', pc_contestant_id = ''2'', pc_status = ''active'',
         pc_sash = None, pc_country_representation = None, pc_contestant_number = None,
         pc_payout_stellar_account_id = None, pc_profile_json = JObj [], pc_sort_order = 0, pc_created_at = 0, pc_updated_at = 0\<rparr>],
     category_memberships = [(''y'', ''t''), (''z'', ''t'')], contestant_media = [], media_assets = [],
     contract_deployments = [\<lparr>cd_id = ''v'', cd_network = ''testnet'', cd_contract_kind = ''audit-anchor'',
        cd_contract_id = demo_contract, cd_wasm_sha256 = None, cd_source_commit = None, cd_deployment_tx_hash = None,
        cd_status = ''verified'', cd_metadata = JObj [], cd_created_by_user_id = ''m'', cd_created_at = 1, cd_updated_at = 1\<rparr>],
     audit_logs = [], voting_rounds = [], voting_round_contestants = [], votes = [], voting_round_events = [],
     voting_snapshots = [], voting_snapshot_leaves = [], voting_anchor_intents = [], voting_anchor_evidence = [],
     voting_anchor_round_key_seq = 1\<rparr>"

definition demo_request :: CreateRoundRequest where
  "demo_request = \<lparr>crq_organization_id = ''o'', crq_pageant_id = ''p'', crq_category_id = ''t'',
     crq_slug = ''fan'', crq_title = ''Fan'', crq_description = None, crq_opens_at = ''t'',
     crq_closes_at = ''ttttttttt'', crq_contestant_ids = [''y'', ''z''], crq_eligibility = JObj [],
     crq_reason = Some ''go''\<rparr>"

section \<open>The rows of the run\<close>

definition demo_audit :: "string \<Rightarrow> string option \<Rightarrow> string \<Rightarrow> string \<Rightarrow> string \<Rightarrow> json \<Rightarrow> audit_row" where
  "demo_audit i actor act et ent meta = \<lparr>al_id = i, al_organization_id = Some ''o'', al_actor_user_id = actor,
     al_action = act, al_entity_type = et, al_entity_id = Some ent, al_metadata = meta\<rparr>"

definition demo_event :: "string \<Rightarrow> string \<Rightarrow> round_status option \<Rightarrow> round_status \<Rightarrow> json \<Rightarrow> round_event_row" where
  "demo_event i act prev new meta = \<lparr>re_id = i, re_organization_id = ''o'', re_round_id = ''a'',
     re_actor_user_id = ''m'', re_action = act, re_previous_status = prev, re_new_status = new,
     re_reason = ''go'', re_metadata = meta\<rparr>"

definition demo_round :: "round_status \<Rightarrow> int option \<Rightarrow> int option \<Rightarrow> VotingRoundRecord" where
  "demo_round st op cl = \<lparr>vr_id = ''a'', vr_organization_id = ''o'', vr_pageant_id = ''p'', vr_category_id = ''t'',
     vr_slug = ''fan'', vr_title = ''Fan'', vr_description = None, vr_status = st, vr_opens_at = 1,
     vr_closes_at = 9, vr_max_votes_per_user = 1, vr_eligibility_json = JObj [],
     vr_created_by_user_id = ''m'', vr_opened_at = op, vr_closed_at = cl, vr_created_at = 5, vr_updated_at = 5\<rparr>"

definition demo_vote :: vote_row where
  "demo_vote = \<lparr>vt_id = ''c'', vt_organization_id = ''o'', vt_pageant_id = ''p'', vt_round_id = ''a'',
     vt_pageant_contestant_id = ''y'', vt_voter_user_id = ''u'', vt_idempotency_key = ''k'',
     vt_request_sha256 = flat_hash, vt_receipt_hash = flat_hash, vt_accepted_at = 5\<rparr>"

definition demo_plan :: vote_plan where
  "demo_plan = \<lparr>vp_organization_id = ''o'', vp_pageant_id = ''p'', vp_round_id = ''a'',
     vp_pageant_contestant_id = ''y'', vp_voter_user_id = ''u'', vp_idempotency_key = ''k'',
     vp_request_sha256 = flat_hash\<rparr>"

definition demo_ballot :: CastVoteRequest where
  "demo_ballot = \<lparr>cvq_pageant_contestant_id = ''y'', cvq_idempotency_key = ''k''\<rparr>"

definition demo1 :: voting_db where
  "demo1 = demo0\<lparr>voting_rounds := [demo_round Scheduled None None],
     voting_round_contestants := [\<lparr>rc_round_id = ''a'', rc_pageant_contestant_id = ''y'', rc_sort_order = 0\<rparr>,
        \<lparr>rc_round_id = ''a'', rc_pageant_contestant_id = ''z'', rc_sort_order = 1\<rparr>],
     voting_round_events := [demo_event ''ax'' ''create'' None Scheduled
        (JObj [(''pageant_id'', JStr ''p''), (''category_id'', JStr ''t'')])],
     audit_logs := [demo_audit ''axx'' (Some ''m'') ''voting_round.create'' ''voting'' ''a''
        (JObj [(''slug'', JStr ''fan''), (''contestant_count'', JInt 2)])]\<rparr>"

definition demo2 :: voting_db where
  "demo2 = demo1\<lparr>voting_rounds := [demo_round Open (Some 5) None],
     voting_round_events := voting_round_events demo1 @ [demo_event ''b'' ''open'' (Some Scheduled) Open (JObj [])],
     audit_logs := audit_logs demo1 @ [demo_audit ''bx'' (Some ''m'') ''voting_round.open'' ''voting'' ''a''
        (JObj [(''previous_status'', JStr ''scheduled''), (''new_status'', JStr ''open'')])]\<rparr>"

definition demo_after_vote :: "voting_db \<Rightarrow> voting_db" where
  "demo_after_vote d = d\<lparr>votes := [demo_vote],
     audit_logs := audit_logs d @ [demo_audit ''cx'' (Some ''u'') ''vote.accept'' ''voting'' ''c''
        (JObj [(''round_id'', JStr ''a''), (''receipt_hash'', JStr flat_hash)])]\<rparr>"

definition demo_tally :: "int \<Rightarrow> json" where
  "demo_tally n = JArr
     [JObj [(''display_name'', JStr ''Ana''), (''pageant_contestant_id'', JStr ''y''), (''sash'', JNull),
        (''votes'', JInt n)],
      JObj [(''display_name'', JStr ''Bea''), (''pageant_contestant_id'', JStr ''z''), (''sash'', JNull),
        (''votes'', JInt 0)]]"

definition demo_snapshot :: "int \<Rightarrow> snapshot_status \<Rightarrow> string option \<Rightarrow> string option \<Rightarrow> string option \<Rightarrow> int option \<Rightarrow>
    VotingSnapshotRecord" where
  "demo_snapshot n st tx ev acc at = \<lparr>vs_id = ''e'', vs_organization_id = ''o'', vs_pageant_id = ''p'',
     vs_round_id = ''a'', vs_version = 1, vs_status = st, vs_total_votes = n, vs_tally_sha256 = flat_hash,
     vs_merkle_root = flat_hash, vs_tally_json = demo_tally n, vs_anchor_tx_hash = tx,
     vs_anchor_contract_event_id = ev, vs_accepted_evidence_id = acc, vs_created_by_user_id = ''m'',
     vs_created_at = 5, vs_anchored_at = at\<rparr>"

definition demo_leaf :: snapshot_leaf_row where
  "demo_leaf = \<lparr>sl_snapshot_id = ''e'', sl_vote_id = ''c'', sl_receipt_hash = flat_hash, sl_leaf_index = 0,
     sl_leaf_hash = flat_hash\<rparr>"

definition demo_after_snapshot :: "int \<Rightarrow> snapshot_leaf_row list \<Rightarrow> voting_db \<Rightarrow> voting_db" where
  "demo_after_snapshot n leaves d = d\<lparr>voting_snapshots := [demo_snapshot n Snap_created None None None None],
     voting_snapshot_leaves := leaves,
     audit_logs := audit_logs d @ [demo_audit ''ex'' (Some ''m'') ''voting_snapshot.create'' ''voting_snapshot'' ''e''
        (JObj [(''round_id'', JStr ''a''), (''total_votes'', JInt n), (''tally_sha256'', JStr flat_hash),
          (''merkle_root'', JStr flat_hash)])]\<rparr>"

definition demo_after_close :: "voting_db \<Rightarrow> voting_db" where
  "demo_after_close d = d\<lparr>voting_rounds := [demo_round Closed (Some 5) (Some 5)],
     voting_round_events := voting_round_events d @ [demo_event ''d'' ''close'' (Some Open) Closed (JObj [])],
     audit_logs := audit_logs d @ [demo_audit ''dx'' (Some ''m'') ''voting_round.close'' ''voting'' ''a''
        (JObj [(''previous_status'', JStr ''open''), (''new_status'', JStr ''closed'')])]\<rparr>"

definition demo3 :: voting_db where "demo3 = demo_after_vote demo2"
definition demo4 :: voting_db where "demo4 = demo_after_close demo3"
definition demo5 :: voting_db where "demo5 = demo_after_snapshot 1 [demo_leaf] demo4"
definition late4 :: voting_db where "late4 = demo_after_close demo2"
definition late5 :: voting_db where "late5 = demo_after_snapshot 0 [] late4"
definition late6 :: voting_db where "late6 = demo_after_vote late5"

lemmas demo_db_defs = demo0_def demo1_def demo2_def demo_after_vote_def demo_after_close_def
  demo_after_snapshot_def demo3_def demo4_def demo5_def late4_def late5_def late6_def

lemmas demo_row_defs = demo_request_def demo_audit_def demo_event_def demo_round_def demo_vote_def demo_plan_def
  demo_ballot_def demo_snapshot_def demo_leaf_def demo_tally_def

lemmas demo_env_defs = flat_env_def dq_def user_headers_def worker_headers_def header_or_default_def
  require_web_actor_def require_worker_def database_pool_def guard_def hash_text_def

lemma trim_demo [simp]:
  "trim ''fan'' = ''fan''" "trim ''Fan'' = ''Fan''" "trim ''t'' = ''t''" "trim ''ttttttttt'' = ''ttttttttt''"
  "trim ''go'' = ''go''" "trim ''k'' = ''k''" "trim ''e'' = ''e''" "trim ''k2'' = ''k2''"
  by (rule trim_plain; simp add: starts_with_one_def white_space_def)+

lemma lower_fan [simp]: "to_ascii_lowercase ''fan'' = ''fan''"
  by (simp add: to_ascii_lowercase_def ascii_lowercase_char_def byte_in_def)

lemma flat_hash_sha [simp]: "is_sha256_text flat_hash"
  by (simp add: flat_hash_def is_sha256_text_def list_all_iff is_ascii_digit_def byte_in_def)

lemma flat_env_format: "sha256_format flat_env"
  by (simp add: sha256_format_def flat_env_def)

lemma text_demo [simp]:
  "text_between 1 200 ''Fan''" "text_between 1 1000 ''go''" "text_between 1 200 ''k''" "text_between 1 240 ''e''"
  "text_between (Suc 0) 200 ''Fan''" "text_between (Suc 0) 1000 ''go''" "text_between (Suc 0) 200 ''k''"
  "text_between (Suc 0) 240 ''e''"
  by (simp_all add: text_between_def btrim_def char_length_def byte_in_def)

lemma demo_create: "create_round_tx flat_env (dq ''a'') (user_headers ''m'') demo_request demo0 = Inr (''a'', demo1)"
  by (simp add: create_round_tx_def demo_db_defs demo_row_defs demo_env_defs require_organization_editor_def
      site_role_def validate_slug_def is_ascii_lowercase_def is_ascii_digit_def byte_in_def required_text_def
      optional_text_def parse_timestamp_def created_round_def sql_insert_def round_check_def
      round_contestant_clash_def write_round_event_def round_event_check_def round_created_reason_def
      voting_write_audit_def insert_audit_def Let_def numeral_2_eq_2)

lemmas demo_write_defs = required_text_def sql_insert_def write_round_event_def round_event_check_def
  round_event_clash_def voting_write_audit_def insert_audit_def audit_clash_def require_organization_editor_def
  site_role_def Let_def

lemma demo_open:
  "transition_round_tx flat_env (dq ''b'') (user_headers ''m'') ''a'' ''go'' True demo1 = Inr ((), demo2)"
  by (simp add: transition_round_tx_def demo_db_defs demo_row_defs demo_env_defs demo_write_defs sql_update_def
      coalesce_def)

lemma demo_close:
  "transition_round_tx flat_env (dq ''d'') (user_headers ''m'') ''a'' ''go'' False demo3 = Inr ((), demo4)"
  "transition_round_tx flat_env (dq ''d'') (user_headers ''m'') ''a'' ''go'' False demo2 = Inr ((), late4)"
  by (simp_all add: transition_round_tx_def demo_db_defs demo_row_defs demo_env_defs demo_write_defs sql_update_def
      coalesce_def)

lemma demo_check:
  "cast_vote_check flat_env (dq ''c'') (user_headers ''u'') ''a'' demo_ballot demo2 = Inr (Inr demo_plan)"
  by (simp add: cast_vote_check_def demo_db_defs demo_row_defs demo_env_defs required_text_def Let_def
      voter_active_def contestant_allowed_def)

lemma demo_write:
  "cast_vote_write flat_env (dq ''c'') demo_plan demo2 = Inr ((201, receipt_of demo_vote), demo3)"
  "cast_vote_write flat_env (dq ''c'') demo_plan late5 = Inr ((201, receipt_of demo_vote), late6)"
  by (simp_all add: cast_vote_write_def vote_of_plan_def demo_db_defs demo_row_defs demo_env_defs demo_write_defs
      vote_check_def)

lemma demo_take_snapshot:
  "create_snapshot_tx flat_env (dq ''e'') (user_headers ''m'') ''a'' demo4 = Inr ((201, ''e''), demo5)"
  "create_snapshot_tx flat_env (dq ''e'') (user_headers ''m'') ''a'' late4 = Inr ((201, ''e''), late5)"
  by (simp_all add: create_snapshot_tx_def demo_db_defs demo_row_defs demo_env_defs demo_write_defs
      snapshot_row_def snapshot_tally_def snapshot_votes_def round_entries_def tally_total_of_def tally_json_of_def
      checked_i64_def i64_min_def i64_max_def sql_count_def leaf_hashes_def merkle_root_def root_loop.simps
      snapshot_check_def leaf_check_def proofs_write_audit_def)

section \<open>Anchoring the snapshot\<close>

definition demo_intent :: "anchor_status \<Rightarrow> string option \<Rightarrow> int option \<Rightarrow> int option \<Rightarrow> AnchorIntentRecord" where
  "demo_intent st tx sub con = \<lparr>ai_id = ''f'', ai_organization_id = ''o'', ai_snapshot_id = ''e'',
     ai_round_id = ''a'', ai_contract_deployment_id = ''v'', ai_contract_round_key = 1, ai_network = ''testnet'',
     ai_contract_id = demo_contract, ai_function_name = ''publish'', ai_merkle_root = flat_hash,
     ai_tally_sha256 = flat_hash, ai_total_votes = 1,
     ai_operation_json = anchor_operation (demo_snapshot 1 Snap_created None None None None)
        (hd (contract_deployments demo0)) 1,
     ai_request_sha256 = flat_hash, ai_idempotency_key = ''k'', ai_status = st, ai_submitted_tx_hash = tx,
     ai_failure_code = None, ai_created_by_user_id = ''m'', ai_submitted_at = sub, ai_confirmed_at = con,
     ai_created_at = 5, ai_updated_at = 5\<rparr>"

definition demo_evidence :: AnchorEvidenceRecord where
  "demo_evidence = \<lparr>ae_id = ''h'', ae_organization_id = ''o'', ae_anchor_intent_id = ''f'', ae_snapshot_id = ''e'',
     ae_contract_deployment_id = ''v'', ae_contract_round_key = 1, ae_contract_id = demo_contract,
     ae_transaction_hash = flat_hash, ae_ledger_sequence = 7, ae_event_reference = ''e'',
     ae_merkle_root = flat_hash, ae_tally_sha256 = flat_hash, ae_total_votes = 1, ae_raw_event = JObj [],
     ae_accepted_at = 5, ae_created_at = 5\<rparr>"

definition demo_evidence_request :: AnchorEvidenceRequest where
  "demo_evidence_request = \<lparr>aer_transaction_hash = flat_hash, aer_ledger_sequence = 7, aer_event_reference = ''e'',
     aer_contract_id = demo_contract, aer_contract_round_key = 1, aer_merkle_root = flat_hash,
     aer_tally_sha256 = flat_hash, aer_total_votes = 1, aer_raw_event = JObj []\<rparr>"

definition demo6 :: voting_db where
  "demo6 = demo5\<lparr>voting_anchor_round_key_seq := 2,
     voting_anchor_intents := [demo_intent Intent_created None None None],
     voting_snapshots := [demo_snapshot 1 Snap_anchor_pending None None None None],
     audit_logs := audit_logs demo5 @ [demo_audit ''fx'' (Some ''m'') ''voting_anchor.intent.create''
        ''voting_anchor_intent'' ''f''
        (JObj [(''snapshot_id'', JStr ''e''), (''round_id'', JStr ''a''), (''contract_deployment_id'', JStr ''v''),
           (''contract_round_key'', JInt 1), (''request_sha256'', JStr flat_hash)])]\<rparr>"

definition demo7 :: voting_db where
  "demo7 = demo6\<lparr>voting_anchor_intents := [demo_intent Intent_submitted (Some flat_hash) (Some 5) None],
     audit_logs := audit_logs demo6 @ [demo_audit ''g'' None ''voting_anchor.submit'' ''voting_anchor_intent'' ''f''
        (JObj [(''transaction_hash'', JStr flat_hash)])]\<rparr>"

definition demo8 :: voting_db where
  "demo8 = demo7\<lparr>voting_anchor_intents := [demo_intent Intent_confirmed (Some flat_hash) (Some 5) (Some 5)],
     voting_snapshots := [demo_snapshot 1 Snap_anchored (Some flat_hash) (Some ''e'') (Some ''h'') (Some 5)],
     voting_rounds := [demo_round Anchored (Some 5) (Some 5)], voting_anchor_evidence := [demo_evidence],
     audit_logs := audit_logs demo7 @ [demo_audit ''hx'' None ''voting_anchor.confirm'' ''voting_anchor_evidence'' ''h''
        (JObj [(''intent_id'', JStr ''f''), (''snapshot_id'', JStr ''e''), (''round_id'', JStr ''a''),
           (''contract_round_key'', JInt 1), (''transaction_hash'', JStr flat_hash),
           (''ledger_sequence'', JInt 7), (''event_reference'', JStr ''e'')])]\<rparr>"

lemma flat_hash_valid [simp]: "validate_hash flat_hash c = Inr flat_hash"
proof -
  have "trim flat_hash = flat_hash"
    by (rule trim_plain) (simp_all add: flat_hash_def starts_with_one_def white_space_def)
  moreover have "to_ascii_lowercase flat_hash = flat_hash"
    by (simp add: flat_hash_def to_ascii_lowercase_def ascii_lowercase_char_def byte_in_def)
  moreover have "length flat_hash = 64 \<and> list_all is_ascii_hexdigit flat_hash"
    by (simp add: flat_hash_def list_all_iff is_ascii_hexdigit_def is_ascii_digit_def byte_in_def)
  ultimately show ?thesis by (simp add: validate_hash_def)
qed

lemma demo_contract_valid [simp]: "validate_contract_id demo_contract = Inr demo_contract"
proof -
  have "trim demo_contract = demo_contract"
    by (rule trim_plain) (simp_all add: demo_contract_def starts_with_one_def white_space_def replicate_append_same)
  moreover have "to_ascii_uppercase demo_contract = demo_contract"
    by (simp add: demo_contract_def to_ascii_uppercase_def ascii_uppercase_char_def byte_in_def)
  moreover have "length demo_contract = 56 \<and> take 1 demo_contract = [CHR ''C''] \<and>
      list_all is_base32_char (drop 1 demo_contract)"
    by (simp add: demo_contract_def list_all_iff is_base32_char_def is_ascii_uppercase_def byte_in_def)
  ultimately show ?thesis by (simp add: validate_contract_id_def validate_strkey_def)
qed

lemma demo_request_anchor:
  "create_anchor_intent_tx flat_env (dq ''f'') (user_headers ''m'') ''e'' ''k'' demo5
     = Inr ((201, demo_intent Intent_created None None None), demo6)"
  by (simp add: create_anchor_intent_tx_def demo_db_defs demo6_def demo_row_defs demo_env_defs demo_write_defs
      verified_deployment_def next_round_key_def anchor_intent_def anchor_operation_def intent_check_def
      anchor_write_audit_def load_intent_tx_def sql_update_def demo_intent_def)

lemma demo_submit:
  "record_anchor_submission_tx flat_env (dq ''g'') worker_headers ''f'' flat_hash demo6
     = Inr (demo_intent Intent_submitted (Some flat_hash) (Some 5) None, demo7)"
  by (simp add: record_anchor_submission_tx_def demo_db_defs demo6_def demo7_def demo_row_defs demo_env_defs
      demo_write_defs anchor_write_audit_def load_intent_tx_def sql_update_def demo_intent_def)

lemma demo_accept:
  "accept_anchor_evidence_tx flat_env (dq ''h'') worker_headers ''f'' demo_evidence_request demo7
     = Inr ((201, demo_evidence), demo8)"
  by (simp add: accept_anchor_evidence_tx_def demo_db_defs demo6_def demo7_def demo8_def demo_row_defs demo_env_defs
      demo_write_defs anchor_write_audit_def load_intent_tx_def load_evidence_tx_def sql_update_def demo_intent_def
      demo_evidence_request_def demo_evidence_def anchor_evidence_def evidence_check_def confirm_anchor_def)

section \<open>The databases of the run are reachable\<close>

abbreviation demo_sys :: "voting_db \<Rightarrow> voting_system" where
  "demo_sys d \<equiv> \<lparr>sys_db = d, sys_pending = []\<rparr>"

lemma demo_start: "voting_reachable flat_env (demo_sys demo0)"
  by (rule reach_start) (simp add: voting_start_def core_ok_def demo0_def)

lemma demo_steps:
  "voting_step flat_env (demo_sys demo0) (demo_sys demo1)"
  "voting_step flat_env (demo_sys demo1) (demo_sys demo2)"
  "voting_step flat_env (demo_sys demo2) (demo_sys demo3)"
  "voting_step flat_env (demo_sys demo3) (demo_sys demo4)"
  "voting_step flat_env (demo_sys demo4) (demo_sys demo5)"
  "voting_step flat_env (demo_sys demo5) (demo_sys demo6)"
  "voting_step flat_env (demo_sys demo6) (demo_sys demo7)"
  "voting_step flat_env (demo_sys demo7) (demo_sys demo8)"
proof -
  show "voting_step flat_env (demo_sys demo0) (demo_sys demo1)"
    using step_create_round [of flat_env "demo_sys demo0" "dq ''a''" "user_headers ''m''" demo_request]
    by (simp add: create_round_def transaction_def demo_create)
  show "voting_step flat_env (demo_sys demo1) (demo_sys demo2)"
    using step_transition [of flat_env "demo_sys demo1" "dq ''b''" "user_headers ''m''" "''a''" "''go''" True]
    by (simp add: transition_round_def transaction_def demo_open)
  show "voting_step flat_env (demo_sys demo2) (demo_sys demo3)"
    using step_vote [of flat_env "demo_sys demo2" "dq ''c''" "user_headers ''u''" "''a''" demo_ballot]
    by (simp add: cast_vote_def transaction_def demo_check demo_write)
  show "voting_step flat_env (demo_sys demo3) (demo_sys demo4)"
    using step_transition [of flat_env "demo_sys demo3" "dq ''d''" "user_headers ''m''" "''a''" "''go''" False]
    by (simp add: transition_round_def transaction_def demo_close(1))
  show "voting_step flat_env (demo_sys demo4) (demo_sys demo5)"
    using step_snapshot [of flat_env "demo_sys demo4" "dq ''e''" "user_headers ''m''" "''a''"]
    by (simp add: create_snapshot_def transaction_def demo_take_snapshot(1))
  show "voting_step flat_env (demo_sys demo5) (demo_sys demo6)"
    using step_anchor_intent [of flat_env "demo_sys demo5" "dq ''f''" "user_headers ''m''" "''e''" "''k''"]
    by (simp add: create_anchor_intent_def transaction_def demo_request_anchor)
  show "voting_step flat_env (demo_sys demo6) (demo_sys demo7)"
    using step_anchor_submission [of flat_env "demo_sys demo6" "dq ''g''" worker_headers "''f''" flat_hash]
    by (simp add: record_anchor_submission_def transaction_def demo_submit)
  show "voting_step flat_env (demo_sys demo7) (demo_sys demo8)"
    using step_anchor_evidence [of flat_env "demo_sys demo7" "dq ''h''" worker_headers "''f''" demo_evidence_request]
    by (simp add: accept_anchor_evidence_def transaction_def demo_accept)
qed

lemma demo_reachable:
  "voting_reachable flat_env (demo_sys demo2)" "voting_reachable flat_env (demo_sys demo3)"
  "voting_reachable flat_env (demo_sys demo4)" "voting_reachable flat_env (demo_sys demo5)"
  "voting_reachable flat_env (demo_sys demo8)"
proof -
  have 2: "voting_reachable flat_env (demo_sys demo2)"
    by (blast intro: reach_step demo_start demo_steps)
  have 3: "voting_reachable flat_env (demo_sys demo3)" by (rule reach_step [OF 2 demo_steps(3)])
  have 4: "voting_reachable flat_env (demo_sys demo4)" by (rule reach_step [OF 3 demo_steps(4)])
  have 5: "voting_reachable flat_env (demo_sys demo5)" by (rule reach_step [OF 4 demo_steps(5)])
  have 6: "voting_reachable flat_env (demo_sys demo6)" by (rule reach_step [OF 5 demo_steps(6)])
  have 7: "voting_reachable flat_env (demo_sys demo7)" by (rule reach_step [OF 6 demo_steps(7)])
  have 8: "voting_reachable flat_env (demo_sys demo8)" by (rule reach_step [OF 7 demo_steps(8)])
  show "voting_reachable flat_env (demo_sys demo2)" "voting_reachable flat_env (demo_sys demo3)"
    "voting_reachable flat_env (demo_sys demo4)" "voting_reachable flat_env (demo_sys demo5)"
    "voting_reachable flat_env (demo_sys demo8)" by (fact 2 3 4 5 8)+
qed

text \<open>The interleaving in which the vote is written after the round was closed and snapshotted.\<close>

lemma late_reachable: "voting_reachable flat_env \<lparr>sys_db = late6, sys_pending = [demo_plan]\<rparr>"
proof -
  let ?s = "\<lambda>d. \<lparr>sys_db = d, sys_pending = [demo_plan]\<rparr>"
  have "voting_step flat_env (demo_sys demo2) (?s demo2)"
    using step_vote_read [of flat_env "dq ''c''" "user_headers ''u''" "''a''" demo_ballot "demo_sys demo2" demo_plan]
    by (simp add: demo_check)
  then have 2: "voting_reachable flat_env (?s demo2)" by (rule reach_step [OF demo_reachable(1)])
  have "voting_step flat_env (?s demo2) (?s late4)"
    using step_transition [of flat_env "?s demo2" "dq ''d''" "user_headers ''m''" "''a''" "''go''" False]
    by (simp add: transition_round_def transaction_def demo_close(2))
  then have 4: "voting_reachable flat_env (?s late4)" by (rule reach_step [OF 2])
  have "voting_step flat_env (?s late4) (?s late5)"
    using step_snapshot [of flat_env "?s late4" "dq ''e''" "user_headers ''m''" "''a''"]
    by (simp add: create_snapshot_def transaction_def demo_take_snapshot(2))
  then have 5: "voting_reachable flat_env (?s late5)" by (rule reach_step [OF 4])
  have "voting_step flat_env (?s late5) (?s late6)"
    using step_vote_write [of demo_plan "?s late5" flat_env "dq ''c''"]
    by (simp add: transaction_def demo_write(2))
  then show ?thesis by (rule reach_step [OF 5])
qed

end
