(* ===== verification/Voting_Props.thy ===== *)
theory Voting_Props
  imports Voting_Demo "HOL-Library.Multiset"
begin

text \<open>
  The properties of the voting subsystem. Those about reachable states hold under every interleaving of
  the steps of \<open>Voting_System\<close>; the witnesses instantiate them on the run of \<open>Voting_Demo\<close>.
\<close>

section \<open>Votes\<close>

text \<open>C3: One vote per account and round. In every reachable state, interleaved vote transactions
  included, no two votes share round and voter, no two share a receipt, and every vote is for a
  contestant on the ballot of its round.\<close>
theorem one_vote_per_voter:
  assumes "voting_reachable env s"
  shows "distinct (map (\<lambda>v. (vt_round_id v, vt_voter_user_id v)) (votes (sys_db s))) \<and>
    distinct (map vt_receipt_hash (votes (sys_db s))) \<and>
    (\<forall>v \<in> set (votes (sys_db s)). \<exists>c \<in> set (voting_round_contestants (sys_db s)).
       rc_round_id c = vt_round_id v \<and> rc_pageant_contestant_id c = vt_pageant_contestant_id v)"
  using voting_reachable_inv [OF assms] by (fastforce simp: voting_inv_def ballots_ok_def)

theorem one_vote_per_voter_witness:
  "\<exists>c \<in> set (voting_round_contestants demo3). rc_pageant_contestant_id c = ''y''"
  using one_vote_per_voter [OF demo_reachable(2)]
  by (auto simp: demo3_def demo_after_vote_def demo_vote_def)


lemma demo_cast: "cast_vote flat_env (dq ''c'') (user_headers ''u'') ''a'' demo_ballot demo2
    = (Inr (201, receipt_of demo_vote), demo3)"
  by (simp add: cast_vote_def transaction_def demo_check demo_write)


lemma vote_blocked:
  assumes "v \<in> set (votes d)" "vt_round_id v = vp_round_id p" "vt_voter_user_id v = vp_voter_user_id p"
  shows "\<exists>e. cast_vote_write env q p d = Inl e"
proof -
  have "sql_insert vote_check vote_clash (vote_of_plan env q p) (votes d) \<noteq> Inr rows" for rows
  proof -
    have "vote_clash (vote_of_plan env q p) v" using assms(2,3) by (simp add: vote_clash_def vote_of_plan_def)
    with assms(1) show ?thesis by (auto simp: sql_insert_Inr)
  qed
  then obtain e where "sql_insert vote_check vote_clash (vote_of_plan env q p) (votes d) = Inl e"
    by (cases "sql_insert vote_check vote_clash (vote_of_plan env q p) (votes d)") auto
  then show ?thesis by (simp add: cast_vote_write_def Let_def)
qed

lemma cast_vote_inert:
  assumes "v \<in> set (votes d)" "vt_round_id v = rid" "require_web_actor env hdrs = Inr (vt_voter_user_id v)"
  shows "snd (cast_vote env q hdrs rid b d) = d"
proof -
  have "\<exists>e. cast_vote_write env q p d = Inl e" if c: "cast_vote_check env q hdrs rid b d = Inr (Inr p)" for p
    using c
  proof (rule cast_vote_check_planE)
    assume "require_web_actor env hdrs = Inr (vp_voter_user_id p)" "vp_round_id p = rid"
    with assms vote_blocked [of v d p] show ?thesis by auto
  qed
  then show ?thesis
    by (cases "cast_vote_check env q hdrs rid b d")
      (fastforce simp: cast_vote_def transaction_def split: sum.splits)+
qed

text \<open>Voting again changes nothing. After an accepted vote, any further request of the same account
  in the round, whatever contestant or idempotency key it names, leaves the database as it was; the same
  request sent again while the round is open gets the same receipt with status 200.\<close>
theorem vote_replay_idempotent:
  assumes "voting_reachable env s" "cast_vote env q hdrs rid b (sys_db s) = (Inr (201, rcp), d')"
    and "find (\<lambda>r. vr_id r = rid) (voting_rounds (sys_db s)) = Some r"
    and "vr_opens_at r \<le> now_utc q' 0" "now_utc q' 0 < vr_closes_at r"
  shows "snd (cast_vote env q'' hdrs rid b'' d') = d' \<and>
    cast_vote env q' hdrs rid b d' = (Inr (200, rcp), d')"
  using assms(2)
proof (cases rule: cast_voteE)
  case (new p)
  let ?d = "sys_db s" and ?v = "vote_of_plan env q p"
  from new(2) obtain a where rcp: "rcp = receipt_of ?v"
    and d': "d' = ?d\<lparr>votes := votes ?d @ [?v], audit_logs := audit_logs ?d @ [a]\<rparr>"
    and ins: "sql_insert vote_check vote_clash ?v (votes ?d) = Inr (votes ?d @ [?v])"
    by (auto elim: cast_vote_writeE)
  show ?thesis
    using new(1)
  proof (rule cast_vote_check_planE)
    fix r1
    assume r1: "find (\<lambda>r. vr_id r = rid) (voting_rounds ?d) = Some r1" "vr_status r1 = Open"
      and act: "voter_active (vp_voter_user_id p) ?d"
      and al: "contestant_allowed rid (vp_pageant_contestant_id p) (vr_pageant_id r1) ?d"
      and who: "require_web_actor env hdrs = Inr (vp_voter_user_id p)"
      and p: "vp_round_id p = rid" "vp_pageant_contestant_id p = cvq_pageant_contestant_id b"
        "vp_idempotency_key p = trim (cvq_idempotency_key b)"
        "vp_request_sha256 p = hash_text env (vote_request_text rid (vp_voter_user_id p)
          (cvq_pageant_contestant_id b) (vp_idempotency_key p))"
      and none: "find (\<lambda>v. vt_round_id v = rid \<and> vt_voter_user_id v = vp_voter_user_id p \<and>
        vt_idempotency_key v = vp_idempotency_key p) (votes ?d) = None"
    have v: "vt_round_id ?v = rid" "vt_voter_user_id ?v = vp_voter_user_id p"
      "vt_idempotency_key ?v = vp_idempotency_key p" "vt_request_sha256 ?v = vp_request_sha256 p"
      "vt_id ?v = new_uuid q 0" using p by (simp_all add: vote_of_plan_def)
    have inert: "snd (cast_vote env q'' hdrs rid b'' d') = d'"
      by (rule cast_vote_inert [of ?v]) (use who v in \<open>simp_all add: d' del: require_web_actor_Inr\<close>)
    have key: "required_text (cvq_idempotency_key b) 200 ''invalid_vote_idempotency_key'' = Inr (vp_idempotency_key p)"
      and db: "database_configured env"
      using new(1) p(3) by (auto simp: cast_vote_check_def bind_result_Inr required_text_Inr database_pool_Inr Let_def)
    have f1: "find (\<lambda>x. vt_round_id x = rid \<and> vt_voter_user_id x = vp_voter_user_id p \<and>
        vt_idempotency_key x = vp_idempotency_key p) (votes d') = Some ?v"
      using none v by (simp add: d' find_append)
    have f2: "find (\<lambda>x. vt_id x = vt_id ?v) (votes d') = Some ?v"
      using vote_ids.find_inserted [OF ins] by (simp add: d')
    have same: "voter_active u d' = voter_active u ?d" "contestant_allowed i j k d' = contestant_allowed i j k ?d"
      "voting_rounds d' = voting_rounds ?d" for u i j k
      by (simp_all add: d' voter_active_def contestant_allowed_def)
    have "cast_vote_check env q' hdrs rid b d' = Inr (Inl rcp)"
      unfolding cast_vote_check_def Let_def who key bind_result_simps p(4) [symmetric] same f1 option.case f2
      using r1 assms(3-5) act al p v db by (simp add: database_pool_def rcp)
    then show ?thesis using inert by (simp add: cast_vote_def transaction_def)
  qed
qed simp

theorem vote_replay_idempotent_witness:
  "snd (cast_vote flat_env (dq ''i'') (user_headers ''u'') ''a''
      \<lparr>cvq_pageant_contestant_id = ''z'', cvq_idempotency_key = ''k2''\<rparr> demo3) = demo3 \<and>
   cast_vote flat_env (dq ''j'') (user_headers ''u'') ''a'' demo_ballot demo3 = (Inr (200, receipt_of demo_vote), demo3)"
proof -
  have c: "cast_vote flat_env (dq ''c'') (user_headers ''u'') ''a'' demo_ballot (sys_db (demo_sys demo2))
      = (Inr (201, receipt_of demo_vote), demo3)" by (simp add: demo_cast)
  have r: "find (\<lambda>r. vr_id r = ''a'') (voting_rounds (sys_db (demo_sys demo2))) = Some (demo_round Open (Some 5) None)"
    by (simp add: demo2_def demo_round_def)
  show ?thesis
    by (rule vote_replay_idempotent [OF demo_reachable(1) c r]) (simp_all add: demo_round_def dq_def)
qed

section \<open>Rounds\<close>

text \<open>Rounds only move forward and votes are never lost. From a reachable state, whatever requests
  follow, a round keeps its terms (organization, pageant, category, slug, window), its status never goes
  back in the order draft, scheduled, open, closing, closed, anchored, and the votes already recorded
  stay, unchanged and first.\<close>
theorem round_moves_forward:
  assumes "voting_reachable env s" "(voting_step env)\<^sup>*\<^sup>* s s'" "r \<in> set (voting_rounds (sys_db s))"
  shows "(\<exists>r' \<in> set (voting_rounds (sys_db s')). vr_id r' = vr_id r \<and> vr_status r \<le> vr_status r' \<and>
      vr_organization_id r' = vr_organization_id r \<and> vr_pageant_id r' = vr_pageant_id r \<and>
      vr_category_id r' = vr_category_id r \<and> vr_slug r' = vr_slug r \<and>
      vr_opens_at r' = vr_opens_at r \<and> vr_closes_at r' = vr_closes_at r) \<and>
    (\<exists>new. votes (sys_db s') = votes (sys_db s) @ new)"
  using voting_steps [OF assms(1,2)] assms(3) by (auto simp: voting_later_def round_later_def)

theorem round_moves_forward_witness:
  "\<exists>r' \<in> set (voting_rounds demo4). vr_id r' = ''a'' \<and> Open \<le> vr_status r'"
proof -
  have "(voting_step flat_env)\<^sup>*\<^sup>* (demo_sys demo2) (demo_sys demo4)"
    using demo_steps(3,4) by (meson converse_rtranclp_into_rtranclp rtranclp.rtrancl_refl)
  from round_moves_forward [OF demo_reachable(1) this, of "demo_round Open (Some 5) None"]
  show ?thesis by (auto simp: demo2_def demo_round_def)
qed

text \<open>A published tally counts every vote once. In a reachable state, a tally is published only for a
  closed or anchored round, its entries are exactly the contestants of the ballot, each with the number
  of its votes, in descending order of votes, and the total is the number of votes recorded in the
  round.\<close>
theorem tally_counts_every_vote:
  assumes "voting_reachable env s" "get_tally env rid (sys_db s) = Inr t"
  shows "tr_total_votes t = sql_count (\<lambda>v. vt_round_id v = rid) (votes (sys_db s)) \<and>
    (tr_status t = Closed \<or> tr_status t = Anchored) \<and>
    set (map te_pageant_contestant_id (tr_entries t))
      = {c. \<exists>x \<in> set (voting_round_contestants (sys_db s)). rc_round_id x = rid \<and> rc_pageant_contestant_id x = c} \<and>
    distinct (map te_pageant_contestant_id (tr_entries t)) \<and>
    (\<forall>e \<in> set (tr_entries t). te_votes e = sql_count (\<lambda>v. vt_round_id v = rid \<and>
        vt_pageant_contestant_id v = te_pageant_contestant_id e) (votes (sys_db s))) \<and>
    sorted_wrt (\<lambda>a b. te_votes a \<ge> te_votes b) (tr_entries t)"
proof -
  let ?d = "sys_db s"
  let ?k = "\<lambda>(vrc, e). (- te_votes e, rc_sort_order vrc, te_display_name e)"
  from voting_reachable_inv [OF assms(1)] have c: "core_ok ?d" and b: "ballots_ok ?d" by (simp_all add: voting_inv_def)
  from assms(2) have t: "tr_entries t = map snd (sort_key ?k (tally_entries rid ?d))"
    "tr_total_votes t = sum_list (map te_votes (tr_entries t))" "tr_status t = Closed \<or> tr_status t = Anchored"
    by (auto simp: get_tally_def Let_def result_simps)
  have perm: "mset (tr_entries t) = mset (map snd (tally_entries rid ?d))" by (simp add: t(1) mset_map)
  have ids: "map te_pageant_contestant_id (map snd (tally_entries rid ?d))
      = map (\<lambda>e. pc_id (fst (snd e))) (round_entries rid ?d)"
    by (simp add: tally_entries_def case_prod_unfold comp_def)
  have cnt: "te_votes e = sql_count (\<lambda>v. vt_round_id v = rid \<and> vt_pageant_contestant_id v = te_pageant_contestant_id e)
      (votes ?d)" if "e \<in> set (tr_entries t)" for e
  proof -
    from that perm have "e \<in> set (map snd (tally_entries rid ?d))" by (metis set_mset_mset)
    then show ?thesis using entries_round by (fastforce simp: tally_entries_def case_prod_unfold)
  qed
  have "map te_votes (map snd (tally_entries rid ?d)) = map (\<lambda>e. sql_count (\<lambda>v. vt_round_id v = rid \<and>
      vt_pageant_contestant_id v = pc_id (fst (snd e))) (votes ?d)) (round_entries rid ?d)"
    using entries_round by (fastforce simp: tally_entries_def case_prod_unfold comp_def)
  then have "sum_list (map te_votes (map snd (tally_entries rid ?d))) = sql_count (\<lambda>v. vt_round_id v = rid) (votes ?d)"
    using entries_count_votes [OF c b] by simp
  moreover have "sum_list (map te_votes (tr_entries t)) = sum_list (map te_votes (map snd (tally_entries rid ?d)))"
    by (metis mset_map perm sum_mset_sum_list)
  ultimately have total: "tr_total_votes t = sql_count (\<lambda>v. vt_round_id v = rid) (votes ?d)" using t(2) by simp
  have "mset (map te_pageant_contestant_id (tr_entries t))
      = mset (map (\<lambda>e. pc_id (fst (snd e))) (round_entries rid ?d))" by (metis ids mset_map perm)
  then have ks: "set (map te_pageant_contestant_id (tr_entries t)) = set (map (\<lambda>e. pc_id (fst (snd e))) (round_entries rid ?d))"
    "distinct (map te_pageant_contestant_id (tr_entries t))"
    using round_keys(2) [OF c b, of rid] by (metis set_mset_mset, metis mset_eq_imp_distinct_iff)
  have ballot: "set (map te_pageant_contestant_id (tr_entries t))
      = {c. \<exists>x \<in> set (voting_round_contestants ?d). rc_round_id x = rid \<and> rc_pageant_contestant_id x = c}"
    unfolding ks(1) round_keys(1) [OF c b] by auto
  have "sorted_wrt (\<lambda>x y. ?k x \<le> ?k y) (sort_key ?k (tally_entries rid ?d))"
    using sorted_sort_key [of ?k "tally_entries rid ?d"] by (simp only: sorted_wrt_map)
  then have "sorted_wrt (\<lambda>a b. te_votes a \<ge> te_votes b) (tr_entries t)"
    unfolding t(1) sorted_wrt_map by (rule sorted_wrt_mono_rel [rotated]) auto
  with total t(3) ballot ks(2) cnt show ?thesis by blast
qed

theorem tally_counts_every_vote_witness:
  "\<exists>t. get_tally flat_env ''a'' demo4 = Inr t \<and> tr_total_votes t = 1"
proof -
  have "\<exists>t. get_tally flat_env ''a'' demo4 = Inr t"
    by (simp add: get_tally_def demo_db_defs demo_row_defs flat_env_def database_pool_def guard_def Let_def)
  then obtain t where t: "get_tally flat_env ''a'' demo4 = Inr t" ..
  then have "get_tally flat_env ''a'' (sys_db (demo_sys demo4)) = Inr t" by simp
  from tally_counts_every_vote [OF demo_reachable(3) this] t show ?thesis
    by (auto simp: demo_db_defs demo_row_defs sql_count_def)
qed

text \<open>C28: The public listing of the voting rounds of a pageant never shows a round. Its query of the contestants
  names columns that no migration declares, so as soon as a pageant has one round that is not a draft the whole
  listing is answered with a database error; what is left are the answers without such a round.\<close>

theorem public_rounds_unavailable:
  "list_pageant_rounds env pageant_id d =
     (if \<not> database_configured env then Inl (ServiceUnavailable ''database_not_configured'')
      else if \<not> pageant_visible d pageant_id then Inl NotFound
      else if listed_rounds d pageant_id = [] then Inr []
      else Inl Database)"
  by (cases "listed_rounds d pageant_id")
    (simp_all add: list_pageant_rounds_def public_contestants_rejected database_pool_def guard_def)

end
