(* ===== verification/Voting_Chain_Props.thy ===== *)
theory Voting_Chain_Props
  imports Voting_Props
begin

text \<open>
  Properties of snapshots, receipt proofs and anchoring, and the interleaving of a vote with the closing
  of its round.
\<close>

section \<open>Snapshots\<close>

lemma snapshot_votes_count: "int (length (snapshot_votes rid d)) = sql_count (\<lambda>v. vt_round_id v = rid) (votes d)"
  by (simp add: snapshot_votes_def sql_count_def)

lemma snapshot_tally_sum:
  assumes "core_ok d" "ballots_ok d"
  shows "(\<Sum>e \<leftarrow> snapshot_tally rid d. ste_votes e) = sql_count (\<lambda>v. vt_round_id v = rid) (votes d)"
proof -
  let ?g = "\<lambda>e. sql_count (\<lambda>v. vt_round_id v = rid \<and> vt_pageant_contestant_id v = pc_id (fst (snd e))) (votes d)"
  let ?s = "sort_key (\<lambda>(vrc, pc, c). (rc_sort_order vrc, pc_id pc)) (round_entries rid d)"
  have "map ste_votes (snapshot_tally rid d) = map ?g ?s"
    using entries_round by (fastforce simp: snapshot_tally_def case_prod_unfold comp_def)
  then have "(\<Sum>e \<leftarrow> snapshot_tally rid d. ste_votes e) = sum_mset (mset (map ?g ?s))"
    by (simp only: sum_mset_sum_list)
  also have "mset (map ?g ?s) = mset (map ?g (round_entries rid d))" by (simp add: mset_map)
  finally show ?thesis by (simp only: sum_mset_sum_list entries_count_votes [OF assms])
qed

lemma snapshot_tally_nonneg: "e \<in> set (snapshot_tally rid d) \<Longrightarrow> 0 \<le> ste_votes e"
  by (auto simp: snapshot_tally_def sql_count_def)

text \<open>C4: A snapshot can always be computed and is faithful. In a reachable state (with fewer than 2^63
  votes) the counting of a round never fails: neither the overflow nor the tally mismatch error is ever
  returned, the snapshot's total is the number of votes recorded in the round, and its Merkle root is
  the root over the leaf hashes of all of them, in receipt order.\<close>
theorem snapshot_is_faithful:
  assumes "voting_reachable env s" "int (length (votes (sys_db s))) \<le> i64_max"
  shows "\<exists>sn. snapshot_row env q actor r (sys_db s) = Inr sn \<and>
    vs_total_votes sn = sql_count (\<lambda>v. vt_round_id v = vr_id r) (votes (sys_db s)) \<and>
    vs_merkle_root sn = merkle_root env (leaf_hashes env (vr_id r) (snapshot_votes (vr_id r) (sys_db s))) \<and>
    (\<Sum>e \<leftarrow> snapshot_tally (vr_id r) (sys_db s). ste_votes e) = vs_total_votes sn"
proof -
  let ?d = "sys_db s" and ?n = "sql_count (\<lambda>v. vt_round_id v = vr_id r) (votes (sys_db s))"
  from voting_reachable_inv [OF assms(1)] have ok: "core_ok ?d" "ballots_ok ?d" by (simp_all add: voting_inv_def)
  have le: "?n \<le> i64_max"
    unfolding sql_count_def
    by (rule order_trans [OF _ assms(2)]) (simp only: of_nat_le_iff length_filter_le)
  have "0 \<le> ?n" by (simp add: sql_count_def)
  then have c: "checked_i64 ?n = Some ?n" using le int_type_bounds(1) by (auto intro: order_trans)
  have "tally_total_of (snapshot_tally (vr_id r) ?d) = Inr ?n"
    using try_fold_checked_sum [of "snapshot_tally (vr_id r) ?d" ste_votes 0] le snapshot_tally_sum [OF ok]
      snapshot_tally_nonneg
    by (simp add: tally_total_of_def)
  then have "\<exists>sn. snapshot_row env q actor r ?d = Inr sn"
    using c by (simp add: snapshot_row_def Let_def snapshot_votes_count)
  then obtain sn where sn: "snapshot_row env q actor r ?d = Inr sn" ..
  then show ?thesis
    by (rule snapshot_rowE) (use sn snapshot_tally_sum [OF ok] in \<open>auto simp: snapshot_votes_count\<close>)
qed

theorem snapshot_is_faithful_witness:
  "\<exists>sn. snapshot_row flat_env (dq ''e'') ''m'' (demo_round Closed (Some 5) (Some 5)) demo4 = Inr sn \<and>
    vs_total_votes sn = 1"
  using snapshot_is_faithful [OF demo_reachable(3), of "dq ''e''" "''m''" "demo_round Closed (Some 5) (Some 5)"]
  by (auto simp: demo_db_defs demo_row_defs i64_max_def sql_count_def)

lemma leaves_in_order:
  assumes "snapshot_ok env d s"
  shows "snapshot_leaf_hashes (vs_id s) d = map sl_leaf_hash (leaves_of d (vs_id s))"
proof -
  have "sorted (map int [0..<n])" for n
    by (induction n) (auto simp: sorted_append)
  then have "sorted (map sl_leaf_index (leaves_of d (vs_id s)))"
    using assms by (simp only: snapshot_ok_def)
  then have "sort_key sl_leaf_index (leaves_of d (vs_id s)) = leaves_of d (vs_id s)"
    by (rule sort_key_id_if_sorted)
  then show ?thesis by (simp add: snapshot_leaf_hashes_def leaves_of_def)
qed

text \<open>C7: Every vote of a snapshot can be proved. In a reachable state the proof endpoint answers for the
  receipt of every snapshot leaf (however it is spelled), never with the leaf drift or invalid proof
  errors, and the answer verifies against the Merkle root stored in the leaf's snapshot.\<close>
theorem receipt_proof_available:
  assumes "voting_reachable env s" "l \<in> set (voting_snapshot_leaves (sys_db s))" "database_configured env"
    and "validate_hash raw ''invalid_vote_receipt_hash'' = Inr (sl_receipt_hash l)"
  shows "\<exists>p sn. get_receipt_proof env raw (sys_db s) = Inr p \<and> sn \<in> set (voting_snapshots (sys_db s)) \<and>
    vs_id sn = sl_snapshot_id l \<and> rp_snapshot_id p = vs_id sn \<and> rp_merkle_root p = vs_merkle_root sn \<and>
    rp_leaf_hash p = sl_leaf_hash l \<and> rp_receipt_hash p = sl_receipt_hash l \<and>
    verify_proof env (rp_leaf_hash p) (rp_proof p) (rp_merkle_root p)"
proof -
  let ?d = "sys_db s"
  from voting_reachable_inv [OF assms(1)] have S: "snapshots_ok env ?d" by (simp add: voting_inv_def)
  with assms(2) obtain sn where sn: "sn \<in> set (voting_snapshots ?d)" "vs_id sn = sl_snapshot_id l"
    by (auto simp: snapshots_ok_def image_iff)
  let ?ls = "leaves_of ?d (vs_id sn)"
  from S sn(1) have ok: "snapshot_ok env ?d sn" by (simp add: snapshots_ok_def)
  have fl: "find (\<lambda>x. sl_receipt_hash x = sl_receipt_hash l) (voting_snapshot_leaves ?d) = Some l"
    using leaf_receipts.find_key [OF _ assms(2)] S by (simp add: snapshots_ok_def)
  have fs: "load_snapshot (sl_snapshot_id l) ?d = Inr sn"
    using snapshots.find_key [OF _ sn(1)] S sn(2) by (simp add: snapshots_ok_def load_snapshot_def ok_or_Inr)
  from assms(2) sn(2) have "l \<in> set ?ls" by (simp add: leaves_of_def)
  then obtain i where i: "i < length ?ls" "?ls ! i = l" by (auto simp: in_set_conv_nth)
  have "map sl_leaf_index ?ls ! i = int i" using ok i(1) by (simp add: snapshot_ok_def)
  then have idx: "sl_leaf_index l = int i" using i by simp
  have lh: "snapshot_leaf_hashes (sl_snapshot_id l) ?d = map sl_leaf_hash ?ls"
    using leaves_in_order [OF ok] sn(2) by simp
  have root: "vs_merkle_root sn = merkle_root env (map sl_leaf_hash ?ls)" using ok by (simp add: snapshot_ok_def)
  have ne: "?ls \<noteq> []" using i(1) by auto
  have p: "merkle_proof env (map sl_leaf_hash ?ls) i = Inr (proof_loop env (map sl_leaf_hash ?ls) i)"
    using ne i(1) by (simp add: merkle_proof_def)
  have v: "verify_proof env (sl_leaf_hash l) (proof_loop env (map sl_leaf_hash ?ls) i) (vs_merkle_root sn)"
    using proof_loop_verifies [of i "map sl_leaf_hash ?ls" env] i ne
    by (simp add: verify_proof_def root merkle_root_def verify_step)
  have "get_receipt_proof env raw ?d = Inr \<lparr>rp_snapshot_id = vs_id sn, rp_round_id = vs_round_id sn,
      rp_snapshot_status = vs_status sn, rp_receipt_hash = sl_receipt_hash l, rp_leaf_index = sl_leaf_index l,
      rp_leaf_hash = sl_leaf_hash l, rp_merkle_root = vs_merkle_root sn,
      rp_proof = proof_loop env (map sl_leaf_hash ?ls) i\<rparr>"
    unfolding get_receipt_proof_def Let_def assms(4) bind_result_simps fl ok_or_simps fs lh idx nat_int p
    using assms(3) i v by (simp add: database_pool_def)
  with sn v show ?thesis by auto
qed

theorem receipt_proof_available_witness:
  "\<exists>p. get_receipt_proof flat_env flat_hash demo5 = Inr p \<and>
     verify_proof flat_env (rp_leaf_hash p) (rp_proof p) (rp_merkle_root p)"
  using receipt_proof_available [OF demo_reachable(4), of demo_leaf flat_hash]
  by (auto simp: demo5_def demo_after_snapshot_def demo_leaf_def flat_env_def)

section \<open>A vote that arrives too late\<close>

text \<open>C14: Closing a round does not stop a vote that has already passed its checks. The vote handler reads
  the round without a lock, so there is a reachable state in which a round is closed and its snapshot,
  with no votes, has been taken, and yet the votes table holds a vote of the round: the published tally
  reports one vote, the snapshot reports none, and the voter's receipt has no inclusion proof.\<close>
theorem late_vote_misses_snapshot:
  "\<exists>s sn t. voting_reachable flat_env s \<and> sn \<in> set (voting_snapshots (sys_db s)) \<and> vs_round_id sn = ''a'' \<and>
    vs_total_votes sn = 0 \<and> get_tally flat_env ''a'' (sys_db s) = Inr t \<and> tr_total_votes t = 1 \<and>
    (\<exists>v \<in> set (votes (sys_db s)). vt_round_id v = ''a'' \<and>
       get_receipt_proof flat_env (vt_receipt_hash v) (sys_db s) = Inl NotFound)"
proof -
  have "get_tally flat_env ''a'' late6 = Inr \<lparr>tr_round_id = ''a'', tr_status = Closed, tr_total_votes = 1,
      tr_entries = [\<lparr>te_pageant_contestant_id = ''y'', te_display_name = ''Ana'', te_sash = None, te_votes = 1\<rparr>,
        \<lparr>te_pageant_contestant_id = ''z'', te_display_name = ''Bea'', te_sash = None, te_votes = 0\<rparr>]\<rparr>"
    by (simp add: get_tally_def demo_db_defs demo_row_defs flat_env_def database_pool_def guard_def Let_def
        tally_entries_def round_entries_def sql_count_def)
  moreover have "get_receipt_proof flat_env flat_hash late6 = Inl NotFound"
    by (simp add: get_receipt_proof_def demo_db_defs demo_row_defs flat_env_def database_pool_def guard_def)
  moreover have "votes late6 = [demo_vote]"
    "voting_snapshots late6 = [demo_snapshot 0 Snap_created None None None None]"
    by (simp_all add: demo_db_defs)
  ultimately show ?thesis
    by (intro exI [of _ "\<lparr>sys_db = late6, sys_pending = [demo_plan]\<rparr>"])
      (auto simp: late_reachable demo_vote_def demo_snapshot_def)
qed

section \<open>Anchoring\<close>

text \<open>C13: An anchored round is backed by accepted evidence. In a reachable state, a round whose status is
  anchored has a snapshot, a confirmed intent for that snapshot and accepted chain evidence, and root,
  tally hash, vote total, contract and contract round key are the same in all three; the vote total fits
  the contract's u32, and the snapshot names the evidence and its transaction.\<close>
theorem anchored_round_has_evidence:
  assumes "voting_reachable env s" "r \<in> set (voting_rounds (sys_db s))" "vr_status r = Anchored"
  shows "\<exists>i \<in> set (voting_anchor_intents (sys_db s)). \<exists>sn \<in> set (voting_snapshots (sys_db s)).
    \<exists>e \<in> set (voting_anchor_evidence (sys_db s)).
      ai_round_id i = vr_id r \<and> vs_round_id sn = vr_id r \<and> vs_id sn = ai_snapshot_id i \<and>
      ai_status i = Intent_confirmed \<and> vs_status sn = Snap_anchored \<and>
      ae_merkle_root e = vs_merkle_root sn \<and> ae_tally_sha256 e = vs_tally_sha256 sn \<and>
      ae_total_votes e = vs_total_votes sn \<and> ae_contract_id e = ai_contract_id i \<and>
      ae_contract_round_key e = ai_contract_round_key i \<and> ai_submitted_tx_hash i = Some (ae_transaction_hash e) \<and>
      0 \<le> vs_total_votes sn \<and> vs_total_votes sn \<le> 4294967295 \<and>
      vs_anchor_tx_hash sn = Some (ae_transaction_hash e) \<and> vs_accepted_evidence_id sn = Some (ae_id e)"
proof -
  from voting_reachable_inv [OF assms(1)] have A: "anchors_ok (sys_db s)" by (simp add: voting_inv_def)
  with assms(2,3) obtain i where i: "i \<in> set (voting_anchor_intents (sys_db s))" "ai_round_id i = vr_id r"
    "ai_status i = Intent_confirmed" by (auto simp: anchors_ok_def)
  with A obtain sn e where "sn \<in> set (voting_snapshots (sys_db s))" "intent_for i sn"
    "e \<in> set (voting_anchor_evidence (sys_db s))" "confirmed_by i sn e"
    by (fastforce simp: anchors_ok_def intent_state_def)
  with i show ?thesis
    by (intro bexI [of _ i] bexI [of _ sn] bexI [of _ e])
      (auto simp: intent_for_def confirmed_by_def evidence_matches_def)
qed

theorem anchored_round_has_evidence_witness:
  "\<exists>e \<in> set (voting_anchor_evidence demo8). ae_total_votes e = 1"
  using anchored_round_has_evidence [OF demo_reachable(5), of "demo_round Anchored (Some 5) (Some 5)"]
  by (auto simp: demo8_def demo7_def demo_round_def demo_evidence_def)

text \<open>Evidence is accepted once and only when it matches. The worker's evidence is newly accepted (201)
  only for an intent that was submitted with the same transaction hash and whose contract, round key,
  root, tally hash and vote total it repeats exactly; afterwards the intent is confirmed, and the same
  evidence sent again is answered with the stored row and changes nothing.\<close>
theorem anchor_evidence_exact:
  assumes "accept_anchor_evidence env q hdrs iid b d = (Inr (201, e), d')"
  shows "(\<exists>i. find (\<lambda>i. ai_id i = iid) (voting_anchor_intents d) = Some i \<and> ai_status i = Intent_submitted \<and>
      ai_submitted_tx_hash i = Some (ae_transaction_hash e) \<and> ae_merkle_root e = ai_merkle_root i \<and>
      ae_tally_sha256 e = ai_tally_sha256 i \<and> ae_total_votes e = ai_total_votes i \<and>
      ae_contract_id e = ai_contract_id i \<and> ae_contract_round_key e = ai_contract_round_key i) \<and>
    (\<exists>i'. find (\<lambda>i. ai_id i = iid) (voting_anchor_intents d') = Some i' \<and> ai_status i' = Intent_confirmed) \<and>
    load_evidence_tx iid d' = Some e \<and>
    snd (accept_anchor_evidence env q' hdrs iid b d') = d'"
proof -
  from assms have c: "accept_anchor_evidence_tx env q hdrs iid b d = Inr ((201, e), d')"
    by (simp add: accept_anchor_evidence_def transaction_Inr)
  then show ?thesis
  proof (cases rule: accept_anchor_evidence_txE)
    case (new i al)
    have i: "ai_id i = iid" using find_Some_in [OF new(1)] by simp
    have ints: "voting_anchor_intents d' = sql_update (\<lambda>j. ai_id j = ai_id i)
        (\<lambda>i. i\<lparr>ai_status := Intent_confirmed, ai_confirmed_at := Some (ae_accepted_at e), ai_updated_at := sql_now q\<rparr>)
        (voting_anchor_intents d)" and evs: "voting_anchor_evidence d' = voting_anchor_evidence d @ [e]"
      by (simp_all add: new(15) confirm_anchor_def)
    have le: "load_evidence_tx iid d' = Some e"
      using new(2,10) by (simp add: load_evidence_tx_def evs find_append)
    have "find (\<lambda>i. ai_id i = iid) (voting_anchor_intents d') = map_option (\<lambda>r. if ai_id r = ai_id i
        then r\<lparr>ai_status := Intent_confirmed, ai_confirmed_at := Some (ae_accepted_at e), ai_updated_at := sql_now q\<rparr>
        else r) (find (\<lambda>i. ai_id i = iid) (voting_anchor_intents d))"
      unfolding ints by (rule find_sql_update) simp
    then have fi: "\<exists>i'. find (\<lambda>i. ai_id i = iid) (voting_anchor_intents d') = Some i' \<and> ai_status i' = Intent_confirmed"
      using new(1) i by simp
    have "d'' = d'" if "accept_anchor_evidence_tx env q' hdrs iid b d' = Inr (x, d'')" for x d''
    proof -
      obtain st e' where "x = (st, e')" by fastforce
      with that have "accept_anchor_evidence_tx env q' hdrs iid b d' = Inr ((st, e'), d'')" by simp
      then show ?thesis
        by (cases rule: accept_anchor_evidence_txE) (use le in \<open>auto simp: load_evidence_tx_def\<close>)
    qed
    then have "snd (accept_anchor_evidence env q' hdrs iid b d') = d'"
      unfolding accept_anchor_evidence_def by (intro transaction_preserves [where P = "\<lambda>x. x = d'"]) auto
    with new fi le show ?thesis by auto
  qed simp
qed

theorem anchor_evidence_exact_witness:
  "snd (accept_anchor_evidence flat_env (dq ''z'') worker_headers ''f'' demo_evidence_request demo8) = demo8"
proof -
  have "accept_anchor_evidence flat_env (dq ''h'') worker_headers ''f'' demo_evidence_request demo7
      = (Inr (201, demo_evidence), demo8)"
    by (simp add: accept_anchor_evidence_def transaction_def demo_accept)
  from anchor_evidence_exact [OF this] show ?thesis by blast
qed

end
