(* ===== verification/Market_Data.thy ===== *)
theory Market_Data
  imports Api_Store
begin

text \<open>
  The tables of the off-chain prediction market (migrations \<open>202607150002\<close>, \<open>202607170003\<close>,
  \<open>202607170006\<close> and \<open>202607170009\<close>) with their constraints, and the row types of
  \<open>services/api/src/markets.rs\<close>, \<open>market_positions.rs\<close> and \<open>market_settlement.rs\<close>. Statuses are kept
  as text, as the code keeps them. Instants are integers, in microseconds.
\<close>

section \<open>Rows\<close>

record MarketRecord =
  mk_id :: uuid
  mk_organization_id :: uuid
  mk_pageant_id :: "uuid option"
  mk_slug :: string
  mk_question :: string
  mk_description :: "string option"
  mk_status :: string
  mk_network :: string
  mk_asset_code :: string
  mk_asset_scale :: int
  mk_asset_issuer :: "string option"
  mk_fee_bps :: int
  mk_min_stake_minor :: int
  mk_max_stake_minor :: int
  mk_max_user_exposure_minor :: int
  mk_max_market_exposure_minor :: int
  mk_opens_at :: int
  mk_closes_at :: int
  mk_resolution_source :: string
  mk_policy_version :: string
  mk_winning_outcome_id :: "uuid option"
  mk_result_evidence :: json
  mk_created_by_user_id :: uuid
  mk_approved_by_user_id :: "uuid option"
  mk_approved_at :: "int option"
  mk_resolved_by_user_id :: "uuid option"
  mk_resolved_at :: "int option"
  mk_created_at :: int
  mk_updated_at :: int

record OutcomeRecord =
  mo_id :: uuid
  mo_market_id :: uuid
  mo_code :: string
  mo_label :: string
  mo_sort_order :: int
  mo_total_active_minor :: int
  mo_created_at :: int

record PolicyDecisionRecord =
  pd_id :: uuid
  pd_organization_id :: uuid
  pd_market_id :: uuid
  pd_subject_user_id :: "uuid option"
  pd_action :: string
  pd_decision :: string
  pd_reason :: string
  pd_policy_version :: string
  pd_decided_by_user_id :: uuid
  pd_expires_at :: "int option"
  pd_created_at :: int

record StakeIntentRecord =
  si_id :: uuid
  si_organization_id :: uuid
  si_market_id :: uuid
  si_outcome_id :: uuid
  si_user_id :: uuid
  si_stellar_account_id :: uuid
  si_amount_minor :: int
  si_idempotency_key :: string
  si_request_sha256 :: string
  si_status :: string
  si_submitted_tx_hash :: "string option"
  si_expires_at :: int
  si_submitted_at :: "int option"
  si_confirmed_at :: "int option"
  si_rejection_code :: "string option"
  si_created_at :: int
  si_updated_at :: int

record position_row =
  po_id :: uuid
  po_organization_id :: uuid
  po_market_id :: uuid
  po_outcome_id :: uuid
  po_user_id :: uuid
  po_stellar_account_id :: uuid
  po_stake_intent_id :: uuid
  po_amount_minor :: int
  po_status :: string
  po_accepted_evidence_id :: "uuid option"
  po_activated_at :: "int option"
  po_settled_at :: "int option"
  po_created_at :: int
  po_updated_at :: int

record PositionEvidenceRecord =
  pe_id :: uuid
  pe_organization_id :: uuid
  pe_market_id :: uuid
  pe_stake_intent_id :: uuid
  pe_outcome_id :: uuid
  pe_source_stellar_account_id :: uuid
  pe_tx_hash :: string
  pe_ledger_sequence :: int
  pe_contract_event_id :: string
  pe_amount_minor :: int
  pe_evidence_json :: json
  pe_accepted_at :: int
  pe_created_at :: int

record SettlementRunRecord =
  sr_id :: uuid
  sr_organization_id :: uuid
  sr_market_id :: uuid
  sr_kind :: string
  sr_status :: string
  sr_winning_outcome_id :: "uuid option"
  sr_idempotency_key :: string
  sr_total_stake_minor :: int
  sr_fee_minor :: int
  sr_distributable_minor :: int
  sr_total_planned_minor :: int
  sr_requested_by_user_id :: uuid
  sr_failure_code :: "string option"
  sr_created_at :: int
  sr_updated_at :: int

record SettlementItemView =
  st_id :: uuid
  st_settlement_run_id :: uuid
  st_position_id :: uuid
  st_recipient_stellar_account_id :: uuid
  st_principal_minor :: int
  st_payout_minor :: int
  st_status :: string
  st_submitted_tx_hash :: "string option"
  st_accepted_evidence_id :: "uuid option"
  st_confirmed_at :: "int option"
  st_created_at :: int
  st_updated_at :: int

record settlement_evidence_row =
  se_id :: uuid
  se_organization_id :: uuid
  se_settlement_run_id :: uuid
  se_settlement_item_id :: uuid
  se_recipient_stellar_account_id :: uuid
  se_transaction_hash :: string
  se_ledger_sequence :: int
  se_operation_index :: int
  se_event_reference :: string
  se_amount_minor :: int
  se_evidence_json :: json
  se_accepted_at :: int
  se_created_at :: int

record governance_row =
  ge_id :: uuid
  ge_organization_id :: uuid
  ge_market_id :: uuid
  ge_actor_user_id :: uuid
  ge_action :: string
  ge_previous_status :: "string option"
  ge_new_status :: "string option"
  ge_reason :: string
  ge_evidence :: json

record market_db = core_db +
  prediction_markets :: "MarketRecord list"
  market_outcomes :: "OutcomeRecord list"
  policy_decisions :: "PolicyDecisionRecord list"
  stake_intents :: "StakeIntentRecord list"
  market_positions :: "position_row list"
  position_evidence :: "PositionEvidenceRecord list"
  settlement_runs :: "SettlementRunRecord list"
  settlement_items :: "SettlementItemView list"
  settlement_evidence :: "settlement_evidence_row list"
  governance_events :: "governance_row list"

section \<open>Constraints\<close>

definition account_text :: "string \<Rightarrow> bool" where
  "account_text s \<longleftrightarrow> length s = 56 \<and> take 1 s = ''G'' \<and> list_all is_base32_char (drop 1 s)"

definition market_statuses :: "string list" where
  "market_statuses = [''draft'', ''pending_review'', ''approved'', ''open'', ''paused'', ''closed'',
     ''resolution_pending'', ''resolved'', ''cancelled'', ''settling'', ''settled'', ''archived'']"

definition market_check :: "MarketRecord \<Rightarrow> bool" where
  "market_check m \<longleftrightarrow> slug_text (mk_slug m) \<and> text_between 8 500 (mk_question m) \<and>
     List.member market_statuses (mk_status m) \<and> mk_network m = ''testnet'' \<and>
     1 \<le> length (mk_asset_code m) \<and> length (mk_asset_code m) \<le> 12 \<and>
     list_all (\<lambda>c. is_ascii_uppercase c \<or> is_ascii_digit c) (mk_asset_code m) \<and>
     0 \<le> mk_asset_scale m \<and> mk_asset_scale m \<le> 7 \<and> 0 \<le> mk_fee_bps m \<and> mk_fee_bps m \<le> 1000 \<and>
     0 < mk_min_stake_minor m \<and> mk_min_stake_minor m \<le> mk_max_stake_minor m \<and>
     mk_max_stake_minor m \<le> mk_max_user_exposure_minor m \<and>
     mk_max_user_exposure_minor m \<le> mk_max_market_exposure_minor m \<and>
     text_between 8 1000 (mk_resolution_source m) \<and> text_between 1 120 (mk_policy_version m) \<and>
     is_object (mk_result_evidence m) \<and> mk_opens_at m < mk_closes_at m \<and>
     (if mk_asset_code m = ''XLM'' then mk_asset_issuer m = None
      else (case mk_asset_issuer m of None \<Rightarrow> True | Some s \<Rightarrow> account_text s))"

definition market_clash :: "MarketRecord \<Rightarrow> MarketRecord \<Rightarrow> bool" where
  "market_clash a b \<longleftrightarrow> mk_id a = mk_id b \<or>
     (mk_organization_id a = mk_organization_id b \<and> mk_slug a = mk_slug b)"

definition outcome_check :: "OutcomeRecord \<Rightarrow> bool" where
  "outcome_check o' \<longleftrightarrow> 1 \<le> length (mo_code o') \<and> length (mo_code o') \<le> 32 \<and>
     list_all (\<lambda>c. is_ascii_uppercase c \<or> is_ascii_digit c) (take 1 (mo_code o')) \<and>
     list_all (\<lambda>c. is_ascii_uppercase c \<or> is_ascii_digit c \<or> c = CHR ''_'' \<or> c = CHR ''-'') (mo_code o') \<and>
     text_between 1 160 (mo_label o') \<and> 0 \<le> mo_sort_order o' \<and> 0 \<le> mo_total_active_minor o'"

definition outcome_clash :: "OutcomeRecord \<Rightarrow> OutcomeRecord \<Rightarrow> bool" where
  "outcome_clash a b \<longleftrightarrow> mo_id a = mo_id b \<or>
     (mo_market_id a = mo_market_id b \<and> (mo_code a = mo_code b \<or> mo_sort_order a = mo_sort_order b))"

definition policy_check :: "PolicyDecisionRecord \<Rightarrow> bool" where
  "policy_check p \<longleftrightarrow> List.member [''market.open'', ''stake'', ''resolve'', ''settle'', ''refund''] (pd_action p) \<and>
     List.member [''allow'', ''deny'', ''review''] (pd_decision p) \<and> text_between 3 1000 (pd_reason p) \<and>
     text_between 1 120 (pd_policy_version p) \<and> (pd_action p = ''stake'') = (pd_subject_user_id p \<noteq> None)"

definition policy_clash :: "PolicyDecisionRecord \<Rightarrow> PolicyDecisionRecord \<Rightarrow> bool" where
  "policy_clash a b \<longleftrightarrow> pd_id a = pd_id b"

definition stake_intent_check :: "StakeIntentRecord \<Rightarrow> bool" where
  "stake_intent_check i \<longleftrightarrow> 0 < si_amount_minor i \<and> text_between 1 200 (si_idempotency_key i) \<and>
     is_sha256_text (si_request_sha256 i) \<and>
     List.member [''awaiting_signature'', ''signed'', ''submitted'', ''confirmed'', ''rejected'', ''expired'',
       ''cancelled''] (si_status i) \<and>
     (case si_submitted_tx_hash i of None \<Rightarrow> True | Some h \<Rightarrow> is_sha256_text h) \<and>
     si_created_at i < si_expires_at i"

definition stake_intent_clash :: "StakeIntentRecord \<Rightarrow> StakeIntentRecord \<Rightarrow> bool" where
  "stake_intent_clash a b \<longleftrightarrow> si_id a = si_id b \<or>
     (si_organization_id a = si_organization_id b \<and> si_user_id a = si_user_id b \<and>
      si_idempotency_key a = si_idempotency_key b) \<or>
     (si_submitted_tx_hash a \<noteq> None \<and> si_submitted_tx_hash a = si_submitted_tx_hash b)"

definition position_check :: "position_row \<Rightarrow> bool" where
  "position_check p \<longleftrightarrow> 0 < po_amount_minor p \<and>
     List.member [''pending'', ''active'', ''rejected'', ''settled'', ''refunded''] (po_status p)"

definition position_clash :: "position_row \<Rightarrow> position_row \<Rightarrow> bool" where
  "position_clash a b \<longleftrightarrow> po_id a = po_id b"

definition position_evidence_check :: "PositionEvidenceRecord \<Rightarrow> bool" where
  "position_evidence_check e \<longleftrightarrow> is_sha256_text (pe_tx_hash e) \<and> 0 < pe_ledger_sequence e \<and>
     text_between 1 240 (pe_contract_event_id e) \<and> 0 < pe_amount_minor e \<and> is_object (pe_evidence_json e)"

definition position_evidence_clash :: "PositionEvidenceRecord \<Rightarrow> PositionEvidenceRecord \<Rightarrow> bool" where
  "position_evidence_clash a b \<longleftrightarrow> pe_id a = pe_id b \<or> pe_stake_intent_id a = pe_stake_intent_id b \<or>
     pe_tx_hash a = pe_tx_hash b \<or> pe_contract_event_id a = pe_contract_event_id b"

definition settlement_run_check :: "SettlementRunRecord \<Rightarrow> bool" where
  "settlement_run_check r \<longleftrightarrow>
     List.member [''planned'', ''submitting'', ''submitted'', ''confirmed'', ''failed'', ''cancelled''] (sr_status r) \<and>
     text_between 1 200 (sr_idempotency_key r) \<and>
     0 \<le> sr_total_stake_minor r \<and> 0 \<le> sr_fee_minor r \<and> 0 \<le> sr_distributable_minor r \<and>
     0 \<le> sr_total_planned_minor r \<and>
     ((sr_kind r = ''payout'' \<and> sr_winning_outcome_id r \<noteq> None) \<or>
      (sr_kind r = ''refund'' \<and> sr_winning_outcome_id r = None)) \<and>
     sr_distributable_minor r + sr_fee_minor r = sr_total_stake_minor r \<and>
     sr_total_planned_minor r = sr_distributable_minor r"

definition settlement_run_clash :: "SettlementRunRecord \<Rightarrow> SettlementRunRecord \<Rightarrow> bool" where
  "settlement_run_clash a b \<longleftrightarrow> sr_id a = sr_id b \<or>
     (sr_market_id a = sr_market_id b \<and> sr_kind a = sr_kind b \<and> sr_idempotency_key a = sr_idempotency_key b)"

definition settlement_item_check :: "SettlementItemView \<Rightarrow> bool" where
  "settlement_item_check i \<longleftrightarrow> 0 < st_principal_minor i \<and> 0 \<le> st_payout_minor i \<and>
     List.member [''planned'', ''submitted'', ''confirmed'', ''failed''] (st_status i) \<and>
     (case st_submitted_tx_hash i of None \<Rightarrow> True | Some h \<Rightarrow> is_sha256_text h)"

definition settlement_item_clash :: "SettlementItemView \<Rightarrow> SettlementItemView \<Rightarrow> bool" where
  "settlement_item_clash a b \<longleftrightarrow> st_id a = st_id b \<or>
     (st_settlement_run_id a = st_settlement_run_id b \<and> st_position_id a = st_position_id b) \<or>
     (st_submitted_tx_hash a \<noteq> None \<and> st_submitted_tx_hash a = st_submitted_tx_hash b)"

definition settlement_evidence_check :: "settlement_evidence_row \<Rightarrow> bool" where
  "settlement_evidence_check e \<longleftrightarrow> is_sha256_text (se_transaction_hash e) \<and> 0 < se_ledger_sequence e \<and>
     0 \<le> se_operation_index e \<and> text_between 1 240 (se_event_reference e) \<and> 0 \<le> se_amount_minor e \<and>
     is_object (se_evidence_json e)"

definition settlement_evidence_clash :: "settlement_evidence_row \<Rightarrow> settlement_evidence_row \<Rightarrow> bool" where
  "settlement_evidence_clash a b \<longleftrightarrow> se_id a = se_id b \<or> se_settlement_item_id a = se_settlement_item_id b \<or>
     se_event_reference a = se_event_reference b \<or>
     (se_transaction_hash a = se_transaction_hash b \<and> se_operation_index a = se_operation_index b)"

text \<open>Migration \<open>202607170009\<close> restricts the governance actions to this list.\<close>

definition governance_actions :: "string list" where
  "governance_actions = [''created'', ''submitted_for_review'', ''approved'', ''rejected'', ''opened'', ''closed'',
     ''resolved'', ''cancelled'', ''paused'', ''resumed'', ''settlement.plan'', ''settlement.confirmed'',
     ''refund.confirmed'']"

definition governance_check :: "governance_row \<Rightarrow> bool" where
  "governance_check g \<longleftrightarrow> List.member governance_actions (ge_action g) \<and> text_between 3 1000 (ge_reason g) \<and>
     is_object (ge_evidence g)"

definition governance_clash :: "governance_row \<Rightarrow> governance_row \<Rightarrow> bool" where
  "governance_clash a b \<longleftrightarrow> ge_id a = ge_id b"

interpretation mkt: keyed_table mk_id market_clash
  by unfold_locales (simp add: market_clash_def)
interpretation outcome: keyed_table mo_id outcome_clash
  by unfold_locales (simp add: outcome_clash_def)
interpretation pol: keyed_table pd_id policy_clash
  by unfold_locales (simp add: policy_clash_def)
interpretation intent_ids: keyed_table si_id stake_intent_clash
  by unfold_locales (simp add: stake_intent_clash_def)
interpretation intent_keys: keyed_table "\<lambda>i. (si_organization_id i, si_user_id i, si_idempotency_key i)" stake_intent_clash
  by unfold_locales (auto simp: stake_intent_clash_def)
interpretation position_ids: keyed_table po_id position_clash
  by unfold_locales (simp add: position_clash_def)
interpretation evidence_intents: keyed_table pe_stake_intent_id position_evidence_clash
  by unfold_locales (simp add: position_evidence_clash_def)
interpretation evidence_ids: keyed_table pe_id position_evidence_clash
  by unfold_locales (simp add: position_evidence_clash_def)
interpretation run_ids: keyed_table sr_id settlement_run_clash
  by unfold_locales (simp add: settlement_run_clash_def)
interpretation item_ids: keyed_table st_id settlement_item_clash
  by unfold_locales (simp add: settlement_item_clash_def)
interpretation paid_items: keyed_table se_settlement_item_id settlement_evidence_clash
  by unfold_locales (simp add: settlement_evidence_clash_def)

section \<open>Queries\<close>

text \<open>\<open>ORDER BY created_at DESC LIMIT 1\<close>.\<close>

definition sql_latest :: "('r \<Rightarrow> int) \<Rightarrow> ('r \<Rightarrow> bool) \<Rightarrow> 'r list \<Rightarrow> 'r option" where
  "sql_latest created p rows =
     (case sort_key (\<lambda>r. - created r) (filter p rows) of [] \<Rightarrow> None | r # _ \<Rightarrow> Some r)"

lemma sql_latest_Some: "sql_latest created p rows = Some r \<Longrightarrow> r \<in> set rows \<and> p r"
proof -
  assume "sql_latest created p rows = Some r"
  then have "r \<in> set (sort_key (\<lambda>r. - created r) (filter p rows))"
    by (auto simp: sql_latest_def simp del: set_sort split: list.splits)
  then show ?thesis by simp
qed

definition insert_market_audit ::
  "(db_error \<Rightarrow> api_error) \<Rightarrow> uuid \<Rightarrow> uuid \<Rightarrow> uuid option \<Rightarrow> string \<Rightarrow> string \<Rightarrow> uuid \<Rightarrow> json \<Rightarrow>
   market_db \<Rightarrow> api_error + market_db" where
  "insert_market_audit err new_id organization_id actor_user_id action entity_type entity_id metadata d =
     or_db_error err (insert_audit
       \<lparr>al_id = new_id, al_organization_id = Some organization_id, al_actor_user_id = actor_user_id,
        al_action = action, al_entity_type = entity_type, al_entity_id = Some entity_id, al_metadata = metadata\<rparr> d)"

definition insert_governance ::
  "(db_error \<Rightarrow> api_error) \<Rightarrow> governance_row \<Rightarrow> market_db \<Rightarrow> api_error + market_db" where
  "insert_governance err row d =
     map_sum id (\<lambda>rows. d\<lparr>governance_events := rows\<rparr>)
       (or_db_error err (sql_insert governance_check governance_clash row (governance_events d)))"

lemma insert_market_audit_Inr [result_simps]:
  "insert_market_audit err i org actor act ty ent m d = Inr d' \<longleftrightarrow>
     is_object m \<and> (\<forall>r \<in> set (audit_logs d). al_id r \<noteq> i) \<and>
     (\<exists>row. d' = d\<lparr>audit_logs := audit_logs d @ [row]\<rparr> \<and> row = \<lparr>al_id = i, al_organization_id = Some org,
       al_actor_user_id = actor, al_action = act, al_entity_type = ty, al_entity_id = Some ent, al_metadata = m\<rparr>)"
  by (auto simp: insert_market_audit_def result_simps)

lemma insert_governance_Inr [result_simps]:
  "insert_governance err row d = Inr d' \<longleftrightarrow> governance_check row \<and>
     (\<forall>r \<in> set (governance_events d). \<not> governance_clash row r) \<and>
     d' = d\<lparr>governance_events := governance_events d @ [row]\<rparr>"
  by (cases "sql_insert governance_check governance_clash row (governance_events d)")
    (auto simp: insert_governance_def sql_insert_Inr or_db_error_def sql_insert_def list_ex_iff split: if_splits)

end
