(* ===== verification/Markets.thy ===== *)
theory Markets
  imports Market_Data
begin

text \<open>
  The handlers of \<open>services/api/src/markets.rs\<close>: market drafts, policy decisions, status transitions, and
  stake intents. The handlers that write outside a transaction (\<open>expire_intent_if_needed\<close> and the update of
  \<open>record_submission\<close>) keep those writes when they fail later.
\<close>

fun markets_db_error :: "db_error \<Rightarrow> api_error" where
  "markets_db_error Unique_violation = Conflict ''resource_already_exists''"
| "markets_db_error Foreign_key_violation = InvalidRequest ''related_resource_not_found''"
| "markets_db_error Check_violation = InvalidRequest ''database_constraint_failed''"
| "markets_db_error Invalid_text_representation = InvalidRequest ''database_constraint_failed''"
| "markets_db_error Numeric_out_of_range = InvalidRequest ''database_constraint_failed''"
| "markets_db_error Other_database_error = Database"
| "markets_db_error Connection_error = Database"

definition public_market_statuses :: "string list" where
  "public_market_statuses = [''approved'', ''open'', ''paused'', ''closed'', ''resolution_pending'',
     ''resolved'', ''cancelled'', ''settling'', ''settled'', ''archived'']"

definition stake_intent_ttl :: int where
  "stake_intent_ttl = 15 * 60 * 1000000"

section \<open>Requests\<close>

record MarketDetail =
  md_market :: MarketRecord
  md_outcomes :: "OutcomeRecord list"

record OutcomeInput =
  oi_code :: string
  oi_label :: string

record CreateMarketRequest =
  cm_organization_id :: uuid
  cm_pageant_id :: "uuid option"
  cm_slug :: string
  cm_question :: string
  cm_description :: "string option"
  cm_asset_code :: string
  cm_asset_scale :: int
  cm_asset_issuer :: "string option"
  cm_fee_bps :: int
  cm_min_stake_minor :: int
  cm_max_stake_minor :: int
  cm_max_user_exposure_minor :: int
  cm_max_market_exposure_minor :: int
  cm_opens_at :: string
  cm_closes_at :: string
  cm_resolution_source :: string
  cm_policy_version :: string
  cm_outcomes :: "OutcomeInput list"

record PolicyDecisionRequest =
  pdr_subject_user_id :: "uuid option"
  pdr_action :: string
  pdr_decision :: string
  pdr_reason :: string
  pdr_policy_version :: string
  pdr_expires_at :: "string option"

record TransitionMarketRequest =
  tmr_target_status :: string
  tmr_reason :: string
  tmr_winning_outcome_id :: "uuid option"
  tmr_evidence :: json

record CreateStakeIntentRequest =
  csr_outcome_id :: uuid
  csr_wallet_address :: string
  csr_amount_minor :: int

section \<open>Validation\<close>

definition require_server_boundary :: "env \<Rightarrow> headers \<Rightarrow> api_error + unit" where
  "require_server_boundary env hdrs =
     (if web_internal_token env \<noteq> '''' \<and> header_or_default hdrs ''x-crownfi-web-token'' = web_internal_token env
      then Inr ()
      else if take 5 (api_mode env) = ''local'' \<and>
         header_or_default hdrs ''x-admin-demo-token'' = admin_demo_token env
      then Inr () else Inl Unauthorized)"

definition actor_user_id :: "env \<Rightarrow> headers \<Rightarrow> api_error + uuid" where
  "actor_user_id env hdrs =
     (case hdrs ''x-crownfi-user-id'' of None \<Rightarrow> Inl Unauthorized
      | Some value \<Rightarrow> ok_or (parse_uuid env (trim value)) Unauthorized)"

definition idempotency_key_header :: "headers \<Rightarrow> api_error + string" where
  "idempotency_key_header hdrs =
     (case hdrs ''idempotency-key'' of None \<Rightarrow> Inl (InvalidRequest ''idempotency_key_required'')
      | Some value \<Rightarrow> if trim value \<noteq> '''' \<and> length (trim value) \<le> 200 then Inr (trim value)
          else Inl (InvalidRequest ''idempotency_key_required''))"

definition validate_limits :: "CreateMarketRequest \<Rightarrow> api_error + unit" where
  "validate_limits body =
     (if cm_asset_scale body < 0 \<or> cm_asset_scale body > 7 \<or> cm_fee_bps body < 0 \<or> cm_fee_bps body > 1000 \<or>
         cm_min_stake_minor body \<le> 0 \<or> cm_max_stake_minor body < cm_min_stake_minor body \<or>
         cm_max_user_exposure_minor body < cm_max_stake_minor body \<or>
         cm_max_market_exposure_minor body < cm_max_user_exposure_minor body
      then Inl (InvalidRequest ''invalid_market_limits'') else Inr ())"

definition validate_market_address :: "string \<Rightarrow> api_error + string" where
  "validate_market_address value = validate_strkey (CHR ''G'') value ''invalid_stellar_address''"

definition is_ascii_alphanumeric :: "char \<Rightarrow> bool" where
  "is_ascii_alphanumeric c \<longleftrightarrow> is_ascii_digit c \<or> is_ascii_uppercase c \<or> is_ascii_lowercase c"

definition validate_asset :: "string \<Rightarrow> string option \<Rightarrow> api_error + string \<times> string option" where
  "validate_asset asset_code asset_issuer =
     (let asset_code = to_ascii_uppercase (trim asset_code) in
      if asset_code = '''' \<or> length asset_code > 12 \<or> \<not> list_all is_ascii_alphanumeric asset_code
        then Inl (InvalidRequest ''invalid_asset_code'')
      else if asset_code = ''XLM'' then
        (if (case asset_issuer of None \<Rightarrow> False | Some value \<Rightarrow> trim value \<noteq> '''')
         then Inl (InvalidRequest ''xlm_must_not_have_issuer'') else Inr (asset_code, None))
      else
        bind_result (ok_or asset_issuer (InvalidRequest ''asset_issuer_required'')) (\<lambda>issuer.
        bind_result (validate_market_address issuer) (\<lambda>issuer. Inr (asset_code, Some issuer))))"

definition validate_text :: "string \<Rightarrow> nat \<Rightarrow> nat \<Rightarrow> string \<Rightarrow> api_error + string" where
  "validate_text value lo hi error =
     (let value = trim value in
      if lo \<le> char_length value \<and> char_length value \<le> hi then Inr value else Inl (InvalidRequest error))"

definition market_optional_text :: "string option \<Rightarrow> nat \<Rightarrow> string \<Rightarrow> api_error + string option" where
  "market_optional_text value hi error =
     (case map_option trim value of
        None \<Rightarrow> Inr None
      | Some value \<Rightarrow> if value = '''' then Inr None
          else if char_length value \<le> hi then Inr (Some value) else Inl (InvalidRequest error))"

definition market_slug :: "string \<Rightarrow> api_error + string" where
  "market_slug value =
     (let value = to_ascii_lowercase (trim value);
          valid = (value \<noteq> '''' \<and> length value \<le> 120 \<and> take 1 value \<noteq> ''-'' \<and> last value \<noteq> CHR ''-'' \<and>
            \<not> list_ex (\<lambda>i. take 2 (drop i value) = ''--'') [0 ..< length value] \<and>
            list_all (\<lambda>c. is_ascii_lowercase c \<or> is_ascii_digit c \<or> c = CHR ''-'') value)
      in if valid then Inr value else Inl (InvalidRequest ''invalid_market_slug''))"

definition outcome_code_valid :: "string \<Rightarrow> bool" where
  "outcome_code_valid code \<longleftrightarrow> code \<noteq> '''' \<and> length code \<le> 32 \<and>
     list_all (\<lambda>c. is_ascii_uppercase c \<or> is_ascii_digit c \<or> c = CHR ''_'' \<or> c = CHR ''-'') code \<and>
     list_all (\<lambda>c. is_ascii_uppercase c \<or> is_ascii_digit c) (take 1 code)"

fun validate_outcome_list ::
  "string list \<Rightarrow> OutcomeInput list \<Rightarrow> api_error + (string \<times> string) list" where
  "validate_outcome_list codes [] = Inr []"
| "validate_outcome_list codes (outcome # rest) =
     (let code = to_ascii_uppercase (trim (oi_code outcome)) in
      if \<not> outcome_code_valid code then Inl (InvalidRequest ''invalid_market_outcome_code'')
      else if List.member codes code then Inl (InvalidRequest ''duplicate_market_outcome_code'')
      else
      bind_result (validate_text (oi_label outcome) 1 160 ''invalid_market_outcome_label'') (\<lambda>label.
      bind_result (validate_outcome_list (code # codes) rest) (\<lambda>result.
      Inr ((code, label) # result))))"

definition validate_outcomes :: "OutcomeInput list \<Rightarrow> api_error + (string \<times> string) list" where
  "validate_outcomes outcomes =
     (if \<not> (2 \<le> length outcomes \<and> length outcomes \<le> 32)
      then Inl (InvalidRequest ''market_requires_two_to_thirty_two_outcomes'')
      else validate_outcome_list [] outcomes)"

definition validate_policy_action :: "string \<Rightarrow> api_error + string" where
  "validate_policy_action value =
     (let value = to_ascii_lowercase (trim value) in
      if List.member [''market.open'', ''stake'', ''resolve'', ''settle'', ''refund''] value then Inr value
      else Inl (InvalidRequest ''invalid_policy_action''))"

definition validate_policy_decision :: "string \<Rightarrow> api_error + string" where
  "validate_policy_decision value =
     (let value = to_ascii_lowercase (trim value) in
      if List.member [''allow'', ''deny'', ''review''] value then Inr value
      else Inl (InvalidRequest ''invalid_policy_decision''))"

definition valid_transition :: "string \<Rightarrow> string \<Rightarrow> bool" where
  "valid_transition current target \<longleftrightarrow> List.member
     [(''draft'', ''pending_review''), (''pending_review'', ''approved''), (''pending_review'', ''cancelled''),
      (''approved'', ''open''), (''approved'', ''cancelled''), (''open'', ''paused''), (''open'', ''closed''),
      (''open'', ''cancelled''), (''paused'', ''open''), (''paused'', ''closed''), (''paused'', ''cancelled''),
      (''closed'', ''resolution_pending''), (''closed'', ''cancelled''), (''resolution_pending'', ''resolved''),
      (''resolution_pending'', ''cancelled''), (''resolved'', ''settling''), (''settling'', ''settled''),
      (''settled'', ''archived''), (''cancelled'', ''archived'')] (current, target)"

fun join_bar :: "string list \<Rightarrow> string" where
  "join_bar [] = ''''"
| "join_bar [p] = p"
| "join_bar (p # q # ps) = p @ ''|'' @ join_bar (q # ps)"

definition hash_parts :: "env \<Rightarrow> string list \<Rightarrow> string" where
  "hash_parts env parts = sha256_hex env (join_bar parts)"

section \<open>Reads\<close>

definition is_site_administrator :: "uuid \<Rightarrow> market_db \<Rightarrow> bool" where
  "is_site_administrator user d =
     list_ex (\<lambda>a. ad_user_id a = user \<and> ad_status a = ''active'') (site_administrators d)"

definition require_site_administrator :: "uuid \<Rightarrow> market_db \<Rightarrow> api_error + unit" where
  "require_site_administrator user d = (if is_site_administrator user d then Inr () else Inl Forbidden)"

definition require_market_editor :: "uuid \<Rightarrow> uuid \<Rightarrow> market_db \<Rightarrow> api_error + unit" where
  "require_market_editor org user d =
     (if is_site_administrator user d \<or> member_role org user [''owner'', ''admin'', ''editor''] d
      then Inr () else Inl Forbidden)"

definition fetch_market_record :: "uuid \<Rightarrow> market_db \<Rightarrow> api_error + MarketRecord" where
  "fetch_market_record market_id d = ok_or (find (\<lambda>m. mk_id m = market_id) (prediction_markets d)) NotFound"

definition fetch_outcomes :: "uuid \<Rightarrow> market_db \<Rightarrow> OutcomeRecord list" where
  "fetch_outcomes market_id d =
     sort_key (\<lambda>o'. (mo_sort_order o', mo_id o')) (filter (\<lambda>o'. mo_market_id o' = market_id) (market_outcomes d))"

definition fetch_market_detail :: "uuid \<Rightarrow> bool \<Rightarrow> market_db \<Rightarrow> api_error + MarketDetail" where
  "fetch_market_detail market_id public_only d =
     bind_result (fetch_market_record market_id d) (\<lambda>market.
     if public_only \<and> \<not> List.member public_market_statuses (mk_status market) then Inl NotFound
     else Inr \<lparr>md_market = market, md_outcomes = fetch_outcomes market_id d\<rparr>)"

definition fetch_stake_intent :: "uuid \<Rightarrow> market_db \<Rightarrow> api_error + StakeIntentRecord" where
  "fetch_stake_intent intent_id d = ok_or (find (\<lambda>i. si_id i = intent_id) (stake_intents d)) NotFound"

definition require_intent_access :: "StakeIntentRecord \<Rightarrow> uuid \<Rightarrow> market_db \<Rightarrow> api_error + unit" where
  "require_intent_access intent actor d =
     (if si_user_id intent = actor \<or> is_site_administrator actor d then Inr () else Inl Forbidden)"

definition require_outcome :: "uuid \<Rightarrow> uuid \<Rightarrow> market_db \<Rightarrow> api_error + unit" where
  "require_outcome market_id outcome_id d =
     (if list_ex (\<lambda>o'. mo_market_id o' = market_id \<and> mo_id o' = outcome_id) (market_outcomes d)
      then Inr () else Inl (InvalidRequest ''market_outcome_not_found''))"

text \<open>The latest unexpired decision, by creation time and then id.\<close>

definition current_decision :: "int \<Rightarrow> uuid \<Rightarrow> uuid option \<Rightarrow> string \<Rightarrow> market_db \<Rightarrow> string option" where
  "current_decision now market_id subject action d =
     (case rev (sort_key (\<lambda>p. (pd_created_at p, pd_id p)) (filter (\<lambda>p. pd_market_id p = market_id \<and>
         pd_action p = action \<and> pd_subject_user_id p = subject \<and>
         (case pd_expires_at p of None \<Rightarrow> True | Some t \<Rightarrow> t > now)) (policy_decisions d))) of
        [] \<Rightarrow> None | p # _ \<Rightarrow> Some (pd_decision p))"

definition require_policy_allow :: "int \<Rightarrow> uuid \<Rightarrow> uuid option \<Rightarrow> string \<Rightarrow> market_db \<Rightarrow> api_error + unit" where
  "require_policy_allow now market_id subject action d =
     (if current_decision now market_id subject action d = Some ''allow'' then Inr () else Inl Forbidden)"

definition exposure_where ::
  "int \<Rightarrow> (position_row \<Rightarrow> bool) \<Rightarrow> (StakeIntentRecord \<Rightarrow> bool) \<Rightarrow> market_db \<Rightarrow> db_error + int" where
  "exposure_where now pp pi d =
     bind_result (sql_bigint (sql_sum po_amount_minor
         (\<lambda>p. pp p \<and> (po_status p = ''pending'' \<or> po_status p = ''active'')) (market_positions d))) (\<lambda>held.
     bind_result (sql_bigint (sql_sum si_amount_minor
         (\<lambda>i. pi i \<and> List.member [''awaiting_signature'', ''signed'', ''submitted''] (si_status i) \<and>
            si_expires_at i > now) (stake_intents d))) (\<lambda>pending.
     sql_bigint (held + pending)))"

definition current_user_exposure :: "int \<Rightarrow> uuid \<Rightarrow> uuid \<Rightarrow> market_db \<Rightarrow> db_error + int" where
  "current_user_exposure now market_id user d =
     exposure_where now (\<lambda>p. po_market_id p = market_id \<and> po_user_id p = user)
       (\<lambda>i. si_market_id i = market_id \<and> si_user_id i = user) d"

definition current_market_exposure :: "int \<Rightarrow> uuid \<Rightarrow> market_db \<Rightarrow> db_error + int" where
  "current_market_exposure now market_id d =
     exposure_where now (\<lambda>p. po_market_id p = market_id) (\<lambda>i. si_market_id i = market_id) d"

definition list_markets :: "env \<Rightarrow> market_db \<Rightarrow> api_error + MarketDetail list" where
  "list_markets env d =
     bind_result (database_pool env) (\<lambda>_.
     let rank = (\<lambda>s. if s = ''open'' then 0 else if s = ''approved'' then 1 else if s = ''paused'' then 2 else 3 :: nat);
         records = sort_key (\<lambda>m. (rank (mk_status m), mk_closes_at m, - mk_created_at m))
           (filter (\<lambda>m. List.member public_market_statuses (mk_status m)) (prediction_markets d))
     in Inr (map (\<lambda>m. \<lparr>md_market = m, md_outcomes = fetch_outcomes (mk_id m) d\<rparr>) records))"

definition get_market :: "env \<Rightarrow> uuid \<Rightarrow> market_db \<Rightarrow> api_error + MarketDetail" where
  "get_market env market_id d = bind_result (database_pool env) (\<lambda>_. fetch_market_detail market_id True d)"

section \<open>Drafts\<close>

fun insert_outcomes ::
  "draws \<Rightarrow> uuid \<Rightarrow> nat \<Rightarrow> (string \<times> string) list \<Rightarrow> OutcomeRecord list \<Rightarrow> api_error + OutcomeRecord list" where
  "insert_outcomes q market_id n [] rows = Inr rows"
| "insert_outcomes q market_id n (outcome # rest) rows =
     bind_result (guard (int n \<le> 2147483647) (InvalidRequest ''too_many_outcomes'')) (\<lambda>_.
     bind_result (or_db_error markets_db_error (sql_insert outcome_check outcome_clash
       \<lparr>mo_id = new_uuid q (n + 1), mo_market_id = market_id, mo_code = fst outcome, mo_label = snd outcome,
        mo_sort_order = int n, mo_total_active_minor = 0, mo_created_at = sql_now q\<rparr> rows)) (\<lambda>rows.
     insert_outcomes q market_id (n + 1) rest rows))"

definition draft_market ::
  "draws \<Rightarrow> uuid \<Rightarrow> CreateMarketRequest \<Rightarrow> string \<Rightarrow> string \<Rightarrow> string option \<Rightarrow> string \<Rightarrow> string \<Rightarrow> int \<Rightarrow> int \<Rightarrow>
   string \<times> string option \<Rightarrow> MarketRecord" where
  "draft_market q actor body slug question description resolution_source policy_version opens_at closes_at asset =
     \<lparr>mk_id = new_uuid q 0, mk_organization_id = cm_organization_id body, mk_pageant_id = cm_pageant_id body,
      mk_slug = slug, mk_question = question, mk_description = description, mk_status = ''draft'',
      mk_network = ''testnet'', mk_asset_code = fst asset, mk_asset_scale = cm_asset_scale body,
      mk_asset_issuer = snd asset, mk_fee_bps = cm_fee_bps body, mk_min_stake_minor = cm_min_stake_minor body,
      mk_max_stake_minor = cm_max_stake_minor body,
      mk_max_user_exposure_minor = cm_max_user_exposure_minor body,
      mk_max_market_exposure_minor = cm_max_market_exposure_minor body, mk_opens_at = opens_at,
      mk_closes_at = closes_at, mk_resolution_source = resolution_source, mk_policy_version = policy_version,
      mk_winning_outcome_id = None, mk_result_evidence = JObj [], mk_created_by_user_id = actor,
      mk_approved_by_user_id = None, mk_approved_at = None, mk_resolved_by_user_id = None,
      mk_resolved_at = None, mk_created_at = sql_now q, mk_updated_at = sql_now q\<rparr>"

definition market_governance_event ::
  "uuid \<Rightarrow> uuid \<Rightarrow> uuid \<Rightarrow> uuid \<Rightarrow> string \<Rightarrow> string option \<Rightarrow> string option \<Rightarrow> string \<Rightarrow> json \<Rightarrow> market_db \<Rightarrow>
   api_error + market_db" where
  "market_governance_event new_id organization_id market_id actor action previous_status new_status reason evidence d =
     insert_governance markets_db_error
       \<lparr>ge_id = new_id, ge_organization_id = organization_id, ge_market_id = market_id,
        ge_actor_user_id = actor, ge_action = action, ge_previous_status = previous_status,
        ge_new_status = new_status, ge_reason = reason, ge_evidence = evidence\<rparr> d"

definition market_audit :: "uuid \<Rightarrow> uuid \<Rightarrow> uuid \<Rightarrow> string \<Rightarrow> uuid \<Rightarrow> json \<Rightarrow> market_db \<Rightarrow> api_error + market_db" where
  "market_audit new_id organization_id actor action market_id metadata d =
     insert_market_audit markets_db_error new_id organization_id (Some actor) action ''prediction_market'' market_id
       metadata d"

definition create_market_tx ::
  "env \<Rightarrow> draws \<Rightarrow> headers \<Rightarrow> CreateMarketRequest \<Rightarrow> market_db \<Rightarrow> api_error + uuid \<times> market_db" where
  "create_market_tx env q hdrs body d =
     bind_result (actor_user_id env hdrs) (\<lambda>actor.
     bind_result (database_pool env) (\<lambda>_.
     bind_result (require_market_editor (cm_organization_id body) actor d) (\<lambda>_.
     bind_result (validate_limits body) (\<lambda>_.
     bind_result (market_slug (cm_slug body)) (\<lambda>slug.
     bind_result (validate_text (cm_question body) 8 500 ''invalid_market_question'') (\<lambda>question.
     bind_result (market_optional_text (cm_description body) 4000 ''invalid_market_description'') (\<lambda>description.
     bind_result (validate_text (cm_resolution_source body) 8 1000 ''invalid_resolution_source'') (\<lambda>source.
     bind_result (validate_text (cm_policy_version body) 1 120 ''invalid_policy_version'') (\<lambda>policy_version.
     bind_result (parse_timestamp env (cm_opens_at body) ''invalid_opens_at'') (\<lambda>opens_at.
     bind_result (parse_timestamp env (cm_closes_at body) ''invalid_closes_at'') (\<lambda>closes_at.
     if closes_at \<le> opens_at then Inl (InvalidRequest ''market_close_must_follow_open'')
     else if closes_at \<le> now_utc q 0 then Inl (InvalidRequest ''market_close_must_be_future'')
     else
     bind_result (validate_asset (cm_asset_code body) (cm_asset_issuer body)) (\<lambda>asset.
     bind_result (validate_outcomes (cm_outcomes body)) (\<lambda>outcomes.
     bind_result (case cm_pageant_id body of None \<Rightarrow> Inr ()
        | Some pageant_id \<Rightarrow> guard (list_ex (\<lambda>p. pg_id p = pageant_id \<and>
            pg_organization_id p = cm_organization_id body) (pageants d))
            (InvalidRequest ''pageant_organization_mismatch'')) (\<lambda>_.
     bind_result (or_db_error markets_db_error (sql_insert market_check market_clash
         (draft_market q actor body slug question description source policy_version opens_at closes_at asset)
         (prediction_markets d))) (\<lambda>rows.
     bind_result (insert_outcomes q (new_uuid q 0) 0 outcomes (market_outcomes d)) (\<lambda>outcome_rows.
     bind_result (market_governance_event (new_uuid q (length outcomes + 1)) (cm_organization_id body)
         (new_uuid q 0) actor ''market.create'' None (Some ''draft'') ''Market draft created for policy review.''
         (JObj [(''policy_version'', JStr policy_version)])
         (d\<lparr>prediction_markets := rows, market_outcomes := outcome_rows\<rparr>)) (\<lambda>d.
     bind_result (market_audit (new_uuid q (length outcomes + 2)) (cm_organization_id body) actor
         ''prediction_market.create'' (new_uuid q 0)
         (JObj [(''slug'', JStr slug), (''outcome_count'', JInt (int (length outcomes))),
            (''network'', JStr ''testnet'')]) d) (\<lambda>d.
     Inr (new_uuid q 0, d)))))))))))))))))))"

definition create_market ::
  "env \<Rightarrow> draws \<Rightarrow> headers \<Rightarrow> CreateMarketRequest \<Rightarrow> market_db \<Rightarrow> (api_error + nat \<times> MarketDetail) \<times> market_db" where
  "create_market env q hdrs body d =
     then_read (transaction (create_market_tx env q hdrs body) d)
       (\<lambda>market_id d. map_sum id (Pair 201) (fetch_market_detail market_id False d))"

section \<open>Policy decisions\<close>

definition optional_expiry :: "env \<Rightarrow> string option \<Rightarrow> api_error + int option" where
  "optional_expiry env value =
     (case value of None \<Rightarrow> Inr None
      | Some v \<Rightarrow> map_sum id Some (parse_timestamp env v ''invalid_policy_expiry''))"

definition record_policy_decision_tx ::
  "env \<Rightarrow> draws \<Rightarrow> headers \<Rightarrow> uuid \<Rightarrow> PolicyDecisionRequest \<Rightarrow> market_db \<Rightarrow>
   api_error + (nat \<times> PolicyDecisionRecord) \<times> market_db" where
  "record_policy_decision_tx env q hdrs market_id body d =
     bind_result (actor_user_id env hdrs) (\<lambda>actor.
     bind_result (database_pool env) (\<lambda>_.
     bind_result (require_site_administrator actor d) (\<lambda>_.
     bind_result (fetch_market_record market_id d) (\<lambda>market.
     bind_result (validate_policy_action (pdr_action body)) (\<lambda>action.
     bind_result (validate_policy_decision (pdr_decision body)) (\<lambda>decision.
     bind_result (validate_text (pdr_reason body) 3 1000 ''invalid_policy_reason'') (\<lambda>reason.
     bind_result (validate_text (pdr_policy_version body) 1 120 ''invalid_policy_version'') (\<lambda>policy_version.
     bind_result (optional_expiry env (pdr_expires_at body)) (\<lambda>expires_at.
     if (case expires_at of None \<Rightarrow> False | Some expiry \<Rightarrow> expiry \<le> now_utc q 0)
       then Inl (InvalidRequest ''policy_expiry_must_be_future'')
     else if (action = ''stake'') \<noteq> (pdr_subject_user_id body \<noteq> None)
       then Inl (InvalidRequest ''policy_subject_mismatch'')
     else if (case pdr_subject_user_id body of None \<Rightarrow> False
        | Some subject \<Rightarrow> \<not> list_ex (\<lambda>u. us_id u = subject \<and> us_status u = ''active'') (users d))
       then Inl (InvalidRequest ''policy_subject_not_found'')
     else
     let record_a = \<lparr>pd_id = new_uuid q 0, pd_organization_id = mk_organization_id market,
           pd_market_id = market_id, pd_subject_user_id = pdr_subject_user_id body, pd_action = action,
           pd_decision = decision, pd_reason = reason, pd_policy_version = policy_version,
           pd_decided_by_user_id = actor, pd_expires_at = expires_at, pd_created_at = sql_now q\<rparr> in
     bind_result (or_db_error markets_db_error (sql_insert policy_check policy_clash record_a (policy_decisions d)))
       (\<lambda>rows.
     bind_result (market_audit (new_uuid q 1) (mk_organization_id market) actor ''prediction_market.policy_decide''
         market_id (JObj [(''action'', JStr action), (''decision'', JStr decision),
            (''subject_user_id'', case pdr_subject_user_id body of None \<Rightarrow> JNull | Some u \<Rightarrow> JStr u),
            (''policy_version'', JStr policy_version)]) (d\<lparr>policy_decisions := rows\<rparr>)) (\<lambda>d.
     Inr ((201, record_a), d))))))))))))"

definition record_policy_decision ::
  "env \<Rightarrow> draws \<Rightarrow> headers \<Rightarrow> uuid \<Rightarrow> PolicyDecisionRequest \<Rightarrow> market_db \<Rightarrow>
   (api_error + nat \<times> PolicyDecisionRecord) \<times> market_db" where
  "record_policy_decision env q hdrs market_id body d =
     transaction (record_policy_decision_tx env q hdrs market_id body) d"

section \<open>Transitions\<close>

definition transition_guard ::
  "draws \<Rightarrow> MarketRecord \<Rightarrow> string \<Rightarrow> TransitionMarketRequest \<Rightarrow> market_db \<Rightarrow> api_error + unit" where
  "transition_guard q market target body d =
     (let now = now_utc q 0; market_id = mk_id market in
      if target = ''open'' then
        (if now < mk_opens_at market \<or> now \<ge> mk_closes_at market
           then Inl (Conflict ''market_outside_open_window'')
         else require_policy_allow (sql_now q) market_id None ''market.open'' d)
      else if target = ''resolution_pending'' then
        (if now < mk_closes_at market then Inl (Conflict ''market_still_open'')
         else require_policy_allow (sql_now q) market_id None ''resolve'' d)
      else if target = ''resolved'' then
        bind_result (require_policy_allow (sql_now q) market_id None ''resolve'' d) (\<lambda>_.
        bind_result (ok_or (tmr_winning_outcome_id body) (InvalidRequest ''winning_outcome_required'')) (\<lambda>outcome_id.
        bind_result (require_outcome market_id outcome_id d) (\<lambda>_.
        if \<not> is_object (tmr_evidence body) \<or> tmr_evidence body = JObj []
          then Inl (InvalidRequest ''resolution_evidence_required'') else Inr ())))
      else if target = ''settling'' then require_policy_allow (sql_now q) market_id None ''settle'' d
      else Inr ())"

definition apply_transition ::
  "draws \<Rightarrow> uuid \<Rightarrow> string \<Rightarrow> uuid option \<Rightarrow> json \<Rightarrow> MarketRecord \<Rightarrow> MarketRecord" where
  "apply_transition q actor target winner evidence m =
     (let decided = (target = ''resolved'' \<or> target = ''cancelled'') in
      m\<lparr>mk_status := target,
        mk_winning_outcome_id := (if target = ''resolved'' then winner else mk_winning_outcome_id m),
        mk_result_evidence := (if decided then evidence else mk_result_evidence m),
        mk_approved_by_user_id := (if target = ''approved'' then Some actor else mk_approved_by_user_id m),
        mk_approved_at := (if target = ''approved'' then Some (sql_now q) else mk_approved_at m),
        mk_resolved_by_user_id := (if decided then Some actor else mk_resolved_by_user_id m),
        mk_resolved_at := (if decided then Some (sql_now q) else mk_resolved_at m),
        mk_updated_at := sql_now q\<rparr>)"

definition transition_market_tx ::
  "env \<Rightarrow> draws \<Rightarrow> headers \<Rightarrow> uuid \<Rightarrow> TransitionMarketRequest \<Rightarrow> market_db \<Rightarrow> api_error + unit \<times> market_db" where
  "transition_market_tx env q hdrs market_id body d =
     bind_result (actor_user_id env hdrs) (\<lambda>actor.
     bind_result (database_pool env) (\<lambda>_.
     bind_result (fetch_market_record market_id d) (\<lambda>market.
     let target = to_ascii_lowercase (trim (tmr_target_status body)) in
     bind_result (validate_text (tmr_reason body) 3 1000 ''invalid_transition_reason'') (\<lambda>reason.
     bind_result (if target = ''pending_review'' then require_market_editor (mk_organization_id market) actor d
          else require_site_administrator actor d) (\<lambda>_.
     if \<not> valid_transition (mk_status market) target then Inl (Conflict ''invalid_market_transition'')
     else
     bind_result (transition_guard q market target body d) (\<lambda>_.
     bind_result (if tmr_evidence body = JNull then Inr (JObj [])
          else if is_object (tmr_evidence body) then Inr (tmr_evidence body)
          else Inl (InvalidRequest ''transition_evidence_must_be_object'')) (\<lambda>evidence.
     bind_result (market_governance_event (new_uuid q 0) (mk_organization_id market) market_id actor
         ''market.transition'' (Some (mk_status market)) (Some target) reason evidence
         (d\<lparr>prediction_markets := sql_update (\<lambda>m. mk_id m = market_id)
            (apply_transition q actor target (tmr_winning_outcome_id body) evidence) (prediction_markets d)\<rparr>)) (\<lambda>d.
     bind_result (market_audit (new_uuid q 1) (mk_organization_id market) actor ''prediction_market.transition''
         market_id (JObj [(''from'', JStr (mk_status market)), (''to'', JStr target), (''reason'', JStr reason)]) d)
       (\<lambda>d. Inr ((), d))))))))))"

definition transition_market ::
  "env \<Rightarrow> draws \<Rightarrow> headers \<Rightarrow> uuid \<Rightarrow> TransitionMarketRequest \<Rightarrow> market_db \<Rightarrow> (api_error + MarketDetail) \<times> market_db" where
  "transition_market env q hdrs market_id body d =
     then_read (transaction (transition_market_tx env q hdrs market_id body) d)
       (\<lambda>_ d. fetch_market_detail market_id False d)"

section \<open>Stake intents\<close>

text \<open>The part of \<open>create_stake_intent\<close> after its checks of the request: the exposure limits and the insert.\<close>

definition insert_stake_intent ::
  "draws \<Rightarrow> MarketRecord \<Rightarrow> uuid \<Rightarrow> stellar_account_row \<Rightarrow> uuid \<Rightarrow> int \<Rightarrow> string \<Rightarrow> string \<Rightarrow> string \<Rightarrow> market_db \<Rightarrow>
   api_error + (nat \<times> StakeIntentRecord) \<times> market_db" where
  "insert_stake_intent q market user_id account outcome_id amount key wallet request_sha256 d =
     (let market_id = mk_id market; now = now_utc q 0 in
     bind_result (or_db_error markets_db_error (current_user_exposure (sql_now q) market_id user_id d))
       (\<lambda>user_exposure.
     bind_result (ok_or (checked_i64 (user_exposure + amount)) (InvalidRequest ''exposure_overflow''))
       (\<lambda>next_user_exposure.
     if next_user_exposure > mk_max_user_exposure_minor market
       then Inl (Conflict ''user_exposure_limit_exceeded'')
     else
     bind_result (or_db_error markets_db_error (current_market_exposure (sql_now q) market_id d))
       (\<lambda>market_exposure.
     bind_result (ok_or (checked_i64 (market_exposure + amount)) (InvalidRequest ''exposure_overflow''))
       (\<lambda>next_market_exposure.
     if next_market_exposure > mk_max_market_exposure_minor market
       then Inl (Conflict ''market_exposure_limit_exceeded'')
     else
     let intent = \<lparr>si_id = new_uuid q 0, si_organization_id = mk_organization_id market,
           si_market_id = market_id, si_outcome_id = outcome_id, si_user_id = user_id,
           si_stellar_account_id = sa_id account, si_amount_minor = amount, si_idempotency_key = key,
           si_request_sha256 = request_sha256, si_status = ''awaiting_signature'',
           si_submitted_tx_hash = None,
           si_expires_at = (if now + stake_intent_ttl < mk_closes_at market then now + stake_intent_ttl
              else mk_closes_at market),
           si_submitted_at = None, si_confirmed_at = None, si_rejection_code = None,
           si_created_at = sql_now q, si_updated_at = sql_now q\<rparr> in
     bind_result (or_db_error markets_db_error (sql_insert stake_intent_check stake_intent_clash intent
         (stake_intents d))) (\<lambda>rows.
     bind_result (market_audit (new_uuid q 1) (mk_organization_id market) user_id
         ''prediction_market.stake_intent_create'' market_id
         (JObj [(''intent_id'', JStr (new_uuid q 0)), (''outcome_id'', JStr outcome_id),
            (''amount_minor'', JInt amount), (''wallet_suffix'', JStr (drop (length wallet - 6) wallet)),
            (''network'', JStr ''testnet'')]) (d\<lparr>stake_intents := rows\<rparr>)) (\<lambda>d.
     Inr ((201, intent), d))))))))"

definition create_stake_intent_tx ::
  "env \<Rightarrow> draws \<Rightarrow> headers \<Rightarrow> uuid \<Rightarrow> CreateStakeIntentRequest \<Rightarrow> market_db \<Rightarrow>
   api_error + (nat \<times> StakeIntentRecord) \<times> market_db" where
  "create_stake_intent_tx env q hdrs market_id body d =
     bind_result (require_server_boundary env hdrs) (\<lambda>_.
     bind_result (actor_user_id env hdrs) (\<lambda>user_id.
     bind_result (database_pool env) (\<lambda>_.
     bind_result (fetch_market_record market_id d) (\<lambda>market.
     bind_result (idempotency_key_header hdrs) (\<lambda>key.
     let now = now_utc q 0; amount = csr_amount_minor body in
     if mk_status market \<noteq> ''open'' then Inl (Conflict ''market_not_open'')
     else if now < mk_opens_at market \<or> now \<ge> mk_closes_at market then Inl (Conflict ''market_closed'')
     else if amount < mk_min_stake_minor market \<or> amount > mk_max_stake_minor market
       then Inl (InvalidRequest ''stake_amount_outside_limits'')
     else
     bind_result (require_outcome market_id (csr_outcome_id body) d) (\<lambda>_.
     bind_result (require_policy_allow (sql_now q) market_id (Some user_id) ''stake'' d) (\<lambda>_.
     bind_result (validate_market_address (csr_wallet_address body)) (\<lambda>wallet.
     bind_result (ok_or (find (\<lambda>a. sa_user_id a = user_id \<and> sa_network a = ''testnet'' \<and> sa_address a = wallet \<and>
         sa_verified_at a \<noteq> None) (stellar_accounts d)) Forbidden) (\<lambda>account.
     let request_sha256 = hash_parts env [market_id, csr_outcome_id body, user_id, wallet, decimal amount] in
     case find (\<lambda>i. si_organization_id i = mk_organization_id market \<and> si_user_id i = user_id \<and>
         si_idempotency_key i = key) (stake_intents d) of
       Some existing \<Rightarrow>
         if si_request_sha256 existing = request_sha256 then Inr ((200, existing), d)
         else Inl (Conflict ''idempotency_key_reused_with_changed_request'')
     | None \<Rightarrow>
         insert_stake_intent q market user_id account (csr_outcome_id body) amount key wallet request_sha256 d)))))))))"

definition create_stake_intent ::
  "env \<Rightarrow> draws \<Rightarrow> headers \<Rightarrow> uuid \<Rightarrow> CreateStakeIntentRequest \<Rightarrow> market_db \<Rightarrow>
   (api_error + nat \<times> StakeIntentRecord) \<times> market_db" where
  "create_stake_intent env q hdrs market_id body d =
     transaction (create_stake_intent_tx env q hdrs market_id body) d"

definition expire_intent_if_needed :: "int \<Rightarrow> uuid \<Rightarrow> market_db \<Rightarrow> market_db" where
  "expire_intent_if_needed now intent_id d =
     d\<lparr>stake_intents := sql_update (\<lambda>i. si_id i = intent_id \<and>
         (si_status i = ''awaiting_signature'' \<or> si_status i = ''signed'') \<and> si_expires_at i \<le> now)
       (\<lambda>i. i\<lparr>si_status := ''expired'', si_updated_at := now\<rparr>) (stake_intents d)\<rparr>"

definition intent_for_actor :: "uuid \<Rightarrow> uuid \<Rightarrow> market_db \<Rightarrow> api_error + StakeIntentRecord" where
  "intent_for_actor actor intent_id d =
     bind_result (fetch_stake_intent intent_id d) (\<lambda>intent.
     bind_result (require_intent_access intent actor d) (\<lambda>_. Inr intent))"

definition intent_caller :: "env \<Rightarrow> headers \<Rightarrow> api_error + uuid" where
  "intent_caller env hdrs =
     bind_result (require_server_boundary env hdrs) (\<lambda>_.
     bind_result (actor_user_id env hdrs) (\<lambda>actor.
     bind_result (database_pool env) (\<lambda>_. Inr actor)))"

definition get_market_intent ::
  "env \<Rightarrow> draws \<Rightarrow> headers \<Rightarrow> uuid \<Rightarrow> market_db \<Rightarrow> (api_error + StakeIntentRecord) \<times> market_db" where
  "get_market_intent env q hdrs intent_id d =
     (case intent_caller env hdrs of
        Inl error \<Rightarrow> (Inl error, d)
      | Inr actor \<Rightarrow>
          let d = expire_intent_if_needed (sql_now q) intent_id d
          in (intent_for_actor actor intent_id d, d))"

definition submit_intent ::
  "draws \<Rightarrow> uuid \<Rightarrow> string \<Rightarrow> StakeIntentRecord \<Rightarrow> market_db \<Rightarrow> (api_error + StakeIntentRecord) \<times> market_db" where
  "submit_intent q intent_id raw_hash intent d =
     (if si_status intent = ''expired'' then (Inl (Conflict ''stake_intent_expired''), d)
      else if \<not> List.member [''awaiting_signature'', ''signed'', ''submitted''] (si_status intent)
        then (Inl (Conflict ''stake_intent_not_submittable''), d)
      else case validate_hash raw_hash ''invalid_transaction_hash'' of
        Inl error \<Rightarrow> (Inl error, d)
      | Inr hash \<Rightarrow>
          (case si_submitted_tx_hash intent of
             Some existing \<Rightarrow>
               (if existing = hash then Inr intent else Inl (Conflict ''stake_intent_already_submitted''), d)
           | None \<Rightarrow>
               (case sql_update_unique stake_intent_clash (\<lambda>i. si_id i = intent_id)
                  (\<lambda>i. i\<lparr>si_status := ''submitted'', si_submitted_tx_hash := Some hash,
                         si_submitted_at := Some (sql_now q), si_updated_at := sql_now q\<rparr>) (stake_intents d) of
                  Inl error \<Rightarrow> (Inl (markets_db_error error), d)
                | Inr rows \<Rightarrow> (fetch_stake_intent intent_id (d\<lparr>stake_intents := rows\<rparr>), d\<lparr>stake_intents := rows\<rparr>))))"

definition record_submission ::
  "env \<Rightarrow> draws \<Rightarrow> headers \<Rightarrow> uuid \<Rightarrow> string \<Rightarrow> market_db \<Rightarrow> (api_error + StakeIntentRecord) \<times> market_db" where
  "record_submission env q hdrs intent_id tx_hash d =
     (case intent_caller env hdrs of
        Inl error \<Rightarrow> (Inl error, d)
      | Inr actor \<Rightarrow>
          let d = expire_intent_if_needed (sql_now q) intent_id d
          in case intent_for_actor actor intent_id d of
               Inl error \<Rightarrow> (Inl error, d)
             | Inr intent \<Rightarrow> submit_intent q intent_id tx_hash intent d)"

end
