(* ===== verification/Settlement_Plan.thy ===== *)
theory Settlement_Plan
  imports Market_Data "HOL-Library.Multiset"
begin

text \<open>
  The arithmetic of \<open>create_settlement_plan\<close> in \<open>services/api/src/market_positions.rs\<close>: the totals, the
  fee, the pro-rata shares of the winners with the remainder handed out one unit at a time, and the
  refunds of a cancelled market. A product of two \<open>i64\<close> values always fits \<open>i128\<close>, so the products are
  written without a check; every narrowing back to \<open>i64\<close> is checked.
\<close>

record ActivePosition =
  ap_position_id :: uuid
  ap_outcome_id :: uuid
  ap_amount_minor :: int
  ap_stellar_account_id :: uuid

record settlement_plan =
  pl_winning_outcome_id :: "uuid option"
  pl_total_stake_minor :: int
  pl_fee_minor :: int
  pl_distributable_minor :: int
  pl_total_planned_minor :: int
  pl_rows :: "(ActivePosition \<times> int) list"

definition amount_overflow :: api_error where
  "amount_overflow = InvalidRequest ''market_settlement_amount_overflow''"

definition total_of :: "('a \<Rightarrow> int) \<Rightarrow> 'a list \<Rightarrow> api_error + int" where
  "total_of g xs = try_fold (\<lambda>total x. ok_or (checked_i64 (total + g x)) amount_overflow) 0 xs"

definition settlement_fee :: "string \<Rightarrow> int \<Rightarrow> int \<Rightarrow> api_error + int" where
  "settlement_fee kind total_stake_minor fee_bps =
     (if kind = ''payout'' then ok_or (checked_i64 ((total_stake_minor * fee_bps) sdiv 10000)) amount_overflow
      else Inr 0)"

text \<open>The shares of the winners, rounded down, and their sum.\<close>

fun allocate :: "int \<Rightarrow> int \<Rightarrow> ActivePosition list \<Rightarrow> int \<Rightarrow> api_error + (ActivePosition \<times> int) list \<times> int" where
  "allocate distributable winning_stake [] allocated = Inr ([], allocated)"
| "allocate distributable winning_stake (position # rest) allocated =
     bind_result (ok_or (checked_i64 ((ap_amount_minor position * distributable) sdiv winning_stake))
         amount_overflow) (\<lambda>payout.
     bind_result (ok_or (checked_i64 (allocated + payout)) amount_overflow) (\<lambda>allocated.
     bind_result (allocate distributable winning_stake rest allocated) (\<lambda>r.
     Inr ((position, payout) # fst r, snd r))))"

definition bump :: "ActivePosition \<times> int \<Rightarrow> ActivePosition \<times> int" where
  "bump row = (fst row, snd row + 1)"

function spread :: "int \<Rightarrow> nat \<Rightarrow> (ActivePosition \<times> int) list \<Rightarrow> (ActivePosition \<times> int) list" where
  "spread remainder index rows =
     (if remainder > 0
      then spread (remainder - 1) ((index + 1) mod length rows) (rows[index := bump (rows ! index)])
      else rows)"
  by pat_completeness auto
termination
  by (relation "measure (\<lambda>(remainder, index, rows). nat remainder)") auto

declare spread.simps [simp del]

definition payout_rows :: "uuid \<Rightarrow> int \<Rightarrow> ActivePosition list \<Rightarrow> api_error + (ActivePosition \<times> int) list" where
  "payout_rows winner distributable positions =
     (let winners = filter (\<lambda>p. ap_outcome_id p = winner) positions in
      if winners = [] then Inl (Conflict ''market_has_no_winning_positions'')
      else
      bind_result (total_of ap_amount_minor winners) (\<lambda>winning_stake.
      bind_result (allocate distributable winning_stake winners 0) (\<lambda>r.
      Inr (spread (distributable - snd r) 0 (fst r)))))"

definition plan_settlement ::
  "string \<Rightarrow> uuid option \<Rightarrow> int \<Rightarrow> ActivePosition list \<Rightarrow> api_error + settlement_plan" where
  "plan_settlement kind market_winning_outcome_id fee_bps positions =
     (if positions = [] then Inl (Conflict ''market_has_no_active_positions'')
      else
      bind_result (total_of ap_amount_minor positions) (\<lambda>total_stake_minor.
      bind_result (if kind = ''payout''
          then map_sum id Some (ok_or market_winning_outcome_id (Conflict ''market_winning_outcome_missing''))
          else Inr None) (\<lambda>winning_outcome_id.
      bind_result (settlement_fee kind total_stake_minor fee_bps) (\<lambda>fee_minor.
      bind_result (ok_or (checked_i64 (total_stake_minor - fee_minor)) amount_overflow) (\<lambda>distributable_minor.
      bind_result (case winning_outcome_id of
            Some winner \<Rightarrow> payout_rows winner distributable_minor positions
          | None \<Rightarrow> Inr (map (\<lambda>p. (p, ap_amount_minor p)) positions)) (\<lambda>rows.
      let planned = sort_key (\<lambda>r. ap_position_id (fst r)) rows in
      bind_result (total_of snd planned) (\<lambda>total_planned_minor.
      if total_planned_minor \<noteq> distributable_minor
        then Inl (Conflict ''market_settlement_conservation_failed'')
      else Inr \<lparr>pl_winning_outcome_id = winning_outcome_id, pl_total_stake_minor = total_stake_minor,
         pl_fee_minor = fee_minor, pl_distributable_minor = distributable_minor,
         pl_total_planned_minor = total_planned_minor, pl_rows = planned\<rparr>)))))))"

section \<open>Totals\<close>

definition amount_sum :: "ActivePosition list \<Rightarrow> int" where
  "amount_sum xs = (\<Sum>p \<leftarrow> xs. ap_amount_minor p)"

definition share :: "int \<Rightarrow> int \<Rightarrow> ActivePosition \<Rightarrow> int" where
  "share distributable winning_stake p = (ap_amount_minor p * distributable) div winning_stake"

lemma total_of_ok:
  assumes "\<And>x. x \<in> set xs \<Longrightarrow> 0 \<le> g x" "(\<Sum>x \<leftarrow> xs. g x) \<le> i64_max"
  shows "total_of g xs = Inr (\<Sum>x \<leftarrow> xs. g x)"
  using try_fold_checked_sum [of xs g 0] assms by (simp add: total_of_def)

lemma total_of_Inr: "total_of g xs = Inr t \<Longrightarrow> t = (\<Sum>x \<leftarrow> xs. g x)"
  unfolding total_of_def by (drule try_fold_checked_sum_Inr) simp

lemma sum_list_le_member:
  fixes g :: "'a \<Rightarrow> int"
  assumes "x \<in> set xs" "\<And>y. y \<in> set xs \<Longrightarrow> 0 \<le> g y"
  shows "g x \<le> (\<Sum>y \<leftarrow> xs. g y)"
  using assms
proof (induction xs)
  case (Cons z zs)
  then have "0 \<le> (\<Sum>y \<leftarrow> zs. g y)" by (intro sum_list_nonneg) auto
  with Cons show ?case by (cases "x = z") fastforce+
qed simp

lemma filter_sum_le:
  fixes g :: "'a \<Rightarrow> int"
  assumes "\<And>y. y \<in> set xs \<Longrightarrow> 0 \<le> g y"
  shows "(\<Sum>y \<leftarrow> filter P xs. g y) \<le> (\<Sum>y \<leftarrow> xs. g y)"
  using assms by (induction xs) (auto simp: add_increasing)

lemma sum_list_update_int:
  fixes xs :: "int list"
  shows "k < length xs \<Longrightarrow> sum_list (xs[k := x]) = sum_list xs + x - xs ! k"
  by (induction xs arbitrary: k) (auto split: nat.splits)

section \<open>The shares\<close>

lemma share_sum_le:
  assumes "0 < W" "0 \<le> D" "\<And>p. p \<in> set ps \<Longrightarrow> 0 < ap_amount_minor p"
  shows "(\<Sum>p \<leftarrow> ps. share D W p) * W \<le> amount_sum ps * D"
  using assms(3)
proof (induction ps)
  case (Cons p ps)
  have "share D W p * W \<le> ap_amount_minor p * D"
    using floor_share_le [OF assms(1)] by (simp add: share_def)
  with Cons show ?case by (simp add: amount_sum_def algebra_simps)
qed (simp add: amount_sum_def)

lemma share_sum_ge:
  assumes "0 < W" "ps \<noteq> []"
  shows "amount_sum ps * D < ((\<Sum>p \<leftarrow> ps. share D W p) + int (length ps)) * W"
  using assms(2)
proof (induction ps rule: list_nonempty_induct)
  case (single p)
  have "ap_amount_minor p * D < (share D W p + 1) * W"
    using assms(1) by (simp add: share_def) (metis add.commute div_mult_mod_eq distrib_right mult_1 pos_mod_bound add_strict_left_mono mult.commute)
  then show ?case by (simp add: amount_sum_def)
next
  case (cons p ps)
  have "ap_amount_minor p * D < (share D W p + 1) * W"
    using assms(1) by (simp add: share_def) (metis add.commute div_mult_mod_eq distrib_right mult_1 pos_mod_bound add_strict_left_mono mult.commute)
  with cons.IH show ?case by (simp add: amount_sum_def algebra_simps)
qed

lemma remainder_bounds:
  assumes "ps \<noteq> []" "\<And>p. p \<in> set ps \<Longrightarrow> 0 < ap_amount_minor p" "0 \<le> D"
  shows "(\<Sum>p \<leftarrow> ps. share D (amount_sum ps) p) \<le> D"
    and "D - (\<Sum>p \<leftarrow> ps. share D (amount_sum ps) p) < int (length ps)"
proof -
  let ?W = "amount_sum ps" and ?S = "\<Sum>p \<leftarrow> ps. share D (amount_sum ps) p"
  obtain p where p: "p \<in> set ps" using assms(1) by (cases ps) auto
  have "ap_amount_minor p \<le> ?W"
    unfolding amount_sum_def using assms(2) p by (intro sum_list_le_member) (auto intro: less_imp_le)
  then have W: "0 < ?W" using assms(2) [OF p] by simp
  have "?S * ?W \<le> D * ?W" using share_sum_le [OF W assms(3,2)] by (simp add: mult.commute)
  then show "?S \<le> D" using W by simp
  have "D * ?W < (?S + int (length ps)) * ?W"
    using share_sum_ge [OF W assms(1), of D] by (simp add: mult.commute)
  then show "D - ?S < int (length ps)" using W by simp
qed

lemma share_nonneg: "0 < ap_amount_minor p \<Longrightarrow> 0 \<le> D \<Longrightarrow> 0 < W \<Longrightarrow> 0 \<le> share D W p"
  by (simp add: share_def pos_imp_zdiv_nonneg_iff)

lemma allocate_ok:
  assumes "0 < W" "0 \<le> D" "\<And>p. p \<in> set ps \<Longrightarrow> 0 < ap_amount_minor p" "0 \<le> acc"
    "acc + (\<Sum>p \<leftarrow> ps. share D W p) \<le> i64_max"
  shows "allocate D W ps acc = Inr (map (\<lambda>p. (p, share D W p)) ps, acc + (\<Sum>p \<leftarrow> ps. share D W p))"
  using assms(3-5)
proof (induction ps arbitrary: acc)
  case (Cons p ps)
  have p: "0 \<le> share D W p" using Cons.prems(1) assms(1,2) by (intro share_nonneg) auto
  have "0 \<le> (\<Sum>p \<leftarrow> ps. share D W p)"
    using Cons.prems(1) assms(1,2) by (intro sum_list_nonneg) (auto intro: share_nonneg)
  with Cons.prems(2,3) p have le: "share D W p \<le> i64_max" "acc + share D W p \<le> i64_max" by simp_all
  have s: "(ap_amount_minor p * D) sdiv W = share D W p"
    using Cons.prems(1) [of p] assms(1,2) by (simp add: share_def)
  have c: "checked_i64 (share D W p) = Some (share D W p)" "checked_i64 (acc + share D W p) = Some (acc + share D W p)"
    using le p Cons.prems(2) int_type_bounds(1) by (auto intro: order_trans)
  have "allocate D W ps (acc + share D W p)
      = Inr (map (\<lambda>p. (p, share D W p)) ps, acc + share D W p + (\<Sum>p \<leftarrow> ps. share D W p))"
    by (rule Cons.IH) (use Cons.prems p in auto)
  then show ?case by (simp add: s c add.assoc)
qed simp

section \<open>The remainder\<close>

lemma length_spread [simp]: "length (spread r i rows) = length rows"
  by (induction r i rows rule: spread.induct) (subst spread.simps, auto)

text \<open>The loop visits the rows from \<open>index\<close> on, one unit each; as long as there are as many rows left as
  units, no row is visited twice.\<close>

lemma spread_nth:
  assumes "int index + r \<le> int (length rows)" "j < length rows"
  shows "spread r index rows ! j =
    (if index \<le> j \<and> int j < int index + r then bump (rows ! j) else rows ! j)"
  using assms
proof (induction r index rows rule: spread.induct)
  case (1 r index rows)
  show ?case
  proof (cases "0 < r")
    case True
    then have idx: "index < length rows" using "1.prems"(1) by simp
    let ?rows = "rows[index := bump (rows ! index)]"
    have step: "spread r index rows = spread (r - 1) ((index + 1) mod length rows) ?rows"
      using True by (subst spread.simps) simp
    show ?thesis
    proof (cases "index + 1 = length rows")
      case last: True
      then have "r = 1" using True "1.prems"(1) by simp
      then have "spread r index rows = ?rows" using step by (simp add: spread.simps)
      moreover have "index \<le> j \<longleftrightarrow> index = j" using "1.prems"(2) last by auto
      ultimately show ?thesis using \<open>r = 1\<close> "1.prems"(2) by (auto simp: nth_list_update)
    next
      case False
      then have m: "Suc index mod length rows = Suc index" using idx by simp
      have "spread (r - 1) (index + 1) ?rows ! j =
          (if index + 1 \<le> j \<and> int j < int (index + 1) + (r - 1) then bump (?rows ! j) else ?rows ! j)"
        using "1.IH" [OF True] "1.prems" m by simp
      then show ?thesis using True idx "1.prems"(2) by (auto simp: step m nth_list_update)
    qed
  next
    case False
    then have "spread r index rows = rows" by (subst spread.simps) simp
    with False show ?thesis by auto
  qed
qed

lemma spread_sum:
  assumes "index < length rows" "0 \<le> r"
  shows "(\<Sum>x \<leftarrow> spread r index rows. snd x) = (\<Sum>x \<leftarrow> rows. snd x) + r"
  using assms
proof (induction r index rows rule: spread.induct)
  case (1 r index rows)
  show ?case
  proof (cases "0 < r")
    case True
    let ?rows = "rows[index := bump (rows ! index)]"
    have "(\<Sum>x \<leftarrow> spread r index rows. snd x) = (\<Sum>x \<leftarrow> ?rows. snd x) + (r - 1)"
      using "1.IH" [OF True] "1.prems" True
      by (subst spread.simps) (simp add: mod_less_divisor [OF order_le_less_trans [OF le0 "1.prems"(1)]])
    also have "(\<Sum>x \<leftarrow> ?rows. snd x) = (\<Sum>x \<leftarrow> rows. snd x) + 1"
      using "1.prems"(1) by (simp add: map_update sum_list_update_int bump_def)
    finally show ?thesis by simp
  next
    case False
    with "1.prems" show ?thesis by (subst spread.simps) simp
  qed
qed

lemma payout_rows_ok:
  assumes "ws = filter (\<lambda>p. ap_outcome_id p = winner) ps" "ws \<noteq> []"
    "\<And>p. p \<in> set ps \<Longrightarrow> 0 < ap_amount_minor p" "amount_sum ps \<le> i64_max" "0 \<le> D" "D \<le> i64_max"
  shows "\<exists>rows. payout_rows winner D ps = Inr rows \<and> map fst rows = ws \<and> (\<Sum>r \<leftarrow> rows. snd r) = D \<and>
    (\<forall>r \<in> set rows. share D (amount_sum ws) (fst r) \<le> snd r \<and> snd r \<le> share D (amount_sum ws) (fst r) + 1)"
proof -
  let ?W = "amount_sum ws" and ?S = "\<Sum>p \<leftarrow> ws. share D (amount_sum ws) p"
  let ?base = "map (\<lambda>p. (p, share D ?W p)) ws"
  let ?rows = "spread (D - ?S) 0 ?base"
  have pos: "\<And>p. p \<in> set ws \<Longrightarrow> 0 < ap_amount_minor p" using assms(1,3) by simp
  note b = remainder_bounds [OF assms(2) pos assms(5)]
  obtain p where p: "p \<in> set ws" using assms(2) by (cases ws) auto
  have "ap_amount_minor p \<le> ?W"
    unfolding amount_sum_def using pos p by (intro sum_list_le_member) (auto intro: less_imp_le)
  then have W: "0 < ?W" using pos [OF p] by simp
  have "?W \<le> amount_sum ps"
    unfolding amount_sum_def assms(1) using assms(3) by (intro filter_sum_le) (auto intro: less_imp_le)
  then have t: "total_of ap_amount_minor ws = Inr ?W"
    unfolding amount_sum_def using assms(4) pos by (intro total_of_ok) (auto simp: amount_sum_def intro: less_imp_le)
  have a: "allocate D ?W ws 0 = Inr (?base, ?S)"
    using allocate_ok [OF W assms(5) pos, of ws 0] b(1) assms(6) by simp
  have r: "payout_rows winner D ps = Inr ?rows"
    using assms(2) by (simp add: payout_rows_def Let_def assms(1) [symmetric] t a)
  have n: "?rows ! j = (if int j < D - ?S then bump (?base ! j) else ?base ! j)" if "j < length ws" for j
    using spread_nth [of 0 "D - ?S" ?base j] b that by auto
  have "map fst ?rows ! j = ws ! j" if "j < length ws" for j
    using n [OF that] that by (simp add: bump_def)
  then have "map fst ?rows = ws" by (intro nth_equalityI) simp_all
  moreover have "(\<Sum>r \<leftarrow> ?rows. snd r) = D"
    using spread_sum [of 0 ?base "D - ?S"] b(1) assms(2) by (simp add: comp_def)
  moreover have "\<forall>r \<in> set ?rows. share D ?W (fst r) \<le> snd r \<and> snd r \<le> share D ?W (fst r) + 1"
    by (auto simp: in_set_conv_nth n bump_def split: if_splits)
  ultimately show ?thesis using r by blast
qed

section \<open>The plan\<close>

lemma sort_rows_sum: "(\<Sum>r \<leftarrow> sort_key k rows. g r) = (\<Sum>r \<leftarrow> rows. (g r :: int))"
proof -
  have "(\<Sum>r \<leftarrow> sort_key k rows. g r) = sum_mset (mset (map g (sort_key k rows)))" by (simp only: sum_mset_sum_list)
  also have "mset (map g (sort_key k rows)) = mset (map g rows)" by (simp add: mset_map)
  finally show ?thesis by (simp only: sum_mset_sum_list)
qed

lemma fee_bounds:
  assumes "0 \<le> T" "0 \<le> f" "f \<le> 10000"
  shows "0 \<le> T * f div 10000" "T * f div 10000 \<le> (T::int)"
proof -
  show "0 \<le> T * f div 10000" using assms by (simp add: pos_imp_zdiv_nonneg_iff)
  have "T * f \<le> T * 10000" using assms by (intro mult_left_mono) auto
  then have "T * f div 10000 \<le> T * 10000 div 10000" by (intro zdiv_mono1) simp_all
  then show "T * f div 10000 \<le> T" by simp
qed

lemma plan_total_ok:
  assumes "ps \<noteq> []" "\<And>p. p \<in> set ps \<Longrightarrow> 0 < ap_amount_minor p" "amount_sum ps \<le> i64_max"
  shows "total_of ap_amount_minor ps = Inr (amount_sum ps)" "0 \<le> amount_sum ps"
proof -
  have nn: "\<And>p. p \<in> set ps \<Longrightarrow> 0 \<le> ap_amount_minor p" using assms(2) by (auto intro: less_imp_le)
  then show "total_of ap_amount_minor ps = Inr (amount_sum ps)"
    using assms(3) unfolding amount_sum_def by (intro total_of_ok)
  show "0 \<le> amount_sum ps" unfolding amount_sum_def using nn by (intro sum_list_nonneg) auto
qed

lemma plan_payout_ok:
  assumes "ps \<noteq> []" "\<And>p. p \<in> set ps \<Longrightarrow> 0 < ap_amount_minor p" "amount_sum ps \<le> i64_max"
    "0 \<le> fee_bps" "fee_bps \<le> 10000" "ws = filter (\<lambda>p. ap_outcome_id p = winner) ps" "ws \<noteq> []"
    "fee = amount_sum ps * fee_bps div 10000" "D = amount_sum ps - fee"
  shows "\<exists>rows. plan_settlement ''payout'' (Some winner) fee_bps ps = Inr \<lparr>pl_winning_outcome_id = Some winner,
      pl_total_stake_minor = amount_sum ps, pl_fee_minor = fee, pl_distributable_minor = D,
      pl_total_planned_minor = D, pl_rows = rows\<rparr> \<and>
    mset (map fst rows) = mset ws \<and> (\<Sum>r \<leftarrow> rows. snd r) = D \<and>
    (\<forall>r \<in> set rows. share D (amount_sum ws) (fst r) \<le> snd r \<and> snd r \<le> share D (amount_sum ws) (fst r) + 1)"
proof -
  note T = plan_total_ok [OF assms(1-3)]
  note F = fee_bounds [OF T(2) assms(4,5)]
  have D: "0 \<le> D" "D \<le> i64_max" and f: "0 \<le> fee" "fee \<le> i64_max"
    using F assms(3,8,9) by auto
  have s: "(amount_sum ps * fee_bps) sdiv 10000 = fee" using T(2) assms(4,8) by simp
  have c: "checked_i64 fee = Some fee" "checked_i64 D = Some D"
    using D f int_type_bounds(1) by (auto intro: order_trans)
  from payout_rows_ok [OF assms(6,7,2,3) D] obtain rows where
    rows: "payout_rows winner D ps = Inr rows" "map fst rows = ws" "(\<Sum>r \<leftarrow> rows. snd r) = D"
      "\<forall>r \<in> set rows. share D (amount_sum ws) (fst r) \<le> snd r \<and> snd r \<le> share D (amount_sum ws) (fst r) + 1" by blast
  let ?sorted = "sort_key (\<lambda>r. ap_position_id (fst r)) rows"
  have W: "0 < amount_sum ws"
  proof -
    obtain p where p: "p \<in> set ws" using assms(7) by (cases ws) auto
    have "ap_amount_minor p \<le> amount_sum ws"
      unfolding amount_sum_def using assms(2,6) p by (intro sum_list_le_member) (auto intro: less_imp_le)
    with assms(2,6) p show ?thesis by fastforce
  qed
  have nn: "0 \<le> snd r" if "r \<in> set rows" for r
  proof -
    have "fst r \<in> set ws" using that rows(2) by auto
    then have "0 \<le> share D (amount_sum ws) (fst r)" using assms(2,6) D(1) W by (intro share_nonneg) auto
    with rows(4) that show ?thesis by fastforce
  qed
  have t: "total_of snd ?sorted = Inr D"
    using total_of_ok [of ?sorted snd] nn D(2) rows(3) by (simp add: sort_rows_sum)
  have "plan_settlement ''payout'' (Some winner) fee_bps ps = Inr \<lparr>pl_winning_outcome_id = Some winner,
      pl_total_stake_minor = amount_sum ps, pl_fee_minor = fee, pl_distributable_minor = D,
      pl_total_planned_minor = D, pl_rows = ?sorted\<rparr>"
    using assms(1) by (simp add: plan_settlement_def T(1) settlement_fee_def s c assms(9) [symmetric] rows(1) t Let_def)
  moreover have "mset (map fst ?sorted) = mset ws" using rows(2) by (simp add: mset_map)
      (metis mset_map)
  ultimately show ?thesis using rows(3,4) by (intro exI [of _ ?sorted]) (simp add: sort_rows_sum)
qed

lemma plan_no_winners:
  assumes "ps \<noteq> []" "\<And>p. p \<in> set ps \<Longrightarrow> 0 < ap_amount_minor p" "amount_sum ps \<le> i64_max"
    "0 \<le> fee_bps" "fee_bps \<le> 10000" "filter (\<lambda>p. ap_outcome_id p = winner) ps = []"
  shows "plan_settlement ''payout'' (Some winner) fee_bps ps = Inl (Conflict ''market_has_no_winning_positions'')"
proof -
  note T = plan_total_ok [OF assms(1-3)]
  note F = fee_bounds [OF T(2) assms(4,5)]
  let ?fee = "amount_sum ps * fee_bps div 10000"
  have s: "(amount_sum ps * fee_bps) sdiv 10000 = ?fee" using T(2) assms(4) by simp
  have c: "checked_i64 ?fee = Some ?fee" "checked_i64 (amount_sum ps - ?fee) = Some (amount_sum ps - ?fee)"
    using F assms(3) int_type_bounds(1) by (auto intro: order_trans)
  show ?thesis
    using assms(1) by (simp add: plan_settlement_def T(1) settlement_fee_def s c payout_rows_def Let_def assms(6))
qed

lemma plan_refund_ok:
  assumes "ps \<noteq> []" "\<And>p. p \<in> set ps \<Longrightarrow> 0 < ap_amount_minor p" "amount_sum ps \<le> i64_max"
  shows "plan_settlement ''refund'' w fee_bps ps = Inr \<lparr>pl_winning_outcome_id = None,
      pl_total_stake_minor = amount_sum ps, pl_fee_minor = 0, pl_distributable_minor = amount_sum ps,
      pl_total_planned_minor = amount_sum ps,
      pl_rows = sort_key (\<lambda>r. ap_position_id (fst r)) (map (\<lambda>p. (p, ap_amount_minor p)) ps)\<rparr>"
proof -
  note T = plan_total_ok [OF assms]
  let ?sorted = "sort_key (\<lambda>r. ap_position_id (fst r)) (map (\<lambda>p. (p, ap_amount_minor p)) ps)"
  have c: "checked_i64 (amount_sum ps) = Some (amount_sum ps)"
    using T(2) assms(3) int_type_bounds(1) by (auto intro: order_trans)
  have "(\<Sum>r \<leftarrow> ?sorted. snd r) = amount_sum ps" by (simp add: sort_rows_sum amount_sum_def comp_def)
  then have t: "total_of snd ?sorted = Inr (amount_sum ps)"
    using total_of_ok [of ?sorted snd] assms(2,3) by (simp, fastforce)
  show ?thesis
    using assms(1) by (simp add: plan_settlement_def T(1) settlement_fee_def c t Let_def)
qed

end
