(* ===== verification/Market_Positions.thy ===== *)
theory Market_Positions
  imports Settlement_Plan
begin

text \<open>
  The handlers of \<open>services/api/src/market_positions.rs\<close>: the worker's evidence of a stake, the public
  summary of positions, and the settlement plan of a resolved or cancelled market.
\<close>

fun positions_db_error :: "db_error \<Rightarrow> api_error" where
  "positions_db_error Unique_violation = Conflict ''market_position_or_settlement_already_exists''"
| "positions_db_error Foreign_key_violation = InvalidRequest ''market_related_resource_not_found''"
| "positions_db_error Check_violation = InvalidRequest ''market_settlement_constraint_failed''"
| "positions_db_error Invalid_text_representation = InvalidRequest ''market_settlement_constraint_failed''"
| "positions_db_error Numeric_out_of_range = Database"
| "positions_db_error Other_database_error = Database"
| "positions_db_error Connection_error = Database"

definition validate_tx_hash :: "string \<Rightarrow> api_error + string" where
  "validate_tx_hash value = validate_hash value ''invalid_market_transaction_hash''"

definition validate_source_address :: "string \<Rightarrow> api_error + string" where
  "validate_source_address value = validate_strkey (CHR ''G'') value ''invalid_market_source_address''"

section \<open>Position evidence\<close>

record AcceptPositionEvidenceRequest =
  ape_stake_intent_id :: uuid
  ape_tx_hash :: string
  ape_ledger_sequence :: int
  ape_contract_event_id :: string
  ape_source_address :: string
  ape_amount_minor :: int
  ape_evidence :: json

record StakeIntentContext =
  sic_organization_id :: uuid
  sic_market_id :: uuid
  sic_outcome_id :: uuid
  sic_user_id :: uuid
  sic_stellar_account_id :: uuid
  sic_expected_amount_minor :: int
  sic_intent_status :: string
  sic_source_address :: string
  sic_max_market_exposure_minor :: int

text \<open>The stake intent joined with its account and its market.\<close>

definition stake_intent_context :: "uuid \<Rightarrow> market_db \<Rightarrow> StakeIntentContext option" where
  "stake_intent_context intent_id d =
     (case find (\<lambda>i. si_id i = intent_id) (stake_intents d) of None \<Rightarrow> None | Some i \<Rightarrow>
      case find (\<lambda>a. sa_id a = si_stellar_account_id i) (stellar_accounts d) of None \<Rightarrow> None | Some a \<Rightarrow>
      case find (\<lambda>m. mk_id m = si_market_id i) (prediction_markets d) of None \<Rightarrow> None | Some m \<Rightarrow>
      Some \<lparr>sic_organization_id = si_organization_id i, sic_market_id = si_market_id i,
        sic_outcome_id = si_outcome_id i, sic_user_id = si_user_id i,
        sic_stellar_account_id = si_stellar_account_id i, sic_expected_amount_minor = si_amount_minor i,
        sic_intent_status = si_status i, sic_source_address = sa_address a,
        sic_max_market_exposure_minor = mk_max_market_exposure_minor m\<rparr>)"

definition load_position_evidence :: "uuid \<Rightarrow> market_db \<Rightarrow> api_error + PositionEvidenceRecord" where
  "load_position_evidence evidence_id d = ok_or (find (\<lambda>e. pe_id e = evidence_id) (position_evidence d)) NotFound"

definition load_position_evidence_tx :: "uuid \<Rightarrow> market_db \<Rightarrow> PositionEvidenceRecord option" where
  "load_position_evidence_tx stake_intent_id d =
     find (\<lambda>e. pe_stake_intent_id e = stake_intent_id) (position_evidence d)"

definition active_exposure :: "uuid \<Rightarrow> market_db \<Rightarrow> int" where
  "active_exposure market_id d =
     sql_sum po_amount_minor (\<lambda>p. po_market_id p = market_id \<and> po_status p = ''active'') (market_positions d)"

text \<open>\<open>INSERT .. ON CONFLICT (stake_intent_id) DO UPDATE\<close>.\<close>

definition upsert_position :: "int \<Rightarrow> position_row \<Rightarrow> position_row list \<Rightarrow> db_error + position_row list" where
  "upsert_position now row rows =
     (if \<not> position_check row then Inl Check_violation
      else if list_ex (\<lambda>p. po_stake_intent_id p = po_stake_intent_id row) rows
      then Inr (sql_update (\<lambda>p. po_stake_intent_id p = po_stake_intent_id row)
         (\<lambda>p. p\<lparr>po_status := ''active'', po_accepted_evidence_id := po_accepted_evidence_id row,
                po_activated_at := po_activated_at row, po_updated_at := now\<rparr>) rows)
      else sql_insert position_check position_clash row rows)"

definition add_outcome_total :: "uuid \<Rightarrow> int \<Rightarrow> OutcomeRecord list \<Rightarrow> db_error + OutcomeRecord list" where
  "add_outcome_total outcome_id amount rows =
     (if list_ex (\<lambda>o'. mo_id o' = outcome_id \<and> checked_i64 (mo_total_active_minor o' + amount) = None) rows
      then Inl Numeric_out_of_range
      else Inr (sql_update (\<lambda>o'. mo_id o' = outcome_id)
        (\<lambda>o'. o'\<lparr>mo_total_active_minor := mo_total_active_minor o' + amount\<rparr>) rows))"

definition new_position_evidence ::
  "draws \<Rightarrow> uuid \<Rightarrow> StakeIntentContext \<Rightarrow> AcceptPositionEvidenceRequest \<Rightarrow> string \<Rightarrow> string \<Rightarrow> PositionEvidenceRecord"
  where
  "new_position_evidence q market_id intent body tx_hash contract_event_id =
     \<lparr>pe_id = new_uuid q 0, pe_organization_id = sic_organization_id intent, pe_market_id = market_id,
      pe_stake_intent_id = ape_stake_intent_id body, pe_outcome_id = sic_outcome_id intent,
      pe_source_stellar_account_id = sic_stellar_account_id intent, pe_tx_hash = tx_hash,
      pe_ledger_sequence = ape_ledger_sequence body, pe_contract_event_id = contract_event_id,
      pe_amount_minor = ape_amount_minor body, pe_evidence_json = ape_evidence body,
      pe_accepted_at = now_utc q 0, pe_created_at = sql_now q\<rparr>"

definition new_position ::
  "draws \<Rightarrow> uuid \<Rightarrow> StakeIntentContext \<Rightarrow> AcceptPositionEvidenceRequest \<Rightarrow> position_row" where
  "new_position q market_id intent body =
     \<lparr>po_id = new_uuid q 1, po_organization_id = sic_organization_id intent, po_market_id = market_id,
      po_outcome_id = sic_outcome_id intent, po_user_id = sic_user_id intent,
      po_stellar_account_id = sic_stellar_account_id intent, po_stake_intent_id = ape_stake_intent_id body,
      po_amount_minor = ape_amount_minor body, po_status = ''active'',
      po_accepted_evidence_id = Some (new_uuid q 0), po_activated_at = Some (now_utc q 0),
      po_settled_at = None, po_created_at = sql_now q, po_updated_at = sql_now q\<rparr>"

definition accept_position_evidence_tx ::
  "env \<Rightarrow> draws \<Rightarrow> headers \<Rightarrow> uuid \<Rightarrow> AcceptPositionEvidenceRequest \<Rightarrow> market_db \<Rightarrow>
   api_error + (PositionEvidenceRecord + uuid) \<times> market_db" where
  "accept_position_evidence_tx env q hdrs market_id body d =
     bind_result (require_worker env hdrs) (\<lambda>_.
     bind_result (database_pool env) (\<lambda>_.
     bind_result (validate_tx_hash (ape_tx_hash body)) (\<lambda>tx_hash.
     bind_result (required_text (ape_contract_event_id body) 240 ''invalid_market_event_id'') (\<lambda>contract_event_id.
     bind_result (validate_source_address (ape_source_address body)) (\<lambda>source_address.
     if ape_ledger_sequence body \<le> 0 \<or> ape_amount_minor body \<le> 0 \<or> \<not> is_object (ape_evidence body)
       then Inl (InvalidRequest ''invalid_market_position_evidence'')
     else
     bind_result (ok_or (stake_intent_context (ape_stake_intent_id body) d) NotFound) (\<lambda>intent.
     if sic_market_id intent \<noteq> market_id then Inl NotFound
     else case load_position_evidence_tx (ape_stake_intent_id body) d of
       Some existing \<Rightarrow>
         if pe_tx_hash existing \<noteq> tx_hash \<or> pe_amount_minor existing \<noteq> ape_amount_minor body \<or>
            pe_contract_event_id existing \<noteq> contract_event_id
         then Inl (Conflict ''market_evidence_conflicts_with_accepted_record'')
         else Inr (Inl existing, d)
     | None \<Rightarrow>
         if sic_intent_status intent \<noteq> ''submitted'' then Inl (Conflict ''market_intent_not_submitted'')
         else if sic_expected_amount_minor intent \<noteq> ape_amount_minor body \<or>
            sic_source_address intent \<noteq> source_address
           then Inl (Conflict ''market_position_evidence_mismatch'')
         else
         bind_result (or_db_error positions_db_error (sql_bigint (active_exposure market_id d)))
           (\<lambda>current_exposure.
         if (case checked_i64 (current_exposure + ape_amount_minor body) of
               None \<Rightarrow> True | Some exposure \<Rightarrow> exposure > sic_max_market_exposure_minor intent)
           then Inl (Conflict ''market_exposure_limit_exceeded'')
         else
         bind_result (or_db_error positions_db_error (sql_insert position_evidence_check position_evidence_clash
             (new_position_evidence q market_id intent body tx_hash contract_event_id) (position_evidence d)))
           (\<lambda>evidence_rows.
         bind_result (or_db_error positions_db_error (upsert_position (sql_now q)
             (new_position q market_id intent body) (market_positions d))) (\<lambda>position_rows.
         bind_result (or_db_error positions_db_error (add_outcome_total (sic_outcome_id intent)
             (ape_amount_minor body) (market_outcomes d))) (\<lambda>outcome_rows.
         bind_result (insert_market_audit positions_db_error (new_uuid q 2) (sic_organization_id intent) None
             ''prediction_market.position.accept'' ''prediction_market_position_evidence'' (new_uuid q 0)
             (JObj [(''market_id'', JStr market_id), (''stake_intent_id'', JStr (ape_stake_intent_id body)),
                (''tx_hash'', JStr tx_hash), (''ledger_sequence'', JInt (ape_ledger_sequence body)),
                (''contract_event_id'', JStr contract_event_id)])
             (d\<lparr>position_evidence := evidence_rows, market_positions := position_rows,
                market_outcomes := outcome_rows,
                stake_intents := sql_update (\<lambda>i. si_id i = ape_stake_intent_id body)
                  (\<lambda>i. i\<lparr>si_status := ''confirmed'', si_confirmed_at := Some (now_utc q 0),
                         si_updated_at := sql_now q\<rparr>) (stake_intents d)\<rparr>)) (\<lambda>d.
         Inr (Inr (new_uuid q 0), d))))))))))))"

definition accept_position_evidence ::
  "env \<Rightarrow> draws \<Rightarrow> headers \<Rightarrow> uuid \<Rightarrow> AcceptPositionEvidenceRequest \<Rightarrow> market_db \<Rightarrow>
   (api_error + nat \<times> PositionEvidenceRecord) \<times> market_db" where
  "accept_position_evidence env q hdrs market_id body d =
     then_read (transaction (accept_position_evidence_tx env q hdrs market_id body) d)
       (\<lambda>r d. case r of Inl existing \<Rightarrow> Inr (200, existing)
          | Inr evidence_id \<Rightarrow> map_sum id (Pair 201) (load_position_evidence evidence_id d))"

section \<open>The summary\<close>

record PositionSummaryEntry =
  pse_outcome_id :: uuid
  pse_code :: string
  pse_label :: string
  pse_active_positions :: int
  pse_total_active_minor :: int

record PositionsSummaryResponse =
  psr_market_id :: uuid
  psr_total_positions :: int
  psr_total_active_minor :: int
  psr_outcomes :: "PositionSummaryEntry list"

fun summary_entries :: "position_row list \<Rightarrow> OutcomeRecord list \<Rightarrow> db_error + PositionSummaryEntry list" where
  "summary_entries positions [] = Inr []"
| "summary_entries positions (o' # rest) =
     bind_result (sql_bigint (sql_sum po_amount_minor
         (\<lambda>p. po_outcome_id p = mo_id o' \<and> po_status p = ''active'') positions)) (\<lambda>active_minor.
     bind_result (summary_entries positions rest) (\<lambda>entries.
     Inr (\<lparr>pse_outcome_id = mo_id o', pse_code = mo_code o', pse_label = mo_label o',
        pse_active_positions = sql_count (\<lambda>p. po_outcome_id p = mo_id o' \<and> po_status p = ''active'') positions,
        pse_total_active_minor = active_minor\<rparr> # entries)))"

text \<open>\<open>Iterator::sum\<close> over \<open>i64\<close>, in a release build.\<close>

definition i64_sum :: "int list \<Rightarrow> int" where
  "i64_sum xs = foldl (\<lambda>acc x. i64_wrap (acc + x)) 0 xs"

definition get_positions_summary :: "env \<Rightarrow> uuid \<Rightarrow> market_db \<Rightarrow> api_error + PositionsSummaryResponse" where
  "get_positions_summary env market_id d =
     bind_result (database_pool env) (\<lambda>_.
     if \<not> list_ex (\<lambda>m. mk_id m = market_id \<and> mk_status m \<noteq> ''draft'') (prediction_markets d) then Inl NotFound
     else
     bind_result (or_db_error positions_db_error (summary_entries (market_positions d)
         (sort_key mo_sort_order (filter (\<lambda>o'. mo_market_id o' = market_id) (market_outcomes d))))) (\<lambda>outcomes.
     Inr \<lparr>psr_market_id = market_id, psr_total_positions = i64_sum (map pse_active_positions outcomes),
        psr_total_active_minor = i64_sum (map pse_total_active_minor outcomes), psr_outcomes = outcomes\<rparr>))"

section \<open>The settlement plan\<close>

record SettlementPlanResponse =
  spr_run :: SettlementRunRecord
  spr_items :: "SettlementItemView list"

definition load_settlement :: "uuid \<Rightarrow> market_db \<Rightarrow> api_error + SettlementPlanResponse" where
  "load_settlement run_id d =
     bind_result (ok_or (find (\<lambda>r. sr_id r = run_id) (settlement_runs d)) NotFound) (\<lambda>run.
     Inr \<lparr>spr_run = run, spr_items = sort_key (\<lambda>i. (st_created_at i, st_id i))
        (filter (\<lambda>i. st_settlement_run_id i = run_id) (settlement_items d))\<rparr>)"

definition active_position :: "position_row \<Rightarrow> ActivePosition" where
  "active_position p = \<lparr>ap_position_id = po_id p, ap_outcome_id = po_outcome_id p,
     ap_amount_minor = po_amount_minor p, ap_stellar_account_id = po_stellar_account_id p\<rparr>"

definition active_positions :: "uuid \<Rightarrow> market_db \<Rightarrow> ActivePosition list" where
  "active_positions market_id d =
     map active_position (sort_key (\<lambda>p. (po_created_at p, po_id p))
       (filter (\<lambda>p. po_market_id p = market_id \<and> po_status p = ''active'') (market_positions d)))"

fun insert_items ::
  "draws \<Rightarrow> nat \<Rightarrow> uuid \<Rightarrow> (ActivePosition \<times> int) list \<Rightarrow> SettlementItemView list \<Rightarrow>
   api_error + SettlementItemView list" where
  "insert_items q n run_id [] items = Inr items"
| "insert_items q n run_id (row # rest) items =
     bind_result (or_db_error positions_db_error (sql_insert settlement_item_check settlement_item_clash
       \<lparr>st_id = new_uuid q n, st_settlement_run_id = run_id, st_position_id = ap_position_id (fst row),
        st_recipient_stellar_account_id = ap_stellar_account_id (fst row),
        st_principal_minor = ap_amount_minor (fst row), st_payout_minor = snd row, st_status = ''planned'',
        st_submitted_tx_hash = None, st_accepted_evidence_id = None, st_confirmed_at = None,
        st_created_at = sql_now q, st_updated_at = sql_now q\<rparr> items)) (\<lambda>items.
     insert_items q (n + 1) run_id rest items)"

definition new_run :: "draws \<Rightarrow> uuid \<Rightarrow> MarketRecord \<Rightarrow> string \<Rightarrow> string \<Rightarrow> settlement_plan \<Rightarrow> SettlementRunRecord" where
  "new_run q actor_user_id market kind idempotency_key plan =
     \<lparr>sr_id = new_uuid q 0, sr_organization_id = mk_organization_id market, sr_market_id = mk_id market,
      sr_kind = kind, sr_status = ''planned'', sr_winning_outcome_id = pl_winning_outcome_id plan,
      sr_idempotency_key = idempotency_key, sr_total_stake_minor = pl_total_stake_minor plan,
      sr_fee_minor = pl_fee_minor plan, sr_distributable_minor = pl_distributable_minor plan,
      sr_total_planned_minor = pl_total_planned_minor plan, sr_requested_by_user_id = actor_user_id,
      sr_failure_code = None, sr_created_at = sql_now q, sr_updated_at = sql_now q\<rparr>"

definition write_plan ::
  "draws \<Rightarrow> uuid \<Rightarrow> MarketRecord \<Rightarrow> string \<Rightarrow> string \<Rightarrow> string \<Rightarrow> settlement_plan \<Rightarrow> market_db \<Rightarrow>
   api_error + market_db" where
  "write_plan q actor_user_id market kind idempotency_key reason plan d =
     (let n = length (pl_rows plan); run = new_run q actor_user_id market kind idempotency_key plan in
      bind_result (or_db_error positions_db_error
          (sql_insert settlement_run_check settlement_run_clash run (settlement_runs d))) (\<lambda>runs.
      bind_result (insert_items q 1 (sr_id run) (pl_rows plan) (settlement_items d)) (\<lambda>items.
      bind_result (insert_governance positions_db_error
          \<lparr>ge_id = new_uuid q (n + 1), ge_organization_id = mk_organization_id market,
           ge_market_id = mk_id market, ge_actor_user_id = actor_user_id, ge_action = ''settlement.plan'',
           ge_previous_status = Some (mk_status market), ge_new_status = Some ''settling'', ge_reason = reason,
           ge_evidence = JObj [(''settlement_run_id'', JStr (sr_id run)), (''kind'', JStr kind),
             (''item_count'', JInt (int n)), (''total_stake_minor'', JInt (pl_total_stake_minor plan)),
             (''fee_minor'', JInt (pl_fee_minor plan)),
             (''distributable_minor'', JInt (pl_distributable_minor plan))]\<rparr>
          (d\<lparr>settlement_runs := runs, settlement_items := items,
             prediction_markets := sql_update (\<lambda>m. mk_id m = mk_id market)
               (\<lambda>m. m\<lparr>mk_status := ''settling'', mk_updated_at := sql_now q\<rparr>) (prediction_markets d)\<rparr>)) (\<lambda>d.
      insert_market_audit positions_db_error (new_uuid q (n + 2)) (mk_organization_id market)
        (Some actor_user_id) ''prediction_market.settlement.plan'' ''prediction_market_settlement_run''
        (sr_id run) (JObj [(''market_id'', JStr (mk_id market)), (''kind'', JStr kind),
           (''item_count'', JInt (int n))]) d))))"

definition create_settlement_plan_tx ::
  "env \<Rightarrow> draws \<Rightarrow> headers \<Rightarrow> uuid \<Rightarrow> string \<Rightarrow> string \<Rightarrow> market_db \<Rightarrow>
   api_error + (nat \<times> uuid) \<times> market_db" where
  "create_settlement_plan_tx env q hdrs market_id idempotency_key reason d =
     bind_result (require_web_actor env hdrs) (\<lambda>actor_user_id.
     bind_result (required_text idempotency_key 200 ''invalid_market_settlement_idempotency_key'') (\<lambda>key.
     bind_result (required_text reason 1000 ''invalid_market_settlement_reason'') (\<lambda>reason.
     bind_result (database_pool env) (\<lambda>_.
     bind_result (ok_or (find (\<lambda>m. mk_id m = market_id) (prediction_markets d)) NotFound) (\<lambda>market.
     bind_result (require_organization_manager (mk_organization_id market) actor_user_id d) (\<lambda>_.
     if mk_status market = ''settling'' \<or> mk_status market = ''settled'' then
       (case sql_latest sr_created_at (\<lambda>r. sr_market_id r = market_id \<and> sr_idempotency_key r = key)
          (settlement_runs d) of
          Some existing \<Rightarrow> Inr ((200, sr_id existing), d)
        | None \<Rightarrow> Inl (Conflict ''market_settlement_already_started''))
     else if mk_status market \<noteq> ''resolved'' \<and> mk_status market \<noteq> ''cancelled''
       then Inl (Conflict ''market_not_resolved_or_cancelled'')
     else
     let kind = (if mk_status market = ''resolved'' then ''payout'' else ''refund'') in
     case find (\<lambda>r. sr_market_id r = market_id \<and> sr_kind r = kind \<and> sr_idempotency_key r = key)
       (settlement_runs d) of
       Some existing \<Rightarrow> Inr ((200, sr_id existing), d)
     | None \<Rightarrow>
         bind_result (plan_settlement kind (mk_winning_outcome_id market) (mk_fee_bps market)
             (active_positions market_id d)) (\<lambda>plan.
         bind_result (write_plan q actor_user_id market kind key reason plan d) (\<lambda>d.
         Inr ((201, new_uuid q 0), d)))))))))"

definition create_settlement_plan ::
  "env \<Rightarrow> draws \<Rightarrow> headers \<Rightarrow> uuid \<Rightarrow> string \<Rightarrow> string \<Rightarrow> market_db \<Rightarrow>
   (api_error + nat \<times> SettlementPlanResponse) \<times> market_db" where
  "create_settlement_plan env q hdrs market_id idempotency_key reason d =
     then_read (transaction (create_settlement_plan_tx env q hdrs market_id idempotency_key reason) d)
       (\<lambda>r d. map_sum id (Pair (fst r)) (load_settlement (snd r) d))"

definition get_settlement_plan :: "env \<Rightarrow> uuid \<Rightarrow> market_db \<Rightarrow> api_error + SettlementPlanResponse" where
  "get_settlement_plan env market_id d =
     bind_result (database_pool env) (\<lambda>_.
     bind_result (ok_or (sql_latest sr_created_at (\<lambda>r. sr_market_id r = market_id) (settlement_runs d)) NotFound)
       (\<lambda>run. load_settlement (sr_id run) d))"

end
