(* ===== verification/Market_Settlement.thy ===== *)
theory Market_Settlement
  imports Market_Positions
begin

text \<open>
  The handlers of \<open>services/api/src/market_settlement.rs\<close>: the worker's submission of a planned payment,
  its acceptance of chain evidence, and the closing of a run when every item is confirmed.
\<close>

fun settlement_db_error :: "db_error \<Rightarrow> api_error" where
  "settlement_db_error Unique_violation = Conflict ''market_settlement_operation_already_exists''"
| "settlement_db_error Foreign_key_violation = InvalidRequest ''market_settlement_resource_missing''"
| "settlement_db_error Check_violation = InvalidRequest ''market_settlement_constraint_failed''"
| "settlement_db_error Invalid_text_representation = InvalidRequest ''market_settlement_constraint_failed''"
| "settlement_db_error Numeric_out_of_range = Database"
| "settlement_db_error Other_database_error = Database"
| "settlement_db_error Connection_error = Database"

definition validate_recipient :: "string \<Rightarrow> api_error + string" where
  "validate_recipient value = validate_strkey (CHR ''G'') value ''invalid_market_settlement_recipient''"

record SettlementEvidenceRequest =
  ser_transaction_hash :: string
  ser_ledger_sequence :: int
  ser_operation_index :: int
  ser_event_reference :: string
  ser_recipient_address :: string
  ser_amount_minor :: int
  ser_evidence :: json

record SettlementItemContext =
  stc_item_id :: uuid
  stc_settlement_run_id :: uuid
  stc_organization_id :: uuid
  stc_market_id :: uuid
  stc_run_kind :: string
  stc_run_status :: string
  stc_requested_by_user_id :: uuid
  stc_recipient_stellar_account_id :: uuid
  stc_recipient_address :: string
  stc_payout_minor :: int
  stc_item_status :: string
  stc_submitted_tx_hash :: "string option"
  stc_accepted_evidence_id :: "uuid option"

record SettlementEvidenceView =
  sev_id :: uuid
  sev_settlement_run_id :: uuid
  sev_settlement_item_id :: uuid
  sev_recipient_stellar_account_id :: uuid
  sev_transaction_hash :: string
  sev_ledger_sequence :: int
  sev_operation_index :: int
  sev_event_reference :: string
  sev_amount_minor :: int
  sev_accepted_at :: int

record SettlementStatusView =
  ssv_market_id :: uuid
  ssv_run_id :: uuid
  ssv_kind :: string
  ssv_run_status :: string
  ssv_total_stake_minor :: int
  ssv_fee_minor :: int
  ssv_distributable_minor :: int
  ssv_total_planned_minor :: int
  ssv_planned_items :: int
  ssv_submitted_items :: int
  ssv_confirmed_items :: int
  ssv_failed_items :: int
  ssv_created_at :: int
  ssv_updated_at :: int

section \<open>Reads\<close>

definition load_context_tx :: "uuid \<Rightarrow> market_db \<Rightarrow> api_error + SettlementItemContext" where
  "load_context_tx item_id d =
     (case find (\<lambda>i. st_id i = item_id) (settlement_items d) of None \<Rightarrow> Inl NotFound | Some i \<Rightarrow>
      case find (\<lambda>r. sr_id r = st_settlement_run_id i) (settlement_runs d) of None \<Rightarrow> Inl NotFound | Some r \<Rightarrow>
      case find (\<lambda>a. sa_id a = st_recipient_stellar_account_id i) (stellar_accounts d) of None \<Rightarrow> Inl NotFound | Some a \<Rightarrow>
      Inr \<lparr>stc_item_id = st_id i, stc_settlement_run_id = st_settlement_run_id i,
        stc_organization_id = sr_organization_id r, stc_market_id = sr_market_id r, stc_run_kind = sr_kind r,
        stc_run_status = sr_status r, stc_requested_by_user_id = sr_requested_by_user_id r,
        stc_recipient_stellar_account_id = st_recipient_stellar_account_id i,
        stc_recipient_address = sa_address a, stc_payout_minor = st_payout_minor i,
        stc_item_status = st_status i, stc_submitted_tx_hash = st_submitted_tx_hash i,
        stc_accepted_evidence_id = st_accepted_evidence_id i\<rparr>)"

definition load_item :: "uuid \<Rightarrow> market_db \<Rightarrow> api_error + SettlementItemView" where
  "load_item item_id d = ok_or (find (\<lambda>i. st_id i = item_id) (settlement_items d)) NotFound"

definition evidence_view :: "settlement_evidence_row \<Rightarrow> SettlementEvidenceView" where
  "evidence_view e = \<lparr>sev_id = se_id e, sev_settlement_run_id = se_settlement_run_id e,
     sev_settlement_item_id = se_settlement_item_id e,
     sev_recipient_stellar_account_id = se_recipient_stellar_account_id e,
     sev_transaction_hash = se_transaction_hash e, sev_ledger_sequence = se_ledger_sequence e,
     sev_operation_index = se_operation_index e, sev_event_reference = se_event_reference e,
     sev_amount_minor = se_amount_minor e, sev_accepted_at = se_accepted_at e\<rparr>"

definition load_settlement_evidence_tx :: "uuid \<Rightarrow> market_db \<Rightarrow> SettlementEvidenceView option" where
  "load_settlement_evidence_tx item_id d =
     map_option evidence_view (find (\<lambda>e. se_settlement_item_id e = item_id) (settlement_evidence d))"

text \<open>The latest decision of the action must allow it and not have expired.\<close>

definition require_settlement_policy_tx :: "int \<Rightarrow> SettlementItemContext \<Rightarrow> market_db \<Rightarrow> api_error + unit" where
  "require_settlement_policy_tx now context_a d =
     (let action = (if stc_run_kind context_a = ''refund'' then ''refund'' else ''settle'');
          allowed = (case sql_latest pd_created_at (\<lambda>p. pd_market_id p = stc_market_id context_a \<and>
              pd_action p = action \<and> pd_subject_user_id p = None) (policy_decisions d) of
            None \<Rightarrow> False
          | Some p \<Rightarrow> pd_decision p = ''allow'' \<and>
              (case pd_expires_at p of None \<Rightarrow> True | Some t \<Rightarrow> t > now))
      in if allowed then Inr () else Inl Forbidden)"

definition settlement_audit :: "uuid \<Rightarrow> uuid \<Rightarrow> string \<Rightarrow> string \<Rightarrow> uuid \<Rightarrow> json \<Rightarrow> market_db \<Rightarrow> api_error + market_db" where
  "settlement_audit new_id organization_id action entity_type entity_id metadata d =
     insert_market_audit settlement_db_error new_id organization_id None action entity_type entity_id metadata d"

section \<open>Submission\<close>

definition record_settlement_submission_tx ::
  "env \<Rightarrow> draws \<Rightarrow> headers \<Rightarrow> uuid \<Rightarrow> string \<Rightarrow> market_db \<Rightarrow> api_error + unit \<times> market_db" where
  "record_settlement_submission_tx env q hdrs item_id transaction_hash d =
     bind_result (require_worker env hdrs) (\<lambda>_.
     bind_result (validate_hash transaction_hash ''invalid_market_settlement_transaction_hash'') (\<lambda>hash.
     bind_result (database_pool env) (\<lambda>_.
     bind_result (load_context_tx item_id d) (\<lambda>c.
     bind_result (require_settlement_policy_tx (sql_now q) c d) (\<lambda>_.
     if stc_accepted_evidence_id c \<noteq> None \<or> stc_item_status c = ''confirmed''
       then Inl (Conflict ''market_settlement_item_already_confirmed'')
     else if stc_item_status c = ''submitted'' then
       (if stc_submitted_tx_hash c \<noteq> Some hash then Inl (Conflict ''market_settlement_submission_conflict'')
        else Inr ((), d))
     else if stc_item_status c \<noteq> ''planned'' \<or>
        \<not> List.member [''planned'', ''submitting'', ''submitted''] (stc_run_status c)
       then Inl (Conflict ''market_settlement_item_not_submittable'')
     else
     bind_result (or_db_error settlement_db_error (sql_update_unique settlement_item_clash
         (\<lambda>i. st_id i = item_id \<and> st_status i = ''planned'')
         (\<lambda>i. i\<lparr>st_status := ''submitted'', st_submitted_tx_hash := Some hash, st_updated_at := sql_now q\<rparr>)
         (settlement_items d))) (\<lambda>items.
     bind_result (settlement_audit (new_uuid q 0) (stc_organization_id c) ''prediction_market.settlement.submit''
         ''prediction_market_settlement_item'' item_id
         (JObj [(''market_id'', JStr (stc_market_id c)), (''settlement_run_id'', JStr (stc_settlement_run_id c)),
            (''transaction_hash'', JStr hash)])
         (d\<lparr>settlement_items := items,
            settlement_runs := sql_update (\<lambda>r. sr_id r = stc_settlement_run_id c \<and> sr_status r = ''planned'')
              (\<lambda>r. r\<lparr>sr_status := ''submitting'', sr_updated_at := sql_now q\<rparr>) (settlement_runs d)\<rparr>)) (\<lambda>d.
     Inr ((), d))))))))"

definition record_settlement_submission ::
  "env \<Rightarrow> draws \<Rightarrow> headers \<Rightarrow> uuid \<Rightarrow> string \<Rightarrow> market_db \<Rightarrow> (api_error + SettlementItemView) \<times> market_db" where
  "record_settlement_submission env q hdrs item_id transaction_hash d =
     then_read (transaction (record_settlement_submission_tx env q hdrs item_id transaction_hash) d)
       (\<lambda>_ d. load_item item_id d)"

section \<open>Evidence\<close>

definition settlement_position_status :: "SettlementItemContext \<Rightarrow> string" where
  "settlement_position_status c = (if stc_run_kind c = ''refund'' then ''refunded'' else ''settled'')"

definition finalize_if_complete :: "draws \<Rightarrow> SettlementItemContext \<Rightarrow> market_db \<Rightarrow> api_error + market_db" where
  "finalize_if_complete q c d =
     (if sql_count (\<lambda>i. st_settlement_run_id i = stc_settlement_run_id c \<and> st_status i \<noteq> ''confirmed'')
           (settlement_items d) \<noteq> 0
      then Inr d
      else
      bind_result (insert_governance settlement_db_error
          \<lparr>ge_id = new_uuid q 2, ge_organization_id = stc_organization_id c, ge_market_id = stc_market_id c,
           ge_actor_user_id = stc_requested_by_user_id c,
           ge_action = (if stc_run_kind c = ''refund'' then ''refund.confirmed'' else ''settlement.confirmed''),
           ge_previous_status = Some ''settling'', ge_new_status = Some ''settled'',
           ge_reason = (if stc_run_kind c = ''refund''
             then ''All cancellation refunds have accepted chain evidence.''
             else ''All resolution payouts have accepted chain evidence.''),
           ge_evidence = JObj [(''settlement_run_id'', JStr (stc_settlement_run_id c))]\<rparr>
          (d\<lparr>settlement_runs := sql_update (\<lambda>r. sr_id r = stc_settlement_run_id c)
               (\<lambda>r. r\<lparr>sr_status := ''confirmed'', sr_updated_at := sql_now q\<rparr>) (settlement_runs d),
             market_positions := sql_update (\<lambda>p. po_market_id p = stc_market_id c \<and> po_status p = ''active'')
               (\<lambda>p. p\<lparr>po_status := settlement_position_status c,
                      po_settled_at := coalesce (po_settled_at p) (sql_now q), po_updated_at := sql_now q\<rparr>)
               (market_positions d),
             prediction_markets := sql_update (\<lambda>m. mk_id m = stc_market_id c \<and> mk_status m = ''settling'')
               (\<lambda>m. m\<lparr>mk_status := ''settled'', mk_updated_at := sql_now q\<rparr>) (prediction_markets d)\<rparr>)) (\<lambda>d.
      settlement_audit (new_uuid q 3) (stc_organization_id c) ''prediction_market.settlement.complete''
        ''prediction_market_settlement_run'' (stc_settlement_run_id c)
        (JObj [(''market_id'', JStr (stc_market_id c)), (''kind'', JStr (stc_run_kind c))]) d))"

definition new_settlement_evidence ::
  "draws \<Rightarrow> SettlementItemContext \<Rightarrow> SettlementEvidenceRequest \<Rightarrow> string \<Rightarrow> string \<Rightarrow> settlement_evidence_row" where
  "new_settlement_evidence q c body hash event_reference =
     \<lparr>se_id = new_uuid q 0, se_organization_id = stc_organization_id c,
      se_settlement_run_id = stc_settlement_run_id c, se_settlement_item_id = stc_item_id c,
      se_recipient_stellar_account_id = stc_recipient_stellar_account_id c, se_transaction_hash = hash,
      se_ledger_sequence = ser_ledger_sequence body, se_operation_index = ser_operation_index body,
      se_event_reference = event_reference, se_amount_minor = ser_amount_minor body,
      se_evidence_json = ser_evidence body, se_accepted_at = now_utc q 0, se_created_at = sql_now q\<rparr>"

definition accept_settlement_evidence_tx ::
  "env \<Rightarrow> draws \<Rightarrow> headers \<Rightarrow> uuid \<Rightarrow> SettlementEvidenceRequest \<Rightarrow> market_db \<Rightarrow>
   api_error + (nat \<times> SettlementEvidenceView) \<times> market_db" where
  "accept_settlement_evidence_tx env q hdrs item_id body d =
     bind_result (require_worker env hdrs) (\<lambda>_.
     bind_result (validate_hash (ser_transaction_hash body) ''invalid_market_settlement_transaction_hash'') (\<lambda>hash.
     bind_result (required_text (ser_event_reference body) 240 ''invalid_market_settlement_event_reference'')
       (\<lambda>event_reference.
     bind_result (validate_recipient (ser_recipient_address body)) (\<lambda>recipient_address.
     if ser_ledger_sequence body \<le> 0 \<or> ser_operation_index body < 0 \<or> ser_amount_minor body < 0 \<or>
        \<not> is_object (ser_evidence body)
       then Inl (InvalidRequest ''invalid_market_settlement_evidence'')
     else
     bind_result (database_pool env) (\<lambda>_.
     bind_result (load_context_tx item_id d) (\<lambda>c.
     bind_result (require_settlement_policy_tx (sql_now q) c d) (\<lambda>_.
     case load_settlement_evidence_tx item_id d of
       Some existing \<Rightarrow>
         if sev_transaction_hash existing \<noteq> hash \<or> sev_amount_minor existing \<noteq> ser_amount_minor body \<or>
            sev_event_reference existing \<noteq> event_reference
         then Inl (Conflict ''market_settlement_evidence_conflict'')
         else Inr ((200, existing), d)
     | None \<Rightarrow>
         if stc_item_status c \<noteq> ''submitted'' \<or> stc_submitted_tx_hash c \<noteq> Some hash
           then Inl (Conflict ''market_settlement_item_not_submitted'')
         else if stc_recipient_address c \<noteq> recipient_address \<or> stc_payout_minor c \<noteq> ser_amount_minor body
           then Inl (Conflict ''market_settlement_evidence_mismatch'')
         else
         bind_result (or_db_error settlement_db_error (sql_insert settlement_evidence_check settlement_evidence_clash
             (new_settlement_evidence q c body hash event_reference) (settlement_evidence d))) (\<lambda>evidence_rows.
         bind_result (settlement_audit (new_uuid q 1) (stc_organization_id c)
             ''prediction_market.settlement.confirm'' ''prediction_market_settlement_item'' item_id
             (JObj [(''market_id'', JStr (stc_market_id c)), (''settlement_run_id'', JStr (stc_settlement_run_id c)),
                (''evidence_id'', JStr (new_uuid q 0)), (''transaction_hash'', JStr hash),
                (''ledger_sequence'', JInt (ser_ledger_sequence body)),
                (''operation_index'', JInt (ser_operation_index body)),
                (''event_reference'', JStr event_reference)])
             (d\<lparr>settlement_evidence := evidence_rows,
                settlement_items := sql_update (\<lambda>i. st_id i = item_id)
                  (\<lambda>i. i\<lparr>st_status := ''confirmed'', st_accepted_evidence_id := Some (new_uuid q 0),
                         st_confirmed_at := Some (now_utc q 0), st_updated_at := sql_now q\<rparr>)
                  (settlement_items d)\<rparr>)) (\<lambda>d.
         bind_result (finalize_if_complete q c d) (\<lambda>d.
         bind_result (ok_or (load_settlement_evidence_tx item_id d) NotFound) (\<lambda>evidence.
         Inr ((201, evidence), d))))))))))))"

definition accept_settlement_evidence ::
  "env \<Rightarrow> draws \<Rightarrow> headers \<Rightarrow> uuid \<Rightarrow> SettlementEvidenceRequest \<Rightarrow> market_db \<Rightarrow>
   (api_error + nat \<times> SettlementEvidenceView) \<times> market_db" where
  "accept_settlement_evidence env q hdrs item_id body d =
     transaction (accept_settlement_evidence_tx env q hdrs item_id body) d"

section \<open>The status\<close>

text \<open>The latest run of the market that has items, with its items counted by state.\<close>

definition run_item_count :: "market_db \<Rightarrow> SettlementRunRecord \<Rightarrow> (string \<Rightarrow> bool) \<Rightarrow> int" where
  "run_item_count d r p = sql_count (\<lambda>i. st_settlement_run_id i = sr_id r \<and> p (st_status i)) (settlement_items d)"

definition settlement_status_view :: "market_db \<Rightarrow> SettlementRunRecord \<Rightarrow> SettlementStatusView" where
  "settlement_status_view d r =
     \<lparr>ssv_market_id = sr_market_id r, ssv_run_id = sr_id r, ssv_kind = sr_kind r, ssv_run_status = sr_status r,
      ssv_total_stake_minor = sr_total_stake_minor r, ssv_fee_minor = sr_fee_minor r,
      ssv_distributable_minor = sr_distributable_minor r, ssv_total_planned_minor = sr_total_planned_minor r,
      ssv_planned_items = run_item_count d r (\<lambda>_. True),
      ssv_submitted_items = run_item_count d r (\<lambda>s. s = ''submitted'' \<or> s = ''confirmed''),
      ssv_confirmed_items = run_item_count d r (\<lambda>s. s = ''confirmed''),
      ssv_failed_items = run_item_count d r (\<lambda>s. s = ''failed''),
      ssv_created_at = sr_created_at r, ssv_updated_at = sr_updated_at r\<rparr>"

definition get_settlement_status :: "env \<Rightarrow> uuid \<Rightarrow> market_db \<Rightarrow> api_error + SettlementStatusView" where
  "get_settlement_status env market_id d =
     bind_result (database_pool env) (\<lambda>_.
     map_sum id (settlement_status_view d)
       (ok_or (sql_latest sr_created_at (\<lambda>r. sr_market_id r = market_id \<and> run_item_count d r (\<lambda>_. True) > 0)
          (settlement_runs d)) NotFound))"

end
