(* ===== verification/Market_Effects.thy ===== *)
theory Market_Effects
  imports Markets Market_Settlement
begin

text \<open>
  What each handler of the off-chain market does to the tables when it succeeds, as elimination rules.
\<close>

section \<open>Market drafts and transitions\<close>

text \<open>The governance actions of \<open>markets.rs\<close> are not in the list that migration \<open>202607170009\<close> allows.\<close>

lemma governance_action_rejected:
  "market_governance_event i org m a ''market.create'' ps ns re ev d = Inr d' \<Longrightarrow> False"
  "market_governance_event i org m a ''market.transition'' ps ns re ev d = Inr d' \<Longrightarrow> False"
  by (simp_all add: market_governance_event_def insert_governance_Inr governance_check_def governance_actions_def)

lemma create_market_never: "create_market_tx env q hdrs b d \<noteq> Inr r"
proof
  assume "create_market_tx env q hdrs b d = Inr r"
  then show False
    unfolding create_market_tx_def Let_def
    by (elim bind_InrE if_InrE) (erule governance_action_rejected)
qed

lemma transition_market_never: "transition_market_tx env q hdrs mid b d \<noteq> Inr r"
proof
  assume "transition_market_tx env q hdrs mid b d = Inr r"
  then show False
    unfolding transition_market_tx_def Let_def
    by (elim bind_InrE if_InrE) (erule governance_action_rejected)
qed

section \<open>Positions\<close>

lemma sql_bigint_Inr [result_simps]: "sql_bigint x = Inr y \<longleftrightarrow> y = x \<and> i64_min \<le> x \<and> x \<le> i64_max"
  by (auto simp: sql_bigint_def ok_or_Inr)

lemma add_outcome_total_Inr: "add_outcome_total oid n rows = Inr rows' \<Longrightarrow>
    rows' = sql_update (\<lambda>o'. mo_id o' = oid) (\<lambda>o'. o'\<lparr>mo_total_active_minor := mo_total_active_minor o' + n\<rparr>) rows"
  by (simp add: add_outcome_total_def split: if_splits)

definition confirm_intent :: "draws \<Rightarrow> uuid \<Rightarrow> StakeIntentRecord list \<Rightarrow> StakeIntentRecord list" where
  "confirm_intent q iid rows = sql_update (\<lambda>i. si_id i = iid)
     (\<lambda>i. i\<lparr>si_status := ''confirmed'', si_confirmed_at := Some (now_utc q 0), si_updated_at := sql_now q\<rparr>) rows"

lemma accept_position_evidence_txE:
  assumes "accept_position_evidence_tx env q hdrs mid b d = Inr (x, d')"
  obtains (existing) e where "load_position_evidence_tx (ape_stake_intent_id b) d = Some e" "x = Inl e" "d' = d"
      "pe_tx_hash e = to_ascii_lowercase (trim (ape_tx_hash b))" "pe_amount_minor e = ape_amount_minor b"
  | (new) c rows os al where
      "stake_intent_context (ape_stake_intent_id b) d = Some c" "sic_market_id c = mid"
      "load_position_evidence_tx (ape_stake_intent_id b) d = None" "sic_intent_status c = ''submitted''"
      "sic_expected_amount_minor c = ape_amount_minor b" "0 < ape_amount_minor b"
      "active_exposure mid d + ape_amount_minor b \<le> sic_max_market_exposure_minor c"
      "sql_insert position_evidence_check position_evidence_clash
         (new_position_evidence q mid c b (to_ascii_lowercase (trim (ape_tx_hash b))) (trim (ape_contract_event_id b)))
         (position_evidence d) = Inr (position_evidence d @
         [new_position_evidence q mid c b (to_ascii_lowercase (trim (ape_tx_hash b))) (trim (ape_contract_event_id b))])"
      "upsert_position (sql_now q) (new_position q mid c b) (market_positions d) = Inr rows"
      "x = Inr (new_uuid q 0)"
      "d' = d\<lparr>position_evidence := position_evidence d @
           [new_position_evidence q mid c b (to_ascii_lowercase (trim (ape_tx_hash b))) (trim (ape_contract_event_id b))],
         market_positions := rows, market_outcomes := os,
         stake_intents := confirm_intent q (ape_stake_intent_id b) (stake_intents d), audit_logs := al\<rparr>"
proof (cases "load_position_evidence_tx (ape_stake_intent_id b) d")
  case (Some e)
  from assms obtain h er where h: "validate_tx_hash (ape_tx_hash b) = Inr h"
    and g: "\<not> (pe_tx_hash e \<noteq> h \<or> pe_amount_minor e \<noteq> ape_amount_minor b \<or> pe_contract_event_id e \<noteq> er)"
    and fin: "Inr (Inl e, d) = (Inr (x, d') :: api_error + _)"
    unfolding accept_position_evidence_tx_def Let_def Some option.case
    by (elim bind_InrE if_InrE) (rule that, assumption+)
  show ?thesis
    by (rule existing [OF Some]) (use h g fin in \<open>auto simp: validate_tx_hash_def validate_hash_Inr\<close>)
next
  case None
  from assms obtain h er src c ce es rows os d1 where
    h: "validate_tx_hash (ape_tx_hash b) = Inr h"
    and er: "required_text (ape_contract_event_id b) 240 ''invalid_market_event_id'' = Inr er"
    and g0: "\<not> (ape_ledger_sequence b \<le> 0 \<or> ape_amount_minor b \<le> 0 \<or> \<not> is_object (ape_evidence b))"
    and c: "ok_or (stake_intent_context (ape_stake_intent_id b) d) NotFound = Inr c"
    and m: "\<not> sic_market_id c \<noteq> mid"
    and st: "\<not> sic_intent_status c \<noteq> ''submitted''"
    and am: "\<not> (sic_expected_amount_minor c \<noteq> ape_amount_minor b \<or> sic_source_address c \<noteq> src)"
    and ce: "or_db_error positions_db_error (sql_bigint (active_exposure mid d)) = Inr ce"
    and lim: "\<not> (case checked_i64 (ce + ape_amount_minor b) of
               None \<Rightarrow> True | Some exposure \<Rightarrow> exposure > sic_max_market_exposure_minor c)"
    and ins: "or_db_error positions_db_error (sql_insert position_evidence_check position_evidence_clash
             (new_position_evidence q mid c b h er) (position_evidence d)) = Inr es"
    and ups: "or_db_error positions_db_error (upsert_position (sql_now q) (new_position q mid c b)
             (market_positions d)) = Inr rows"
    and out: "or_db_error positions_db_error (add_outcome_total (sic_outcome_id c)
             (ape_amount_minor b) (market_outcomes d)) = Inr os"
    and aud: "insert_market_audit positions_db_error (new_uuid q 2) (sic_organization_id c) None
             ''prediction_market.position.accept'' ''prediction_market_position_evidence'' (new_uuid q 0)
             (JObj [(''market_id'', JStr mid), (''stake_intent_id'', JStr (ape_stake_intent_id b)),
                (''tx_hash'', JStr h), (''ledger_sequence'', JInt (ape_ledger_sequence b)),
                (''contract_event_id'', JStr er)])
             (d\<lparr>position_evidence := es, market_positions := rows, market_outcomes := os,
                stake_intents := sql_update (\<lambda>i. si_id i = ape_stake_intent_id b)
                  (\<lambda>i. i\<lparr>si_status := ''confirmed'', si_confirmed_at := Some (now_utc q 0),
                         si_updated_at := sql_now q\<rparr>) (stake_intents d)\<rparr>) = Inr d1"
    and fin: "Inr (Inr (new_uuid q 0), d1) = (Inr (x, d') :: api_error + _)"
    unfolding accept_position_evidence_tx_def Let_def None option.case
    by (elim bind_InrE if_InrE) (rule that, assumption+)
  have h': "h = to_ascii_lowercase (trim (ape_tx_hash b))" and er': "er = trim (ape_contract_event_id b)"
    using h er by (simp_all add: validate_tx_hash_def validate_hash_Inr required_text_Inr)
  have lim': "active_exposure mid d + ape_amount_minor b \<le> sic_max_market_exposure_minor c"
    using lim ce by (auto simp: or_db_error_Inr sql_bigint_Inr split: option.splits)
  from aud fin obtain al where d': "d' = d\<lparr>position_evidence := es, market_positions := rows, market_outcomes := os,
      stake_intents := confirm_intent q (ape_stake_intent_id b) (stake_intents d), audit_logs := al\<rparr>"
    by (auto simp: insert_market_audit_Inr confirm_intent_def)
  show ?thesis
    by (rule new [where c = c and rows = rows and os = os and al = al])
      (use c m st am g0 lim' ins ups fin d' None in
        \<open>auto simp: ok_or_Inr or_db_error_Inr sql_insert_Inr h' [symmetric] er' [symmetric]\<close>)
qed

section \<open>Plans\<close>

lemma map_fst_spread: "map fst (spread r i rows) = map fst rows"
proof (induction r i rows rule: spread.induct)
  case (1 r i rows)
  show ?case
  proof (cases "0 < r")
    case True
    have "map fst (rows[i := bump (rows ! i)]) = map fst rows"
      by (cases "i < length rows") (simp_all add: map_update bump_def list_update_same_conv list_update_beyond)
    with "1.IH" [OF True] True show ?thesis by (subst spread.simps) simp
  next
    case False
    then show ?thesis by (subst spread.simps) simp
  qed
qed

lemma allocate_fst: "allocate D W ps acc = Inr r \<Longrightarrow> map fst (fst r) = ps"
  by (induction ps arbitrary: acc r) (auto simp: bind_result_Inr)

lemma plan_settlement_Inr:
  assumes "plan_settlement kind w fee ps = Inr pl"
  obtains P where "mset (map fst (pl_rows pl)) = mset (filter P ps)"
    "(\<Sum>r \<leftarrow> pl_rows pl. snd r) = pl_distributable_minor pl"
    "pl_distributable_minor pl + pl_fee_minor pl = pl_total_stake_minor pl"
    "pl_total_planned_minor pl = pl_distributable_minor pl"
proof -
  from assms obtain tot win f D rows tp where
    D: "ok_or (checked_i64 (tot - f)) amount_overflow = Inr D"
    and rows: "(case win of Some winner \<Rightarrow> payout_rows winner D ps
          | None \<Rightarrow> Inr (map (\<lambda>p. (p, ap_amount_minor p)) ps)) = Inr rows"
    and tp: "total_of snd (sort_key (\<lambda>r. ap_position_id (fst r)) rows) = Inr tp"
    and eq: "\<not> tp \<noteq> D"
    and fin: "Inr \<lparr>pl_winning_outcome_id = win, pl_total_stake_minor = tot, pl_fee_minor = f,
         pl_distributable_minor = D, pl_total_planned_minor = tp,
         pl_rows = sort_key (\<lambda>r. ap_position_id (fst r)) rows\<rparr> = (Inr pl :: api_error + _)"
    unfolding plan_settlement_def Let_def
    by (elim bind_InrE if_InrE) (rule that, assumption+)
  have "\<exists>P. map fst rows = filter P ps"
  proof (cases win)
    case None
    then have "map fst rows = filter (\<lambda>_. True) ps" using rows by (auto simp: comp_def)
    then show ?thesis by (rule exI [of _ "\<lambda>_. True"])
  next
    case (Some winner)
    with rows obtain ws r where "allocate D ws (filter (\<lambda>p. ap_outcome_id p = winner) ps) 0 = Inr r"
      "rows = spread (D - snd r) 0 (fst r)"
      by (auto simp: payout_rows_def Let_def bind_result_Inr split: if_splits)
    then have "map fst rows = filter (\<lambda>p. ap_outcome_id p = winner) ps"
      by (simp add: map_fst_spread allocate_fst)
    then show ?thesis by (rule exI [of _ "\<lambda>p. ap_outcome_id p = winner"])
  qed
  then obtain P where P: "map fst rows = filter P ps" ..
  have "mset (map fst (sort_key (\<lambda>r. ap_position_id (fst r)) rows)) = mset (map fst rows)"
    by (metis mset_map mset_sort)
  with P fin have "mset (map fst (pl_rows pl)) = mset (filter P ps)" by auto
  then show ?thesis
    by (rule that) (use fin D tp eq total_of_Inr [OF tp] in \<open>auto simp: ok_or_Inr\<close>)
qed

fun item_rows :: "draws \<Rightarrow> nat \<Rightarrow> uuid \<Rightarrow> (ActivePosition \<times> int) list \<Rightarrow> SettlementItemView list" where
  "item_rows q n rid [] = []"
| "item_rows q n rid (row # rest) =
     \<lparr>st_id = new_uuid q n, st_settlement_run_id = rid, st_position_id = ap_position_id (fst row),
        st_recipient_stellar_account_id = ap_stellar_account_id (fst row),
        st_principal_minor = ap_amount_minor (fst row), st_payout_minor = snd row, st_status = ''planned'',
        st_submitted_tx_hash = None, st_accepted_evidence_id = None, st_confirmed_at = None,
        st_created_at = sql_now q, st_updated_at = sql_now q\<rparr> # item_rows q (n + 1) rid rest"

lemma insert_items_Inr: "insert_items q n rid rows items = Inr items' \<Longrightarrow> items' = items @ item_rows q n rid rows"
proof (induction rows arbitrary: n items)
  case (Cons row rows)
  from Cons.prems obtain items1 where i: "items1 = items @ item_rows q n rid [row]"
    "insert_items q (n + 1) rid rows items1 = Inr items'"
    by (auto simp: bind_result_Inr or_db_error_Inr sql_insert_Inr)
  from Cons.IH [OF i(2)] i(1) show ?case by simp
qed simp

lemma insert_items_distinct:
  "insert_items q n rid rows items = Inr items' \<Longrightarrow> distinct (map st_id items) \<Longrightarrow> distinct (map st_id items')"
proof (induction rows arbitrary: n items)
  case (Cons row rows)
  from Cons.prems(1) obtain items1 where i: "sql_insert settlement_item_check settlement_item_clash
      (hd (item_rows q n rid [row])) items = Inr items1" "insert_items q (n + 1) rid rows items1 = Inr items'"
    by (auto simp: bind_result_Inr or_db_error_Inr)
  from Cons.IH [OF i(2) item_ids.insert_distinct [OF Cons.prems(2) i(1)]] show ?case .
qed simp

lemma item_rows_facts:
  "map st_position_id (item_rows q n rid rows) = map (\<lambda>r. ap_position_id (fst r)) rows"
  "map st_payout_minor (item_rows q n rid rows) = map snd rows"
  "i \<in> set (item_rows q n rid rows) \<Longrightarrow> st_settlement_run_id i = rid \<and> st_status i = ''planned'' \<and>
     (\<exists>r \<in> set rows. st_position_id i = ap_position_id (fst r))"
  by (induction q n rid rows rule: item_rows.induct) auto

lemma create_settlement_plan_txE:
  assumes "create_settlement_plan_tx env q hdrs mid key re d = Inr (x, d')"
  obtains (existing) r where "r \<in> set (settlement_runs d)" "x = (200, sr_id r)" "d' = d"
  | (new) m actor kind k pl gs al where
      "find (\<lambda>m. mk_id m = mid) (prediction_markets d) = Some m"
      "mk_status m = ''resolved'' \<and> kind = ''payout'' \<or> mk_status m = ''cancelled'' \<and> kind = ''refund''"
      "plan_settlement kind (mk_winning_outcome_id m) (mk_fee_bps m) (active_positions mid d) = Inr pl"
      "sql_insert settlement_run_check settlement_run_clash (new_run q actor m kind k pl) (settlement_runs d)
         = Inr (settlement_runs d @ [new_run q actor m kind k pl])"
      "insert_items q 1 (new_uuid q 0) (pl_rows pl) (settlement_items d)
         = Inr (settlement_items d @ item_rows q 1 (new_uuid q 0) (pl_rows pl))"
      "x = (201, new_uuid q 0)"
      "d' = d\<lparr>settlement_runs := settlement_runs d @ [new_run q actor m kind k pl],
         settlement_items := settlement_items d @ item_rows q 1 (new_uuid q 0) (pl_rows pl),
         prediction_markets := sql_update (\<lambda>m. mk_id m = mid)
           (\<lambda>m. m\<lparr>mk_status := ''settling'', mk_updated_at := sql_now q\<rparr>) (prediction_markets d),
         governance_events := gs, audit_logs := al\<rparr>"
proof -
  from assms obtain actor k re' m where
    m: "ok_or (find (\<lambda>m. mk_id m = mid) (prediction_markets d)) NotFound = Inr m"
    and rest: "(if mk_status m = ''settling'' \<or> mk_status m = ''settled'' then
       (case sql_latest sr_created_at (\<lambda>r. sr_market_id r = mid \<and> sr_idempotency_key r = k)
          (settlement_runs d) of
          Some existing \<Rightarrow> Inr ((200, sr_id existing), d)
        | None \<Rightarrow> Inl (Conflict ''market_settlement_already_started''))
     else if mk_status m \<noteq> ''resolved'' \<and> mk_status m \<noteq> ''cancelled''
       then Inl (Conflict ''market_not_resolved_or_cancelled'')
     else case find (\<lambda>r. sr_market_id r = mid \<and> sr_kind r =
         (if mk_status m = ''resolved'' then ''payout'' else ''refund'') \<and> sr_idempotency_key r = k)
       (settlement_runs d) of
       Some existing \<Rightarrow> Inr ((200, sr_id existing), d)
     | None \<Rightarrow>
         bind_result (plan_settlement (if mk_status m = ''resolved'' then ''payout'' else ''refund'')
             (mk_winning_outcome_id m) (mk_fee_bps m) (active_positions mid d)) (\<lambda>plan.
         bind_result (write_plan q actor m (if mk_status m = ''resolved'' then ''payout'' else ''refund'') k re' plan d)
           (\<lambda>d. Inr ((201, new_uuid q 0), d)))) = (Inr (x, d') :: api_error + _)"
    unfolding create_settlement_plan_tx_def Let_def
    by (elim bind_InrE) (rule that, assumption+)
  have mid: "mk_id m = mid" using m by (auto simp: ok_or_Inr dest: find_Some_in)
  let ?kind = "if mk_status m = ''resolved'' then ''payout'' else ''refund''"
  show ?thesis
  proof (cases "mk_status m = ''settling'' \<or> mk_status m = ''settled''")
    case True
    with rest show ?thesis by (auto split: option.splits dest!: sql_latest_Some intro: existing)
  next
    case False
    then have st: "mk_status m = ''resolved'' \<or> mk_status m = ''cancelled''" using rest by (auto split: if_splits)
    show ?thesis
    proof (cases "find (\<lambda>r. sr_market_id r = mid \<and> sr_kind r = ?kind \<and> sr_idempotency_key r = k) (settlement_runs d)")
      case (Some r)
      with rest False st show ?thesis by (auto dest: find_Some_in intro: existing)
    next
      case None
      from rest False st None obtain pl where
        pl: "plan_settlement ?kind (mk_winning_outcome_id m) (mk_fee_bps m) (active_positions mid d) = Inr pl"
        and w: "write_plan q actor m ?kind k re' pl d = Inr d'" and x: "x = (201, new_uuid q 0)"
        by (auto simp: bind_result_Inr split: if_splits)
      from w obtain items gs al where
        ins: "sql_insert settlement_run_check settlement_run_clash (new_run q actor m ?kind k pl) (settlement_runs d)
          = Inr (settlement_runs d @ [new_run q actor m ?kind k pl])"
        and it: "insert_items q 1 (new_uuid q 0) (pl_rows pl) (settlement_items d) = Inr items"
        and d': "d' = d\<lparr>settlement_runs := settlement_runs d @ [new_run q actor m ?kind k pl],
         settlement_items := items, prediction_markets := sql_update (\<lambda>m. mk_id m = mid)
           (\<lambda>m. m\<lparr>mk_status := ''settling'', mk_updated_at := sql_now q\<rparr>) (prediction_markets d),
         governance_events := gs, audit_logs := al\<rparr>"
        using mid by (auto simp: write_plan_def Let_def bind_result_Inr or_db_error_Inr sql_insert_Inr
            insert_governance_Inr insert_market_audit_Inr new_run_def)
      show ?thesis
        by (rule new [OF _ _ pl ins _ x])
          (use m st it insert_items_Inr [OF it] d' in \<open>auto simp: ok_or_Inr\<close>)
    qed
  qed
qed

section \<open>Payments\<close>

lemma load_context_tx_Inr:
  assumes "load_context_tx iid d = Inr c"
  obtains i r where "find (\<lambda>i. st_id i = iid) (settlement_items d) = Some i"
    "find (\<lambda>r. sr_id r = st_settlement_run_id i) (settlement_runs d) = Some r"
    "stc_item_id c = iid" "stc_settlement_run_id c = sr_id r" "stc_market_id c = sr_market_id r"
    "stc_run_kind c = sr_kind r" "stc_payout_minor c = st_payout_minor i" "stc_item_status c = st_status i"
    "stc_recipient_stellar_account_id c = st_recipient_stellar_account_id i"
    "stc_submitted_tx_hash c = st_submitted_tx_hash i" "stc_accepted_evidence_id c = st_accepted_evidence_id i"
    "st_id i = iid" "sr_id r = st_settlement_run_id i"
proof -
  from assms obtain i r where i: "find (\<lambda>i. st_id i = iid) (settlement_items d) = Some i"
    and r: "find (\<lambda>r. sr_id r = st_settlement_run_id i) (settlement_runs d) = Some r"
    and c: "stc_item_id c = st_id i" "stc_settlement_run_id c = st_settlement_run_id i"
    "stc_market_id c = sr_market_id r" "stc_run_kind c = sr_kind r" "stc_payout_minor c = st_payout_minor i"
    "stc_item_status c = st_status i"
    "stc_recipient_stellar_account_id c = st_recipient_stellar_account_id i"
    "stc_submitted_tx_hash c = st_submitted_tx_hash i" "stc_accepted_evidence_id c = st_accepted_evidence_id i"
    by (auto simp: load_context_tx_def split: option.splits)
  from find_Some_in [OF i] find_Some_in [OF r] show ?thesis
    by (intro that [OF i r]) (simp_all add: c)
qed

lemma sql_update_unique_Inr: "sql_update_unique clash p f rows = Inr rows' \<longleftrightarrow>
    rows' = sql_update p f rows \<and> (\<forall>r \<in> set rows. \<forall>s \<in> set rows. p r \<and> \<not> p s \<longrightarrow> \<not> clash (f r) s)"
  by (auto simp: sql_update_unique_def list_ex_iff)

definition mark_submitted :: "draws \<Rightarrow> uuid \<Rightarrow> string \<Rightarrow> SettlementItemView list \<Rightarrow> SettlementItemView list" where
  "mark_submitted q iid h items = sql_update (\<lambda>i. st_id i = iid \<and> st_status i = ''planned'')
     (\<lambda>i. i\<lparr>st_status := ''submitted'', st_submitted_tx_hash := Some h, st_updated_at := sql_now q\<rparr>) items"

definition mark_confirmed :: "draws \<Rightarrow> uuid \<Rightarrow> SettlementItemView list \<Rightarrow> SettlementItemView list" where
  "mark_confirmed q iid items = sql_update (\<lambda>i. st_id i = iid)
     (\<lambda>i. i\<lparr>st_status := ''confirmed'', st_accepted_evidence_id := Some (new_uuid q 0),
            st_confirmed_at := Some (now_utc q 0), st_updated_at := sql_now q\<rparr>) items"

lemma record_settlement_submission_txE:
  assumes "record_settlement_submission_tx env q hdrs iid raw d = Inr (x, d')"
  obtains (existing) "d' = d"
  | (new) c al where "load_context_tx iid d = Inr c" "stc_item_status c = ''planned''"
      "sql_update_unique settlement_item_clash (\<lambda>i. st_id i = iid \<and> st_status i = ''planned'')
         (\<lambda>i. i\<lparr>st_status := ''submitted'', st_submitted_tx_hash := Some (to_ascii_lowercase (trim raw)),
            st_updated_at := sql_now q\<rparr>) (settlement_items d)
         = Inr (mark_submitted q iid (to_ascii_lowercase (trim raw)) (settlement_items d))"
      "d' = d\<lparr>settlement_items := mark_submitted q iid (to_ascii_lowercase (trim raw)) (settlement_items d),
         settlement_runs := sql_update (\<lambda>r. sr_id r = stc_settlement_run_id c \<and> sr_status r = ''planned'')
           (\<lambda>r. r\<lparr>sr_status := ''submitting'', sr_updated_at := sql_now q\<rparr>) (settlement_runs d),
         audit_logs := al\<rparr>"
proof -
  from assms obtain h c where h: "validate_hash raw ''invalid_market_settlement_transaction_hash'' = Inr h"
    and c: "load_context_tx iid d = Inr c"
    and rest: "(if stc_item_status c = ''submitted'' then
       (if stc_submitted_tx_hash c \<noteq> Some h then Inl (Conflict ''market_settlement_submission_conflict'')
        else Inr ((), d))
     else if stc_item_status c \<noteq> ''planned'' \<or>
        \<not> List.member [''planned'', ''submitting'', ''submitted''] (stc_run_status c)
       then Inl (Conflict ''market_settlement_item_not_submittable'')
     else
     bind_result (or_db_error settlement_db_error (sql_update_unique settlement_item_clash
         (\<lambda>i. st_id i = iid \<and> st_status i = ''planned'')
         (\<lambda>i. i\<lparr>st_status := ''submitted'', st_submitted_tx_hash := Some h, st_updated_at := sql_now q\<rparr>)
         (settlement_items d))) (\<lambda>items.
     bind_result (settlement_audit (new_uuid q 0) (stc_organization_id c) ''prediction_market.settlement.submit''
         ''prediction_market_settlement_item'' iid
         (JObj [(''market_id'', JStr (stc_market_id c)), (''settlement_run_id'', JStr (stc_settlement_run_id c)),
            (''transaction_hash'', JStr h)])
         (d\<lparr>settlement_items := items,
            settlement_runs := sql_update (\<lambda>r. sr_id r = stc_settlement_run_id c \<and> sr_status r = ''planned'')
              (\<lambda>r. r\<lparr>sr_status := ''submitting'', sr_updated_at := sql_now q\<rparr>) (settlement_runs d)\<rparr>)) (\<lambda>d.
     Inr ((), d)))) = (Inr (x, d') :: api_error + _)"
    unfolding record_settlement_submission_tx_def Let_def
    by (elim bind_InrE if_InrE) (rule that, assumption+)
  have h': "h = to_ascii_lowercase (trim raw)" using h by (simp add: validate_hash_Inr)
  show ?thesis
  proof (cases "stc_item_status c = ''submitted''")
    case True
    with rest show ?thesis by (auto split: if_splits intro: existing)
  next
    case False
    with rest have st: "stc_item_status c = ''planned''" by (auto split: if_splits)
    with rest obtain items al where
      "sql_update_unique settlement_item_clash (\<lambda>i. st_id i = iid \<and> st_status i = ''planned'')
         (\<lambda>i. i\<lparr>st_status := ''submitted'', st_submitted_tx_hash := Some h, st_updated_at := sql_now q\<rparr>)
         (settlement_items d) = Inr items"
      "d' = d\<lparr>settlement_items := items,
         settlement_runs := sql_update (\<lambda>r. sr_id r = stc_settlement_run_id c \<and> sr_status r = ''planned'')
           (\<lambda>r. r\<lparr>sr_status := ''submitting'', sr_updated_at := sql_now q\<rparr>) (settlement_runs d), audit_logs := al\<rparr>"
      by (auto simp: bind_result_Inr or_db_error_Inr settlement_audit_def insert_market_audit_Inr split: if_splits)
    with c st show ?thesis
      by (intro new [of c al]) (auto simp: h' [symmetric] mark_submitted_def sql_update_unique_Inr)
  qed
qed

lemma finalize_if_completeE:
  assumes "finalize_if_complete q c d = Inr d'"
  obtains (open_items) i where "i \<in> set (settlement_items d)" "st_settlement_run_id i = stc_settlement_run_id c"
      "st_status i \<noteq> ''confirmed''" "d' = d"
  | (complete) gs al where "\<And>i. i \<in> set (settlement_items d) \<Longrightarrow> st_settlement_run_id i = stc_settlement_run_id c \<Longrightarrow>
        st_status i = ''confirmed''"
      "d' = d\<lparr>settlement_runs := sql_update (\<lambda>r. sr_id r = stc_settlement_run_id c)
               (\<lambda>r. r\<lparr>sr_status := ''confirmed'', sr_updated_at := sql_now q\<rparr>) (settlement_runs d),
             market_positions := sql_update (\<lambda>p. po_market_id p = stc_market_id c \<and> po_status p = ''active'')
               (\<lambda>p. p\<lparr>po_status := settlement_position_status c,
                      po_settled_at := coalesce (po_settled_at p) (sql_now q), po_updated_at := sql_now q\<rparr>)
               (market_positions d),
             prediction_markets := sql_update (\<lambda>m. mk_id m = stc_market_id c \<and> mk_status m = ''settling'')
               (\<lambda>m. m\<lparr>mk_status := ''settled'', mk_updated_at := sql_now q\<rparr>) (prediction_markets d),
             governance_events := gs, audit_logs := al\<rparr>"
proof (cases "\<exists>i \<in> set (settlement_items d). st_settlement_run_id i = stc_settlement_run_id c \<and> st_status i \<noteq> ''confirmed''")
  case True
  then have "sql_count (\<lambda>i. st_settlement_run_id i = stc_settlement_run_id c \<and> st_status i \<noteq> ''confirmed'')
      (settlement_items d) \<noteq> 0" by (auto simp: sql_count_def filter_empty_conv)
  with assms have "d' = d" by (simp add: finalize_if_complete_def)
  with True open_items show ?thesis by blast
next
  case False
  then have "sql_count (\<lambda>i. st_settlement_run_id i = stc_settlement_run_id c \<and> st_status i \<noteq> ''confirmed'')
      (settlement_items d) = 0" by (auto simp: sql_count_def filter_empty_conv)
  with assms show ?thesis
    by (intro complete) (use False in \<open>auto simp: finalize_if_complete_def bind_result_Inr insert_governance_Inr
        settlement_audit_def insert_market_audit_Inr\<close>)
qed

lemma accept_settlement_evidence_txE:
  assumes "accept_settlement_evidence_tx env q hdrs iid b d = Inr ((status, v), d')"
  obtains (existing) "load_settlement_evidence_tx iid d = Some v" "status = 200" "d' = d"
      "sev_transaction_hash v = to_ascii_lowercase (trim (ser_transaction_hash b))"
      "sev_amount_minor v = ser_amount_minor b" "sev_event_reference v = trim (ser_event_reference b)"
  | (new) c e al where "load_context_tx iid d = Inr c" "load_settlement_evidence_tx iid d = None"
      "require_settlement_policy_tx (sql_now q) c d = Inr ()" "stc_item_status c = ''submitted''"
      "stc_submitted_tx_hash c = Some (se_transaction_hash e)" "stc_payout_minor c = se_amount_minor e"
      "stc_recipient_address c = to_ascii_uppercase (trim (ser_recipient_address b))"
      "e = new_settlement_evidence q c b (to_ascii_lowercase (trim (ser_transaction_hash b))) (trim (ser_event_reference b))"
      "sql_insert settlement_evidence_check settlement_evidence_clash e (settlement_evidence d)
         = Inr (settlement_evidence d @ [e])"
      "finalize_if_complete q c (d\<lparr>settlement_evidence := settlement_evidence d @ [e],
         settlement_items := mark_confirmed q iid (settlement_items d), audit_logs := al\<rparr>) = Inr d'"
      "status = 201" "load_settlement_evidence_tx iid d' = Some v"
proof (cases "load_settlement_evidence_tx iid d")
  case (Some v')
  from assms obtain h er where h: "validate_hash (ser_transaction_hash b) ''invalid_market_settlement_transaction_hash'' = Inr h"
    and er: "required_text (ser_event_reference b) 240 ''invalid_market_settlement_event_reference'' = Inr er"
    and g: "\<not> (sev_transaction_hash v' \<noteq> h \<or> sev_amount_minor v' \<noteq> ser_amount_minor b \<or> sev_event_reference v' \<noteq> er)"
    and fin: "Inr ((200, v'), d) = (Inr ((status, v), d') :: api_error + _)"
    unfolding accept_settlement_evidence_tx_def Let_def Some option.case
    by (elim bind_InrE if_InrE) (rule that, assumption+)
  show ?thesis
    by (rule existing) (use Some h er g fin in \<open>auto simp: validate_hash_Inr required_text_Inr\<close>)
next
  case None
  from assms obtain h er ra c u rows d1 d2 v1 where
    h: "validate_hash (ser_transaction_hash b) ''invalid_market_settlement_transaction_hash'' = Inr h"
    and er: "required_text (ser_event_reference b) 240 ''invalid_market_settlement_event_reference'' = Inr er"
    and ra: "validate_recipient (ser_recipient_address b) = Inr ra"
    and c: "load_context_tx iid d = Inr c"
    and pol: "require_settlement_policy_tx (sql_now q) c d = Inr u"
    and st: "\<not> (stc_item_status c \<noteq> ''submitted'' \<or> stc_submitted_tx_hash c \<noteq> Some h)"
    and am: "\<not> (stc_recipient_address c \<noteq> ra \<or> stc_payout_minor c \<noteq> ser_amount_minor b)"
    and ins: "or_db_error settlement_db_error (sql_insert settlement_evidence_check settlement_evidence_clash
             (new_settlement_evidence q c b h er) (settlement_evidence d)) = Inr rows"
    and aud: "settlement_audit (new_uuid q 1) (stc_organization_id c)
             ''prediction_market.settlement.confirm'' ''prediction_market_settlement_item'' iid
             (JObj [(''market_id'', JStr (stc_market_id c)), (''settlement_run_id'', JStr (stc_settlement_run_id c)),
                (''evidence_id'', JStr (new_uuid q 0)), (''transaction_hash'', JStr h),
                (''ledger_sequence'', JInt (ser_ledger_sequence b)),
                (''operation_index'', JInt (ser_operation_index b)),
                (''event_reference'', JStr er)])
             (d\<lparr>settlement_evidence := rows,
                settlement_items := sql_update (\<lambda>i. st_id i = iid)
                  (\<lambda>i. i\<lparr>st_status := ''confirmed'', st_accepted_evidence_id := Some (new_uuid q 0),
                         st_confirmed_at := Some (now_utc q 0), st_updated_at := sql_now q\<rparr>)
                  (settlement_items d)\<rparr>) = Inr d1"
    and fc: "finalize_if_complete q c d1 = Inr d2"
    and ev: "ok_or (load_settlement_evidence_tx iid d2) NotFound = Inr v1"
    and fin: "Inr ((201, v1), d2) = (Inr ((status, v), d') :: api_error + _)"
    unfolding accept_settlement_evidence_tx_def Let_def None option.case
    by (elim bind_InrE if_InrE) (rule that, assumption+)
  have h': "h = to_ascii_lowercase (trim (ser_transaction_hash b))" and er': "er = trim (ser_event_reference b)"
    and ra': "ra = to_ascii_uppercase (trim (ser_recipient_address b))"
    using h er ra by (simp_all add: validate_hash_Inr required_text_Inr validate_recipient_def validate_strkey_def
        Let_def split: if_splits)
  let ?e = "new_settlement_evidence q c b h er"
  from ins have ins': "sql_insert settlement_evidence_check settlement_evidence_clash ?e (settlement_evidence d)
      = Inr (settlement_evidence d @ [?e])" "rows = settlement_evidence d @ [?e]"
    by (auto simp: or_db_error_Inr sql_insert_Inr)
  from aud ins'(2) obtain al where d1: "d1 = d\<lparr>settlement_evidence := settlement_evidence d @ [?e],
      settlement_items := mark_confirmed q iid (settlement_items d), audit_logs := al\<rparr>"
    by (auto simp: settlement_audit_def insert_market_audit_Inr mark_confirmed_def)
  show ?thesis
  proof (rule new [of c ?e al])
    show "finalize_if_complete q c (d\<lparr>settlement_evidence := settlement_evidence d @ [?e],
         settlement_items := mark_confirmed q iid (settlement_items d), audit_logs := al\<rparr>) = Inr d'"
      using fc fin unfolding d1 by simp
    show "?e = new_settlement_evidence q c b (to_ascii_lowercase (trim (ser_transaction_hash b)))
        (trim (ser_event_reference b))" by (simp only: h' er')
  qed (use c None pol st am ins' ev fin ra' in \<open>auto simp: new_settlement_evidence_def ok_or_Inr\<close>)
qed

section \<open>Stake intents\<close>

lemma insert_stake_intentE:
  assumes "insert_stake_intent q m u a oid amount key w sha d = Inr ((status, i), d')"
  obtains x y where "current_user_exposure (sql_now q) (mk_id m) u d = Inr x"
    "x + amount \<le> mk_max_user_exposure_minor m"
    "current_market_exposure (sql_now q) (mk_id m) d = Inr y" "y + amount \<le> mk_max_market_exposure_minor m"
    "si_outcome_id i = oid" "si_user_id i = u" "si_stellar_account_id i = sa_id a" "si_amount_minor i = amount"
    "si_expires_at i \<le> mk_closes_at m" "stake_intents d' = stake_intents d @ [i]"
proof -
  from assms show ?thesis
    unfolding insert_stake_intent_def Let_def
    by (auto simp: bind_result_Inr if_Inl_Inr or_db_error_Inr ok_or_Inr market_audit_def insert_market_audit_Inr
        sql_insert_Inr intro!: that)
qed

lemma create_stake_intent_txE:
  assumes "create_stake_intent_tx env q hdrs mid b d = Inr ((201, i), d')"
  obtains u m key w a sha where "find (\<lambda>m. mk_id m = mid) (prediction_markets d) = Some m" "mk_status m = ''open''"
    "mk_opens_at m \<le> now_utc q 0" "now_utc q 0 < mk_closes_at m"
    "mk_min_stake_minor m \<le> csr_amount_minor b" "csr_amount_minor b \<le> mk_max_stake_minor m"
    "require_outcome mid (csr_outcome_id b) d = Inr ()"
    "require_policy_allow (sql_now q) mid (Some u) ''stake'' d = Inr ()"
    "a \<in> set (stellar_accounts d)" "sa_user_id a = u" "sa_verified_at a \<noteq> None"
    "insert_stake_intent q m u a (csr_outcome_id b) (csr_amount_minor b) key w sha d = Inr ((201, i), d')"
proof -
  from assms obtain u m key w a n1 n2 where
    m: "fetch_market_record mid d = Inr m"
    and g1: "\<not> mk_status m \<noteq> ''open''" and g2: "\<not> (now_utc q 0 < mk_opens_at m \<or> now_utc q 0 \<ge> mk_closes_at m)"
    and g3: "\<not> (csr_amount_minor b < mk_min_stake_minor m \<or> csr_amount_minor b > mk_max_stake_minor m)"
    and o: "require_outcome mid (csr_outcome_id b) d = Inr n1"
    and p: "require_policy_allow (sql_now q) mid (Some u) ''stake'' d = Inr n2"
    and a: "ok_or (find (\<lambda>a. sa_user_id a = u \<and> sa_network a = ''testnet'' \<and> sa_address a = w \<and>
         sa_verified_at a \<noteq> None) (stellar_accounts d)) Forbidden = Inr a"
    and rest: "(case find (\<lambda>i. si_organization_id i = mk_organization_id m \<and> si_user_id i = u \<and>
         si_idempotency_key i = key) (stake_intents d) of
       Some existing \<Rightarrow>
         if si_request_sha256 existing =
            hash_parts env [mid, csr_outcome_id b, u, w, decimal (csr_amount_minor b)] then Inr ((200, existing), d)
         else Inl (Conflict ''idempotency_key_reused_with_changed_request'')
     | None \<Rightarrow> insert_stake_intent q m u a (csr_outcome_id b) (csr_amount_minor b) key w
         (hash_parts env [mid, csr_outcome_id b, u, w, decimal (csr_amount_minor b)]) d) = Inr ((201, i), d')"
    unfolding create_stake_intent_tx_def Let_def
    by (elim bind_InrE if_InrE) (rule that, assumption+)
  from a have "a \<in> set (stellar_accounts d) \<and> sa_user_id a = u \<and> sa_verified_at a \<noteq> None"
    by (auto simp: ok_or_Inr dest: find_Some_in)
  moreover from rest have "insert_stake_intent q m u a (csr_outcome_id b) (csr_amount_minor b) key w
      (hash_parts env [mid, csr_outcome_id b, u, w, decimal (csr_amount_minor b)]) d = Inr ((201, i), d')"
    by (auto split: option.splits if_splits)
  ultimately show ?thesis
    using m g1 g2 g3 o p by (intro that) (auto simp: fetch_market_record_def ok_or_Inr)
qed

end
