(* ===== verification/Market_System.thy ===== *)
theory Market_System
  imports Market_Effects
begin

text \<open>
  The off-chain market as a system of requests: one step is one request, committed or rejected. The
  invariant \<open>market_inv\<close> ties positions to accepted evidence and to the exposure limit of their market,
  settlement items to their run and position, and every confirmed item to the chain evidence that paid it.
\<close>

section \<open>Steps\<close>

inductive market_step :: "env \<Rightarrow> market_db \<Rightarrow> market_db \<Rightarrow> bool" for env where
  step_create: "market_step env d (snd (create_market env q hdrs body d))"
| step_policy: "market_step env d (snd (record_policy_decision env q hdrs mid pbody d))"
| step_transition: "market_step env d (snd (transition_market env q hdrs mid tbody d))"
| step_intent: "market_step env d (snd (create_stake_intent env q hdrs mid ibody d))"
| step_read_intent: "market_step env d (snd (get_market_intent env q hdrs iid d))"
| step_submit: "market_step env d (snd (record_submission env q hdrs iid h d))"
| step_position: "market_step env d (snd (accept_position_evidence env q hdrs mid ebody d))"
| step_plan: "market_step env d (snd (create_settlement_plan env q hdrs mid key reason d))"
| step_pay: "market_step env d (snd (record_settlement_submission env q hdrs iid h d))"
| step_paid: "market_step env d (snd (accept_settlement_evidence env q hdrs iid sbody d))"

section \<open>The invariant\<close>

definition active_in :: "uuid \<Rightarrow> position_row \<Rightarrow> bool" where
  "active_in mid p \<longleftrightarrow> po_market_id p = mid \<and> po_status p = ''active''"

definition positions_ok :: "MarketRecord list \<Rightarrow> position_row list \<Rightarrow> PositionEvidenceRecord list \<Rightarrow> bool" where
  "positions_ok ms ps es \<longleftrightarrow> distinct (map mk_id ms) \<and> distinct (map po_id ps) \<and>
     distinct (map po_stake_intent_id ps) \<and>
     (\<forall>p \<in> set ps. 0 < po_amount_minor p \<and> po_stake_intent_id p \<in> pe_stake_intent_id ` set es) \<and>
     (\<forall>m \<in> set ms. sql_sum po_amount_minor (active_in (mk_id m)) ps \<le> mk_max_market_exposure_minor m \<and>
        mk_max_market_exposure_minor m \<le> i64_max \<and> 0 \<le> mk_fee_bps m \<and> mk_fee_bps m \<le> 1000)"

definition run_items :: "SettlementRunRecord \<Rightarrow> SettlementItemView list \<Rightarrow> SettlementItemView list" where
  "run_items r is = filter (\<lambda>i. st_settlement_run_id i = sr_id r) is"

definition run_ok :: "SettlementItemView list \<Rightarrow> SettlementRunRecord \<Rightarrow> bool" where
  "run_ok is r \<longleftrightarrow> (\<Sum>i \<leftarrow> run_items r is. st_payout_minor i) = sr_distributable_minor r \<and>
     sr_total_planned_minor r = sr_distributable_minor r \<and>
     sr_distributable_minor r + sr_fee_minor r = sr_total_stake_minor r \<and>
     (sr_status r = ''confirmed'' \<longrightarrow> (\<forall>i \<in> set (run_items r is). st_status i = ''confirmed''))"

definition in_settlement :: "MarketRecord \<Rightarrow> bool" where
  "in_settlement m \<longleftrightarrow> mk_status m = ''settling'' \<or> mk_status m = ''settled''"

definition runs_ok :: "MarketRecord list \<Rightarrow> SettlementRunRecord list \<Rightarrow> SettlementItemView list \<Rightarrow> bool" where
  "runs_ok ms rs is \<longleftrightarrow> distinct (map sr_id rs) \<and> distinct (map sr_market_id rs) \<and>
     (\<forall>r \<in> set rs. run_ok is r \<and> (\<exists>m \<in> set ms. mk_id m = sr_market_id r \<and> in_settlement m)) \<and>
     (\<forall>m \<in> set ms. mk_status m = ''settled'' \<longrightarrow> (\<exists>r \<in> set rs. sr_market_id r = mk_id m \<and> sr_status r = ''confirmed''))"

definition run_markets :: "SettlementRunRecord list \<Rightarrow> (uuid \<times> uuid) set" where
  "run_markets rs = (\<lambda>r. (sr_id r, sr_market_id r)) ` set rs"

definition position_markets :: "position_row list \<Rightarrow> (uuid \<times> uuid) set" where
  "position_markets ps = (\<lambda>p. (po_id p, po_market_id p)) ` set ps"

definition items_ok :: "position_row list \<Rightarrow> SettlementRunRecord list \<Rightarrow> SettlementItemView list \<Rightarrow> bool" where
  "items_ok ps rs is \<longleftrightarrow> distinct (map st_id is) \<and> distinct (map st_position_id is) \<and>
     (\<forall>i \<in> set is. \<exists>mid. (st_settlement_run_id i, mid) \<in> run_markets rs \<and> (st_position_id i, mid) \<in> position_markets ps)"

definition pays :: "settlement_evidence_row \<Rightarrow> SettlementItemView \<Rightarrow> bool" where
  "pays e i \<longleftrightarrow> se_settlement_item_id e = st_id i \<and> se_amount_minor e = st_payout_minor i \<and>
     se_settlement_run_id e = st_settlement_run_id i \<and>
     se_recipient_stellar_account_id e = st_recipient_stellar_account_id i \<and>
     st_submitted_tx_hash i = Some (se_transaction_hash e)"

definition payments_ok :: "SettlementItemView list \<Rightarrow> settlement_evidence_row list \<Rightarrow> bool" where
  "payments_ok is evs \<longleftrightarrow> distinct (map se_settlement_item_id evs) \<and>
     (\<forall>i \<in> set is. st_status i = ''confirmed'' \<longrightarrow> (\<exists>e \<in> set evs. pays e i)) \<and>
     (\<forall>e \<in> set evs. \<exists>i \<in> set is. st_status i = ''confirmed'' \<and> pays e i)"

definition market_inv :: "market_db \<Rightarrow> bool" where
  "market_inv d \<longleftrightarrow> positions_ok (prediction_markets d) (market_positions d) (position_evidence d) \<and>
     runs_ok (prediction_markets d) (settlement_runs d) (settlement_items d) \<and>
     items_ok (market_positions d) (settlement_runs d) (settlement_items d) \<and>
     payments_ok (settlement_items d) (settlement_evidence d)"

text \<open>A database before any settlement: markets and positions provisioned, no run yet.\<close>

definition market_start :: "market_db \<Rightarrow> bool" where
  "market_start d \<longleftrightarrow> positions_ok (prediction_markets d) (market_positions d) (position_evidence d) \<and>
     settlement_runs d = [] \<and> settlement_items d = [] \<and> settlement_evidence d = [] \<and>
     (\<forall>m \<in> set (prediction_markets d). \<not> in_settlement m)"

definition market_reachable :: "env \<Rightarrow> market_db \<Rightarrow> bool" where
  "market_reachable env d \<longleftrightarrow> (\<exists>d0. market_start d0 \<and> (market_step env)\<^sup>*\<^sup>* d0 d)"

lemma market_inv_start: "market_start d \<Longrightarrow> market_inv d"
  by (auto simp: market_start_def market_inv_def runs_ok_def items_ok_def payments_ok_def in_settlement_def)

section \<open>Sums\<close>

lemma sql_sum_append: "sql_sum g p (xs @ ys) = sql_sum g p xs + sql_sum g p ys"
  by (simp add: sql_sum_def)

lemma sql_sum_cong: "(\<And>x. x \<in> set xs \<Longrightarrow> p x = p' x) \<Longrightarrow> sql_sum g p xs = sql_sum g p' xs"
  unfolding sql_sum_def by (metis filter_cong)

lemma sql_sum_nonneg: "(\<And>x. x \<in> set xs \<Longrightarrow> 0 \<le> g x) \<Longrightarrow> 0 \<le> sql_sum g p xs"
  unfolding sql_sum_def by (intro sum_list_nonneg) auto

lemma sql_sum_update_le:
  assumes "\<And>x. x \<in> set xs \<Longrightarrow> 0 \<le> g x" "\<And>x. g (f x) = g x" "\<And>x. p (f x) \<Longrightarrow> p x"
  shows "sql_sum g p (sql_update u f xs) \<le> sql_sum g p xs"
  using assms(1) by (induction xs) (auto simp: sql_sum_def sql_update_def assms(2) dest: assms(3) intro: add_increasing)

section \<open>Frame\<close>

text \<open>The tables that the invariant reads.\<close>

definition money_tables where
  "money_tables d = (prediction_markets d, market_positions d, position_evidence d, settlement_runs d,
     settlement_items d, settlement_evidence d)"

lemma money_inv: "money_tables d' = money_tables d \<Longrightarrow> market_inv d \<Longrightarrow> market_inv d'"
  by (simp add: money_tables_def market_inv_def)

lemma transaction_money:
  assumes "\<And>x d'. body d = Inr (x, d') \<Longrightarrow> money_tables d' = money_tables d"
  shows "money_tables (snd (transaction body d)) = money_tables d"
  using assms by (cases rule: transaction_cases [of body d]) auto

lemma create_market_same: "snd (create_market env q hdrs b d) = d"
  by (rule transaction_cases [of "create_market_tx env q hdrs b" d])
    (simp_all add: create_market_def create_market_never)

lemma transition_market_same: "snd (transition_market env q hdrs mid b d) = d"
  by (rule transaction_cases [of "transition_market_tx env q hdrs mid b" d])
    (simp_all add: transition_market_def transition_market_never)

lemma record_policy_money: "money_tables (snd (record_policy_decision env q hdrs mid b d)) = money_tables d"
  unfolding record_policy_decision_def
  by (rule transaction_money)
    (auto simp: record_policy_decision_tx_def bind_result_Inr if_Inl_Inr Let_def market_audit_def
      insert_market_audit_Inr money_tables_def)

lemma create_intent_money: "money_tables (snd (create_stake_intent env q hdrs mid b d)) = money_tables d"
  unfolding create_stake_intent_def
  by (rule transaction_money)
    (auto simp: create_stake_intent_tx_def insert_stake_intent_def bind_result_Inr if_Inl_Inr Let_def market_audit_def
      insert_market_audit_Inr money_tables_def split: option.splits if_splits)

lemma expire_money: "money_tables (expire_intent_if_needed now iid d) = money_tables d"
  by (simp add: expire_intent_if_needed_def money_tables_def)

lemma get_intent_money: "money_tables (snd (get_market_intent env q hdrs iid d)) = money_tables d"
  by (simp add: get_market_intent_def Let_def expire_money split: sum.splits)

lemma submit_intent_money: "money_tables (snd (submit_intent q iid h i d)) = money_tables d"
  by (simp add: submit_intent_def money_tables_def split: sum.splits option.splits)

lemma record_submission_money: "money_tables (snd (record_submission env q hdrs iid h d)) = money_tables d"
  by (simp add: record_submission_def Let_def expire_money submit_intent_money split: sum.splits)

section \<open>Preservation\<close>

lemma positions_ok_insert:
  assumes ok: "positions_ok ms ps es" and m: "m \<in> set ms" "mk_id m = po_market_id p"
    and new: "po_status p = ''active''" "0 < po_amount_minor p" "po_stake_intent_id p \<in> pe_stake_intent_id ` set es'"
      "po_stake_intent_id p \<notin> po_stake_intent_id ` set ps" "po_id p \<notin> po_id ` set ps" "set es \<subseteq> set es'"
    and lim: "sql_sum po_amount_minor (active_in (mk_id m)) ps + po_amount_minor p \<le> mk_max_market_exposure_minor m"
  shows "positions_ok ms (ps @ [p]) es'"
proof -
  have "sql_sum po_amount_minor (active_in (mk_id m')) (ps @ [p]) \<le> mk_max_market_exposure_minor m'"
    if "m' \<in> set ms" for m'
  proof (cases "mk_id m' = mk_id m")
    case True
    then have "m' = m" using ok m(1) that by (auto simp: positions_ok_def distinct_map dest: inj_onD)
    with lim m(2) new(1) show ?thesis by (simp add: sql_sum_append) (simp add: sql_sum_def active_in_def)
  next
    case False
    then have "sql_sum po_amount_minor (active_in (mk_id m')) [p] = 0"
      using m(2) by (simp add: sql_sum_def active_in_def)
    with ok that show ?thesis by (simp add: sql_sum_append positions_ok_def)
  qed
  with ok new show ?thesis unfolding positions_ok_def by (auto 0 3)
qed

lemma stake_intent_context_market:
  "stake_intent_context iid d = Some c \<Longrightarrow> \<exists>m \<in> set (prediction_markets d). mk_id m = sic_market_id c \<and>
     mk_max_market_exposure_minor m = sic_max_market_exposure_minor c"
  by (auto simp: stake_intent_context_def split: option.splits dest!: find_Some_in)

lemma items_ok_mono:
  "items_ok ps rs is \<Longrightarrow> position_markets ps \<subseteq> position_markets ps' \<Longrightarrow> run_markets rs \<subseteq> run_markets rs' \<Longrightarrow>
   items_ok ps' rs' is"
  unfolding items_ok_def by blast

lemma position_evidence_inv:
  assumes inv: "market_inv d" and tx: "accept_position_evidence_tx env q hdrs mid b d = Inr (x, d')"
  shows "market_inv d'"
  using tx
proof (cases rule: accept_position_evidence_txE)
  case (existing e)
  then show ?thesis using inv by simp
next
  case (new c rows os al)
  let ?h = "to_ascii_lowercase (trim (ape_tx_hash b))" and ?er = "trim (ape_contract_event_id b)"
  let ?es = "position_evidence d @ [new_position_evidence q mid c b ?h ?er]" and ?p = "new_position q mid c b"
  from inv have ok: "positions_ok (prediction_markets d) (market_positions d) (position_evidence d)"
    by (simp add: market_inv_def)
  from stake_intent_context_market [OF new(1)] obtain m where m: "m \<in> set (prediction_markets d)"
    "mk_id m = mid" "mk_max_market_exposure_minor m = sic_max_market_exposure_minor c" using new(2) by auto
  have "ape_stake_intent_id b \<notin> pe_stake_intent_id ` set (position_evidence d)"
    using new(3) by (auto simp: load_position_evidence_tx_def find_None_iff)
  then have fresh: "ape_stake_intent_id b \<notin> po_stake_intent_id ` set (market_positions d)"
    using ok by (auto simp: positions_ok_def)
  then have "\<not> list_ex (\<lambda>p. po_stake_intent_id p = po_stake_intent_id ?p) (market_positions d)"
    by (auto simp: list_ex_iff new_position_def image_iff)
  then have "sql_insert position_check position_clash ?p (market_positions d) = Inr rows"
    using new(9) by (simp add: upsert_position_def split: if_splits)
  then have rows: "rows = market_positions d @ [?p]" "po_id ?p \<notin> po_id ` set (market_positions d)"
    by (auto simp: sql_insert_Inr position_clash_def)
  have "positions_ok (prediction_markets d) rows ?es"
    unfolding rows(1)
  proof (rule positions_ok_insert [OF ok m(1)])
    show "sql_sum po_amount_minor (active_in (mk_id m)) (market_positions d) + po_amount_minor ?p
        \<le> mk_max_market_exposure_minor m"
      using new(7) m(2,3) by (simp add: active_exposure_def active_in_def [abs_def] new_position_def)
  qed (use m fresh rows(2) new(6) in \<open>auto simp: new_position_def new_position_evidence_def\<close>)
  moreover have "items_ok rows (settlement_runs d) (settlement_items d)"
    by (rule items_ok_mono [of "market_positions d" "settlement_runs d"])
      (use inv in \<open>simp_all add: market_inv_def position_markets_def rows(1) subset_insertI\<close>)
  ultimately show ?thesis using inv by (simp add: market_inv_def new(11))
qed

lemma run_items_append:
  "run_items r (is @ js) = run_items r is @ run_items r js"
  by (simp add: run_items_def)

lemma items_ok_run: "items_ok ps rs is \<Longrightarrow> i \<in> set is \<Longrightarrow> st_settlement_run_id i \<in> sr_id ` set rs"
  by (force simp: items_ok_def run_markets_def)

lemma update_in_settlement:
  assumes "m \<in> set ms" "\<And>x. mk_id (f x) = mk_id x \<and> in_settlement (f x)" "p m \<or> in_settlement m"
  shows "\<exists>m' \<in> set (sql_update p f ms). mk_id m' = mk_id m \<and> in_settlement m'"
  using assms by (intro bexI [of _ "if p m then f m else m"]) (auto simp: set_sql_update)

lemma plan_inv:
  assumes inv: "market_inv d" and tx: "create_settlement_plan_tx env q hdrs mid key re d = Inr (x, d')"
  shows "market_inv d'"
  using tx
proof (cases rule: create_settlement_plan_txE)
  case (existing r)
  then show ?thesis using inv by simp
next
  case (new m actor kind k pl gs al)
  let ?r = "new_run q actor m kind k pl" and ?is = "item_rows q 1 (new_uuid q 0) (pl_rows pl)"
  let ?f = "\<lambda>m. m\<lparr>mk_status := ''settling'', mk_updated_at := sql_now q\<rparr>"
  let ?ms = "sql_update (\<lambda>m. mk_id m = mid) ?f (prediction_markets d)"
  from inv have P: "positions_ok (prediction_markets d) (market_positions d) (position_evidence d)"
    and R: "runs_ok (prediction_markets d) (settlement_runs d) (settlement_items d)"
    and I: "items_ok (market_positions d) (settlement_runs d) (settlement_items d)"
    and E: "payments_ok (settlement_items d) (settlement_evidence d)" by (simp_all add: market_inv_def)
  from find_Some_in [OF new(1)] have m: "m \<in> set (prediction_markets d)" "mk_id m = mid" by simp_all
  have dm: "distinct (map mk_id (prediction_markets d))" using P by (simp add: positions_ok_def)
  have st: "\<not> in_settlement m" "mk_status m \<noteq> ''settled''" using new(2) by (auto simp: in_settlement_def)
  have no_run: "mid \<notin> sr_market_id ` set (settlement_runs d)"
  proof
    assume "mid \<in> sr_market_id ` set (settlement_runs d)"
    then obtain m' where "m' \<in> set (prediction_markets d)" "mk_id m' = mid" "in_settlement m'"
      using R by (fastforce simp: runs_ok_def)
    with dm m st show False by (auto simp: distinct_map dest: inj_onD)
  qed
  have rid: "sr_id ?r = new_uuid q 0" "sr_market_id ?r = mid" "sr_status ?r = ''planned''"
    using m(2) by (simp_all add: new_run_def)
  have new_id: "new_uuid q 0 \<notin> sr_id ` set (settlement_runs d)"
    using run_ids.insert_new [OF new(4)] rid by simp
  have old_items: "run_items ?r (settlement_items d) = []"
    using items_ok_run [OF I] new_id unfolding run_items_def filter_empty_conv rid by metis
  have new_items: "run_items r ?is = (if sr_id r = new_uuid q 0 then ?is else [])" for r
    using item_rows_facts(3) by (auto simp: run_items_def filter_empty_conv filter_id_conv)
  from plan_settlement_Inr [OF new(3)] obtain Q where
    pl: "mset (map fst (pl_rows pl)) = mset (filter Q (active_positions mid d))"
    "(\<Sum>r \<leftarrow> pl_rows pl. snd r) = pl_distributable_minor pl"
    "pl_distributable_minor pl + pl_fee_minor pl = pl_total_stake_minor pl"
    "pl_total_planned_minor pl = pl_distributable_minor pl" by blast
  have ids: "mset (map ap_position_id (map fst (pl_rows pl))) = mset (map ap_position_id (filter Q (active_positions mid d)))"
    using arg_cong [OF pl(1), of "image_mset ap_position_id"] by (simp add: image_mset.compositionality)
  have "map ap_position_id (active_positions mid d) = map po_id (sort_key (\<lambda>p. (po_created_at p, po_id p))
       (filter (\<lambda>p. po_market_id p = mid \<and> po_status p = ''active'') (market_positions d)))"
    by (simp add: active_positions_def active_position_def comp_def)
  moreover have "distinct (map po_id (sort_key (\<lambda>p. (po_created_at p, po_id p))
       (filter (\<lambda>p. po_market_id p = mid \<and> po_status p = ''active'') (market_positions d))))"
    using P by (simp add: positions_ok_def distinct_map distinct_map_filter inj_on_def)
  ultimately have "distinct (map ap_position_id (filter Q (active_positions mid d)))"
    by (metis distinct_map_filter)
  then have dist: "distinct (map st_position_id ?is)"
    unfolding item_rows_facts(1) using ids by (metis (no_types, lifting) list.map_comp mset_eq_imp_distinct_iff comp_def map_eq_conv)
  have here: "(st_position_id i, mid) \<in> position_markets (market_positions d)" if "i \<in> set ?is" for i
  proof -
    from item_rows_facts(3) [OF that] obtain row where "row \<in> set (pl_rows pl)"
      "st_position_id i = ap_position_id (fst row)" by blast
    moreover from this pl(1) have "fst row \<in> set (active_positions mid d)"
      by (metis (no_types, lifting) filter_is_subset in_mono list.set_map imageI set_mset_mset)
    ultimately show ?thesis
      by (auto simp: active_positions_def active_position_def position_markets_def)
  qed
  have away: "st_position_id i \<notin> st_position_id ` set (settlement_items d)" if "i \<in> set ?is" for i
  proof
    assume "st_position_id i \<in> st_position_id ` set (settlement_items d)"
    then obtain j where j: "j \<in> set (settlement_items d)" "st_position_id j = st_position_id i" by auto
    with I obtain mid' where "(st_settlement_run_id j, mid') \<in> run_markets (settlement_runs d)"
      "(st_position_id i, mid') \<in> position_markets (market_positions d)" by (auto simp: items_ok_def)
    moreover from this here [OF that] P have "mid' = mid"
      by (auto simp: position_markets_def positions_ok_def distinct_map dest: inj_onD)
    ultimately show False using no_run by (auto simp: run_markets_def)
  qed
  have "positions_ok ?ms (market_positions d) (position_evidence d)"
    using P by (auto simp: positions_ok_def map_sql_update set_sql_update)
  moreover have "runs_ok ?ms (settlement_runs d @ [?r]) (settlement_items d @ ?is)"
    unfolding runs_ok_def
  proof (intro conjI ballI impI)
    show "distinct (map sr_id (settlement_runs d @ [?r]))" "distinct (map sr_market_id (settlement_runs d @ [?r]))"
      using R new_id no_run rid by (auto simp: runs_ok_def)
    fix r assume r: "r \<in> set (settlement_runs d @ [?r])"
    show "run_ok (settlement_items d @ ?is) r"
    proof (cases "r = ?r")
      case True
      then show ?thesis
        using rid pl(2-4) old_items new_items item_rows_facts(2) [of q 1 "new_uuid q 0" "pl_rows pl"]
        by (simp add: run_ok_def run_items_append new_run_def)
    next
      case False
      then have "r \<in> set (settlement_runs d)" using r by simp
      moreover from this have "sr_id r \<noteq> new_uuid q 0" using new_id by (metis imageI)
      ultimately show ?thesis using R new_items by (simp add: runs_ok_def run_ok_def run_items_append)
    qed
    from r R m(1) rid m(2) obtain m' where m': "m' \<in> set (prediction_markets d)" "mk_id m' = sr_market_id r"
      "mk_id m' = mid \<or> in_settlement m'" by (auto simp: runs_ok_def)
    show "\<exists>m \<in> set ?ms. mk_id m = sr_market_id r \<and> in_settlement m"
      using update_in_settlement [OF m'(1), of ?f "\<lambda>m. mk_id m = mid"] m'(2,3) by (simp add: in_settlement_def)
  next
    fix m' assume "m' \<in> set ?ms" "mk_status m' = ''settled''"
    then show "\<exists>r \<in> set (settlement_runs d @ [?r]). sr_market_id r = mk_id m' \<and> sr_status r = ''confirmed''"
      using R by (auto simp: runs_ok_def set_sql_update split: if_splits)
  qed
  moreover have "items_ok (market_positions d) (settlement_runs d @ [?r]) (settlement_items d @ ?is)"
    unfolding items_ok_def
  proof (intro conjI ballI)
    show "distinct (map st_id (settlement_items d @ ?is))"
      by (rule insert_items_distinct [OF new(5)]) (use I in \<open>simp add: items_ok_def\<close>)
    show "distinct (map st_position_id (settlement_items d @ ?is))"
      using I dist away by (auto simp: items_ok_def) (metis imageI)
    fix i assume "i \<in> set (settlement_items d @ ?is)"
    then show "\<exists>mid. (st_settlement_run_id i, mid) \<in> run_markets (settlement_runs d @ [?r]) \<and>
        (st_position_id i, mid) \<in> position_markets (market_positions d)"
    proof (cases "i \<in> set ?is")
      case True
      then have "(st_settlement_run_id i, mid) \<in> run_markets (settlement_runs d @ [?r])"
        using item_rows_facts(3) [OF True] rid by (simp add: run_markets_def)
      with here [OF True] show ?thesis by blast
    next
      case False
      then have "i \<in> set (settlement_items d)" using \<open>i \<in> set (settlement_items d @ ?is)\<close> by simp
      with I have "\<exists>mid. (st_settlement_run_id i, mid) \<in> run_markets (settlement_runs d) \<and>
          (st_position_id i, mid) \<in> position_markets (market_positions d)" by (simp only: items_ok_def)
      then show ?thesis unfolding run_markets_def by (metis (no_types, lifting) Un_iff image_Un set_append)
    qed
  qed
  moreover have "payments_ok (settlement_items d @ ?is) (settlement_evidence d)"
    using E item_rows_facts(3) [of _ q 1 "new_uuid q 0" "pl_rows pl"] by (fastforce simp: payments_ok_def)
  ultimately show ?thesis by (simp add: market_inv_def new(7))
qed

text \<open>An update of the items that keeps what a payment refers to.\<close>

lemma run_items_update:
  assumes "\<And>i. p i \<Longrightarrow> st_settlement_run_id (f i) = st_settlement_run_id i"
  shows "run_items r (sql_update p f is) = sql_update p f (run_items r is)"
  using assms by (induction "is") (auto simp: run_items_def sql_update_def)

lemma items_ok_update:
  assumes "items_ok ps rs is" "\<And>i. p i \<Longrightarrow> st_id (f i) = st_id i \<and> st_position_id (f i) = st_position_id i \<and>
      st_settlement_run_id (f i) = st_settlement_run_id i"
  shows "items_ok ps rs (sql_update p f is)"
  using assms by (auto simp: items_ok_def map_sql_update set_sql_update)

lemma run_markets_update:
  "(\<And>r. p r \<Longrightarrow> sr_id (f r) = sr_id r \<and> sr_market_id (f r) = sr_market_id r) \<Longrightarrow>
   run_markets (sql_update p f rs) = run_markets rs"
  unfolding run_markets_def set_sql_update image_image by (rule image_cong) auto

lemma position_markets_update:
  "(\<And>x. p x \<Longrightarrow> po_id (f x) = po_id x \<and> po_market_id (f x) = po_market_id x) \<Longrightarrow>
   position_markets (sql_update p f ps) = position_markets ps"
  unfolding position_markets_def set_sql_update image_image by (rule image_cong) auto

lemma run_ok_update:
  assumes "run_ok is r" "\<And>i. p i \<Longrightarrow> st_settlement_run_id (f i) = st_settlement_run_id i \<and>
      st_payout_minor (f i) = st_payout_minor i"
    and "\<And>i. i \<in> set is \<Longrightarrow> p i \<Longrightarrow> st_settlement_run_id i = sr_id r \<Longrightarrow> sr_status r = ''confirmed'' \<Longrightarrow>
      st_status (f i) = ''confirmed''"
  shows "run_ok (sql_update p f is) r"
proof -
  have s: "set (run_items r is) \<subseteq> {i \<in> set is. st_settlement_run_id i = sr_id r}" by (auto simp: run_items_def)
  show ?thesis
    using assms s by (auto simp: run_ok_def run_items_update map_sql_update set_sql_update subset_iff)
qed

lemma pay_submission_inv:
  assumes inv: "market_inv d" and tx: "record_settlement_submission_tx env q hdrs iid h d = Inr (x, d')"
  shows "market_inv d'"
  using tx
proof (cases rule: record_settlement_submission_txE)
  case existing
  then show ?thesis using inv by simp
next
  case (new c al)
  let ?h = "to_ascii_lowercase (trim h)"
  let ?rs = "sql_update (\<lambda>r. sr_id r = stc_settlement_run_id c \<and> sr_status r = ''planned'')
      (\<lambda>r. r\<lparr>sr_status := ''submitting'', sr_updated_at := sql_now q\<rparr>) (settlement_runs d)"
  let ?is = "mark_submitted q iid ?h (settlement_items d)"
  from inv have P: "positions_ok (prediction_markets d) (market_positions d) (position_evidence d)"
    and R: "runs_ok (prediction_markets d) (settlement_runs d) (settlement_items d)"
    and I: "items_ok (market_positions d) (settlement_runs d) (settlement_items d)"
    and E: "payments_ok (settlement_items d) (settlement_evidence d)" by (simp_all add: market_inv_def)
  have rk: "run_ok ?is r" if "r \<in> set (settlement_runs d)" for r
    unfolding mark_submitted_def
    by (rule run_ok_update) (use R that in \<open>auto simp: runs_ok_def run_ok_def run_items_def\<close>)
  have "runs_ok (prediction_markets d) ?rs ?is"
    unfolding runs_ok_def
  proof (intro conjI ballI impI)
    show "distinct (map sr_id ?rs)" "distinct (map sr_market_id ?rs)"
      using R by (simp_all add: runs_ok_def map_sql_update)
    fix r assume "r \<in> set ?rs"
    then obtain r0 where r0: "r0 \<in> set (settlement_runs d)" "r = r0 \<or> r = r0\<lparr>sr_status := ''submitting'', sr_updated_at := sql_now q\<rparr>"
      by (auto simp: set_sql_update)
    then show "run_ok ?is r" using rk [OF r0(1)] by (auto simp: run_ok_def run_items_def)
    show "\<exists>m \<in> set (prediction_markets d). mk_id m = sr_market_id r \<and> in_settlement m"
      using R r0 by (auto simp: runs_ok_def)
  next
    fix m assume "m \<in> set (prediction_markets d)" "mk_status m = ''settled''"
    then obtain r where "r \<in> set (settlement_runs d)" "sr_market_id r = mk_id m" "sr_status r = ''confirmed''"
      using R by (auto simp: runs_ok_def)
    then show "\<exists>r \<in> set ?rs. sr_market_id r = mk_id m \<and> sr_status r = ''confirmed''"
      by (intro bexI [of _ r]) (auto simp: set_sql_update intro!: image_eqI [of _ _ r])
  qed
  moreover have "items_ok (market_positions d) ?rs ?is"
  proof (rule items_ok_mono)
    show "items_ok (market_positions d) (settlement_runs d) ?is"
      unfolding mark_submitted_def using I by (rule items_ok_update) simp
    show "run_markets (settlement_runs d) \<subseteq> run_markets ?rs" by (simp add: run_markets_update)
  qed simp
  moreover have "payments_ok ?is (settlement_evidence d)"
    unfolding payments_ok_def
  proof (intro conjI ballI impI)
    show "distinct (map se_settlement_item_id (settlement_evidence d))" using E by (simp add: payments_ok_def)
    fix i assume "i \<in> set ?is" "st_status i = ''confirmed''"
    then have "i \<in> set (settlement_items d)" by (auto simp: mark_submitted_def set_sql_update split: if_splits)
    then show "\<exists>e \<in> set (settlement_evidence d). pays e i" using E \<open>st_status i = _\<close> by (simp add: payments_ok_def)
  next
    fix e assume "e \<in> set (settlement_evidence d)"
    then obtain i where i: "i \<in> set (settlement_items d)" "st_status i = ''confirmed''" "pays e i"
      using E by (auto simp: payments_ok_def)
    then show "\<exists>i \<in> set ?is. st_status i = ''confirmed'' \<and> pays e i"
      by (intro bexI [of _ i]) (auto simp: mark_submitted_def set_sql_update intro!: image_eqI [of _ _ i])
  qed
  ultimately show ?thesis using P by (simp add: market_inv_def new(4))
qed

lemma confirm_inv:
  assumes inv: "market_inv d" and c: "load_context_tx iid d = Inr c"
    and none: "load_settlement_evidence_tx iid d = None"
    and tx: "stc_submitted_tx_hash c = Some (se_transaction_hash e)" "stc_payout_minor c = se_amount_minor e"
    and e: "se_settlement_item_id e = iid" "se_settlement_run_id e = stc_settlement_run_id c"
      "se_recipient_stellar_account_id e = stc_recipient_stellar_account_id c"
    and ins: "sql_insert settlement_evidence_check settlement_evidence_clash e (settlement_evidence d)
         = Inr (settlement_evidence d @ [e])"
  shows "market_inv (d\<lparr>settlement_evidence := settlement_evidence d @ [e],
         settlement_items := mark_confirmed q iid (settlement_items d), audit_logs := al\<rparr>)"
proof -
  let ?is = "mark_confirmed q iid (settlement_items d)"
  let ?f = "\<lambda>i. i\<lparr>st_status := ''confirmed'', st_accepted_evidence_id := Some (new_uuid q 0),
            st_confirmed_at := Some (now_utc q 0), st_updated_at := sql_now q\<rparr>"
  from inv have R: "runs_ok (prediction_markets d) (settlement_runs d) (settlement_items d)"
    and I: "items_ok (market_positions d) (settlement_runs d) (settlement_items d)"
    and E: "payments_ok (settlement_items d) (settlement_evidence d)" by (simp_all add: market_inv_def)
  have is_set: "set ?is = (\<lambda>i. if st_id i = iid then ?f i else i) ` set (settlement_items d)"
    by (simp add: mark_confirmed_def set_sql_update)
  from c obtain i r where i: "find (\<lambda>i. st_id i = iid) (settlement_items d) = Some i"
    and ci: "stc_payout_minor c = st_payout_minor i" "stc_submitted_tx_hash c = st_submitted_tx_hash i"
      "stc_recipient_stellar_account_id c = st_recipient_stellar_account_id i"
      "stc_settlement_run_id c = st_settlement_run_id i"
    by (rule load_context_tx_Inr) (rule that, simp_all)
  from find_Some_in [OF i] have ii: "i \<in> set (settlement_items d)" "st_id i = iid" by simp_all
  have pay: "pays e (?f i)" using tx e ci ii(2) by (simp add: pays_def)
  have other: "st_id j \<noteq> iid" if "j \<in> set (settlement_items d)" "e' \<in> set (settlement_evidence d)" "pays e' j" for j e'
    using none that by (auto simp: load_settlement_evidence_tx_def find_None_iff pays_def)
  have uniq: "j = i" if "j \<in> set (settlement_items d)" "st_id j = iid" for j
    using I that ii by (auto simp: items_ok_def distinct_map dest: inj_onD)
  have "run_ok ?is r" if "r \<in> set (settlement_runs d)" for r
    unfolding mark_confirmed_def by (rule run_ok_update) (use R that in \<open>auto simp: runs_ok_def\<close>)
  then have "runs_ok (prediction_markets d) (settlement_runs d) ?is" using R by (simp add: runs_ok_def)
  moreover have "items_ok (market_positions d) (settlement_runs d) ?is"
    unfolding mark_confirmed_def using I by (rule items_ok_update) simp
  moreover have "payments_ok ?is (settlement_evidence d @ [e])"
    unfolding payments_ok_def
  proof (intro conjI ballI impI)
    show "distinct (map se_settlement_item_id (settlement_evidence d @ [e]))"
      by (rule paid_items.insert_distinct [OF _ ins]) (use E in \<open>simp add: payments_ok_def\<close>)
    fix j assume "j \<in> set ?is" and st: "st_status j = ''confirmed''"
    then obtain j0 where j0: "j0 \<in> set (settlement_items d)" "j = (if st_id j0 = iid then ?f j0 else j0)"
      by (auto simp: is_set)
    show "\<exists>e \<in> set (settlement_evidence d @ [e]). pays e j"
    proof (cases "st_id j0 = iid")
      case True
      then show ?thesis using uniq [OF j0(1)] j0(2) pay by simp
    next
      case False
      with j0 st E have "\<exists>e \<in> set (settlement_evidence d). pays e j" by (simp add: payments_ok_def)
      then show ?thesis by auto
    qed
  next
    fix e' assume e': "e' \<in> set (settlement_evidence d @ [e])"
    show "\<exists>i \<in> set ?is. st_status i = ''confirmed'' \<and> pays e' i"
    proof (cases "e' = e")
      case True
      have "?f i \<in> set ?is" using ii by (auto simp: is_set intro!: image_eqI [of _ _ i])
      with True pay show ?thesis by (intro bexI [of _ "?f i"]) simp_all
    next
      case False
      with e' E obtain j where j: "j \<in> set (settlement_items d)" "st_status j = ''confirmed''" "pays e' j"
        by (auto simp: payments_ok_def)
      moreover have "st_id j \<noteq> iid" using other j False e' by auto
      ultimately show ?thesis by (intro bexI [of _ j]) (auto simp: is_set intro!: image_eqI [of _ _ j])
    qed
  qed
  ultimately show ?thesis using inv by (simp add: market_inv_def)
qed

lemma finalize_run_inv:
  assumes inv: "market_inv d" and c: "(stc_settlement_run_id c, stc_market_id c) \<in> run_markets (settlement_runs d)"
    and f: "finalize_if_complete q c d = Inr d'"
  shows "market_inv d'"
  using f
proof (cases rule: finalize_if_completeE)
  case (open_items i)
  then show ?thesis using inv by simp
next
  case (complete gs al)
  let ?fr = "\<lambda>r. r\<lparr>sr_status := ''confirmed'', sr_updated_at := sql_now q\<rparr>"
  let ?fm = "\<lambda>m. m\<lparr>mk_status := ''settled'', mk_updated_at := sql_now q\<rparr>"
  let ?fp = "\<lambda>p. p\<lparr>po_status := settlement_position_status c,
                      po_settled_at := coalesce (po_settled_at p) (sql_now q), po_updated_at := sql_now q\<rparr>"
  let ?rs = "sql_update (\<lambda>r. sr_id r = stc_settlement_run_id c) ?fr (settlement_runs d)"
  let ?ms = "sql_update (\<lambda>m. mk_id m = stc_market_id c \<and> mk_status m = ''settling'') ?fm (prediction_markets d)"
  let ?ps = "sql_update (\<lambda>p. po_market_id p = stc_market_id c \<and> po_status p = ''active'') ?fp (market_positions d)"
  from inv have P: "positions_ok (prediction_markets d) (market_positions d) (position_evidence d)"
    and R: "runs_ok (prediction_markets d) (settlement_runs d) (settlement_items d)"
    and I: "items_ok (market_positions d) (settlement_runs d) (settlement_items d)"
    and E: "payments_ok (settlement_items d) (settlement_evidence d)" by (simp_all add: market_inv_def)
  from c obtain r0 where r0: "r0 \<in> set (settlement_runs d)" "sr_id r0 = stc_settlement_run_id c"
    "sr_market_id r0 = stc_market_id c" by (auto simp: run_markets_def)
  have r0': "?fr r0 \<in> set ?rs" using r0 by (auto simp: set_sql_update intro!: image_eqI [of _ _ r0])
  have na: "settlement_position_status c \<noteq> ''active''" by (simp add: settlement_position_status_def)
  have "sql_sum po_amount_minor (active_in mid) ?ps \<le> sql_sum po_amount_minor (active_in mid) (market_positions d)" for mid
    by (rule sql_sum_update_le) (use P na in \<open>auto simp: positions_ok_def active_in_def intro: less_imp_le\<close>)
  then have le: "sql_sum po_amount_minor (active_in mid) ?ps \<le> x"
    if "sql_sum po_amount_minor (active_in mid) (market_positions d) \<le> x" for mid x
    using that by (rule order_trans)
  have "\<forall>m \<in> set (prediction_markets d). sql_sum po_amount_minor (active_in (mk_id m)) ?ps \<le> mk_max_market_exposure_minor m \<and>
      mk_max_market_exposure_minor m \<le> i64_max \<and> 0 \<le> mk_fee_bps m \<and> mk_fee_bps m \<le> 1000"
    using P le by (simp add: positions_ok_def)
  then have "\<forall>m \<in> set ?ms. sql_sum po_amount_minor (active_in (mk_id m)) ?ps \<le> mk_max_market_exposure_minor m \<and>
      mk_max_market_exposure_minor m \<le> i64_max \<and> 0 \<le> mk_fee_bps m \<and> mk_fee_bps m \<le> 1000"
    unfolding set_sql_update by (force split: if_splits)
  moreover have "\<forall>p \<in> set ?ps. 0 < po_amount_minor p \<and> po_stake_intent_id p \<in> pe_stake_intent_id ` set (position_evidence d)"
    using P unfolding positions_ok_def set_sql_update by (force split: if_splits)
  ultimately have "positions_ok ?ms ?ps (position_evidence d)"
    using P unfolding positions_ok_def by (simp add: map_sql_update)
  moreover have "runs_ok ?ms ?rs (settlement_items d)"
    unfolding runs_ok_def
  proof (intro conjI ballI impI)
    show "distinct (map sr_id ?rs)" "distinct (map sr_market_id ?rs)"
      using R by (simp_all add: runs_ok_def map_sql_update)
    fix r assume "r \<in> set ?rs"
    then obtain r1 where r1: "r1 \<in> set (settlement_runs d)"
      "r = (if sr_id r1 = stc_settlement_run_id c then ?fr r1 else r1)" by (auto simp: set_sql_update)
    then have "run_ok (settlement_items d) r1" using R by (simp add: runs_ok_def)
    then show "run_ok (settlement_items d) r"
      using r1(2) complete(1) by (auto simp: run_ok_def run_items_def)
    from R r1 obtain m where "m \<in> set (prediction_markets d)" "mk_id m = sr_market_id r1" "in_settlement m"
      by (auto simp: runs_ok_def)
    then show "\<exists>m \<in> set ?ms. mk_id m = sr_market_id r \<and> in_settlement m"
      using update_in_settlement [of m "prediction_markets d" ?fm] r1(2) by (simp add: in_settlement_def)
  next
    fix m assume "m \<in> set ?ms" and st: "mk_status m = ''settled''"
    then obtain m0 where m0: "m0 \<in> set (prediction_markets d)"
      "m = (if mk_id m0 = stc_market_id c \<and> mk_status m0 = ''settling'' then ?fm m0 else m0)"
      by (auto simp: set_sql_update)
    show "\<exists>r \<in> set ?rs. sr_market_id r = mk_id m \<and> sr_status r = ''confirmed''"
    proof (cases "mk_id m0 = stc_market_id c \<and> mk_status m0 = ''settling''")
      case True
      then show ?thesis using r0' r0(3) m0(2) by (intro bexI [of _ "?fr r0"]) simp_all
    next
      case False
      with m0 st R obtain r where r: "r \<in> set (settlement_runs d)" "sr_market_id r = mk_id m" "sr_status r = ''confirmed''"
        by (auto simp: runs_ok_def)
      then show ?thesis
        by (intro bexI [of _ "if sr_id r = stc_settlement_run_id c then ?fr r else r"]) (auto simp: set_sql_update)
    qed
  qed
  moreover have "items_ok ?ps ?rs (settlement_items d)"
    by (rule items_ok_mono [OF I]) (simp_all add: position_markets_update run_markets_update)
  ultimately show ?thesis using E by (simp add: market_inv_def complete(2))
qed

lemma settlement_evidence_inv:
  assumes inv: "market_inv d" and tx: "accept_settlement_evidence_tx env q hdrs iid b d = Inr (x, d')"
  shows "market_inv d'"
proof -
  obtain status v where x: "x = (status, v)" by fastforce
  show ?thesis
    using tx unfolding x
  proof (cases rule: accept_settlement_evidence_txE)
    case existing
    then show ?thesis using inv by simp
  next
    case (new c e al)
    let ?d = "d\<lparr>settlement_evidence := settlement_evidence d @ [e],
         settlement_items := mark_confirmed q iid (settlement_items d), audit_logs := al\<rparr>"
    from new(1) obtain r where r: "r \<in> set (settlement_runs d)" "stc_settlement_run_id c = sr_id r"
      "stc_market_id c = sr_market_id r" "stc_item_id c = iid"
      by (rule load_context_tx_Inr) (rule that, auto dest: find_Some_in)
    have "market_inv ?d"
      by (rule confirm_inv [OF inv new(1,2,5,6) _ _ _ new(9)])
        (use r(4) in \<open>simp_all add: new(8) new_settlement_evidence_def\<close>)
    moreover have "(stc_settlement_run_id c, stc_market_id c) \<in> run_markets (settlement_runs ?d)"
      using r by (auto simp: run_markets_def)
    ultimately show ?thesis using new(10) by (rule finalize_run_inv)
  qed
qed

lemma transaction_inv:
  assumes "market_inv d" "\<And>x d'. body d = Inr (x, d') \<Longrightarrow> market_inv d'"
  shows "market_inv (snd (transaction body d))"
  using assms by (cases rule: transaction_cases [of body d]) auto

lemma market_step_inv: "market_step env d d' \<Longrightarrow> market_inv d \<Longrightarrow> market_inv d'"
proof (induction rule: market_step.induct)
  case (step_position q hdrs mid ebody d)
  then show ?case unfolding accept_position_evidence_def snd_then_read
    by (rule transaction_inv) (rule position_evidence_inv [OF step_position])
next
  case (step_plan q hdrs mid key reason d)
  then show ?case unfolding create_settlement_plan_def snd_then_read
    by (rule transaction_inv) (rule plan_inv [OF step_plan])
next
  case (step_pay q hdrs iid h d)
  then show ?case unfolding record_settlement_submission_def snd_then_read
    by (rule transaction_inv) (rule pay_submission_inv [OF step_pay])
next
  case (step_paid q hdrs iid sbody d)
  then show ?case unfolding accept_settlement_evidence_def
    by (rule transaction_inv) (rule settlement_evidence_inv [OF step_paid])
qed (simp_all add: create_market_same transition_market_same money_inv record_policy_money create_intent_money
      get_intent_money record_submission_money)

lemma market_reachable_inv: "market_reachable env d \<Longrightarrow> market_inv d"
proof -
  assume "market_reachable env d"
  then obtain d0 where "market_start d0" "(market_step env)\<^sup>*\<^sup>* d0 d" by (auto simp: market_reachable_def)
  from this(2) this(1) show ?thesis
    by (induction rule: rtranclp_induct) (auto simp: market_inv_start intro: market_step_inv)
qed

end
