(* ===== verification/Market_Demo.thy ===== *)
theory Market_Demo
  imports Market_System Voting_Demo
begin

text \<open>
  Concrete runs of the off-chain market on which its theorems are instantiated: a resolved market that is
  planned, paid and settled; a cancelled market in which evidence of a further stake arrives after the
  refunds were planned; and a stake intent on an open market.
\<close>

section \<open>Rows\<close>

definition demo_account :: string where "demo_account = CHR ''G'' # replicate 55 (CHR ''A'')"

definition demo_market :: "string \<Rightarrow> uuid option \<Rightarrow> MarketRecord" where
  "demo_market st winner = \<lparr>mk_id = ''m1'', mk_organization_id = ''o'', mk_pageant_id = None, mk_slug = ''fan'',
     mk_question = ''Who wins?'', mk_description = None, mk_status = st, mk_network = ''testnet'',
     mk_asset_code = ''XLM'', mk_asset_scale = 7, mk_asset_issuer = None, mk_fee_bps = 500,
     mk_min_stake_minor = 1, mk_max_stake_minor = 100, mk_max_user_exposure_minor = 200,
     mk_max_market_exposure_minor = 1000, mk_opens_at = 1, mk_closes_at = 9,
     mk_resolution_source = ''The jury'', mk_policy_version = ''v1'', mk_winning_outcome_id = winner,
     mk_result_evidence = JObj [], mk_created_by_user_id = ''m'', mk_approved_by_user_id = None,
     mk_approved_at = None, mk_resolved_by_user_id = None, mk_resolved_at = None, mk_created_at = 1,
     mk_updated_at = 5\<rparr>"

definition demo_outcome :: "uuid \<Rightarrow> string \<Rightarrow> int \<Rightarrow> int \<Rightarrow> OutcomeRecord" where
  "demo_outcome i code n tot = \<lparr>mo_id = i, mo_market_id = ''m1'', mo_code = code, mo_label = ''Ana'',
     mo_sort_order = n, mo_total_active_minor = tot, mo_created_at = 1\<rparr>"

definition demo_policy :: "uuid \<Rightarrow> uuid option \<Rightarrow> string \<Rightarrow> PolicyDecisionRecord" where
  "demo_policy i subject action = \<lparr>pd_id = i, pd_organization_id = ''o'', pd_market_id = ''m1'',
     pd_subject_user_id = subject, pd_action = action, pd_decision = ''allow'', pd_reason = ''reviewed'',
     pd_policy_version = ''v1'', pd_decided_by_user_id = ''m'', pd_expires_at = None, pd_created_at = 1\<rparr>"

definition demo_position :: "uuid \<Rightarrow> uuid \<Rightarrow> uuid \<Rightarrow> int \<Rightarrow> string \<Rightarrow> uuid \<Rightarrow> int option \<Rightarrow> position_row" where
  "demo_position i outcome intent amount st ev settled = \<lparr>po_id = i, po_organization_id = ''o'',
     po_market_id = ''m1'', po_outcome_id = outcome, po_user_id = ''u'', po_stellar_account_id = ''s'',
     po_stake_intent_id = intent, po_amount_minor = amount, po_status = st, po_accepted_evidence_id = Some ev,
     po_activated_at = Some 5, po_settled_at = settled, po_created_at = 5, po_updated_at = 5\<rparr>"

definition demo_stake_evidence :: "uuid \<Rightarrow> uuid \<Rightarrow> uuid \<Rightarrow> int \<Rightarrow> string \<Rightarrow> string \<Rightarrow> PositionEvidenceRecord" where
  "demo_stake_evidence i outcome intent amount tx event = \<lparr>pe_id = i, pe_organization_id = ''o'',
     pe_market_id = ''m1'', pe_stake_intent_id = intent, pe_outcome_id = outcome,
     pe_source_stellar_account_id = ''s'', pe_tx_hash = tx, pe_ledger_sequence = 7,
     pe_contract_event_id = event, pe_amount_minor = amount, pe_evidence_json = JObj [], pe_accepted_at = 5,
     pe_created_at = 5\<rparr>"

definition demo_stake :: "uuid \<Rightarrow> int \<Rightarrow> string \<Rightarrow> string option \<Rightarrow> int option \<Rightarrow> int option \<Rightarrow> int \<Rightarrow> StakeIntentRecord" where
  "demo_stake i amount st tx submitted confirmed expires = \<lparr>si_id = i, si_organization_id = ''o'',
     si_market_id = ''m1'', si_outcome_id = ''y'', si_user_id = ''u'', si_stellar_account_id = ''s'',
     si_amount_minor = amount, si_idempotency_key = ''k'', si_request_sha256 = flat_hash, si_status = st,
     si_submitted_tx_hash = tx, si_expires_at = expires, si_submitted_at = submitted, si_confirmed_at = confirmed,
     si_rejection_code = None, si_created_at = 5, si_updated_at = 5\<rparr>"

definition demo_run :: "string \<Rightarrow> string \<Rightarrow> uuid option \<Rightarrow> int \<Rightarrow> int \<Rightarrow> SettlementRunRecord" where
  "demo_run kind st winner stake fee = \<lparr>sr_id = ''r'', sr_organization_id = ''o'', sr_market_id = ''m1'',
     sr_kind = kind, sr_status = st, sr_winning_outcome_id = winner, sr_idempotency_key = ''k'',
     sr_total_stake_minor = stake, sr_fee_minor = fee, sr_distributable_minor = stake - fee,
     sr_total_planned_minor = stake - fee, sr_requested_by_user_id = ''m'', sr_failure_code = None,
     sr_created_at = 5, sr_updated_at = 5\<rparr>"

definition demo_item :: "int \<Rightarrow> int \<Rightarrow> string \<Rightarrow> string option \<Rightarrow> uuid option \<Rightarrow> int option \<Rightarrow> SettlementItemView" where
  "demo_item stake payout st tx ev at = \<lparr>st_id = ''rx'', st_settlement_run_id = ''r'', st_position_id = ''p1'',
     st_recipient_stellar_account_id = ''s'', st_principal_minor = stake, st_payout_minor = payout,
     st_status = st, st_submitted_tx_hash = tx, st_accepted_evidence_id = ev, st_confirmed_at = at,
     st_created_at = 5, st_updated_at = 5\<rparr>"

definition demo_payment :: "int \<Rightarrow> settlement_evidence_row" where
  "demo_payment amount = \<lparr>se_id = ''v'', se_organization_id = ''o'', se_settlement_run_id = ''r'',
     se_settlement_item_id = ''rx'', se_recipient_stellar_account_id = ''s'', se_transaction_hash = flat_hash,
     se_ledger_sequence = 7, se_operation_index = 0, se_event_reference = ''e'', se_amount_minor = amount,
     se_evidence_json = JObj [], se_accepted_at = 5, se_created_at = 5\<rparr>"

definition demo_payment_request :: "int \<Rightarrow> SettlementEvidenceRequest" where
  "demo_payment_request amount = \<lparr>ser_transaction_hash = flat_hash, ser_ledger_sequence = 7,
     ser_operation_index = 0, ser_event_reference = ''e'', ser_recipient_address = demo_account,
     ser_amount_minor = amount, ser_evidence = JObj []\<rparr>"

definition demo_governance :: "uuid \<Rightarrow> string \<Rightarrow> string \<Rightarrow> string \<Rightarrow> string \<Rightarrow> json \<Rightarrow> governance_row" where
  "demo_governance i act prev new reason ev = \<lparr>ge_id = i, ge_organization_id = ''o'', ge_market_id = ''m1'',
     ge_actor_user_id = ''m'', ge_action = act, ge_previous_status = Some prev, ge_new_status = Some new,
     ge_reason = reason, ge_evidence = ev\<rparr>"

text \<open>The database of one market, without settlement.\<close>

definition market_base ::
  "MarketRecord \<Rightarrow> StakeIntentRecord list \<Rightarrow> position_row list \<Rightarrow> PositionEvidenceRecord list \<Rightarrow> market_db" where
  "market_base m stakes positions evidence =
     \<lparr>users = [\<lparr>us_id = ''u'', us_status = ''active'', us_display_name = ''n'', us_email = None,
        us_created_at = 0, us_updated_at = 0\<rparr>],
      stellar_accounts = [\<lparr>sa_id = ''s'', sa_user_id = ''u'', sa_network = ''testnet'',
         sa_address = demo_account, sa_is_primary = True, sa_verified_at = Some 1, sa_created_at = 0\<rparr>],
      organizations = [], site_administrators = [\<lparr>ad_user_id = ''m'', ad_role = ''owner'', ad_status = ''active'',
        ad_granted_by_user_id = None, ad_created_at = 0, ad_updated_at = 0\<rparr>],
      organization_members = [], pageants = [], categories = [], contestants = [], pageant_contestants = [],
      category_memberships = [], contestant_media = [], media_assets = [], contract_deployments = [],
      audit_logs = [], prediction_markets = [m],
      market_outcomes = [demo_outcome ''y'' ''YES'' 0 10, demo_outcome ''n'' ''NO'' 1 0],
      policy_decisions = [demo_policy ''d1'' None ''settle'', demo_policy ''d2'' None ''refund'',
         demo_policy ''d3'' (Some ''u'') ''stake''],
      stake_intents = stakes, market_positions = positions, position_evidence = evidence, settlement_runs = [],
      settlement_items = [], settlement_evidence = [], governance_events = []\<rparr>"

lemmas market_row_defs = demo_market_def demo_outcome_def demo_policy_def demo_position_def demo_stake_evidence_def
  demo_stake_def demo_run_def demo_item_def demo_payment_def demo_payment_request_def demo_governance_def
  demo_audit_def market_base_def

section \<open>Text\<close>

lemma demo_account_valid [simp]: "validate_strkey (CHR ''G'') demo_account c = Inr demo_account"
proof -
  have "trim demo_account = demo_account"
    by (rule trim_plain) (simp_all add: demo_account_def starts_with_one_def white_space_def replicate_append_same)
  moreover have "to_ascii_uppercase demo_account = demo_account"
    by (simp add: demo_account_def to_ascii_uppercase_def ascii_uppercase_char_def byte_in_def)
  moreover have "length demo_account = 56 \<and> take 1 demo_account = [CHR ''G''] \<and>
      list_all is_base32_char (drop 1 demo_account)"
    by (simp add: demo_account_def list_all_iff is_base32_char_def is_ascii_uppercase_def byte_in_def)
  ultimately show ?thesis by (simp add: validate_strkey_def)
qed

lemma demo_account_suffix [simp]: "length demo_account = 56" "drop 50 demo_account = ''AAAAAA''"
  by (simp_all add: demo_account_def numeral_eq_Suc)

lemma replicate_few [simp]: "replicate 2 c = [c, c]" "replicate 3 c = [c, c, c]"
  by (simp_all add: numeral_eq_Suc)

lemma trim_market [simp]: "trim ''reviewed'' = ''reviewed''" "trim ''f'' = ''f''" "trim ''u'' = ''u''"
  by (rule trim_plain; simp add: starts_with_one_def white_space_def)+

lemma text_market [simp]:
  "text_between 3 1000 ''reviewed''" "text_between 1 240 ''f''" "text_between (Suc 0) 240 ''f''"
  "text_between 3 1000 ''All cancellation refunds have accepted chain evidence.''"
  "text_between 3 1000 ''All resolution payouts have accepted chain evidence.''"
  by (simp_all add: text_between_def btrim_def char_length_def byte_in_def)

lemmas market_write_defs = required_text_def sql_insert_def insert_market_audit_def insert_audit_def audit_clash_def
  insert_governance_def governance_check_def governance_actions_def governance_clash_def sql_update_def Let_def
  site_role_def require_organization_manager_def

lemmas market_env_defs = flat_env_def dq_def user_headers_def worker_headers_def header_or_default_def
  require_web_actor_def require_worker_def database_pool_def guard_def

section \<open>A resolved market is paid\<close>

definition pay0 :: market_db where
  "pay0 = market_base (demo_market ''resolved'' (Some ''y'')) []
     [demo_position ''p1'' ''y'' ''i1'' 100 ''active'' ''e1'' None]
     [demo_stake_evidence ''e1'' ''y'' ''i1'' 100 flat_hash ''f'']"

definition plan_evidence :: "string \<Rightarrow> int \<Rightarrow> int \<Rightarrow> json" where
  "plan_evidence kind stake fee = JObj [(''settlement_run_id'', JStr ''r''), (''kind'', JStr kind),
     (''item_count'', JInt 1), (''total_stake_minor'', JInt stake), (''fee_minor'', JInt fee),
     (''distributable_minor'', JInt (stake - fee))]"

definition after_plan :: "string \<Rightarrow> string \<Rightarrow> uuid option \<Rightarrow> int \<Rightarrow> int \<Rightarrow> market_db \<Rightarrow> market_db" where
  "after_plan kind prev winner stake fee d = d\<lparr>prediction_markets := [demo_market ''settling'' winner],
     settlement_runs := [demo_run kind ''planned'' winner stake fee],
     settlement_items := [demo_item stake (stake - fee) ''planned'' None None None],
     governance_events := [demo_governance ''rxx'' ''settlement.plan'' prev ''settling'' ''reviewed''
        (plan_evidence kind stake fee)],
     audit_logs := audit_logs d @ [demo_audit ''rxxx'' (Some ''m'') ''prediction_market.settlement.plan''
        ''prediction_market_settlement_run'' ''r''
        (JObj [(''market_id'', JStr ''m1''), (''kind'', JStr kind), (''item_count'', JInt 1)])]\<rparr>"

definition after_submit :: "string \<Rightarrow> uuid option \<Rightarrow> int \<Rightarrow> int \<Rightarrow> market_db \<Rightarrow> market_db" where
  "after_submit kind winner stake fee d = d\<lparr>settlement_runs := [demo_run kind ''submitting'' winner stake fee],
     settlement_items := [demo_item stake (stake - fee) ''submitted'' (Some flat_hash) None None],
     audit_logs := audit_logs d @ [demo_audit ''t'' None ''prediction_market.settlement.submit''
        ''prediction_market_settlement_item'' ''rx''
        (JObj [(''market_id'', JStr ''m1''), (''settlement_run_id'', JStr ''r''),
           (''transaction_hash'', JStr flat_hash)])]\<rparr>"

definition after_payment :: "string \<Rightarrow> uuid option \<Rightarrow> int \<Rightarrow> int \<Rightarrow> string \<Rightarrow> string \<Rightarrow> position_row list \<Rightarrow> market_db \<Rightarrow> market_db" where
  "after_payment kind winner stake fee act reason positions d =
     d\<lparr>settlement_runs := [demo_run kind ''confirmed'' winner stake fee],
     settlement_items := [demo_item stake (stake - fee) ''confirmed'' (Some flat_hash) (Some ''v'') (Some 5)],
     settlement_evidence := [demo_payment (stake - fee)], market_positions := positions,
     prediction_markets := [demo_market ''settled'' winner],
     governance_events := governance_events d @ [demo_governance ''vxx'' act ''settling'' ''settled'' reason
        (JObj [(''settlement_run_id'', JStr ''r'')])],
     audit_logs := audit_logs d @ [demo_audit ''vx'' None ''prediction_market.settlement.confirm''
        ''prediction_market_settlement_item'' ''rx''
        (JObj [(''market_id'', JStr ''m1''), (''settlement_run_id'', JStr ''r''), (''evidence_id'', JStr ''v''),
           (''transaction_hash'', JStr flat_hash), (''ledger_sequence'', JInt 7), (''operation_index'', JInt 0),
           (''event_reference'', JStr ''e'')]),
       demo_audit ''vxxx'' None ''prediction_market.settlement.complete'' ''prediction_market_settlement_run'' ''r''
        (JObj [(''market_id'', JStr ''m1''), (''kind'', JStr kind)])]\<rparr>"

definition pay1 :: market_db where "pay1 = after_plan ''payout'' ''resolved'' (Some ''y'') 100 5 pay0"
definition pay2 :: market_db where "pay2 = after_submit ''payout'' (Some ''y'') 100 5 pay1"
definition pay3 :: market_db where
  "pay3 = after_payment ''payout'' (Some ''y'') 100 5 ''settlement.confirmed''
     ''All resolution payouts have accepted chain evidence.''
     [demo_position ''p1'' ''y'' ''i1'' 100 ''settled'' ''e1'' (Some 5)] pay2"

lemmas pay_defs = pay0_def pay1_def pay2_def pay3_def after_plan_def after_submit_def after_payment_def
  plan_evidence_def

lemma pay_plan: "create_settlement_plan_tx flat_env (dq ''r'') (user_headers ''m'') ''m1'' ''k'' ''reviewed'' pay0
    = Inr ((201, ''r''), pay1)"
proof -
  have "plan_settlement ''payout'' (Some ''y'') 500 (active_positions ''m1'' pay0) = Inr
      \<lparr>pl_winning_outcome_id = Some ''y'', pl_total_stake_minor = 100, pl_fee_minor = 5,
       pl_distributable_minor = 95, pl_total_planned_minor = 95,
       pl_rows = [(active_position (demo_position ''p1'' ''y'' ''i1'' 100 ''active'' ''e1'' None), 95)]\<rparr>"
    by (simp add: pay_defs market_row_defs active_positions_def active_position_def plan_settlement_def
        total_of_def settlement_fee_def payout_rows_def checked_i64_def i64_min_def i64_max_def
        signed_divide_int_def spread.simps Let_def)
  then show ?thesis
    by (simp add: create_settlement_plan_tx_def write_plan_def new_run_def active_position_def pay_defs
        market_row_defs market_env_defs market_write_defs settlement_run_check_def settlement_item_check_def)
qed

lemmas settlement_step_defs = record_settlement_submission_tx_def accept_settlement_evidence_tx_def load_context_tx_def
  require_settlement_policy_tx_def sql_latest_def sql_update_unique_def settlement_item_clash_def settlement_audit_def
  validate_recipient_def load_settlement_evidence_tx_def settlement_evidence_check_def new_settlement_evidence_def
  finalize_if_complete_def settlement_position_status_def sql_count_def evidence_view_def coalesce_def

lemma pay_submit: "record_settlement_submission_tx flat_env (dq ''t'') worker_headers ''rx'' flat_hash pay1
    = Inr ((), pay2)"
  by (simp add: settlement_step_defs pay_defs market_row_defs market_env_defs market_write_defs)

lemma pay_paid: "accept_settlement_evidence_tx flat_env (dq ''v'') worker_headers ''rx'' (demo_payment_request 95) pay2
    = Inr ((201, evidence_view (demo_payment 95)), pay3)"
  by (simp add: settlement_step_defs pay_defs market_row_defs market_env_defs market_write_defs)

lemma market_step_plan:
  "create_settlement_plan_tx env q hdrs mid k re d = Inr (x, d') \<Longrightarrow> market_step env d d'"
  using step_plan [of env d q hdrs mid k re] by (simp add: create_settlement_plan_def transaction_def)

lemma market_step_pay:
  "record_settlement_submission_tx env q hdrs iid h d = Inr (x, d') \<Longrightarrow> market_step env d d'"
  using step_pay [of env d q hdrs iid h] by (simp add: record_settlement_submission_def transaction_def)

lemma market_step_paid:
  "accept_settlement_evidence_tx env q hdrs iid b d = Inr (x, d') \<Longrightarrow> market_step env d d'"
  using step_paid [of env d q hdrs iid b] by (simp add: accept_settlement_evidence_def transaction_def)

lemma market_step_position:
  "accept_position_evidence_tx env q hdrs mid b d = Inr (x, d') \<Longrightarrow> market_step env d d'"
  using step_position [of env d q hdrs mid b] by (simp add: accept_position_evidence_def transaction_def)

lemma market_reach_step: "market_reachable env d \<Longrightarrow> market_step env d d' \<Longrightarrow> market_reachable env d'"
  unfolding market_reachable_def by (blast intro: rtranclp.rtrancl_into_rtrancl)

lemma market_reach_start: "market_start d \<Longrightarrow> market_reachable env d"
  unfolding market_reachable_def by blast

lemma pay_reachable: "market_reachable flat_env pay0" "market_reachable flat_env pay2" "market_reachable flat_env pay3"
proof -
  have "market_start pay0"
    by (simp add: market_start_def positions_ok_def pay0_def market_row_defs sql_sum_def active_in_def
        i64_max_def in_settlement_def)
  then show 0: "market_reachable flat_env pay0" by (rule market_reach_start)
  have 1: "market_reachable flat_env pay1" by (rule market_reach_step [OF 0 market_step_plan [OF pay_plan]])
  show 2: "market_reachable flat_env pay2" by (rule market_reach_step [OF 1 market_step_pay [OF pay_submit]])
  show "market_reachable flat_env pay3" by (rule market_reach_step [OF 2 market_step_paid [OF pay_paid]])
qed

section \<open>A stake that arrives after the refunds were planned\<close>

definition other_hash :: string where "other_hash = replicate 64 (CHR ''b'')"

definition late_request :: AcceptPositionEvidenceRequest where
  "late_request = \<lparr>ape_stake_intent_id = ''i2'', ape_tx_hash = other_hash, ape_ledger_sequence = 7,
     ape_contract_event_id = ''e'', ape_source_address = demo_account, ape_amount_minor = 7, ape_evidence = JObj []\<rparr>"

definition refund0 :: market_db where
  "refund0 = market_base (demo_market ''cancelled'' None)
     [demo_stake ''i2'' 7 ''submitted'' (Some other_hash) (Some 5) None 9]
     [demo_position ''p1'' ''y'' ''i1'' 10 ''active'' ''e1'' None]
     [demo_stake_evidence ''e1'' ''y'' ''i1'' 10 flat_hash ''f'']"

definition refund1 :: market_db where "refund1 = after_plan ''refund'' ''cancelled'' None 10 0 refund0"

definition refund2 :: market_db where
  "refund2 = refund1\<lparr>stake_intents := [demo_stake ''i2'' 7 ''confirmed'' (Some other_hash) (Some 5) (Some 5) 9],
     market_outcomes := [demo_outcome ''y'' ''YES'' 0 17, demo_outcome ''n'' ''NO'' 1 0],
     market_positions := [demo_position ''p1'' ''y'' ''i1'' 10 ''active'' ''e1'' None,
        demo_position ''wx'' ''y'' ''i2'' 7 ''active'' ''w'' None],
     position_evidence := [demo_stake_evidence ''e1'' ''y'' ''i1'' 10 flat_hash ''f'',
        demo_stake_evidence ''w'' ''y'' ''i2'' 7 other_hash ''e''],
     audit_logs := audit_logs refund1 @ [demo_audit ''wxx'' None ''prediction_market.position.accept''
        ''prediction_market_position_evidence'' ''w''
        (JObj [(''market_id'', JStr ''m1''), (''stake_intent_id'', JStr ''i2''), (''tx_hash'', JStr other_hash),
           (''ledger_sequence'', JInt 7), (''contract_event_id'', JStr ''e'')])]\<rparr>"

definition refund3 :: market_db where "refund3 = after_submit ''refund'' None 10 0 refund2"

definition refund4 :: market_db where
  "refund4 = after_payment ''refund'' None 10 0 ''refund.confirmed''
     ''All cancellation refunds have accepted chain evidence.''
     [demo_position ''p1'' ''y'' ''i1'' 10 ''refunded'' ''e1'' (Some 5),
      demo_position ''wx'' ''y'' ''i2'' 7 ''refunded'' ''w'' (Some 5)] refund3"

lemmas refund_defs = refund0_def refund1_def refund2_def refund3_def refund4_def after_plan_def after_submit_def
  after_payment_def plan_evidence_def

lemma other_hash_valid [simp]: "validate_hash other_hash c = Inr other_hash" "is_sha256_text other_hash"
    "other_hash \<noteq> flat_hash"
proof -
  have "trim other_hash = other_hash"
    by (rule trim_plain) (simp_all add: other_hash_def starts_with_one_def white_space_def)
  moreover have "to_ascii_lowercase other_hash = other_hash"
    by (simp add: other_hash_def to_ascii_lowercase_def ascii_lowercase_char_def byte_in_def)
  moreover have "length other_hash = 64 \<and> list_all is_ascii_hexdigit other_hash"
    by (simp add: other_hash_def list_all_iff is_ascii_hexdigit_def is_ascii_digit_def byte_in_def)
  ultimately show "validate_hash other_hash c = Inr other_hash" by (simp add: validate_hash_def)
  show "is_sha256_text other_hash"
    by (simp add: other_hash_def is_sha256_text_def list_all_iff is_ascii_digit_def byte_in_def)
  show "other_hash \<noteq> flat_hash" by (simp add: other_hash_def flat_hash_def)
qed

lemma refund_plan: "create_settlement_plan_tx flat_env (dq ''r'') (user_headers ''m'') ''m1'' ''k'' ''reviewed'' refund0
    = Inr ((201, ''r''), refund1)"
proof -
  have "plan_settlement ''refund'' None 500 (active_positions ''m1'' refund0) = Inr
      \<lparr>pl_winning_outcome_id = None, pl_total_stake_minor = 10, pl_fee_minor = 0,
       pl_distributable_minor = 10, pl_total_planned_minor = 10,
       pl_rows = [(active_position (demo_position ''p1'' ''y'' ''i1'' 10 ''active'' ''e1'' None), 10)]\<rparr>"
    by (simp add: refund_defs market_row_defs active_positions_def active_position_def plan_settlement_def
        total_of_def settlement_fee_def checked_i64_def i64_min_def i64_max_def Let_def)
  then show ?thesis
    by (simp add: create_settlement_plan_tx_def write_plan_def new_run_def active_position_def refund_defs
        market_row_defs market_env_defs market_write_defs settlement_run_check_def settlement_item_check_def)
qed

lemma refund_late: "accept_position_evidence_tx flat_env (dq ''w'') worker_headers ''m1'' late_request refund1
    = Inr (Inr ''w'', refund2)"
  by (simp add: accept_position_evidence_tx_def late_request_def refund_defs market_row_defs market_env_defs
      market_write_defs validate_tx_hash_def validate_source_address_def stake_intent_context_def
      load_position_evidence_tx_def active_exposure_def sql_bigint_def sql_sum_def checked_i64_def i64_min_def
      i64_max_def position_evidence_check_def position_evidence_clash_def new_position_evidence_def
      upsert_position_def position_check_def position_clash_def new_position_def add_outcome_total_def)

lemma refund_submit: "record_settlement_submission_tx flat_env (dq ''t'') worker_headers ''rx'' flat_hash refund2
    = Inr ((), refund3)"
  by (simp add: settlement_step_defs refund_defs market_row_defs market_env_defs market_write_defs)

lemma refund_paid: "accept_settlement_evidence_tx flat_env (dq ''v'') worker_headers ''rx'' (demo_payment_request 10) refund3
    = Inr ((201, evidence_view (demo_payment 10)), refund4)"
  by (simp add: settlement_step_defs refund_defs market_row_defs market_env_defs market_write_defs)

lemma refund_reachable: "market_reachable flat_env refund2" "market_reachable flat_env refund4"
proof -
  have "market_start refund0"
    by (simp add: market_start_def positions_ok_def refund0_def market_row_defs sql_sum_def active_in_def
        i64_max_def in_settlement_def)
  then have 0: "market_reachable flat_env refund0" by (rule market_reach_start)
  have 1: "market_reachable flat_env refund1" by (rule market_reach_step [OF 0 market_step_plan [OF refund_plan]])
  show 2: "market_reachable flat_env refund2" by (rule market_reach_step [OF 1 market_step_position [OF refund_late]])
  have 3: "market_reachable flat_env refund3" by (rule market_reach_step [OF 2 market_step_pay [OF refund_submit]])
  show "market_reachable flat_env refund4" by (rule market_reach_step [OF 3 market_step_paid [OF refund_paid]])
qed

section \<open>A stake intent\<close>

definition stake0 :: market_db where "stake0 = market_base (demo_market ''open'' None) [] [] []"

definition stake_headers :: headers where
  "stake_headers = (user_headers ''u'') (''idempotency-key'' \<mapsto> ''k'')"

definition stake_request :: CreateStakeIntentRequest where
  "stake_request = \<lparr>csr_outcome_id = ''y'', csr_wallet_address = demo_account, csr_amount_minor = 7\<rparr>"

definition stake1 :: market_db where
  "stake1 = stake0\<lparr>stake_intents := [demo_stake ''i'' 7 ''awaiting_signature'' None None None 9],
     audit_logs := [demo_audit ''ix'' (Some ''u'') ''prediction_market.stake_intent_create'' ''prediction_market'' ''m1''
        (JObj [(''intent_id'', JStr ''i''), (''outcome_id'', JStr ''y''), (''amount_minor'', JInt 7),
           (''wallet_suffix'', JStr ''AAAAAA''), (''network'', JStr ''testnet'')])]\<rparr>"

lemma stake_created: "create_stake_intent flat_env (dq ''i'') stake_headers ''m1'' stake_request stake0
    = (Inr (201, demo_stake ''i'' 7 ''awaiting_signature'' None None None 9), stake1)"
  by (simp add: create_stake_intent_def transaction_def create_stake_intent_tx_def stake0_def stake1_def
      stake_headers_def stake_request_def market_row_defs market_env_defs market_write_defs
      require_server_boundary_def actor_user_id_def idempotency_key_header_def fetch_market_record_def
      require_outcome_def require_policy_allow_def current_decision_def validate_market_address_def
      current_user_exposure_def current_market_exposure_def exposure_where_def sql_sum_def sql_bigint_def
      checked_i64_def i64_min_def i64_max_def stake_intent_ttl_def stake_intent_check_def hash_parts_def
      market_audit_def insert_stake_intent_def)

end
