(* ===== verification/Market_Props.thy ===== *)
theory Market_Props
  imports Market_Demo
begin

text \<open>
  The properties of the off-chain market: the arithmetic of a settlement plan, the exposure limit, payment
  of every planned item exactly once, and the behaviour of its handlers at the edges.
\<close>

section \<open>The plan\<close>

text \<open>C5: A settlement plan conserves money and is fair. For active positions with positive amounts whose
  sum fits a 64-bit integer: a payout plan charges the floor of the fee, gives rows to exactly the winning
  positions, each the floor of its pro-rata share or one unit more, and the rows add up to the stake less the
  fee; a refund plan gives every position its own amount. The overflow and conservation errors cannot occur,
  and a payout without winners is refused.\<close>

theorem settlement_plan_conserves:
  assumes "ps \<noteq> []" "\<forall>p \<in> set ps. 0 < ap_amount_minor p" "amount_sum ps \<le> i64_max"
    "0 \<le> fee_bps" "fee_bps \<le> 10000"
  shows "(if filter (\<lambda>p. ap_outcome_id p = winner) ps = []
      then plan_settlement ''payout'' (Some winner) fee_bps ps = Inl (Conflict ''market_has_no_winning_positions'')
      else \<exists>pl. plan_settlement ''payout'' (Some winner) fee_bps ps = Inr pl \<and>
        pl_total_stake_minor pl = amount_sum ps \<and> pl_fee_minor pl = amount_sum ps * fee_bps div 10000 \<and>
        (\<Sum>r \<leftarrow> pl_rows pl. snd r) = amount_sum ps - pl_fee_minor pl \<and>
        mset (map fst (pl_rows pl)) = mset (filter (\<lambda>p. ap_outcome_id p = winner) ps) \<and>
        (\<forall>r \<in> set (pl_rows pl). snd r - ap_amount_minor (fst r) * (amount_sum ps - pl_fee_minor pl)
             div amount_sum (filter (\<lambda>p. ap_outcome_id p = winner) ps) \<in> {0, 1}))
    \<and> (\<exists>pl. plan_settlement ''refund'' (Some winner) fee_bps ps = Inr pl \<and> pl_fee_minor pl = 0 \<and>
        mset (pl_rows pl) = mset (map (\<lambda>p. (p, ap_amount_minor p)) ps))"
proof (intro conjI)
  have pos: "\<And>p. p \<in> set ps \<Longrightarrow> 0 < ap_amount_minor p" using assms(2) by blast
  show "\<exists>pl. plan_settlement ''refund'' (Some winner) fee_bps ps = Inr pl \<and> pl_fee_minor pl = 0 \<and>
        mset (pl_rows pl) = mset (map (\<lambda>p. (p, ap_amount_minor p)) ps)"
    by (rule exI, rule conjI, rule plan_refund_ok [OF assms(1) pos assms(3)]) simp_all
  let ?ws = "filter (\<lambda>p. ap_outcome_id p = winner) ps"
  show "if ?ws = []
      then plan_settlement ''payout'' (Some winner) fee_bps ps = Inl (Conflict ''market_has_no_winning_positions'')
      else \<exists>pl. plan_settlement ''payout'' (Some winner) fee_bps ps = Inr pl \<and>
        pl_total_stake_minor pl = amount_sum ps \<and> pl_fee_minor pl = amount_sum ps * fee_bps div 10000 \<and>
        (\<Sum>r \<leftarrow> pl_rows pl. snd r) = amount_sum ps - pl_fee_minor pl \<and>
        mset (map fst (pl_rows pl)) = mset ?ws \<and>
        (\<forall>r \<in> set (pl_rows pl). snd r - ap_amount_minor (fst r) * (amount_sum ps - pl_fee_minor pl)
             div amount_sum ?ws \<in> {0, 1})"
  proof (cases "?ws = []")
    case True
    then show ?thesis using plan_no_winners [OF assms(1) pos assms(3-5)] by simp
  next
    case False
    from plan_payout_ok [OF assms(1) pos assms(3-5) refl False refl refl] obtain rows where
      R: "plan_settlement ''payout'' (Some winner) fee_bps ps = Inr \<lparr>pl_winning_outcome_id = Some winner,
        pl_total_stake_minor = amount_sum ps, pl_fee_minor = amount_sum ps * fee_bps div 10000,
        pl_distributable_minor = amount_sum ps - amount_sum ps * fee_bps div 10000,
        pl_total_planned_minor = amount_sum ps - amount_sum ps * fee_bps div 10000, pl_rows = rows\<rparr>"
      "mset (map fst rows) = mset ?ws" "(\<Sum>r \<leftarrow> rows. snd r) = amount_sum ps - amount_sum ps * fee_bps div 10000"
      and share: "\<forall>r \<in> set rows. share (amount_sum ps - amount_sum ps * fee_bps div 10000) (amount_sum ?ws) (fst r) \<le> snd r \<and>
        snd r \<le> share (amount_sum ps - amount_sum ps * fee_bps div 10000) (amount_sum ?ws) (fst r) + 1" by blast
    have "\<forall>r \<in> set rows. snd r - share (amount_sum ps - amount_sum ps * fee_bps div 10000) (amount_sum ?ws) (fst r) \<in> {0, 1}"
      using share by force
    then show ?thesis using False R by (simp add: share_def)
  qed
qed

theorem settlement_plan_conserves_witness:
  "\<exists>pl. plan_settlement ''payout'' (Some ''y'') 500
     [\<lparr>ap_position_id = ''a'', ap_outcome_id = ''y'', ap_amount_minor = 1, ap_stellar_account_id = ''s''\<rparr>,
      \<lparr>ap_position_id = ''b'', ap_outcome_id = ''n'', ap_amount_minor = 97, ap_stellar_account_id = ''s''\<rparr>,
      \<lparr>ap_position_id = ''c'', ap_outcome_id = ''y'', ap_amount_minor = 2, ap_stellar_account_id = ''s''\<rparr>] = Inr pl \<and>
     (\<Sum>r \<leftarrow> pl_rows pl. snd r) = 95"
  using settlement_plan_conserves [of
     "[\<lparr>ap_position_id = ''a'', ap_outcome_id = ''y'', ap_amount_minor = 1, ap_stellar_account_id = ''s''\<rparr>,
      \<lparr>ap_position_id = ''b'', ap_outcome_id = ''n'', ap_amount_minor = 97, ap_stellar_account_id = ''s''\<rparr>,
      \<lparr>ap_position_id = ''c'', ap_outcome_id = ''y'', ap_amount_minor = 2, ap_stellar_account_id = ''s''\<rparr>]" 500 "''y''"]
  by (auto simp: amount_sum_def i64_max_def)

section \<open>Exposure\<close>

lemma exposure_le:
  "market_reachable env d \<Longrightarrow> m \<in> set (prediction_markets d) \<Longrightarrow>
   active_exposure (mk_id m) d \<le> mk_max_market_exposure_minor m"
  using market_reachable_inv [of env d]
  by (auto simp: market_inv_def positions_ok_def active_exposure_def active_in_def [abs_def])

text \<open>C34: In every reachable state the active stakes of a market add up to at most its exposure limit.\<close>

theorem exposure_within_limit:
  assumes "market_reachable env d" "m \<in> set (prediction_markets d)"
  shows "active_exposure (mk_id m) d \<le> mk_max_market_exposure_minor m"
  using assms by (rule exposure_le)

theorem exposure_within_limit_witness: "active_exposure ''m1'' refund2 \<le> 1000"
  using exposure_within_limit [OF refund_reachable(1), of "demo_market ''settling'' None"]
  by (simp add: refund_defs market_row_defs)




section \<open>Payments\<close>

lemma distinct_pairs: "distinct (map f xs) \<Longrightarrow> distinct (map (\<lambda>x. (f x, g x)) xs)"
  by (auto simp: distinct_map inj_on_def)

text \<open>The accepted evidence of a confirmed run matches its items one to one, so it adds up to the plan.\<close>

lemma run_paid:
  assumes inv: "market_inv d" and r: "r \<in> set (settlement_runs d)" "sr_status r = ''confirmed''"
  shows "\<forall>i \<in> set (run_items r (settlement_items d)). \<exists>e \<in> set (settlement_evidence d). pays e i"
    and "sql_sum se_amount_minor (\<lambda>e. se_settlement_run_id e = sr_id r) (settlement_evidence d) = sr_distributable_minor r"
proof -
  let ?is = "run_items r (settlement_items d)"
  let ?es = "filter (\<lambda>e. se_settlement_run_id e = sr_id r) (settlement_evidence d)"
  let ?pe = "\<lambda>e. (se_settlement_item_id e, se_amount_minor e)" and ?pi = "\<lambda>i. (st_id i, st_payout_minor i)"
  from inv have R: "run_ok (settlement_items d) r"
    and I: "distinct (map st_id (settlement_items d))" and E: "distinct (map se_settlement_item_id (settlement_evidence d))"
    and P: "\<forall>i \<in> set (settlement_items d). st_status i = ''confirmed'' \<longrightarrow> (\<exists>e \<in> set (settlement_evidence d). pays e i)"
      "\<forall>e \<in> set (settlement_evidence d). \<exists>i \<in> set (settlement_items d). st_status i = ''confirmed'' \<and> pays e i"
    using r(1) by (auto simp: market_inv_def runs_ok_def items_ok_def payments_ok_def)
  show paid: "\<forall>i \<in> set ?is. \<exists>e \<in> set (settlement_evidence d). pays e i"
    using P(1) R r(2) by (auto simp: run_ok_def run_items_def)
  have "set (map ?pe ?es) = set (map ?pi ?is)"
  proof (intro equalityI subsetI)
    fix x assume "x \<in> set (map ?pe ?es)"
    then obtain e where e: "e \<in> set (settlement_evidence d)" "se_settlement_run_id e = sr_id r" "x = ?pe e" by auto
    with P(2) obtain i where "i \<in> set (settlement_items d)" "pays e i" by blast
    with e show "x \<in> set (map ?pi ?is)" by (auto simp: run_items_def pays_def intro!: image_eqI [of _ _ i])
  next
    fix x assume "x \<in> set (map ?pi ?is)"
    then obtain i where i: "i \<in> set ?is" "x = ?pi i" by auto
    with paid obtain e where "e \<in> set (settlement_evidence d)" "pays e i" by blast
    with i show "x \<in> set (map ?pe ?es)" by (auto simp: run_items_def pays_def intro!: image_eqI [of _ _ e])
  qed
  moreover have "distinct (map ?pe ?es)" "distinct (map ?pi ?is)"
    unfolding run_items_def by (rule distinct_pairs, rule distinct_map_filter, fact E,
        rule distinct_pairs, rule distinct_map_filter, fact I)
  ultimately have "mset (map ?pe ?es) = mset (map ?pi ?is)" by (simp only: set_eq_iff_mset_eq_distinct)
  from arg_cong [OF this, of "image_mset snd"]
  have "mset (map snd (map ?pe ?es)) = mset (map snd (map ?pi ?is))" by (simp only: mset_map [symmetric])
  from arg_cong [OF this, of sum_mset]
  have "sum_list (map snd (map ?pe ?es)) = sum_list (map snd (map ?pi ?is))" by (simp only: sum_mset_sum_list)
  then show "sql_sum se_amount_minor (\<lambda>e. se_settlement_run_id e = sr_id r) (settlement_evidence d) = sr_distributable_minor r"
    using R by (simp add: sql_sum_def run_ok_def comp_def)
qed

text \<open>C6: A market that is settled has been paid: in every reachable state it has a confirmed run, each item of
  that run has accepted chain evidence for its exact recipient, amount and transaction, and the accepted amounts
  of the run add up to the total stake less the fee.\<close>

theorem settled_market_fully_paid:
  assumes "market_reachable env d" "m \<in> set (prediction_markets d)" "mk_status m = ''settled''"
  shows "\<exists>r \<in> set (settlement_runs d). sr_market_id r = mk_id m \<and> sr_status r = ''confirmed'' \<and>
    (\<forall>i \<in> set (settlement_items d). st_settlement_run_id i = sr_id r \<longrightarrow>
       (\<exists>e \<in> set (settlement_evidence d). se_settlement_item_id e = st_id i \<and>
          se_recipient_stellar_account_id e = st_recipient_stellar_account_id i \<and>
          se_amount_minor e = st_payout_minor i \<and> st_submitted_tx_hash i = Some (se_transaction_hash e))) \<and>
    sql_sum se_amount_minor (\<lambda>e. se_settlement_run_id e = sr_id r) (settlement_evidence d)
      = sr_total_stake_minor r - sr_fee_minor r"
proof -
  note inv = market_reachable_inv [OF assms(1)]
  from inv assms(2,3) obtain r where r: "r \<in> set (settlement_runs d)" "sr_market_id r = mk_id m"
    "sr_status r = ''confirmed''" by (auto simp: market_inv_def runs_ok_def)
  from inv r(1) have "sr_distributable_minor r = sr_total_stake_minor r - sr_fee_minor r"
    by (auto simp: market_inv_def runs_ok_def run_ok_def)
  with run_paid [OF inv r(1,3)] r show ?thesis
    by (intro bexI [of _ r]) (auto simp: run_items_def pays_def)
qed

theorem settled_market_fully_paid_witness:
  "sql_sum se_amount_minor (\<lambda>e. se_settlement_run_id e = ''r'') (settlement_evidence pay3) = 95"
  using settled_market_fully_paid [OF pay_reachable(3), of "demo_market ''settled'' (Some ''y'')"]
  by (simp add: pay_defs market_row_defs)

text \<open>No position is paid twice: in every reachable state two accepted payments whose items settle the same
  position are one and the same record, and its item is confirmed.\<close>

theorem position_paid_once:
  assumes "market_reachable env d" "e1 \<in> set (settlement_evidence d)" "e2 \<in> set (settlement_evidence d)"
    "i1 \<in> set (settlement_items d)" "i2 \<in> set (settlement_items d)"
    "se_settlement_item_id e1 = st_id i1" "se_settlement_item_id e2 = st_id i2"
    "st_position_id i1 = st_position_id i2"
  shows "e1 = e2 \<and> i1 = i2 \<and> st_status i1 = ''confirmed''"
proof -
  from market_reachable_inv [OF assms(1)] have P: "payments_ok (settlement_items d) (settlement_evidence d)"
    and I: "items_ok (market_positions d) (settlement_runs d) (settlement_items d)" by (simp_all add: market_inv_def)
  have "inj_on st_position_id (set (settlement_items d))" using I by (simp add: items_ok_def distinct_map)
  then have i: "i1 = i2" by (rule inj_onD [OF _ assms(8,4,5)])
  have "inj_on se_settlement_item_id (set (settlement_evidence d))" using P by (simp add: payments_ok_def distinct_map)
  then have e: "e1 = e2" by (rule inj_onD [OF _ _ assms(2,3)]) (simp add: assms(6,7) i)
  from P assms(2) obtain j where j: "j \<in> set (settlement_items d)" "st_status j = ''confirmed''" "pays e1 j"
    by (auto simp: payments_ok_def)
  have "inj_on st_id (set (settlement_items d))" using I by (simp add: items_ok_def distinct_map)
  then have "j = i1" by (rule inj_onD [OF _ _ j(1) assms(4)]) (use j(3) assms(6) in \<open>simp add: pays_def\<close>)
  with i e j(2) show ?thesis by simp
qed

theorem position_paid_once_witness:
  "st_status (demo_item 100 95 ''confirmed'' (Some flat_hash) (Some ''v'') (Some 5)) = ''confirmed''"
  using position_paid_once [OF pay_reachable(3), of "demo_payment 95" "demo_payment 95"
      "demo_item 100 95 ''confirmed'' (Some flat_hash) (Some ''v'') (Some 5)"
      "demo_item 100 95 ''confirmed'' (Some flat_hash) (Some ''v'') (Some 5)"]
  by (simp add: pay_defs market_row_defs)

text \<open>Payment evidence is exact. The worker's evidence for an item is newly accepted (201) only when the item
  was submitted with exactly that transaction, its recipient address and amount agree, and the policy allows it;
  the row appended records exactly that. Sent again (200), the stored record agrees with the request and nothing
  changes.\<close>

theorem settlement_evidence_exact:
  assumes "accept_settlement_evidence env q hdrs iid b d = (Inr (status, v), d')"
  shows "(status = 200 \<and> d' = d \<and> load_settlement_evidence_tx iid d = Some v \<and>
      sev_transaction_hash v = to_ascii_lowercase (trim (ser_transaction_hash b)) \<and>
      sev_amount_minor v = ser_amount_minor b \<and> sev_event_reference v = trim (ser_event_reference b)) \<or>
    (status = 201 \<and> load_settlement_evidence_tx iid d = None \<and>
      (\<exists>i a. find (\<lambda>i. st_id i = iid) (settlement_items d) = Some i \<and> st_status i = ''submitted'' \<and>
        st_submitted_tx_hash i = Some (to_ascii_lowercase (trim (ser_transaction_hash b))) \<and>
        st_payout_minor i = ser_amount_minor b \<and>
        find (\<lambda>a. sa_id a = st_recipient_stellar_account_id i) (stellar_accounts d) = Some a \<and>
        sa_address a = to_ascii_uppercase (trim (ser_recipient_address b)) \<and>
        (\<exists>e. settlement_evidence d' = settlement_evidence d @ [e] \<and> v = evidence_view e \<and>
           se_settlement_item_id e = iid \<and> se_amount_minor e = st_payout_minor i)))"
proof -
  from assms have tx: "accept_settlement_evidence_tx env q hdrs iid b d = Inr ((status, v), d')"
    by (simp add: accept_settlement_evidence_def transaction_Inr)
  then show ?thesis
  proof (cases rule: accept_settlement_evidence_txE)
    case existing
    then show ?thesis by simp
  next
    case (new c e al)
    let ?d = "d\<lparr>settlement_evidence := settlement_evidence d @ [e],
         settlement_items := mark_confirmed q iid (settlement_items d), audit_logs := al\<rparr>"
    from new(1) obtain i a where i: "find (\<lambda>i. st_id i = iid) (settlement_items d) = Some i"
      and a: "find (\<lambda>a. sa_id a = st_recipient_stellar_account_id i) (stellar_accounts d) = Some a"
      and c: "stc_item_id c = st_id i" "stc_recipient_address c = sa_address a" "stc_item_status c = st_status i"
        "stc_submitted_tx_hash c = st_submitted_tx_hash i" "stc_payout_minor c = st_payout_minor i"
      by (auto simp: load_context_tx_def split: option.splits)
    have ev: "settlement_evidence d' = settlement_evidence d @ [e]"
      using new(10) by (cases rule: finalize_if_completeE) simp_all
    have id: "se_settlement_item_id e = iid" using new(8) c(1) find_Some_in [OF i] by (simp add: new_settlement_evidence_def)
    have none: "find (\<lambda>e. se_settlement_item_id e = iid) (settlement_evidence d) = None"
      using new(2) by (simp add: load_settlement_evidence_tx_def)
    have v: "v = evidence_view e"
      using new(12) by (simp add: load_settlement_evidence_tx_def ev find_append none id)
    have "se_transaction_hash e = to_ascii_lowercase (trim (ser_transaction_hash b))"
      "se_amount_minor e = ser_amount_minor b" by (simp_all add: new(8) new_settlement_evidence_def)
    with new i a c ev id v show ?thesis by auto
  qed
qed

theorem settlement_evidence_exact_witness:
  "load_settlement_evidence_tx ''rx'' pay2 = None \<and> settlement_evidence pay3 = [demo_payment 95]"
  using settlement_evidence_exact [of flat_env "dq ''v''" worker_headers "''rx''" "demo_payment_request 95" pay2 201
      "evidence_view (demo_payment 95)" pay3]
  by (simp add: accept_settlement_evidence_def transaction_Inr pay_paid)
    (simp add: pay3_def after_payment_def)

section \<open>Handlers at the edges\<close>

lemmas draft_defs = validate_text_def market_optional_text_def parse_timestamp_def validate_asset_def
  is_ascii_alphanumeric_def validate_outcomes_def outcome_code_valid_def market_check_def outcome_check_def
  market_governance_event_def char_length_def byte_in_def is_ascii_lowercase_def is_ascii_digit_def
  is_ascii_uppercase_def to_ascii_lowercase_def to_ascii_uppercase_def ascii_lowercase_char_def
  ascii_uppercase_char_def draft_market_def slug_text_def text_between_def btrim_def market_statuses_def
  outcome_clash_def market_clash_def

lemma trim_draft [simp]: "trim ''m'' = ''m''" "trim ''XLM'' = ''XLM''" "trim ''Y'' = ''Y''" "trim ''N'' = ''N''" "trim ''Ana'' = ''Ana''"
    "trim ''Bea'' = ''Bea''"
  by (rule trim_plain; simp add: starts_with_one_def white_space_def)+

definition demo_draft :: CreateMarketRequest where
  "demo_draft = \<lparr>cm_organization_id = ''o'', cm_pageant_id = None, cm_slug = ''fan'', cm_question = ''reviewed'',
     cm_description = None, cm_asset_code = ''XLM'', cm_asset_scale = 7, cm_asset_issuer = None, cm_fee_bps = 500,
     cm_min_stake_minor = 1, cm_max_stake_minor = 100, cm_max_user_exposure_minor = 200,
     cm_max_market_exposure_minor = 1000, cm_opens_at = ''t'', cm_closes_at = ''ttttttttt'',
     cm_resolution_source = ''reviewed'', cm_policy_version = ''k'',
     cm_outcomes = [\<lparr>oi_code = ''Y'', oi_label = ''Ana''\<rparr>, \<lparr>oi_code = ''N'', oi_label = ''Bea''\<rparr>]\<rparr>"

lemma draft_refused: "create_market_tx flat_env (dq ''c'') (user_headers ''m'') demo_draft
    (stake0\<lparr>prediction_markets := []\<rparr>) = Inl (InvalidRequest ''database_constraint_failed'')"
  by (simp add: create_market_tx_def demo_draft_def stake0_def market_row_defs market_env_defs market_write_defs
      actor_user_id_def require_market_editor_def is_site_administrator_def validate_limits_def market_slug_def
      draft_defs)

text \<open>C36: Off-chain governance is blocked: no request to create a market draft or to move a market to another
  status ever succeeds or changes the database, because the governance event that both write carries an action
  outside the list that the database accepts. A valid draft of a site administrator is refused with a database
  constraint error.\<close>

theorem market_governance_blocked:
  "(\<exists>e. create_market env q hdrs b d = (Inl e, d)) \<and> (\<exists>e. transition_market env q hdrs mid t d = (Inl e, d)) \<and>
   create_market flat_env (dq ''c'') (user_headers ''m'') demo_draft (stake0\<lparr>prediction_markets := []\<rparr>)
     = (Inl (InvalidRequest ''database_constraint_failed''), stake0\<lparr>prediction_markets := []\<rparr>)"
proof (intro conjI)
  show "\<exists>e. create_market env q hdrs b d = (Inl e, d)"
    by (rule transaction_cases [of "create_market_tx env q hdrs b" d])
      (simp_all add: create_market_def create_market_never then_read_def)
  show "\<exists>e. transition_market env q hdrs mid t d = (Inl e, d)"
    by (rule transaction_cases [of "transition_market_tx env q hdrs mid t" d])
      (simp_all add: transition_market_def transition_market_never then_read_def)
  show "create_market flat_env (dq ''c'') (user_headers ''m'') demo_draft (stake0\<lparr>prediction_markets := []\<rparr>)
     = (Inl (InvalidRequest ''database_constraint_failed''), stake0\<lparr>prediction_markets := []\<rparr>)"
    by (simp add: create_market_def then_read_def transaction_def draft_refused)
qed

text \<open>A stake can be lost without payment: on a cancelled market, evidence of a stake that is accepted after the
  refunds were planned makes its position active; when the planned refunds are confirmed the position is
  marked refunded although no settlement item exists for it and nothing was paid to it.\<close>

theorem late_position_unpaid:
  "market_reachable flat_env refund4 \<and>
   find (\<lambda>p. po_id p = ''wx'') (market_positions refund4)
     = Some (demo_position ''wx'' ''y'' ''i2'' 7 ''refunded'' ''w'' (Some 5)) \<and>
   map mk_status (prediction_markets refund4) = [''settled''] \<and>
   filter (\<lambda>i. st_position_id i = ''wx'') (settlement_items refund4) = [] \<and>
   sql_sum se_amount_minor (\<lambda>_. True) (settlement_evidence refund4) = 10 \<and>
   sql_sum po_amount_minor (\<lambda>p. po_market_id p = ''m1'') (market_positions refund4) = 17 \<and>
   fst (accept_position_evidence flat_env (dq ''w'') worker_headers ''m1'' late_request refund1)
     = Inr (201, demo_stake_evidence ''w'' ''y'' ''i2'' 7 other_hash ''e'') \<and>
   mk_status (hd (prediction_markets refund1)) = ''settling''"
proof (intro conjI)
  show "fst (accept_position_evidence flat_env (dq ''w'') worker_headers ''m1'' late_request refund1)
     = Inr (201, demo_stake_evidence ''w'' ''y'' ''i2'' 7 other_hash ''e'')"
    by (simp add: accept_position_evidence_def then_read_def transaction_def refund_late load_position_evidence_def)
      (simp add: refund_defs market_row_defs)
qed (simp_all add: refund_reachable(2), simp_all add: refund_defs market_row_defs sql_sum_def)

text \<open>The fee of a plan is taken from the whole stake, so a sole winner gets back less than was staked.\<close>

lemma winner_may_lose_stake:
  "map (\<lambda>i. (st_principal_minor i, st_payout_minor i)) (settlement_items pay3) = [(100, 95)]"
  by (simp add: pay_defs market_row_defs)

text \<open>C35: A stake intent respects every limit. It is newly created (201) only on an open market inside its window,
  for an outcome of the market, with an amount between the market's bounds, when the latest policy decision for
  the user allows staking and the wallet is a verified account of the user, and only if the user's and the
  market's exposure with it (held positions and unexpired intents) stay within their limits. It expires no later
  than the market closes.\<close>

theorem stake_intent_within_limits:
  assumes "create_stake_intent env q hdrs mid b d = (Inr (201, i), d')"
  shows "\<exists>m x y. find (\<lambda>m. mk_id m = mid) (prediction_markets d) = Some m \<and> mk_status m = ''open'' \<and>
    mk_opens_at m \<le> now_utc q 0 \<and> now_utc q 0 < mk_closes_at m \<and> si_expires_at i \<le> mk_closes_at m \<and>
    si_amount_minor i = csr_amount_minor b \<and>
    mk_min_stake_minor m \<le> si_amount_minor i \<and> si_amount_minor i \<le> mk_max_stake_minor m \<and>
    (\<exists>o' \<in> set (market_outcomes d). mo_market_id o' = mid \<and> mo_id o' = si_outcome_id i) \<and>
    current_decision (sql_now q) mid (Some (si_user_id i)) ''stake'' d = Some ''allow'' \<and>
    (\<exists>a \<in> set (stellar_accounts d). sa_id a = si_stellar_account_id i \<and> sa_user_id a = si_user_id i \<and>
       sa_verified_at a \<noteq> None) \<and>
    current_user_exposure (sql_now q) mid (si_user_id i) d = Inr x \<and>
    x + si_amount_minor i \<le> mk_max_user_exposure_minor m \<and>
    current_market_exposure (sql_now q) mid d = Inr y \<and>
    y + si_amount_minor i \<le> mk_max_market_exposure_minor m \<and>
    stake_intents d' = stake_intents d @ [i]"
proof -
  from assms have tx: "create_stake_intent_tx env q hdrs mid b d = Inr ((201, i), d')"
    by (simp add: create_stake_intent_def transaction_Inr)
  then show ?thesis
  proof (rule create_stake_intent_txE)
    fix u m key w a sha
    assume m: "find (\<lambda>m. mk_id m = mid) (prediction_markets d) = Some m" and r: "mk_status m = ''open''"
      "mk_opens_at m \<le> now_utc q 0" "now_utc q 0 < mk_closes_at m"
      "mk_min_stake_minor m \<le> csr_amount_minor b" "csr_amount_minor b \<le> mk_max_stake_minor m"
      and o: "require_outcome mid (csr_outcome_id b) d = Inr ()"
      and p: "require_policy_allow (sql_now q) mid (Some u) ''stake'' d = Inr ()"
      and a: "a \<in> set (stellar_accounts d)" "sa_user_id a = u" "sa_verified_at a \<noteq> None"
      and ins: "insert_stake_intent q m u a (csr_outcome_id b) (csr_amount_minor b) key w sha d = Inr ((201, i), d')"
    have "mk_id m = mid" using find_Some_in [OF m] by simp
    from ins show ?thesis
    proof (rule insert_stake_intentE)
      fix x y
      assume I: "current_user_exposure (sql_now q) (mk_id m) u d = Inr x"
        "x + csr_amount_minor b \<le> mk_max_user_exposure_minor m"
        "current_market_exposure (sql_now q) (mk_id m) d = Inr y"
        "y + csr_amount_minor b \<le> mk_max_market_exposure_minor m"
        "si_outcome_id i = csr_outcome_id b" "si_user_id i = u" "si_stellar_account_id i = sa_id a"
        "si_amount_minor i = csr_amount_minor b" "si_expires_at i \<le> mk_closes_at m"
        "stake_intents d' = stake_intents d @ [i]"
      from o have "\<exists>o' \<in> set (market_outcomes d). mo_market_id o' = mid \<and> mo_id o' = si_outcome_id i"
        by (auto simp: require_outcome_def list_ex_iff I(5) split: if_splits)
      moreover from p have "current_decision (sql_now q) mid (Some (si_user_id i)) ''stake'' d = Some ''allow''"
        by (simp add: require_policy_allow_def I(6) split: if_splits)
      moreover have "\<exists>a \<in> set (stellar_accounts d). sa_id a = si_stellar_account_id i \<and> sa_user_id a = si_user_id i \<and>
          sa_verified_at a \<noteq> None" using a by (auto simp: I(6,7))
      ultimately show ?thesis
        using I m r \<open>mk_id m = mid\<close> by (intro exI [of _ m] exI [of _ x] exI [of _ y]) simp
    qed
  qed
qed

theorem stake_intent_within_limits_witness:
  "stake_intents stake1 = [demo_stake ''i'' 7 ''awaiting_signature'' None None None 9] \<and>
   (\<exists>x. current_user_exposure 5 ''m1'' ''u'' stake0 = Inr x \<and> x + 7 \<le> 200)"
  using stake_intent_within_limits [OF stake_created]
  by (auto simp: dq_def demo_stake_def stake0_def market_base_def demo_market_def)

end
