(* ===== verification/Payout_Routines.thy ===== *)
theory Payout_Routines
  imports Api_Core "HOL-Library.Word"
begin

text \<open>
  The pure routines of \<open>services/api/src/payouts.rs\<close>: the split of a sale, decimal amounts, Stellar account
  identifiers with their checksum, and the comparison of the worker token.
\<close>

unbundle bit_operations_syntax

section \<open>The worker token\<close>

text \<open>\<open>usize\<close> values below 256 combined with \<open>|\<close> and the XOR of two lengths: no width is exceeded.\<close>

definition byte_or_zero :: "string \<Rightarrow> nat \<Rightarrow> nat" where
  "byte_or_zero s index = (if index < length s then of_char (s ! index) else 0)"

definition constant_time_equal :: "string \<Rightarrow> string \<Rightarrow> bool" where
  "constant_time_equal left right =
     (foldl (\<lambda>difference index. difference OR (byte_or_zero left index XOR byte_or_zero right index))
        (length left XOR length right) [0 ..< max (length left) (length right)] = 0)"

lemma foldl_or_zero: "foldl (\<lambda>acc i. acc OR f i) a xs = 0 \<longleftrightarrow> a = (0 :: nat) \<and> (\<forall>i \<in> set xs. f i = 0)"
  by (induction xs arbitrary: a) (auto simp: or_eq_0_iff)

lemma xor_zero_nat: "a XOR b = 0 \<longleftrightarrow> a = (b :: nat)"
  by (auto simp: bit_eq_iff bit_xor_iff)

lemma constant_time_equal_iff: "constant_time_equal left right \<longleftrightarrow> left = right"
proof
  assume "constant_time_equal left right"
  then have n: "length left = length right"
    and b: "\<And>i. i < length left \<Longrightarrow> byte_or_zero left i = byte_or_zero right i"
    by (auto simp: constant_time_equal_def foldl_or_zero xor_zero_nat)
  show "left = right"
  proof (rule nth_equalityI [OF n])
    fix i assume "i < length left"
    with b [of i] n have "(of_char (left ! i) :: nat) = of_char (right ! i)" by (simp add: byte_or_zero_def)
    then show "left ! i = right ! i" by (metis char_of_char)
  qed
qed (simp only: constant_time_equal_def foldl_or_zero xor_zero_nat, simp)

section \<open>The split\<close>

definition validate_bps :: "int \<Rightarrow> int \<Rightarrow> int \<Rightarrow> api_error + unit" where
  "validate_bps candidate organizer platform =
     (if candidate < 0 \<or> organizer < 0 \<or> platform < 0 \<or> candidate > 10000 \<or> organizer > 10000 \<or>
         platform > 10000 \<or> candidate + organizer + platform \<noteq> 10000
      then Inl (InvalidRequest ''invalid_payout_basis_points'') else Inr ())"

definition payout_overflow :: api_error where
  "payout_overflow = InvalidRequest ''payout_amount_overflow''"

record payout_split =
  sp_candidate :: int
  sp_organizer :: int
  sp_platform :: int

definition calculate_split :: "int \<Rightarrow> int \<Rightarrow> int \<Rightarrow> int \<Rightarrow> api_error + payout_split" where
  "calculate_split total_minor candidate_bps organizer_bps platform_bps =
     (if total_minor \<le> 0 then Inl (InvalidRequest ''invalid_payout_total'')
      else
      bind_result (validate_bps candidate_bps organizer_bps platform_bps) (\<lambda>_.
      bind_result (ok_or (checked_i128 (total_minor * candidate_bps)) payout_overflow) (\<lambda>product_c.
      let candidate = product_c sdiv 10000 in
      bind_result (ok_or (checked_i128 (total_minor * organizer_bps)) payout_overflow) (\<lambda>product_o.
      let organizer = product_o sdiv 10000 in
      bind_result (ok_or (checked_i128 (total_minor - candidate)) payout_overflow) (\<lambda>value.
      bind_result (ok_or (checked_i128 (value - organizer)) payout_overflow) (\<lambda>platform.
      bind_result (ok_or (checked_i64 candidate) payout_overflow) (\<lambda>candidate.
      bind_result (ok_or (checked_i64 organizer) payout_overflow) (\<lambda>organizer.
      bind_result (ok_or (checked_i64 platform) payout_overflow) (\<lambda>platform.
      Inr \<lparr>sp_candidate = candidate, sp_organizer = organizer, sp_platform = platform\<rparr>)))))))))"

lemma validate_bps_Inr [result_simps]:
  "validate_bps c r p = Inr u \<longleftrightarrow> 0 \<le> c \<and> 0 \<le> r \<and> 0 \<le> p \<and> c + r + p = 10000"
  by (auto simp: validate_bps_def)

text \<open>Within the range of \<open>i64\<close> no intermediate value leaves its type.\<close>

lemma bps_product:
  assumes "0 \<le> c" "c \<le> 10000" "0 \<le> t" "t \<le> i64_max"
  shows "checked_i128 (t * c) = Some (t * c)" "0 \<le> t * c div 10000" "t * c div 10000 \<le> t"
proof -
  have "t * c \<le> t * 10000" using assms by (intro mult_left_mono) auto
  moreover have "t * 10000 \<le> i128_max" using assms(4) by (simp add: i64_max_def i128_max_def)
  moreover have "0 \<le> t * c" using assms by simp
  ultimately show "checked_i128 (t * c) = Some (t * c)" using int_type_bounds(3) by (auto intro: order_trans)
  show "0 \<le> t * c div 10000" using \<open>0 \<le> t * c\<close> by (simp add: pos_imp_zdiv_nonneg_iff)
  have "t * c div 10000 \<le> t * 10000 div 10000" using \<open>t * c \<le> t * 10000\<close> by (intro zdiv_mono1) simp_all
  then show "t * c div 10000 \<le> t" by simp
qed

lemma bps_floor_sum:
  assumes "0 \<le> (t::int)" "c + r + p = 10000"
  shows "t * c div 10000 + t * r div 10000 + t * p div 10000 \<le> t"
proof -
  have "t * c div 10000 * 10000 \<le> t * c" "t * r div 10000 * 10000 \<le> t * r" "t * p div 10000 * 10000 \<le> t * p"
    by (simp_all add: minus_mod_eq_div_mult [symmetric])
  then have "(t * c div 10000 + t * r div 10000 + t * p div 10000) * 10000 \<le> t * (c + r + p)"
    by (simp add: algebra_simps)
  with assms(2) show ?thesis by simp
qed

lemma calculate_split_ok:
  assumes "0 < t" "t \<le> i64_max" "validate_bps c r p = Inr ()"
  shows "calculate_split t c r p = Inr \<lparr>sp_candidate = t * c div 10000, sp_organizer = t * r div 10000,
     sp_platform = t - t * c div 10000 - t * r div 10000\<rparr>"
proof -
  have b: "0 \<le> c" "0 \<le> r" "0 \<le> p" "c + r + p = 10000" using assms(3) by (simp_all add: validate_bps_Inr)
  then have "c \<le> 10000" "r \<le> 10000" by simp_all
  note C = bps_product [OF b(1) this(1) less_imp_le [OF assms(1)] assms(2)]
  note R = bps_product [OF b(2) \<open>r \<le> 10000\<close> less_imp_le [OF assms(1)] assms(2)]
  have "t * p div 10000 \<ge> 0" using b assms(1) by (simp add: pos_imp_zdiv_nonneg_iff)
  with bps_floor_sum [OF less_imp_le [OF assms(1)] b(4)] have le: "0 \<le> t - t * c div 10000 - t * r div 10000" by simp
  have big: "i128_min \<le> x \<and> x \<le> i128_max \<and> i64_min \<le> x \<and> x \<le> i64_max" if "0 \<le> x" "x \<le> t" for x
    using that assms(2) by (simp add: i128_min_def i128_max_def i64_min_def i64_max_def)
  have "checked_i128 (t - t * c div 10000) = Some (t - t * c div 10000)"
    "checked_i128 (t - t * c div 10000 - t * r div 10000) = Some (t - t * c div 10000 - t * r div 10000)"
    "checked_i64 (t * c div 10000) = Some (t * c div 10000)" "checked_i64 (t * r div 10000) = Some (t * r div 10000)"
    "checked_i64 (t - t * c div 10000 - t * r div 10000) = Some (t - t * c div 10000 - t * r div 10000)"
    using C(2,3) R(2,3) le by (simp_all add: big)
  moreover have "t * c sdiv 10000 = t * c div 10000" "t * r sdiv 10000 = t * r div 10000"
    using assms(1) b by simp_all
  ultimately show ?thesis
    using assms(1,3) C(1) R(1) by (simp add: calculate_split_def Let_def)
qed

section \<open>Decimal amounts\<close>

definition digit_value :: "char \<Rightarrow> nat" where
  "digit_value c = of_char c - 48"

definition digits_value :: "string \<Rightarrow> nat" where
  "digits_value s = foldl (\<lambda>acc c. 10 * acc + digit_value c) 0 s"

text \<open>\<open>parse::<i64>()\<close> on a non-empty run of digits.\<close>

definition parse_i64_digits :: "string \<Rightarrow> int option" where
  "parse_i64_digits s = checked_i64 (int (digits_value s))"

definition decimal_minor :: "string \<Rightarrow> int \<Rightarrow> int option" where
  "decimal_minor value scale =
     (if \<not> (0 \<le> scale \<and> scale \<le> 7) \<or> take 1 value = ''-'' \<or> take 1 value = ''+'' then None
      else
      let parts = split_on (CHR ''.'') value; whole = hd parts;
          fraction = (case tl parts of [] \<Rightarrow> '''' | f # _ \<Rightarrow> f) in
      if length parts > 2 \<or> whole = '''' \<or> \<not> list_all is_ascii_digit whole \<or> \<not> list_all is_ascii_digit fraction \<or>
         length fraction > nat scale
        then None
      else
      Option.bind (checked_i64 (10 ^ nat scale)) (\<lambda>factor.
      Option.bind (parse_i64_digits whole) (\<lambda>w.
      Option.bind (checked_i64 (w * factor)) (\<lambda>whole.
      let padded = fraction @ replicate (nat scale - length fraction) (CHR ''0'') in
      Option.bind (if padded = '''' then Some 0 else parse_i64_digits padded) (\<lambda>fraction.
      checked_i64 (whole + fraction))))))"

section \<open>Account identifiers\<close>

definition crc16_step :: "16 word \<Rightarrow> 16 word" where
  "crc16_step crc = (if crc AND 0x8000 \<noteq> 0 then push_bit 1 crc XOR 0x1021 else push_bit 1 crc)"

definition crc16_byte :: "16 word \<Rightarrow> nat \<Rightarrow> 16 word" where
  "crc16_byte crc byte = (crc16_step ^^ 8) (crc XOR push_bit 8 (word_of_nat byte))"

definition crc16 :: "nat list \<Rightarrow> 16 word" where
  "crc16 bytes = foldl crc16_byte 0 bytes"

definition base32_digit :: "char \<Rightarrow> nat option" where
  "base32_digit c = (if is_ascii_uppercase c then Some (of_char c - 65)
     else if byte_in 50 55 c then Some (of_char c - 50 + 26) else None)"

text \<open>The decoder takes 5 bits at a time and emits a byte whenever 8 are there: \<open>accumulator\<close> holds fewer than
  13 bits, so the \<open>u64\<close> never overflows, and at most one byte is emitted per character.\<close>

fun decode_base32 :: "nat \<Rightarrow> nat \<Rightarrow> string \<Rightarrow> (nat list \<times> nat) option" where
  "decode_base32 accumulator bits [] = Some ([], bits)"
| "decode_base32 accumulator bits (c # s) =
     (case base32_digit c of None \<Rightarrow> None | Some digit \<Rightarrow>
        (let accumulator = accumulator * 32 + digit; bits = bits + 5 in
         if bits \<ge> 8
         then map_option (\<lambda>r. (accumulator div 2 ^ (bits - 8) mod 256 # fst r, snd r))
           (decode_base32 (accumulator mod 2 ^ (bits - 8)) (bits - 8) s)
         else decode_base32 accumulator bits s))"

definition account_version :: nat where "account_version = 48"

definition validate_strkey_checksum :: "string \<Rightarrow> nat \<Rightarrow> string \<Rightarrow> api_error + unit" where
  "validate_strkey_checksum value version error =
     (if length value \<noteq> 56 then Inl (InvalidRequest error)
      else case decode_base32 0 0 value of
        None \<Rightarrow> Inl (InvalidRequest error)
      | Some (decoded, bits) \<Rightarrow>
          if bits \<noteq> 0 \<or> length decoded \<noteq> 35 \<or> decoded ! 0 \<noteq> version then Inl (InvalidRequest error)
          else if crc16 (take 33 decoded) \<noteq> word_of_nat (decoded ! 33 + 256 * (decoded ! 34))
          then Inl (InvalidRequest error) else Inr ())"

definition account :: "string \<Rightarrow> api_error + string" where
  "account value =
     (let value = to_ascii_uppercase (trim value) in
      bind_result (validate_strkey_checksum value account_version ''invalid_stellar_account'') (\<lambda>_. Inr value))"

section \<open>Text\<close>

definition payout_rule_status :: "string \<Rightarrow> api_error + string" where
  "payout_rule_status value =
     (let value = to_ascii_lowercase (trim value) in
      if List.member [''draft'', ''active'', ''archived''] value then Inr value
      else Inl (InvalidRequest ''invalid_payout_rule_status''))"

definition payout_role :: "string \<Rightarrow> api_error + string" where
  "payout_role value =
     (let value = to_ascii_lowercase (trim value) in
      if List.member [''candidate'', ''organizer'', ''platform''] value then Inr value
      else Inl (InvalidRequest ''invalid_payout_role''))"

definition asset_code_text :: "string \<Rightarrow> api_error + string" where
  "asset_code_text value =
     (let value = to_ascii_uppercase (trim value) in
      if value = '''' \<or> length value > 12 \<or> \<not> list_all (\<lambda>c. is_ascii_uppercase c \<or> is_ascii_digit c) value
      then Inl (InvalidRequest ''invalid_asset_code'') else Inr value)"

definition upper_non_empty :: "string option \<Rightarrow> string option" where
  "upper_non_empty value =
     (case map_option (\<lambda>v. to_ascii_uppercase (trim v)) value of
        Some v \<Rightarrow> if v = '''' then None else Some v | None \<Rightarrow> None)"

definition asset_issuer :: "string \<Rightarrow> string option \<Rightarrow> api_error + string option" where
  "asset_issuer code value =
     (let value = upper_non_empty value in
      if code = ''XLM'' then
        (if value \<noteq> None then Inl (InvalidRequest ''xlm_must_not_have_issuer'') else Inr None)
      else
        bind_result (ok_or value (InvalidRequest ''asset_issuer_required'')) (\<lambda>issuer.
        bind_result (validate_strkey_checksum issuer account_version ''invalid_asset_issuer'') (\<lambda>_.
        Inr (Some issuer))))"

definition hex_string :: "string \<Rightarrow> nat \<Rightarrow> string \<Rightarrow> api_error + string" where
  "hex_string value n error =
     (let value = to_ascii_lowercase (trim value) in
      if length value \<noteq> n \<or> \<not> list_all is_ascii_hexdigit value then Inl (InvalidRequest error) else Inr value)"

text \<open>\<open>required_text\<close> of this module counts characters, not bytes.\<close>

definition required_chars :: "string \<Rightarrow> nat \<Rightarrow> string \<Rightarrow> api_error + string" where
  "required_chars value max_a error =
     (let value = trim value in
      if value = '''' \<or> char_length value > max_a then Inl (InvalidRequest error) else Inr value)"

section \<open>Decimal text\<close>

text \<open>The text of an amount with \<open>scale\<close> decimal places, as the chain writes it.\<close>

definition amount_text :: "nat \<Rightarrow> nat \<Rightarrow> string" where
  "amount_text scale n =
     (let frac = decimal_nat (n mod 10 ^ scale) in
      decimal_nat (n div 10 ^ scale) @
        (if scale = 0 then '''' else ''.'' @ replicate (scale - length frac) (CHR ''0'') @ frac))"

lemma digits_value_append: "digits_value (s @ t) = digits_value s * 10 ^ length t + digits_value t"
proof -
  have key: "foldl (\<lambda>acc c. 10 * acc + digit_value c) a t = a * 10 ^ length t + digits_value t" for a
  proof (induction t arbitrary: a)
    case (Cons c t)
    have "foldl (\<lambda>acc c. 10 * acc + digit_value c) a (c # t) = (10 * a + digit_value c) * 10 ^ length t + digits_value t"
      using Cons [of "10 * a + digit_value c"] by simp
    also have "\<dots> = a * 10 ^ length (c # t) + (digit_value c * 10 ^ length t + digits_value t)"
      by (simp add: add_mult_distrib)
    also have "digit_value c * 10 ^ length t + digits_value t = digits_value (c # t)"
      using Cons [of "digit_value c"] by (simp only: digits_value_def foldl.simps mult_0_right add_0)
    finally show ?case .
  qed (simp add: digits_value_def)
  show ?thesis using key [of "digits_value s"] by (simp add: digits_value_def)
qed

lemma digit_char: "n < 10 \<Longrightarrow> is_ascii_digit (char_of (48 + n :: nat)) \<and> digit_value (char_of (48 + n)) = n"
  by (simp add: is_ascii_digit_def byte_in_def digit_value_def)

lemma digits_value_single: "digits_value [c] = digit_value c"
  by (simp add: digits_value_def)

lemma decimal_nat_value: "digits_value (decimal_nat n) = n"
proof (induction n rule: decimal_nat.induct)
  case (1 n)
  show ?case
  proof (cases "n < 10")
    case True
    then show ?thesis by (simp add: decimal_nat.simps [of n] digits_value_single digit_char)
  next
    case False
    then show ?thesis
      using 1 by (simp add: decimal_nat.simps [of n] digits_value_append digits_value_single digit_char)
  qed
qed

lemma decimal_nat_digits: "list_all is_ascii_digit (decimal_nat n)"
proof (induction n rule: decimal_nat.induct)
  case (1 n)
  then show ?case by (cases "n < 10") (simp_all add: decimal_nat.simps [of n] digit_char)
qed

lemma decimal_nat_nonempty: "decimal_nat n \<noteq> ''''"
  by (subst decimal_nat.simps) simp

lemma decimal_nat_length: "n < 10 ^ k \<Longrightarrow> 0 < k \<Longrightarrow> length (decimal_nat n) \<le> k"
proof (induction k arbitrary: n)
  case (Suc k)
  show ?case
  proof (cases "n < 10")
    case True
    then show ?thesis by (simp add: decimal_nat.simps [of n])
  next
    case False
    then have "0 < k" using Suc.prems(1) by (cases k) simp_all
    moreover have "n div 10 < 10 ^ k" using Suc.prems(1) by (simp add: div_less_iff_less_mult mult.commute)
    ultimately have "length (decimal_nat (n div 10)) \<le> k" using Suc.IH by blast
    with False show ?thesis by (simp add: decimal_nat.simps [of n])
  qed
qed simp

lemma zeros_value: "digits_value (replicate k (CHR ''0'') @ s) = digits_value s"
proof -
  have "digits_value (replicate k (CHR ''0'')) = 0"
    by (induction k) (simp_all add: digits_value_def digit_value_def)
  then show ?thesis by (simp add: digits_value_append)
qed

lemma split_on_none: "sep \<notin> set s \<Longrightarrow> split_on sep s = [s]"
  by (induction s) auto

lemma split_on_append: "sep \<notin> set s \<Longrightarrow> split_on sep (s @ sep # t) = s # split_on sep t"
  by (induction s) auto

lemma digits_no_dot: "list_all is_ascii_digit s \<Longrightarrow> CHR ''.'' \<notin> set s"
  by (auto simp: list_all_iff is_ascii_digit_def byte_in_def)

lemma digits_no_sign: "list_all is_ascii_digit s \<Longrightarrow> s \<noteq> '''' \<Longrightarrow> take 1 (s @ t) \<noteq> ''-'' \<and> take 1 (s @ t) \<noteq> ''+''"
  by (cases s) (auto simp: is_ascii_digit_def byte_in_def)

lemma i64_up_to: "0 \<le> x \<Longrightarrow> x \<le> y \<Longrightarrow> y \<le> i64_max \<Longrightarrow> checked_i64 x = Some x"
  by (simp add: i64_min_def)

lemma decimal_minor_digits:
  assumes "scale \<le> 7" "list_all is_ascii_digit w" "w \<noteq> ''''" "list_all is_ascii_digit f" "length f = scale"
    and sum: "int (digits_value w) * 10 ^ scale + int (digits_value f) \<le> i64_max"
  shows "decimal_minor (w @ (if scale = 0 then '''' else ''.'' @ f)) (int scale)
    = Some (int (digits_value w) * 10 ^ scale + int (digits_value f))"
proof -
  let ?v = "w @ (if scale = 0 then '''' else ''.'' @ f)"
  let ?w = "int (digits_value w)" and ?f = "int (digits_value f)"
  have parts: "split_on (CHR ''.'') ?v = (if scale = 0 then [w] else [w, f])"
    using digits_no_dot [OF assms(2)] digits_no_dot [OF assms(4)] by (simp add: split_on_append split_on_none)
  have sign: "take 1 ?v \<noteq> ''-''" "take 1 ?v \<noteq> ''+''" using digits_no_sign [OF assms(2,3)] by blast+
  have "(10::int) ^ scale \<le> 10 ^ 7" using assms(1) by (intro power_increasing) simp_all
  then have p: "checked_i64 (10 ^ scale) = Some (10 ^ scale)"
    by (intro i64_up_to [of _ "10 ^ 7"]) (simp_all add: i64_max_def)
  have "?w * 1 \<le> ?w * 10 ^ scale" by (intro mult_left_mono) simp_all
  then have le: "?w \<le> ?w * 10 ^ scale + ?f" "?w * 10 ^ scale \<le> ?w * 10 ^ scale + ?f" "?f \<le> ?w * 10 ^ scale + ?f" by simp_all
  have w: "parse_i64_digits w = Some ?w" "parse_i64_digits f = Some ?f"
    unfolding parse_i64_digits_def by (rule i64_up_to [OF _ _ sum]; use le in simp)+
  have wf: "checked_i64 (?w * 10 ^ scale) = Some (?w * 10 ^ scale)"
    "checked_i64 (?w * 10 ^ scale + ?f) = Some (?w * 10 ^ scale + ?f)"
    by (rule i64_up_to [OF _ _ sum]; use le in simp)+
  show ?thesis
  proof (cases "scale = 0")
    case True
    then show ?thesis using assms(2,3,5) sign parts p w wf by (simp add: decimal_minor_def Let_def digits_value_def)
  next
    case False
    have "decimal_minor ?v (int scale) = checked_i64 (?w * 10 ^ scale + ?f)"
      unfolding decimal_minor_def Let_def parts
      using False assms(1-5) sign by (auto simp: p w wf(1))
    with wf(2) show ?thesis by simp
  qed
qed

lemma decimal_minor_amount_text:
  assumes "scale \<le> 7" "int n \<le> i64_max"
  shows "decimal_minor (amount_text scale n) (int scale) = Some (int n)"
proof -
  let ?frac = "decimal_nat (n mod 10 ^ scale)"
  let ?f = "if scale = 0 then '''' else replicate (scale - length ?frac) (CHR ''0'') @ ?frac"
  have l: "length ?f = scale" using decimal_nat_length [of "n mod 10 ^ scale" scale] by simp
  have v: "digits_value ?f = n mod 10 ^ scale"
    by (simp add: zeros_value decimal_nat_value) (simp add: digits_value_def)
  have "list_all is_ascii_digit (replicate k (CHR ''0''))" for k
    by (induction k) (simp_all add: is_ascii_digit_def byte_in_def)
  then have d: "list_all is_ascii_digit ?f" by (simp add: decimal_nat_digits)
  have "int (n div 10 ^ scale) * 10 ^ scale + int (n mod 10 ^ scale) = int (n div 10 ^ scale * 10 ^ scale + n mod 10 ^ scale)"
    by simp
  also have "\<dots> = int n" by (simp only: div_mult_mod_eq)
  finally have n: "int (digits_value (decimal_nat (n div 10 ^ scale))) * 10 ^ scale + int (digits_value ?f) = int n"
    by (simp only: decimal_nat_value v)
  have "amount_text scale n = decimal_nat (n div 10 ^ scale) @ (if scale = 0 then '''' else ''.'' @ ?f)"
    by (simp add: amount_text_def Let_def)
  with decimal_minor_digits [OF assms(1) decimal_nat_digits decimal_nat_nonempty d l, of "n div 10 ^ scale"] n assms(2)
  show ?thesis by simp
qed

end
