(* ===== verification/Commerce_Data.thy ===== *)
theory Commerce_Data
  imports Api_Store Payout_Routines
begin

text \<open>
  The tables of commerce (migrations \<open>202607140002\<close>, \<open>202607140003\<close>, \<open>202607140007\<close> and \<open>202607140008\<close>) with
  their constraints, and the row types of \<open>services/api/src/orders.rs\<close> and \<open>payouts.rs\<close>. Of the catalogue,
  of the transaction intents and of their reconciliation only the columns that these modules read are kept.
\<close>

section \<open>Rows\<close>

record product_row =
  pr_id :: uuid
  pr_organization_id :: uuid
  pr_pageant_id :: "uuid option"
  pr_pageant_contestant_id :: "uuid option"
  pr_kind :: string
  pr_name :: string
  pr_slug :: string
  pr_description :: "string option"
  pr_status :: string
  pr_created_by_user_id :: uuid
  pr_created_at :: int
  pr_updated_at :: int

record price_row =
  pp_id :: uuid
  pp_product_id :: uuid
  pp_amount_minor :: int
  pp_asset_code :: string
  pp_asset_scale :: int
  pp_asset_issuer :: "string option"
  pp_is_active :: bool
  pp_starts_at :: "int option"
  pp_ends_at :: "int option"
  pp_created_at :: int

record inventory_row =
  iv_product_id :: uuid
  iv_supply_limit :: "int option"
  iv_reserved_quantity :: int
  iv_fulfilled_quantity :: int
  iv_updated_at :: int

record OrderRecord =
  or_id :: uuid
  or_organization_id :: uuid
  or_buyer_user_id :: uuid
  or_status :: string
  or_environment :: string
  or_idempotency_key :: string
  or_request_sha256 :: string
  or_amount_minor :: int
  or_asset_code :: string
  or_asset_scale :: int
  or_asset_issuer :: "string option"
  or_expires_at :: "int option"
  or_created_at :: int
  or_updated_at :: int

record OrderItemRecord =
  oit_id :: uuid
  oit_order_id :: uuid
  oit_product_id :: uuid
  oit_product_name :: string
  oit_quantity :: int
  oit_unit_amount_minor :: int
  oit_total_amount_minor :: int
  oit_asset_code :: string
  oit_asset_scale :: int
  oit_asset_issuer :: "string option"
  oit_created_at :: int

record PaymentAttemptRecord =
  pa_id :: uuid
  pa_order_id :: uuid
  pa_provider :: string
  pa_provider_reference :: "string option"
  pa_payer_account :: "string option"
  pa_expected_amount_minor :: int
  pa_asset_code :: string
  pa_asset_scale :: int
  pa_asset_issuer :: "string option"
  pa_environment :: string
  pa_status :: string
  pa_failure_code :: "string option"
  pa_confirmed_at :: "int option"
  pa_created_at :: int
  pa_updated_at :: int

record PaymentProviderEventRecord =
  ppe_id :: uuid
  ppe_payment_attempt_id :: uuid
  ppe_provider :: string
  ppe_provider_event_id :: string
  ppe_payload_sha256 :: string
  ppe_signature_verified :: bool
  ppe_outcome :: string
  ppe_amount_minor :: int
  ppe_asset_code :: string
  ppe_asset_scale :: int
  ppe_asset_issuer :: "string option"
  ppe_payer_account :: "string option"
  ppe_environment :: string
  ppe_processing_status :: string
  ppe_reconciliation_error :: "string option"
  ppe_processed_at :: int
  ppe_created_at :: int

record RefundRecord =
  rf_id :: uuid
  rf_order_id :: uuid
  rf_payment_attempt_id :: "uuid option"
  rf_amount_minor :: int
  rf_asset_code :: string
  rf_asset_scale :: int
  rf_asset_issuer :: "string option"
  rf_reason :: string
  rf_status :: string
  rf_provider_reference :: "string option"
  rf_stellar_transaction_hash :: "string option"
  rf_created_at :: int
  rf_updated_at :: int

record TransactionIntentRecord =
  ti_id :: uuid
  ti_organization_id :: uuid
  ti_order_id :: uuid
  ti_payment_attempt_id :: uuid
  ti_created_by_user_id :: uuid
  ti_operation_type :: string
  ti_network :: string
  ti_source_account :: string
  ti_destination_account :: string
  ti_transaction_sequence :: int
  ti_base_fee :: int
  ti_amount_minor :: int
  ti_asset_code :: string
  ti_asset_scale :: int
  ti_asset_issuer :: "string option"
  ti_memo_text :: string
  ti_idempotency_key :: string
  ti_request_sha256 :: string
  ti_transaction_body_sha256 :: string
  ti_unsigned_envelope_sha256 :: string
  ti_unsigned_envelope_xdr :: string
  ti_status :: string
  ti_expires_at :: int
  ti_signed_at :: "int option"
  ti_submitted_at :: "int option"
  ti_confirmed_at :: "int option"
  ti_failure_code :: "string option"
  ti_created_at :: int
  ti_updated_at :: int

record ReconciliationResultRecord =
  rr_id :: uuid
  rr_transaction_intent_id :: uuid
  rr_chain_evidence_id :: uuid
  rr_status :: string
  rr_failure_code :: "string option"
  rr_expected :: json
  rr_actual :: json
  rr_reconciled_by_user_id :: uuid
  rr_reconciled_at :: int

record PayoutRuleRecord =
  pru_id :: uuid
  pru_organization_id :: uuid
  pru_product_id :: uuid
  pru_candidate_account :: string
  pru_organizer_account :: string
  pru_platform_account :: string
  pru_candidate_bps :: int
  pru_organizer_bps :: int
  pru_platform_bps :: int
  pru_status :: string
  pru_created_by_user_id :: uuid
  pru_created_at :: int
  pru_updated_at :: int
  pru_source_account :: string

record PayoutBatchRecord =
  pb_id :: uuid
  pb_organization_id :: uuid
  pb_order_id :: uuid
  pb_payout_rule_id :: uuid
  pb_status :: string
  pb_amount_minor :: int
  pb_asset_code :: string
  pb_asset_scale :: int
  pb_asset_issuer :: "string option"
  pb_idempotency_key :: string
  pb_request_sha256 :: string
  pb_expected_transfer_count :: int
  pb_confirmed_transfer_count :: int
  pb_submitted_transaction_hash :: "string option"
  pb_submission_response :: "json option"
  pb_submitted_at :: "int option"
  pb_confirmed_at :: "int option"
  pb_failure_code :: "string option"
  pb_created_by_user_id :: uuid
  pb_created_at :: int
  pb_updated_at :: int

record PayoutTransferRecord =
  ptr_id :: uuid
  ptr_payout_batch_id :: uuid
  ptr_role :: string
  ptr_recipient_account :: string
  ptr_expected_amount_minor :: int
  ptr_status :: string
  ptr_operation_index :: "int option"
  ptr_transaction_hash :: "string option"
  ptr_actual_amount_minor :: "int option"
  ptr_ledger_sequence :: "int option"
  ptr_failure_code :: "string option"
  ptr_confirmed_at :: "int option"
  ptr_created_at :: int
  ptr_updated_at :: int

record PayoutEvidenceRecord =
  pte_id :: uuid
  pte_payout_transfer_id :: uuid
  pte_network :: string
  pte_transaction_hash :: string
  pte_operation_index :: int
  pte_source_account :: string
  pte_recipient_account :: string
  pte_amount_minor :: int
  pte_asset_code :: string
  pte_asset_scale :: int
  pte_asset_issuer :: "string option"
  pte_ledger_sequence :: int
  pte_successful :: bool
  pte_evidence_sha256 :: string
  pte_raw_operation :: json
  pte_processing_status :: string
  pte_reconciliation_error :: "string option"
  pte_created_at :: int

record commerce_db = core_db +
  products :: "product_row list"
  product_prices :: "price_row list"
  product_inventory :: "inventory_row list"
  orders :: "OrderRecord list"
  order_items :: "OrderItemRecord list"
  payment_attempts :: "PaymentAttemptRecord list"
  payment_provider_events :: "PaymentProviderEventRecord list"
  refunds :: "RefundRecord list"
  transaction_intents :: "TransactionIntentRecord list"
  stellar_reconciliation_results :: "ReconciliationResultRecord list"
  payout_rules :: "PayoutRuleRecord list"
  payout_batches :: "PayoutBatchRecord list"
  payout_transfers :: "PayoutTransferRecord list"
  payout_transfer_evidence :: "PayoutEvidenceRecord list"

section \<open>Constraints\<close>

definition account_shape :: "string \<Rightarrow> bool" where
  "account_shape s \<longleftrightarrow> length s = 56 \<and> take 1 s = ''G'' \<and> list_all is_base32_char (drop 1 s)"

definition account_shape_or_null :: "string option \<Rightarrow> bool" where
  "account_shape_or_null v = (case v of None \<Rightarrow> True | Some s \<Rightarrow> account_shape s)"

definition sha256_or_null :: "string option \<Rightarrow> bool" where
  "sha256_or_null v = (case v of None \<Rightarrow> True | Some h \<Rightarrow> is_sha256_text h)"

text \<open>A \<open>CHECK\<close> passes when it is null, as for an asset other than XLM without an issuer.\<close>

definition asset_check :: "string \<Rightarrow> int \<Rightarrow> string option \<Rightarrow> bool" where
  "asset_check code scale issuer \<longleftrightarrow> 1 \<le> length code \<and> length code \<le> 12 \<and>
     list_all (\<lambda>c. is_ascii_uppercase c \<or> is_ascii_digit c) code \<and> 0 \<le> scale \<and> scale \<le> 7 \<and>
     (if code = ''XLM'' then issuer = None else account_shape_or_null issuer)"

definition environments :: "string list" where
  "environments = [''local'', ''testnet'', ''staging'', ''production'']"

definition order_check :: "OrderRecord \<Rightarrow> bool" where
  "order_check r \<longleftrightarrow> List.member [''created'', ''awaiting_payment'', ''paid'', ''fulfilling'', ''fulfilled'',
       ''failed'', ''expired'', ''refunded''] (or_status r) \<and> List.member environments (or_environment r) \<and>
     text_between 1 200 (or_idempotency_key r) \<and> is_sha256_text (or_request_sha256 r) \<and> 0 < or_amount_minor r \<and>
     asset_check (or_asset_code r) (or_asset_scale r) (or_asset_issuer r)"

definition order_clash :: "OrderRecord \<Rightarrow> OrderRecord \<Rightarrow> bool" where
  "order_clash a b \<longleftrightarrow> or_id a = or_id b \<or>
     (or_organization_id a = or_organization_id b \<and> or_idempotency_key a = or_idempotency_key b)"

definition order_item_check :: "OrderItemRecord \<Rightarrow> bool" where
  "order_item_check i \<longleftrightarrow> 0 < oit_quantity i \<and> 0 < oit_unit_amount_minor i \<and> 0 < oit_total_amount_minor i \<and>
     oit_total_amount_minor i = oit_unit_amount_minor i * oit_quantity i \<and>
     asset_check (oit_asset_code i) (oit_asset_scale i) (oit_asset_issuer i)"

definition order_item_clash :: "OrderItemRecord \<Rightarrow> OrderItemRecord \<Rightarrow> bool" where
  "order_item_clash a b \<longleftrightarrow> oit_id a = oit_id b \<or>
     (oit_order_id a = oit_order_id b \<and> oit_product_id a = oit_product_id b)"

definition attempt_active :: "PaymentAttemptRecord \<Rightarrow> bool" where
  "attempt_active a \<longleftrightarrow> pa_status a = ''created'' \<or> pa_status a = ''awaiting_confirmation''"

definition attempt_check :: "PaymentAttemptRecord \<Rightarrow> bool" where
  "attempt_check a \<longleftrightarrow> text_between 1 80 (pa_provider a) \<and> account_shape_or_null (pa_payer_account a) \<and>
     0 < pa_expected_amount_minor a \<and> asset_check (pa_asset_code a) (pa_asset_scale a) (pa_asset_issuer a) \<and>
     List.member environments (pa_environment a) \<and>
     List.member [''created'', ''awaiting_confirmation'', ''confirmed'', ''failed'', ''expired''] (pa_status a)"

definition attempt_clash :: "PaymentAttemptRecord \<Rightarrow> PaymentAttemptRecord \<Rightarrow> bool" where
  "attempt_clash a b \<longleftrightarrow> pa_id a = pa_id b \<or>
     (pa_provider_reference a \<noteq> None \<and> pa_provider a = pa_provider b \<and>
      pa_provider_reference a = pa_provider_reference b) \<or>
     (attempt_active a \<and> attempt_active b \<and> pa_order_id a = pa_order_id b)"

definition event_check :: "PaymentProviderEventRecord \<Rightarrow> bool" where
  "event_check e \<longleftrightarrow> text_between 1 80 (ppe_provider e) \<and> text_between 1 200 (ppe_provider_event_id e) \<and>
     is_sha256_text (ppe_payload_sha256 e) \<and> List.member [''confirmed'', ''failed''] (ppe_outcome e) \<and>
     0 < ppe_amount_minor e \<and> asset_check (ppe_asset_code e) (ppe_asset_scale e) (ppe_asset_issuer e) \<and>
     account_shape_or_null (ppe_payer_account e) \<and> List.member environments (ppe_environment e) \<and>
     List.member [''processed'', ''rejected''] (ppe_processing_status e)"

definition event_clash :: "PaymentProviderEventRecord \<Rightarrow> PaymentProviderEventRecord \<Rightarrow> bool" where
  "event_clash a b \<longleftrightarrow> ppe_id a = ppe_id b \<or>
     (ppe_provider a = ppe_provider b \<and> ppe_provider_event_id a = ppe_provider_event_id b)"

definition payout_rule_check :: "PayoutRuleRecord \<Rightarrow> bool" where
  "payout_rule_check r \<longleftrightarrow> account_shape (pru_candidate_account r) \<and> account_shape (pru_organizer_account r) \<and>
     account_shape (pru_platform_account r) \<and> account_shape (pru_source_account r) \<and>
     0 \<le> pru_candidate_bps r \<and> pru_candidate_bps r \<le> 10000 \<and> 0 \<le> pru_organizer_bps r \<and>
     pru_organizer_bps r \<le> 10000 \<and> 0 \<le> pru_platform_bps r \<and> pru_platform_bps r \<le> 10000 \<and>
     List.member [''draft'', ''active'', ''archived''] (pru_status r) \<and>
     pru_candidate_bps r + pru_organizer_bps r + pru_platform_bps r = 10000 \<and>
     distinct [pru_candidate_account r, pru_organizer_account r, pru_platform_account r] \<and>
     \<not> List.member [pru_candidate_account r, pru_organizer_account r, pru_platform_account r] (pru_source_account r)"

definition payout_rule_clash :: "PayoutRuleRecord \<Rightarrow> PayoutRuleRecord \<Rightarrow> bool" where
  "payout_rule_clash a b \<longleftrightarrow> pru_id a = pru_id b \<or>
     (pru_status a = ''active'' \<and> pru_status b = ''active'' \<and> pru_product_id a = pru_product_id b)"

definition payout_batch_check :: "PayoutBatchRecord \<Rightarrow> bool" where
  "payout_batch_check b \<longleftrightarrow>
     List.member [''prepared'', ''submitted'', ''partial'', ''confirmed'', ''failed''] (pb_status b) \<and>
     0 < pb_amount_minor b \<and> asset_check (pb_asset_code b) (pb_asset_scale b) (pb_asset_issuer b) \<and>
     text_between 1 200 (pb_idempotency_key b) \<and> is_sha256_text (pb_request_sha256 b) \<and>
     pb_expected_transfer_count b = 3 \<and> 0 \<le> pb_confirmed_transfer_count b \<and> pb_confirmed_transfer_count b \<le> 3 \<and>
     sha256_or_null (pb_submitted_transaction_hash b) \<and>
     (pb_status b = ''prepared'' \<longrightarrow> pb_submitted_transaction_hash b = None \<and> pb_submitted_at b = None) \<and>
     (List.member [''submitted'', ''partial'', ''confirmed''] (pb_status b) \<longrightarrow>
        pb_submitted_transaction_hash b \<noteq> None \<and> pb_submitted_at b \<noteq> None)"

definition payout_batch_clash :: "PayoutBatchRecord \<Rightarrow> PayoutBatchRecord \<Rightarrow> bool" where
  "payout_batch_clash a b \<longleftrightarrow> pb_id a = pb_id b \<or> pb_order_id a = pb_order_id b \<or>
     (pb_organization_id a = pb_organization_id b \<and> pb_idempotency_key a = pb_idempotency_key b)"

definition payout_transfer_check :: "PayoutTransferRecord \<Rightarrow> bool" where
  "payout_transfer_check t \<longleftrightarrow> List.member [''candidate'', ''organizer'', ''platform''] (ptr_role t) \<and>
     account_shape (ptr_recipient_account t) \<and> 0 \<le> ptr_expected_amount_minor t \<and>
     List.member [''pending'', ''submitted'', ''confirmed'', ''rejected'', ''failed''] (ptr_status t) \<and>
     sha256_or_null (ptr_transaction_hash t)"

definition payout_transfer_clash :: "PayoutTransferRecord \<Rightarrow> PayoutTransferRecord \<Rightarrow> bool" where
  "payout_transfer_clash a b \<longleftrightarrow> ptr_id a = ptr_id b \<or>
     (ptr_payout_batch_id a = ptr_payout_batch_id b \<and> ptr_role a = ptr_role b)"

definition payout_evidence_check :: "PayoutEvidenceRecord \<Rightarrow> bool" where
  "payout_evidence_check e \<longleftrightarrow> pte_network e = ''testnet'' \<and> is_sha256_text (pte_transaction_hash e) \<and>
     0 \<le> pte_operation_index e \<and> account_shape (pte_source_account e) \<and> account_shape (pte_recipient_account e) \<and>
     0 \<le> pte_amount_minor e \<and> asset_check (pte_asset_code e) (pte_asset_scale e) (pte_asset_issuer e) \<and>
     0 < pte_ledger_sequence e \<and> is_sha256_text (pte_evidence_sha256 e) \<and>
     ((pte_processing_status e = ''accepted'' \<and> pte_reconciliation_error e = None) \<or>
      (pte_processing_status e = ''rejected'' \<and> pte_reconciliation_error e \<noteq> None))"

definition payout_evidence_clash :: "PayoutEvidenceRecord \<Rightarrow> PayoutEvidenceRecord \<Rightarrow> bool" where
  "payout_evidence_clash a b \<longleftrightarrow> pte_id a = pte_id b \<or>
     (pte_network a = pte_network b \<and> pte_transaction_hash a = pte_transaction_hash b \<and>
      pte_operation_index a = pte_operation_index b) \<or>
     (pte_processing_status a = ''accepted'' \<and> pte_processing_status b = ''accepted'' \<and>
      pte_payout_transfer_id a = pte_payout_transfer_id b)"

interpretation order_ids: keyed_table or_id order_clash
  by unfold_locales (simp add: order_clash_def)
interpretation order_keys: keyed_table "\<lambda>r. (or_organization_id r, or_idempotency_key r)" order_clash
  by unfold_locales (simp add: order_clash_def)
interpretation attempt_ids: keyed_table pa_id attempt_clash
  by unfold_locales (simp add: attempt_clash_def)
interpretation provider_events: keyed_table "\<lambda>e. (ppe_provider e, ppe_provider_event_id e)" event_clash
  by unfold_locales (simp add: event_clash_def)
interpretation rule_ids: keyed_table pru_id payout_rule_clash
  by unfold_locales (simp add: payout_rule_clash_def)
interpretation batch_ids: keyed_table pb_id payout_batch_clash
  by unfold_locales (simp add: payout_batch_clash_def)
interpretation batch_orders: keyed_table pb_order_id payout_batch_clash
  by unfold_locales (simp add: payout_batch_clash_def)
interpretation transfer_ids: keyed_table ptr_id payout_transfer_clash
  by unfold_locales (simp add: payout_transfer_clash_def)
interpretation transfer_roles: keyed_table "\<lambda>t. (ptr_payout_batch_id t, ptr_role t)" payout_transfer_clash
  by unfold_locales (simp add: payout_transfer_clash_def)
interpretation payout_evidence_ids: keyed_table pte_id payout_evidence_clash
  by unfold_locales (simp add: payout_evidence_clash_def)

section \<open>Guards and writes shared by the modules\<close>

definition require_admin :: "env \<Rightarrow> headers \<Rightarrow> api_error + unit" where
  "require_admin env hdrs =
     (if header_or_default hdrs ''x-admin-demo-token'' = admin_demo_token env then Inr () else Inl Unauthorized)"

definition actor_header :: "env \<Rightarrow> headers \<Rightarrow> api_error + uuid" where
  "actor_header env hdrs =
     (case hdrs ''x-crownfi-user-id'' of None \<Rightarrow> Inl Unauthorized | Some value \<Rightarrow> ok_or (parse_uuid env value) Unauthorized)"

definition require_admin_actor :: "env \<Rightarrow> headers \<Rightarrow> api_error + uuid" where
  "require_admin_actor env hdrs = bind_result (require_admin env hdrs) (\<lambda>_. actor_header env hdrs)"

definition require_member_editor :: "uuid \<Rightarrow> uuid \<Rightarrow> commerce_db \<Rightarrow> api_error + unit" where
  "require_member_editor org user d =
     (if member_role org user [''owner'', ''admin'', ''editor''] d then Inr () else Inl Forbidden)"

fun commerce_db_error :: "db_error \<Rightarrow> api_error" where
  "commerce_db_error Unique_violation = Conflict ''resource_already_exists''"
| "commerce_db_error Foreign_key_violation = InvalidRequest ''related_resource_not_found''"
| "commerce_db_error Check_violation = InvalidRequest ''database_constraint_failed''"
| "commerce_db_error Invalid_text_representation = InvalidRequest ''database_constraint_failed''"
| "commerce_db_error Numeric_out_of_range = InvalidRequest ''database_constraint_failed''"
| "commerce_db_error Other_database_error = Database"
| "commerce_db_error Connection_error = Database"

definition commerce_audit ::
  "uuid \<Rightarrow> uuid \<Rightarrow> uuid \<Rightarrow> string \<Rightarrow> string \<Rightarrow> uuid \<Rightarrow> json \<Rightarrow> commerce_db \<Rightarrow> api_error + commerce_db" where
  "commerce_audit new_id organization_id actor_user_id action entity_type entity_id metadata d =
     or_db_error commerce_db_error (insert_audit
       \<lparr>al_id = new_id, al_organization_id = Some organization_id, al_actor_user_id = Some actor_user_id,
        al_action = action, al_entity_type = entity_type, al_entity_id = Some entity_id, al_metadata = metadata\<rparr> d)"

lemma commerce_audit_Inr [result_simps]:
  "commerce_audit i org actor act ty ent m d = Inr d' \<longleftrightarrow>
     is_object m \<and> (\<forall>r \<in> set (audit_logs d). al_id r \<noteq> i) \<and>
     (\<exists>row. d' = d\<lparr>audit_logs := audit_logs d @ [row]\<rparr> \<and> row = \<lparr>al_id = i, al_organization_id = Some org,
       al_actor_user_id = Some actor, al_action = act, al_entity_type = ty, al_entity_id = Some ent, al_metadata = m\<rparr>)"
  by (auto simp: commerce_audit_def result_simps)

lemma require_admin_actor_Inr [result_simps]:
  "require_admin_actor env hdrs = Inr u \<longleftrightarrow>
     header_or_default hdrs ''x-admin-demo-token'' = admin_demo_token env \<and> actor_header env hdrs = Inr u"
  by (auto simp: require_admin_actor_def require_admin_def bind_result_Inr split: if_splits)

lemma require_member_editor_Inr [result_simps]:
  "require_member_editor org user d = Inr u \<longleftrightarrow> member_role org user [''owner'', ''admin'', ''editor''] d"
  by (simp add: require_member_editor_def)

section \<open>JSON access\<close>

definition json_get :: "string \<Rightarrow> json \<Rightarrow> json option" where
  "json_get key j = (case j of JObj kvs \<Rightarrow> map_of kvs key | _ \<Rightarrow> None)"

fun json_str :: "json \<Rightarrow> string option" where
  "json_str (JStr s) = Some s"
| "json_str _ = None"

fun json_i64 :: "json \<Rightarrow> int option" where
  "json_i64 (JInt n) = checked_i64 n"
| "json_i64 _ = None"

definition get_str :: "string \<Rightarrow> json \<Rightarrow> string option" where
  "get_str key j = Option.bind (json_get key j) json_str"

definition get_i64 :: "string \<Rightarrow> json \<Rightarrow> int option" where
  "get_i64 key j = Option.bind (json_get key j) json_i64"

definition str_or_null :: "string option \<Rightarrow> json" where
  "str_or_null v = (case v of None \<Rightarrow> JNull | Some s \<Rightarrow> JStr s)"

end
