(* ===== verification/Payouts.thy ===== *)
theory Payouts
  imports Commerce_Data
begin

text \<open>
  The handlers of \<open>services/api/src/payouts.rs\<close>: the rule that splits the sale of a product between candidate,
  organizer and platform, the batch of three transfers of a fulfilled order, and the worker's submission, evidence
  and failure reports.
\<close>

section \<open>Requests and responses\<close>

record PayoutBatchResponse =
  pbr_batch :: PayoutBatchRecord
  pbr_transfers :: "PayoutTransferRecord list"
  pbr_latest_evidence :: "PayoutEvidenceRecord list"

record CreatePayoutRuleRequest =
  cpr_source_account :: string
  cpr_candidate_account :: string
  cpr_organizer_account :: string
  cpr_platform_account :: string
  cpr_candidate_bps :: int
  cpr_organizer_bps :: int
  cpr_platform_bps :: int
  cpr_status :: "string option"

record CreatePayoutBatchRequest =
  cpb_payout_rule_id :: uuid
  cpb_idempotency_key :: string

record PayoutSubmissionRequest =
  psr_transaction_hash :: string
  psr_submission_response :: json

record TransferEvidenceRequest =
  ter_role :: string
  ter_transaction_hash :: string
  ter_operation_index :: int
  ter_source_account :: string
  ter_recipient_account :: string
  ter_amount_minor :: int
  ter_asset_code :: string
  ter_asset_scale :: int
  ter_asset_issuer :: "string option"
  ter_ledger_sequence :: int
  ter_successful :: bool
  ter_raw_operation :: json

record OrderPayoutSource =
  ops_organization_id :: uuid
  ops_status :: string
  ops_environment :: string
  ops_amount_minor :: int
  ops_asset_code :: string
  ops_asset_scale :: int
  ops_asset_issuer :: "string option"
  ops_product_id :: uuid
  ops_quantity :: int

section \<open>Guards and reads\<close>

definition require_worker_actor :: "env \<Rightarrow> headers \<Rightarrow> api_error + uuid" where
  "require_worker_actor env hdrs =
     bind_result (ok_or (payout_worker_token env) (ServiceUnavailable ''payout_worker_not_configured'')) (\<lambda>expected.
     bind_result (ok_or (hdrs ''x-crownfi-payout-worker-token'') Unauthorized) (\<lambda>provided.
     if \<not> constant_time_equal expected provided then Inl Unauthorized else actor_header env hdrs))"

definition ensure_user :: "uuid \<Rightarrow> commerce_db \<Rightarrow> api_error + unit" where
  "ensure_user user d = (if list_ex (\<lambda>u. us_id u = user) (users d) then Inr () else Inl Unauthorized)"

definition load_batch_for_update :: "uuid \<Rightarrow> commerce_db \<Rightarrow> api_error + PayoutBatchRecord" where
  "load_batch_for_update batch_id d = ok_or (find (\<lambda>b. pb_id b = batch_id) (payout_batches d)) NotFound"

definition role_rank :: "string \<Rightarrow> nat" where
  "role_rank role = (if role = ''candidate'' then 0 else if role = ''organizer'' then 1 else 2)"

definition batch_transfers :: "uuid \<Rightarrow> commerce_db \<Rightarrow> PayoutTransferRecord list" where
  "batch_transfers batch_id d = filter (\<lambda>t. ptr_payout_batch_id t = batch_id) (payout_transfers d)"

text \<open>\<open>DISTINCT ON\<close>: the first row of each group of equal keys in the sorted list.\<close>

fun distinct_on :: "('r \<Rightarrow> 'k) \<Rightarrow> 'r list \<Rightarrow> 'r list" where
  "distinct_on key [] = []"
| "distinct_on key [r] = [r]"
| "distinct_on key (r # s # rest) =
     (if key r = key s then distinct_on key (r # rest) else r # distinct_on key (s # rest))"

definition load_batch :: "uuid \<Rightarrow> commerce_db \<Rightarrow> api_error + PayoutBatchResponse" where
  "load_batch batch_id d =
     bind_result (load_batch_for_update batch_id d) (\<lambda>batch.
     Inr \<lparr>pbr_batch = batch, pbr_transfers = sort_key (\<lambda>t. role_rank (ptr_role t)) (batch_transfers batch_id d),
        pbr_latest_evidence = distinct_on pte_payout_transfer_id
          (sort_key (\<lambda>e. (pte_payout_transfer_id e, - pte_created_at e))
            (filter (\<lambda>e. list_ex (\<lambda>t. ptr_id t = pte_payout_transfer_id e) (batch_transfers batch_id d))
              (payout_transfer_evidence d)))\<rparr>)"

section \<open>Rules\<close>

definition new_payout_rule ::
  "draws \<Rightarrow> uuid \<Rightarrow> uuid \<Rightarrow> uuid \<Rightarrow> CreatePayoutRuleRequest \<Rightarrow> string \<Rightarrow> string \<Rightarrow> string \<Rightarrow> string \<Rightarrow> string \<Rightarrow>
   PayoutRuleRecord" where
  "new_payout_rule q actor organization_id product_id body source candidate organizer platform status =
     \<lparr>pru_id = new_uuid q 0, pru_organization_id = organization_id, pru_product_id = product_id,
      pru_candidate_account = candidate, pru_organizer_account = organizer, pru_platform_account = platform,
      pru_candidate_bps = cpr_candidate_bps body, pru_organizer_bps = cpr_organizer_bps body,
      pru_platform_bps = cpr_platform_bps body, pru_status = status, pru_created_by_user_id = actor,
      pru_created_at = sql_now q, pru_updated_at = sql_now q, pru_source_account = source\<rparr>"

definition create_payout_rule_tx ::
  "env \<Rightarrow> draws \<Rightarrow> headers \<Rightarrow> uuid \<Rightarrow> uuid \<Rightarrow> CreatePayoutRuleRequest \<Rightarrow> commerce_db \<Rightarrow>
   api_error + (nat \<times> PayoutRuleRecord) \<times> commerce_db" where
  "create_payout_rule_tx env q hdrs organization_id product_id body d =
     bind_result (require_admin_actor env hdrs) (\<lambda>actor.
     bind_result (database_pool env) (\<lambda>_.
     bind_result (require_member_editor organization_id actor d) (\<lambda>_.
     bind_result (ok_or (find (\<lambda>p. pr_id p = product_id) (products d)) NotFound) (\<lambda>product.
     if pr_organization_id product \<noteq> organization_id then Inl NotFound
     else
     bind_result (account (cpr_source_account body)) (\<lambda>source.
     bind_result (account (cpr_candidate_account body)) (\<lambda>candidate.
     bind_result (account (cpr_organizer_account body)) (\<lambda>organizer.
     bind_result (account (cpr_platform_account body)) (\<lambda>platform.
     if source = candidate \<or> source = organizer \<or> source = platform \<or> candidate = organizer \<or>
        candidate = platform \<or> organizer = platform
       then Inl (InvalidRequest ''payout_accounts_must_be_distinct'')
     else
     bind_result (validate_bps (cpr_candidate_bps body) (cpr_organizer_bps body) (cpr_platform_bps body)) (\<lambda>_.
     bind_result (payout_rule_status (case cpr_status body of None \<Rightarrow> ''active'' | Some s \<Rightarrow> s)) (\<lambda>status.
     bind_result (or_db_error commerce_db_error (sql_insert payout_rule_check payout_rule_clash
        (new_payout_rule q actor organization_id product_id body source candidate organizer platform status)
        (payout_rules d))) (\<lambda>rule_rows.
     bind_result (commerce_audit (new_uuid q 1) organization_id actor ''payout_rule.create'' ''payout_rule''
        (new_uuid q 0)
        (JObj [(''product_id'', JStr product_id), (''source_account'', JStr source),
           (''candidate_account'', JStr candidate), (''organizer_account'', JStr organizer),
           (''platform_account'', JStr platform), (''candidate_bps'', JInt (cpr_candidate_bps body)),
           (''organizer_bps'', JInt (cpr_organizer_bps body)), (''platform_bps'', JInt (cpr_platform_bps body)),
           (''status'', JStr status)]) (d\<lparr>payout_rules := rule_rows\<rparr>)) (\<lambda>d.
     Inr ((201, new_payout_rule q actor organization_id product_id body source candidate organizer platform status),
       d)))))))))))))"

definition create_payout_rule ::
  "env \<Rightarrow> draws \<Rightarrow> headers \<Rightarrow> uuid \<Rightarrow> uuid \<Rightarrow> CreatePayoutRuleRequest \<Rightarrow> commerce_db \<Rightarrow>
   (api_error + nat \<times> PayoutRuleRecord) \<times> commerce_db" where
  "create_payout_rule env q hdrs organization_id product_id body d =
     transaction (create_payout_rule_tx env q hdrs organization_id product_id body) d"

section \<open>Batches\<close>

definition payout_sources :: "uuid \<Rightarrow> commerce_db \<Rightarrow> OrderPayoutSource list" where
  "payout_sources order_id d =
     concat (map (\<lambda>r. map (\<lambda>i. \<lparr>ops_organization_id = or_organization_id r, ops_status = or_status r,
          ops_environment = or_environment r, ops_amount_minor = or_amount_minor r,
          ops_asset_code = or_asset_code r, ops_asset_scale = or_asset_scale r,
          ops_asset_issuer = or_asset_issuer r, ops_product_id = oit_product_id i, ops_quantity = oit_quantity i\<rparr>)
        (filter (\<lambda>i. oit_order_id i = or_id r) (order_items d))) (filter (\<lambda>r. or_id r = order_id) (orders d)))"

definition payment_confirmed :: "uuid \<Rightarrow> commerce_db \<Rightarrow> bool" where
  "payment_confirmed order_id d =
     list_ex (\<lambda>ti. ti_order_id ti = order_id \<and> list_ex (\<lambda>sr. rr_transaction_intent_id sr = ti_id ti \<and>
        rr_status sr = ''accepted'') (stellar_reconciliation_results d)) (transaction_intents d)"

definition payout_request_text :: "OrderPayoutSource \<Rightarrow> uuid \<Rightarrow> PayoutRuleRecord \<Rightarrow> payout_split \<Rightarrow> string" where
  "payout_request_text order order_id rule split =
     ''organization='' @ ops_organization_id order @ '';order='' @ order_id @ '';rule='' @ pru_id rule @
     '';amount='' @ decimal (ops_amount_minor order) @ '';asset='' @ ops_asset_code order @ '':'' @
     decimal (ops_asset_scale order) @ '':'' @
     (case ops_asset_issuer order of None \<Rightarrow> '''' | Some s \<Rightarrow> s) @ '';candidate='' @ decimal (sp_candidate split) @
     '';organizer='' @ decimal (sp_organizer split) @ '';platform='' @ decimal (sp_platform split)"

definition new_payout_batch ::
  "draws \<Rightarrow> uuid \<Rightarrow> OrderPayoutSource \<Rightarrow> uuid \<Rightarrow> PayoutRuleRecord \<Rightarrow> string \<Rightarrow> string \<Rightarrow> PayoutBatchRecord" where
  "new_payout_batch q actor order order_id rule idempotency_key request_sha256 =
     \<lparr>pb_id = new_uuid q 0, pb_organization_id = ops_organization_id order, pb_order_id = order_id,
      pb_payout_rule_id = pru_id rule, pb_status = ''prepared'', pb_amount_minor = ops_amount_minor order,
      pb_asset_code = ops_asset_code order, pb_asset_scale = ops_asset_scale order,
      pb_asset_issuer = ops_asset_issuer order, pb_idempotency_key = idempotency_key,
      pb_request_sha256 = request_sha256, pb_expected_transfer_count = 3, pb_confirmed_transfer_count = 0,
      pb_submitted_transaction_hash = None, pb_submission_response = None, pb_submitted_at = None,
      pb_confirmed_at = None, pb_failure_code = None, pb_created_by_user_id = actor, pb_created_at = sql_now q,
      pb_updated_at = sql_now q\<rparr>"

definition new_payout_transfer :: "draws \<Rightarrow> nat \<Rightarrow> uuid \<Rightarrow> string \<Rightarrow> string \<Rightarrow> int \<Rightarrow> PayoutTransferRecord" where
  "new_payout_transfer q n batch_id role recipient amount =
     \<lparr>ptr_id = new_uuid q n, ptr_payout_batch_id = batch_id, ptr_role = role, ptr_recipient_account = recipient,
      ptr_expected_amount_minor = amount, ptr_status = ''pending'', ptr_operation_index = None,
      ptr_transaction_hash = None, ptr_actual_amount_minor = None, ptr_ledger_sequence = None,
      ptr_failure_code = None, ptr_confirmed_at = None, ptr_created_at = sql_now q, ptr_updated_at = sql_now q\<rparr>"

fun insert_transfers ::
  "draws \<Rightarrow> nat \<Rightarrow> uuid \<Rightarrow> (string \<times> string \<times> int) list \<Rightarrow> PayoutTransferRecord list \<Rightarrow>
   api_error + PayoutTransferRecord list" where
  "insert_transfers q n batch_id [] rows = Inr rows"
| "insert_transfers q n batch_id (share # rest) rows =
     bind_result (or_db_error commerce_db_error (sql_insert payout_transfer_check payout_transfer_clash
        (new_payout_transfer q n batch_id (fst share) (fst (snd share)) (snd (snd share))) rows)) (\<lambda>rows.
     insert_transfers q (n + 1) batch_id rest rows)"

definition payout_shares :: "PayoutRuleRecord \<Rightarrow> payout_split \<Rightarrow> (string \<times> string \<times> int) list" where
  "payout_shares rule split =
     [(''candidate'', pru_candidate_account rule, sp_candidate split),
      (''organizer'', pru_organizer_account rule, sp_organizer split),
      (''platform'', pru_platform_account rule, sp_platform split)]"

definition write_payout_batch ::
  "draws \<Rightarrow> uuid \<Rightarrow> OrderPayoutSource \<Rightarrow> uuid \<Rightarrow> PayoutRuleRecord \<Rightarrow> payout_split \<Rightarrow> string \<Rightarrow> string \<Rightarrow>
   commerce_db \<Rightarrow> api_error + commerce_db" where
  "write_payout_batch q actor order order_id rule split idempotency_key request_sha256 d =
     bind_result (or_db_error commerce_db_error (sql_insert payout_batch_check payout_batch_clash
        (new_payout_batch q actor order order_id rule idempotency_key request_sha256) (payout_batches d)))
       (\<lambda>batch_rows.
     bind_result (insert_transfers q 1 (new_uuid q 0) (payout_shares rule split) (payout_transfers d)) (\<lambda>transfer_rows.
     commerce_audit (new_uuid q 4) (ops_organization_id order) actor ''payout_batch.prepare'' ''payout_batch''
       (new_uuid q 0)
       (JObj [(''order_id'', JStr order_id), (''payout_rule_id'', JStr (pru_id rule)),
          (''amount_minor'', JInt (ops_amount_minor order)), (''asset_code'', JStr (ops_asset_code order)),
          (''candidate_amount_minor'', JInt (sp_candidate split)),
          (''organizer_amount_minor'', JInt (sp_organizer split)),
          (''platform_amount_minor'', JInt (sp_platform split))])
       (d\<lparr>payout_batches := batch_rows, payout_transfers := transfer_rows\<rparr>)))"

definition create_payout_batch_tx ::
  "env \<Rightarrow> draws \<Rightarrow> headers \<Rightarrow> uuid \<Rightarrow> CreatePayoutBatchRequest \<Rightarrow> commerce_db \<Rightarrow>
   api_error + (nat \<times> uuid) \<times> commerce_db" where
  "create_payout_batch_tx env q hdrs order_id body d =
     bind_result (require_admin_actor env hdrs) (\<lambda>actor.
     bind_result (database_pool env) (\<lambda>_.
     bind_result (required_chars (cpb_idempotency_key body) 200 ''invalid_payout_idempotency_key'') (\<lambda>idempotency_key.
     let rows = payout_sources order_id d; order = hd rows in
     if rows = [] then Inl NotFound
     else if length rows \<noteq> 1 \<or> ops_quantity order \<noteq> 1 then Inl (Conflict ''one_payout_product_required'')
     else
     bind_result (require_member_editor (ops_organization_id order) actor d) (\<lambda>_.
     if ops_status order \<noteq> ''fulfilled'' then Inl (Conflict ''fulfilled_order_required_for_payout'')
     else if ops_environment order \<noteq> ''testnet'' then Inl (InvalidRequest ''payout_requires_testnet'')
     else if \<not> payment_confirmed order_id d then Inl (Conflict ''indexed_payment_confirmation_required'')
     else
     bind_result (ok_or (find (\<lambda>r. pru_id r = cpb_payout_rule_id body) (payout_rules d)) NotFound) (\<lambda>rule.
     if pru_organization_id rule \<noteq> ops_organization_id order \<or> pru_product_id rule \<noteq> ops_product_id order
       then Inl (InvalidRequest ''payout_rule_scope_mismatch'')
     else if pru_status rule \<noteq> ''active'' then Inl (Conflict ''active_payout_rule_required'')
     else
     bind_result (validate_bps (pru_candidate_bps rule) (pru_organizer_bps rule) (pru_platform_bps rule)) (\<lambda>_.
     bind_result (calculate_split (ops_amount_minor order) (pru_candidate_bps rule) (pru_organizer_bps rule)
        (pru_platform_bps rule)) (\<lambda>split.
     if sp_candidate split \<le> 0 \<or> sp_organizer split \<le> 0 \<or> sp_platform split \<le> 0
       then Inl (Conflict ''zero_value_payout_share_not_supported'')
     else
     let request_sha256 = hash_text env (payout_request_text order order_id rule split) in
     case find (\<lambda>b. pb_organization_id b = ops_organization_id order \<and> pb_idempotency_key b = idempotency_key)
       (payout_batches d) of
       Some existing \<Rightarrow>
         if pb_request_sha256 existing \<noteq> request_sha256 then Inl (Conflict ''idempotency_key_reused'')
         else Inr ((200, pb_id existing), d)
     | None \<Rightarrow>
         bind_result (write_payout_batch q actor order order_id rule split idempotency_key request_sha256 d) (\<lambda>d.
         Inr ((201, new_uuid q 0), d)))))))))"

definition create_payout_batch ::
  "env \<Rightarrow> draws \<Rightarrow> headers \<Rightarrow> uuid \<Rightarrow> CreatePayoutBatchRequest \<Rightarrow> commerce_db \<Rightarrow>
   (api_error + nat \<times> PayoutBatchResponse) \<times> commerce_db" where
  "create_payout_batch env q hdrs order_id body d =
     then_read (transaction (create_payout_batch_tx env q hdrs order_id body) d)
       (\<lambda>r d. map_sum id (Pair (fst r)) (load_batch (snd r) d))"

definition get_payout_batch :: "env \<Rightarrow> headers \<Rightarrow> uuid \<Rightarrow> commerce_db \<Rightarrow> api_error + PayoutBatchResponse" where
  "get_payout_batch env hdrs batch_id d =
     bind_result (require_admin_actor env hdrs) (\<lambda>actor.
     bind_result (database_pool env) (\<lambda>_.
     bind_result (load_batch_for_update batch_id d) (\<lambda>batch.
     bind_result (require_member_editor (pb_organization_id batch) actor d) (\<lambda>_. load_batch batch_id d))))"

section \<open>Submission\<close>

text \<open>The two updates of a submission.\<close>

definition submit_batch :: "draws \<Rightarrow> uuid \<Rightarrow> string \<Rightarrow> json \<Rightarrow> commerce_db \<Rightarrow> commerce_db" where
  "submit_batch q batch_id transaction_hash response d =
     d\<lparr>payout_batches := sql_update (\<lambda>b. pb_id b = batch_id \<and> pb_status b = ''prepared'')
         (\<lambda>b. b\<lparr>pb_status := ''submitted'', pb_submitted_transaction_hash := Some transaction_hash,
                pb_submission_response := Some response, pb_submitted_at := Some (sql_now q),
                pb_failure_code := None, pb_updated_at := sql_now q\<rparr>) (payout_batches d),
       payout_transfers := sql_update (\<lambda>t. ptr_payout_batch_id t = batch_id \<and> ptr_status t = ''pending'')
         (\<lambda>t. t\<lparr>ptr_status := ''submitted'', ptr_transaction_hash := Some transaction_hash,
                ptr_failure_code := None, ptr_updated_at := sql_now q\<rparr>) (payout_transfers d)\<rparr>"

definition record_payout_submission_tx ::
  "env \<Rightarrow> draws \<Rightarrow> headers \<Rightarrow> uuid \<Rightarrow> PayoutSubmissionRequest \<Rightarrow> commerce_db \<Rightarrow> api_error + unit \<times> commerce_db" where
  "record_payout_submission_tx env q hdrs batch_id body d =
     bind_result (require_worker_actor env hdrs) (\<lambda>actor.
     bind_result (database_pool env) (\<lambda>_.
     bind_result (ensure_user actor d) (\<lambda>_.
     bind_result (hex_string (psr_transaction_hash body) 64 ''invalid_transaction_hash'') (\<lambda>transaction_hash.
     let response = (if psr_submission_response body = JNull then JObj [] else psr_submission_response body) in
     if map_option to_ascii_lowercase (get_str ''hash'' response) \<noteq> Some transaction_hash
       then Inl (InvalidRequest ''submission_response_hash_mismatch'')
     else
     bind_result (load_batch_for_update batch_id d) (\<lambda>batch.
     if List.member [''submitted'', ''partial'', ''confirmed''] (pb_status batch) then
       (if pb_submitted_transaction_hash batch \<noteq> Some transaction_hash
        then Inl (Conflict ''payout_batch_already_submitted'') else Inr ((), d))
     else if pb_status batch \<noteq> ''prepared'' then Inl (Conflict ''payout_batch_not_prepared'')
     else
     bind_result (commerce_audit (new_uuid q 0) (pb_organization_id batch) actor ''payout_batch.submit''
        ''payout_batch'' batch_id
        (JObj [(''transaction_hash'', JStr transaction_hash), (''worker_actor_user_id'', JStr actor),
           (''network'', JStr ''testnet'')]) (submit_batch q batch_id transaction_hash response d)) (\<lambda>d.
     Inr ((), d)))))))"

definition record_payout_submission ::
  "env \<Rightarrow> draws \<Rightarrow> headers \<Rightarrow> uuid \<Rightarrow> PayoutSubmissionRequest \<Rightarrow> commerce_db \<Rightarrow>
   (api_error + nat \<times> PayoutBatchResponse) \<times> commerce_db" where
  "record_payout_submission env q hdrs batch_id body d =
     then_read (transaction (record_payout_submission_tx env q hdrs batch_id body) d)
       (\<lambda>_ d. map_sum id (Pair 200) (load_batch batch_id d))"

section \<open>Evidence\<close>

text \<open>The transfer as the worker reports it, normalised.\<close>

record transfer_report =
  rep_transaction_hash :: string
  rep_operation_index :: int
  rep_source_account :: string
  rep_recipient_account :: string
  rep_amount_minor :: int
  rep_asset_code :: string
  rep_asset_scale :: int
  rep_asset_issuer :: "string option"
  rep_ledger_sequence :: int
  rep_successful :: bool
  rep_raw_operation :: json

definition raw_operation_failure :: "transfer_report \<Rightarrow> string option" where
  "raw_operation_failure p =
     (let raw = rep_raw_operation p in
      if get_str ''type'' raw \<noteq> Some ''payment'' then Some ''raw_operation_type_mismatch''
      else if map_option to_ascii_lowercase (get_str ''transaction_hash'' raw) \<noteq> Some (rep_transaction_hash p)
        then Some ''raw_operation_transaction_hash_mismatch''
      else if get_i64 ''operation_index'' raw \<noteq> Some (rep_operation_index p) \<or>
         get_i64 ''ledger_sequence'' raw \<noteq> Some (rep_ledger_sequence p)
        then Some ''raw_operation_position_mismatch''
      else if get_str ''source_account'' raw \<noteq> Some (rep_source_account p) \<or>
         get_str ''to'' raw \<noteq> Some (rep_recipient_account p)
        then Some ''raw_operation_account_mismatch''
      else case get_str ''amount'' raw of
        None \<Rightarrow> Some ''raw_operation_amount_missing''
      | Some amount \<Rightarrow>
          if decimal_minor amount (rep_asset_scale p) \<noteq> Some (rep_amount_minor p)
            then Some ''raw_operation_amount_mismatch''
          else if rep_asset_code p = ''XLM'' then
            (if get_str ''asset_type'' raw \<noteq> Some ''native'' then Some ''raw_operation_asset_mismatch'' else None)
          else if get_str ''asset_code'' raw \<noteq> Some (rep_asset_code p) \<or>
             get_str ''asset_issuer'' raw \<noteq> rep_asset_issuer p
            then Some ''raw_operation_asset_mismatch''
          else None)"

definition reconcile_transfer ::
  "PayoutBatchRecord \<Rightarrow> PayoutRuleRecord \<Rightarrow> PayoutTransferRecord \<Rightarrow> transfer_report \<Rightarrow> string option" where
  "reconcile_transfer batch rule transfer p =
     (if \<not> List.member [''submitted'', ''partial''] (pb_status batch) \<or> ptr_status transfer \<noteq> ''submitted''
        then Some ''payout_not_submitted''
      else if pb_submitted_transaction_hash batch \<noteq> Some (rep_transaction_hash p)
        then Some ''transaction_hash_mismatch''
      else if rep_source_account p \<noteq> pru_source_account rule then Some ''source_account_mismatch''
      else if rep_recipient_account p \<noteq> ptr_recipient_account transfer then Some ''recipient_account_mismatch''
      else if rep_amount_minor p \<noteq> ptr_expected_amount_minor transfer then Some ''amount_mismatch''
      else if rep_asset_code p \<noteq> pb_asset_code batch \<or> rep_asset_scale p \<noteq> pb_asset_scale batch \<or>
         rep_asset_issuer p \<noteq> pb_asset_issuer batch then Some ''asset_mismatch''
      else if \<not> rep_successful p then Some ''payout_failed_on_chain''
      else raw_operation_failure p)"

definition batch_status_of :: "int \<Rightarrow> string option" where
  "batch_status_of confirmed =
     (if confirmed = 0 then Some ''submitted'' else if confirmed = 1 \<or> confirmed = 2 then Some ''partial''
      else if confirmed = 3 then Some ''confirmed'' else None)"

definition refresh_batch_status :: "draws \<Rightarrow> uuid \<Rightarrow> commerce_db \<Rightarrow> api_error + commerce_db" where
  "refresh_batch_status q batch_id d =
     (let confirmed = sql_count (\<lambda>t. ptr_payout_batch_id t = batch_id \<and> ptr_status t = ''confirmed'')
            (payout_transfers d) in
      bind_result (ok_or (batch_status_of confirmed) Database) (\<lambda>status.
      Inr (d\<lparr>payout_batches := sql_update (\<lambda>b. pb_id b = batch_id)
        (\<lambda>b. b\<lparr>pb_status := status, pb_confirmed_transfer_count := confirmed,
               pb_confirmed_at := (if confirmed = 3 then Some (sql_now q) else None), pb_failure_code := None,
               pb_updated_at := sql_now q\<rparr>) (payout_batches d)\<rparr>)))"

definition new_payout_evidence ::
  "draws \<Rightarrow> PayoutTransferRecord \<Rightarrow> transfer_report \<Rightarrow> string \<Rightarrow> string option \<Rightarrow> PayoutEvidenceRecord" where
  "new_payout_evidence q transfer p evidence_sha256 failure =
     \<lparr>pte_id = new_uuid q 0, pte_payout_transfer_id = ptr_id transfer, pte_network = ''testnet'',
      pte_transaction_hash = rep_transaction_hash p, pte_operation_index = rep_operation_index p,
      pte_source_account = rep_source_account p, pte_recipient_account = rep_recipient_account p,
      pte_amount_minor = rep_amount_minor p, pte_asset_code = rep_asset_code p,
      pte_asset_scale = rep_asset_scale p, pte_asset_issuer = rep_asset_issuer p,
      pte_ledger_sequence = rep_ledger_sequence p, pte_successful = rep_successful p,
      pte_evidence_sha256 = evidence_sha256, pte_raw_operation = rep_raw_operation p,
      pte_processing_status = (if failure = None then ''accepted'' else ''rejected''),
      pte_reconciliation_error = failure, pte_created_at = sql_now q\<rparr>"

definition confirm_transfer :: "draws \<Rightarrow> uuid \<Rightarrow> transfer_report \<Rightarrow> PayoutTransferRecord list \<Rightarrow> PayoutTransferRecord list" where
  "confirm_transfer q transfer_id p rows =
     sql_update (\<lambda>t. ptr_id t = transfer_id \<and> ptr_status t = ''submitted'')
       (\<lambda>t. t\<lparr>ptr_status := ''confirmed'', ptr_operation_index := Some (rep_operation_index p),
              ptr_transaction_hash := Some (rep_transaction_hash p),
              ptr_actual_amount_minor := Some (rep_amount_minor p),
              ptr_ledger_sequence := Some (rep_ledger_sequence p), ptr_failure_code := None,
              ptr_confirmed_at := Some (sql_now q), ptr_updated_at := sql_now q\<rparr>) rows"

definition settle_transfer ::
  "draws \<Rightarrow> uuid \<Rightarrow> PayoutTransferRecord \<Rightarrow> transfer_report \<Rightarrow> commerce_db \<Rightarrow> api_error + commerce_db" where
  "settle_transfer q batch_id transfer p d =
     (if sql_count (\<lambda>t. ptr_id t = ptr_id transfer \<and> ptr_status t = ''submitted'') (payout_transfers d) \<noteq> 1
        then Inl (Conflict ''payout_transfer_state_changed'')
      else refresh_batch_status q batch_id
        (d\<lparr>payout_transfers := confirm_transfer q (ptr_id transfer) p (payout_transfers d)\<rparr>))"

definition write_transfer_evidence ::
  "draws \<Rightarrow> uuid \<Rightarrow> PayoutBatchRecord \<Rightarrow> PayoutRuleRecord \<Rightarrow> PayoutTransferRecord \<Rightarrow> string \<Rightarrow> transfer_report \<Rightarrow>
   string \<Rightarrow> commerce_db \<Rightarrow> api_error + nat \<times> commerce_db" where
  "write_transfer_evidence q actor batch rule transfer role p evidence_sha256 d =
     (let failure = reconcile_transfer batch rule transfer p;
          processing_status = (if failure = None then ''accepted'' else ''rejected'') in
      bind_result (or_db_error commerce_db_error (sql_insert payout_evidence_check payout_evidence_clash
         (new_payout_evidence q transfer p evidence_sha256 failure) (payout_transfer_evidence d))) (\<lambda>evidence_rows.
      bind_result (if failure = None
         then settle_transfer q (pb_id batch) transfer p (d\<lparr>payout_transfer_evidence := evidence_rows\<rparr>)
         else Inr (d\<lparr>payout_transfer_evidence := evidence_rows\<rparr>)) (\<lambda>d.
      bind_result (commerce_audit (new_uuid q 1) (pb_organization_id batch) actor ''payout_transfer.reconcile''
         ''payout_transfer_evidence'' (new_uuid q 0)
         (JObj [(''payout_batch_id'', JStr (pb_id batch)), (''payout_transfer_id'', JStr (ptr_id transfer)),
            (''role'', JStr role), (''transaction_hash'', JStr (rep_transaction_hash p)),
            (''operation_index'', JInt (rep_operation_index p)), (''processing_status'', JStr processing_status),
            (''reconciliation_error'', str_or_null failure)]) d) (\<lambda>d.
      Inr (if failure = None then 201 else 409, d)))))"

definition evidence_json :: "string \<Rightarrow> transfer_report \<Rightarrow> json" where
  "evidence_json role p =
     JObj [(''amount_minor'', JInt (rep_amount_minor p)), (''asset_code'', JStr (rep_asset_code p)),
       (''asset_issuer'', str_or_null (rep_asset_issuer p)), (''asset_scale'', JInt (rep_asset_scale p)),
       (''ledger_sequence'', JInt (rep_ledger_sequence p)), (''operation_index'', JInt (rep_operation_index p)),
       (''raw_operation'', rep_raw_operation p), (''recipient_account'', JStr (rep_recipient_account p)),
       (''role'', JStr role), (''source_account'', JStr (rep_source_account p)),
       (''successful'', JBool (rep_successful p)), (''transaction_hash'', JStr (rep_transaction_hash p))]"

definition transfer_report_of :: "TransferEvidenceRequest \<Rightarrow> api_error + transfer_report" where
  "transfer_report_of body =
     bind_result (hex_string (ter_transaction_hash body) 64 ''invalid_transaction_hash'') (\<lambda>transaction_hash.
     bind_result (account (ter_source_account body)) (\<lambda>source_account.
     bind_result (account (ter_recipient_account body)) (\<lambda>recipient_account.
     bind_result (asset_code_text (ter_asset_code body)) (\<lambda>code.
     bind_result (asset_issuer code (ter_asset_issuer body)) (\<lambda>issuer.
     Inr \<lparr>rep_transaction_hash = transaction_hash, rep_operation_index = ter_operation_index body,
        rep_source_account = source_account, rep_recipient_account = recipient_account,
        rep_amount_minor = ter_amount_minor body, rep_asset_code = code, rep_asset_scale = ter_asset_scale body,
        rep_asset_issuer = issuer, rep_ledger_sequence = ter_ledger_sequence body,
        rep_successful = ter_successful body, rep_raw_operation = ter_raw_operation body\<rparr>)))))"

definition record_transfer_evidence_tx ::
  "env \<Rightarrow> draws \<Rightarrow> headers \<Rightarrow> uuid \<Rightarrow> TransferEvidenceRequest \<Rightarrow> commerce_db \<Rightarrow> api_error + nat \<times> commerce_db" where
  "record_transfer_evidence_tx env q hdrs batch_id body d =
     bind_result (require_worker_actor env hdrs) (\<lambda>actor.
     bind_result (database_pool env) (\<lambda>_.
     bind_result (ensure_user actor d) (\<lambda>_.
     if ter_operation_index body < 0 \<or> ter_amount_minor body < 0 \<or> ter_ledger_sequence body \<le> 0
       then Inl (InvalidRequest ''invalid_payout_evidence_numbers'')
     else if \<not> (0 \<le> ter_asset_scale body \<and> ter_asset_scale body \<le> 7)
       then Inl (InvalidRequest ''invalid_asset_scale'')
     else
     bind_result (payout_role (ter_role body)) (\<lambda>role.
     bind_result (transfer_report_of body) (\<lambda>p.
     let evidence_sha256 = sha256_hex env (json_to_vec env (evidence_json role p)) in
     bind_result (load_batch_for_update batch_id d) (\<lambda>batch.
     bind_result (ok_or (find (\<lambda>r. pru_id r = pb_payout_rule_id batch) (payout_rules d)) Database) (\<lambda>rule.
     bind_result (ok_or (find (\<lambda>t. ptr_payout_batch_id t = batch_id \<and> ptr_role t = role) (payout_transfers d)) NotFound)
       (\<lambda>transfer.
     case find (\<lambda>e. pte_network e = ''testnet'' \<and> pte_transaction_hash e = rep_transaction_hash p \<and>
         pte_operation_index e = rep_operation_index p) (payout_transfer_evidence d) of
       Some existing \<Rightarrow>
         if pte_payout_transfer_id existing \<noteq> ptr_id transfer \<or> pte_evidence_sha256 existing \<noteq> evidence_sha256
         then Inl (Conflict ''payout_evidence_reused'')
         else Inr (if pte_processing_status existing = ''accepted'' then 200 else 409, d)
     | None \<Rightarrow>
         if ptr_status transfer = ''confirmed'' then Inl (Conflict ''payout_transfer_already_confirmed'')
         else write_transfer_evidence q actor batch rule transfer role p evidence_sha256 d))))))))"

definition record_transfer_evidence ::
  "env \<Rightarrow> draws \<Rightarrow> headers \<Rightarrow> uuid \<Rightarrow> TransferEvidenceRequest \<Rightarrow> commerce_db \<Rightarrow>
   (api_error + nat \<times> PayoutBatchResponse) \<times> commerce_db" where
  "record_transfer_evidence env q hdrs batch_id body d =
     then_read (transaction (record_transfer_evidence_tx env q hdrs batch_id body) d)
       (\<lambda>status d. map_sum id (Pair status) (load_batch batch_id d))"

section \<open>Failure\<close>

definition fail_batch :: "draws \<Rightarrow> uuid \<Rightarrow> string \<Rightarrow> string \<Rightarrow> commerce_db \<Rightarrow> commerce_db" where
  "fail_batch q batch_id next_status failure_code d =
     d\<lparr>payout_batches := sql_update (\<lambda>b. pb_id b = batch_id)
         (\<lambda>b. b\<lparr>pb_status := next_status, pb_failure_code := Some failure_code, pb_updated_at := sql_now q\<rparr>)
         (payout_batches d),
       payout_transfers := sql_update (\<lambda>t. ptr_payout_batch_id t = batch_id \<and> ptr_status t = ''submitted'')
         (\<lambda>t. t\<lparr>ptr_status := ''failed'', ptr_failure_code := Some failure_code, ptr_updated_at := sql_now q\<rparr>)
         (payout_transfers d)\<rparr>"

definition record_payout_failure_tx ::
  "env \<Rightarrow> draws \<Rightarrow> headers \<Rightarrow> uuid \<Rightarrow> string \<Rightarrow> commerce_db \<Rightarrow> api_error + unit \<times> commerce_db" where
  "record_payout_failure_tx env q hdrs batch_id raw_failure_code d =
     bind_result (require_worker_actor env hdrs) (\<lambda>actor.
     bind_result (database_pool env) (\<lambda>_.
     bind_result (ensure_user actor d) (\<lambda>_.
     bind_result (required_chars raw_failure_code 500 ''invalid_payout_failure'') (\<lambda>failure_code.
     bind_result (load_batch_for_update batch_id d) (\<lambda>batch.
     if \<not> List.member [''submitted'', ''partial''] (pb_status batch) then Inl (Conflict ''payout_batch_not_in_flight'')
     else
     let next_status = (if pb_confirmed_transfer_count batch > 0 then ''partial'' else ''failed'') in
     bind_result (commerce_audit (new_uuid q 0) (pb_organization_id batch) actor ''payout_batch.fail''
        ''payout_batch'' batch_id
        (JObj [(''failure_code'', JStr failure_code),
           (''confirmed_transfer_count'', JInt (pb_confirmed_transfer_count batch)), (''status'', JStr next_status)])
        (fail_batch q batch_id next_status failure_code d)) (\<lambda>d.
     Inr ((), d)))))))"

definition record_payout_failure ::
  "env \<Rightarrow> draws \<Rightarrow> headers \<Rightarrow> uuid \<Rightarrow> string \<Rightarrow> commerce_db \<Rightarrow> (api_error + PayoutBatchResponse) \<times> commerce_db" where
  "record_payout_failure env q hdrs batch_id failure_code d =
     then_read (transaction (record_payout_failure_tx env q hdrs batch_id failure_code) d)
       (\<lambda>_ d. load_batch batch_id d)"

end
