(* ===== verification/Payout_Effects.thy ===== *)
theory Payout_Effects
  imports Payouts
begin

text \<open>What each handler of \<open>payouts.rs\<close> does to the tables when it succeeds.\<close>

lemma calculate_split_Inr:
  "calculate_split t c r p = Inr s \<Longrightarrow> sp_candidate s + sp_organizer s + sp_platform s = t"
  by (auto simp: calculate_split_def Let_def bind_result_Inr if_Inl_Inr ok_or_Inr)

section \<open>Batches\<close>

fun transfer_rows :: "draws \<Rightarrow> nat \<Rightarrow> uuid \<Rightarrow> (string \<times> string \<times> int) list \<Rightarrow> PayoutTransferRecord list" where
  "transfer_rows q n batch_id [] = []"
| "transfer_rows q n batch_id (share # rest) =
     new_payout_transfer q n batch_id (fst share) (fst (snd share)) (snd (snd share)) #
       transfer_rows q (n + 1) batch_id rest"

lemma insert_transfers_Inr:
  "insert_transfers q n bid shares rows = Inr rows' \<Longrightarrow> rows' = rows @ transfer_rows q n bid shares"
proof (induction shares arbitrary: n rows)
  case (Cons share shares)
  from Cons.prems obtain rows1 where r: "rows1 = rows @ transfer_rows q n bid [share]"
    "insert_transfers q (n + 1) bid shares rows1 = Inr rows'"
    by (auto simp: bind_result_Inr or_db_error_Inr sql_insert_Inr)
  from Cons.IH [OF r(2)] r(1) show ?case by simp
qed simp

lemma insert_transfers_distinct:
  "insert_transfers q n bid shares rows = Inr rows' \<Longrightarrow> distinct (map ptr_id rows) \<Longrightarrow> distinct (map ptr_id rows')"
proof (induction shares arbitrary: n rows)
  case (Cons share shares)
  from Cons.prems(1) obtain rows1 where r: "sql_insert payout_transfer_check payout_transfer_clash
      (new_payout_transfer q n bid (fst share) (fst (snd share)) (snd (snd share))) rows = Inr rows1"
    "insert_transfers q (n + 1) bid shares rows1 = Inr rows'"
    by (auto simp: bind_result_Inr or_db_error_Inr)
  from Cons.IH [OF r(2) transfer_ids.insert_distinct [OF Cons.prems(2) r(1)]] show ?case .
qed simp

lemma transfer_rows_facts:
  "map (\<lambda>t. (ptr_role t, ptr_recipient_account t, ptr_expected_amount_minor t)) (transfer_rows q n bid shares) = shares"
  "t \<in> set (transfer_rows q n bid shares) \<Longrightarrow> ptr_payout_batch_id t = bid \<and> ptr_status t = ''pending''"
  by (induction q n bid shares rule: transfer_rows.induct) (auto simp: new_payout_transfer_def)

lemma create_payout_batch_txE:
  assumes "create_payout_batch_tx env q hdrs oid body d = Inr (x, d')"
  obtains (existing) b where "b \<in> set (payout_batches d)" "x = (200, pb_id b)" "d' = d"
  | (new) actor src rule s key sha al where "src \<in> set (payout_sources oid d)" "payout_sources oid d = [src]"
      "ops_status src = ''fulfilled''" "payment_confirmed oid d" "rule \<in> set (payout_rules d)" "pru_status rule = ''active''"
      "calculate_split (ops_amount_minor src) (pru_candidate_bps rule) (pru_organizer_bps rule)
         (pru_platform_bps rule) = Inr s" "0 < sp_candidate s" "0 < sp_organizer s" "0 < sp_platform s"
      "sql_insert payout_batch_check payout_batch_clash (new_payout_batch q actor src oid rule key sha) (payout_batches d)
         = Inr (payout_batches d @ [new_payout_batch q actor src oid rule key sha])"
      "insert_transfers q 1 (new_uuid q 0) (payout_shares rule s) (payout_transfers d)
         = Inr (payout_transfers d @ transfer_rows q 1 (new_uuid q 0) (payout_shares rule s))"
      "x = (201, new_uuid q 0)"
      "d' = d\<lparr>payout_batches := payout_batches d @ [new_payout_batch q actor src oid rule key sha],
         payout_transfers := payout_transfers d @ transfer_rows q 1 (new_uuid q 0) (payout_shares rule s),
         audit_logs := al\<rparr>"
proof -
  let ?src = "hd (payout_sources oid d)"
  from assms obtain actor key rule s where
    ne: "\<not> payout_sources oid d = []"
    and one: "\<not> (length (payout_sources oid d) \<noteq> 1 \<or> ops_quantity ?src \<noteq> 1)"
    and st: "\<not> ops_status ?src \<noteq> ''fulfilled''" and pc: "\<not> \<not> payment_confirmed oid d"
    and rule: "ok_or (find (\<lambda>r. pru_id r = cpb_payout_rule_id body) (payout_rules d)) NotFound = Inr rule"
    and act: "\<not> pru_status rule \<noteq> ''active''"
    and s: "calculate_split (ops_amount_minor ?src) (pru_candidate_bps rule) (pru_organizer_bps rule)
        (pru_platform_bps rule) = Inr s"
    and pos: "\<not> (sp_candidate s \<le> 0 \<or> sp_organizer s \<le> 0 \<or> sp_platform s \<le> 0)"
    and rest: "(case find (\<lambda>b. pb_organization_id b = ops_organization_id ?src \<and> pb_idempotency_key b = key)
       (payout_batches d) of
       Some existing \<Rightarrow>
         if pb_request_sha256 existing \<noteq> hash_text env (payout_request_text ?src oid rule s)
         then Inl (Conflict ''idempotency_key_reused'')
         else Inr ((200, pb_id existing), d)
     | None \<Rightarrow>
         bind_result (write_payout_batch q actor ?src oid rule s key
            (hash_text env (payout_request_text ?src oid rule s)) d) (\<lambda>d.
         Inr ((201, new_uuid q 0), d))) = Inr (x, d')"
    unfolding create_payout_batch_tx_def Let_def
    by (elim bind_InrE if_InrE) (rule that, assumption+)
  have src: "payout_sources oid d = [?src]" "?src \<in> set (payout_sources oid d)"
    using ne one by (cases "payout_sources oid d"; simp)+
  have r: "rule \<in> set (payout_rules d)" using rule by (auto simp: ok_or_Inr dest: find_Some_in)
  show ?thesis
  proof (cases "find (\<lambda>b. pb_organization_id b = ops_organization_id ?src \<and> pb_idempotency_key b = key) (payout_batches d)")
    case (Some b)
    then show ?thesis using rest by (intro existing [of b]) (auto dest: find_Some_in split: if_splits)
  next
    case None
    let ?sha = "hash_text env (payout_request_text ?src oid rule s)"
    from rest None obtain d1 where w: "write_payout_batch q actor ?src oid rule s key ?sha d = Inr d1"
      and fin: "x = (201, new_uuid q 0)" "d' = d1" by (auto simp: bind_result_Inr)
    from w obtain brows trows where
      b: "sql_insert payout_batch_check payout_batch_clash (new_payout_batch q actor ?src oid rule key ?sha)
         (payout_batches d) = Inr brows"
      and t: "insert_transfers q 1 (new_uuid q 0) (payout_shares rule s) (payout_transfers d) = Inr trows"
      and d1: "\<exists>al. d1 = d\<lparr>payout_batches := brows, payout_transfers := trows, audit_logs := al\<rparr>"
      by (auto simp: write_payout_batch_def bind_result_Inr or_db_error_Inr commerce_audit_Inr)
    have b': "brows = payout_batches d @ [new_payout_batch q actor ?src oid rule key ?sha]"
      using b by (simp add: sql_insert_Inr)
    have t': "trows = payout_transfers d @ transfer_rows q 1 (new_uuid q 0) (payout_shares rule s)"
      using insert_transfers_Inr [OF t] .
    from d1 obtain al where "d1 = d\<lparr>payout_batches := brows, payout_transfers := trows, audit_logs := al\<rparr>" by blast
    then show ?thesis
      using src st pc r act s pos b t fin unfolding b' t'
      by (intro new [where src = ?src and rule = rule and s = s and actor = actor and key = key and sha = ?sha and al = al]) simp_all
  qed
qed

section \<open>Submission, evidence, failure\<close>

lemma record_payout_submission_txE:
  assumes "record_payout_submission_tx env q hdrs bid body d = Inr (x, d')"
  obtains (existing) "d' = d"
  | (new) b h r al where "find (\<lambda>b. pb_id b = bid) (payout_batches d) = Some b" "pb_status b = ''prepared''"
      "d' = (submit_batch q bid h r d)\<lparr>audit_logs := al\<rparr>"
proof -
  from assms obtain h r b actor where b: "load_batch_for_update bid d = Inr b"
    and rest: "(if List.member [''submitted'', ''partial'', ''confirmed''] (pb_status b) then
       (if pb_submitted_transaction_hash b \<noteq> Some h
        then Inl (Conflict ''payout_batch_already_submitted'') else Inr ((), d))
     else if pb_status b \<noteq> ''prepared'' then Inl (Conflict ''payout_batch_not_prepared'')
     else
     bind_result (commerce_audit (new_uuid q 0) (pb_organization_id b) actor ''payout_batch.submit''
        ''payout_batch'' bid
        (JObj [(''transaction_hash'', JStr h), (''worker_actor_user_id'', JStr actor),
           (''network'', JStr ''testnet'')]) (submit_batch q bid h r d)) (\<lambda>d.
     Inr ((), d))) = Inr (x, d')"
    unfolding record_payout_submission_tx_def Let_def
    by (elim bind_InrE if_InrE) (rule that, assumption+)
  show ?thesis
  proof (cases "List.member [''submitted'', ''partial'', ''confirmed''] (pb_status b)")
    case True
    with rest have "d' = d" by (simp split: if_splits)
    then show ?thesis by (rule existing)
  next
    case False
    then have "\<exists>al. pb_status b = ''prepared'' \<and> d' = (submit_batch q bid h r d)\<lparr>audit_logs := al\<rparr>"
      using rest by (auto simp: bind_result_Inr commerce_audit_Inr split: if_splits)
    then show ?thesis using b new by (auto simp: load_batch_for_update_def ok_or_Inr)
  qed
qed

lemma record_payout_failure_txE:
  assumes "record_payout_failure_tx env q hdrs bid raw d = Inr (x, d')"
  obtains b code al where "find (\<lambda>b. pb_id b = bid) (payout_batches d) = Some b"
    "pb_status b = ''submitted'' \<or> pb_status b = ''partial''"
    "d' = (fail_batch q bid (if pb_confirmed_transfer_count b > 0 then ''partial'' else ''failed'') code d)\<lparr>audit_logs := al\<rparr>"
proof -
  from assms obtain code b actor n where b: "load_batch_for_update bid d = Inr b"
    and st: "\<not> \<not> List.member [''submitted'', ''partial''] (pb_status b)"
    and aud: "commerce_audit (new_uuid q 0) (pb_organization_id b) actor ''payout_batch.fail''
        ''payout_batch'' bid
        (JObj [(''failure_code'', JStr code),
           (''confirmed_transfer_count'', JInt (pb_confirmed_transfer_count b)),
           (''status'', JStr (if pb_confirmed_transfer_count b > 0 then ''partial'' else ''failed''))])
        (fail_batch q bid (if pb_confirmed_transfer_count b > 0 then ''partial'' else ''failed'') code d) = Inr n"
    and fin: "Inr ((), n) = (Inr (x, d') :: api_error + _)"
    unfolding record_payout_failure_tx_def Let_def
    by (elim bind_InrE if_InrE) (rule that, assumption+)
  from aud fin show ?thesis
    using b st that by (auto simp: load_batch_for_update_def ok_or_Inr commerce_audit_Inr)
qed

lemma refresh_batch_status_Inr:
  assumes "refresh_batch_status q bid d = Inr d'"
  obtains c st where "c = sql_count (\<lambda>t. ptr_payout_batch_id t = bid \<and> ptr_status t = ''confirmed'') (payout_transfers d)"
    "batch_status_of c = Some st"
    "d' = d\<lparr>payout_batches := sql_update (\<lambda>b. pb_id b = bid)
        (\<lambda>b. b\<lparr>pb_status := st, pb_confirmed_transfer_count := c,
               pb_confirmed_at := (if c = 3 then Some (sql_now q) else None), pb_failure_code := None,
               pb_updated_at := sql_now q\<rparr>) (payout_batches d)\<rparr>"
  using assms by (auto simp: refresh_batch_status_def Let_def bind_result_Inr ok_or_Inr)

lemma record_transfer_evidence_txE:
  assumes "record_transfer_evidence_tx env q hdrs bid body d = Inr (status, d')"
  obtains (existing) "d' = d"
  | (new) b rule t p sha al ds failure where "find (\<lambda>b. pb_id b = bid) (payout_batches d) = Some b"
      "find (\<lambda>r. pru_id r = pb_payout_rule_id b) (payout_rules d) = Some rule"
      "t \<in> set (payout_transfers d)" "ptr_payout_batch_id t = bid" "ptr_status t \<noteq> ''confirmed''"
      "failure = reconcile_transfer b rule t p"
      "sql_insert payout_evidence_check payout_evidence_clash (new_payout_evidence q t p sha failure)
         (payout_transfer_evidence d) = Inr (payout_transfer_evidence d @ [new_payout_evidence q t p sha failure])"
      "if failure = None
       then settle_transfer q bid t p (d\<lparr>payout_transfer_evidence := payout_transfer_evidence d @
              [new_payout_evidence q t p sha failure]\<rparr>) = Inr ds
       else ds = d\<lparr>payout_transfer_evidence := payout_transfer_evidence d @ [new_payout_evidence q t p sha failure]\<rparr>"
      "d' = ds\<lparr>audit_logs := al\<rparr>" "status = (if failure = None then 201 else 409)"
proof -
  from assms obtain role p b rule t actor where
    b: "load_batch_for_update bid d = Inr b"
    and rule: "ok_or (find (\<lambda>r. pru_id r = pb_payout_rule_id b) (payout_rules d)) Database = Inr rule"
    and t: "ok_or (find (\<lambda>t. ptr_payout_batch_id t = bid \<and> ptr_role t = role) (payout_transfers d)) NotFound = Inr t"
    and rest: "(case find (\<lambda>e. pte_network e = ''testnet'' \<and> pte_transaction_hash e = rep_transaction_hash p \<and>
         pte_operation_index e = rep_operation_index p) (payout_transfer_evidence d) of
       Some existing \<Rightarrow>
         if pte_payout_transfer_id existing \<noteq> ptr_id t \<or>
            pte_evidence_sha256 existing \<noteq> sha256_hex env (json_to_vec env (evidence_json role p))
         then Inl (Conflict ''payout_evidence_reused'')
         else Inr (if pte_processing_status existing = ''accepted'' then 200 else 409, d)
     | None \<Rightarrow>
         if ptr_status t = ''confirmed'' then Inl (Conflict ''payout_transfer_already_confirmed'')
         else write_transfer_evidence q actor b rule t role p (sha256_hex env (json_to_vec env (evidence_json role p))) d)
       = Inr (status, d')"
    unfolding record_transfer_evidence_tx_def Let_def
    by (elim bind_InrE if_InrE) (rule that, assumption+)
  let ?sha = "sha256_hex env (json_to_vec env (evidence_json role p))"
  let ?f = "reconcile_transfer b rule t p"
  let ?e = "new_payout_evidence q t p ?sha ?f"
  have b': "find (\<lambda>b. pb_id b = bid) (payout_batches d) = Some b" and "pb_id b = bid"
    using b by (auto simp: load_batch_for_update_def ok_or_Inr dest: find_Some_in)
  have rule': "find (\<lambda>r. pru_id r = pb_payout_rule_id b) (payout_rules d) = Some rule"
    using rule by (simp add: ok_or_Inr)
  have t': "t \<in> set (payout_transfers d)" "ptr_payout_batch_id t = bid"
    using t by (auto simp: ok_or_Inr dest: find_Some_in)
  show ?thesis
  proof (cases "find (\<lambda>e. pte_network e = ''testnet'' \<and> pte_transaction_hash e = rep_transaction_hash p \<and>
         pte_operation_index e = rep_operation_index p) (payout_transfer_evidence d)")
    case (Some e)
    with rest have "d' = d" by (auto split: if_splits)
    then show ?thesis by (rule existing)
  next
    case None
    with rest have nc: "ptr_status t \<noteq> ''confirmed''"
      and w: "write_transfer_evidence q actor b rule t role p ?sha d = Inr (status, d')" by (auto split: if_splits)
    from w obtain es ds where
      ins: "sql_insert payout_evidence_check payout_evidence_clash ?e (payout_transfer_evidence d) = Inr es"
      and ds: "(if ?f = None then settle_transfer q (pb_id b) t p (d\<lparr>payout_transfer_evidence := es\<rparr>)
         else Inr (d\<lparr>payout_transfer_evidence := es\<rparr>)) = Inr ds"
      and al: "\<exists>al. d' = ds\<lparr>audit_logs := al\<rparr>" and st: "status = (if ?f = None then 201 else 409)"
      by (auto simp: write_transfer_evidence_def Let_def bind_result_Inr or_db_error_Inr commerce_audit_Inr)
    have es: "es = payout_transfer_evidence d @ [?e]" using ins by (simp add: sql_insert_Inr)
    from al obtain al where al: "d' = ds\<lparr>audit_logs := al\<rparr>" by blast
    have ds': "if ?f = None then settle_transfer q bid t p (d\<lparr>payout_transfer_evidence := payout_transfer_evidence d @ [?e]\<rparr>) = Inr ds
       else ds = d\<lparr>payout_transfer_evidence := payout_transfer_evidence d @ [?e]\<rparr>"
      using ds unfolding es \<open>pb_id b = bid\<close> by (auto split: if_splits)
    show ?thesis
      by (rule new [OF b' rule' t' nc refl _ ds' al st]) (use ins es in simp)
  qed
qed

lemma create_payout_rule_txE:
  assumes "create_payout_rule_tx env q hdrs org pid body d = Inr (x, d')"
  obtains r al where "sql_insert payout_rule_check payout_rule_clash r (payout_rules d) = Inr (payout_rules d @ [r])"
    "d' = d\<lparr>payout_rules := payout_rules d @ [r], audit_logs := al\<rparr>"
proof -
  from assms obtain r rows d1 actor meta where
    ins: "or_db_error commerce_db_error (sql_insert payout_rule_check payout_rule_clash r (payout_rules d)) = Inr rows"
    and aud: "commerce_audit (new_uuid q 1) org actor ''payout_rule.create'' ''payout_rule'' (new_uuid q 0) meta
        (d\<lparr>payout_rules := rows\<rparr>) = Inr d1"
    and fin: "Inr ((201, r), d1) = (Inr (x, d') :: api_error + _)"
    unfolding create_payout_rule_tx_def Let_def
    by (elim bind_InrE if_InrE) (rule that, assumption+)
  have "rows = payout_rules d @ [r]" using ins by (simp add: or_db_error_Inr sql_insert_Inr)
  with ins aud fin show ?thesis using that by (auto simp: or_db_error_Inr commerce_audit_Inr)
qed

end
