(* ===== verification/Payout_System.thy ===== *)
theory Payout_System
  imports Payout_Effects "HOL-Library.Multiset"
begin

text \<open>
  Payouts as a system of requests: one step is one request, committed or rejected, or anything else that leaves
  the payout tables alone. The invariant \<open>payout_inv\<close> ties every batch to its three transfers and to its rule,
  and the confirmed transfers one to one to the accepted evidence.
\<close>

section \<open>Steps\<close>

definition payout_tables where
  "payout_tables d = (payout_rules d, payout_batches d, payout_transfers d, payout_transfer_evidence d)"

inductive payout_step :: "env \<Rightarrow> commerce_db \<Rightarrow> commerce_db \<Rightarrow> bool" for env where
  step_rule: "payout_step env d (snd (create_payout_rule env q hdrs org pid rbody d))"
| step_prepare: "payout_step env d (snd (create_payout_batch env q hdrs oid bbody d))"
| step_submission: "payout_step env d (snd (record_payout_submission env q hdrs bid sbody d))"
| step_evidence: "payout_step env d (snd (record_transfer_evidence env q hdrs bid ebody d))"
| step_failure: "payout_step env d (snd (record_payout_failure env q hdrs bid code d))"
| step_elsewhere: "payout_tables d' = payout_tables d \<Longrightarrow> payout_step env d d'"

section \<open>The invariant\<close>

type_synonym share = "string \<times> string \<times> int"

definition share_of :: "PayoutTransferRecord \<Rightarrow> share" where
  "share_of t = (ptr_role t, ptr_recipient_account t, ptr_expected_amount_minor t)"

definition transfers_of :: "uuid \<Rightarrow> PayoutTransferRecord list \<Rightarrow> PayoutTransferRecord list" where
  "transfers_of bid ts = filter (\<lambda>t. ptr_payout_batch_id t = bid) ts"

definition confirmed_transfer :: "PayoutTransferRecord \<Rightarrow> bool" where
  "confirmed_transfer t \<longleftrightarrow> ptr_status t = ''confirmed''"

definition accepted_evidence :: "PayoutEvidenceRecord \<Rightarrow> bool" where
  "accepted_evidence e \<longleftrightarrow> pte_processing_status e = ''accepted''"

text \<open>The status of a batch against the statuses of its transfers.\<close>

definition statuses_ok :: "string \<Rightarrow> string list \<Rightarrow> bool" where
  "statuses_ok st ss \<longleftrightarrow>
     (st = ''prepared'' \<and> list_all (\<lambda>s. s = ''pending'') ss) \<or>
     (st = ''submitted'' \<and> list_all (\<lambda>s. s = ''submitted'') ss) \<or>
     (st = ''failed'' \<and> list_all (\<lambda>s. s = ''failed'') ss) \<or>
     (st = ''confirmed'' \<and> list_all (\<lambda>s. s = ''confirmed'') ss) \<or>
     (st = ''partial'' \<and> list_ex (\<lambda>s. s = ''confirmed'') ss \<and> list_ex (\<lambda>s. s \<noteq> ''confirmed'') ss \<and>
        (list_all (\<lambda>s. s = ''confirmed'' \<or> s = ''submitted'') ss \<or>
         list_all (\<lambda>s. s = ''confirmed'' \<or> s = ''failed'') ss))"

definition split_of :: "PayoutRuleRecord list \<Rightarrow> PayoutBatchRecord \<Rightarrow> share list \<Rightarrow> bool" where
  "split_of rs b shares \<longleftrightarrow> (\<exists>r \<in> set rs. \<exists>s. pru_id r = pb_payout_rule_id b \<and> shares = payout_shares r s \<and>
     0 < sp_candidate s \<and> 0 < sp_organizer s \<and> 0 < sp_platform s \<and>
     sp_candidate s + sp_organizer s + sp_platform s = pb_amount_minor b)"

definition batch_ok :: "PayoutRuleRecord list \<Rightarrow> PayoutBatchRecord \<Rightarrow> PayoutTransferRecord list \<Rightarrow> bool" where
  "batch_ok rs b ts \<longleftrightarrow> split_of rs b (map share_of ts) \<and> pb_confirmed_transfer_count b = sql_count confirmed_transfer ts \<and>
     statuses_ok (pb_status b) (map ptr_status ts)"

definition batches_ok :: "PayoutRuleRecord list \<Rightarrow> PayoutBatchRecord list \<Rightarrow> PayoutTransferRecord list \<Rightarrow> bool" where
  "batches_ok rs bs ts \<longleftrightarrow> distinct (map pru_id rs) \<and> distinct (map pb_id bs) \<and> distinct (map pb_order_id bs) \<and>
     distinct (map ptr_id ts) \<and> (\<forall>t \<in> set ts. ptr_payout_batch_id t \<in> pb_id ` set bs) \<and>
     (\<forall>b \<in> set bs. batch_ok rs b (transfers_of (pb_id b) ts))"

text \<open>What a row says was paid: the transfer, to whom, and how much.\<close>

definition paid_by :: "PayoutEvidenceRecord \<Rightarrow> uuid \<times> string \<times> int" where
  "paid_by e = (pte_payout_transfer_id e, pte_recipient_account e, pte_amount_minor e)"

definition owed_by :: "PayoutTransferRecord \<Rightarrow> uuid \<times> string \<times> int" where
  "owed_by t = (ptr_id t, ptr_recipient_account t, ptr_expected_amount_minor t)"

text \<open>An accepted payment left the source account of the rule in the transaction submitted for the batch.\<close>

definition traced ::
  "PayoutRuleRecord list \<Rightarrow> PayoutBatchRecord list \<Rightarrow> PayoutTransferRecord list \<Rightarrow> PayoutEvidenceRecord \<Rightarrow> bool" where
  "traced rs bs ts e \<longleftrightarrow> (\<exists>r \<in> set rs. \<exists>b \<in> set bs. \<exists>t \<in> set ts. ptr_id t = pte_payout_transfer_id e \<and>
     ptr_payout_batch_id t = pb_id b \<and> pru_id r = pb_payout_rule_id b \<and> pb_status b \<noteq> ''prepared'' \<and>
     pte_source_account e = pru_source_account r \<and> pb_submitted_transaction_hash b = Some (pte_transaction_hash e) \<and>
     pte_asset_code e = pb_asset_code b \<and> pte_asset_scale e = pb_asset_scale b \<and> pte_asset_issuer e = pb_asset_issuer b)"

definition evidence_ok ::
  "PayoutRuleRecord list \<Rightarrow> PayoutBatchRecord list \<Rightarrow> PayoutTransferRecord list \<Rightarrow> PayoutEvidenceRecord list \<Rightarrow> bool" where
  "evidence_ok rs bs ts es \<longleftrightarrow>
     mset (map paid_by (filter accepted_evidence es)) = mset (map owed_by (filter confirmed_transfer ts)) \<and>
     (\<forall>e \<in> set es. accepted_evidence e \<longrightarrow> traced rs bs ts e)"

definition payout_inv :: "commerce_db \<Rightarrow> bool" where
  "payout_inv d \<longleftrightarrow> batches_ok (payout_rules d) (payout_batches d) (payout_transfers d) \<and>
     evidence_ok (payout_rules d) (payout_batches d) (payout_transfers d) (payout_transfer_evidence d)"

definition payout_start :: "commerce_db \<Rightarrow> bool" where
  "payout_start d \<longleftrightarrow> payout_rules d = [] \<and> payout_batches d = [] \<and> payout_transfers d = [] \<and>
     payout_transfer_evidence d = []"

definition payout_reachable :: "env \<Rightarrow> commerce_db \<Rightarrow> bool" where
  "payout_reachable env d \<longleftrightarrow> (\<exists>d0. payout_start d0 \<and> (payout_step env)\<^sup>*\<^sup>* d0 d)"

lemma payout_inv_start: "payout_start d \<Longrightarrow> payout_inv d"
  by (simp add: payout_start_def payout_inv_def batches_ok_def evidence_ok_def)

lemma payout_inv_tables: "payout_tables d' = payout_tables d \<Longrightarrow> payout_inv d \<Longrightarrow> payout_inv d'"
  by (simp add: payout_tables_def payout_inv_def)

section \<open>An update of one batch and its transfers\<close>

text \<open>The shape of every later step: rows of one batch, and of its transfers, change their progress only.\<close>

definition progress ::
  "uuid \<Rightarrow> (PayoutBatchRecord \<Rightarrow> bool) \<Rightarrow> (PayoutBatchRecord \<Rightarrow> PayoutBatchRecord) \<Rightarrow> (PayoutTransferRecord \<Rightarrow> bool) \<Rightarrow>
   (PayoutTransferRecord \<Rightarrow> PayoutTransferRecord) \<Rightarrow> bool" where
  "progress bid p f p' g \<longleftrightarrow>
     (\<forall>b. p b \<longrightarrow> pb_id b = bid \<and> pb_id (f b) = pb_id b \<and> pb_order_id (f b) = pb_order_id b \<and>
        pb_payout_rule_id (f b) = pb_payout_rule_id b \<and> pb_amount_minor (f b) = pb_amount_minor b \<and>
        pb_asset_code (f b) = pb_asset_code b \<and> pb_asset_scale (f b) = pb_asset_scale b \<and>
        pb_asset_issuer (f b) = pb_asset_issuer b \<and>
        (pb_status b = ''prepared'' \<or>
         pb_submitted_transaction_hash (f b) = pb_submitted_transaction_hash b \<and> pb_status (f b) \<noteq> ''prepared'')) \<and>
     (\<forall>t. p' t \<longrightarrow> ptr_payout_batch_id t = bid \<and> ptr_payout_batch_id (g t) = ptr_payout_batch_id t \<and>
        ptr_id (g t) = ptr_id t \<and> share_of (g t) = share_of t)"

lemma progressD:
  assumes "progress bid p f p' g"
  shows "p b \<Longrightarrow> pb_id b = bid" "pb_id (if p b then f b else b) = pb_id b"
    "pb_order_id (if p b then f b else b) = pb_order_id b"
    "split_of rs (if p b then f b else b) shares = split_of rs b shares"
    "p' t \<Longrightarrow> ptr_payout_batch_id t = bid" "ptr_payout_batch_id (if p' t then g t else t) = ptr_payout_batch_id t"
    "ptr_id (if p' t then g t else t) = ptr_id t" "share_of (if p' t then g t else t) = share_of t"
  using assms by (auto simp: progress_def split_of_def)

lemma transfers_of_update:
  assumes "progress bid p f p' g"
  shows "transfers_of x (sql_update p' g ts) = (if x = bid then sql_update p' g (transfers_of x ts) else transfers_of x ts)"
  using progressD(5,6) [OF assms] by (induction ts) (auto simp: transfers_of_def sql_update_def)

lemma map_progress:
  assumes "progress bid p f p' g"
  shows "map pb_id (sql_update p f bs) = map pb_id bs" "map pb_order_id (sql_update p f bs) = map pb_order_id bs"
    "map ptr_id (sql_update p' g ts) = map ptr_id ts" "map share_of (sql_update p' g ts) = map share_of ts"
  using progressD [OF assms] by (auto simp: sql_update_def)

lemma batch_unique:
  "distinct (map pb_id bs) \<Longrightarrow> b \<in> set bs \<Longrightarrow> c \<in> set bs \<Longrightarrow> pb_id b = pb_id c \<Longrightarrow> b = c"
  by (auto simp: distinct_map dest: inj_onD)

lemma batches_ok_progress:
  assumes ok: "batches_ok rs bs ts" and pr: "progress bid p f p' g" and b: "b \<in> set bs" "pb_id b = bid"
    and new: "batch_ok rs (if p b then f b else b) (sql_update p' g (transfers_of bid ts))"
  shows "batches_ok rs (sql_update p f bs) (sql_update p' g ts)"
proof -
  note D = progressD [OF pr] and M = map_progress [OF pr]
  have ids: "distinct (map pb_id bs)" using ok by (simp add: batches_ok_def)
  have "batch_ok rs x (transfers_of (pb_id x) (sql_update p' g ts))" if x: "x \<in> set (sql_update p f bs)" for x
  proof -
    from x obtain c where c: "c \<in> set bs" "x = (if p c then f c else c)" by (auto simp: set_sql_update)
    show ?thesis
    proof (cases "pb_id c = bid")
      case True
      then have "c = b" using batch_unique [OF ids c(1) b(1)] b(2) by simp
      then have x: "x = (if p b then f b else b)" using c(2) by (simp only:)
      have "pb_id x = bid" unfolding x using D(2) [of b] b(2) by (simp only:)
      with x new show ?thesis by (simp only: transfers_of_update [OF pr] simp_thms if_True)
    next
      case False
      then have "x = c" using c(2) D(1) by auto
      with False show ?thesis using ok c(1) by (simp add: transfers_of_update [OF pr] batches_ok_def)
    qed
  qed
  moreover have "ptr_payout_batch_id t \<in> pb_id ` set (sql_update p f bs)" if "t \<in> set (sql_update p' g ts)" for t
  proof -
    from that obtain u where u: "u \<in> set ts" "t = (if p' u then g u else u)" by (auto simp: set_sql_update)
    have "pb_id ` set (sql_update p f bs) = pb_id ` set bs" using M(1) by (metis set_map)
    with u D(6) [of u] ok show ?thesis by (simp add: batches_ok_def)
  qed
  ultimately show ?thesis using ok by (simp add: batches_ok_def M)
qed

lemma traced_progress:
  assumes "progress bid p f p' g" "traced rs bs ts e"
  shows "traced rs (sql_update p f bs) (sql_update p' g ts) e"
proof -
  note D = progressD [OF assms(1)]
  from assms(2) obtain r b t where R: "r \<in> set rs" "b \<in> set bs" "t \<in> set ts" "ptr_id t = pte_payout_transfer_id e"
     "ptr_payout_batch_id t = pb_id b" "pru_id r = pb_payout_rule_id b" "pb_status b \<noteq> ''prepared''"
     "pte_source_account e = pru_source_account r" "pb_submitted_transaction_hash b = Some (pte_transaction_hash e)"
     "pte_asset_code e = pb_asset_code b" "pte_asset_scale e = pb_asset_scale b" "pte_asset_issuer e = pb_asset_issuer b"
    by (auto simp: traced_def)
  let ?b = "if p b then f b else b" and ?t = "if p' t then g t else t"
  have mem: "?b \<in> set (sql_update p f bs)" "?t \<in> set (sql_update p' g ts)" using R(2,3) by (auto simp: sql_update_def)
  have "pb_payout_rule_id ?b = pb_payout_rule_id b \<and> pb_status ?b \<noteq> ''prepared'' \<and>
     pb_submitted_transaction_hash ?b = pb_submitted_transaction_hash b \<and> pb_asset_code ?b = pb_asset_code b \<and>
     pb_asset_scale ?b = pb_asset_scale b \<and> pb_asset_issuer ?b = pb_asset_issuer b"
    using assms(1) R(7) by (auto simp: progress_def)
  with R D(2) [of b] D(6,7) [of t] show ?thesis
    unfolding traced_def
    by (intro bexI [of _ r] bexI [OF _ mem(1)] bexI [OF _ mem(2)]) simp_all
qed

section \<open>Each request keeps the invariant\<close>

lemma three_transfers:
  assumes "batch_ok rs b ts"
  obtains t1 t2 t3 where "ts = [t1, t2, t3]" "ptr_role t1 = ''candidate''" "ptr_role t2 = ''organizer''" "ptr_role t3 = ''platform''"
proof -
  from assms obtain r s where s: "map share_of ts = payout_shares r s" by (auto simp: batch_ok_def split_of_def)
  then have "length ts = 3" by (metis length_map payout_shares_def length_Cons list.size(3) numeral_3_eq_3)
  then obtain t1 t2 t3 where "ts = [t1, t2, t3]" by (auto simp: numeral_3_eq_3 length_Suc_conv)
  with s that show ?thesis by (auto simp: payout_shares_def share_of_def)
qed

lemma transfers_of_bid: "t \<in> set (transfers_of bid ts) \<Longrightarrow> ptr_payout_batch_id t = bid"
  by (simp add: transfers_of_def)

lemma batch_of_find:
  "batches_ok rs bs ts \<Longrightarrow> find (\<lambda>b. pb_id b = bid) bs = Some b \<Longrightarrow>
   b \<in> set bs \<and> pb_id b = bid \<and> batch_ok rs b (transfers_of bid ts)"
  by (auto simp: batches_ok_def dest: find_Some_in)

lemma confirmed_unchanged:
  "(\<And>t. p' t \<Longrightarrow> \<not> confirmed_transfer t \<and> \<not> confirmed_transfer (g t)) \<Longrightarrow>
   filter confirmed_transfer (sql_update p' g ts) = filter confirmed_transfer ts"
  by (induction ts) (auto simp: sql_update_def)

lemma evidence_ok_progress:
  assumes "evidence_ok rs bs ts es" "progress bid p f p' g"
    "\<And>t. p' t \<Longrightarrow> \<not> confirmed_transfer t \<and> \<not> confirmed_transfer (g t)"
  shows "evidence_ok rs (sql_update p f bs) (sql_update p' g ts) es"
  using assms(1) traced_progress [OF assms(2)] confirmed_unchanged [of p' g ts] assms(3)
  by (auto simp: evidence_ok_def)

lemma payout_submission_inv:
  assumes "payout_inv d" "record_payout_submission_tx env q hdrs bid body d = Inr (x, d')"
  shows "payout_inv d'"
  using assms(2)
proof (cases rule: record_payout_submission_txE)
  case existing
  then show ?thesis using assms(1) by simp
next
  case (new b h r al)
  let ?p = "\<lambda>b. pb_id b = bid \<and> pb_status b = ''prepared''"
  let ?f = "\<lambda>b. b\<lparr>pb_status := ''submitted'', pb_submitted_transaction_hash := Some h,
     pb_submission_response := Some r, pb_submitted_at := Some (sql_now q), pb_failure_code := None, pb_updated_at := sql_now q\<rparr>"
  let ?p' = "\<lambda>t. ptr_payout_batch_id t = bid \<and> ptr_status t = ''pending''"
  let ?g = "\<lambda>t. t\<lparr>ptr_status := ''submitted'', ptr_transaction_hash := Some h, ptr_failure_code := None,
     ptr_updated_at := sql_now q\<rparr>"
  have ok: "batches_ok (payout_rules d) (payout_batches d) (payout_transfers d)"
    "evidence_ok (payout_rules d) (payout_batches d) (payout_transfers d) (payout_transfer_evidence d)"
    using assms(1) by (simp_all add: payout_inv_def)
  have pr: "progress bid ?p ?f ?p' ?g" by (auto simp: progress_def share_of_def)
  note B = batch_of_find [OF ok(1) new(1)]
  from B obtain t1 t2 t3 where T: "transfers_of bid (payout_transfers d) = [t1, t2, t3]" by (auto elim: three_transfers)
  have "batch_ok (payout_rules d) (?f b) (sql_update ?p' ?g (transfers_of bid (payout_transfers d)))"
    using B transfers_of_bid [of _ bid "payout_transfers d"] unfolding T
    by (simp add: new(2) statuses_ok_def batch_ok_def share_of_def split_of_def sql_update_def sql_count_def confirmed_transfer_def)
  then show ?thesis
    using batches_ok_progress [OF ok(1) pr, of b] evidence_ok_progress [OF ok(2) pr] B new(2)
    by (simp add: new(3) submit_batch_def payout_inv_def confirmed_transfer_def)
qed

lemma in_image_ex: "c \<in> f ` A \<longleftrightarrow> (\<exists>x \<in> A. f x = c)"
  by auto

lemma statuses_fail:
  assumes "statuses_ok st ss" "st = ''submitted'' \<or> st = ''partial''" "ss \<noteq> []"
  shows "statuses_ok (if list_ex (\<lambda>s. s = ''confirmed'') ss then ''partial'' else ''failed'')
    (map (\<lambda>s. if s = ''submitted'' then ''failed'' else s) ss)"
proof (cases "st = ''submitted''")
  case True
  then have a: "\<forall>s \<in> set ss. s = ''submitted''" using assms(1) by (simp add: statuses_ok_def list_all_iff)
  then have "\<not> list_ex (\<lambda>s. s = ''confirmed'') ss" by (auto simp: list_ex_iff)
  with a show ?thesis by (simp add: statuses_ok_def list_all_iff)
next
  case False
  then have ex: "list_ex (\<lambda>s. s = ''confirmed'') ss" "list_ex (\<lambda>s. s \<noteq> ''confirmed'') ss"
    and all: "\<forall>s \<in> set ss. s = ''confirmed'' \<or> s = ''submitted'' \<or> s = ''failed''"
    using assms(1,2) by (auto simp: statuses_ok_def list_all_iff)
  let ?F = "\<lambda>s. if s = ''submitted'' then ''failed'' else s"
  have F: "?F s = ''confirmed'' \<longleftrightarrow> s = ''confirmed''" for s by simp
  have "list_ex (\<lambda>s. s = ''confirmed'') (map ?F ss)" "list_ex (\<lambda>s. s \<noteq> ''confirmed'') (map ?F ss)"
    using ex by (simp_all only: list_ex_iff set_map bex_simps F)
  moreover have "list_all (\<lambda>s. s = ''confirmed'' \<or> s = ''failed'') (map ?F ss)" using all by (auto simp: list_all_iff)
  ultimately have "statuses_ok ''partial'' (map ?F ss)" unfolding statuses_ok_def by (simp only: simp_thms)
  with ex(1) show ?thesis by simp
qed

lemma payout_failure_inv:
  assumes "payout_inv d" "record_payout_failure_tx env q hdrs bid raw d = Inr (x, d')"
  shows "payout_inv d'"
  using assms(2)
proof (cases rule: record_payout_failure_txE)
  case (1 b code al)
  let ?st = "if pb_confirmed_transfer_count b > 0 then ''partial'' else ''failed''"
  let ?p = "\<lambda>b. pb_id b = bid"
  let ?f = "\<lambda>b. b\<lparr>pb_status := ?st, pb_failure_code := Some code, pb_updated_at := sql_now q\<rparr>"
  let ?p' = "\<lambda>t. ptr_payout_batch_id t = bid \<and> ptr_status t = ''submitted''"
  let ?g = "\<lambda>t. t\<lparr>ptr_status := ''failed'', ptr_failure_code := Some code, ptr_updated_at := sql_now q\<rparr>"
  have ok: "batches_ok (payout_rules d) (payout_batches d) (payout_transfers d)"
    "evidence_ok (payout_rules d) (payout_batches d) (payout_transfers d) (payout_transfer_evidence d)"
    using assms(1) by (simp_all add: payout_inv_def)
  have pr: "progress bid ?p ?f ?p' ?g" by (auto simp: progress_def share_of_def)
  note B = batch_of_find [OF ok(1) 1(1)]
  let ?ts = "transfers_of bid (payout_transfers d)"
  have st: "map ptr_status (sql_update ?p' ?g ?ts) = map (\<lambda>s. if s = ''submitted'' then ''failed'' else s) (map ptr_status ?ts)"
    by (auto simp: sql_update_def transfers_of_def)
  have n: "0 < pb_confirmed_transfer_count b \<longleftrightarrow> list_ex (\<lambda>s. s = ''confirmed'') (map ptr_status ?ts)"
    using B by (simp add: batch_ok_def sql_count_def confirmed_transfer_def list_ex_iff filter_empty_conv in_image_ex)
  from B obtain t1 t2 t3 where T: "?ts = [t1, t2, t3]" by (auto elim: three_transfers)
  have old: "statuses_ok (pb_status b) (map ptr_status ?ts)" "map ptr_status ?ts \<noteq> []"
    using B by (simp_all add: batch_ok_def T)
  have "statuses_ok ?st (map ptr_status (sql_update ?p' ?g ?ts))"
    using statuses_fail [OF old(1) 1(2) old(2)] by (simp only: st n)
  moreover have "filter confirmed_transfer (sql_update ?p' ?g ?ts) = filter confirmed_transfer ?ts"
    by (rule confirmed_unchanged) (simp add: confirmed_transfer_def)
  ultimately have "batch_ok (payout_rules d) (?f b) (sql_update ?p' ?g ?ts)"
    using B map_progress(4) [OF pr, of ?ts] by (simp add: batch_ok_def split_of_def sql_count_def)
  then show ?thesis
    using batches_ok_progress [OF ok(1) pr, of b] evidence_ok_progress [OF ok(2) pr] B
    by (simp add: 1(3) fail_batch_def payout_inv_def confirmed_transfer_def)
qed

section \<open>Evidence\<close>

lemma mset_filter_flip:
  assumes "distinct xs" "t \<in> set xs" "\<not> c t" "c (f t)" "h (f t) = h t"
  shows "mset (map h (filter c (sql_update (\<lambda>x. x = t) f xs))) = add_mset (h t) (mset (map h (filter c xs)))"
  using assms(1,2)
proof (induction xs)
  case (Cons x xs)
  show ?case
  proof (cases "x = t")
    case True
    then have "sql_update (\<lambda>x. x = t) f xs = xs" using Cons.prems(1) unfolding sql_update_def by (intro map_idI) auto
    with True assms(3-5) show ?thesis by (simp add: sql_update_def)
  next
    case False
    with Cons show ?thesis by (auto simp: sql_update_def)
  qed
qed simp

definition confirmed_row :: "draws \<Rightarrow> transfer_report \<Rightarrow> PayoutTransferRecord \<Rightarrow> PayoutTransferRecord" where
  "confirmed_row q p t = t\<lparr>ptr_status := ''confirmed'', ptr_operation_index := Some (rep_operation_index p),
     ptr_transaction_hash := Some (rep_transaction_hash p), ptr_actual_amount_minor := Some (rep_amount_minor p),
     ptr_ledger_sequence := Some (rep_ledger_sequence p), ptr_failure_code := None,
     ptr_confirmed_at := Some (sql_now q), ptr_updated_at := sql_now q\<rparr>"

lemma confirm_transfer_at:
  assumes "distinct (map ptr_id ts)" "t \<in> set ts" "ptr_status t = ''submitted''"
  shows "confirm_transfer q (ptr_id t) p ts = sql_update (\<lambda>u. u = t) (confirmed_row q p) ts"
proof -
  have "u = t" if "u \<in> set ts" "ptr_id u = ptr_id t" for u
    using that assms(1,2) by (auto simp: distinct_map dest: inj_onD)
  with assms(3) show ?thesis unfolding confirm_transfer_def confirmed_row_def sql_update_def by (intro map_cong refl) auto
qed

lemma reconcile_transfer_None:
  assumes "reconcile_transfer b r t p = None"
  shows "pb_status b = ''submitted'' \<or> pb_status b = ''partial''" "ptr_status t = ''submitted''"
    "pb_submitted_transaction_hash b = Some (rep_transaction_hash p)" "rep_source_account p = pru_source_account r"
    "rep_recipient_account p = ptr_recipient_account t" "rep_amount_minor p = ptr_expected_amount_minor t"
    "rep_asset_code p = pb_asset_code b" "rep_asset_scale p = pb_asset_scale b" "rep_asset_issuer p = pb_asset_issuer b"
    "rep_successful p" "raw_operation_failure p = None"
  using assms by (auto simp: reconcile_transfer_def split: if_splits)

lemma sql_count_filter: "sql_count (\<lambda>t. p t \<and> q t) xs = sql_count q (filter p xs)"
  by (simp add: sql_count_def conj_commute)

lemma statuses_refresh:
  assumes "length ss = 3" "\<forall>s \<in> set ss. s = ''confirmed'' \<or> s = ''submitted''" "''confirmed'' \<in> set ss"
    "batch_status_of (int (length (filter (\<lambda>s. s = ''confirmed'') ss))) = Some st"
  shows "statuses_ok st ss"
proof -
  from assms(1) obtain a b c where s: "ss = [a, b, c]" by (auto simp: numeral_3_eq_3 length_Suc_conv)
  have "a = ''confirmed'' \<or> a = ''submitted''" "b = ''confirmed'' \<or> b = ''submitted''" "c = ''confirmed'' \<or> c = ''submitted''"
    using assms(2) s by simp_all
  then show ?thesis using assms(3,4) unfolding s
    by (elim disjE) (simp_all add: batch_status_of_def statuses_ok_def)
qed

lemma statuses_open:
  "statuses_ok st ss \<Longrightarrow> ''submitted'' \<in> set ss \<Longrightarrow> \<forall>s \<in> set ss. s = ''confirmed'' \<or> s = ''submitted''"
  unfolding statuses_ok_def list_all_iff by (elim disjE conjE; ((drule (1) bspec, simp; fail) | blast))

text \<open>Accepted evidence confirms one open transfer of the batch.\<close>

lemma settle_transfer_Inr:
  assumes ok: "batches_ok (payout_rules d) (payout_batches d) (payout_transfers d)"
    and b: "find (\<lambda>b. pb_id b = bid) (payout_batches d) = Some b"
    and t: "t \<in> set (payout_transfers d)" "ptr_payout_batch_id t = bid"
    and rec: "reconcile_transfer b r t p = None"
    and settle: "settle_transfer q bid t p (d\<lparr>payout_transfer_evidence := es\<rparr>) = Inr ds"
  obtains f where "ds = d\<lparr>payout_transfer_evidence := es, payout_batches := sql_update (\<lambda>b. pb_id b = bid) f (payout_batches d),
      payout_transfers := sql_update (\<lambda>u. u = t) (confirmed_row q p) (payout_transfers d)\<rparr>"
    "progress bid (\<lambda>b. pb_id b = bid) f (\<lambda>u. u = t) (confirmed_row q p)"
    "batch_ok (payout_rules d) (f b) (sql_update (\<lambda>u. u = t) (confirmed_row q p) (transfers_of bid (payout_transfers d)))"
proof -
  let ?ts = "transfers_of bid (payout_transfers d)"
  let ?g = "confirmed_row q p" and ?n = "sql_update (\<lambda>u. u = t)"
  note R = reconcile_transfer_None [OF rec] and B = batch_of_find [OF ok b]
  have "distinct (map ptr_id (payout_transfers d))" using ok by (simp add: batches_ok_def)
  note ct = confirm_transfer_at [OF this t(1) R(2), of q p]
  from settle obtain c st where c: "c = sql_count (\<lambda>t. ptr_payout_batch_id t = bid \<and> ptr_status t = ''confirmed'')
        (?n ?g (payout_transfers d))" and st: "batch_status_of c = Some st"
    and ds: "ds = d\<lparr>payout_transfer_evidence := es, payout_batches := sql_update (\<lambda>b. pb_id b = bid)
        (\<lambda>b. b\<lparr>pb_status := st, pb_confirmed_transfer_count := c, pb_confirmed_at := (if c = 3 then Some (sql_now q) else None),
          pb_failure_code := None, pb_updated_at := sql_now q\<rparr>) (payout_batches d),
        payout_transfers := ?n ?g (payout_transfers d)\<rparr>" (is "_ = d\<lparr>payout_transfer_evidence := es, payout_batches := sql_update _ ?f _, payout_transfers := _\<rparr>")
    by (auto simp: settle_transfer_def ct if_Inl_Inr elim!: refresh_batch_status_Inr)
  have stp: "st \<noteq> ''prepared''" using st by (auto simp: batch_status_of_def split: if_splits)
  have pr: "progress bid (\<lambda>b. pb_id b = bid) ?f (\<lambda>u. u = t) ?g"
    using t(2) stp by (auto simp: progress_def confirmed_row_def share_of_def)
  let ?us = "?n ?g ?ts"
  have c': "c = sql_count confirmed_transfer ?us"
    unfolding c sql_count_filter using transfers_of_update [OF pr, of bid "payout_transfers d"]
    by (simp add: transfers_of_def confirmed_transfer_def [abs_def])
  have tin: "t \<in> set ?ts" using t by (simp add: transfers_of_def)
  have open_ts: "\<forall>s \<in> set (map ptr_status ?ts). s = ''confirmed'' \<or> s = ''submitted''"
    by (rule statuses_open [of "pb_status b"]) (use B tin R(2) in \<open>auto simp: batch_ok_def in_image_ex\<close>)
  have len: "length ?ts = 3" using B by (auto elim: three_transfers)
  have "statuses_ok st (map ptr_status ?us)"
  proof (rule statuses_refresh)
    show "length (map ptr_status ?us) = 3" using len by simp
    show "\<forall>s \<in> set (map ptr_status ?us). s = ''confirmed'' \<or> s = ''submitted''"
      using open_ts unfolding sql_update_def by (auto simp: confirmed_row_def)
    show "''confirmed'' \<in> set (map ptr_status ?us)"
      using tin unfolding sql_update_def by (auto simp: in_image_ex confirmed_row_def intro: bexI [of _ t])
    show "batch_status_of (int (length (filter (\<lambda>s. s = ''confirmed'') (map ptr_status ?us)))) = Some st"
      using st unfolding c' sql_count_def by (simp add: filter_map o_def confirmed_transfer_def [abs_def])
  qed
  then have "batch_ok (payout_rules d) (?f b) ?us"
    using B map_progress(4) [OF pr, of ?ts] c' by (simp add: batch_ok_def split_of_def)
  then show ?thesis by (rule that [OF ds pr])
qed

lemma new_payout_evidence_simps [simp]:
  "accepted_evidence (new_payout_evidence q t p sha f) \<longleftrightarrow> f = None"
  "paid_by (new_payout_evidence q t p sha f) = (ptr_id t, rep_recipient_account p, rep_amount_minor p)"
  by (simp_all add: accepted_evidence_def paid_by_def new_payout_evidence_def)

lemma transfer_evidence_inv:
  assumes inv: "payout_inv d" and tx: "record_transfer_evidence_tx env q hdrs bid body d = Inr (status, d')"
  shows "payout_inv d'"
  using tx
proof (cases rule: record_transfer_evidence_txE)
  case existing
  then show ?thesis using inv by simp
next
  case (new b r t p sha al ds failure)
  have ok: "batches_ok (payout_rules d) (payout_batches d) (payout_transfers d)"
    "evidence_ok (payout_rules d) (payout_batches d) (payout_transfers d) (payout_transfer_evidence d)"
    using inv by (simp_all add: payout_inv_def)
  let ?e = "new_payout_evidence q t p sha failure"
  let ?es = "payout_transfer_evidence d @ [?e]"
  show ?thesis
  proof (cases "failure = None")
    case False
    then have "ds = d\<lparr>payout_transfer_evidence := ?es\<rparr>" using new(8) by simp
    with ok new(9) False show ?thesis by (auto simp: payout_inv_def evidence_ok_def)
  next
    case True
    then have rec: "reconcile_transfer b r t p = None" and
      settle: "settle_transfer q bid t p (d\<lparr>payout_transfer_evidence := ?es\<rparr>) = Inr ds" using new(6,8) by simp_all
    from settle_transfer_Inr [OF ok(1) new(1,3,4) rec settle] obtain f where
      ds: "ds = d\<lparr>payout_transfer_evidence := ?es, payout_batches := sql_update (\<lambda>b. pb_id b = bid) f (payout_batches d),
         payout_transfers := sql_update (\<lambda>u. u = t) (confirmed_row q p) (payout_transfers d)\<rparr>"
      and pr: "progress bid (\<lambda>b. pb_id b = bid) f (\<lambda>u. u = t) (confirmed_row q p)"
      and nb: "batch_ok (payout_rules d) (f b) (sql_update (\<lambda>u. u = t) (confirmed_row q p) (transfers_of bid (payout_transfers d)))"
      by blast
    note R = reconcile_transfer_None [OF rec] and B = batch_of_find [OF ok(1) new(1)]
    let ?bs = "sql_update (\<lambda>b. pb_id b = bid) f (payout_batches d)"
    let ?ts = "sql_update (\<lambda>u. u = t) (confirmed_row q p) (payout_transfers d)"
    have "distinct (payout_transfers d)" using ok(1) by (simp add: batches_ok_def distinct_map)
    then have "mset (map owed_by (filter confirmed_transfer ?ts))
        = add_mset (owed_by t) (mset (map owed_by (filter confirmed_transfer (payout_transfers d))))"
      by (rule mset_filter_flip) (use new(3,5) in \<open>simp_all add: confirmed_transfer_def confirmed_row_def owed_by_def\<close>)
    moreover have "paid_by ?e = owed_by t" using R(5,6) by (simp add: owed_by_def)
    ultimately have ms: "mset (map paid_by (filter accepted_evidence ?es)) = mset (map owed_by (filter confirmed_transfer ?ts))"
      using ok(2) True by (simp add: evidence_ok_def)
    have "traced (payout_rules d) (payout_batches d) (payout_transfers d) ?e"
      unfolding traced_def using R B new(2,3,4) by (intro bexI [of _ r] bexI [of _ b] bexI [of _ t])
        (auto simp: new_payout_evidence_def dest: find_Some_in)
    then have "\<forall>e \<in> set ?es. accepted_evidence e \<longrightarrow> traced (payout_rules d) ?bs ?ts e"
      using ok(2) traced_progress [OF pr] by (auto simp: evidence_ok_def)
    then have "evidence_ok (payout_rules d) ?bs ?ts ?es" using ms by (simp only: evidence_ok_def simp_thms)
    moreover have "batches_ok (payout_rules d) ?bs ?ts"
      by (rule batches_ok_progress [OF ok(1) pr, of b]) (use B nb in simp_all)
    ultimately show ?thesis by (simp add: payout_inv_def new(9) ds)
  qed
qed

section \<open>New rules and batches\<close>

lemma batch_ok_more_rules: "batch_ok rs b ts \<Longrightarrow> batch_ok (rs @ rs') b ts"
  by (auto simp: batch_ok_def split_of_def)

lemma rule_inv:
  assumes inv: "payout_inv d" and tx: "create_payout_rule_tx env q hdrs org pid body d = Inr (x, d')"
  shows "payout_inv d'"
  using tx
proof (cases rule: create_payout_rule_txE)
  case (1 r al)
  have "traced (payout_rules d @ [r]) bs ts e" if "traced (payout_rules d) bs ts e" for bs ts e
    using that by (auto simp: traced_def)
  with inv show ?thesis
    using rule_ids.insert_distinct [OF _ 1(1)]
    by (auto simp: payout_inv_def 1(2) batches_ok_def evidence_ok_def intro: batch_ok_more_rules)
qed

lemma transfers_of_new:
  "transfers_of x (transfer_rows q n bid shares) = (if x = bid then transfer_rows q n bid shares else [])"
  using transfer_rows_facts(2) [of _ q n bid shares]
  by (auto simp: transfers_of_def filter_empty_conv intro!: filter_True)

lemma batch_inv:
  assumes inv: "payout_inv d" and tx: "create_payout_batch_tx env q hdrs oid body d = Inr (x, d')"
  shows "payout_inv d'"
  using tx
proof (cases rule: create_payout_batch_txE)
  case (existing b)
  then show ?thesis using inv by simp
next
  case (new actor src r s key sha al)
  let ?b = "new_payout_batch q actor src oid r key sha"
  let ?rows = "transfer_rows q 1 (new_uuid q 0) (payout_shares r s)"
  have ok: "batches_ok (payout_rules d) (payout_batches d) (payout_transfers d)"
    "evidence_ok (payout_rules d) (payout_batches d) (payout_transfers d) (payout_transfer_evidence d)"
    using inv by (simp_all add: payout_inv_def)
  have id: "pb_id ?b = new_uuid q 0" "pb_status ?b = ''prepared''" by (simp_all add: new_payout_batch_def)
  have fresh: "new_uuid q 0 \<notin> pb_id ` set (payout_batches d)" using batch_ids.insert_new [OF new(11)] id by simp
  then have none: "transfers_of (new_uuid q 0) (payout_transfers d) = []"
    using ok(1) by (force simp: transfers_of_def filter_empty_conv batches_ok_def)
  have shares: "map share_of ?rows = payout_shares r s"
    using transfer_rows_facts(1) [of q 1 "new_uuid q 0" "payout_shares r s"] by (simp add: share_of_def [abs_def])
  have pend: "\<forall>t \<in> set ?rows. ptr_status t = ''pending''" using transfer_rows_facts(2) by blast
  then have "filter confirmed_transfer ?rows = []" by (auto simp: filter_empty_conv confirmed_transfer_def)
  note nc = this
  have split: "split_of (payout_rules d) ?b (map share_of ?rows)"
    unfolding split_of_def shares using new(5,8-10) calculate_split_Inr [OF new(7)]
    by (intro bexI [of _ r] exI [of _ s]) (simp_all add: new_payout_batch_def)
  then have "batch_ok (payout_rules d) ?b ?rows"
    using nc pend by (simp add: batch_ok_def sql_count_def statuses_ok_def new_payout_batch_def list_all_iff)
  moreover have "batch_ok (payout_rules d) c (transfers_of (pb_id c) (payout_transfers d @ ?rows))"
    if "c \<in> set (payout_batches d)" for c
  proof -
    have "pb_id c \<noteq> new_uuid q 0" using that fresh by (metis image_eqI)
    then show ?thesis using ok(1) that by (simp add: batches_ok_def transfers_of_def transfers_of_new [unfolded transfers_of_def])
  qed
  moreover have "transfers_of (pb_id ?b) (payout_transfers d @ ?rows) = ?rows"
    using none by (simp add: transfers_of_def id transfers_of_new [unfolded transfers_of_def])
  ultimately have "batches_ok (payout_rules d) (payout_batches d @ [?b]) (payout_transfers d @ ?rows)"
    using ok(1) batch_ids.insert_distinct [OF _ new(11)] batch_orders.insert_distinct [OF _ new(11)]
      insert_transfers_distinct [OF new(12)] transfer_rows_facts(2) [of _ q 1 "new_uuid q 0" "payout_shares r s"]
    by (auto simp: batches_ok_def id)
  moreover have "traced (payout_rules d) (payout_batches d @ [?b]) (payout_transfers d @ ?rows) e"
    if "traced (payout_rules d) (payout_batches d) (payout_transfers d) e" for e
    using that by (auto simp: traced_def)
  ultimately show ?thesis using ok(2) nc by (auto simp: payout_inv_def evidence_ok_def new(14))
qed

lemma transaction_payout_inv:
  assumes "payout_inv d" "\<And>x d'. body d = Inr (x, d') \<Longrightarrow> payout_inv d'"
  shows "payout_inv (snd (transaction body d))"
  using assms by (cases rule: transaction_cases [of body d]) auto

lemma payout_step_inv: "payout_step env d d' \<Longrightarrow> payout_inv d \<Longrightarrow> payout_inv d'"
proof (induction rule: payout_step.induct)
  case (step_elsewhere d' d)
  then show ?case by (rule payout_inv_tables)
qed (auto simp: create_payout_rule_def create_payout_batch_def record_payout_submission_def
    record_transfer_evidence_def record_payout_failure_def intro!: transaction_payout_inv
    intro: rule_inv batch_inv payout_submission_inv transfer_evidence_inv payout_failure_inv)

lemma payout_reachable_inv: "payout_reachable env d \<Longrightarrow> payout_inv d"
proof -
  assume "payout_reachable env d"
  then obtain d0 where "payout_start d0" "(payout_step env)\<^sup>*\<^sup>* d0 d" by (auto simp: payout_reachable_def)
  from this(2) payout_inv_start [OF this(1)] show ?thesis by (induction rule: rtranclp_induct) (auto intro: payout_step_inv)
qed

end
