(* ===== verification/Payout_Refinement.thy ===== *)
theory Payout_Refinement
  imports Payout_System
begin

text \<open>
  What a payout promises, without tables: three shares wait, are sent together, are paid one by one, and when the
  batch fails the open ones stop for good. The requests on the tables refine this, seen through \<open>payout_of\<close>.
\<close>

section \<open>The specification\<close>

datatype payout = Awaiting "share set" | Sent "share set" "share set" | Stopped "share set" "share set"

inductive payout_spec :: "payout \<Rightarrow> payout \<Rightarrow> bool" where
  send: "payout_spec (Awaiting S) (Sent {} S)"
| pay: "x \<in> S \<Longrightarrow> payout_spec (Sent P S) (Sent (insert x P) (S - {x}))"
| stop: "S \<noteq> {} \<Longrightarrow> payout_spec (Sent P S) (Stopped P S)"

fun paid_shares :: "payout \<Rightarrow> share set" where
  "paid_shares (Awaiting S) = {}"
| "paid_shares (Sent P S) = P"
| "paid_shares (Stopped P S) = P"

fun all_shares :: "payout \<Rightarrow> share set" where
  "all_shares (Awaiting S) = S"
| "all_shares (Sent P S) = P \<union> S"
| "all_shares (Stopped P S) = P \<union> S"

inductive_simps payout_spec_stopped: "payout_spec (Stopped P S) p"

text \<open>The shares never change, a paid share stays paid, and a stopped payout stays stopped.\<close>

lemma payout_spec_keeps: "payout_spec p p' \<Longrightarrow> all_shares p' = all_shares p \<and> paid_shares p \<subseteq> paid_shares p'"
  by (induction rule: payout_spec.induct) auto

lemma payout_spec_run:
  assumes "payout_spec\<^sup>*\<^sup>* p p'"
  shows "all_shares p' = all_shares p" "paid_shares p \<subseteq> paid_shares p'" "p = Stopped P S \<Longrightarrow> p' = p"
proof -
  show "all_shares p' = all_shares p" "paid_shares p \<subseteq> paid_shares p'"
    using assms by (induction rule: rtranclp_induct) (use payout_spec_keeps in blast)+
  show "p' = p" if "p = Stopped P S"
    using assms that by (induction rule: rtranclp_induct) (auto simp: payout_spec_stopped)
qed

section \<open>The abstraction\<close>

definition shares_in :: "string \<Rightarrow> PayoutTransferRecord list \<Rightarrow> share set" where
  "shares_in st ts = set (map share_of (filter (\<lambda>t. ptr_status t = st) ts))"

definition abs_payout :: "PayoutBatchRecord \<Rightarrow> PayoutTransferRecord list \<Rightarrow> payout" where
  "abs_payout b ts =
     (if pb_status b = ''prepared'' then Awaiting (set (map share_of ts))
      else if shares_in ''failed'' ts = {} then Sent (shares_in ''confirmed'' ts) (shares_in ''submitted'' ts)
      else Stopped (shares_in ''confirmed'' ts) (shares_in ''failed'' ts))"

definition payout_of :: "uuid \<Rightarrow> commerce_db \<Rightarrow> payout option" where
  "payout_of bid d = map_option (\<lambda>b. abs_payout b (transfers_of bid (payout_transfers d)))
     (find (\<lambda>b. pb_id b = bid) (payout_batches d))"

lemma in_shares_in: "x \<in> shares_in st ts \<longleftrightarrow> (\<exists>t \<in> set ts. ptr_status t = st \<and> share_of t = x)"
  by (auto simp: shares_in_def)

lemma shares_in_empty: "shares_in st ts = {} \<longleftrightarrow> st \<notin> set (map ptr_status ts)"
  by (auto simp: shares_in_def filter_empty_conv in_image_ex)

lemma find_progress:
  assumes "progress bid p f p' g"
  shows "find (\<lambda>b. pb_id b = x) (sql_update p f bs) = map_option (\<lambda>b. if p b then f b else b) (find (\<lambda>b. pb_id b = x) bs)"
  by (rule find_sql_update) (use assms in \<open>auto simp: progress_def\<close>)

lemma payout_of_progress:
  assumes "progress bid p f p' g" "payout_batches d' = sql_update p f (payout_batches d)"
    "payout_transfers d' = sql_update p' g (payout_transfers d)"
  shows "x \<noteq> bid \<Longrightarrow> payout_of x d' = payout_of x d"
    "find (\<lambda>b. pb_id b = bid) (payout_batches d) = Some b \<Longrightarrow>
       payout_of bid d' = Some (abs_payout (if p b then f b else b) (sql_update p' g (transfers_of bid (payout_transfers d))))"
proof -
  note T = transfers_of_update [OF assms(1)] and F = find_progress [OF assms(1)]
  show "payout_of x d' = payout_of x d" if "x \<noteq> bid"
  proof (cases "find (\<lambda>b. pb_id b = x) (payout_batches d)")
    case (Some b)
    then have "\<not> p b" using that progressD(1) [OF assms(1), of b] by (auto dest: find_Some_in)
    with Some that show ?thesis by (simp add: payout_of_def assms(2,3) T F)
  qed (simp add: payout_of_def assms(2) F)
  show "payout_of bid d' = Some (abs_payout (if p b then f b else b) (sql_update p' g (transfers_of bid (payout_transfers d))))"
    if "find (\<lambda>b. pb_id b = bid) (payout_batches d) = Some b"
    using that by (simp add: payout_of_def assms(2,3) T F)
qed

section \<open>Each request refines the specification\<close>

definition refines :: "commerce_db \<Rightarrow> commerce_db \<Rightarrow> bool" where
  "refines d d' \<longleftrightarrow> (\<forall>bid. case payout_of bid d of
       None \<Rightarrow> (\<forall>p. payout_of bid d' = Some p \<longrightarrow> (\<exists>S. p = Awaiting S))
     | Some p \<Rightarrow> \<exists>p'. payout_of bid d' = Some p' \<and> payout_spec\<^sup>=\<^sup>= p p')"

lemma refines_refl [simp]: "refines d d"
  by (auto simp: refines_def split: option.splits)

lemma refines_same: "payout_batches d' = payout_batches d \<Longrightarrow> payout_transfers d' = payout_transfers d \<Longrightarrow> refines d d'"
  by (auto simp: refines_def payout_of_def split: option.splits)

lemma refines_one:
  assumes "\<And>x. x \<noteq> bid \<Longrightarrow> payout_of x d' = payout_of x d" "payout_of bid d = Some p" "payout_of bid d' = Some p'"
    "payout_spec\<^sup>=\<^sup>= p p'"
  shows "refines d d'"
  unfolding refines_def
proof
  fix x
  show "case payout_of x d of None \<Rightarrow> \<forall>p. payout_of x d' = Some p \<longrightarrow> (\<exists>S. p = Awaiting S)
     | Some p \<Rightarrow> \<exists>p'. payout_of x d' = Some p' \<and> payout_spec\<^sup>=\<^sup>= p p'"
    using assms by (cases "x = bid") (auto split: option.splits)
qed

lemma refines_progress:
  assumes "progress bid p f p' g" "payout_batches d' = sql_update p f (payout_batches d)"
    "payout_transfers d' = sql_update p' g (payout_transfers d)"
    "payout_of bid d = Some x" "payout_of bid d' = Some y" "payout_spec\<^sup>=\<^sup>= x y"
  shows "refines d d'"
  by (rule refines_one [of bid, OF _ assms(4,5,6)]) (rule payout_of_progress(1) [OF assms(1,2,3)])

lemma shares_in_all:
  "(\<And>t. share_of (g t) = share_of t) \<Longrightarrow> (\<And>t. ptr_status (g t) = new) \<Longrightarrow>
   shares_in st (map g ts) = (if st = new then set (map share_of ts) else {})"
  by (simp add: shares_in_def filter_map o_def image_image)

lemma submission_refines:
  assumes "payout_inv d" "record_payout_submission_tx env q hdrs bid body d = Inr (x, d')"
  shows "refines d d'"
  using assms(2)
proof (cases rule: record_payout_submission_txE)
  case (new b h r al)
  let ?p = "\<lambda>b. pb_id b = bid \<and> pb_status b = ''prepared''"
  let ?f = "\<lambda>b. b\<lparr>pb_status := ''submitted'', pb_submitted_transaction_hash := Some h,
     pb_submission_response := Some r, pb_submitted_at := Some (sql_now q), pb_failure_code := None, pb_updated_at := sql_now q\<rparr>"
  let ?p' = "\<lambda>t. ptr_payout_batch_id t = bid \<and> ptr_status t = ''pending''"
  let ?g = "\<lambda>t. t\<lparr>ptr_status := ''submitted'', ptr_transaction_hash := Some h, ptr_failure_code := None,
     ptr_updated_at := sql_now q\<rparr>"
  let ?ts = "transfers_of bid (payout_transfers d)"
  have pr: "progress bid ?p ?f ?p' ?g" by (auto simp: progress_def share_of_def)
  have B: "pb_id b = bid \<and> batch_ok (payout_rules d) b ?ts"
    using assms(1) batch_of_find [OF _ new(1)] by (auto simp only: payout_inv_def)
  have "list_all (\<lambda>s. s = ''pending'') (map ptr_status ?ts)" using B new(2) by (simp add: batch_ok_def statuses_ok_def)
  then have "sql_update ?p' ?g ?ts = map ?g ?ts"
    unfolding sql_update_def by (intro map_cong refl) (auto simp: list_all_iff transfers_of_def)
  moreover have "shares_in st (map ?g ?ts) = (if st = ''submitted'' then set (map share_of ?ts) else {})" for st
    by (rule shares_in_all) (simp_all add: share_of_def)
  ultimately have sent: "abs_payout (?f b) (sql_update ?p' ?g ?ts) = Sent {} (set (map share_of ?ts))"
    by (simp add: abs_payout_def)
  have d': "payout_batches d' = sql_update ?p ?f (payout_batches d)"
    "payout_transfers d' = sql_update ?p' ?g (payout_transfers d)" by (simp_all add: new(3) submit_batch_def)
  have "payout_of bid d = Some (Awaiting (set (map share_of ?ts)))"
    using new(1,2) by (simp add: payout_of_def abs_payout_def)
  moreover have "payout_of bid d' = Some (Sent {} (set (map share_of ?ts)))"
    using payout_of_progress(2) [OF pr d' new(1)] B new(2) sent by simp
  ultimately show ?thesis
    by (rule refines_progress [OF pr d']) (rule sup2I1, rule payout_spec.send)
qed simp

lemma shares_in_move:
  assumes "\<And>t. share_of (g t) = share_of t" "\<And>t. ptr_status (g t) = new" "\<forall>t \<in> set ts. ptr_payout_batch_id t = bid"
    "old \<noteq> new"
  shows "shares_in st (sql_update (\<lambda>t. ptr_payout_batch_id t = bid \<and> ptr_status t = old) g ts) =
    (if st = new then shares_in new ts \<union> shares_in old ts else if st = old then {} else shares_in st ts)"
    (is "shares_in st (sql_update ?p g ts) = ?rhs")
proof (rule set_eqI)
  fix x
  have g: "ptr_status (if ?p t then g t else t) = st \<and> share_of (if ?p t then g t else t) = x \<longleftrightarrow>
      (if ptr_status t = old then st = new else ptr_status t = st) \<and> share_of t = x" if "t \<in> set ts" for t
    using assms(1-3) that by auto
  have "x \<in> shares_in st (sql_update ?p g ts) \<longleftrightarrow>
      (\<exists>t \<in> set ts. (if ptr_status t = old then st = new else ptr_status t = st) \<and> share_of t = x)"
    unfolding in_shares_in set_sql_update bex_simps using g by (intro bex_cong refl) blast
  also have "\<dots> \<longleftrightarrow> x \<in> ?rhs"
    using assms(4) by (cases "st = new"; cases "st = old") (auto simp: in_shares_in)
  finally show "x \<in> shares_in st (sql_update ?p g ts) \<longleftrightarrow> x \<in> ?rhs" .
qed

lemma statuses_not_both: "statuses_ok st ss \<Longrightarrow> ''submitted'' \<in> set ss \<Longrightarrow> ''failed'' \<notin> set ss"
proof
  assume "statuses_ok st ss" "''submitted'' \<in> set ss" "''failed'' \<in> set ss"
  from bspec [OF statuses_open [OF this(1,2)] this(3)] show False by simp
qed

lemma statuses_stopped:
  assumes "statuses_ok st ss" "st = ''submitted'' \<or> st = ''partial''" "ss \<noteq> []" "''submitted'' \<notin> set ss"
  shows "''failed'' \<in> set ss"
proof (cases "st = ''submitted''")
  case True
  then have "\<forall>s \<in> set ss. s = ''submitted''" using assms(1) by (simp add: statuses_ok_def list_all_iff)
  then have "hd ss = ''submitted''" using hd_in_set [OF assms(3)] by blast
  with hd_in_set [OF assms(3)] assms(4) show ?thesis by simp
next
  case False
  then have p: "list_ex (\<lambda>s. s \<noteq> ''confirmed'') ss" "list_all (\<lambda>s. s = ''confirmed'' \<or> s = ''submitted'') ss \<or>
      list_all (\<lambda>s. s = ''confirmed'' \<or> s = ''failed'') ss"
    using assms(1,2) by (simp_all add: statuses_ok_def)
  then obtain s where s: "s \<in> set ss" "s \<noteq> ''confirmed''" by (auto simp: list_ex_iff)
  then have "s = ''submitted'' \<or> s = ''failed''" using p(2) unfolding list_all_iff by blast
  with s(1) assms(4) show ?thesis by metis
qed

lemma failure_refines:
  assumes "payout_inv d" "record_payout_failure_tx env q hdrs bid raw d = Inr (x, d')"
  shows "refines d d'"
  using assms(2)
proof (cases rule: record_payout_failure_txE)
  case (1 b code al)
  let ?st = "if pb_confirmed_transfer_count b > 0 then ''partial'' else ''failed''"
  let ?p = "\<lambda>b. pb_id b = bid"
  let ?f = "\<lambda>b. b\<lparr>pb_status := ?st, pb_failure_code := Some code, pb_updated_at := sql_now q\<rparr>"
  let ?p' = "\<lambda>t. ptr_payout_batch_id t = bid \<and> ptr_status t = ''submitted''"
  let ?g = "\<lambda>t. t\<lparr>ptr_status := ''failed'', ptr_failure_code := Some code, ptr_updated_at := sql_now q\<rparr>"
  let ?ts = "transfers_of bid (payout_transfers d)"
  have pr: "progress bid ?p ?f ?p' ?g" by (auto simp: progress_def share_of_def)
  have B: "pb_id b = bid \<and> batch_ok (payout_rules d) b ?ts"
    using assms(1) batch_of_find [OF _ 1(1)] by (auto simp only: payout_inv_def)
  from B obtain t1 t2 t3 where T: "?ts = [t1, t2, t3]" by (auto elim: three_transfers)
  have old: "statuses_ok (pb_status b) (map ptr_status ?ts)" "map ptr_status ?ts \<noteq> []"
    using B by (simp_all add: batch_ok_def T)
  have mv: "shares_in st (sql_update ?p' ?g ?ts) = (if st = ''failed'' then shares_in ''failed'' ?ts \<union> shares_in ''submitted'' ?ts
     else if st = ''submitted'' then {} else shares_in st ?ts)" for st
    by (rule shares_in_move) (simp_all add: share_of_def transfers_of_def)
  have d': "payout_batches d' = sql_update ?p ?f (payout_batches d)"
    "payout_transfers d' = sql_update ?p' ?g (payout_transfers d)" by (simp_all add: 1(3) fail_batch_def)
  let ?C = "shares_in ''confirmed'' ?ts" and ?S = "shares_in ''submitted'' ?ts" and ?F = "shares_in ''failed'' ?ts"
  have np: "pb_status b \<noteq> ''prepared''" using 1(2) by auto
  have lost: "?F \<union> ?S \<noteq> {}"
    using statuses_stopped [OF old(1) 1(2) old(2)] by (auto simp: shares_in_empty)
  have either: "?F = {} \<or> ?S = {}"
    using statuses_not_both [OF old(1)] by (auto simp only: shares_in_empty)
  have before: "payout_of bid d = Some (if ?F = {} then Sent ?C ?S else Stopped ?C ?F)"
    using 1(1) np by (simp add: payout_of_def abs_payout_def)
  have after: "payout_of bid d' = Some (Stopped ?C (?F \<union> ?S))"
    using payout_of_progress(2) [OF pr d' 1(1)] B lost by (simp add: abs_payout_def mv)
  have "payout_spec\<^sup>=\<^sup>= (if ?F = {} then Sent ?C ?S else Stopped ?C ?F) (Stopped ?C (?F \<union> ?S))"
  proof (cases "?F = {}")
    case True
    then have "?S \<noteq> {}" using lost by simp
    then have "payout_spec (Sent ?C ?S) (Stopped ?C ?S)" by (rule payout_spec.stop)
    with True show ?thesis by simp
  next
    case False
    then have "?S = {}" using either by blast
    with False show ?thesis by simp
  qed
  with before after show ?thesis by (rule refines_progress [OF pr d'])
qed

lemma shares_in_confirm:
  assumes "distinct (map share_of ts)" "t \<in> set ts" "ptr_status t = ''submitted''" "share_of (g t) = share_of t"
    "ptr_status (g t) = ''confirmed''"
  shows "shares_in ''confirmed'' (sql_update (\<lambda>u. u = t) g ts) = insert (share_of t) (shares_in ''confirmed'' ts)"
    "shares_in ''submitted'' (sql_update (\<lambda>u. u = t) g ts) = shares_in ''submitted'' ts - {share_of t}"
    "shares_in ''failed'' (sql_update (\<lambda>u. u = t) g ts) = shares_in ''failed'' ts"
proof -
  have g: "ptr_status (if u = t then g u else u) = st \<and> share_of (if u = t then g u else u) = x \<longleftrightarrow>
      (if u = t then st = ''confirmed'' else ptr_status u = st) \<and> share_of u = x" for u st x
    using assms(4,5) by auto
  have key: "x \<in> shares_in st (sql_update (\<lambda>u. u = t) g ts) \<longleftrightarrow>
      (\<exists>u \<in> set ts. (if u = t then st = ''confirmed'' else ptr_status u = st) \<and> share_of u = x)" for x st
    unfolding in_shares_in set_sql_update bex_simps g ..
  have uniq: "u = t" if "u \<in> set ts" "share_of u = share_of t" for u
    using that assms(1,2) by (auto simp: distinct_map dest: inj_onD)
  show "shares_in ''confirmed'' (sql_update (\<lambda>u. u = t) g ts) = insert (share_of t) (shares_in ''confirmed'' ts)"
  proof (rule set_eqI)
    fix x show "x \<in> shares_in ''confirmed'' (sql_update (\<lambda>u. u = t) g ts) \<longleftrightarrow> x \<in> insert (share_of t) (shares_in ''confirmed'' ts)"
      unfolding key unfolding insert_iff in_shares_in using assms(2,3) by (auto split: if_splits)
  qed
  show "shares_in ''submitted'' (sql_update (\<lambda>u. u = t) g ts) = shares_in ''submitted'' ts - {share_of t}"
  proof (rule set_eqI)
    fix x show "x \<in> shares_in ''submitted'' (sql_update (\<lambda>u. u = t) g ts) \<longleftrightarrow> x \<in> shares_in ''submitted'' ts - {share_of t}"
      unfolding key unfolding Diff_iff singleton_iff in_shares_in by simp (metis uniq)
  qed
  show "shares_in ''failed'' (sql_update (\<lambda>u. u = t) g ts) = shares_in ''failed'' ts"
  proof (rule set_eqI)
    fix x show "x \<in> shares_in ''failed'' (sql_update (\<lambda>u. u = t) g ts) \<longleftrightarrow> x \<in> shares_in ''failed'' ts"
      unfolding key unfolding in_shares_in by (intro bex_cong refl) (use assms(3) in auto)
  qed
qed

lemma shares_distinct: "batch_ok rs b ts \<Longrightarrow> distinct (map share_of ts)"
  by (auto simp: batch_ok_def split_of_def payout_shares_def)

lemma evidence_refines:
  assumes inv: "payout_inv d" and tx: "record_transfer_evidence_tx env q hdrs bid body d = Inr (status, d')"
  shows "refines d d'"
  using tx
proof (cases rule: record_transfer_evidence_txE)
  case (new b r t p sha al ds failure)
  have ok: "batches_ok (payout_rules d) (payout_batches d) (payout_transfers d)" using inv by (simp add: payout_inv_def)
  let ?es = "payout_transfer_evidence d @ [new_payout_evidence q t p sha failure]"
  show ?thesis
  proof (cases "failure = None")
    case False
    then show ?thesis using new(8,9) by (intro refines_same) simp_all
  next
    case True
    then have rec: "reconcile_transfer b r t p = None" and
      settle: "settle_transfer q bid t p (d\<lparr>payout_transfer_evidence := ?es\<rparr>) = Inr ds" using new(6,8) by simp_all
    from settle_transfer_Inr [OF ok new(1,3,4) rec settle] obtain f where
      ds: "ds = d\<lparr>payout_transfer_evidence := ?es, payout_batches := sql_update (\<lambda>b. pb_id b = bid) f (payout_batches d),
         payout_transfers := sql_update (\<lambda>u. u = t) (confirmed_row q p) (payout_transfers d)\<rparr>"
      and pr: "progress bid (\<lambda>b. pb_id b = bid) f (\<lambda>u. u = t) (confirmed_row q p)"
      by blast
    note R = reconcile_transfer_None [OF rec] and B = batch_of_find [OF ok new(1)]
    let ?ts = "transfers_of bid (payout_transfers d)"
    have tin: "t \<in> set ?ts" using new(3,4) by (simp add: transfers_of_def)
    have d': "payout_batches d' = sql_update (\<lambda>b. pb_id b = bid) f (payout_batches d)"
      "payout_transfers d' = sql_update (\<lambda>u. u = t) (confirmed_row q p) (payout_transfers d)" by (simp_all add: new(9) ds)
    have np1: "pb_status b \<noteq> ''prepared''" using R(1) by (elim disjE) simp_all
    have "pb_status (f b) \<noteq> ''prepared''" using pr B np1 unfolding progress_def by blast
    note np = np1 this
    have "''submitted'' \<in> set (map ptr_status ?ts)" using tin R(2) by (simp add: in_image_ex) blast
    then have nf: "shares_in ''failed'' ?ts = {}"
      using statuses_not_both [of "pb_status b" "map ptr_status ?ts"] B by (auto simp only: shares_in_empty batch_ok_def)
    have row: "share_of (confirmed_row q p t) = share_of t" "ptr_status (confirmed_row q p t) = ''confirmed''"
      by (simp_all add: confirmed_row_def share_of_def)
    have "distinct (map share_of ?ts)" using B shares_distinct by blast
    note sc = shares_in_confirm [where g = "confirmed_row q p", OF this tin R(2) row]
    have before: "payout_of bid d = Some (Sent (shares_in ''confirmed'' ?ts) (shares_in ''submitted'' ?ts))"
      using new(1) np nf by (simp add: payout_of_def abs_payout_def)
    have after: "payout_of bid d' = Some (Sent (insert (share_of t) (shares_in ''confirmed'' ?ts)) (shares_in ''submitted'' ?ts - {share_of t}))"
      using payout_of_progress(2) [OF pr d' new(1)] B np nf by (simp add: abs_payout_def sc)
    have "share_of t \<in> shares_in ''submitted'' ?ts" using tin R(2) by (auto simp: in_shares_in)
    then show ?thesis by (intro refines_progress [OF pr d' before after] sup2I1 payout_spec.pay)
  qed
qed simp

lemma batch_refines:
  assumes inv: "payout_inv d" and tx: "create_payout_batch_tx env q hdrs oid body d = Inr (x, d')"
  shows "refines d d'"
  using tx
proof (cases rule: create_payout_batch_txE)
  case (new actor src r s key sha al)
  have fresh: "new_uuid q 0 \<notin> pb_id ` set (payout_batches d)"
    using batch_ids.insert_new [OF new(11)] by (simp add: new_payout_batch_def)
  have find: "find (\<lambda>b. pb_id b = y) (payout_batches d') = (case find (\<lambda>b. pb_id b = y) (payout_batches d) of
      None \<Rightarrow> if new_uuid q 0 = y then Some (new_payout_batch q actor src oid r key sha) else None | Some b \<Rightarrow> Some b)" for y
    by (simp add: new(14) find_append new_payout_batch_def split: option.split)
  have tr: "transfers_of y (payout_transfers d') = transfers_of y (payout_transfers d)" if "y \<noteq> new_uuid q 0" for y
    using that by (simp add: new(14) transfers_of_def transfers_of_new [unfolded transfers_of_def])
  show ?thesis
    unfolding refines_def
  proof
    fix y
    show "case payout_of y d of None \<Rightarrow> \<forall>p. payout_of y d' = Some p \<longrightarrow> (\<exists>S. p = Awaiting S)
       | Some p \<Rightarrow> \<exists>p'. payout_of y d' = Some p' \<and> payout_spec\<^sup>=\<^sup>= p p'"
    proof (cases "find (\<lambda>b. pb_id b = y) (payout_batches d)")
      case None
      then show ?thesis by (auto simp: payout_of_def find abs_payout_def new_payout_batch_def)
    next
      case (Some b)
      then have "y \<in> pb_id ` set (payout_batches d)" by (auto dest: find_Some_in)
      then have "y \<noteq> new_uuid q 0" using fresh by metis
      with Some show ?thesis by (simp add: payout_of_def find tr)
    qed
  qed
qed simp

lemma transaction_refines:
  assumes "\<And>x d'. body d = Inr (x, d') \<Longrightarrow> refines d d'"
  shows "refines d (snd (transaction body d))"
  using assms by (cases rule: transaction_cases [of body d]) auto

lemma rule_refines: "create_payout_rule_tx env q hdrs org pid body d = Inr (x, d') \<Longrightarrow> refines d d'"
  by (erule create_payout_rule_txE) (simp add: refines_same)

lemma payout_step_refines: "payout_step env d d' \<Longrightarrow> payout_inv d \<Longrightarrow> refines d d'"
proof (induction rule: payout_step.induct)
  case (step_elsewhere d' d)
  then show ?case by (simp add: payout_tables_def refines_same)
qed (auto simp: create_payout_rule_def create_payout_batch_def record_payout_submission_def
    record_transfer_evidence_def record_payout_failure_def intro!: transaction_refines
    intro: rule_refines batch_refines submission_refines evidence_refines failure_refines)

lemma payout_run_refines:
  assumes "(payout_step env)\<^sup>*\<^sup>* d d'" "payout_inv d" "payout_of bid d = Some p"
  shows "\<exists>p'. payout_of bid d' = Some p' \<and> payout_spec\<^sup>*\<^sup>* p p'"
  using assms
proof (induction rule: rtranclp_induct)
  case (step y z)
  then obtain p' where p': "payout_of bid y = Some p'" "payout_spec\<^sup>*\<^sup>* p p'" by blast
  have "payout_inv y" using step(1) assms(2) by (induction rule: rtranclp_induct) (auto intro: payout_step_inv)
  from payout_step_refines [OF step(2) this] have "case payout_of bid y of
       None \<Rightarrow> (\<forall>p. payout_of bid z = Some p \<longrightarrow> (\<exists>S. p = Awaiting S))
     | Some p \<Rightarrow> \<exists>p'. payout_of bid z = Some p' \<and> payout_spec\<^sup>=\<^sup>= p p'" unfolding refines_def by blast
  with p' obtain p'' where "payout_of bid z = Some p''" "payout_spec\<^sup>=\<^sup>= p' p''" by auto
  with p'(2) show ?case by (auto intro: rtranclp.rtrancl_into_rtrancl)
qed simp

end
