(* ===== verification/Payout_Demo.thy ===== *)
theory Payout_Demo
  imports Payout_Refinement Market_Demo
begin

text \<open>
  A concrete payout on which the theorems are instantiated: a fulfilled order of 1000 units is split 90/7/3, the
  batch is submitted, the share of the candidate is proved on chain, and the worker reports that the rest failed.
\<close>

section \<open>Account identifiers with a valid checksum\<close>

definition source_acc :: string where "source_acc = ''GAAAAAAAAAAAAAAAAAAAAAAAAAAAAAAAAAAAAAAAAAAAAAAAAAAAAWHF''"
definition candidate_acc :: string where "candidate_acc = ''GAAAAAAAAAAAAAAAAAAAAAAAAAAAAAAAAAAAAAAAAAAAAAAAAAAAC6PV''"
definition organizer_acc :: string where "organizer_acc = ''GAAAAAAAAAAAAAAAAAAAAAAAAAAAAAAAAAAAAAAAAAAAAAAAAAAAEGWF''"
definition platform_acc :: string where "platform_acc = ''GAAAAAAAAAAAAAAAAAAAAAAAAAAAAAAAAAAAAAAAAAAAAAAAAAAAGO6V''"

lemmas acc_defs = source_acc_def candidate_acc_def organizer_acc_def platform_acc_def

lemma decode_zeros:
  "decode_base32 0 0 (CHR ''A'' # CHR ''A'' # CHR ''A'' # CHR ''A'' # CHR ''A'' # CHR ''A'' # CHR ''A'' # CHR ''A'' # s)
     = map_option (\<lambda>r. (0 # 0 # 0 # 0 # 0 # fst r, snd r)) (decode_base32 0 0 s)"
  by (simp add: base32_digit_def is_ascii_uppercase_def byte_in_def option.map_comp o_def)

lemma decode_first:
  "decode_base32 0 0 (CHR ''G'' # CHR ''A'' # CHR ''A'' # CHR ''A'' # CHR ''A'' # CHR ''A'' # CHR ''A'' # CHR ''A'' # s)
     = map_option (\<lambda>r. (48 # 0 # 0 # 0 # 0 # fst r, snd r)) (decode_base32 0 0 s)"
  by (simp add: base32_digit_def is_ascii_uppercase_def byte_in_def option.map_comp o_def)

lemma decode_last:
  "decode_base32 0 0 ''AAAAAWHF'' = Some ([0, 0, 0, 88, 229], 0)"
  "decode_base32 0 0 ''AAAAC6PV'' = Some ([0, 0, 1, 121, 245], 0)"
  "decode_base32 0 0 ''AAAAEGWF'' = Some ([0, 0, 2, 26, 197], 0)"
  "decode_base32 0 0 ''AAAAGO6V'' = Some ([0, 0, 3, 59, 213], 0)"
  by (simp_all add: base32_digit_def is_ascii_uppercase_def byte_in_def)

lemma crc_rounds: "(f ^^ 8) x = f (f (f (f (f (f (f (f x)))))))"
  by (simp add: numeral_eq_Suc)

lemma crc_zeros: "foldl crc16_byte 0
    [48,0,0,0,0,0,0,0,0,0,0,0,0,0,0,0,0,0,0,0,0,0,0,0,0,0,0,0,0,0,0,0] = 23918"
  by (simp add: crc16_byte_def crc_rounds crc16_step_def)

lemma crc_demo: "n < 4 \<Longrightarrow> crc16
    [48,0,0,0,0,0,0,0,0,0,0,0,0,0,0,0,0,0,0,0,0,0,0,0,0,0,0,0,0,0,0,0,n] = [58712, 62841, 50458, 54587] ! n"
proof -
  assume "n < 4"
  moreover have "crc16 [48,0,0,0,0,0,0,0,0,0,0,0,0,0,0,0,0,0,0,0,0,0,0,0,0,0,0,0,0,0,0,0,n] = crc16_byte 23918 n"
    unfolding crc16_def using crc_zeros by simp
  moreover have "n = 0 \<or> n = 1 \<or> n = 2 \<or> n = 3" using \<open>n < 4\<close> by auto
  ultimately show ?thesis by (elim disjE) (simp_all add: crc16_byte_def crc_rounds crc16_step_def)
qed

lemma acc_valid [simp]: "account source_acc = Inr source_acc" "account candidate_acc = Inr candidate_acc"
  "account organizer_acc = Inr organizer_acc" "account platform_acc = Inr platform_acc"
proof -
  have v: "account s = Inr s" if "validate_strkey_checksum s account_version ''invalid_stellar_account'' = Inr ()"
    "to_ascii_uppercase s = s" "trim s = s" for s
    using that by (simp add: account_def)
  have t: "trim source_acc = source_acc" "trim candidate_acc = candidate_acc" "trim organizer_acc = organizer_acc"
    "trim platform_acc = platform_acc"
    by (rule trim_plain; simp add: acc_defs starts_with_one_def white_space_def)+
  have u: "to_ascii_uppercase source_acc = source_acc" "to_ascii_uppercase candidate_acc = candidate_acc"
    "to_ascii_uppercase organizer_acc = organizer_acc" "to_ascii_uppercase platform_acc = platform_acc"
    by (simp_all add: acc_defs to_ascii_uppercase_def ascii_uppercase_char_def byte_in_def)
  note s = validate_strkey_checksum_def account_version_def decode_first decode_zeros decode_last
  show "account source_acc = Inr source_acc"
    by (rule v; (rule t u)?) (simp add: source_acc_def s crc_demo [of 0, simplified] del: decode_base32.simps)
  show "account candidate_acc = Inr candidate_acc"
    by (rule v; (rule t u)?) (simp add: candidate_acc_def s crc_demo [of 1, simplified] del: decode_base32.simps)
  show "account organizer_acc = Inr organizer_acc"
    by (rule v; (rule t u)?) (simp add: organizer_acc_def s crc_demo [of 2, simplified] del: decode_base32.simps)
  show "account platform_acc = Inr platform_acc"
    by (rule v; (rule t u)?) (simp add: platform_acc_def s crc_demo [of 3, simplified] del: decode_base32.simps)
qed

lemma acc_distinct [simp]: "source_acc \<noteq> candidate_acc" "source_acc \<noteq> organizer_acc" "source_acc \<noteq> platform_acc"
  "candidate_acc \<noteq> organizer_acc" "candidate_acc \<noteq> platform_acc" "organizer_acc \<noteq> platform_acc"
  "candidate_acc \<noteq> source_acc" "organizer_acc \<noteq> source_acc" "platform_acc \<noteq> source_acc"
  by (simp_all add: acc_defs)

lemma acc_shape [simp]: "account_shape source_acc" "account_shape candidate_acc" "account_shape organizer_acc"
  "account_shape platform_acc"
  by (simp_all add: acc_defs account_shape_def is_base32_char_def is_ascii_uppercase_def byte_in_def)

section \<open>The run\<close>

definition admin_headers :: headers where
  "admin_headers = [''x-admin-demo-token'' \<mapsto> ''demo'', ''x-crownfi-user-id'' \<mapsto> ''m'']"

definition payer_headers :: headers where
  "payer_headers = [''x-crownfi-payout-worker-token'' \<mapsto> ''k'', ''x-crownfi-user-id'' \<mapsto> ''w'']"

text \<open>A confirmed transaction intent of an order and the accepted result of its reconciliation.\<close>

definition paid_intent :: "uuid \<Rightarrow> uuid \<Rightarrow> TransactionIntentRecord" where
  "paid_intent i order_id = \<lparr>ti_id = i, ti_organization_id = ''o'', ti_order_id = order_id, ti_payment_attempt_id = ''pa'',
     ti_created_by_user_id = ''m'', ti_operation_type = ''payment'', ti_network = ''testnet'',
     ti_source_account = source_acc, ti_destination_account = platform_acc, ti_transaction_sequence = 1,
     ti_base_fee = 100, ti_amount_minor = 1000, ti_asset_code = ''XLM'', ti_asset_scale = 7, ti_asset_issuer = None,
     ti_memo_text = ''cf:'', ti_idempotency_key = ''k'', ti_request_sha256 = flat_hash,
     ti_transaction_body_sha256 = flat_hash, ti_unsigned_envelope_sha256 = flat_hash, ti_unsigned_envelope_xdr = [],
     ti_status = ''confirmed'', ti_expires_at = 300, ti_signed_at = Some 1, ti_submitted_at = Some 1,
     ti_confirmed_at = Some 1, ti_failure_code = None, ti_created_at = 1, ti_updated_at = 1\<rparr>"

definition accepted_result :: "uuid \<Rightarrow> ReconciliationResultRecord" where
  "accepted_result i = \<lparr>rr_id = ''rr'', rr_transaction_intent_id = i, rr_chain_evidence_id = ''ce'',
     rr_status = ''accepted'', rr_failure_code = None, rr_expected = JObj [], rr_actual = JObj [],
     rr_reconciled_by_user_id = ''m'', rr_reconciled_at = 1\<rparr>"

lemma paid_intent_sel [simp]:
  "ti_id (paid_intent i order_id) = i" "ti_order_id (paid_intent i order_id) = order_id"
  "rr_transaction_intent_id (accepted_result i) = i" "rr_status (accepted_result i) = ''accepted''"
  by (simp_all add: paid_intent_def accepted_result_def)

definition split0 :: commerce_db where
  "split0 = \<lparr>users = [\<lparr>us_id = ''w'', us_status = ''active'', us_display_name = ''n'', us_email = None,
        us_created_at = 0, us_updated_at = 0\<rparr>], stellar_accounts = [], organizations = [], site_administrators = [],
     organization_members = [\<lparr>om_organization_id = ''o'', om_user_id = ''m'', om_role = ''owner'', om_status = ''active'',
        om_invited_by_user_id = None, om_created_at = 0, om_updated_at = 0\<rparr>],
     pageants = [], categories = [], contestants = [], pageant_contestants = [], category_memberships = [],
     contestant_media = [], media_assets = [], contract_deployments = [], audit_logs = [],
     products = [\<lparr>pr_id = ''p'', pr_organization_id = ''o'', pr_pageant_id = None,
        pr_pageant_contestant_id = None, pr_kind = ''collectible'', pr_name = ''Card'', pr_slug = ''card'',
        pr_description = None, pr_status = ''published'', pr_created_by_user_id = ''m'', pr_created_at = 0,
        pr_updated_at = 0\<rparr>],
     product_prices = [], product_inventory = [],
     orders = [\<lparr>or_id = ''a'', or_organization_id = ''o'', or_buyer_user_id = ''u'', or_status = ''fulfilled'',
        or_environment = ''testnet'', or_idempotency_key = ''k'', or_request_sha256 = flat_hash,
        or_amount_minor = 1000, or_asset_code = ''XLM'', or_asset_scale = 7, or_asset_issuer = None,
        or_expires_at = None, or_created_at = 1, or_updated_at = 1\<rparr>],
     order_items = [\<lparr>oit_id = ''i'', oit_order_id = ''a'', oit_product_id = ''p'', oit_product_name = ''Card'',
        oit_quantity = 1, oit_unit_amount_minor = 1000, oit_total_amount_minor = 1000, oit_asset_code = ''XLM'',
        oit_asset_scale = 7, oit_asset_issuer = None, oit_created_at = 1\<rparr>],
     payment_attempts = [], payment_provider_events = [], refunds = [],
     transaction_intents = [paid_intent ''t'' ''a''],
     stellar_reconciliation_results = [accepted_result ''t''],
     payout_rules = [], payout_batches = [], payout_transfers = [], payout_transfer_evidence = []\<rparr>"

definition split_rule :: PayoutRuleRecord where
  "split_rule = \<lparr>pru_id = ''r'', pru_organization_id = ''o'', pru_product_id = ''p'', pru_candidate_account = candidate_acc,
     pru_organizer_account = organizer_acc, pru_platform_account = platform_acc, pru_candidate_bps = 9000,
     pru_organizer_bps = 700, pru_platform_bps = 300, pru_status = ''active'', pru_created_by_user_id = ''m'',
     pru_created_at = 5, pru_updated_at = 5, pru_source_account = source_acc\<rparr>"

definition split_batch :: "string \<Rightarrow> int \<Rightarrow> string option \<Rightarrow> string option \<Rightarrow> PayoutBatchRecord" where
  "split_batch st n tx failure = \<lparr>pb_id = ''b'', pb_organization_id = ''o'', pb_order_id = ''a'', pb_payout_rule_id = ''r'',
     pb_status = st, pb_amount_minor = 1000, pb_asset_code = ''XLM'', pb_asset_scale = 7, pb_asset_issuer = None,
     pb_idempotency_key = ''f'', pb_request_sha256 = flat_hash, pb_expected_transfer_count = 3,
     pb_confirmed_transfer_count = n, pb_submitted_transaction_hash = tx,
     pb_submission_response = map_option (\<lambda>h. JObj [(''hash'', JStr h)]) tx, pb_submitted_at = map_option (\<lambda>_. 5) tx,
     pb_confirmed_at = None, pb_failure_code = failure, pb_created_by_user_id = ''m'', pb_created_at = 5, pb_updated_at = 5\<rparr>"

definition split_transfer ::
  "uuid \<Rightarrow> string \<Rightarrow> string \<Rightarrow> int \<Rightarrow> string \<Rightarrow> string option \<Rightarrow> string option \<Rightarrow> PayoutTransferRecord" where
  "split_transfer i role recipient amount st tx failure = \<lparr>ptr_id = i, ptr_payout_batch_id = ''b'', ptr_role = role,
     ptr_recipient_account = recipient, ptr_expected_amount_minor = amount, ptr_status = st,
     ptr_operation_index = (if st = ''confirmed'' then Some 0 else None), ptr_transaction_hash = tx,
     ptr_actual_amount_minor = (if st = ''confirmed'' then Some amount else None),
     ptr_ledger_sequence = (if st = ''confirmed'' then Some 7 else None), ptr_failure_code = failure,
     ptr_confirmed_at = (if st = ''confirmed'' then Some 5 else None), ptr_created_at = 5, ptr_updated_at = 5\<rparr>"

definition split_rule_request :: CreatePayoutRuleRequest where
  "split_rule_request = \<lparr>cpr_source_account = source_acc, cpr_candidate_account = candidate_acc,
     cpr_organizer_account = organizer_acc, cpr_platform_account = platform_acc, cpr_candidate_bps = 9000,
     cpr_organizer_bps = 700, cpr_platform_bps = 300, cpr_status = None\<rparr>"

lemma trim_split [simp]: "trim ''active'' = ''active''" "trim flat_hash = flat_hash" "trim ''candidate'' = ''candidate''"
  "trim ''XLM'' = ''XLM''"
  by (rule trim_plain; simp add: starts_with_one_def white_space_def flat_hash_def)+

lemmas split_env_defs = flat_env_def dq_def admin_headers_def payer_headers_def header_or_default_def database_pool_def
  require_admin_actor_def require_admin_def actor_header_def require_worker_actor_def constant_time_equal_iff
  require_member_editor_def member_role_def ensure_user_def

lemmas split_write_defs = commerce_audit_def insert_audit_def audit_clash_def sql_insert_def sql_update_def Let_def

definition split1 :: commerce_db where
  "split1 = split0\<lparr>payout_rules := [split_rule], audit_logs := [\<lparr>al_id = ''rx'', al_organization_id = Some ''o'',
     al_actor_user_id = Some ''m'', al_action = ''payout_rule.create'', al_entity_type = ''payout_rule'',
     al_entity_id = Some ''r'', al_metadata = JObj [(''product_id'', JStr ''p''), (''source_account'', JStr source_acc),
           (''candidate_account'', JStr candidate_acc), (''organizer_account'', JStr organizer_acc),
           (''platform_account'', JStr platform_acc), (''candidate_bps'', JInt 9000),
           (''organizer_bps'', JInt 700), (''platform_bps'', JInt 300), (''status'', JStr ''active'')]\<rparr>]\<rparr>"

lemma split_make_rule: "create_payout_rule_tx flat_env (dq ''r'') admin_headers ''o'' ''p'' split_rule_request split0
    = Inr ((201, split_rule), split1)"
  by (simp add: create_payout_rule_tx_def split_env_defs split_write_defs split0_def split1_def split_rule_def
      split_rule_request_def validate_bps_def payout_rule_status_def to_ascii_lowercase_def ascii_lowercase_char_def
      byte_in_def payout_rule_check_def new_payout_rule_def)

definition split_audit :: "uuid \<Rightarrow> string \<Rightarrow> string \<Rightarrow> string \<Rightarrow> uuid \<Rightarrow> json \<Rightarrow> audit_row" where
  "split_audit i actor act ty ent m = \<lparr>al_id = i, al_organization_id = Some ''o'', al_actor_user_id = Some actor,
     al_action = act, al_entity_type = ty, al_entity_id = Some ent, al_metadata = m\<rparr>"

definition split2 :: commerce_db where
  "split2 = split1\<lparr>payout_batches := [split_batch ''prepared'' 0 None None],
     payout_transfers := [split_transfer ''bx'' ''candidate'' candidate_acc 900 ''pending'' None None,
        split_transfer ''bxx'' ''organizer'' organizer_acc 70 ''pending'' None None,
        split_transfer ''bxxx'' ''platform'' platform_acc 30 ''pending'' None None],
     audit_logs := audit_logs split1 @ [split_audit ''bxxxx'' ''m'' ''payout_batch.prepare'' ''payout_batch'' ''b''
       (JObj [(''order_id'', JStr ''a''), (''payout_rule_id'', JStr ''r''), (''amount_minor'', JInt 1000),
          (''asset_code'', JStr ''XLM''), (''candidate_amount_minor'', JInt 900),
          (''organizer_amount_minor'', JInt 70), (''platform_amount_minor'', JInt 30)])]\<rparr>"

definition split3 :: commerce_db where
  "split3 = split2\<lparr>payout_batches := [split_batch ''submitted'' 0 (Some flat_hash) None],
     payout_transfers := [split_transfer ''bx'' ''candidate'' candidate_acc 900 ''submitted'' (Some flat_hash) None,
        split_transfer ''bxx'' ''organizer'' organizer_acc 70 ''submitted'' (Some flat_hash) None,
        split_transfer ''bxxx'' ''platform'' platform_acc 30 ''submitted'' (Some flat_hash) None],
     audit_logs := audit_logs split2 @ [split_audit ''s'' ''w'' ''payout_batch.submit'' ''payout_batch'' ''b''
       (JObj [(''transaction_hash'', JStr flat_hash), (''worker_actor_user_id'', JStr ''w''),
          (''network'', JStr ''testnet'')])]\<rparr>"

definition split_operation :: json where
  "split_operation = JObj [(''type'', JStr ''payment''), (''transaction_hash'', JStr flat_hash),
     (''operation_index'', JInt 0), (''ledger_sequence'', JInt 7), (''source_account'', JStr source_acc),
     (''to'', JStr candidate_acc), (''amount'', JStr (amount_text 7 900)), (''asset_type'', JStr ''native'')]"

definition split_report :: TransferEvidenceRequest where
  "split_report = \<lparr>ter_role = ''candidate'', ter_transaction_hash = flat_hash, ter_operation_index = 0,
     ter_source_account = source_acc, ter_recipient_account = candidate_acc, ter_amount_minor = 900,
     ter_asset_code = ''XLM'', ter_asset_scale = 7, ter_asset_issuer = None, ter_ledger_sequence = 7,
     ter_successful = True, ter_raw_operation = split_operation\<rparr>"

definition split_evidence :: PayoutEvidenceRecord where
  "split_evidence = \<lparr>pte_id = ''e'', pte_payout_transfer_id = ''bx'', pte_network = ''testnet'',
     pte_transaction_hash = flat_hash, pte_operation_index = 0, pte_source_account = source_acc,
     pte_recipient_account = candidate_acc, pte_amount_minor = 900, pte_asset_code = ''XLM'', pte_asset_scale = 7,
     pte_asset_issuer = None, pte_ledger_sequence = 7, pte_successful = True, pte_evidence_sha256 = flat_hash,
     pte_raw_operation = split_operation, pte_processing_status = ''accepted'', pte_reconciliation_error = None,
     pte_created_at = 5\<rparr>"

definition split4 :: commerce_db where
  "split4 = split3\<lparr>payout_batches := [split_batch ''partial'' 1 (Some flat_hash) None],
     payout_transfers := [split_transfer ''bx'' ''candidate'' candidate_acc 900 ''confirmed'' (Some flat_hash) None,
        split_transfer ''bxx'' ''organizer'' organizer_acc 70 ''submitted'' (Some flat_hash) None,
        split_transfer ''bxxx'' ''platform'' platform_acc 30 ''submitted'' (Some flat_hash) None],
     payout_transfer_evidence := [split_evidence],
     audit_logs := audit_logs split3 @ [split_audit ''ex'' ''w'' ''payout_transfer.reconcile'' ''payout_transfer_evidence'' ''e''
       (JObj [(''payout_batch_id'', JStr ''b''), (''payout_transfer_id'', JStr ''bx''), (''role'', JStr ''candidate''),
          (''transaction_hash'', JStr flat_hash), (''operation_index'', JInt 0),
          (''processing_status'', JStr ''accepted''), (''reconciliation_error'', JNull)])]\<rparr>"

definition split5 :: commerce_db where
  "split5 = split4\<lparr>payout_batches := [split_batch ''partial'' 1 (Some flat_hash) (Some ''f'')],
     payout_transfers := [split_transfer ''bx'' ''candidate'' candidate_acc 900 ''confirmed'' (Some flat_hash) None,
        split_transfer ''bxx'' ''organizer'' organizer_acc 70 ''failed'' (Some flat_hash) (Some ''f''),
        split_transfer ''bxxx'' ''platform'' platform_acc 30 ''failed'' (Some flat_hash) (Some ''f'')],
     audit_logs := audit_logs split4 @ [split_audit ''z'' ''w'' ''payout_batch.fail'' ''payout_batch'' ''b''
       (JObj [(''failure_code'', JStr ''f''), (''confirmed_transfer_count'', JInt 1), (''status'', JStr ''partial'')])]\<rparr>"

lemmas split_run_defs = split0_def split1_def split2_def split3_def split4_def split5_def split_audit_def

lemma replicate_four [simp]: "replicate 4 c = [c, c, c, c]"
  by (simp add: numeral_eq_Suc)

lemma flat_hash_hex [simp]: "hex_string flat_hash 64 e = Inr flat_hash" "to_ascii_lowercase flat_hash = flat_hash"
  by (simp_all add: hex_string_def flat_hash_def to_ascii_lowercase_def ascii_lowercase_char_def byte_in_def
      list_all_iff is_ascii_hexdigit_def is_ascii_digit_def trim_split [unfolded flat_hash_def])

lemma split_make_batch: "create_payout_batch_tx flat_env (dq ''b'') admin_headers ''a''
    \<lparr>cpb_payout_rule_id = ''r'', cpb_idempotency_key = ''f''\<rparr> split1 = Inr ((201, ''b''), split2)"
proof -
  have s: "calculate_split 1000 9000 700 300 = Inr \<lparr>sp_candidate = 900, sp_organizer = 70, sp_platform = 30\<rparr>"
    by (simp add: calculate_split_def validate_bps_def Let_def checked_i128_def checked_i64_def i64_min_def i64_max_def
        i128_min_def i128_max_def signed_divide_int_def)
  have b: "payout_batch_check (split_batch ''prepared'' 0 None None)"
    by (simp add: payout_batch_check_def split_batch_def asset_check_def is_ascii_uppercase_def byte_in_def
        sha256_or_null_def text_between_def btrim_def char_length_def)
  have t: "payout_transfer_check (split_transfer i r a n ''pending'' None None)"
    if "account_shape a" "0 \<le> n" "r = ''candidate'' \<or> r = ''organizer'' \<or> r = ''platform''" for i r a n
    using that by (auto simp: payout_transfer_check_def split_transfer_def sha256_or_null_def)
  show ?thesis
    using s b t [of candidate_acc 900 "''candidate''"] t [of organizer_acc 70 "''organizer''"] t [of platform_acc 30 "''platform''"]
    by (simp add: create_payout_batch_tx_def write_payout_batch_def payout_sources_def payment_confirmed_def split_env_defs
        split_write_defs split_run_defs split_rule_def required_chars_def validate_bps_def new_payout_batch_def
        new_payout_transfer_def payout_shares_def payout_transfer_clash_def split_batch_def split_transfer_def hash_text_def
        char_length_def byte_in_def)
qed

lemma split_send: "record_payout_submission_tx flat_env (dq ''s'') payer_headers ''b''
    \<lparr>psr_transaction_hash = flat_hash, psr_submission_response = JObj [(''hash'', JStr flat_hash)]\<rparr> split2 = Inr ((), split3)"
  by (simp add: record_payout_submission_tx_def submit_batch_def load_batch_for_update_def split_env_defs split_write_defs
      split_run_defs split_batch_def split_transfer_def get_str_def json_get_def)

lemma split_paid: "record_transfer_evidence_tx flat_env (dq ''e'') payer_headers ''b'' split_report split3 = Inr (201, split4)"
proof -
  have amount: "decimal_minor (amount_text 7 900) 7 = Some 900"
    using decimal_minor_amount_text [of 7 900] by (simp add: i64_max_def)
  have check: "payout_evidence_check split_evidence"
    by (simp add: payout_evidence_check_def split_evidence_def asset_check_def is_ascii_uppercase_def byte_in_def)
  have raw: "raw_operation_failure \<lparr>rep_transaction_hash = flat_hash, rep_operation_index = 0, rep_source_account = source_acc,
     rep_recipient_account = candidate_acc, rep_amount_minor = 900, rep_asset_code = ''XLM'', rep_asset_scale = 7,
     rep_asset_issuer = None, rep_ledger_sequence = 7, rep_successful = True, rep_raw_operation = split_operation\<rparr> = None"
    by (simp add: raw_operation_failure_def split_operation_def get_str_def get_i64_def json_get_def amount Let_def
        checked_i64_def i64_min_def i64_max_def)
  have code: "asset_code_text ''XLM'' = Inr ''XLM''"
    by (simp add: asset_code_text_def to_ascii_uppercase_def ascii_uppercase_char_def byte_in_def is_ascii_uppercase_def)
  have role: "payout_role ''candidate'' = Inr ''candidate''"
    by (simp add: payout_role_def to_ascii_lowercase_def ascii_lowercase_char_def byte_in_def)
  show ?thesis
    using check
    by (simp add: record_transfer_evidence_tx_def transfer_report_of_def split_report_def raw code role
      write_transfer_evidence_def reconcile_transfer_def settle_transfer_def confirm_transfer_def refresh_batch_status_def
      batch_status_of_def sql_count_def new_payout_evidence_def load_batch_for_update_def split_env_defs split_write_defs
      split_run_defs split_rule_def split_batch_def split_transfer_def split_evidence_def asset_issuer_def upper_non_empty_def
      str_or_null_def)
qed

lemma split_failed: "record_payout_failure_tx flat_env (dq ''z'') payer_headers ''b'' ''f'' split4 = Inr ((), split5)"
  by (simp add: record_payout_failure_tx_def fail_batch_def load_batch_for_update_def required_chars_def split_env_defs
      split_write_defs split_run_defs split_batch_def split_transfer_def char_length_def byte_in_def)

section \<open>Its states are reachable\<close>

lemma payout_step_of_tx:
  "create_payout_rule_tx env q hdrs org pid rb d = Inr (x, d') \<Longrightarrow> payout_step env d d'"
  "create_payout_batch_tx env q hdrs oid bb d = Inr (y, d') \<Longrightarrow> payout_step env d d'"
  "record_payout_submission_tx env q hdrs bid sb d = Inr (u, d') \<Longrightarrow> payout_step env d d'"
  "record_transfer_evidence_tx env q hdrs bid eb d = Inr (n, d') \<Longrightarrow> payout_step env d d'"
  "record_payout_failure_tx env q hdrs bid code d = Inr (v, d') \<Longrightarrow> payout_step env d d'"
  using step_rule [of env d q hdrs org pid rb] step_prepare [of env d q hdrs oid bb]
    step_submission [of env d q hdrs bid sb] step_evidence [of env d q hdrs bid eb] step_failure [of env d q hdrs bid code]
  by (simp_all add: create_payout_rule_def create_payout_batch_def record_payout_submission_def
      record_transfer_evidence_def record_payout_failure_def transaction_def)

lemma payout_reach_step: "payout_reachable env d \<Longrightarrow> payout_step env d d' \<Longrightarrow> payout_reachable env d'"
  unfolding payout_reachable_def by (blast intro: rtranclp.rtrancl_into_rtrancl)

lemma split_reachable: "payout_reachable flat_env split1" "payout_reachable flat_env split3" "payout_reachable flat_env split4"
proof -
  have "payout_start split0" by (simp add: payout_start_def split0_def)
  then have 0: "payout_reachable flat_env split0" by (auto simp: payout_reachable_def)
  show 1: "payout_reachable flat_env split1" by (rule payout_reach_step [OF 0 payout_step_of_tx(1) [OF split_make_rule]])
  have 2: "payout_reachable flat_env split2" by (rule payout_reach_step [OF 1 payout_step_of_tx(2) [OF split_make_batch]])
  show 3: "payout_reachable flat_env split3" by (rule payout_reach_step [OF 2 payout_step_of_tx(3) [OF split_send]])
  show "payout_reachable flat_env split4" by (rule payout_reach_step [OF 3 payout_step_of_tx(4) [OF split_paid]])
qed

end
