(* ===== verification/Payout_Props.thy ===== *)
theory Payout_Props
  imports Payout_Demo
begin

text \<open>What candidates, organizers and the platform may rely on when a sale is paid out.\<close>

section \<open>Money\<close>

text \<open>What the accepted evidence of a batch adds up to.\<close>

definition paid_minor :: "uuid \<Rightarrow> commerce_db \<Rightarrow> int" where
  "paid_minor bid d = (\<Sum>e \<leftarrow> filter (\<lambda>e. accepted_evidence e \<and>
     list_ex (\<lambda>t. ptr_id t = pte_payout_transfer_id e) (batch_transfers bid d)) (payout_transfer_evidence d).
     pte_amount_minor e)"

lemma keyed_sum:
  "(\<Sum>x \<leftarrow> filter (\<lambda>x. P (fst (f x))) xs. snd (snd (f x)))
     = sum_mset (image_mset (\<lambda>y. snd (snd y)) (filter_mset (\<lambda>y. P (fst y)) (mset (map f xs))))"
  by (induction xs) auto

lemma paid_minor_confirmed:
  assumes inv: "payout_inv d"
  shows "paid_minor bid d = (\<Sum>t \<leftarrow> filter confirmed_transfer (transfers_of bid (payout_transfers d)). ptr_expected_amount_minor t)"
proof -
  let ?ts = "payout_transfers d" and ?es = "payout_transfer_evidence d"
  let ?I = "\<lambda>i. i \<in> ptr_id ` set (transfers_of bid ?ts)"
  have ids: "distinct (map ptr_id ?ts)" and
    ms: "mset (map paid_by (filter accepted_evidence ?es)) = mset (map owed_by (filter confirmed_transfer ?ts))"
    using inv by (auto simp only: payout_inv_def batches_ok_def evidence_ok_def)
  have "t = u" if "t \<in> set ?ts" "u \<in> set ?ts" "ptr_id t = ptr_id u" for t u
    using that ids by (auto simp: distinct_map dest: inj_onD)
  then have own: "?I (ptr_id t) \<longleftrightarrow> ptr_payout_batch_id t = bid" if "t \<in> set ?ts" for t
    using that unfolding in_image_ex transfers_of_def by auto
  have "filter (\<lambda>t. ?I (fst (owed_by t))) (filter confirmed_transfer ?ts) = filter confirmed_transfer (transfers_of bid ?ts)"
    unfolding transfers_of_def filter_filter owed_by_def fst_conv
    by (rule filter_cong) (use own in \<open>auto simp: transfers_of_def\<close>)
  moreover have "paid_minor bid d = (\<Sum>e \<leftarrow> filter (\<lambda>e. ?I (fst (paid_by e))) (filter accepted_evidence ?es). snd (snd (paid_by e)))"
    by (simp add: paid_minor_def paid_by_def batch_transfers_def transfers_of_def list_ex_iff in_image_ex conj_commute)
  moreover have "(\<Sum>e \<leftarrow> filter (\<lambda>e. ?I (fst (paid_by e))) (filter accepted_evidence ?es). snd (snd (paid_by e)))
      = (\<Sum>t \<leftarrow> filter (\<lambda>t. ?I (fst (owed_by t))) (filter confirmed_transfer ?ts). snd (snd (owed_by t)))"
    using keyed_sum [of paid_by ?I "filter accepted_evidence ?es"] keyed_sum [of owed_by ?I "filter confirmed_transfer ?ts"]
    unfolding ms by (simp only:)
  ultimately show ?thesis by (simp only:) (simp add: owed_by_def)
qed

lemma confirmed_sum:
  assumes "batch_ok rs b ts"
  shows "0 \<le> (\<Sum>t \<leftarrow> filter confirmed_transfer ts. ptr_expected_amount_minor t)"
    "(\<Sum>t \<leftarrow> filter confirmed_transfer ts. ptr_expected_amount_minor t) \<le> pb_amount_minor b"
    "(\<Sum>t \<leftarrow> filter confirmed_transfer ts. ptr_expected_amount_minor t) = pb_amount_minor b \<longleftrightarrow> pb_status b = ''confirmed''"
proof -
  from assms obtain t1 t2 t3 where T: "ts = [t1, t2, t3]" by (rule three_transfers)
  from assms have pos: "0 < ptr_expected_amount_minor t1" "0 < ptr_expected_amount_minor t2" "0 < ptr_expected_amount_minor t3"
    and total: "ptr_expected_amount_minor t1 + ptr_expected_amount_minor t2 + ptr_expected_amount_minor t3 = pb_amount_minor b"
    by (auto simp: T batch_ok_def split_of_def payout_shares_def share_of_def)
  show "0 \<le> (\<Sum>t \<leftarrow> filter confirmed_transfer ts. ptr_expected_amount_minor t)"
    "(\<Sum>t \<leftarrow> filter confirmed_transfer ts. ptr_expected_amount_minor t) \<le> pb_amount_minor b"
    using pos total by (auto simp: T)
  have "(\<Sum>t \<leftarrow> filter confirmed_transfer ts. ptr_expected_amount_minor t) = pb_amount_minor b \<longleftrightarrow>
      list_all confirmed_transfer ts" using pos total by (auto simp: T)
  also have "\<dots> \<longleftrightarrow> pb_status b = ''confirmed''"
    using assms by (auto simp: T batch_ok_def statuses_ok_def confirmed_transfer_def)
  finally show "(\<Sum>t \<leftarrow> filter confirmed_transfer ts. ptr_expected_amount_minor t) = pb_amount_minor b \<longleftrightarrow> pb_status b = ''confirmed''" .
qed

text \<open>C29: A sale is never paid out twice or too much. In every reachable state the accepted evidence of a batch adds up
  to at most the amount of its order, and to exactly that amount if and only if the batch is confirmed; every
  accepted payment names the source account of the rule, the transaction submitted for the batch and its asset.\<close>

theorem payouts_never_exceed_sale:
  assumes "payout_reachable env d" "b \<in> set (payout_batches d)"
  shows "0 \<le> paid_minor (pb_id b) d \<and> paid_minor (pb_id b) d \<le> pb_amount_minor b \<and>
    (paid_minor (pb_id b) d = pb_amount_minor b \<longleftrightarrow> pb_status b = ''confirmed'') \<and>
    list_all (\<lambda>e. \<not> accepted_evidence e \<or> traced (payout_rules d) (payout_batches d) (payout_transfers d) e)
      (payout_transfer_evidence d)"
proof -
  have inv: "payout_inv d" by (rule payout_reachable_inv [OF assms(1)])
  then have "batch_ok (payout_rules d) b (transfers_of (pb_id b) (payout_transfers d))"
    using assms(2) by (simp add: payout_inv_def batches_ok_def)
  from confirmed_sum [OF this] inv show ?thesis
    by (auto simp: paid_minor_confirmed [OF inv] payout_inv_def evidence_ok_def list_all_iff)
qed

theorem payouts_never_exceed_sale_witness:
  "paid_minor ''b'' split4 = 900 \<and> paid_minor ''b'' split4 \<noteq> 1000"
proof -
  have "split_batch ''partial'' 1 (Some flat_hash) None \<in> set (payout_batches split4)" by (simp add: split_run_defs)
  from payouts_never_exceed_sale [OF split_reachable(3) this] have "paid_minor ''b'' split4 \<noteq> 1000"
    by (simp add: split_batch_def)
  then show ?thesis
    by (simp add: paid_minor_def split_run_defs split_evidence_def split_transfer_def batch_transfers_def accepted_evidence_def)
qed

text \<open>C30: The tables of payouts refine their specification: seen through \<open>payout_of\<close>, each request on a reachable
  state leaves every payout as it is or makes one step of \<open>payout_spec\<close> (all shares are sent together, a
  sent share is paid, the open shares stop), and a new payout starts with its shares waiting.\<close>

theorem payouts_refine_spec:
  assumes "payout_reachable env d" "payout_step env d d'"
  shows "case payout_of bid d of
      None \<Rightarrow> payout_of bid d' = None \<or> (\<exists>S. payout_of bid d' = Some (Awaiting S))
    | Some p \<Rightarrow> \<exists>p'. payout_of bid d' = Some p' \<and> payout_spec\<^sup>=\<^sup>= p p'"
proof -
  have "case payout_of bid d of None \<Rightarrow> (\<forall>p. payout_of bid d' = Some p \<longrightarrow> (\<exists>S. p = Awaiting S))
     | Some p \<Rightarrow> \<exists>p'. payout_of bid d' = Some p' \<and> payout_spec\<^sup>=\<^sup>= p p'"
    using payout_step_refines [OF assms(2) payout_reachable_inv [OF assms(1)]] unfolding refines_def by blast
  then show ?thesis by (cases "payout_of bid d"; cases "payout_of bid d'") auto
qed

theorem payouts_refine_spec_witness:
  "payout_of ''b'' split3 = Some (Sent {} {(''candidate'', candidate_acc, 900), (''organizer'', organizer_acc, 70),
     (''platform'', platform_acc, 30)}) \<and>
   (\<exists>p'. payout_of ''b'' split4 = Some p' \<and> payout_spec\<^sup>=\<^sup>= (Sent {} {(''candidate'', candidate_acc, 900),
     (''organizer'', organizer_acc, 70), (''platform'', platform_acc, 30)}) p')"
proof -
  have p: "payout_of ''b'' split3 = Some (Sent {} {(''candidate'', candidate_acc, 900), (''organizer'', organizer_acc, 70),
     (''platform'', platform_acc, 30)})"
    by (auto simp: payout_of_def split_run_defs split_batch_def split_transfer_def abs_payout_def shares_in_def
        transfers_of_def share_of_def)
  with payouts_refine_spec [OF split_reachable(2) payout_step_of_tx(4) [OF split_paid], of "''b''"] show ?thesis by simp
qed

lemma three_floors: "x + y + z = t * 10000 \<Longrightarrow> t - x div 10000 - y div 10000 \<le> z div 10000 + (2 :: int)"
  using div_mult_mod_eq [of x 10000] div_mult_mod_eq [of y 10000] div_mult_mod_eq [of z 10000]
    pos_mod_bound [of 10000 x] pos_mod_bound [of 10000 y] pos_mod_bound [of 10000 z] by linarith

text \<open>C33: A sale is split exactly. For every positive amount of an \<open>i64\<close> and basis points that add up to 10000 the
  split succeeds without overflow: candidate and organizer get the floor of their share, the platform the rest,
  which is at least the floor of its share and at most one unit more than its exact share rounded up, and the
  three add up to the amount.\<close>

theorem payout_split_exact:
  assumes "0 < t" "t \<le> i64_max" "0 \<le> c" "0 \<le> r" "0 \<le> p" "c + r + p = 10000"
  shows "\<exists>s. calculate_split t c r p = Inr s \<and> sp_candidate s = t * c div 10000 \<and> sp_organizer s = t * r div 10000 \<and>
    sp_candidate s + sp_organizer s + sp_platform s = t \<and> 0 \<le> sp_candidate s \<and> 0 \<le> sp_organizer s \<and>
    t * p div 10000 \<le> sp_platform s \<and> sp_platform s \<le> t * p div 10000 + 2"
proof -
  have b: "c \<le> 10000" "r \<le> 10000" using assms(3-6) by auto
  have s: "calculate_split t c r p = Inr \<lparr>sp_candidate = t * c div 10000, sp_organizer = t * r div 10000,
      sp_platform = t - t * c div 10000 - t * r div 10000\<rparr>"
    by (rule calculate_split_ok) (use assms b in \<open>auto simp: validate_bps_def\<close>)
  have "t * c + t * r + t * p = t * 10000" unfolding assms(6) [symmetric] by (simp add: algebra_simps)
  then have "t - t * c div 10000 - t * r div 10000 \<le> t * p div 10000 + 2"
    by (rule three_floors)
  moreover have "0 \<le> t * c div 10000" "0 \<le> t * r div 10000" "t * c div 10000 + t * r div 10000 + t * p div 10000 \<le> t"
    using bps_product(2) [of c t] bps_product(2) [of r t] bps_floor_sum [of t c r p] assms b by simp_all
  ultimately show ?thesis using s by (intro exI [of _ "\<lparr>sp_candidate = t * c div 10000, sp_organizer = t * r div 10000,
      sp_platform = t - t * c div 10000 - t * r div 10000\<rparr>"]) simp
qed

theorem payout_split_exact_witness:
  "\<exists>s. calculate_split 101 3333 3333 3334 = Inr s \<and> sp_candidate s = 33 \<and> sp_organizer s = 33 \<and> sp_platform s = 35"
  using payout_split_exact [of 101 3333 3333 3334] by (auto simp: i64_max_def)

text \<open>An amount written with up to seven decimal places, as the chain reports it, is read back exactly: for every
  amount of an \<open>i64\<close>, \<open>decimal_minor\<close> inverts the decimal text.\<close>

theorem amount_text_roundtrip:
  assumes "scale \<le> 7" "int n \<le> i64_max"
  shows "decimal_minor (amount_text scale n) (int scale) = Some (int n)"
  by (rule decimal_minor_amount_text [OF assms])

theorem amount_text_roundtrip_witness: "decimal_minor (amount_text 7 9223372036854775807) 7 = Some i64_max"
  using amount_text_roundtrip [of 7 9223372036854775807] by (simp add: i64_max_def)

end
