(* ===== verification/Orders.thy ===== *)
theory Orders
  imports Commerce_Data
begin

text \<open>
  The handlers of \<open>services/api/src/orders.rs\<close>: orders over published products with reserved inventory, payment
  attempts, and the events of a payment provider that are reconciled with the attempt.
\<close>

section \<open>Requests and responses\<close>

record CreateOrderRequest =
  cor_product_id :: uuid
  cor_price_id :: uuid
  cor_quantity :: int
  cor_environment :: string
  cor_idempotency_key :: string

record CreatePaymentAttemptRequest =
  cpa_provider :: string
  cpa_provider_reference :: "string option"
  cpa_payer_account :: "string option"

record RecordPaymentEventRequest =
  rpe_provider_event_id :: string
  rpe_signature_verified :: bool
  rpe_outcome :: string
  rpe_amount_minor :: int
  rpe_asset_code :: string
  rpe_asset_scale :: int
  rpe_asset_issuer :: "string option"
  rpe_payer_account :: "string option"
  rpe_environment :: string
  rpe_payload :: json

record OrderDetailResponse =
  odr_order :: OrderRecord
  odr_items :: "OrderItemRecord list"
  odr_payment_attempts :: "PaymentAttemptRecord list"
  odr_payment_events :: "PaymentProviderEventRecord list"
  odr_refunds :: "RefundRecord list"

section \<open>Validation\<close>

definition validate_environment :: "string \<Rightarrow> api_error + string" where
  "validate_environment value =
     (let value = to_ascii_lowercase (trim value) in
      if List.member environments value then Inr value else Inl (InvalidRequest ''invalid_environment''))"

definition validate_payment_outcome :: "string \<Rightarrow> api_error + string" where
  "validate_payment_outcome value =
     (let value = to_ascii_lowercase (trim value) in
      if List.member [''confirmed'', ''failed''] value then Inr value
      else Inl (InvalidRequest ''invalid_payment_outcome''))"

definition is_stellar_account :: "string \<Rightarrow> bool" where
  "is_stellar_account value \<longleftrightarrow> length value = 56 \<and> take 1 value = ''G'' \<and> list_all is_base32_char (drop 1 value)"

definition validate_asset_issuer :: "string \<Rightarrow> string option \<Rightarrow> api_error + string option" where
  "validate_asset_issuer code value =
     (let value = upper_non_empty value in
      if code = ''XLM'' then
        (if value \<noteq> None then Inl (InvalidRequest ''xlm_must_not_have_issuer'') else Inr None)
      else
        bind_result (ok_or value (InvalidRequest ''asset_issuer_required'')) (\<lambda>issuer.
        if \<not> is_stellar_account issuer then Inl (InvalidRequest ''invalid_asset_issuer'') else Inr (Some issuer)))"

definition validate_optional_stellar_account :: "string option \<Rightarrow> api_error + string option" where
  "validate_optional_stellar_account value =
     (case value of None \<Rightarrow> Inr None
      | Some v \<Rightarrow> let v = to_ascii_uppercase (trim v) in
          if is_stellar_account v then Inr (Some v) else Inl (InvalidRequest ''invalid_stellar_account''))"

definition optional_chars :: "string option \<Rightarrow> nat \<Rightarrow> string \<Rightarrow> api_error + string option" where
  "optional_chars value max_a error =
     (case value of None \<Rightarrow> Inr None | Some v \<Rightarrow> map_sum id Some (required_chars v max_a error))"

text \<open>\<open>to_be_bytes\<close> of a signed integer of \<open>w\<close> bytes.\<close>

definition be_bytes :: "nat \<Rightarrow> int \<Rightarrow> string" where
  "be_bytes w x = map (\<lambda>k. char_of (nat (x div 256 ^ k mod 256))) (rev [0 ..< w])"

definition unwrap_or_default :: "string option \<Rightarrow> string" where
  "unwrap_or_default v = (case v of None \<Rightarrow> '''' | Some s \<Rightarrow> s)"

definition payment_event_text ::
  "env \<Rightarrow> string \<Rightarrow> string \<Rightarrow> int \<Rightarrow> string \<Rightarrow> int \<Rightarrow> string option \<Rightarrow> string option \<Rightarrow> string \<Rightarrow> json \<Rightarrow> string" where
  "payment_event_text env provider_event_id outcome amount_minor code scale issuer payer_account environment payload =
     provider_event_id @ [CHR 0x00] @ outcome @ [CHR 0x00] @ be_bytes 8 amount_minor @ code @ be_bytes 2 scale @
     unwrap_or_default issuer @ [CHR 0x00] @ unwrap_or_default payer_account @ [CHR 0x00] @ environment @
     [CHR 0x00] @ json_to_vec env payload"

definition payment_event_hash ::
  "env \<Rightarrow> string \<Rightarrow> string \<Rightarrow> int \<Rightarrow> string \<Rightarrow> int \<Rightarrow> string option \<Rightarrow> string option \<Rightarrow> string \<Rightarrow> json \<Rightarrow> string" where
  "payment_event_hash env provider_event_id outcome amount_minor code scale issuer payer_account environment payload =
     sha256_hex env (payment_event_text env provider_event_id outcome amount_minor code scale issuer payer_account
       environment payload)"

text \<open>The payment as expected by the attempt and as reported by the provider.\<close>

record payment_terms =
  pt_amount_minor :: int
  pt_asset_code :: string
  pt_asset_scale :: int
  pt_asset_issuer :: "string option"
  pt_payer_account :: "string option"
  pt_environment :: string

definition reconcile_event :: "payment_terms \<Rightarrow> payment_terms \<Rightarrow> string option" where
  "reconcile_event expected actual =
     (if pt_amount_minor actual \<noteq> pt_amount_minor expected then Some ''amount_mismatch''
      else if pt_asset_code actual \<noteq> pt_asset_code expected \<or> pt_asset_scale actual \<noteq> pt_asset_scale expected \<or>
         pt_asset_issuer actual \<noteq> pt_asset_issuer expected then Some ''asset_mismatch''
      else if pt_environment actual \<noteq> pt_environment expected then Some ''environment_mismatch''
      else if pt_payer_account expected \<noteq> None \<and> pt_payer_account actual \<noteq> pt_payer_account expected
        then Some ''payer_mismatch''
      else None)"

section \<open>Reads\<close>

definition load_order :: "uuid \<Rightarrow> commerce_db \<Rightarrow> api_error + OrderDetailResponse" where
  "load_order order_id d =
     bind_result (ok_or (find (\<lambda>r. or_id r = order_id) (orders d)) NotFound) (\<lambda>order.
     let attempts = sort_key pa_created_at (filter (\<lambda>a. pa_order_id a = order_id) (payment_attempts d)) in
     Inr \<lparr>odr_order = order,
        odr_items = sort_key oit_created_at (filter (\<lambda>i. oit_order_id i = order_id) (order_items d)),
        odr_payment_attempts = attempts,
        odr_payment_events = sort_key ppe_created_at (filter (\<lambda>e. \<exists>a \<in> set attempts.
           pa_id a = ppe_payment_attempt_id e) (payment_provider_events d)),
        odr_refunds = sort_key rf_created_at (filter (\<lambda>r. rf_order_id r = order_id) (refunds d))\<rparr>)"

text \<open>A product with a price that is active now and its inventory, as the query joins them.\<close>

record catalogue_row =
  cg_organization_id :: uuid
  cg_name :: string
  cg_status :: string
  cg_amount_minor :: int
  cg_asset_code :: string
  cg_asset_scale :: int
  cg_asset_issuer :: "string option"
  cg_supply_limit :: "int option"
  cg_reserved_quantity :: int
  cg_fulfilled_quantity :: int

definition price_available :: "int \<Rightarrow> price_row \<Rightarrow> bool" where
  "price_available now p \<longleftrightarrow> pp_is_active p \<and> (case pp_starts_at p of None \<Rightarrow> True | Some t \<Rightarrow> t \<le> now) \<and>
     (case pp_ends_at p of None \<Rightarrow> True | Some t \<Rightarrow> t \<ge> now)"

definition catalogue_entry :: "int \<Rightarrow> uuid \<Rightarrow> uuid \<Rightarrow> commerce_db \<Rightarrow> catalogue_row option" where
  "catalogue_entry now product_id price_id d =
     (case find (\<lambda>p. pr_id p = product_id) (products d) of None \<Rightarrow> None | Some p \<Rightarrow>
      case find (\<lambda>q. pp_id q = price_id \<and> pp_product_id q = product_id \<and> price_available now q)
        (product_prices d) of None \<Rightarrow> None | Some q \<Rightarrow>
      case find (\<lambda>i. iv_product_id i = product_id) (product_inventory d) of None \<Rightarrow> None | Some i \<Rightarrow>
      Some \<lparr>cg_organization_id = pr_organization_id p, cg_name = pr_name p, cg_status = pr_status p,
        cg_amount_minor = pp_amount_minor q, cg_asset_code = pp_asset_code q, cg_asset_scale = pp_asset_scale q,
        cg_asset_issuer = pp_asset_issuer q, cg_supply_limit = iv_supply_limit i,
        cg_reserved_quantity = iv_reserved_quantity i, cg_fulfilled_quantity = iv_fulfilled_quantity i\<rparr>)"

section \<open>Orders\<close>

text \<open>The conditional update of the inventory, with the number of rows it changed. The \<open>BIGINT\<close> sums of its
  condition and of its new value raise an error when they overflow.\<close>

definition inventory_overflows :: "uuid \<Rightarrow> int \<Rightarrow> inventory_row \<Rightarrow> bool" where
  "inventory_overflows product_id quantity i \<longleftrightarrow> iv_product_id i = product_id \<and>
     ((iv_supply_limit i \<noteq> None \<and>
       (checked_i64 (iv_reserved_quantity i + iv_fulfilled_quantity i) = None \<or>
        checked_i64 (iv_reserved_quantity i + iv_fulfilled_quantity i + quantity) = None)) \<or>
      checked_i64 (iv_reserved_quantity i + quantity) = None)"

definition inventory_fits :: "uuid \<Rightarrow> int \<Rightarrow> inventory_row \<Rightarrow> bool" where
  "inventory_fits product_id quantity i \<longleftrightarrow> iv_product_id i = product_id \<and>
     (case iv_supply_limit i of None \<Rightarrow> True
      | Some limit \<Rightarrow> iv_reserved_quantity i + iv_fulfilled_quantity i + quantity \<le> limit)"

definition reserve_inventory ::
  "int \<Rightarrow> uuid \<Rightarrow> int \<Rightarrow> inventory_row list \<Rightarrow> db_error + int \<times> inventory_row list" where
  "reserve_inventory now product_id quantity rows =
     (if list_ex (inventory_overflows product_id quantity) rows then Inl Numeric_out_of_range
      else Inr (sql_count (inventory_fits product_id quantity) rows,
        sql_update (inventory_fits product_id quantity)
          (\<lambda>i. i\<lparr>iv_reserved_quantity := iv_reserved_quantity i + quantity, iv_updated_at := now\<rparr>) rows))"

definition new_order ::
  "draws \<Rightarrow> uuid \<Rightarrow> uuid \<Rightarrow> string \<Rightarrow> string \<Rightarrow> string \<Rightarrow> int \<Rightarrow> catalogue_row \<Rightarrow> OrderRecord" where
  "new_order q organization_id actor_user_id environment idempotency_key request_sha256 amount catalogue =
     \<lparr>or_id = new_uuid q 0, or_organization_id = organization_id, or_buyer_user_id = actor_user_id,
      or_status = ''awaiting_payment'', or_environment = environment, or_idempotency_key = idempotency_key,
      or_request_sha256 = request_sha256, or_amount_minor = amount, or_asset_code = cg_asset_code catalogue,
      or_asset_scale = cg_asset_scale catalogue, or_asset_issuer = cg_asset_issuer catalogue,
      or_expires_at = None, or_created_at = sql_now q, or_updated_at = sql_now q\<rparr>"

definition new_order_item ::
  "draws \<Rightarrow> CreateOrderRequest \<Rightarrow> int \<Rightarrow> catalogue_row \<Rightarrow> OrderItemRecord" where
  "new_order_item q body amount catalogue =
     \<lparr>oit_id = new_uuid q 1, oit_order_id = new_uuid q 0, oit_product_id = cor_product_id body,
      oit_product_name = cg_name catalogue, oit_quantity = cor_quantity body,
      oit_unit_amount_minor = cg_amount_minor catalogue, oit_total_amount_minor = amount,
      oit_asset_code = cg_asset_code catalogue, oit_asset_scale = cg_asset_scale catalogue,
      oit_asset_issuer = cg_asset_issuer catalogue, oit_created_at = sql_now q\<rparr>"

definition order_request_text :: "uuid \<Rightarrow> uuid \<Rightarrow> CreateOrderRequest \<Rightarrow> string \<Rightarrow> string" where
  "order_request_text actor_user_id organization_id body environment =
     ''buyer='' @ actor_user_id @ '';organization='' @ organization_id @ '';product='' @ cor_product_id body @
     '';price='' @ cor_price_id body @ '';quantity='' @ decimal (cor_quantity body) @ '';environment='' @ environment"

definition place_order ::
  "draws \<Rightarrow> uuid \<Rightarrow> uuid \<Rightarrow> CreateOrderRequest \<Rightarrow> string \<Rightarrow> string \<Rightarrow> string \<Rightarrow> commerce_db \<Rightarrow> api_error + commerce_db" where
  "place_order q organization_id actor_user_id body environment idempotency_key request_sha256 d =
     bind_result (ok_or (catalogue_entry (sql_now q) (cor_product_id body) (cor_price_id body) d)
        (InvalidRequest ''product_or_price_not_available'')) (\<lambda>catalogue.
     if cg_organization_id catalogue \<noteq> organization_id then Inl Forbidden
     else if cg_status catalogue \<noteq> ''published'' then Inl (Conflict ''product_not_published'')
     else
     bind_result (ok_or (checked_i64 (cg_amount_minor catalogue * cor_quantity body))
        (InvalidRequest ''order_amount_overflow'')) (\<lambda>amount.
     if (case cg_supply_limit catalogue of None \<Rightarrow> False
         | Some limit \<Rightarrow> i64_wrap (i64_wrap (cg_reserved_quantity catalogue + cg_fulfilled_quantity catalogue) +
             cor_quantity body) > limit)
       then Inl (Conflict ''insufficient_inventory'')
     else
     bind_result (or_db_error commerce_db_error (sql_insert order_check order_clash
        (new_order q organization_id actor_user_id environment idempotency_key request_sha256 amount catalogue)
        (orders d))) (\<lambda>order_rows.
     bind_result (or_db_error commerce_db_error (sql_insert order_item_check order_item_clash
        (new_order_item q body amount catalogue) (order_items d))) (\<lambda>item_rows.
     bind_result (or_db_error commerce_db_error (reserve_inventory (sql_now q) (cor_product_id body)
        (cor_quantity body) (product_inventory d))) (\<lambda>updated.
     if fst updated \<noteq> 1 then Inl (Conflict ''insufficient_inventory'')
     else
     commerce_audit (new_uuid q 2) organization_id actor_user_id ''order.create'' ''order'' (new_uuid q 0)
       (JObj [(''product_id'', JStr (cor_product_id body)), (''price_id'', JStr (cor_price_id body)),
          (''quantity'', JInt (cor_quantity body)), (''amount_minor'', JInt amount),
          (''asset_code'', JStr (cg_asset_code catalogue)), (''environment'', JStr environment)])
       (d\<lparr>orders := order_rows, order_items := item_rows, product_inventory := snd updated\<rparr>))))))"

definition create_order_tx ::
  "env \<Rightarrow> draws \<Rightarrow> headers \<Rightarrow> uuid \<Rightarrow> CreateOrderRequest \<Rightarrow> commerce_db \<Rightarrow> api_error + (nat \<times> uuid) \<times> commerce_db" where
  "create_order_tx env q hdrs organization_id body d =
     bind_result (require_admin_actor env hdrs) (\<lambda>actor_user_id.
     bind_result (database_pool env) (\<lambda>_.
     bind_result (require_member_editor organization_id actor_user_id d) (\<lambda>_.
     if cor_quantity body \<le> 0 then Inl (InvalidRequest ''invalid_order_quantity'')
     else
     bind_result (validate_environment (cor_environment body)) (\<lambda>environment.
     bind_result (required_chars (cor_idempotency_key body) 200 ''invalid_order_idempotency_key'') (\<lambda>idempotency_key.
     let request_sha256 = hash_text env (order_request_text actor_user_id organization_id body environment) in
     case find (\<lambda>r. or_organization_id r = organization_id \<and> or_idempotency_key r = idempotency_key) (orders d) of
       Some existing \<Rightarrow>
         if or_request_sha256 existing \<noteq> request_sha256 then Inl (Conflict ''idempotency_key_reused'')
         else Inr ((200, or_id existing), d)
     | None \<Rightarrow>
         bind_result (place_order q organization_id actor_user_id body environment idempotency_key request_sha256 d)
           (\<lambda>d. Inr ((201, new_uuid q 0), d)))))))"

definition create_order ::
  "env \<Rightarrow> draws \<Rightarrow> headers \<Rightarrow> uuid \<Rightarrow> CreateOrderRequest \<Rightarrow> commerce_db \<Rightarrow>
   (api_error + nat \<times> OrderDetailResponse) \<times> commerce_db" where
  "create_order env q hdrs organization_id body d =
     then_read (transaction (create_order_tx env q hdrs organization_id body) d)
       (\<lambda>r d. map_sum id (Pair (fst r)) (load_order (snd r) d))"

definition get_order :: "env \<Rightarrow> headers \<Rightarrow> uuid \<Rightarrow> commerce_db \<Rightarrow> api_error + OrderDetailResponse" where
  "get_order env hdrs order_id d =
     bind_result (require_admin_actor env hdrs) (\<lambda>actor_user_id.
     bind_result (database_pool env) (\<lambda>_.
     bind_result (ok_or (find (\<lambda>r. or_id r = order_id) (orders d)) NotFound) (\<lambda>order.
     bind_result (require_member_editor (or_organization_id order) actor_user_id d) (\<lambda>_. load_order order_id d))))"

section \<open>Payment attempts\<close>

definition new_attempt ::
  "draws \<Rightarrow> OrderRecord \<Rightarrow> string \<Rightarrow> string option \<Rightarrow> string option \<Rightarrow> PaymentAttemptRecord" where
  "new_attempt q order provider provider_reference payer_account =
     \<lparr>pa_id = new_uuid q 0, pa_order_id = or_id order, pa_provider = provider,
      pa_provider_reference = provider_reference, pa_payer_account = payer_account,
      pa_expected_amount_minor = or_amount_minor order, pa_asset_code = or_asset_code order,
      pa_asset_scale = or_asset_scale order, pa_asset_issuer = or_asset_issuer order,
      pa_environment = or_environment order, pa_status = ''awaiting_confirmation'', pa_failure_code = None,
      pa_confirmed_at = None, pa_created_at = sql_now q, pa_updated_at = sql_now q\<rparr>"

definition create_payment_attempt_tx ::
  "env \<Rightarrow> draws \<Rightarrow> headers \<Rightarrow> uuid \<Rightarrow> CreatePaymentAttemptRequest \<Rightarrow> commerce_db \<Rightarrow>
   api_error + PaymentAttemptRecord \<times> commerce_db" where
  "create_payment_attempt_tx env q hdrs order_id body d =
     bind_result (require_admin_actor env hdrs) (\<lambda>actor_user_id.
     bind_result (database_pool env) (\<lambda>_.
     bind_result (map_sum id to_ascii_lowercase (required_chars (cpa_provider body) 80 ''invalid_payment_provider''))
       (\<lambda>provider.
     bind_result (optional_chars (cpa_provider_reference body) 200 ''invalid_provider_reference'') (\<lambda>reference.
     bind_result (validate_optional_stellar_account (cpa_payer_account body)) (\<lambda>payer_account.
     bind_result (ok_or (find (\<lambda>r. or_id r = order_id) (orders d)) NotFound) (\<lambda>order.
     bind_result (require_member_editor (or_organization_id order) actor_user_id d) (\<lambda>_.
     if or_status order \<noteq> ''awaiting_payment'' then Inl (Conflict ''order_not_awaiting_payment'')
     else
     bind_result (or_db_error commerce_db_error (sql_insert attempt_check attempt_clash
        (new_attempt q order provider reference payer_account) (payment_attempts d))) (\<lambda>attempt_rows.
     bind_result (commerce_audit (new_uuid q 1) (or_organization_id order) actor_user_id ''payment_attempt.create''
        ''payment_attempt'' (new_uuid q 0) (JObj [(''order_id'', JStr order_id), (''provider'', JStr provider)])
        (d\<lparr>payment_attempts := attempt_rows\<rparr>)) (\<lambda>d.
     Inr (new_attempt q order provider reference payer_account, d))))))))))"

definition create_payment_attempt ::
  "env \<Rightarrow> draws \<Rightarrow> headers \<Rightarrow> uuid \<Rightarrow> CreatePaymentAttemptRequest \<Rightarrow> commerce_db \<Rightarrow>
   (api_error + nat \<times> PaymentAttemptRecord) \<times> commerce_db" where
  "create_payment_attempt env q hdrs order_id body d =
     then_read (transaction (create_payment_attempt_tx env q hdrs order_id body) d) (\<lambda>attempt d. Inr (201, attempt))"

section \<open>Payment events\<close>

definition attempt_terms :: "PaymentAttemptRecord \<Rightarrow> payment_terms" where
  "attempt_terms a = \<lparr>pt_amount_minor = pa_expected_amount_minor a, pt_asset_code = pa_asset_code a,
     pt_asset_scale = pa_asset_scale a, pt_asset_issuer = pa_asset_issuer a,
     pt_payer_account = pa_payer_account a, pt_environment = pa_environment a\<rparr>"

definition new_event ::
  "draws \<Rightarrow> PaymentAttemptRecord \<Rightarrow> string \<Rightarrow> string \<Rightarrow> string \<Rightarrow> payment_terms \<Rightarrow> string option \<Rightarrow>
   PaymentProviderEventRecord" where
  "new_event q attempt provider_event_id payload_sha256 outcome actual reconciliation_error =
     \<lparr>ppe_id = new_uuid q 0, ppe_payment_attempt_id = pa_id attempt, ppe_provider = pa_provider attempt,
      ppe_provider_event_id = provider_event_id, ppe_payload_sha256 = payload_sha256,
      ppe_signature_verified = True, ppe_outcome = outcome, ppe_amount_minor = pt_amount_minor actual,
      ppe_asset_code = pt_asset_code actual, ppe_asset_scale = pt_asset_scale actual,
      ppe_asset_issuer = pt_asset_issuer actual, ppe_payer_account = pt_payer_account actual,
      ppe_environment = pt_environment actual,
      ppe_processing_status = (if reconciliation_error \<noteq> None then ''rejected'' else ''processed''),
      ppe_reconciliation_error = reconciliation_error, ppe_processed_at = sql_now q, ppe_created_at = sql_now q\<rparr>"

text \<open>A reconciled event settles the attempt, and a confirmed one the order.\<close>

definition apply_event :: "draws \<Rightarrow> PaymentAttemptRecord \<Rightarrow> string \<Rightarrow> commerce_db \<Rightarrow> commerce_db" where
  "apply_event q attempt outcome d =
     (if outcome = ''confirmed'' then
        d\<lparr>payment_attempts := sql_update (\<lambda>a. pa_id a = pa_id attempt)
            (\<lambda>a. a\<lparr>pa_status := ''confirmed'', pa_confirmed_at := Some (sql_now q), pa_failure_code := None,
                   pa_updated_at := sql_now q\<rparr>) (payment_attempts d),
          orders := sql_update (\<lambda>r. or_id r = pa_order_id attempt \<and> or_status r = ''awaiting_payment'')
            (\<lambda>r. r\<lparr>or_status := ''paid'', or_updated_at := sql_now q\<rparr>) (orders d)\<rparr>
      else
        d\<lparr>payment_attempts := sql_update (\<lambda>a. pa_id a = pa_id attempt)
            (\<lambda>a. a\<lparr>pa_status := ''failed'', pa_failure_code := Some ''provider_failed'',
                   pa_updated_at := sql_now q\<rparr>) (payment_attempts d)\<rparr>)"

definition write_event ::
  "draws \<Rightarrow> uuid \<Rightarrow> uuid \<Rightarrow> PaymentAttemptRecord \<Rightarrow> string \<Rightarrow> string \<Rightarrow> string \<Rightarrow> payment_terms \<Rightarrow> commerce_db \<Rightarrow>
   api_error + PaymentProviderEventRecord \<times> commerce_db" where
  "write_event q organization_id actor_user_id attempt provider_event_id payload_sha256 outcome actual d =
     (let reconciliation_error = reconcile_event (attempt_terms attempt) actual;
          event = new_event q attempt provider_event_id payload_sha256 outcome actual reconciliation_error in
      bind_result (or_db_error commerce_db_error (sql_insert event_check event_clash event
         (payment_provider_events d))) (\<lambda>event_rows.
      let d = d\<lparr>payment_provider_events := event_rows\<rparr>;
          d = (if reconciliation_error = None then apply_event q attempt outcome d else d) in
      bind_result (commerce_audit (new_uuid q 1) organization_id actor_user_id ''payment_provider_event.record''
         ''payment_provider_event'' (new_uuid q 0)
         (JObj [(''payment_attempt_id'', JStr (pa_id attempt)), (''order_id'', JStr (pa_order_id attempt)),
            (''provider_event_id'', JStr provider_event_id),
            (''processing_status'', JStr (ppe_processing_status event)),
            (''reconciliation_error'', str_or_null reconciliation_error)]) d) (\<lambda>d.
      Inr (event, d))))"

definition record_payment_event_tx ::
  "env \<Rightarrow> draws \<Rightarrow> headers \<Rightarrow> uuid \<Rightarrow> RecordPaymentEventRequest \<Rightarrow> commerce_db \<Rightarrow>
   api_error + (nat \<times> PaymentProviderEventRecord) \<times> commerce_db" where
  "record_payment_event_tx env q hdrs payment_attempt_id body d =
     bind_result (require_admin_actor env hdrs) (\<lambda>actor_user_id.
     if \<not> rpe_signature_verified body then Inl Unauthorized
     else if rpe_amount_minor body \<le> 0 \<or> \<not> (0 \<le> rpe_asset_scale body \<and> rpe_asset_scale body \<le> 7)
       then Inl (InvalidRequest ''invalid_payment_event_amount'')
     else
     bind_result (database_pool env) (\<lambda>_.
     bind_result (required_chars (rpe_provider_event_id body) 200 ''invalid_provider_event_id'') (\<lambda>provider_event_id.
     bind_result (validate_payment_outcome (rpe_outcome body)) (\<lambda>outcome.
     bind_result (validate_environment (rpe_environment body)) (\<lambda>environment.
     bind_result (asset_code_text (rpe_asset_code body)) (\<lambda>code.
     bind_result (validate_asset_issuer code (rpe_asset_issuer body)) (\<lambda>issuer.
     bind_result (validate_optional_stellar_account (rpe_payer_account body)) (\<lambda>payer_account.
     let payload_sha256 = payment_event_hash env provider_event_id outcome (rpe_amount_minor body) code
           (rpe_asset_scale body) issuer payer_account environment (rpe_payload body);
         actual = \<lparr>pt_amount_minor = rpe_amount_minor body, pt_asset_code = code,
           pt_asset_scale = rpe_asset_scale body, pt_asset_issuer = issuer, pt_payer_account = payer_account,
           pt_environment = environment\<rparr> in
     bind_result (ok_or (find (\<lambda>a. pa_id a = payment_attempt_id) (payment_attempts d)) NotFound) (\<lambda>attempt.
     bind_result (ok_or (find (\<lambda>r. or_id r = pa_order_id attempt) (orders d)) NotFound) (\<lambda>order.
     bind_result (require_member_editor (or_organization_id order) actor_user_id d) (\<lambda>_.
     case find (\<lambda>e. ppe_provider e = pa_provider attempt \<and> ppe_provider_event_id e = provider_event_id)
       (payment_provider_events d) of
       Some existing \<Rightarrow>
         if ppe_payment_attempt_id existing \<noteq> payment_attempt_id \<or> ppe_payload_sha256 existing \<noteq> payload_sha256
         then Inl (Conflict ''provider_event_reused'') else Inr ((200, existing), d)
     | None \<Rightarrow>
         if \<not> attempt_active attempt then Inl (Conflict ''payment_attempt_not_active'')
         else
         bind_result (write_event q (or_organization_id order) actor_user_id attempt provider_event_id
            payload_sha256 outcome actual d) (\<lambda>r.
         Inr ((if ppe_processing_status (fst r) = ''processed'' then 201 else 409, fst r), snd r)))))))))))))"

definition record_payment_event ::
  "env \<Rightarrow> draws \<Rightarrow> headers \<Rightarrow> uuid \<Rightarrow> RecordPaymentEventRequest \<Rightarrow> commerce_db \<Rightarrow>
   (api_error + nat \<times> PaymentProviderEventRecord) \<times> commerce_db" where
  "record_payment_event env q hdrs payment_attempt_id body d =
     transaction (record_payment_event_tx env q hdrs payment_attempt_id body) d"

end
