(* ===== verification/Order_Props.thy ===== *)
theory Order_Props
  imports Orders Payout_Demo
begin

text \<open>
  What buyers and sellers may rely on: an order costs exactly price times quantity and reserves stock that is
  there, and it becomes paid only by a verified provider event that agrees with the attempt in every term.
\<close>

section \<open>What the requests do\<close>

lemma reserve_inventory_one:
  assumes "reserve_inventory now p n rows = Inr (1, rows')"
  obtains i where "i \<in> set rows" "inventory_fits p n i" "rows' = sql_update (inventory_fits p n)
     (\<lambda>i. i\<lparr>iv_reserved_quantity := iv_reserved_quantity i + n, iv_updated_at := now\<rparr>) rows"
proof -
  have "filter (inventory_fits p n) rows \<noteq> []" using assms
    by (auto simp: reserve_inventory_def sql_count_def split: if_splits)
  then obtain i where "i \<in> set rows" "inventory_fits p n i" by (auto simp: filter_empty_conv)
  with assms that show ?thesis by (auto simp: reserve_inventory_def split: if_splits)
qed

lemma create_order_txE:
  assumes "create_order_tx env q hdrs org body d = Inr (x, d')"
  obtains (existing) r where "r \<in> set (orders d)" "x = (200, or_id r)" "d' = d"
  | (new) actor environment key sha cat amount i al where
      "catalogue_entry (sql_now q) (cor_product_id body) (cor_price_id body) d = Some cat"
      "cg_organization_id cat = org" "cg_status cat = ''published''" "0 < cor_quantity body"
      "checked_i64 (cg_amount_minor cat * cor_quantity body) = Some amount"
      "sql_insert order_check order_clash (new_order q org actor environment key sha amount cat) (orders d)
         = Inr (orders d @ [new_order q org actor environment key sha amount cat])"
      "i \<in> set (product_inventory d)" "inventory_fits (cor_product_id body) (cor_quantity body) i"
      "x = (201, new_uuid q 0)"
      "d' = d\<lparr>orders := orders d @ [new_order q org actor environment key sha amount cat],
         order_items := order_items d @ [new_order_item q body amount cat],
         product_inventory := sql_update (inventory_fits (cor_product_id body) (cor_quantity body))
           (\<lambda>i. i\<lparr>iv_reserved_quantity := iv_reserved_quantity i + cor_quantity body, iv_updated_at := sql_now q\<rparr>)
           (product_inventory d),
         audit_logs := al\<rparr>"
proof -
  from assms obtain actor environment key where qty: "\<not> cor_quantity body \<le> 0" and
    rest: "(case find (\<lambda>r. or_organization_id r = org \<and> or_idempotency_key r = key) (orders d) of
       Some existing \<Rightarrow>
         if or_request_sha256 existing \<noteq> hash_text env (order_request_text actor org body environment)
         then Inl (Conflict ''idempotency_key_reused'')
         else Inr ((200, or_id existing), d)
     | None \<Rightarrow>
         bind_result (place_order q org actor body environment key
            (hash_text env (order_request_text actor org body environment)) d)
           (\<lambda>d. Inr ((201, new_uuid q 0), d))) = Inr (x, d')"
    unfolding create_order_tx_def Let_def by (elim bind_InrE if_InrE) (rule that, assumption+)
  let ?sha = "hash_text env (order_request_text actor org body environment)"
  show ?thesis
  proof (cases "find (\<lambda>r. or_organization_id r = org \<and> or_idempotency_key r = key) (orders d)")
    case (Some r)
    then show ?thesis using rest by (intro existing [of r]) (auto dest: find_Some_in split: if_splits)
  next
    case None
    with rest obtain d1 where place: "place_order q org actor body environment key ?sha d = Inr d1"
      and fin: "x = (201, new_uuid q 0)" "d' = d1" by (auto simp: bind_result_Inr)
    from place obtain cat amount rows items up where
      cat: "ok_or (catalogue_entry (sql_now q) (cor_product_id body) (cor_price_id body) d)
        (InvalidRequest ''product_or_price_not_available'') = Inr cat"
      and own: "\<not> cg_organization_id cat \<noteq> org" and pub: "\<not> cg_status cat \<noteq> ''published''"
      and amount: "ok_or (checked_i64 (cg_amount_minor cat * cor_quantity body)) (InvalidRequest ''order_amount_overflow'') = Inr amount"
      and ins: "or_db_error commerce_db_error (sql_insert order_check order_clash
         (new_order q org actor environment key ?sha amount cat) (orders d)) = Inr rows"
      and item: "or_db_error commerce_db_error (sql_insert order_item_check order_item_clash
         (new_order_item q body amount cat) (order_items d)) = Inr items"
      and up: "or_db_error commerce_db_error (reserve_inventory (sql_now q) (cor_product_id body)
         (cor_quantity body) (product_inventory d)) = Inr up" "\<not> fst up \<noteq> 1"
      and aud: "commerce_audit (new_uuid q 2) org actor ''order.create'' ''order'' (new_uuid q 0)
       (JObj [(''product_id'', JStr (cor_product_id body)), (''price_id'', JStr (cor_price_id body)),
          (''quantity'', JInt (cor_quantity body)), (''amount_minor'', JInt amount),
          (''asset_code'', JStr (cg_asset_code cat)), (''environment'', JStr environment)])
       (d\<lparr>orders := rows, order_items := items, product_inventory := snd up\<rparr>) = Inr d1"
      unfolding place_order_def by (elim bind_InrE if_InrE) (rule that, assumption+)
    have "reserve_inventory (sql_now q) (cor_product_id body) (cor_quantity body) (product_inventory d) = Inr (1, snd up)"
      using up by (cases up) (simp add: or_db_error_Inr)
    then obtain i where i: "i \<in> set (product_inventory d)" "inventory_fits (cor_product_id body) (cor_quantity body) i"
      and su: "snd up = sql_update (inventory_fits (cor_product_id body) (cor_quantity body))
         (\<lambda>i. i\<lparr>iv_reserved_quantity := iv_reserved_quantity i + cor_quantity body, iv_updated_at := sql_now q\<rparr>) (product_inventory d)"
      by (rule reserve_inventory_one)
    have rows: "sql_insert order_check order_clash (new_order q org actor environment key ?sha amount cat) (orders d)
         = Inr (orders d @ [new_order q org actor environment key ?sha amount cat])" "rows = orders d @ [new_order q org actor environment key ?sha amount cat]"
      using ins by (simp_all add: or_db_error_Inr sql_insert_Inr)
    have items: "items = order_items d @ [new_order_item q body amount cat]" using item by (simp add: or_db_error_Inr sql_insert_Inr)
    from aud obtain al where d1: "d1 = d\<lparr>orders := rows, order_items := items, product_inventory := snd up, audit_logs := al\<rparr>"
      by (auto simp: commerce_audit_Inr)
    show ?thesis
      by (rule new [OF _ _ _ _ _ rows(1) i fin(1)])
        (use cat own pub qty amount in \<open>simp_all add: ok_or_Inr fin(2) d1 rows(2) items su\<close>)
  qed
qed


section \<open>Properties\<close>

lemma map_sum_id_Inr: "map_sum id f m = Inr y \<longleftrightarrow> (\<exists>x. m = Inr x \<and> y = f x)"
  by (cases m) auto

section \<open>A concrete order\<close>

definition stock_row :: "int \<Rightarrow> inventory_row" where
  "stock_row n = \<lparr>iv_product_id = ''p'', iv_supply_limit = Some 5, iv_reserved_quantity = n, iv_fulfilled_quantity = 1,
     iv_updated_at = 5\<rparr>"

definition stock0 :: commerce_db where
  "stock0 = split0\<lparr>orders := [], order_items := [], product_inventory := [stock_row 1],
     product_prices := [\<lparr>pp_id = ''c'', pp_product_id = ''p'', pp_amount_minor = 500, pp_asset_code = ''XLM'',
       pp_asset_scale = 7, pp_asset_issuer = None, pp_is_active = True, pp_starts_at = None, pp_ends_at = None,
       pp_created_at = 0\<rparr>]\<rparr>"

definition stock_order :: "string \<Rightarrow> OrderRecord" where
  "stock_order st = \<lparr>or_id = ''g'', or_organization_id = ''o'', or_buyer_user_id = ''m'', or_status = st,
     or_environment = ''testnet'', or_idempotency_key = ''f'', or_request_sha256 = flat_hash,
     or_amount_minor = 1000, or_asset_code = ''XLM'', or_asset_scale = 7, or_asset_issuer = None,
     or_expires_at = None, or_created_at = 5, or_updated_at = 5\<rparr>"

definition stock_item :: OrderItemRecord where
  "stock_item = \<lparr>oit_id = ''gx'', oit_order_id = ''g'', oit_product_id = ''p'', oit_product_name = ''Card'',
     oit_quantity = 2, oit_unit_amount_minor = 500, oit_total_amount_minor = 1000, oit_asset_code = ''XLM'',
     oit_asset_scale = 7, oit_asset_issuer = None, oit_created_at = 5\<rparr>"

definition stock1 :: commerce_db where
  "stock1 = stock0\<lparr>orders := [stock_order ''awaiting_payment''], order_items := [stock_item],
     product_inventory := [stock_row 3], audit_logs := [split_audit ''gxx'' ''m'' ''order.create'' ''order'' ''g''
       (JObj [(''product_id'', JStr ''p''), (''price_id'', JStr ''c''), (''quantity'', JInt 2), (''amount_minor'', JInt 1000),
          (''asset_code'', JStr ''XLM''), (''environment'', JStr ''testnet'')])]\<rparr>"

definition stock_request :: CreateOrderRequest where
  "stock_request = \<lparr>cor_product_id = ''p'', cor_price_id = ''c'', cor_quantity = 2, cor_environment = ''testnet'',
     cor_idempotency_key = ''f''\<rparr>"

lemma trim_order [simp]: "trim ''testnet'' = ''testnet''" "trim ''confirmed'' = ''confirmed''"
  by (rule trim_plain; simp add: starts_with_one_def white_space_def)+

lemma testnet_valid [simp]: "validate_environment ''testnet'' = Inr ''testnet''"
  by (simp add: validate_environment_def environments_def to_ascii_lowercase_def ascii_lowercase_char_def byte_in_def)

lemma key_valid [simp]: "required_chars ''f'' n e = (if n = 0 then Inl (InvalidRequest e) else Inr ''f'')"
  by (simp add: required_chars_def char_length_def byte_in_def)

lemma xlm_check [simp]: "asset_check ''XLM'' 7 None"
  by (simp add: asset_check_def is_ascii_uppercase_def byte_in_def)

lemma key_check [simp]: "text_between (Suc 0) 200 ''f''"
  by (simp add: text_between_def btrim_def char_length_def byte_in_def)

lemma stock_placed: "create_order flat_env (dq ''g'') admin_headers ''o'' stock_request stock0
    = (Inr (201, \<lparr>odr_order = stock_order ''awaiting_payment'', odr_items = [stock_item], odr_payment_attempts = [],
         odr_payment_events = [], odr_refunds = []\<rparr>), stock1)"
proof -
  have cat: "catalogue_entry 5 ''p'' ''c'' stock0 = Some \<lparr>cg_organization_id = ''o'', cg_name = ''Card'',
      cg_status = ''published'', cg_amount_minor = 500, cg_asset_code = ''XLM'', cg_asset_scale = 7, cg_asset_issuer = None,
      cg_supply_limit = Some 5, cg_reserved_quantity = 1, cg_fulfilled_quantity = 1\<rparr>"
    by (simp add: catalogue_entry_def price_available_def stock0_def split0_def stock_row_def)
  have res: "reserve_inventory 5 ''p'' 2 [stock_row 1] = Inr (1, [stock_row 3])"
    by (simp add: reserve_inventory_def inventory_overflows_def inventory_fits_def stock_row_def checked_i64_def
        i64_min_def i64_max_def sql_count_def sql_update_def)
  have ok: "order_check (stock_order ''awaiting_payment'')" "order_item_check stock_item"
    by (simp_all add: order_check_def order_item_check_def stock_order_def stock_item_def environments_def)
  have sel: "orders stock0 = []" "order_items stock0 = []" "product_inventory stock0 = [stock_row 1]" "audit_logs stock0 = []"
    "organization_members stock0 = organization_members split0" by (simp_all add: stock0_def split0_def)
  have tx: "create_order_tx flat_env (dq ''g'') admin_headers ''o'' stock_request stock0 = Inr ((201, ''g''), stock1)"
    using cat res ok
    by (simp add: sel create_order_tx_def place_order_def stock_request_def split_env_defs checked_i64_def
      i64_min_def i64_max_def i64_wrap_def Let_def new_order_def new_order_item_def stock_order_def stock_item_def sql_insert_def
      commerce_audit_def insert_audit_def audit_clash_def stock1_def split_audit_def hash_text_def)
       (simp add: split0_def)
  show ?thesis
    by (simp add: create_order_def then_read_def transaction_def tx load_order_def)
      (simp add: stock1_def stock0_def split0_def stock_order_def stock_item_def)
qed







text \<open>C32: A new order (201) costs exactly the price of a published, currently priced product of the organization times
  a positive quantity, without overflow, waits for payment, and reserves exactly that quantity of the product's
  stock, which was there: reserved and fulfilled stay within the supply limit.\<close>

theorem order_reserves_stock:
  assumes "create_order env q hdrs org body d = (Inr (201, r), d')" "distinct (map iv_product_id (product_inventory d))"
  shows "\<exists>cat i. catalogue_entry (sql_now q) (cor_product_id body) (cor_price_id body) d = Some cat \<and>
    cg_status cat = ''published'' \<and> cg_organization_id cat = org \<and> 0 < cor_quantity body \<and>
    or_amount_minor (odr_order r) = cg_amount_minor cat * cor_quantity body \<and>
    or_amount_minor (odr_order r) \<le> i64_max \<and> or_status (odr_order r) = ''awaiting_payment'' \<and>
    or_id (odr_order r) \<notin> or_id ` set (orders d) \<and> orders d' = orders d @ [odr_order r] \<and>
    i \<in> set (product_inventory d) \<and> iv_product_id i = cor_product_id body \<and>
    (case iv_supply_limit i of None \<Rightarrow> True
     | Some limit \<Rightarrow> iv_reserved_quantity i + iv_fulfilled_quantity i + cor_quantity body \<le> limit) \<and>
    product_inventory d' = sql_update (\<lambda>j. j = i) (\<lambda>j. j\<lparr>iv_reserved_quantity :=
      iv_reserved_quantity j + cor_quantity body, iv_updated_at := sql_now q\<rparr>) (product_inventory d)"
proof -
  from assms(1) obtain oid where tx: "create_order_tx env q hdrs org body d = Inr ((201, oid), d')"
    and ld: "load_order oid d' = Inr r"
    by (cases rule: transaction_cases [of "create_order_tx env q hdrs org body" d])
      (auto simp: create_order_def then_read_def result_simps map_sum_id_Inr)
  from tx show ?thesis
  proof (cases rule: create_order_txE)
    case (existing x)
    then show ?thesis by simp
  next
    case (new actor environment key sha cat amount i al)
    let ?o = "new_order q org actor environment key sha amount cat"
    have id: "or_id ?o = new_uuid q 0" by (simp add: new_order_def)
    have "odr_order r = ?o"
      using ld order_ids.find_inserted [OF new(6)] new(9) by (auto simp: load_order_def result_simps new(10) id Let_def)
    moreover have "or_id ?o \<notin> or_id ` set (orders d)" by (rule order_ids.insert_new [OF new(6)])
    moreover have "j = i" if "j \<in> set (product_inventory d)" "iv_product_id j = cor_product_id body" for j
      using that assms(2) new(7,8) inj_onD [of iv_product_id "set (product_inventory d)" j i]
      by (simp add: inventory_fits_def distinct_map)
    then have fit: "inventory_fits (cor_product_id body) (cor_quantity body) j \<longleftrightarrow> j = i"
      if "j \<in> set (product_inventory d)" for j using that new(8) by (auto simp: inventory_fits_def)
    have "product_inventory d' = sql_update (\<lambda>j. j = i) (\<lambda>j. j\<lparr>iv_reserved_quantity :=
      iv_reserved_quantity j + cor_quantity body, iv_updated_at := sql_now q\<rparr>) (product_inventory d)"
      using fit unfolding new(10) sql_update_def by simp
    moreover have "amount = cg_amount_minor cat * cor_quantity body \<and> amount \<le> i64_max"
      using new(5) by (simp add: checked_i64_def split: if_splits)
    ultimately show ?thesis
      using new(1-4,7,8) by (intro exI [of _ cat] exI [of _ i]) (simp add: new(10) new_order_def inventory_fits_def)
  qed
qed

theorem order_reserves_stock_witness:
  "\<exists>i \<in> set (product_inventory stock0). iv_supply_limit i = Some 5 \<and> iv_reserved_quantity i + iv_fulfilled_quantity i + 2 \<le> 5"
proof -
  have "distinct (map iv_product_id (product_inventory stock0))" by (simp add: stock0_def)
  from order_reserves_stock [OF stock_placed this] show ?thesis
    by (auto simp: stock_request_def stock0_def stock_row_def)
qed



end
