(* ===== verification/Ticket_Data.thy ===== *)
theory Ticket_Data
  imports Orders
begin

text \<open>
  The ticket tables (migrations \<open>202607170002\<close>, \<open>202607170005\<close> and \<open>202607170008\<close>) with their constraints, the
  catalogue rows that a ticket product adds (migration \<open>202607140002\<close>), and the row types of \<open>ticketing.rs\<close>,
  \<open>ticket_operations.rs\<close> and \<open>ticket_transfers.rs\<close>. Instants are in microseconds.
\<close>

section \<open>Rows\<close>

record TicketEventRecord =
  tev_id :: uuid
  tev_organization_id :: uuid
  tev_pageant_id :: uuid
  tev_slug :: string
  tev_title :: string
  tev_description :: "string option"
  tev_venue_name :: "string option"
  tev_starts_at :: int
  tev_ends_at :: "int option"
  tev_status :: string
  tev_default_transfer_policy :: string
  tev_created_by_user_id :: uuid
  tev_created_at :: int
  tev_updated_at :: int

record ticket_product_row =
  tpd_id :: uuid
  tpd_ticket_event_id :: uuid
  tpd_product_id :: uuid
  tpd_tier_name :: string
  tpd_per_user_limit :: int
  tpd_sale_starts_at :: int
  tpd_sale_ends_at :: int
  tpd_transfer_policy :: string
  tpd_resale_price_cap_minor :: "int option"

record ticket_reservation_row =
  trs_id :: uuid
  trs_organization_id :: uuid
  trs_ticket_product_id :: uuid
  trs_order_id :: uuid
  trs_buyer_user_id :: uuid
  trs_quantity :: int
  trs_status :: string
  trs_idempotency_key :: string
  trs_request_sha256 :: string
  trs_expires_at :: int
  trs_converted_at :: "int option"
  trs_released_at :: "int option"
  trs_created_at :: int
  trs_updated_at :: int

record TicketIssuanceRecord =
  tis_id :: uuid
  tis_organization_id :: uuid
  tis_ticket_event_id :: uuid
  tis_ticket_product_id :: uuid
  tis_order_id :: uuid
  tis_owner_user_id :: uuid
  tis_owner_stellar_account_id :: uuid
  tis_serial_number :: int
  tis_status :: string
  tis_token_id :: "string option"
  tis_issuance_tx_hash :: "string option"
  tis_accepted_evidence_id :: "uuid option"
  tis_issued_at :: "int option"
  tis_created_at :: int
  tis_updated_at :: int

record ticket_check_in_row =
  tci_id :: uuid
  tci_ticket_issuance_id :: uuid
  tci_ticket_event_id :: uuid
  tci_checked_in_by_user_id :: uuid
  tci_check_in_nonce_hash :: string
  tci_device_reference :: "string option"
  tci_checked_in_at :: int
  tci_metadata :: json

record ownership_evidence_row =
  toe_id :: uuid
  toe_organization_id :: uuid
  toe_ticket_issuance_id :: uuid
  toe_owner_stellar_account_id :: uuid
  toe_token_id :: string
  toe_transaction_hash :: string
  toe_ledger_sequence :: int
  toe_contract_event_id :: string
  toe_evidence_json :: json
  toe_accepted_at :: int
  toe_event_kind :: string

record TransferRecord =
  ttr_id :: uuid
  ttr_organization_id :: uuid
  ttr_ticket_issuance_id :: uuid
  ttr_token_id :: string
  ttr_from_user_id :: uuid
  ttr_from_stellar_account_id :: uuid
  ttr_to_user_id :: uuid
  ttr_to_stellar_account_id :: uuid
  ttr_policy :: string
  ttr_status :: string
  ttr_idempotency_key :: string
  ttr_request_sha256 :: string
  ttr_reason :: string
  ttr_reviewed_by_user_id :: "uuid option"
  ttr_review_reason :: "string option"
  ttr_submitted_tx_hash :: "string option"
  ttr_accepted_evidence_id :: "uuid option"
  ttr_reviewed_at :: "int option"
  ttr_submitted_at :: "int option"
  ttr_confirmed_at :: "int option"
  ttr_created_at :: int
  ttr_updated_at :: int

record ticket_db = commerce_db +
  ticket_events :: "TicketEventRecord list"
  ticket_products :: "ticket_product_row list"
  ticket_reservations :: "ticket_reservation_row list"
  ticket_issuances :: "TicketIssuanceRecord list"
  ticket_check_ins :: "ticket_check_in_row list"
  ticket_ownership_evidence :: "ownership_evidence_row list"
  ticket_transfer_requests :: "TransferRecord list"

section \<open>Constraints\<close>

definition product_check :: "product_row \<Rightarrow> bool" where
  "product_check p \<longleftrightarrow> List.member [''collectible'', ''ticket'', ''merchandise'', ''donation''] (pr_kind p) \<and>
     text_between 1 200 (pr_name p) \<and> slug_text (pr_slug p) \<and>
     List.member [''draft'', ''published'', ''archived''] (pr_status p) \<and>
     (pr_pageant_contestant_id p = None \<or> pr_pageant_id p \<noteq> None)"

definition product_clash :: "product_row \<Rightarrow> product_row \<Rightarrow> bool" where
  "product_clash a b \<longleftrightarrow> pr_id a = pr_id b \<or>
     (pr_organization_id a = pr_organization_id b \<and> pr_slug a = pr_slug b)"

definition price_check :: "price_row \<Rightarrow> bool" where
  "price_check p \<longleftrightarrow> 0 < pp_amount_minor p \<and> asset_check (pp_asset_code p) (pp_asset_scale p) (pp_asset_issuer p) \<and>
     (case (pp_starts_at p, pp_ends_at p) of (Some s, Some e) \<Rightarrow> s \<le> e | _ \<Rightarrow> True)"

definition price_clash :: "price_row \<Rightarrow> price_row \<Rightarrow> bool" where
  "price_clash a b \<longleftrightarrow> pp_id a = pp_id b \<or>
     (pp_is_active a \<and> pp_is_active b \<and> pp_product_id a = pp_product_id b \<and> pp_asset_code a = pp_asset_code b \<and>
      unwrap_or_default (pp_asset_issuer a) = unwrap_or_default (pp_asset_issuer b))"

definition inventory_check :: "inventory_row \<Rightarrow> bool" where
  "inventory_check i \<longleftrightarrow> 0 \<le> iv_reserved_quantity i \<and> 0 \<le> iv_fulfilled_quantity i \<and>
     (case iv_supply_limit i of None \<Rightarrow> True
      | Some limit \<Rightarrow> 0 < limit \<and> iv_reserved_quantity i + iv_fulfilled_quantity i \<le> limit)"

definition inventory_clash :: "inventory_row \<Rightarrow> inventory_row \<Rightarrow> bool" where
  "inventory_clash a b \<longleftrightarrow> iv_product_id a = iv_product_id b"

definition transfer_policies :: "string list" where
  "transfer_policies = [''non_transferable'', ''organizer_approved'', ''open'']"

definition ticket_event_check :: "TicketEventRecord \<Rightarrow> bool" where
  "ticket_event_check e \<longleftrightarrow> slug_text (tev_slug e) \<and> text_between 1 200 (tev_title e) \<and>
     List.member [''draft'', ''on_sale'', ''off_sale'', ''completed'', ''cancelled'', ''archived''] (tev_status e) \<and>
     List.member transfer_policies (tev_default_transfer_policy e) \<and>
     (case tev_ends_at e of None \<Rightarrow> True | Some t \<Rightarrow> tev_starts_at e \<le> t)"

definition ticket_event_clash :: "TicketEventRecord \<Rightarrow> TicketEventRecord \<Rightarrow> bool" where
  "ticket_event_clash a b \<longleftrightarrow> tev_id a = tev_id b \<or>
     (tev_pageant_id a = tev_pageant_id b \<and> tev_slug a = tev_slug b)"

definition ticket_product_check :: "ticket_product_row \<Rightarrow> bool" where
  "ticket_product_check p \<longleftrightarrow> text_between 1 120 (tpd_tier_name p) \<and>
     1 \<le> tpd_per_user_limit p \<and> tpd_per_user_limit p \<le> 20 \<and> List.member transfer_policies (tpd_transfer_policy p) \<and>
     (case tpd_resale_price_cap_minor p of None \<Rightarrow> True | Some cap \<Rightarrow> 0 < cap) \<and>
     tpd_sale_starts_at p < tpd_sale_ends_at p"

definition ticket_product_clash :: "ticket_product_row \<Rightarrow> ticket_product_row \<Rightarrow> bool" where
  "ticket_product_clash a b \<longleftrightarrow> tpd_id a = tpd_id b \<or> tpd_product_id a = tpd_product_id b"

definition reservation_check :: "ticket_reservation_row \<Rightarrow> bool" where
  "reservation_check r \<longleftrightarrow> 0 < trs_quantity r \<and>
     List.member [''reserved'', ''converted'', ''released'', ''expired'', ''cancelled''] (trs_status r) \<and>
     text_between 1 200 (trs_idempotency_key r) \<and> is_sha256_text (trs_request_sha256 r) \<and>
     trs_created_at r < trs_expires_at r"

definition reservation_clash :: "ticket_reservation_row \<Rightarrow> ticket_reservation_row \<Rightarrow> bool" where
  "reservation_clash a b \<longleftrightarrow> trs_id a = trs_id b \<or> trs_order_id a = trs_order_id b \<or>
     (trs_organization_id a = trs_organization_id b \<and> trs_buyer_user_id a = trs_buyer_user_id b \<and>
      trs_idempotency_key a = trs_idempotency_key b)"

definition issuance_check :: "TicketIssuanceRecord \<Rightarrow> bool" where
  "issuance_check t \<longleftrightarrow> 0 < tis_serial_number t \<and>
     List.member [''pending'', ''submitted'', ''issued'', ''transferred'', ''revoked'', ''failed''] (tis_status t) \<and>
     sha256_or_null (tis_issuance_tx_hash t)"

definition issuance_clash :: "TicketIssuanceRecord \<Rightarrow> TicketIssuanceRecord \<Rightarrow> bool" where
  "issuance_clash a b \<longleftrightarrow> tis_id a = tis_id b \<or>
     (tis_ticket_event_id a = tis_ticket_event_id b \<and> tis_serial_number a = tis_serial_number b) \<or>
     (tis_token_id a \<noteq> None \<and> tis_token_id a = tis_token_id b) \<or>
     (tis_issuance_tx_hash a \<noteq> None \<and> tis_issuance_tx_hash a = tis_issuance_tx_hash b)"

definition check_in_check :: "ticket_check_in_row \<Rightarrow> bool" where
  "check_in_check c \<longleftrightarrow> is_sha256_text (tci_check_in_nonce_hash c) \<and> is_object (tci_metadata c)"

definition check_in_clash :: "ticket_check_in_row \<Rightarrow> ticket_check_in_row \<Rightarrow> bool" where
  "check_in_clash a b \<longleftrightarrow> tci_id a = tci_id b \<or> tci_ticket_issuance_id a = tci_ticket_issuance_id b \<or>
     tci_check_in_nonce_hash a = tci_check_in_nonce_hash b"

text \<open>Migration \<open>0008\<close> dropped the unique constraints on the issuance, the token and the transaction hash.\<close>

definition ownership_check :: "ownership_evidence_row \<Rightarrow> bool" where
  "ownership_check e \<longleftrightarrow> text_between 1 240 (toe_token_id e) \<and> is_sha256_text (toe_transaction_hash e) \<and>
     0 < toe_ledger_sequence e \<and> text_between 1 240 (toe_contract_event_id e) \<and> is_object (toe_evidence_json e) \<and>
     List.member [''mint'', ''transfer''] (toe_event_kind e)"

definition ownership_clash :: "ownership_evidence_row \<Rightarrow> ownership_evidence_row \<Rightarrow> bool" where
  "ownership_clash a b \<longleftrightarrow> toe_id a = toe_id b \<or> toe_contract_event_id a = toe_contract_event_id b"

definition transfer_active :: "TransferRecord \<Rightarrow> bool" where
  "transfer_active t \<longleftrightarrow> List.member [''requested'', ''approved'', ''submitted''] (ttr_status t)"

definition ticket_transfer_check :: "TransferRecord \<Rightarrow> bool" where
  "ticket_transfer_check t \<longleftrightarrow> text_between 1 240 (ttr_token_id t) \<and>
     List.member [''organizer_approved'', ''open''] (ttr_policy t) \<and>
     List.member [''requested'', ''approved'', ''submitted'', ''confirmed'', ''rejected'', ''cancelled'', ''failed''] (ttr_status t) \<and>
     text_between 1 200 (ttr_idempotency_key t) \<and> is_sha256_text (ttr_request_sha256 t) \<and>
     text_between 1 1000 (ttr_reason t) \<and> sha256_or_null (ttr_submitted_tx_hash t) \<and>
     ttr_from_stellar_account_id t \<noteq> ttr_to_stellar_account_id t \<and> ttr_from_user_id t \<noteq> ttr_to_user_id t \<and>
     ((ttr_status t = ''requested'' \<and> ttr_reviewed_at t = None \<and> ttr_submitted_at t = None \<and> ttr_confirmed_at t = None) \<or>
      (ttr_status t = ''approved'' \<and> ttr_reviewed_at t \<noteq> None \<and> ttr_submitted_at t = None \<and> ttr_confirmed_at t = None) \<or>
      (ttr_status t = ''submitted'' \<and> ttr_reviewed_at t \<noteq> None \<and> ttr_submitted_tx_hash t \<noteq> None \<and>
         ttr_submitted_at t \<noteq> None \<and> ttr_confirmed_at t = None) \<or>
      (ttr_status t = ''confirmed'' \<and> ttr_reviewed_at t \<noteq> None \<and> ttr_submitted_tx_hash t \<noteq> None \<and>
         ttr_submitted_at t \<noteq> None \<and> ttr_accepted_evidence_id t \<noteq> None \<and> ttr_confirmed_at t \<noteq> None) \<or>
      List.member [''rejected'', ''cancelled'', ''failed''] (ttr_status t))"

definition ticket_transfer_clash :: "TransferRecord \<Rightarrow> TransferRecord \<Rightarrow> bool" where
  "ticket_transfer_clash a b \<longleftrightarrow> ttr_id a = ttr_id b \<or>
     (ttr_organization_id a = ttr_organization_id b \<and> ttr_from_user_id a = ttr_from_user_id b \<and>
      ttr_idempotency_key a = ttr_idempotency_key b) \<or>
     (transfer_active a \<and> transfer_active b \<and> ttr_ticket_issuance_id a = ttr_ticket_issuance_id b)"

interpretation product_ids: keyed_table pr_id product_clash
  by unfold_locales (simp add: product_clash_def)
interpretation inventory_products: keyed_table iv_product_id inventory_clash
  by unfold_locales (simp add: inventory_clash_def)
interpretation ticket_event_ids: keyed_table tev_id ticket_event_clash
  by unfold_locales (simp add: ticket_event_clash_def)
interpretation ticket_product_ids: keyed_table tpd_id ticket_product_clash
  by unfold_locales (simp add: ticket_product_clash_def)
interpretation ticket_product_products: keyed_table tpd_product_id ticket_product_clash
  by unfold_locales (simp add: ticket_product_clash_def)
interpretation reservation_ids: keyed_table trs_id reservation_clash
  by unfold_locales (simp add: reservation_clash_def)
interpretation reservation_orders: keyed_table trs_order_id reservation_clash
  by unfold_locales (simp add: reservation_clash_def)
interpretation issuance_ids: keyed_table tis_id issuance_clash
  by unfold_locales (simp add: issuance_clash_def)
interpretation issuance_serials: keyed_table "\<lambda>t. (tis_ticket_event_id t, tis_serial_number t)" issuance_clash
  by unfold_locales (simp add: issuance_clash_def)
interpretation check_in_issuances: keyed_table tci_ticket_issuance_id check_in_clash
  by unfold_locales (simp add: check_in_clash_def)
interpretation ownership_ids: keyed_table toe_id ownership_clash
  by unfold_locales (simp add: ownership_clash_def)
interpretation ticket_transfer_ids: keyed_table ttr_id ticket_transfer_clash
  by unfold_locales (simp add: ticket_transfer_clash_def)

section \<open>Audit\<close>

definition ticket_audit ::
  "(db_error \<Rightarrow> api_error) \<Rightarrow> uuid \<Rightarrow> uuid \<Rightarrow> uuid option \<Rightarrow> string \<Rightarrow> string \<Rightarrow> uuid \<Rightarrow> json \<Rightarrow> ticket_db \<Rightarrow>
   api_error + ticket_db" where
  "ticket_audit err new_id organization_id actor_user_id action entity_type entity_id metadata d =
     or_db_error err (insert_audit
       \<lparr>al_id = new_id, al_organization_id = Some organization_id, al_actor_user_id = actor_user_id,
        al_action = action, al_entity_type = entity_type, al_entity_id = Some entity_id, al_metadata = metadata\<rparr> d)"

lemma ticket_audit_Inr [result_simps]:
  "ticket_audit err i org actor act ty ent m d = Inr d' \<longleftrightarrow>
     is_object m \<and> (\<forall>r \<in> set (audit_logs d). al_id r \<noteq> i) \<and>
     (\<exists>row. d' = d\<lparr>audit_logs := audit_logs d @ [row]\<rparr> \<and> row = \<lparr>al_id = i, al_organization_id = Some org,
       al_actor_user_id = actor, al_action = act, al_entity_type = ty, al_entity_id = Some ent, al_metadata = m\<rparr>)"
  by (auto simp: ticket_audit_def result_simps)

lemma ticket_audit_logs:
  assumes "ticket_audit err i org actor act ty ent m d = Inr d'"
  obtains al where "d' = d\<lparr>audit_logs := al\<rparr>"
  using assms by (auto simp: ticket_audit_Inr)

end
