(* ===== verification/Ticketing.thy ===== *)
theory Ticketing
  imports Ticket_Data
begin

text \<open>
  The handlers of \<open>services/api/src/ticketing.rs\<close>: ticket events and their products, putting an event on sale,
  and the timed reservations that hold stock and an order for a buyer.
\<close>

section \<open>Requests and responses\<close>

record CreateEventRequest =
  cer_organization_id :: uuid
  cer_pageant_id :: uuid
  cer_slug :: string
  cer_title :: string
  cer_description :: "string option"
  cer_venue_name :: "string option"
  cer_starts_at :: string
  cer_ends_at :: "string option"
  cer_default_transfer_policy :: string

record CreateProductRequest =
  cpq_name :: string
  cpq_slug :: string
  cpq_description :: "string option"
  cpq_tier_name :: string
  cpq_supply_limit :: int
  cpq_per_user_limit :: int
  cpq_sale_starts_at :: string
  cpq_sale_ends_at :: string
  cpq_transfer_policy :: "string option"
  cpq_resale_price_cap_minor :: "int option"
  cpq_amount_minor :: int
  cpq_asset_code :: string
  cpq_asset_scale :: int
  cpq_asset_issuer :: "string option"

record CreateReservationRequest =
  crr_quantity :: int
  crr_idempotency_key :: string

record TicketProductRecord =
  tpr_ticket_product_id :: uuid
  tpr_ticket_event_id :: uuid
  tpr_product_id :: uuid
  tpr_name :: string
  tpr_slug :: string
  tpr_description :: "string option"
  tpr_product_status :: string
  tpr_tier_name :: string
  tpr_per_user_limit :: int
  tpr_sale_starts_at :: int
  tpr_sale_ends_at :: int
  tpr_transfer_policy :: string
  tpr_resale_price_cap_minor :: "int option"
  tpr_amount_minor :: int
  tpr_asset_code :: string
  tpr_asset_scale :: int
  tpr_asset_issuer :: "string option"
  tpr_supply_limit :: "int option"
  tpr_reserved_quantity :: int
  tpr_fulfilled_quantity :: int

record ReservationRecord =
  rvr_reservation_id :: uuid
  rvr_ticket_product_id :: uuid
  rvr_order_id :: uuid
  rvr_buyer_user_id :: uuid
  rvr_quantity :: int
  rvr_reservation_status :: string
  rvr_expires_at :: int
  rvr_order_status :: string
  rvr_amount_minor :: int
  rvr_asset_code :: string
  rvr_asset_scale :: int
  rvr_asset_issuer :: "string option"
  rvr_created_at :: int

record AvailabilityRecord =
  av_organization_id :: uuid
  av_pageant_id :: uuid
  av_event_status :: string
  av_product_id :: uuid
  av_product_name :: string
  av_product_status :: string
  av_per_user_limit :: int
  av_sale_starts_at :: int
  av_sale_ends_at :: int
  av_amount_minor :: int
  av_asset_code :: string
  av_asset_scale :: int
  av_asset_issuer :: "string option"
  av_supply_limit :: "int option"
  av_reserved_quantity :: int
  av_fulfilled_quantity :: int

definition reservation_minutes :: int where "reservation_minutes = 15"

definition minutes :: "int \<Rightarrow> int" where "minutes n = n * 60 * 1000000"

section \<open>Validation and errors\<close>

definition validate_ticket_slug :: "string \<Rightarrow> string \<Rightarrow> api_error + string" where
  "validate_ticket_slug value code =
     (let value = to_ascii_lowercase (trim value) in
      if value \<noteq> '''' \<and> length value \<le> 120 \<and> slug_text value then Inr value else Inl (InvalidRequest code))"

definition validate_transfer_policy :: "string \<Rightarrow> api_error + string" where
  "validate_transfer_policy value =
     (let value = to_ascii_lowercase (trim value) in
      if List.member transfer_policies value then Inr value
      else Inl (InvalidRequest ''invalid_ticket_transfer_policy''))"

definition validate_ticket_asset :: "string \<Rightarrow> string option \<Rightarrow> api_error + string \<times> string option" where
  "validate_ticket_asset code issuer =
     (let code = to_ascii_uppercase (trim code) in
      if code = '''' \<or> length code > 12 \<or> \<not> list_all (\<lambda>c. is_ascii_uppercase c \<or> is_ascii_digit c) code
      then Inl (InvalidRequest ''invalid_ticket_asset_code'')
      else
      let issuer = upper_non_empty issuer in
      if code = ''XLM'' then
        (if issuer \<noteq> None then Inl (InvalidRequest ''xlm_ticket_price_must_not_have_issuer'') else Inr (code, issuer))
      else case issuer of
          None \<Rightarrow> Inl (InvalidRequest ''ticket_asset_issuer_required'')
        | Some value \<Rightarrow>
            if length value \<noteq> 56 \<or> take 1 value \<noteq> ''G'' then Inl (InvalidRequest ''ticket_asset_issuer_required'')
            else Inr (code, issuer))"

definition optional_timestamp :: "env \<Rightarrow> string option \<Rightarrow> string \<Rightarrow> api_error + int option" where
  "optional_timestamp env value code =
     (case value of None \<Rightarrow> Inr None | Some v \<Rightarrow> map_sum id Some (parse_timestamp env v code))"

fun ticketing_error :: "db_error \<Rightarrow> api_error" where
  "ticketing_error Unique_violation = Conflict ''ticket_resource_already_exists''"
| "ticketing_error Foreign_key_violation = InvalidRequest ''ticket_related_resource_not_found''"
| "ticketing_error Check_violation = InvalidRequest ''ticket_constraint_failed''"
| "ticketing_error Invalid_text_representation = InvalidRequest ''ticket_constraint_failed''"
| "ticketing_error Numeric_out_of_range = Database"
| "ticketing_error Other_database_error = Database"
| "ticketing_error Connection_error = Database"

section \<open>Events\<close>

definition load_event :: "uuid \<Rightarrow> ticket_db \<Rightarrow> api_error + TicketEventRecord" where
  "load_event event_id d = ok_or (find (\<lambda>e. tev_id e = event_id) (ticket_events d)) NotFound"

definition list_events :: "env \<Rightarrow> uuid \<Rightarrow> ticket_db \<Rightarrow> api_error + TicketEventRecord list" where
  "list_events env pageant_id d =
     bind_result (database_pool env) (\<lambda>_.
     Inr (sort_key (\<lambda>e. (tev_starts_at e, tev_created_at e)) (filter (\<lambda>e. tev_pageant_id e = pageant_id \<and>
        List.member [''on_sale'', ''off_sale'', ''completed''] (tev_status e)) (ticket_events d))))"

definition create_event_tx ::
  "env \<Rightarrow> draws \<Rightarrow> headers \<Rightarrow> CreateEventRequest \<Rightarrow> ticket_db \<Rightarrow> api_error + uuid \<times> ticket_db" where
  "create_event_tx env q hdrs body d =
     bind_result (require_web_actor env hdrs) (\<lambda>actor_user_id.
     bind_result (database_pool env) (\<lambda>_.
     bind_result (require_organization_editor (cer_organization_id body) actor_user_id d) (\<lambda>_.
     if \<not> list_ex (\<lambda>p. pg_id p = cer_pageant_id body \<and> pg_organization_id p = cer_organization_id body) (pageants d)
       then Inl (InvalidRequest ''ticket_pageant_organization_mismatch'')
     else
     bind_result (validate_ticket_slug (cer_slug body) ''invalid_ticket_event_slug'') (\<lambda>slug.
     bind_result (required_text (cer_title body) 200 ''invalid_ticket_event_title'') (\<lambda>title.
     bind_result (optional_text (cer_description body) 4000 ''invalid_ticket_event_description'') (\<lambda>description.
     bind_result (optional_text (cer_venue_name body) 300 ''invalid_ticket_venue'') (\<lambda>venue_name.
     bind_result (parse_timestamp env (cer_starts_at body) ''invalid_ticket_event_start'') (\<lambda>starts_at.
     bind_result (optional_timestamp env (cer_ends_at body) ''invalid_ticket_event_end'') (\<lambda>ends_at.
     if (case ends_at of None \<Rightarrow> False | Some end_at \<Rightarrow> end_at < starts_at)
       then Inl (InvalidRequest ''ticket_event_end_before_start'')
     else
     bind_result (validate_transfer_policy (cer_default_transfer_policy body)) (\<lambda>transfer_policy.
     bind_result (or_db_error ticketing_error (sql_insert ticket_event_check ticket_event_clash
        \<lparr>tev_id = new_uuid q 0, tev_organization_id = cer_organization_id body,
         tev_pageant_id = cer_pageant_id body, tev_slug = slug, tev_title = title, tev_description = description,
         tev_venue_name = venue_name, tev_starts_at = starts_at, tev_ends_at = ends_at, tev_status = ''draft'',
         tev_default_transfer_policy = transfer_policy, tev_created_by_user_id = actor_user_id,
         tev_created_at = sql_now q, tev_updated_at = sql_now q\<rparr> (ticket_events d))) (\<lambda>event_rows.
     bind_result (ticket_audit ticketing_error (new_uuid q 1) (cer_organization_id body) (Some actor_user_id)
        ''ticket_event.create'' ''ticket_event'' (new_uuid q 0)
        (JObj [(''pageant_id'', JStr (cer_pageant_id body)), (''slug'', JStr slug)])
        (d\<lparr>ticket_events := event_rows\<rparr>)) (\<lambda>d.
     Inr (new_uuid q 0, d)))))))))))))"

definition create_event ::
  "env \<Rightarrow> draws \<Rightarrow> headers \<Rightarrow> CreateEventRequest \<Rightarrow> ticket_db \<Rightarrow> (api_error + nat \<times> TicketEventRecord) \<times> ticket_db" where
  "create_event env q hdrs body d =
     then_read (transaction (create_event_tx env q hdrs body) d) (\<lambda>event_id d. map_sum id (Pair 201) (load_event event_id d))"

definition put_event_on_sale_tx ::
  "env \<Rightarrow> draws \<Rightarrow> headers \<Rightarrow> uuid \<Rightarrow> string \<Rightarrow> ticket_db \<Rightarrow> api_error + unit \<times> ticket_db" where
  "put_event_on_sale_tx env q hdrs event_id reason d =
     bind_result (require_web_actor env hdrs) (\<lambda>actor_user_id.
     bind_result (database_pool env) (\<lambda>_.
     bind_result (required_text reason 1000 ''invalid_ticket_transition_reason'') (\<lambda>reason.
     bind_result (ok_or (find (\<lambda>e. tev_id e = event_id) (ticket_events d)) NotFound) (\<lambda>event.
     bind_result (require_organization_editor (tev_organization_id event) actor_user_id d) (\<lambda>_.
     if tev_status event \<noteq> ''draft'' then Inl (Conflict ''ticket_event_not_publishable'')
     else
     let product_count = sql_count (\<lambda>p. tpd_ticket_event_id p = event_id) (ticket_products d) in
     if product_count = 0 then Inl (Conflict ''ticket_event_requires_products'')
     else
     let product_ids = map tpd_product_id (filter (\<lambda>p. tpd_ticket_event_id p = event_id) (ticket_products d));
         d = d\<lparr>ticket_events := sql_update (\<lambda>e. tev_id e = event_id)
                 (\<lambda>e. e\<lparr>tev_status := ''on_sale'', tev_updated_at := sql_now q\<rparr>) (ticket_events d),
               products := sql_update (\<lambda>p. List.member product_ids (pr_id p))
                 (\<lambda>p. p\<lparr>pr_status := ''published'', pr_updated_at := sql_now q\<rparr>) (products d)\<rparr> in
     bind_result (ticket_audit ticketing_error (new_uuid q 0) (tev_organization_id event) (Some actor_user_id)
        ''ticket_event.on_sale'' ''ticket_event'' event_id
        (JObj [(''reason'', JStr reason), (''product_count'', JInt product_count)]) d) (\<lambda>d.
     Inr ((), d)))))))"

definition put_event_on_sale ::
  "env \<Rightarrow> draws \<Rightarrow> headers \<Rightarrow> uuid \<Rightarrow> string \<Rightarrow> ticket_db \<Rightarrow> (api_error + TicketEventRecord) \<times> ticket_db" where
  "put_event_on_sale env q hdrs event_id reason d =
     then_read (transaction (put_event_on_sale_tx env q hdrs event_id reason) d) (\<lambda>_ d. load_event event_id d)"

section \<open>Products\<close>

definition load_products :: "uuid \<Rightarrow> ticket_db \<Rightarrow> TicketProductRecord list" where
  "load_products event_id d =
     sort_key (\<lambda>r. (tpr_amount_minor r, tpr_tier_name r))
       [\<lparr>tpr_ticket_product_id = tpd_id tp, tpr_ticket_event_id = tpd_ticket_event_id tp, tpr_product_id = pr_id p,
         tpr_name = pr_name p, tpr_slug = pr_slug p, tpr_description = pr_description p,
         tpr_product_status = pr_status p, tpr_tier_name = tpd_tier_name tp,
         tpr_per_user_limit = tpd_per_user_limit tp, tpr_sale_starts_at = tpd_sale_starts_at tp,
         tpr_sale_ends_at = tpd_sale_ends_at tp, tpr_transfer_policy = tpd_transfer_policy tp,
         tpr_resale_price_cap_minor = tpd_resale_price_cap_minor tp, tpr_amount_minor = pp_amount_minor pp,
         tpr_asset_code = pp_asset_code pp, tpr_asset_scale = pp_asset_scale pp, tpr_asset_issuer = pp_asset_issuer pp,
         tpr_supply_limit = iv_supply_limit pi, tpr_reserved_quantity = iv_reserved_quantity pi,
         tpr_fulfilled_quantity = iv_fulfilled_quantity pi\<rparr>.
        tp \<leftarrow> filter (\<lambda>tp. tpd_ticket_event_id tp = event_id) (ticket_products d),
        p \<leftarrow> filter (\<lambda>p. pr_id p = tpd_product_id tp) (products d),
        pp \<leftarrow> filter (\<lambda>pp. pp_product_id pp = pr_id p \<and> pp_is_active pp) (product_prices d),
        pi \<leftarrow> filter (\<lambda>pi. iv_product_id pi = pr_id p) (product_inventory d)]"

definition list_products :: "env \<Rightarrow> uuid \<Rightarrow> ticket_db \<Rightarrow> api_error + TicketProductRecord list" where
  "list_products env event_id d = bind_result (database_pool env) (\<lambda>_. Inr (load_products event_id d))"

text \<open>The four inserts of a new product, with the values that the request was validated to.\<close>

record product_draft =
  pdr_name :: string
  pdr_slug :: string
  pdr_description :: "string option"
  pdr_tier_name :: string
  pdr_asset_code :: string
  pdr_asset_issuer :: "string option"
  pdr_sale_starts_at :: int
  pdr_sale_ends_at :: int
  pdr_transfer_policy :: string

definition insert_product ::
  "draws \<Rightarrow> uuid \<Rightarrow> TicketEventRecord \<Rightarrow> CreateProductRequest \<Rightarrow> product_draft \<Rightarrow> ticket_db \<Rightarrow> api_error + ticket_db" where
  "insert_product q actor_user_id event body draft d =
     bind_result (or_db_error ticketing_error (sql_insert product_check product_clash
        \<lparr>pr_id = new_uuid q 0, pr_organization_id = tev_organization_id event,
         pr_pageant_id = Some (tev_pageant_id event), pr_pageant_contestant_id = None, pr_kind = ''ticket'',
         pr_name = pdr_name draft, pr_slug = pdr_slug draft, pr_description = pdr_description draft,
         pr_status = ''draft'', pr_created_by_user_id = actor_user_id, pr_created_at = sql_now q,
         pr_updated_at = sql_now q\<rparr> (products d))) (\<lambda>product_rows.
     bind_result (or_db_error ticketing_error (sql_insert price_check price_clash
        \<lparr>pp_id = new_uuid q 1, pp_product_id = new_uuid q 0, pp_amount_minor = cpq_amount_minor body,
         pp_asset_code = pdr_asset_code draft, pp_asset_scale = cpq_asset_scale body,
         pp_asset_issuer = pdr_asset_issuer draft, pp_is_active = True,
         pp_starts_at = Some (pdr_sale_starts_at draft), pp_ends_at = Some (pdr_sale_ends_at draft),
         pp_created_at = sql_now q\<rparr> (product_prices d))) (\<lambda>price_rows.
     bind_result (or_db_error ticketing_error (sql_insert inventory_check inventory_clash
        \<lparr>iv_product_id = new_uuid q 0, iv_supply_limit = Some (cpq_supply_limit body), iv_reserved_quantity = 0,
         iv_fulfilled_quantity = 0, iv_updated_at = sql_now q\<rparr> (product_inventory d))) (\<lambda>inventory_rows.
     bind_result (or_db_error ticketing_error (sql_insert ticket_product_check ticket_product_clash
        \<lparr>tpd_id = new_uuid q 2, tpd_ticket_event_id = tev_id event, tpd_product_id = new_uuid q 0,
         tpd_tier_name = pdr_tier_name draft, tpd_per_user_limit = cpq_per_user_limit body,
         tpd_sale_starts_at = pdr_sale_starts_at draft, tpd_sale_ends_at = pdr_sale_ends_at draft,
         tpd_transfer_policy = pdr_transfer_policy draft,
         tpd_resale_price_cap_minor = cpq_resale_price_cap_minor body\<rparr> (ticket_products d))) (\<lambda>ticket_rows.
     ticket_audit ticketing_error (new_uuid q 3) (tev_organization_id event) (Some actor_user_id)
        ''ticket_product.create'' ''ticket_product'' (new_uuid q 2)
        (JObj [(''event_id'', JStr (tev_id event)), (''product_id'', JStr (new_uuid q 0)),
           (''price_id'', JStr (new_uuid q 1)), (''supply_limit'', JInt (cpq_supply_limit body))])
        (d\<lparr>products := product_rows, product_prices := price_rows, product_inventory := inventory_rows,
           ticket_products := ticket_rows\<rparr>)))))"

definition create_product_tx ::
  "env \<Rightarrow> draws \<Rightarrow> headers \<Rightarrow> uuid \<Rightarrow> CreateProductRequest \<Rightarrow> ticket_db \<Rightarrow> api_error + uuid \<times> ticket_db" where
  "create_product_tx env q hdrs event_id body d =
     bind_result (require_web_actor env hdrs) (\<lambda>actor_user_id.
     bind_result (database_pool env) (\<lambda>_.
     bind_result (load_event event_id d) (\<lambda>event.
     bind_result (require_organization_editor (tev_organization_id event) actor_user_id d) (\<lambda>_.
     if tev_status event \<noteq> ''draft'' then Inl (Conflict ''ticket_event_catalogue_locked'')
     else
     bind_result (required_text (cpq_name body) 200 ''invalid_ticket_product_name'') (\<lambda>name.
     bind_result (validate_ticket_slug (cpq_slug body) ''invalid_ticket_product_slug'') (\<lambda>slug.
     bind_result (optional_text (cpq_description body) 4000 ''invalid_ticket_product_description'') (\<lambda>description.
     bind_result (required_text (cpq_tier_name body) 120 ''invalid_ticket_tier'') (\<lambda>tier_name.
     if cpq_supply_limit body \<le> 0 \<or> cpq_per_user_limit body \<le> 0 \<or> cpq_per_user_limit body > 20
       then Inl (InvalidRequest ''invalid_ticket_inventory_limits'')
     else if cpq_per_user_limit body > cpq_supply_limit body
       then Inl (InvalidRequest ''ticket_user_limit_exceeds_supply'')
     else if cpq_amount_minor body \<le> 0 \<or> \<not> (0 \<le> cpq_asset_scale body \<and> cpq_asset_scale body \<le> 7)
       then Inl (InvalidRequest ''invalid_ticket_price'')
     else
     bind_result (validate_ticket_asset (cpq_asset_code body) (cpq_asset_issuer body)) (\<lambda>asset.
     bind_result (parse_timestamp env (cpq_sale_starts_at body) ''invalid_ticket_sale_start'') (\<lambda>sale_starts_at.
     bind_result (parse_timestamp env (cpq_sale_ends_at body) ''invalid_ticket_sale_end'') (\<lambda>sale_ends_at.
     if sale_ends_at \<le> sale_starts_at \<or> sale_ends_at > tev_starts_at event
       then Inl (InvalidRequest ''invalid_ticket_sale_window'')
     else
     bind_result (case cpq_transfer_policy body of None \<Rightarrow> Inr (tev_default_transfer_policy event)
        | Some p \<Rightarrow> validate_transfer_policy p) (\<lambda>transfer_policy.
     if (case cpq_resale_price_cap_minor body of None \<Rightarrow> False | Some amount \<Rightarrow> amount \<le> 0)
       then Inl (InvalidRequest ''invalid_ticket_resale_cap'')
     else
     bind_result (insert_product q actor_user_id event body
        \<lparr>pdr_name = name, pdr_slug = slug, pdr_description = description, pdr_tier_name = tier_name,
         pdr_asset_code = fst asset, pdr_asset_issuer = snd asset, pdr_sale_starts_at = sale_starts_at,
         pdr_sale_ends_at = sale_ends_at, pdr_transfer_policy = transfer_policy\<rparr> d) (\<lambda>d.
     Inr (new_uuid q 2, d))))))))))))))"

definition create_product ::
  "env \<Rightarrow> draws \<Rightarrow> headers \<Rightarrow> uuid \<Rightarrow> CreateProductRequest \<Rightarrow> ticket_db \<Rightarrow>
   (api_error + nat \<times> TicketProductRecord) \<times> ticket_db" where
  "create_product env q hdrs event_id body d =
     then_read (transaction (create_product_tx env q hdrs event_id body) d) (\<lambda>ticket_product_id d.
       map_sum id (Pair 201) (ok_or (find (\<lambda>r. tpr_ticket_product_id r = ticket_product_id)
         (load_products event_id d)) NotFound))"

section \<open>Reservations\<close>

definition load_reservation :: "uuid \<Rightarrow> ticket_db \<Rightarrow> api_error + ReservationRecord" where
  "load_reservation reservation_id d =
     (case find (\<lambda>r. trs_id r = reservation_id) (ticket_reservations d) of None \<Rightarrow> Inl NotFound | Some r \<Rightarrow>
      case find (\<lambda>ord. or_id ord = trs_order_id r) (orders d) of None \<Rightarrow> Inl NotFound | Some ord \<Rightarrow>
      Inr \<lparr>rvr_reservation_id = trs_id r, rvr_ticket_product_id = trs_ticket_product_id r,
        rvr_order_id = trs_order_id r, rvr_buyer_user_id = trs_buyer_user_id r, rvr_quantity = trs_quantity r,
        rvr_reservation_status = trs_status r, rvr_expires_at = trs_expires_at r, rvr_order_status = or_status ord,
        rvr_amount_minor = or_amount_minor ord, rvr_asset_code = or_asset_code ord, rvr_asset_scale = or_asset_scale ord,
        rvr_asset_issuer = or_asset_issuer ord, rvr_created_at = trs_created_at r\<rparr>)"

definition get_reservation :: "env \<Rightarrow> headers \<Rightarrow> uuid \<Rightarrow> ticket_db \<Rightarrow> api_error + ReservationRecord" where
  "get_reservation env hdrs reservation_id d =
     bind_result (require_web_actor env hdrs) (\<lambda>actor_user_id.
     bind_result (database_pool env) (\<lambda>_.
     bind_result (load_reservation reservation_id d) (\<lambda>record.
     if rvr_buyer_user_id record \<noteq> actor_user_id then Inl NotFound else Inr record)))"

text \<open>Releasing the expired reservations of a ticket product: the reservation expires, its order too when it still
  waits for payment, and the stock is free again.\<close>

definition reservation_due :: "int \<Rightarrow> uuid \<Rightarrow> ticket_reservation_row \<Rightarrow> bool" where
  "reservation_due now ticket_product_id r \<longleftrightarrow> trs_ticket_product_id r = ticket_product_id \<and>
     trs_status r = ''reserved'' \<and> trs_expires_at r \<le> now"

definition release_reservation :: "int \<Rightarrow> uuid \<Rightarrow> ticket_reservation_row \<Rightarrow> ticket_db \<Rightarrow> ticket_db" where
  "release_reservation now product_id r d =
     d\<lparr>ticket_reservations := sql_update (\<lambda>s. trs_id s = trs_id r)
         (\<lambda>s. s\<lparr>trs_status := ''expired'', trs_released_at := Some now, trs_updated_at := now\<rparr>) (ticket_reservations d),
       orders := sql_update (\<lambda>ord. or_id ord = trs_order_id r \<and> or_status ord = ''awaiting_payment'')
         (\<lambda>ord. ord\<lparr>or_status := ''expired'', or_updated_at := now\<rparr>) (orders d),
       product_inventory := sql_update (\<lambda>i. iv_product_id i = product_id)
         (\<lambda>i. i\<lparr>iv_reserved_quantity := max 0 (iv_reserved_quantity i - trs_quantity r), iv_updated_at := now\<rparr>)
         (product_inventory d)\<rparr>"

definition release_expired_for_product :: "int \<Rightarrow> uuid \<Rightarrow> ticket_db \<Rightarrow> ticket_db" where
  "release_expired_for_product now ticket_product_id d =
     (case find (\<lambda>p. tpd_id p = ticket_product_id) (ticket_products d) of
        None \<Rightarrow> d
      | Some tp \<Rightarrow> fold (release_reservation now (tpd_product_id tp))
          (filter (reservation_due now ticket_product_id) (ticket_reservations d)) d)"

definition availability :: "uuid \<Rightarrow> ticket_db \<Rightarrow> AvailabilityRecord option" where
  "availability ticket_product_id d =
     (case find (\<lambda>tp. tpd_id tp = ticket_product_id) (ticket_products d) of None \<Rightarrow> None | Some tp \<Rightarrow>
      case find (\<lambda>te. tev_id te = tpd_ticket_event_id tp) (ticket_events d) of None \<Rightarrow> None | Some te \<Rightarrow>
      case find (\<lambda>p. pr_id p = tpd_product_id tp) (products d) of None \<Rightarrow> None | Some p \<Rightarrow>
      case find (\<lambda>pp. pp_product_id pp = pr_id p \<and> pp_is_active pp) (product_prices d) of None \<Rightarrow> None | Some pp \<Rightarrow>
      case find (\<lambda>pi. iv_product_id pi = pr_id p) (product_inventory d) of None \<Rightarrow> None | Some pi \<Rightarrow>
      Some \<lparr>av_organization_id = tev_organization_id te, av_pageant_id = tev_pageant_id te,
        av_event_status = tev_status te, av_product_id = pr_id p, av_product_name = pr_name p,
        av_product_status = pr_status p, av_per_user_limit = tpd_per_user_limit tp,
        av_sale_starts_at = tpd_sale_starts_at tp, av_sale_ends_at = tpd_sale_ends_at tp,
        av_amount_minor = pp_amount_minor pp, av_asset_code = pp_asset_code pp, av_asset_scale = pp_asset_scale pp,
        av_asset_issuer = pp_asset_issuer pp, av_supply_limit = iv_supply_limit pi,
        av_reserved_quantity = iv_reserved_quantity pi, av_fulfilled_quantity = iv_fulfilled_quantity pi\<rparr>)"

definition verified_buyer :: "uuid \<Rightarrow> ticket_db \<Rightarrow> bool" where
  "verified_buyer user d \<longleftrightarrow> list_ex (\<lambda>u. us_id u = user \<and> us_status u = ''active'') (users d) \<and>
     list_ex (\<lambda>a. sa_user_id a = user \<and> sa_network a = ''testnet'' \<and> sa_verified_at a \<noteq> None) (stellar_accounts d)"

text \<open>What counts against the buyer's limit.\<close>

definition holds_ticket :: "uuid \<Rightarrow> uuid \<Rightarrow> ticket_reservation_row \<Rightarrow> bool" where
  "holds_ticket ticket_product_id buyer r \<longleftrightarrow> trs_ticket_product_id r = ticket_product_id \<and>
     trs_buyer_user_id r = buyer \<and> (trs_status r = ''reserved'' \<or> trs_status r = ''converted'')"

definition reservation_order ::
  "draws \<Rightarrow> AvailabilityRecord \<Rightarrow> uuid \<Rightarrow> string \<Rightarrow> string \<Rightarrow> int \<Rightarrow> int \<Rightarrow> OrderRecord" where
  "reservation_order q av buyer idempotency_key request_sha256 total_amount expires_at =
     \<lparr>or_id = new_uuid q 0, or_organization_id = av_organization_id av, or_buyer_user_id = buyer,
      or_status = ''awaiting_payment'', or_environment = ''testnet'', or_idempotency_key = idempotency_key,
      or_request_sha256 = request_sha256, or_amount_minor = total_amount, or_asset_code = av_asset_code av,
      or_asset_scale = av_asset_scale av, or_asset_issuer = av_asset_issuer av, or_expires_at = Some expires_at,
      or_created_at = sql_now q, or_updated_at = sql_now q\<rparr>"

definition reservation_item :: "draws \<Rightarrow> AvailabilityRecord \<Rightarrow> int \<Rightarrow> int \<Rightarrow> OrderItemRecord" where
  "reservation_item q av quantity total_amount =
     \<lparr>oit_id = new_uuid q 2, oit_order_id = new_uuid q 0, oit_product_id = av_product_id av,
      oit_product_name = av_product_name av, oit_quantity = quantity, oit_unit_amount_minor = av_amount_minor av,
      oit_total_amount_minor = total_amount, oit_asset_code = av_asset_code av, oit_asset_scale = av_asset_scale av,
      oit_asset_issuer = av_asset_issuer av, oit_created_at = sql_now q\<rparr>"

definition new_reservation ::
  "draws \<Rightarrow> uuid \<Rightarrow> AvailabilityRecord \<Rightarrow> uuid \<Rightarrow> int \<Rightarrow> string \<Rightarrow> string \<Rightarrow> int \<Rightarrow> ticket_reservation_row" where
  "new_reservation q ticket_product_id av buyer quantity idempotency_key request_sha256 expires_at =
     \<lparr>trs_id = new_uuid q 1, trs_organization_id = av_organization_id av,
      trs_ticket_product_id = ticket_product_id, trs_order_id = new_uuid q 0, trs_buyer_user_id = buyer,
      trs_quantity = quantity, trs_status = ''reserved'', trs_idempotency_key = idempotency_key,
      trs_request_sha256 = request_sha256, trs_expires_at = expires_at, trs_converted_at = None,
      trs_released_at = None, trs_created_at = sql_now q, trs_updated_at = sql_now q\<rparr>"

definition reservation_text :: "uuid \<Rightarrow> uuid \<Rightarrow> int \<Rightarrow> string \<Rightarrow> string" where
  "reservation_text ticket_product_id buyer_user_id quantity idempotency_key =
     ''ticket_product='' @ ticket_product_id @ '';buyer='' @ buyer_user_id @ '';quantity='' @ decimal quantity @
     '';key='' @ idempotency_key"

definition place_reservation ::
  "env \<Rightarrow> draws \<Rightarrow> uuid \<Rightarrow> AvailabilityRecord \<Rightarrow> uuid \<Rightarrow> int \<Rightarrow> string \<Rightarrow> string \<Rightarrow> ticket_db \<Rightarrow> api_error + ticket_db" where
  "place_reservation env q ticket_product_id av buyer quantity idempotency_key request_sha256 d =
     bind_result (or_db_error ticketing_error (sql_bigint (sql_sum trs_quantity
        (holds_ticket ticket_product_id buyer) (ticket_reservations d)))) (\<lambda>existing_quantity.
     if i64_wrap (existing_quantity + quantity) > av_per_user_limit av
       then Inl (Conflict ''ticket_per_user_limit_exceeded'')
     else if (case av_supply_limit av of None \<Rightarrow> False
         | Some limit \<Rightarrow> i64_wrap (i64_wrap (av_reserved_quantity av + av_fulfilled_quantity av) + quantity) > limit)
       then Inl (Conflict ''ticket_inventory_unavailable'')
     else
     bind_result (ok_or (checked_i64 (av_amount_minor av * quantity)) (InvalidRequest ''ticket_amount_overflow'')) (\<lambda>total_amount.
     let expires_at = now_utc q 0 + minutes reservation_minutes in
     bind_result (or_db_error ticketing_error (sql_insert order_check order_clash
        (reservation_order q av buyer idempotency_key request_sha256 total_amount expires_at) (orders d))) (\<lambda>order_rows.
     bind_result (or_db_error ticketing_error (sql_insert order_item_check order_item_clash
        (reservation_item q av quantity total_amount) (order_items d))) (\<lambda>item_rows.
     bind_result (or_db_error ticketing_error (reserve_inventory (sql_now q) (av_product_id av) quantity
        (product_inventory d))) (\<lambda>updated.
     if fst updated \<noteq> 1 then Inl (Conflict ''ticket_inventory_unavailable'')
     else
     bind_result (or_db_error ticketing_error (sql_insert reservation_check reservation_clash
        (new_reservation q ticket_product_id av buyer quantity idempotency_key request_sha256 expires_at)
        (ticket_reservations d))) (\<lambda>reservation_rows.
     ticket_audit ticketing_error (new_uuid q 3) (av_organization_id av) (Some buyer)
       ''ticket_reservation.create'' ''ticket_reservation'' (new_uuid q 1)
       (JObj [(''ticket_product_id'', JStr ticket_product_id), (''order_id'', JStr (new_uuid q 0)),
          (''quantity'', JInt quantity), (''expires_at'', timestamp_json env expires_at)])
       (d\<lparr>orders := order_rows, order_items := item_rows, product_inventory := snd updated,
          ticket_reservations := reservation_rows\<rparr>)))))))"

definition create_reservation_tx ::
  "env \<Rightarrow> draws \<Rightarrow> headers \<Rightarrow> uuid \<Rightarrow> CreateReservationRequest \<Rightarrow> ticket_db \<Rightarrow>
   api_error + (nat \<times> uuid) \<times> ticket_db" where
  "create_reservation_tx env q hdrs ticket_product_id body d =
     bind_result (require_web_actor env hdrs) (\<lambda>buyer_user_id.
     if crr_quantity body \<le> 0 then Inl (InvalidRequest ''invalid_ticket_quantity'')
     else
     bind_result (required_text (crr_idempotency_key body) 200 ''invalid_ticket_idempotency_key'') (\<lambda>idempotency_key.
     bind_result (database_pool env) (\<lambda>_.
     let d = release_expired_for_product (sql_now q) ticket_product_id d in
     bind_result (ok_or (availability ticket_product_id d) NotFound) (\<lambda>av.
     if av_event_status av \<noteq> ''on_sale'' \<or> av_product_status av \<noteq> ''published'' \<or>
        now_utc q 0 < av_sale_starts_at av \<or> now_utc q 0 \<ge> av_sale_ends_at av
       then Inl (Conflict ''ticket_not_on_sale'')
     else if \<not> verified_buyer buyer_user_id d then Inl Forbidden
     else
     let request_sha256 = hash_text env (reservation_text ticket_product_id buyer_user_id (crr_quantity body)
           idempotency_key) in
     case find (\<lambda>r. trs_organization_id r = av_organization_id av \<and> trs_buyer_user_id r = buyer_user_id \<and>
          trs_idempotency_key r = idempotency_key) (ticket_reservations d) of
       Some existing \<Rightarrow>
         if trs_request_sha256 existing \<noteq> request_sha256 then Inl (Conflict ''ticket_idempotency_key_reused'')
         else Inr ((200, trs_id existing), d)
     | None \<Rightarrow>
         bind_result (place_reservation env q ticket_product_id av buyer_user_id (crr_quantity body) idempotency_key
            request_sha256 d) (\<lambda>d. Inr ((201, new_uuid q 1), d))))))"

definition create_reservation ::
  "env \<Rightarrow> draws \<Rightarrow> headers \<Rightarrow> uuid \<Rightarrow> CreateReservationRequest \<Rightarrow> ticket_db \<Rightarrow>
   (api_error + nat \<times> ReservationRecord) \<times> ticket_db" where
  "create_reservation env q hdrs ticket_product_id body d =
     then_read (transaction (create_reservation_tx env q hdrs ticket_product_id body) d)
       (\<lambda>r d. map_sum id (Pair (fst r)) (load_reservation (snd r) d))"

end
