(* ===== verification/Ticket_Operations.thy ===== *)
theory Ticket_Operations
  imports Ticketing
begin

text \<open>
  The handlers of \<open>services/api/src/ticket_operations.rs\<close>: preparing the issuances of a paid order, accepting the
  chain evidence that a ticket was minted to its owner, public verification, and check-in.
\<close>

section \<open>Requests and responses\<close>

record PaidOrderContext =
  poc_organization_id :: uuid
  poc_buyer_user_id :: uuid
  poc_order_status :: string
  poc_reservation_id :: uuid
  poc_reservation_status :: string
  poc_ticket_product_id :: uuid
  poc_ticket_event_id :: uuid
  poc_product_id :: uuid
  poc_quantity :: int

record OwnershipEvidenceRequest =
  oer_token_id :: string
  oer_transaction_hash :: string
  oer_ledger_sequence :: int
  oer_contract_event_id :: string
  oer_owner_address :: string
  oer_evidence :: json

record TicketOwnershipView =
  tov_issuance_id :: uuid
  tov_organization_id :: uuid
  tov_ticket_event_id :: uuid
  tov_ticket_product_id :: uuid
  tov_token_id :: string
  tov_owner_address :: string
  tov_transaction_hash :: string
  tov_ledger_sequence :: int
  tov_contract_event_id :: string
  tov_accepted_at :: int
  tov_issuance_status :: string
  tov_serial_number :: int

record CheckInRequest =
  cir_nonce :: string
  cir_device_reference :: "string option"
  cir_metadata :: json

record TicketCheckInRecord =
  tcr_id :: uuid
  tcr_ticket_issuance_id :: uuid
  tcr_ticket_event_id :: uuid
  tcr_checked_in_by_user_id :: uuid
  tcr_device_reference :: "string option"
  tcr_checked_in_at :: int
  tcr_metadata :: json

fun ticket_operation_error :: "db_error \<Rightarrow> api_error" where
  "ticket_operation_error Unique_violation = Conflict ''ticket_operation_already_applied''"
| "ticket_operation_error Foreign_key_violation = InvalidRequest ''ticket_operation_resource_missing''"
| "ticket_operation_error Check_violation = InvalidRequest ''ticket_operation_constraint_failed''"
| "ticket_operation_error Invalid_text_representation = InvalidRequest ''ticket_operation_constraint_failed''"
| "ticket_operation_error Numeric_out_of_range = Database"
| "ticket_operation_error Other_database_error = Database"
| "ticket_operation_error Connection_error = Database"

section \<open>Issuance\<close>

definition paid_order_context :: "uuid \<Rightarrow> ticket_db \<Rightarrow> PaidOrderContext option" where
  "paid_order_context order_id d =
     (case find (\<lambda>ord. or_id ord = order_id) (orders d) of None \<Rightarrow> None | Some ord \<Rightarrow>
      case find (\<lambda>tr. trs_order_id tr = or_id ord) (ticket_reservations d) of None \<Rightarrow> None | Some tr \<Rightarrow>
      case find (\<lambda>tp. tpd_id tp = trs_ticket_product_id tr) (ticket_products d) of None \<Rightarrow> None | Some tp \<Rightarrow>
      Some \<lparr>poc_organization_id = or_organization_id ord, poc_buyer_user_id = or_buyer_user_id ord,
        poc_order_status = or_status ord, poc_reservation_id = trs_id tr, poc_reservation_status = trs_status tr,
        poc_ticket_product_id = trs_ticket_product_id tr, poc_ticket_event_id = tpd_ticket_event_id tp,
        poc_product_id = tpd_product_id tp, poc_quantity = trs_quantity tr\<rparr>)"

definition load_issuances :: "uuid \<Rightarrow> ticket_db \<Rightarrow> TicketIssuanceRecord list" where
  "load_issuances order_id d =
     sort_key (\<lambda>t. (tis_serial_number t, tis_id t)) (filter (\<lambda>t. tis_order_id t = order_id) (ticket_issuances d))"

definition accepted_payment :: "uuid \<Rightarrow> ticket_db \<Rightarrow> bool" where
  "accepted_payment order_id d \<longleftrightarrow> list_ex (\<lambda>ti. ti_order_id ti = order_id \<and>
     list_ex (\<lambda>rr. rr_transaction_intent_id rr = ti_id ti \<and> rr_status rr = ''accepted'')
       (stellar_reconciliation_results d)) (transaction_intents d)"

text \<open>The buyer's verified account, the primary one first, then the oldest.\<close>

definition owner_account :: "uuid \<Rightarrow> ticket_db \<Rightarrow> uuid option" where
  "owner_account user d =
     (case sort_key (\<lambda>a. (\<not> sa_is_primary a, sa_created_at a, sa_id a)) (filter (\<lambda>a. sa_user_id a = user \<and>
         sa_network a = ''testnet'' \<and> sa_verified_at a \<noteq> None) (stellar_accounts d)) of
        [] \<Rightarrow> None | a # _ \<Rightarrow> Some (sa_id a))"

definition current_serial :: "uuid \<Rightarrow> TicketIssuanceRecord list \<Rightarrow> int" where
  "current_serial event_id rows =
     (case map tis_serial_number (filter (\<lambda>t. tis_ticket_event_id t = event_id) rows) of
        [] \<Rightarrow> 0 | x # xs \<Rightarrow> fold max xs x)"

definition new_issuance :: "draws \<Rightarrow> PaidOrderContext \<Rightarrow> uuid \<Rightarrow> uuid \<Rightarrow> int \<Rightarrow> int \<Rightarrow> TicketIssuanceRecord" where
  "new_issuance q ctx order_id owner offset serial_number =
     \<lparr>tis_id = new_uuid q (nat (offset - 1)), tis_organization_id = poc_organization_id ctx,
      tis_ticket_event_id = poc_ticket_event_id ctx, tis_ticket_product_id = poc_ticket_product_id ctx,
      tis_order_id = order_id, tis_owner_user_id = poc_buyer_user_id ctx, tis_owner_stellar_account_id = owner,
      tis_serial_number = serial_number, tis_status = ''pending'', tis_token_id = None,
      tis_issuance_tx_hash = None, tis_accepted_evidence_id = None, tis_issued_at = None,
      tis_created_at = sql_now q, tis_updated_at = sql_now q\<rparr>"

definition insert_issuances ::
  "draws \<Rightarrow> PaidOrderContext \<Rightarrow> uuid \<Rightarrow> uuid \<Rightarrow> int \<Rightarrow> TicketIssuanceRecord list \<Rightarrow> api_error + TicketIssuanceRecord list" where
  "insert_issuances q ctx order_id owner serial rows =
     try_fold (\<lambda>rows offset.
        bind_result (ok_or (checked_i64 (serial + offset)) (InvalidRequest ''ticket_serial_overflow'')) (\<lambda>serial_number.
        or_db_error ticket_operation_error (sql_insert issuance_check issuance_clash
          (new_issuance q ctx order_id owner offset serial_number) rows))) rows [1..poc_quantity ctx]"

definition fulfil_inventory ::
  "int \<Rightarrow> uuid \<Rightarrow> int \<Rightarrow> inventory_row list \<Rightarrow> db_error + int \<times> inventory_row list" where
  "fulfil_inventory now product_id quantity rows =
     (let ready = (\<lambda>i. iv_product_id i = product_id \<and> iv_reserved_quantity i \<ge> quantity) in
      if list_ex (\<lambda>i. ready i \<and> checked_i64 (iv_fulfilled_quantity i + quantity) = None) rows then Inl Numeric_out_of_range
      else Inr (sql_count ready rows, sql_update ready
        (\<lambda>i. i\<lparr>iv_reserved_quantity := iv_reserved_quantity i - quantity,
               iv_fulfilled_quantity := iv_fulfilled_quantity i + quantity, iv_updated_at := now\<rparr>) rows))"

definition issue_order ::
  "draws \<Rightarrow> uuid \<Rightarrow> PaidOrderContext \<Rightarrow> uuid \<Rightarrow> ticket_db \<Rightarrow> api_error + ticket_db" where
  "issue_order q order_id ctx owner d =
     bind_result (insert_issuances q ctx order_id owner
        (current_serial (poc_ticket_event_id ctx) (ticket_issuances d)) (ticket_issuances d)) (\<lambda>issuance_rows.
     bind_result (or_db_error ticket_operation_error (fulfil_inventory (sql_now q) (poc_product_id ctx)
        (poc_quantity ctx) (product_inventory d))) (\<lambda>updated.
     if fst updated \<noteq> 1 then Inl (Conflict ''ticket_inventory_projection_drift'')
     else
     ticket_audit ticket_operation_error (new_uuid q (nat (poc_quantity ctx))) (poc_organization_id ctx) None
       ''ticket_issuance.prepare'' ''order'' order_id
       (JObj [(''reservation_id'', JStr (poc_reservation_id ctx)),
          (''ticket_product_id'', JStr (poc_ticket_product_id ctx)), (''quantity'', JInt (poc_quantity ctx)),
          (''owner_stellar_account_id'', JStr owner)])
       (d\<lparr>ticket_issuances := issuance_rows, product_inventory := snd updated,
          ticket_reservations := sql_update (\<lambda>r. trs_id r = poc_reservation_id ctx \<and> trs_status r = ''reserved'')
            (\<lambda>r. r\<lparr>trs_status := ''converted'', trs_converted_at := Some (sql_now q), trs_updated_at := sql_now q\<rparr>)
            (ticket_reservations d),
          orders := sql_update (\<lambda>ord. or_id ord = order_id \<and> or_status ord = ''paid'')
            (\<lambda>ord. ord\<lparr>or_status := ''fulfilling'', or_updated_at := sql_now q\<rparr>) (orders d)\<rparr>)))"

definition prepare_issuance_tx ::
  "env \<Rightarrow> draws \<Rightarrow> headers \<Rightarrow> uuid \<Rightarrow> ticket_db \<Rightarrow> api_error + (nat \<times> TicketIssuanceRecord list) \<times> ticket_db" where
  "prepare_issuance_tx env q hdrs order_id d =
     bind_result (require_worker env hdrs) (\<lambda>_.
     bind_result (database_pool env) (\<lambda>_.
     bind_result (ok_or (paid_order_context order_id d) NotFound) (\<lambda>ctx.
     if load_issuances order_id d \<noteq> [] then Inr ((200, load_issuances order_id d), d)
     else if poc_order_status ctx \<noteq> ''paid'' \<or> poc_reservation_status ctx \<noteq> ''reserved''
       then Inl (Conflict ''ticket_order_not_ready_for_issuance'')
     else if \<not> accepted_payment order_id d then Inl (Conflict ''ticket_payment_evidence_missing'')
     else
     bind_result (ok_or (owner_account (poc_buyer_user_id ctx) d) (Conflict ''ticket_owner_wallet_missing'')) (\<lambda>owner.
     bind_result (issue_order q order_id ctx owner d) (\<lambda>d.
     Inr ((201, load_issuances order_id d), d))))))"

definition prepare_issuance ::
  "env \<Rightarrow> draws \<Rightarrow> headers \<Rightarrow> uuid \<Rightarrow> ticket_db \<Rightarrow> (api_error + nat \<times> TicketIssuanceRecord list) \<times> ticket_db" where
  "prepare_issuance env q hdrs order_id d = transaction (prepare_issuance_tx env q hdrs order_id) d"

section \<open>Ownership\<close>

definition ownership_view ::
  "ownership_evidence_row \<Rightarrow> TicketIssuanceRecord \<Rightarrow> stellar_account_row \<Rightarrow> TicketOwnershipView" where
  "ownership_view e t a =
     \<lparr>tov_issuance_id = tis_id t, tov_organization_id = tis_organization_id t,
      tov_ticket_event_id = tis_ticket_event_id t, tov_ticket_product_id = tis_ticket_product_id t,
      tov_token_id = toe_token_id e, tov_owner_address = sa_address a, tov_transaction_hash = toe_transaction_hash e,
      tov_ledger_sequence = toe_ledger_sequence e, tov_contract_event_id = toe_contract_event_id e,
      tov_accepted_at = toe_accepted_at e, tov_issuance_status = tis_status t,
      tov_serial_number = tis_serial_number t\<rparr>"

text \<open>The join of the accepted evidence with its issuance and the owner's account.\<close>

definition ownership_rows ::
  "(ownership_evidence_row \<Rightarrow> bool) \<Rightarrow> (TicketIssuanceRecord \<Rightarrow> bool) \<Rightarrow> ticket_db \<Rightarrow> TicketOwnershipView list" where
  "ownership_rows p p' d =
     [ownership_view e t a.
        e \<leftarrow> filter p (ticket_ownership_evidence d),
        t \<leftarrow> filter (\<lambda>t. p' t \<and> tis_id t = toe_ticket_issuance_id e \<and>
               tis_accepted_evidence_id t = Some (toe_id e)) (ticket_issuances d),
        a \<leftarrow> filter (\<lambda>a. sa_id a = toe_owner_stellar_account_id e) (stellar_accounts d)]"

definition first_row :: "'a list \<Rightarrow> 'a option" where
  "first_row rows = (case rows of [] \<Rightarrow> None | x # _ \<Rightarrow> Some x)"

definition load_ownership :: "uuid \<Rightarrow> ticket_db \<Rightarrow> TicketOwnershipView option" where
  "load_ownership issuance_id d = first_row (ownership_rows (\<lambda>_. True) (\<lambda>t. tis_id t = issuance_id) d)"

definition verify_ticket_ownership :: "env \<Rightarrow> string \<Rightarrow> ticket_db \<Rightarrow> api_error + TicketOwnershipView" where
  "verify_ticket_ownership env token_id d =
     bind_result (required_text token_id 240 ''invalid_ticket_token_id'') (\<lambda>token_id.
     bind_result (database_pool env) (\<lambda>_.
     ok_or (first_row (ownership_rows (\<lambda>e. toe_token_id e = token_id) (\<lambda>t. tis_status t = ''issued'') d)) NotFound))"

definition minted_evidence ::
  "draws \<Rightarrow> TicketIssuanceRecord \<Rightarrow> string \<Rightarrow> string \<Rightarrow> string \<Rightarrow> OwnershipEvidenceRequest \<Rightarrow> ownership_evidence_row" where
  "minted_evidence q issuance token_id transaction_hash contract_event_id body =
     \<lparr>toe_id = new_uuid q 0, toe_organization_id = tis_organization_id issuance,
      toe_ticket_issuance_id = tis_id issuance, toe_owner_stellar_account_id = tis_owner_stellar_account_id issuance,
      toe_token_id = token_id, toe_transaction_hash = transaction_hash,
      toe_ledger_sequence = oer_ledger_sequence body, toe_contract_event_id = contract_event_id,
      toe_evidence_json = oer_evidence body, toe_accepted_at = now_utc q 0, toe_event_kind = ''mint''\<rparr>"

definition accept_mint ::
  "draws \<Rightarrow> TicketIssuanceRecord \<Rightarrow> string \<Rightarrow> string \<Rightarrow> string \<Rightarrow> OwnershipEvidenceRequest \<Rightarrow> ticket_db \<Rightarrow> api_error + ticket_db" where
  "accept_mint q issuance token_id transaction_hash contract_event_id body d =
     bind_result (or_db_error ticket_operation_error (sql_insert ownership_check ownership_clash
        (minted_evidence q issuance token_id transaction_hash contract_event_id body)
        (ticket_ownership_evidence d))) (\<lambda>evidence_rows.
     bind_result (or_db_error ticket_operation_error (sql_update_unique issuance_clash
        (\<lambda>t. tis_id t = tis_id issuance)
        (\<lambda>t. t\<lparr>tis_status := ''issued'', tis_token_id := Some token_id, tis_issuance_tx_hash := Some transaction_hash,
               tis_accepted_evidence_id := Some (new_uuid q 0), tis_issued_at := Some (now_utc q 0),
               tis_updated_at := sql_now q\<rparr>) (ticket_issuances d))) (\<lambda>issuance_rows.
     let remaining = sql_count (\<lambda>t. tis_order_id t = tis_order_id issuance \<and> tis_status t \<noteq> ''issued'') issuance_rows;
         order_rows = (if remaining = 0
           then sql_update (\<lambda>ord. or_id ord = tis_order_id issuance \<and> or_status ord = ''fulfilling'')
             (\<lambda>ord. ord\<lparr>or_status := ''fulfilled'', or_updated_at := sql_now q\<rparr>) (orders d)
           else orders d) in
     ticket_audit ticket_operation_error (new_uuid q 1) (tis_organization_id issuance) None ''ticket_ownership.accept''
       ''ticket_issuance'' (tis_id issuance)
       (JObj [(''evidence_id'', JStr (new_uuid q 0)), (''token_id'', JStr token_id),
          (''transaction_hash'', JStr transaction_hash), (''ledger_sequence'', JInt (oer_ledger_sequence body)),
          (''contract_event_id'', JStr contract_event_id)])
       (d\<lparr>ticket_ownership_evidence := evidence_rows, ticket_issuances := issuance_rows, orders := order_rows\<rparr>)))"

definition accept_ownership_evidence_tx ::
  "env \<Rightarrow> draws \<Rightarrow> headers \<Rightarrow> uuid \<Rightarrow> OwnershipEvidenceRequest \<Rightarrow> ticket_db \<Rightarrow>
   api_error + (nat \<times> TicketOwnershipView) \<times> ticket_db" where
  "accept_ownership_evidence_tx env q hdrs issuance_id body d =
     bind_result (require_worker env hdrs) (\<lambda>_.
     bind_result (database_pool env) (\<lambda>_.
     bind_result (required_text (oer_token_id body) 240 ''invalid_ticket_token_id'') (\<lambda>token_id.
     bind_result (validate_hash (oer_transaction_hash body) ''invalid_ticket_transaction_hash'') (\<lambda>transaction_hash.
     bind_result (required_text (oer_contract_event_id body) 240 ''invalid_ticket_contract_event_id'') (\<lambda>contract_event_id.
     bind_result (validate_strkey (CHR ''G'') (oer_owner_address body) ''invalid_ticket_owner_address'') (\<lambda>owner_address.
     if oer_ledger_sequence body \<le> 0 \<or> \<not> is_object (oer_evidence body)
       then Inl (InvalidRequest ''invalid_ticket_ownership_evidence'')
     else
     bind_result (ok_or (find (\<lambda>t. tis_id t = issuance_id) (ticket_issuances d)) NotFound) (\<lambda>issuance.
     case load_ownership issuance_id d of
       Some existing \<Rightarrow>
         if tov_token_id existing \<noteq> token_id \<or> tov_transaction_hash existing \<noteq> transaction_hash
         then Inl (Conflict ''ticket_ownership_evidence_conflict'') else Inr ((200, existing), d)
     | None \<Rightarrow>
         if \<not> List.member [''pending'', ''submitted''] (tis_status issuance)
         then Inl (Conflict ''ticket_issuance_not_evidence_ready'')
         else
         bind_result (ok_or (map_option sa_address (find (\<lambda>a. sa_id a = tis_owner_stellar_account_id issuance \<and>
            sa_network a = ''testnet'' \<and> sa_verified_at a \<noteq> None) (stellar_accounts d)))
            (Conflict ''ticket_owner_wallet_missing'')) (\<lambda>expected_owner.
         if expected_owner \<noteq> owner_address then Inl (Conflict ''ticket_ownership_owner_mismatch'')
         else
         bind_result (accept_mint q issuance token_id transaction_hash contract_event_id body d) (\<lambda>d.
         bind_result (ok_or (load_ownership issuance_id d) NotFound) (\<lambda>view.
         Inr ((201, view), d)))))))))))"

definition accept_ownership_evidence ::
  "env \<Rightarrow> draws \<Rightarrow> headers \<Rightarrow> uuid \<Rightarrow> OwnershipEvidenceRequest \<Rightarrow> ticket_db \<Rightarrow>
   (api_error + nat \<times> TicketOwnershipView) \<times> ticket_db" where
  "accept_ownership_evidence env q hdrs issuance_id body d =
     transaction (accept_ownership_evidence_tx env q hdrs issuance_id body) d"

section \<open>Check-in\<close>

definition check_in_view :: "ticket_check_in_row \<Rightarrow> TicketCheckInRecord" where
  "check_in_view c =
     \<lparr>tcr_id = tci_id c, tcr_ticket_issuance_id = tci_ticket_issuance_id c, tcr_ticket_event_id = tci_ticket_event_id c,
      tcr_checked_in_by_user_id = tci_checked_in_by_user_id c, tcr_device_reference = tci_device_reference c,
      tcr_checked_in_at = tci_checked_in_at c, tcr_metadata = tci_metadata c\<rparr>"

definition new_check_in ::
  "draws \<Rightarrow> TicketIssuanceRecord \<Rightarrow> uuid \<Rightarrow> string \<Rightarrow> string option \<Rightarrow> json \<Rightarrow> ticket_check_in_row" where
  "new_check_in q issuance actor_user_id nonce_hash device_reference metadata =
     \<lparr>tci_id = new_uuid q 0, tci_ticket_issuance_id = tis_id issuance,
      tci_ticket_event_id = tis_ticket_event_id issuance, tci_checked_in_by_user_id = actor_user_id,
      tci_check_in_nonce_hash = nonce_hash, tci_device_reference = device_reference,
      tci_checked_in_at = sql_now q, tci_metadata = metadata\<rparr>"

definition check_in_ticket_tx ::
  "env \<Rightarrow> draws \<Rightarrow> headers \<Rightarrow> uuid \<Rightarrow> CheckInRequest \<Rightarrow> ticket_db \<Rightarrow>
   api_error + (nat \<times> TicketCheckInRecord) \<times> ticket_db" where
  "check_in_ticket_tx env q hdrs issuance_id body d =
     bind_result (require_web_actor env hdrs) (\<lambda>actor_user_id.
     bind_result (required_text (cir_nonce body) 500 ''invalid_ticket_check_in_nonce'') (\<lambda>nonce.
     bind_result (optional_text (cir_device_reference body) 240 ''invalid_ticket_check_in_device'') (\<lambda>device_reference.
     if \<not> is_object (cir_metadata body) then Inl (InvalidRequest ''invalid_ticket_check_in_metadata'')
     else
     let nonce_hash = hash_text env (''crownfi-ticket-check-in-v1|'' @ issuance_id @ ''|'' @ nonce) in
     bind_result (database_pool env) (\<lambda>_.
     bind_result (ok_or (find (\<lambda>t. tis_id t = issuance_id) (ticket_issuances d)) NotFound) (\<lambda>issuance.
     bind_result (require_organization_editor (tis_organization_id issuance) actor_user_id d) (\<lambda>_.
     if tis_status issuance \<noteq> ''issued'' \<or> tis_accepted_evidence_id issuance = None
       then Inl (Conflict ''ticket_not_issued'')
     else if \<not> list_ex (\<lambda>e. tev_id e = tis_ticket_event_id issuance \<and>
         \<not> List.member [''cancelled'', ''archived''] (tev_status e)) (ticket_events d)
       then Inl (Conflict ''ticket_event_not_check_in_ready'')
     else case find (\<lambda>c. tci_ticket_issuance_id c = issuance_id) (ticket_check_ins d) of
       Some existing \<Rightarrow>
         Inl (Conflict (if tci_checked_in_by_user_id existing = actor_user_id then ''ticket_already_checked_in''
                        else ''ticket_check_in_replay''))
     | None \<Rightarrow>
         let check_in = new_check_in q issuance actor_user_id nonce_hash device_reference (cir_metadata body) in
         bind_result (or_db_error ticket_operation_error (sql_insert check_in_check check_in_clash check_in
            (ticket_check_ins d))) (\<lambda>check_in_rows.
         bind_result (ticket_audit ticket_operation_error (new_uuid q 1) (tis_organization_id issuance)
            (Some actor_user_id) ''ticket_check_in.accept'' ''ticket_issuance'' issuance_id
            (JObj [(''check_in_id'', JStr (new_uuid q 0)), (''device_reference'', str_or_null device_reference)])
            (d\<lparr>ticket_check_ins := check_in_rows\<rparr>)) (\<lambda>d.
         Inr ((201, check_in_view check_in), d)))))))))"

definition check_in_ticket ::
  "env \<Rightarrow> draws \<Rightarrow> headers \<Rightarrow> uuid \<Rightarrow> CheckInRequest \<Rightarrow> ticket_db \<Rightarrow>
   (api_error + nat \<times> TicketCheckInRecord) \<times> ticket_db" where
  "check_in_ticket env q hdrs issuance_id body d = transaction (check_in_ticket_tx env q hdrs issuance_id body) d"

end
