(* ===== verification/Ticket_Transfers.thy ===== *)
theory Ticket_Transfers
  imports Ticket_Operations
begin

text \<open>
  The handlers of \<open>services/api/src/ticket_transfers.rs\<close>: an owner asks to transfer an issued ticket to another
  verified account, the organizer reviews the request where the policy asks for it, a worker records the submitted
  transaction, and the accepted chain evidence moves the ownership.
\<close>

section \<open>Requests and joined rows\<close>

record CreateTransferRequest =
  ctr_to_address :: string
  ctr_idempotency_key :: string
  ctr_reason :: string

record ReviewTransferRequest =
  rtr_decision :: string
  rtr_reason :: string

record TicketTransferEvidenceRequest =
  tte_transaction_hash :: string
  tte_ledger_sequence :: int
  tte_event_reference :: string
  tte_token_id :: string
  tte_from_address :: string
  tte_to_address :: string
  tte_raw_event :: json

record TransferIssuanceContext =
  tic_organization_id :: uuid
  tic_ticket_event_id :: uuid
  tic_ticket_product_id :: uuid
  tic_owner_user_id :: uuid
  tic_owner_stellar_account_id :: uuid
  tic_token_id :: "string option"
  tic_issuance_status :: string
  tic_accepted_evidence_id :: "uuid option"
  tic_transfer_policy :: string
  tic_owner_address :: string

record TransferContext =
  tcx_organization_id :: uuid
  tcx_ticket_issuance_id :: uuid
  tcx_token_id :: string
  tcx_from_user_id :: uuid
  tcx_from_stellar_account_id :: uuid
  tcx_from_address :: string
  tcx_to_user_id :: uuid
  tcx_to_stellar_account_id :: uuid
  tcx_to_address :: string
  tcx_policy :: string
  tcx_status :: string
  tcx_submitted_tx_hash :: "string option"
  tcx_accepted_evidence_id :: "uuid option"

fun ticket_transfer_error :: "db_error \<Rightarrow> api_error" where
  "ticket_transfer_error Unique_violation = Conflict ''ticket_transfer_already_exists''"
| "ticket_transfer_error Foreign_key_violation = InvalidRequest ''ticket_transfer_resource_missing''"
| "ticket_transfer_error Check_violation = InvalidRequest ''ticket_transfer_constraint_failed''"
| "ticket_transfer_error Invalid_text_representation = InvalidRequest ''ticket_transfer_constraint_failed''"
| "ticket_transfer_error Numeric_out_of_range = Database"
| "ticket_transfer_error Other_database_error = Database"
| "ticket_transfer_error Connection_error = Database"

definition load_issuance_context :: "uuid \<Rightarrow> ticket_db \<Rightarrow> api_error + TransferIssuanceContext" where
  "load_issuance_context issuance_id d =
     (case find (\<lambda>ti. tis_id ti = issuance_id) (ticket_issuances d) of None \<Rightarrow> Inl NotFound | Some ti \<Rightarrow>
      case find (\<lambda>tp. tpd_id tp = tis_ticket_product_id ti) (ticket_products d) of None \<Rightarrow> Inl NotFound | Some tp \<Rightarrow>
      case find (\<lambda>sa. sa_id sa = tis_owner_stellar_account_id ti) (stellar_accounts d) of None \<Rightarrow> Inl NotFound | Some sa \<Rightarrow>
      Inr \<lparr>tic_organization_id = tis_organization_id ti, tic_ticket_event_id = tis_ticket_event_id ti,
        tic_ticket_product_id = tis_ticket_product_id ti, tic_owner_user_id = tis_owner_user_id ti,
        tic_owner_stellar_account_id = tis_owner_stellar_account_id ti, tic_token_id = tis_token_id ti,
        tic_issuance_status = tis_status ti, tic_accepted_evidence_id = tis_accepted_evidence_id ti,
        tic_transfer_policy = tpd_transfer_policy tp, tic_owner_address = sa_address sa\<rparr>)"

definition load_transfer_context :: "uuid \<Rightarrow> ticket_db \<Rightarrow> api_error + TransferContext" where
  "load_transfer_context transfer_id d =
     (case find (\<lambda>tr. ttr_id tr = transfer_id) (ticket_transfer_requests d) of None \<Rightarrow> Inl NotFound | Some tr \<Rightarrow>
      case find (\<lambda>sa. sa_id sa = ttr_from_stellar_account_id tr) (stellar_accounts d) of None \<Rightarrow> Inl NotFound | Some from_sa \<Rightarrow>
      case find (\<lambda>sa. sa_id sa = ttr_to_stellar_account_id tr) (stellar_accounts d) of None \<Rightarrow> Inl NotFound | Some to_sa \<Rightarrow>
      Inr \<lparr>tcx_organization_id = ttr_organization_id tr, tcx_ticket_issuance_id = ttr_ticket_issuance_id tr,
        tcx_token_id = ttr_token_id tr, tcx_from_user_id = ttr_from_user_id tr,
        tcx_from_stellar_account_id = ttr_from_stellar_account_id tr, tcx_from_address = sa_address from_sa,
        tcx_to_user_id = ttr_to_user_id tr, tcx_to_stellar_account_id = ttr_to_stellar_account_id tr,
        tcx_to_address = sa_address to_sa, tcx_policy = ttr_policy tr, tcx_status = ttr_status tr,
        tcx_submitted_tx_hash = ttr_submitted_tx_hash tr, tcx_accepted_evidence_id = ttr_accepted_evidence_id tr\<rparr>)"

definition load_transfer :: "uuid \<Rightarrow> ticket_db \<Rightarrow> api_error + TransferRecord" where
  "load_transfer transfer_id d = ok_or (find (\<lambda>t. ttr_id t = transfer_id) (ticket_transfer_requests d)) NotFound"

definition transfer_audit ::
  "uuid \<Rightarrow> uuid \<Rightarrow> uuid option \<Rightarrow> string \<Rightarrow> uuid \<Rightarrow> json \<Rightarrow> ticket_db \<Rightarrow> api_error + ticket_db" where
  "transfer_audit new_id organization_id actor_user_id action entity_id metadata d =
     ticket_audit ticket_transfer_error new_id organization_id actor_user_id action ''ticket_transfer'' entity_id metadata d"

section \<open>Requests for a transfer\<close>

definition transfer_text :: "uuid \<Rightarrow> uuid \<Rightarrow> string \<Rightarrow> string \<Rightarrow> string \<Rightarrow> string" where
  "transfer_text issuance_id actor_user_id owner_address to_address idempotency_key =
     ''ticket-transfer-v1|'' @ issuance_id @ ''|'' @ actor_user_id @ ''|'' @ owner_address @ ''|'' @ to_address @
     ''|'' @ idempotency_key"

definition new_transfer ::
  "draws \<Rightarrow> uuid \<Rightarrow> uuid \<Rightarrow> TransferIssuanceContext \<Rightarrow> stellar_account_row \<Rightarrow> string \<Rightarrow> string \<Rightarrow> string \<Rightarrow> string \<Rightarrow>
   TransferRecord" where
  "new_transfer q issuance_id actor_user_id issuance destination token_id idempotency_key request_sha256 reason =
     (let open_policy = tic_transfer_policy issuance = ''open'' in
      \<lparr>ttr_id = new_uuid q 0, ttr_organization_id = tic_organization_id issuance,
       ttr_ticket_issuance_id = issuance_id, ttr_token_id = token_id, ttr_from_user_id = actor_user_id,
       ttr_from_stellar_account_id = tic_owner_stellar_account_id issuance, ttr_to_user_id = sa_user_id destination,
       ttr_to_stellar_account_id = sa_id destination, ttr_policy = tic_transfer_policy issuance,
       ttr_status = (if open_policy then ''approved'' else ''requested''), ttr_idempotency_key = idempotency_key,
       ttr_request_sha256 = request_sha256, ttr_reason = reason,
       ttr_reviewed_by_user_id = (if open_policy then Some actor_user_id else None),
       ttr_review_reason = (if open_policy
         then Some ''Automatically approved by the configured open-transfer policy.'' else None),
       ttr_submitted_tx_hash = None, ttr_accepted_evidence_id = None,
       ttr_reviewed_at = (if open_policy then Some (now_utc q 0) else None), ttr_submitted_at = None,
       ttr_confirmed_at = None, ttr_created_at = sql_now q, ttr_updated_at = sql_now q\<rparr>)"

definition insert_transfer ::
  "draws \<Rightarrow> TransferRecord \<Rightarrow> TransferIssuanceContext \<Rightarrow> string \<Rightarrow> ticket_db \<Rightarrow> api_error + ticket_db" where
  "insert_transfer q transfer issuance to_address d =
     bind_result (or_db_error ticket_transfer_error (sql_insert ticket_transfer_check ticket_transfer_clash transfer
        (ticket_transfer_requests d))) (\<lambda>transfer_rows.
     transfer_audit (new_uuid q 1) (tic_organization_id issuance) (Some (ttr_from_user_id transfer))
       ''ticket_transfer.create'' (ttr_id transfer)
       (JObj [(''ticket_issuance_id'', JStr (ttr_ticket_issuance_id transfer)),
          (''ticket_event_id'', JStr (tic_ticket_event_id issuance)),
          (''ticket_product_id'', JStr (tic_ticket_product_id issuance)),
          (''policy'', JStr (tic_transfer_policy issuance)), (''status'', JStr (ttr_status transfer)),
          (''from_address'', JStr (tic_owner_address issuance)), (''to_address'', JStr to_address)])
       (d\<lparr>ticket_transfer_requests := transfer_rows\<rparr>))"

definition create_transfer_tx ::
  "env \<Rightarrow> draws \<Rightarrow> headers \<Rightarrow> uuid \<Rightarrow> CreateTransferRequest \<Rightarrow> ticket_db \<Rightarrow> api_error + (nat \<times> TransferRecord) \<times> ticket_db" where
  "create_transfer_tx env q hdrs issuance_id body d =
     bind_result (require_web_actor env hdrs) (\<lambda>actor_user_id.
     bind_result (validate_strkey (CHR ''G'') (ctr_to_address body) ''invalid_ticket_transfer_address'') (\<lambda>to_address.
     bind_result (required_text (ctr_idempotency_key body) 200 ''invalid_ticket_transfer_idempotency_key'') (\<lambda>idempotency_key.
     bind_result (required_text (ctr_reason body) 1000 ''invalid_ticket_transfer_reason'') (\<lambda>reason.
     bind_result (database_pool env) (\<lambda>_.
     bind_result (load_issuance_context issuance_id d) (\<lambda>issuance.
     if tic_owner_user_id issuance \<noteq> actor_user_id then Inl NotFound
     else if tic_issuance_status issuance \<noteq> ''issued'' \<or> tic_accepted_evidence_id issuance = None
       then Inl (Conflict ''ticket_not_transferable_before_issuance'')
     else if tic_transfer_policy issuance = ''non_transferable'' then Inl (Conflict ''ticket_transfer_not_allowed'')
     else if list_ex (\<lambda>c. tci_ticket_issuance_id c = issuance_id) (ticket_check_ins d)
       then Inl (Conflict ''checked_in_ticket_not_transferable'')
     else if tic_owner_address issuance = to_address then Inl (InvalidRequest ''ticket_transfer_owner_unchanged'')
     else
     bind_result (ok_or (find (\<lambda>a. sa_network a = ''testnet'' \<and> sa_address a = to_address \<and> sa_verified_at a \<noteq> None)
        (stellar_accounts d)) (InvalidRequest ''ticket_transfer_destination_not_verified'')) (\<lambda>destination.
     if sa_user_id destination = actor_user_id then Inl (InvalidRequest ''ticket_transfer_owner_unchanged'')
     else
     let request_sha256 = hash_text env (transfer_text issuance_id actor_user_id (tic_owner_address issuance)
           to_address idempotency_key) in
     case find (\<lambda>t. ttr_organization_id t = tic_organization_id issuance \<and> ttr_from_user_id t = actor_user_id \<and>
          ttr_idempotency_key t = idempotency_key) (ticket_transfer_requests d) of
       Some existing \<Rightarrow>
         if ttr_request_sha256 existing \<noteq> request_sha256 then Inl (Conflict ''ticket_transfer_idempotency_conflict'')
         else Inr ((200, existing), d)
     | None \<Rightarrow>
         bind_result (ok_or (tic_token_id issuance) (Conflict ''ticket_token_missing'')) (\<lambda>token_id.
         let transfer = new_transfer q issuance_id actor_user_id issuance destination token_id idempotency_key
               request_sha256 reason in
         bind_result (insert_transfer q transfer issuance to_address d) (\<lambda>d.
         bind_result (load_transfer (new_uuid q 0) d) (\<lambda>record.
         Inr ((201, record), d)))))))))))"

definition create_transfer ::
  "env \<Rightarrow> draws \<Rightarrow> headers \<Rightarrow> uuid \<Rightarrow> CreateTransferRequest \<Rightarrow> ticket_db \<Rightarrow> (api_error + nat \<times> TransferRecord) \<times> ticket_db" where
  "create_transfer env q hdrs issuance_id body d = transaction (create_transfer_tx env q hdrs issuance_id body) d"

section \<open>Review\<close>

definition review_transfer_tx ::
  "env \<Rightarrow> draws \<Rightarrow> headers \<Rightarrow> uuid \<Rightarrow> ReviewTransferRequest \<Rightarrow> ticket_db \<Rightarrow> api_error + TransferRecord \<times> ticket_db" where
  "review_transfer_tx env q hdrs transfer_id body d =
     bind_result (require_web_actor env hdrs) (\<lambda>actor_user_id.
     let decision = to_ascii_lowercase (trim (rtr_decision body)) in
     if \<not> List.member [''approve'', ''reject''] decision then Inl (InvalidRequest ''invalid_ticket_transfer_decision'')
     else
     bind_result (required_text (rtr_reason body) 1000 ''invalid_ticket_transfer_review_reason'') (\<lambda>reason.
     bind_result (database_pool env) (\<lambda>_.
     bind_result (load_transfer_context transfer_id d) (\<lambda>context.
     bind_result (require_organization_editor (tcx_organization_id context) actor_user_id d) (\<lambda>_.
     if tcx_status context \<noteq> ''requested'' \<or> tcx_policy context \<noteq> ''organizer_approved''
       then Inl (Conflict ''ticket_transfer_not_reviewable'')
     else
     bind_result (transfer_audit (new_uuid q 0) (tcx_organization_id context) (Some actor_user_id)
        (if decision = ''approve'' then ''ticket_transfer.approve'' else ''ticket_transfer.reject'') transfer_id
        (JObj [(''reason'', JStr reason)])
        (d\<lparr>ticket_transfer_requests := sql_update (\<lambda>t. ttr_id t = transfer_id \<and> ttr_status t = ''requested'')
             (\<lambda>t. t\<lparr>ttr_status := (if decision = ''approve'' then ''approved'' else ''rejected''),
                    ttr_reviewed_by_user_id := Some actor_user_id, ttr_review_reason := Some reason,
                    ttr_reviewed_at := Some (sql_now q), ttr_updated_at := sql_now q\<rparr>)
             (ticket_transfer_requests d)\<rparr>)) (\<lambda>d.
     bind_result (load_transfer transfer_id d) (\<lambda>record. Inr (record, d))))))))"

definition review_transfer ::
  "env \<Rightarrow> draws \<Rightarrow> headers \<Rightarrow> uuid \<Rightarrow> ReviewTransferRequest \<Rightarrow> ticket_db \<Rightarrow> (api_error + TransferRecord) \<times> ticket_db" where
  "review_transfer env q hdrs transfer_id body d = transaction (review_transfer_tx env q hdrs transfer_id body) d"

section \<open>Submission\<close>

definition record_transfer_submission_tx ::
  "env \<Rightarrow> draws \<Rightarrow> headers \<Rightarrow> uuid \<Rightarrow> string \<Rightarrow> ticket_db \<Rightarrow> api_error + TransferRecord \<times> ticket_db" where
  "record_transfer_submission_tx env q hdrs transfer_id transaction_hash d =
     bind_result (require_worker env hdrs) (\<lambda>_.
     bind_result (validate_hash transaction_hash ''invalid_ticket_transfer_transaction_hash'') (\<lambda>transaction_hash.
     bind_result (database_pool env) (\<lambda>_.
     bind_result (load_transfer_context transfer_id d) (\<lambda>context.
     if tcx_status context = ''submitted'' then
       (if tcx_submitted_tx_hash context \<noteq> Some transaction_hash
        then Inl (Conflict ''ticket_transfer_submission_conflict'')
        else bind_result (load_transfer transfer_id d) (\<lambda>record. Inr (record, d)))
     else if tcx_status context \<noteq> ''approved'' then Inl (Conflict ''ticket_transfer_not_approved'')
     else
     bind_result (transfer_audit (new_uuid q 0) (tcx_organization_id context) None ''ticket_transfer.submit''
        transfer_id (JObj [(''transaction_hash'', JStr transaction_hash)])
        (d\<lparr>ticket_transfer_requests := sql_update (\<lambda>t. ttr_id t = transfer_id \<and> ttr_status t = ''approved'')
             (\<lambda>t. t\<lparr>ttr_status := ''submitted'', ttr_submitted_tx_hash := Some transaction_hash,
                    ttr_submitted_at := Some (sql_now q), ttr_updated_at := sql_now q\<rparr>)
             (ticket_transfer_requests d)\<rparr>)) (\<lambda>d.
     bind_result (load_transfer transfer_id d) (\<lambda>record. Inr (record, d)))))))"

definition record_transfer_submission ::
  "env \<Rightarrow> draws \<Rightarrow> headers \<Rightarrow> uuid \<Rightarrow> string \<Rightarrow> ticket_db \<Rightarrow> (api_error + TransferRecord) \<times> ticket_db" where
  "record_transfer_submission env q hdrs transfer_id transaction_hash d =
     transaction (record_transfer_submission_tx env q hdrs transfer_id transaction_hash) d"

section \<open>Evidence\<close>

definition moved_evidence ::
  "draws \<Rightarrow> TransferContext \<Rightarrow> string \<Rightarrow> string \<Rightarrow> string \<Rightarrow> TicketTransferEvidenceRequest \<Rightarrow> ownership_evidence_row" where
  "moved_evidence q context token_id transaction_hash event_reference body =
     \<lparr>toe_id = new_uuid q 0, toe_organization_id = tcx_organization_id context,
      toe_ticket_issuance_id = tcx_ticket_issuance_id context,
      toe_owner_stellar_account_id = tcx_to_stellar_account_id context, toe_token_id = token_id,
      toe_transaction_hash = transaction_hash, toe_ledger_sequence = tte_ledger_sequence body,
      toe_contract_event_id = event_reference, toe_evidence_json = tte_raw_event body,
      toe_accepted_at = now_utc q 0, toe_event_kind = ''transfer''\<rparr>"

definition move_ticket ::
  "draws \<Rightarrow> uuid \<Rightarrow> TransferContext \<Rightarrow> string \<Rightarrow> string \<Rightarrow> string \<Rightarrow> TicketTransferEvidenceRequest \<Rightarrow> string \<Rightarrow> string \<Rightarrow>
   ticket_db \<Rightarrow> api_error + ticket_db" where
  "move_ticket q transfer_id context token_id transaction_hash event_reference body from_address to_address d =
     bind_result (or_db_error ticket_transfer_error (sql_insert ownership_check ownership_clash
        (moved_evidence q context token_id transaction_hash event_reference body)
        (ticket_ownership_evidence d))) (\<lambda>evidence_rows.
     transfer_audit (new_uuid q 1) (tcx_organization_id context) None ''ticket_transfer.confirm'' transfer_id
       (JObj [(''ticket_issuance_id'', JStr (tcx_ticket_issuance_id context)),
          (''evidence_id'', JStr (new_uuid q 0)), (''transaction_hash'', JStr transaction_hash),
          (''ledger_sequence'', JInt (tte_ledger_sequence body)), (''event_reference'', JStr event_reference),
          (''from_address'', JStr from_address), (''to_address'', JStr to_address)])
       (d\<lparr>ticket_ownership_evidence := evidence_rows,
          ticket_issuances := sql_update (\<lambda>t. tis_id t = tcx_ticket_issuance_id context)
            (\<lambda>t. t\<lparr>tis_owner_user_id := tcx_to_user_id context,
                   tis_owner_stellar_account_id := tcx_to_stellar_account_id context,
                   tis_accepted_evidence_id := Some (new_uuid q 0), tis_status := ''issued'',
                   tis_updated_at := sql_now q\<rparr>) (ticket_issuances d),
          ticket_transfer_requests := sql_update (\<lambda>t. ttr_id t = transfer_id)
            (\<lambda>t. t\<lparr>ttr_status := ''confirmed'', ttr_accepted_evidence_id := Some (new_uuid q 0),
                   ttr_confirmed_at := Some (now_utc q 0), ttr_updated_at := sql_now q\<rparr>)
            (ticket_transfer_requests d)\<rparr>))"

definition accept_transfer_evidence_tx ::
  "env \<Rightarrow> draws \<Rightarrow> headers \<Rightarrow> uuid \<Rightarrow> TicketTransferEvidenceRequest \<Rightarrow> ticket_db \<Rightarrow>
   api_error + (nat \<times> TransferRecord) \<times> ticket_db" where
  "accept_transfer_evidence_tx env q hdrs transfer_id body d =
     bind_result (require_worker env hdrs) (\<lambda>_.
     bind_result (validate_hash (tte_transaction_hash body) ''invalid_ticket_transfer_transaction_hash'') (\<lambda>transaction_hash.
     bind_result (required_text (tte_event_reference body) 240 ''invalid_ticket_transfer_event_reference'') (\<lambda>event_reference.
     bind_result (required_text (tte_token_id body) 240 ''invalid_ticket_token_id'') (\<lambda>token_id.
     bind_result (validate_strkey (CHR ''G'') (tte_from_address body) ''invalid_ticket_transfer_address'') (\<lambda>from_address.
     bind_result (validate_strkey (CHR ''G'') (tte_to_address body) ''invalid_ticket_transfer_address'') (\<lambda>to_address.
     if tte_ledger_sequence body \<le> 0 \<or> \<not> is_object (tte_raw_event body)
       then Inl (InvalidRequest ''invalid_ticket_transfer_evidence'')
     else
     bind_result (database_pool env) (\<lambda>_.
     bind_result (load_transfer_context transfer_id d) (\<lambda>context.
     if tcx_status context = ''confirmed'' then
       bind_result (load_transfer transfer_id d) (\<lambda>record. Inr ((200, record), d))
     else if tcx_status context \<noteq> ''submitted'' \<or> tcx_submitted_tx_hash context \<noteq> Some transaction_hash
       then Inl (Conflict ''ticket_transfer_not_submitted'')
     else if tcx_token_id context \<noteq> token_id \<or> tcx_from_address context \<noteq> from_address \<or>
         tcx_to_address context \<noteq> to_address
       then Inl (Conflict ''ticket_transfer_evidence_mismatch'')
     else
     bind_result (load_issuance_context (tcx_ticket_issuance_id context) d) (\<lambda>current.
     if tic_owner_stellar_account_id current \<noteq> tcx_from_stellar_account_id context \<or>
        tic_owner_user_id current \<noteq> tcx_from_user_id context \<or> tic_token_id current \<noteq> Some token_id
       then Inl (Conflict ''ticket_transfer_source_owner_drift'')
     else
     bind_result (move_ticket q transfer_id context token_id transaction_hash event_reference body from_address
        to_address d) (\<lambda>d.
     bind_result (load_transfer transfer_id d) (\<lambda>record.
     Inr ((201, record), d))))))))))))"

definition accept_transfer_evidence ::
  "env \<Rightarrow> draws \<Rightarrow> headers \<Rightarrow> uuid \<Rightarrow> TicketTransferEvidenceRequest \<Rightarrow> ticket_db \<Rightarrow>
   (api_error + nat \<times> TransferRecord) \<times> ticket_db" where
  "accept_transfer_evidence env q hdrs transfer_id body d =
     transaction (accept_transfer_evidence_tx env q hdrs transfer_id body) d"

end
