(* ===== verification/Ticket_Effects.thy ===== *)
theory Ticket_Effects
  imports Ticket_Transfers Order_Props
begin

text \<open>What each ticket handler does to the tables when it succeeds, and the shape of the release of expired
  reservations.\<close>

section \<open>Events and products\<close>

lemma create_event_txE:
  assumes "create_event_tx env q hdrs body d = Inr (x, d')"
  obtains e al where "tev_id e \<notin> tev_id ` set (ticket_events d)" "tev_status e = ''draft''"
    "d' = d\<lparr>ticket_events := ticket_events d @ [e], audit_logs := al\<rparr>"
proof -
  from assms obtain actor slug title description venue starts_at ends_at policy rows d1 where
    ins: "or_db_error ticketing_error (sql_insert ticket_event_check ticket_event_clash
        \<lparr>tev_id = new_uuid q 0, tev_organization_id = cer_organization_id body,
         tev_pageant_id = cer_pageant_id body, tev_slug = slug, tev_title = title, tev_description = description,
         tev_venue_name = venue, tev_starts_at = starts_at, tev_ends_at = ends_at, tev_status = ''draft'',
         tev_default_transfer_policy = policy, tev_created_by_user_id = actor,
         tev_created_at = sql_now q, tev_updated_at = sql_now q\<rparr> (ticket_events d)) = Inr rows" (is "or_db_error _ (sql_insert _ _ ?e _) = _")
    and aud: "ticket_audit ticketing_error (new_uuid q 1) (cer_organization_id body) (Some actor)
        ''ticket_event.create'' ''ticket_event'' (new_uuid q 0)
        (JObj [(''pageant_id'', JStr (cer_pageant_id body)), (''slug'', JStr slug)])
        (d\<lparr>ticket_events := rows\<rparr>) = Inr d1"
    and fin: "Inr (new_uuid q 0, d1) = (Inr (x, d') :: api_error + uuid \<times> ticket_db)"
    unfolding create_event_tx_def by (elim bind_InrE if_InrE) (rule that, assumption+)
  from ins have ins: "sql_insert ticket_event_check ticket_event_clash ?e (ticket_events d) = Inr rows" by (simp add: or_db_error_Inr)
  then have "rows = ticket_events d @ [?e]" by (simp add: sql_insert_Inr)
  with aud fin ticket_event_ids.insert_new [OF ins] that [of ?e] show ?thesis by (auto simp: ticket_audit_Inr)
qed

lemma put_event_on_sale_txE:
  assumes "put_event_on_sale_tx env q hdrs eid reason d = Inr (x, d')"
  obtains e al ids where "e \<in> set (ticket_events d)" "tev_id e = eid" "tev_status e = ''draft''"
    "ids = map tpd_product_id (filter (\<lambda>p. tpd_ticket_event_id p = eid) (ticket_products d))" "ids \<noteq> []"
    "d' = d\<lparr>ticket_events := sql_update (\<lambda>e. tev_id e = eid) (\<lambda>e. e\<lparr>tev_status := ''on_sale'', tev_updated_at := sql_now q\<rparr>)
         (ticket_events d),
       products := sql_update (\<lambda>p. List.member ids (pr_id p))
         (\<lambda>p. p\<lparr>pr_status := ''published'', pr_updated_at := sql_now q\<rparr>) (products d), audit_logs := al\<rparr>"
proof -
  let ?ids = "map tpd_product_id (filter (\<lambda>p. tpd_ticket_event_id p = eid) (ticket_products d))"
  from assms obtain e actor reason' d1 where
    e: "ok_or (find (\<lambda>e. tev_id e = eid) (ticket_events d)) NotFound = Inr e"
    and st: "\<not> tev_status e \<noteq> ''draft''"
    and n: "\<not> sql_count (\<lambda>p. tpd_ticket_event_id p = eid) (ticket_products d) = 0"
    and aud: "ticket_audit ticketing_error (new_uuid q 0) (tev_organization_id e) (Some actor)
        ''ticket_event.on_sale'' ''ticket_event'' eid
        (JObj [(''reason'', JStr reason'), (''product_count'',
           JInt (sql_count (\<lambda>p. tpd_ticket_event_id p = eid) (ticket_products d)))])
       (d\<lparr>ticket_events := sql_update (\<lambda>e. tev_id e = eid) (\<lambda>e. e\<lparr>tev_status := ''on_sale'', tev_updated_at := sql_now q\<rparr>)
             (ticket_events d),
           products := sql_update (\<lambda>p. List.member ?ids (pr_id p))
             (\<lambda>p. p\<lparr>pr_status := ''published'', pr_updated_at := sql_now q\<rparr>) (products d)\<rparr>) = Inr d1"
    and fin: "Inr ((), d1) = (Inr (x, d') :: api_error + unit \<times> ticket_db)"
    unfolding put_event_on_sale_tx_def Let_def by (elim bind_InrE if_InrE) (rule that, assumption+)
  from n have "?ids \<noteq> []" by (simp add: sql_count_def)
  moreover from e have "e \<in> set (ticket_events d)" "tev_id e = eid" by (auto simp: ok_or_Inr dest: find_Some_in)
  moreover from aud obtain al where "d1 = d\<lparr>ticket_events := sql_update (\<lambda>e. tev_id e = eid)
        (\<lambda>e. e\<lparr>tev_status := ''on_sale'', tev_updated_at := sql_now q\<rparr>) (ticket_events d),
      products := sql_update (\<lambda>p. List.member ?ids (pr_id p))
        (\<lambda>p. p\<lparr>pr_status := ''published'', pr_updated_at := sql_now q\<rparr>) (products d), audit_logs := al\<rparr>"
    by (rule ticket_audit_logs) simp
  ultimately show ?thesis using st fin by (intro that [where al = al, OF _ _ _ refl]) simp_all
qed

lemma insert_product_Inr:
  assumes "insert_product q actor event body draft d = Inr d'"
  obtains p pp i tp al where
    "sql_insert product_check product_clash p (products d) = Inr (products d @ [p])"
    "sql_insert inventory_check inventory_clash i (product_inventory d) = Inr (product_inventory d @ [i])"
    "sql_insert ticket_product_check ticket_product_clash tp (ticket_products d) = Inr (ticket_products d @ [tp])"
    "tpd_product_id tp = pr_id p" "iv_product_id i = pr_id p" "iv_supply_limit i = Some (cpq_supply_limit body)"
    "iv_reserved_quantity i = 0" "iv_fulfilled_quantity i = 0" "tpd_per_user_limit tp = cpq_per_user_limit body"
    "tpd_id tp = new_uuid q 2" "tpd_ticket_event_id tp = tev_id event"
    "d' = d\<lparr>products := products d @ [p], product_prices := product_prices d @ [pp],
       product_inventory := product_inventory d @ [i], ticket_products := ticket_products d @ [tp], audit_logs := al\<rparr>"
proof -
  let ?p = "\<lparr>pr_id = new_uuid q 0, pr_organization_id = tev_organization_id event,
         pr_pageant_id = Some (tev_pageant_id event), pr_pageant_contestant_id = None, pr_kind = ''ticket'',
         pr_name = pdr_name draft, pr_slug = pdr_slug draft, pr_description = pdr_description draft,
         pr_status = ''draft'', pr_created_by_user_id = actor, pr_created_at = sql_now q,
         pr_updated_at = sql_now q\<rparr>"
  let ?pp = "\<lparr>pp_id = new_uuid q 1, pp_product_id = new_uuid q 0, pp_amount_minor = cpq_amount_minor body,
         pp_asset_code = pdr_asset_code draft, pp_asset_scale = cpq_asset_scale body,
         pp_asset_issuer = pdr_asset_issuer draft, pp_is_active = True,
         pp_starts_at = Some (pdr_sale_starts_at draft), pp_ends_at = Some (pdr_sale_ends_at draft),
         pp_created_at = sql_now q\<rparr>"
  let ?i = "\<lparr>iv_product_id = new_uuid q 0, iv_supply_limit = Some (cpq_supply_limit body), iv_reserved_quantity = 0,
         iv_fulfilled_quantity = 0, iv_updated_at = sql_now q\<rparr>"
  let ?tp = "\<lparr>tpd_id = new_uuid q 2, tpd_ticket_event_id = tev_id event, tpd_product_id = new_uuid q 0,
         tpd_tier_name = pdr_tier_name draft, tpd_per_user_limit = cpq_per_user_limit body,
         tpd_sale_starts_at = pdr_sale_starts_at draft, tpd_sale_ends_at = pdr_sale_ends_at draft,
         tpd_transfer_policy = pdr_transfer_policy draft,
         tpd_resale_price_cap_minor = cpq_resale_price_cap_minor body\<rparr>"
  from assms obtain p_rows pp_rows i_rows tp_rows where
    i: "or_db_error ticketing_error (sql_insert product_check product_clash ?p (products d)) = Inr p_rows"
      "or_db_error ticketing_error (sql_insert price_check price_clash ?pp (product_prices d)) = Inr pp_rows"
      "or_db_error ticketing_error (sql_insert inventory_check inventory_clash ?i (product_inventory d)) = Inr i_rows"
      "or_db_error ticketing_error (sql_insert ticket_product_check ticket_product_clash ?tp (ticket_products d)) = Inr tp_rows"
    and aud: "\<exists>i org a act ty ent m. ticket_audit ticketing_error i org a act ty ent m
        (d\<lparr>products := p_rows, product_prices := pp_rows, product_inventory := i_rows, ticket_products := tp_rows\<rparr>) = Inr d'"
    unfolding insert_product_def by (elim bind_InrE) blast
  have r: "p_rows = products d @ [?p]" "pp_rows = product_prices d @ [?pp]" "i_rows = product_inventory d @ [?i]"
    "tp_rows = ticket_products d @ [?tp]" using i by (simp_all add: or_db_error_Inr sql_insert_Inr)
  from aud obtain al where d': "d' = d\<lparr>products := p_rows, product_prices := pp_rows, product_inventory := i_rows,
     ticket_products := tp_rows, audit_logs := al\<rparr>" by (auto simp: ticket_audit_Inr)
  show ?thesis
    by (rule that [where p = ?p and pp = ?pp and i = ?i and tp = ?tp and al = al]) (use i in \<open>simp_all add: or_db_error_Inr d' r\<close>)
qed

lemma create_product_txE:
  assumes "create_product_tx env q hdrs eid body d = Inr (x, d')"
  obtains event actor draft where "event \<in> set (ticket_events d)" "tev_id event = eid" "tev_status event = ''draft''"
    "0 < cpq_per_user_limit body" "cpq_per_user_limit body \<le> cpq_supply_limit body" "cpq_per_user_limit body \<le> 20"
    "insert_product q actor event body draft d = Inr d'" "x = new_uuid q 2"
proof -
  from assms obtain event actor draft d1 where
    e: "load_event eid d = Inr event" "\<not> tev_status event \<noteq> ''draft''"
    and n: "\<not> (cpq_supply_limit body \<le> 0 \<or> cpq_per_user_limit body \<le> 0 \<or> cpq_per_user_limit body > 20)"
      "\<not> cpq_per_user_limit body > cpq_supply_limit body"
    and i: "insert_product q actor event body draft d = Inr d1" and fin: "Inr (new_uuid q 2, d1) = (Inr (x, d') :: api_error + uuid \<times> ticket_db)"
    unfolding create_product_tx_def by (elim bind_InrE if_InrE) blast
  from e have "event \<in> set (ticket_events d)" "tev_id event = eid"
    by (auto simp: load_event_def ok_or_Inr dest: find_Some_in)
  with e n i fin show ?thesis by (intro that [of event actor draft]) auto
qed

section \<open>Releasing expired reservations\<close>

lemma release_reservation_tables [simp]:
  "ticket_products (release_reservation now p r d) = ticket_products d"
  "ticket_events (release_reservation now p r d) = ticket_events d"
  "ticket_issuances (release_reservation now p r d) = ticket_issuances d"
  "ticket_check_ins (release_reservation now p r d) = ticket_check_ins d"
  "ticket_ownership_evidence (release_reservation now p r d) = ticket_ownership_evidence d"
  "ticket_transfer_requests (release_reservation now p r d) = ticket_transfer_requests d"
  "stellar_accounts (release_reservation now p r d) = stellar_accounts d"
  by (simp_all add: release_reservation_def)

section \<open>Reservations\<close>

lemma place_reservation_Inr:
  assumes "place_reservation env q tpid av buyer n key sha d = Inr d'"
  obtains total_amount expires al r i where
    "\<not> i64_wrap (sql_sum trs_quantity (holds_ticket tpid buyer) (ticket_reservations d) + n) > av_per_user_limit av"
    "checked_i64 (sql_sum trs_quantity (holds_ticket tpid buyer) (ticket_reservations d)) \<noteq> None"
    "checked_i64 (av_amount_minor av * n) = Some total_amount" "expires = now_utc q 0 + minutes reservation_minutes"
    "r = new_reservation q tpid av buyer n key sha expires"
    "sql_insert order_check order_clash (reservation_order q av buyer key sha total_amount expires) (orders d)
       = Inr (orders d @ [reservation_order q av buyer key sha total_amount expires])"
    "sql_insert reservation_check reservation_clash r (ticket_reservations d) = Inr (ticket_reservations d @ [r])"
    "reserve_inventory (sql_now q) (av_product_id av) n (product_inventory d) = Inr (1,
       sql_update (inventory_fits (av_product_id av) n)
         (\<lambda>i. i\<lparr>iv_reserved_quantity := iv_reserved_quantity i + n, iv_updated_at := sql_now q\<rparr>) (product_inventory d))"
    "i \<in> set (product_inventory d)" "inventory_fits (av_product_id av) n i"
    "\<not> inventory_overflows (av_product_id av) n i"
    "d' = d\<lparr>orders := orders d @ [reservation_order q av buyer key sha total_amount expires],
       order_items := order_items d @ [reservation_item q av n total_amount],
       product_inventory := sql_update (inventory_fits (av_product_id av) n)
         (\<lambda>i. i\<lparr>iv_reserved_quantity := iv_reserved_quantity i + n, iv_updated_at := sql_now q\<rparr>) (product_inventory d),
       ticket_reservations := ticket_reservations d @ [r], audit_logs := al\<rparr>"
proof -
  let ?sum = "sql_sum trs_quantity (holds_ticket tpid buyer) (ticket_reservations d)"
  let ?e = "now_utc q 0 + minutes reservation_minutes"
  let ?r = "new_reservation q tpid av buyer n key sha ?e"
  let ?inv = "sql_update (inventory_fits (av_product_id av) n)
         (\<lambda>i. i\<lparr>iv_reserved_quantity := iv_reserved_quantity i + n, iv_updated_at := sql_now q\<rparr>) (product_inventory d)"
  from assms obtain ex total_amount o_rows i_rows up r_rows where
    ex: "or_db_error ticketing_error (sql_bigint ?sum) = Inr ex" "\<not> i64_wrap (ex + n) > av_per_user_limit av"
    and tot: "ok_or (checked_i64 (av_amount_minor av * n)) (InvalidRequest ''ticket_amount_overflow'') = Inr total_amount"
    and o: "or_db_error ticketing_error (sql_insert order_check order_clash
        (reservation_order q av buyer key sha total_amount ?e) (orders d)) = Inr o_rows"
    and it: "or_db_error ticketing_error (sql_insert order_item_check order_item_clash
        (reservation_item q av n total_amount) (order_items d)) = Inr i_rows"
    and up: "or_db_error ticketing_error (reserve_inventory (sql_now q) (av_product_id av) n (product_inventory d)) = Inr up"
      "\<not> fst up \<noteq> 1"
    and r: "or_db_error ticketing_error (sql_insert reservation_check reservation_clash ?r (ticket_reservations d)) = Inr r_rows"
    and aud: "\<exists>i org a act ty ent m. ticket_audit ticketing_error i org a act ty ent m
        (d\<lparr>orders := o_rows, order_items := i_rows, product_inventory := snd up, ticket_reservations := r_rows\<rparr>) = Inr d'"
    unfolding place_reservation_def Let_def by (elim bind_InrE if_InrE) blast
  have up': "reserve_inventory (sql_now q) (av_product_id av) n (product_inventory d) = Inr (1, snd up)"
    using up by (cases up) (simp add: or_db_error_Inr)
  then have su: "snd up = ?inv" and no: "\<not> list_ex (inventory_overflows (av_product_id av) n) (product_inventory d)"
    by (auto simp: reserve_inventory_def split: if_splits)
  from up' obtain i where i: "i \<in> set (product_inventory d)" "inventory_fits (av_product_id av) n i"
    by (rule reserve_inventory_one)
  have rows: "o_rows = orders d @ [reservation_order q av buyer key sha total_amount ?e]"
    "i_rows = order_items d @ [reservation_item q av n total_amount]" "r_rows = ticket_reservations d @ [?r]"
    using o it r by (simp_all add: or_db_error_Inr sql_insert_Inr)
  from aud obtain al where d': "d' = d\<lparr>orders := o_rows, order_items := i_rows, product_inventory := snd up,
      ticket_reservations := r_rows, audit_logs := al\<rparr>" by (auto simp: ticket_audit_Inr)
  show ?thesis
    by (rule that [where total_amount = total_amount and expires = ?e and r = ?r and i = i and al = al])
      (use ex tot o r up' i no in \<open>auto simp: or_db_error_Inr sql_bigint_def ok_or_Inr su rows d' list_ex_iff\<close>)
qed

lemma create_reservation_txE:
  assumes "create_reservation_tx env q hdrs tpid body d = Inr (x, d')"
  obtains (existing) r where "r \<in> set (ticket_reservations (release_expired_for_product (sql_now q) tpid d))"
      "x = (200, trs_id r)" "d' = release_expired_for_product (sql_now q) tpid d"
  | (new) av buyer key sha where
      "availability tpid (release_expired_for_product (sql_now q) tpid d) = Some av" "0 < crr_quantity body"
      "av_event_status av = ''on_sale''" "av_product_status av = ''published''"
      "av_sale_starts_at av \<le> now_utc q 0" "now_utc q 0 < av_sale_ends_at av"
      "verified_buyer buyer (release_expired_for_product (sql_now q) tpid d)"
      "place_reservation env q tpid av buyer (crr_quantity body) key sha (release_expired_for_product (sql_now q) tpid d) = Inr d'"
      "require_web_actor env hdrs = Inr buyer" "x = (201, new_uuid q 1)"
proof -
  let ?d = "release_expired_for_product (sql_now q) tpid d"
  from assms obtain buyer key av where buyer: "require_web_actor env hdrs = Inr buyer" and n: "\<not> crr_quantity body \<le> 0"
    and av: "ok_or (availability tpid ?d) NotFound = Inr av"
    and sale: "\<not> (av_event_status av \<noteq> ''on_sale'' \<or> av_product_status av \<noteq> ''published'' \<or>
        now_utc q 0 < av_sale_starts_at av \<or> now_utc q 0 \<ge> av_sale_ends_at av)"
    and ok: "\<not> \<not> verified_buyer buyer ?d"
    and rest: "(case find (\<lambda>r. trs_organization_id r = av_organization_id av \<and> trs_buyer_user_id r = buyer \<and>
          trs_idempotency_key r = key) (ticket_reservations ?d) of
       Some existing \<Rightarrow>
         if trs_request_sha256 existing \<noteq> hash_text env (reservation_text tpid buyer (crr_quantity body) key)
         then Inl (Conflict ''ticket_idempotency_key_reused'')
         else Inr ((200, trs_id existing), ?d)
     | None \<Rightarrow>
         bind_result (place_reservation env q tpid av buyer (crr_quantity body) key
            (hash_text env (reservation_text tpid buyer (crr_quantity body) key)) ?d) (\<lambda>d. Inr ((201, new_uuid q 1), d))) = Inr (x, d')"
    unfolding create_reservation_tx_def Let_def by (elim bind_InrE if_InrE) (rule that, assumption+)
  show ?thesis
  proof (cases "find (\<lambda>r. trs_organization_id r = av_organization_id av \<and> trs_buyer_user_id r = buyer \<and>
          trs_idempotency_key r = key) (ticket_reservations ?d)")
    case (Some r)
    then show ?thesis using rest by (intro existing [of r]) (auto dest: find_Some_in split: if_splits)
  next
    case None
    then show ?thesis using rest buyer n av sale ok by (intro new [of av buyer key]) (auto simp: bind_result_Inr ok_or_Inr)
  qed
qed

end
