(* ===== verification/Ticket_Effects2.thy ===== *)
theory Ticket_Effects2
  imports Ticket_Effects
begin

text \<open>What the handlers of \<open>ticket_operations.rs\<close> and \<open>ticket_transfers.rs\<close> do to the tables when they succeed.\<close>

section \<open>Issuance\<close>

definition issuance_rows :: "draws \<Rightarrow> PaidOrderContext \<Rightarrow> uuid \<Rightarrow> uuid \<Rightarrow> int \<Rightarrow> int list \<Rightarrow> TicketIssuanceRecord list" where
  "issuance_rows q ctx order_id owner serial offsets =
     map (\<lambda>offset. new_issuance q ctx order_id owner offset (serial + offset)) offsets"

lemma insert_issuances_fold:
  assumes "try_fold (\<lambda>rows offset.
        bind_result (ok_or (checked_i64 (serial + offset)) (InvalidRequest ''ticket_serial_overflow'')) (\<lambda>serial_number.
        or_db_error ticket_operation_error (sql_insert issuance_check issuance_clash
          (new_issuance q ctx order_id owner offset serial_number) rows))) rows offsets = Inr rows'"
    "distinct (map tis_id rows)"
  shows "rows' = rows @ issuance_rows q ctx order_id owner serial offsets \<and> distinct (map tis_id rows')"
  using assms
proof (induction offsets arbitrary: rows)
  case (Cons offset offsets)
  from Cons.prems(1) obtain rows1 where ins: "sql_insert issuance_check issuance_clash
          (new_issuance q ctx order_id owner offset (serial + offset)) rows = Inr rows1"
    and rest: "try_fold (\<lambda>rows offset.
        bind_result (ok_or (checked_i64 (serial + offset)) (InvalidRequest ''ticket_serial_overflow'')) (\<lambda>serial_number.
        or_db_error ticket_operation_error (sql_insert issuance_check issuance_clash
          (new_issuance q ctx order_id owner offset serial_number) rows))) rows1 offsets = Inr rows'"
    by (auto simp: bind_result_Inr ok_or_Inr or_db_error_Inr)
  have "rows1 = rows @ [new_issuance q ctx order_id owner offset (serial + offset)]" using ins by (simp add: sql_insert_Inr)
  then have rows: "rows1 @ issuance_rows q ctx order_id owner serial offsets =
      rows @ issuance_rows q ctx order_id owner serial (offset # offsets)" by (simp add: issuance_rows_def)
  from Cons.IH [OF rest issuance_ids.insert_distinct [OF Cons.prems(2) ins]] show ?case unfolding rows .
qed (simp add: issuance_rows_def)

lemma insert_issuances_Inr:
  "insert_issuances q ctx oid owner serial rows = Inr rows' \<Longrightarrow> distinct (map tis_id rows) \<Longrightarrow>
   rows' = rows @ issuance_rows q ctx oid owner serial [1..poc_quantity ctx] \<and> distinct (map tis_id rows')"
  unfolding insert_issuances_def by (rule insert_issuances_fold)

lemma prepare_issuance_txE:
  assumes "prepare_issuance_tx env q hdrs oid d = Inr (x, d')" "distinct (map tis_id (ticket_issuances d))"
  obtains (existing) "load_issuances oid d \<noteq> []" "x = (200, load_issuances oid d)" "d' = d"
  | (new) ctx owner i al where "paid_order_context oid d = Some ctx" "load_issuances oid d = []"
      "poc_order_status ctx = ''paid''" "poc_reservation_status ctx = ''reserved''" "accepted_payment oid d"
      "owner_account (poc_buyer_user_id ctx) d = Some owner"
      "i \<in> set (product_inventory d)" "iv_product_id i = poc_product_id ctx" "poc_quantity ctx \<le> iv_reserved_quantity i"
      "x = (201, load_issuances oid d')"
      "d' = d\<lparr>ticket_issuances := ticket_issuances d @ issuance_rows q ctx oid owner
             (current_serial (poc_ticket_event_id ctx) (ticket_issuances d)) [1..poc_quantity ctx],
           product_inventory := sql_update (\<lambda>i. iv_product_id i = poc_product_id ctx \<and> iv_reserved_quantity i \<ge> poc_quantity ctx)
             (\<lambda>i. i\<lparr>iv_reserved_quantity := iv_reserved_quantity i - poc_quantity ctx,
               iv_fulfilled_quantity := iv_fulfilled_quantity i + poc_quantity ctx, iv_updated_at := sql_now q\<rparr>) (product_inventory d),
           ticket_reservations := sql_update (\<lambda>r. trs_id r = poc_reservation_id ctx \<and> trs_status r = ''reserved'')
             (\<lambda>r. r\<lparr>trs_status := ''converted'', trs_converted_at := Some (sql_now q), trs_updated_at := sql_now q\<rparr>)
             (ticket_reservations d),
           orders := sql_update (\<lambda>ord. or_id ord = oid \<and> or_status ord = ''paid'')
             (\<lambda>ord. ord\<lparr>or_status := ''fulfilling'', or_updated_at := sql_now q\<rparr>) (orders d), audit_logs := al\<rparr>"
      "distinct (map tis_id (ticket_issuances d'))"
proof -
  from assms(1) obtain ctx where ctx: "ok_or (paid_order_context oid d) NotFound = Inr ctx"
    and rest: "(if load_issuances oid d \<noteq> [] then Inr ((200, load_issuances oid d), d)
     else if poc_order_status ctx \<noteq> ''paid'' \<or> poc_reservation_status ctx \<noteq> ''reserved''
       then Inl (Conflict ''ticket_order_not_ready_for_issuance'')
     else if \<not> accepted_payment oid d then Inl (Conflict ''ticket_payment_evidence_missing'')
     else
     bind_result (ok_or (owner_account (poc_buyer_user_id ctx) d) (Conflict ''ticket_owner_wallet_missing'')) (\<lambda>owner.
     bind_result (issue_order q oid ctx owner d) (\<lambda>d.
     Inr ((201, load_issuances oid d), d)))) = Inr (x, d')"
    unfolding prepare_issuance_tx_def by (elim bind_InrE if_InrE) (rule that, assumption+)
  show ?thesis
  proof (cases "load_issuances oid d = []")
    case False
    then show ?thesis using rest by (intro existing) auto
  next
    case True
    with rest obtain owner d1 where ok: "poc_order_status ctx = ''paid''" "poc_reservation_status ctx = ''reserved''"
      "accepted_payment oid d" "owner_account (poc_buyer_user_id ctx) d = Some owner"
      and iss: "issue_order q oid ctx owner d = Inr d1" and fin: "x = (201, load_issuances oid d1)" "d' = d1"
      by (auto simp: bind_result_Inr ok_or_Inr split: if_splits)
    from iss obtain rows up where
      rows: "insert_issuances q ctx oid owner (current_serial (poc_ticket_event_id ctx) (ticket_issuances d)) (ticket_issuances d) = Inr rows"
      and up: "or_db_error ticket_operation_error (fulfil_inventory (sql_now q) (poc_product_id ctx)
        (poc_quantity ctx) (product_inventory d)) = Inr up" "\<not> fst up \<noteq> 1"
      and aud: "ticket_audit ticket_operation_error (new_uuid q (nat (poc_quantity ctx))) (poc_organization_id ctx) None
       ''ticket_issuance.prepare'' ''order'' oid
       (JObj [(''reservation_id'', JStr (poc_reservation_id ctx)),
          (''ticket_product_id'', JStr (poc_ticket_product_id ctx)), (''quantity'', JInt (poc_quantity ctx)),
          (''owner_stellar_account_id'', JStr owner)])
       (d\<lparr>ticket_issuances := rows, product_inventory := snd up,
          ticket_reservations := sql_update (\<lambda>r. trs_id r = poc_reservation_id ctx \<and> trs_status r = ''reserved'')
            (\<lambda>r. r\<lparr>trs_status := ''converted'', trs_converted_at := Some (sql_now q), trs_updated_at := sql_now q\<rparr>)
            (ticket_reservations d),
          orders := sql_update (\<lambda>ord. or_id ord = oid \<and> or_status ord = ''paid'')
            (\<lambda>ord. ord\<lparr>or_status := ''fulfilling'', or_updated_at := sql_now q\<rparr>) (orders d)\<rparr>) = Inr d1"
      unfolding issue_order_def by (elim bind_InrE if_InrE) (rule that, assumption+)
    note R = insert_issuances_Inr [OF rows assms(2)]
    let ?ready = "\<lambda>i. iv_product_id i = poc_product_id ctx \<and> iv_reserved_quantity i \<ge> poc_quantity ctx"
    have up': "fulfil_inventory (sql_now q) (poc_product_id ctx) (poc_quantity ctx) (product_inventory d) = Inr (1, snd up)"
      using up by (cases up) (simp add: or_db_error_Inr)
    then have su: "snd up = sql_update ?ready (\<lambda>i. i\<lparr>iv_reserved_quantity := iv_reserved_quantity i - poc_quantity ctx,
               iv_fulfilled_quantity := iv_fulfilled_quantity i + poc_quantity ctx, iv_updated_at := sql_now q\<rparr>) (product_inventory d)"
      and "sql_count ?ready (product_inventory d) = 1"
      by (auto simp: fulfil_inventory_def Let_def split: if_splits)
    then have "filter ?ready (product_inventory d) \<noteq> []" by (auto simp: sql_count_def)
    then obtain i where i: "i \<in> set (product_inventory d)" "?ready i" by (auto simp: filter_empty_conv)
    from aud obtain al where d1: "d1 = d\<lparr>ticket_issuances := rows, product_inventory := snd up,
          ticket_reservations := sql_update (\<lambda>r. trs_id r = poc_reservation_id ctx \<and> trs_status r = ''reserved'')
            (\<lambda>r. r\<lparr>trs_status := ''converted'', trs_converted_at := Some (sql_now q), trs_updated_at := sql_now q\<rparr>)
            (ticket_reservations d),
          orders := sql_update (\<lambda>ord. or_id ord = oid \<and> or_status ord = ''paid'')
            (\<lambda>ord. ord\<lparr>or_status := ''fulfilling'', or_updated_at := sql_now q\<rparr>) (orders d), audit_logs := al\<rparr>"
      by (rule ticket_audit_logs) simp
    have "ticket_issuances d' = rows" by (simp add: fin d1)
    from R [THEN conjunct2] have dist: "distinct (map tis_id (ticket_issuances d'))" unfolding \<open>ticket_issuances d' = rows\<close> .
    show ?thesis
      by (rule new [of ctx owner i al, OF _ _ _ _ _ _ _ _ _ _ _ dist])
        (use ctx True ok i fin R in \<open>simp_all add: ok_or_Inr d1 su\<close>)
  qed
qed

section \<open>Mint evidence\<close>

lemma accept_mint_Inr:
  assumes "accept_mint q t tok h ev body d = Inr d'"
  obtains os al where
    "sql_insert ownership_check ownership_clash (minted_evidence q t tok h ev body) (ticket_ownership_evidence d)
       = Inr (ticket_ownership_evidence d @ [minted_evidence q t tok h ev body])"
    "list_all (\<lambda>u. tis_id u = tis_id t \<or> tis_token_id u \<noteq> Some tok) (ticket_issuances d) \<or>
       tis_id t \<notin> tis_id ` set (ticket_issuances d)"
    "d' = d\<lparr>ticket_ownership_evidence := ticket_ownership_evidence d @ [minted_evidence q t tok h ev body],
       ticket_issuances := sql_update (\<lambda>u. tis_id u = tis_id t)
         (\<lambda>u. u\<lparr>tis_status := ''issued'', tis_token_id := Some tok, tis_issuance_tx_hash := Some h,
               tis_accepted_evidence_id := Some (new_uuid q 0), tis_issued_at := Some (now_utc q 0),
               tis_updated_at := sql_now q\<rparr>) (ticket_issuances d),
       orders := os, audit_logs := al\<rparr>"
    "os = (if sql_count (\<lambda>u. tis_order_id u = tis_order_id t \<and> tis_status u \<noteq> ''issued'') (ticket_issuances d') = 0
       then sql_update (\<lambda>ord. or_id ord = tis_order_id t \<and> or_status ord = ''fulfilling'')
         (\<lambda>ord. ord\<lparr>or_status := ''fulfilled'', or_updated_at := sql_now q\<rparr>) (orders d) else orders d)"
proof -
  let ?f = "\<lambda>u. u\<lparr>tis_status := ''issued'', tis_token_id := Some tok, tis_issuance_tx_hash := Some h,
               tis_accepted_evidence_id := Some (new_uuid q 0), tis_issued_at := Some (now_utc q 0), tis_updated_at := sql_now q\<rparr>"
  from assms obtain es iss where
    es: "or_db_error ticket_operation_error (sql_insert ownership_check ownership_clash
        (minted_evidence q t tok h ev body) (ticket_ownership_evidence d)) = Inr es"
    and iss: "or_db_error ticket_operation_error (sql_update_unique issuance_clash
        (\<lambda>u. tis_id u = tis_id t) ?f (ticket_issuances d)) = Inr iss"
    and aud: "ticket_audit ticket_operation_error (new_uuid q 1) (tis_organization_id t) None ''ticket_ownership.accept''
       ''ticket_issuance'' (tis_id t)
       (JObj [(''evidence_id'', JStr (new_uuid q 0)), (''token_id'', JStr tok),
          (''transaction_hash'', JStr h), (''ledger_sequence'', JInt (oer_ledger_sequence body)),
          (''contract_event_id'', JStr ev)])
       (d\<lparr>ticket_ownership_evidence := es, ticket_issuances := iss, orders :=
          (if sql_count (\<lambda>u. tis_order_id u = tis_order_id t \<and> tis_status u \<noteq> ''issued'') iss = 0
           then sql_update (\<lambda>ord. or_id ord = tis_order_id t \<and> or_status ord = ''fulfilling'')
             (\<lambda>ord. ord\<lparr>or_status := ''fulfilled'', or_updated_at := sql_now q\<rparr>) (orders d)
           else orders d)\<rparr>) = Inr d'"
    unfolding accept_mint_def Let_def by (elim bind_InrE) (rule that, assumption+)
  from iss have nc: "\<not> list_ex (\<lambda>r. tis_id r = tis_id t \<and>
        list_ex (\<lambda>s. \<not> tis_id s = tis_id t \<and> issuance_clash (?f r) s) (ticket_issuances d)) (ticket_issuances d)"
    and is': "iss = sql_update (\<lambda>u. tis_id u = tis_id t) ?f (ticket_issuances d)"
    by (auto simp: or_db_error_Inr sql_update_unique_def split: if_splits)
  from nc have tk: "list_all (\<lambda>u. tis_id u = tis_id t \<or> tis_token_id u \<noteq> Some tok) (ticket_issuances d) \<or>
       tis_id t \<notin> tis_id ` set (ticket_issuances d)"
    unfolding list_ex_iff list_all_iff issuance_clash_def by fastforce
  have es': "sql_insert ownership_check ownership_clash (minted_evidence q t tok h ev body) (ticket_ownership_evidence d)
       = Inr (ticket_ownership_evidence d @ [minted_evidence q t tok h ev body])"
     "es = ticket_ownership_evidence d @ [minted_evidence q t tok h ev body]" using es by (simp_all add: or_db_error_Inr sql_insert_Inr)
  from aud obtain al where d': "d' = d\<lparr>ticket_ownership_evidence := es, ticket_issuances := iss, orders :=
          (if sql_count (\<lambda>u. tis_order_id u = tis_order_id t \<and> tis_status u \<noteq> ''issued'') iss = 0
           then sql_update (\<lambda>ord. or_id ord = tis_order_id t \<and> or_status ord = ''fulfilling'')
             (\<lambda>ord. ord\<lparr>or_status := ''fulfilled'', or_updated_at := sql_now q\<rparr>) (orders d)
           else orders d), audit_logs := al\<rparr>"
    by (rule ticket_audit_logs) simp
  show ?thesis by (rule that [OF es'(1) tk]) (simp_all add: d' es'(2) is')
qed

lemma accept_ownership_evidence_txE:
  assumes "accept_ownership_evidence_tx env q hdrs iid body d = Inr (x, d')"
  obtains (existing) v where "load_ownership iid d = Some v" "x = (200, v)" "d' = d"
  | (new) t tok h ev a v where "find (\<lambda>t. tis_id t = iid) (ticket_issuances d) = Some t" "load_ownership iid d = None"
      "tis_status t = ''pending'' \<or> tis_status t = ''submitted''" "a \<in> set (stellar_accounts d)"
      "sa_id a = tis_owner_stellar_account_id t" "validate_strkey (CHR ''G'') (oer_owner_address body) ''invalid_ticket_owner_address'' = Inr (sa_address a)"
      "sa_verified_at a \<noteq> None" "accept_mint q t tok h ev body d = Inr d'" "load_ownership iid d' = Some v" "x = (201, v)"
proof -
  from assms obtain tok h ev addr t where
    addr: "validate_strkey (CHR ''G'') (oer_owner_address body) ''invalid_ticket_owner_address'' = Inr addr"
    and "validate_hash (oer_transaction_hash body) ''invalid_ticket_transaction_hash'' = Inr h"
      "required_text (oer_contract_event_id body) 240 ''invalid_ticket_contract_event_id'' = Inr ev"
    and t: "ok_or (find (\<lambda>t. tis_id t = iid) (ticket_issuances d)) NotFound = Inr t"
    and rest: "(case load_ownership iid d of
       Some existing \<Rightarrow>
         if tov_token_id existing \<noteq> tok \<or> tov_transaction_hash existing \<noteq> h
         then Inl (Conflict ''ticket_ownership_evidence_conflict'') else Inr ((200, existing), d)
     | None \<Rightarrow>
         if \<not> List.member [''pending'', ''submitted''] (tis_status t)
         then Inl (Conflict ''ticket_issuance_not_evidence_ready'')
         else
         bind_result (ok_or (map_option sa_address (find (\<lambda>a. sa_id a = tis_owner_stellar_account_id t \<and>
            sa_network a = ''testnet'' \<and> sa_verified_at a \<noteq> None) (stellar_accounts d)))
            (Conflict ''ticket_owner_wallet_missing'')) (\<lambda>expected_owner.
         if expected_owner \<noteq> addr then Inl (Conflict ''ticket_ownership_owner_mismatch'')
         else
         bind_result (accept_mint q t tok h ev body d) (\<lambda>d.
         bind_result (ok_or (load_ownership iid d) NotFound) (\<lambda>view.
         Inr ((201, view), d))))) = Inr (x, d')"
    unfolding accept_ownership_evidence_tx_def by (elim bind_InrE if_InrE) (rule that, assumption+)
  show ?thesis
  proof (cases "load_ownership iid d")
    case (Some v)
    then show ?thesis using rest by (intro existing [of v]) (auto split: if_splits)
  next
    case None
    with rest obtain a v d1 where st: "List.member [''pending'', ''submitted''] (tis_status t)"
      and a: "find (\<lambda>a. sa_id a = tis_owner_stellar_account_id t \<and> sa_network a = ''testnet'' \<and> sa_verified_at a \<noteq> None)
         (stellar_accounts d) = Some a" "sa_address a = addr"
      and m: "accept_mint q t tok h ev body d = Inr d1" "load_ownership iid d1 = Some v" and fin: "x = (201, v)" "d' = d1"
      by (auto simp: bind_result_Inr ok_or_Inr split: if_splits)
    show ?thesis
      by (rule new [OF _ None, of t a tok h ev v]) (use t st a m fin addr find_Some_in [OF a(1)] in \<open>auto simp: ok_or_Inr\<close>)
  qed
qed

section \<open>Check-in\<close>

lemma check_in_ticket_txE:
  assumes "check_in_ticket_tx env q hdrs iid body d = Inr (x, d')"
  obtains t actor h dev al where "find (\<lambda>t. tis_id t = iid) (ticket_issuances d) = Some t" "tis_status t = ''issued''"
    "tis_accepted_evidence_id t \<noteq> None" "require_web_actor env hdrs = Inr actor"
    "require_organization_editor (tis_organization_id t) actor d = Inr ()"
    "\<forall>c \<in> set (ticket_check_ins d). tci_ticket_issuance_id c \<noteq> iid"
    "sql_insert check_in_check check_in_clash (new_check_in q t actor h dev (cir_metadata body)) (ticket_check_ins d)
       = Inr (ticket_check_ins d @ [new_check_in q t actor h dev (cir_metadata body)])"
    "x = (201, check_in_view (new_check_in q t actor h dev (cir_metadata body)))"
    "d' = d\<lparr>ticket_check_ins := ticket_check_ins d @ [new_check_in q t actor h dev (cir_metadata body)], audit_logs := al\<rparr>"
proof -
  from assms obtain actor nonce dev t where
    actor: "require_web_actor env hdrs = Inr actor" and "required_text (cir_nonce body) 500 ''invalid_ticket_check_in_nonce'' = Inr nonce"
    and "optional_text (cir_device_reference body) 240 ''invalid_ticket_check_in_device'' = Inr dev"
    and t: "ok_or (find (\<lambda>t. tis_id t = iid) (ticket_issuances d)) NotFound = Inr t"
    and ed: "require_organization_editor (tis_organization_id t) actor d = Inr ()"
    and st: "\<not> (tis_status t \<noteq> ''issued'' \<or> tis_accepted_evidence_id t = None)"
    and rest: "(case find (\<lambda>c. tci_ticket_issuance_id c = iid) (ticket_check_ins d) of
       Some existing \<Rightarrow>
         Inl (Conflict (if tci_checked_in_by_user_id existing = actor then ''ticket_already_checked_in''
                        else ''ticket_check_in_replay''))
     | None \<Rightarrow>
         bind_result (or_db_error ticket_operation_error (sql_insert check_in_check check_in_clash
            (new_check_in q t actor (hash_text env (''crownfi-ticket-check-in-v1|'' @ iid @ ''|'' @ nonce)) dev (cir_metadata body))
            (ticket_check_ins d))) (\<lambda>check_in_rows.
         bind_result (ticket_audit ticket_operation_error (new_uuid q 1) (tis_organization_id t)
            (Some actor) ''ticket_check_in.accept'' ''ticket_issuance'' iid
            (JObj [(''check_in_id'', JStr (new_uuid q 0)), (''device_reference'', str_or_null dev)])
            (d\<lparr>ticket_check_ins := check_in_rows\<rparr>)) (\<lambda>d.
         Inr ((201, check_in_view (new_check_in q t actor
            (hash_text env (''crownfi-ticket-check-in-v1|'' @ iid @ ''|'' @ nonce)) dev (cir_metadata body))), d)))) = Inr (x, d')"
    unfolding check_in_ticket_tx_def Let_def by (elim bind_InrE if_InrE) (rule that, (assumption | simp (no_asm_simp))+)
  let ?c = "new_check_in q t actor (hash_text env (''crownfi-ticket-check-in-v1|'' @ iid @ ''|'' @ nonce)) dev (cir_metadata body)"
  have none: "find (\<lambda>c. tci_ticket_issuance_id c = iid) (ticket_check_ins d) = None"
    using rest by (cases "find (\<lambda>c. tci_ticket_issuance_id c = iid) (ticket_check_ins d)") auto
  from rest obtain rows d1 where
    ins: "sql_insert check_in_check check_in_clash ?c (ticket_check_ins d) = Inr rows"
    and aud: "ticket_audit ticket_operation_error (new_uuid q 1) (tis_organization_id t)
            (Some actor) ''ticket_check_in.accept'' ''ticket_issuance'' iid
            (JObj [(''check_in_id'', JStr (new_uuid q 0)), (''device_reference'', str_or_null dev)])
            (d\<lparr>ticket_check_ins := rows\<rparr>) = Inr d1"
    and fin: "x = (201, check_in_view ?c)" "d' = d1"
    unfolding none by (auto simp: bind_result_Inr or_db_error_Inr)
  have rows: "rows = ticket_check_ins d @ [?c]" using ins by (simp add: sql_insert_Inr)
  from aud obtain al where d1: "d1 = d\<lparr>ticket_check_ins := rows, audit_logs := al\<rparr>" by (rule ticket_audit_logs) simp
  show ?thesis
    by (rule that [OF _ _ _ actor ed _ _ fin(1), where al = al])
      (use t st none ins in \<open>simp_all add: ok_or_Inr find_None_iff fin(2) d1 rows\<close>)
qed

section \<open>Transfers\<close>

lemma load_transfer_context_Inr:
  assumes "load_transfer_context tid d = Inr c"
  obtains t from_sa to_sa where "find (\<lambda>t. ttr_id t = tid) (ticket_transfer_requests d) = Some t"
    "from_sa \<in> set (stellar_accounts d)" "sa_id from_sa = ttr_from_stellar_account_id t" "sa_address from_sa = tcx_from_address c"
    "to_sa \<in> set (stellar_accounts d)" "sa_id to_sa = ttr_to_stellar_account_id t" "sa_address to_sa = tcx_to_address c"
    "tcx_organization_id c = ttr_organization_id t" "tcx_ticket_issuance_id c = ttr_ticket_issuance_id t"
    "tcx_token_id c = ttr_token_id t" "tcx_from_user_id c = ttr_from_user_id t"
    "tcx_from_stellar_account_id c = ttr_from_stellar_account_id t" "tcx_to_user_id c = ttr_to_user_id t"
    "tcx_to_stellar_account_id c = ttr_to_stellar_account_id t" "tcx_policy c = ttr_policy t" "tcx_status c = ttr_status t"
    "tcx_submitted_tx_hash c = ttr_submitted_tx_hash t"
  using assms unfolding load_transfer_context_def by (auto split: option.splits dest!: find_Some_in)

lemma load_issuance_context_Inr:
  assumes "load_issuance_context iid d = Inr c"
  obtains t tp sa where "find (\<lambda>t. tis_id t = iid) (ticket_issuances d) = Some t" "tp \<in> set (ticket_products d)"
    "tpd_id tp = tis_ticket_product_id t" "sa \<in> set (stellar_accounts d)" "sa_id sa = tis_owner_stellar_account_id t"
    "tic_owner_address c = sa_address sa" "tic_organization_id c = tis_organization_id t"
    "tic_owner_user_id c = tis_owner_user_id t" "tic_owner_stellar_account_id c = tis_owner_stellar_account_id t"
    "tic_token_id c = tis_token_id t" "tic_issuance_status c = tis_status t"
    "tic_accepted_evidence_id c = tis_accepted_evidence_id t" "tic_transfer_policy c = tpd_transfer_policy tp"
  using assms unfolding load_issuance_context_def by (auto split: option.splits dest!: find_Some_in)

lemma create_transfer_txE:
  assumes "create_transfer_tx env q hdrs iid body d = Inr (x, d')"
  obtains (existing) t where "t \<in> set (ticket_transfer_requests d)" "x = (200, t)" "d' = d"
  | (new) actor i dest tok key sha reason al tr where "require_web_actor env hdrs = Inr actor"
      "load_issuance_context iid d = Inr i" "tic_owner_user_id i = actor" "tic_issuance_status i = ''issued''"
      "tic_transfer_policy i \<noteq> ''non_transferable''" "\<forall>c \<in> set (ticket_check_ins d). tci_ticket_issuance_id c \<noteq> iid"
      "dest \<in> set (stellar_accounts d)" "sa_user_id dest \<noteq> actor" "sa_verified_at dest \<noteq> None" "tic_token_id i = Some tok"
      "tr = new_transfer q iid actor i dest tok key sha reason"
      "sql_insert ticket_transfer_check ticket_transfer_clash tr (ticket_transfer_requests d) = Inr (ticket_transfer_requests d @ [tr])"
      "x = (201, tr)"
      "d' = d\<lparr>ticket_transfer_requests := ticket_transfer_requests d @ [tr], audit_logs := al\<rparr>"
proof -
  from assms obtain actor addr key reason i dest where
    actor: "require_web_actor env hdrs = Inr actor" and i: "load_issuance_context iid d = Inr i"
    and g: "\<not> tic_owner_user_id i \<noteq> actor" "\<not> (tic_issuance_status i \<noteq> ''issued'' \<or> tic_accepted_evidence_id i = None)"
      "\<not> tic_transfer_policy i = ''non_transferable''"
      "\<not> list_ex (\<lambda>c. tci_ticket_issuance_id c = iid) (ticket_check_ins d)"
    and dest: "ok_or (find (\<lambda>a. sa_network a = ''testnet'' \<and> sa_address a = addr \<and> sa_verified_at a \<noteq> None)
        (stellar_accounts d)) (InvalidRequest ''ticket_transfer_destination_not_verified'') = Inr dest"
      "\<not> sa_user_id dest = actor"
    and reason: "required_text (ctr_reason body) 1000 ''invalid_ticket_transfer_reason'' = Inr reason"
    and rest: "(case find (\<lambda>t. ttr_organization_id t = tic_organization_id i \<and> ttr_from_user_id t = actor \<and>
          ttr_idempotency_key t = key) (ticket_transfer_requests d) of
       Some existing \<Rightarrow>
         if ttr_request_sha256 existing \<noteq> hash_text env (transfer_text iid actor (tic_owner_address i) addr key)
         then Inl (Conflict ''ticket_transfer_idempotency_conflict'')
         else Inr ((200, existing), d)
     | None \<Rightarrow>
         bind_result (ok_or (tic_token_id i) (Conflict ''ticket_token_missing'')) (\<lambda>token_id.
         bind_result (insert_transfer q (new_transfer q iid actor i dest token_id key
            (hash_text env (transfer_text iid actor (tic_owner_address i) addr key)) reason) i addr d) (\<lambda>d.
         bind_result (load_transfer (new_uuid q 0) d) (\<lambda>record.
         Inr ((201, record), d))))) = Inr (x, d')"
    unfolding create_transfer_tx_def Let_def by (elim bind_InrE if_InrE) (rule that, assumption+)
  show ?thesis
  proof (cases "find (\<lambda>t. ttr_organization_id t = tic_organization_id i \<and> ttr_from_user_id t = actor \<and>
          ttr_idempotency_key t = key) (ticket_transfer_requests d)")
    case (Some t)
    then show ?thesis using rest by (intro existing [of t]) (auto dest: find_Some_in split: if_splits)
  next
    case None
    with rest obtain tok d1 rec where tok: "tic_token_id i = Some tok"
      and ins: "insert_transfer q (new_transfer q iid actor i dest tok key
            (hash_text env (transfer_text iid actor (tic_owner_address i) addr key)) reason) i addr d = Inr d1"
      and ld: "load_transfer (new_uuid q 0) d1 = Inr rec" and fin: "x = (201, rec)" "d' = d1"
      by (auto simp: bind_result_Inr ok_or_Inr)
    let ?t = "new_transfer q iid actor i dest tok key (hash_text env (transfer_text iid actor (tic_owner_address i) addr key)) reason"
    from ins obtain rows where
      r: "or_db_error ticket_transfer_error (sql_insert ticket_transfer_check ticket_transfer_clash ?t (ticket_transfer_requests d)) = Inr rows"
      and aud: "transfer_audit (new_uuid q 1) (tic_organization_id i) (Some (ttr_from_user_id ?t))
       ''ticket_transfer.create'' (ttr_id ?t)
       (JObj [(''ticket_issuance_id'', JStr (ttr_ticket_issuance_id ?t)),
          (''ticket_event_id'', JStr (tic_ticket_event_id i)),
          (''ticket_product_id'', JStr (tic_ticket_product_id i)),
          (''policy'', JStr (tic_transfer_policy i)), (''status'', JStr (ttr_status ?t)),
          (''from_address'', JStr (tic_owner_address i)), (''to_address'', JStr addr)])
       (d\<lparr>ticket_transfer_requests := rows\<rparr>) = Inr d1"
      unfolding insert_transfer_def by (elim bind_InrE) (rule that, assumption+)
    have r': "sql_insert ticket_transfer_check ticket_transfer_clash ?t (ticket_transfer_requests d) = Inr (ticket_transfer_requests d @ [?t])"
      "rows = ticket_transfer_requests d @ [?t]" using r by (simp_all add: or_db_error_Inr sql_insert_Inr)
    from aud obtain al where d1: "d1 = d\<lparr>ticket_transfer_requests := rows, audit_logs := al\<rparr>"
      unfolding transfer_audit_def by (rule ticket_audit_logs) simp
    have "ttr_id ?t = new_uuid q 0" by (simp add: new_transfer_def Let_def)
    then have rec: "rec = ?t" using ld ticket_transfer_ids.find_inserted [OF r'(1)] by (simp add: load_transfer_def ok_or_Inr d1 r'(2))
    show ?thesis
      by (rule new [OF actor i _ _ _ _ _ _ _ tok refl r'(1), where al = al])
        (use g dest fin rec find_Some_in [of _ "stellar_accounts d" dest] in \<open>auto simp: ok_or_Inr d1 r'(2) list_ex_iff\<close>)
  qed
qed

text \<open>A review and a submission change the progress of one request.\<close>

lemma review_transfer_txE:
  assumes "review_transfer_tx env q hdrs tid body d = Inr (x, d')"
  obtains actor t reason st al where "require_web_actor env hdrs = Inr actor"
    "find (\<lambda>t. ttr_id t = tid) (ticket_transfer_requests d) = Some t"
    "require_organization_editor (ttr_organization_id t) actor d = Inr ()" "ttr_status t = ''requested''"
    "ttr_policy t = ''organizer_approved''" "st = ''approved'' \<or> st = ''rejected''"
    "d' = d\<lparr>ticket_transfer_requests := sql_update (\<lambda>t. ttr_id t = tid \<and> ttr_status t = ''requested'')
         (\<lambda>t. t\<lparr>ttr_status := st, ttr_reviewed_by_user_id := Some actor, ttr_review_reason := Some reason,
                ttr_reviewed_at := Some (sql_now q), ttr_updated_at := sql_now q\<rparr>) (ticket_transfer_requests d),
       audit_logs := al\<rparr>"
proof -
  let ?dec = "to_ascii_lowercase (trim (rtr_decision body))"
  let ?st = "if ?dec = ''approve'' then ''approved'' else ''rejected''"
  from assms obtain actor reason c d1 rec where
    actor: "require_web_actor env hdrs = Inr actor" and c: "load_transfer_context tid d = Inr c"
    and reason: "required_text (rtr_reason body) 1000 ''invalid_ticket_transfer_review_reason'' = Inr reason"
    and ed: "require_organization_editor (tcx_organization_id c) actor d = Inr ()"
    and st: "\<not> (tcx_status c \<noteq> ''requested'' \<or> tcx_policy c \<noteq> ''organizer_approved'')"
    and aud: "transfer_audit (new_uuid q 0) (tcx_organization_id c) (Some actor)
        (if ?dec = ''approve'' then ''ticket_transfer.approve'' else ''ticket_transfer.reject'') tid
        (JObj [(''reason'', JStr reason)])
        (d\<lparr>ticket_transfer_requests := sql_update (\<lambda>t. ttr_id t = tid \<and> ttr_status t = ''requested'')
             (\<lambda>t. t\<lparr>ttr_status := ?st, ttr_reviewed_by_user_id := Some actor, ttr_review_reason := Some reason,
                    ttr_reviewed_at := Some (sql_now q), ttr_updated_at := sql_now q\<rparr>)
             (ticket_transfer_requests d)\<rparr>) = Inr d1"
    and "load_transfer tid d1 = Inr rec" and fin: "Inr (rec, d1) = (Inr (x, d') :: api_error + TransferRecord \<times> ticket_db)"
    unfolding review_transfer_tx_def Let_def
    by (elim bind_InrE if_InrE) (rule that, (assumption | simp (no_asm_simp))+)
  from aud obtain al where d1: "d1 = d\<lparr>ticket_transfer_requests := sql_update (\<lambda>t. ttr_id t = tid \<and> ttr_status t = ''requested'')
             (\<lambda>t. t\<lparr>ttr_status := ?st, ttr_reviewed_by_user_id := Some actor, ttr_review_reason := Some reason,
                    ttr_reviewed_at := Some (sql_now q), ttr_updated_at := sql_now q\<rparr>)
             (ticket_transfer_requests d), audit_logs := al\<rparr>"
    unfolding transfer_audit_def by (rule ticket_audit_logs) simp
  from c show ?thesis
  proof (cases rule: load_transfer_context_Inr)
    case (1 t from_sa to_sa)
    show ?thesis
      by (rule that [OF actor 1(1), where st = ?st and reason = reason and al = al])
        (use 1(8,15,16) ed st fin in \<open>simp_all add: d1\<close>)
  qed
qed

lemma record_transfer_submission_txE:
  assumes "record_transfer_submission_tx env q hdrs tid h d = Inr (x, d')"
  obtains (existing) "d' = d"
  | (new) t hash al where "find (\<lambda>t. ttr_id t = tid) (ticket_transfer_requests d) = Some t" "ttr_status t = ''approved''"
      "d' = d\<lparr>ticket_transfer_requests := sql_update (\<lambda>t. ttr_id t = tid \<and> ttr_status t = ''approved'')
         (\<lambda>t. t\<lparr>ttr_status := ''submitted'', ttr_submitted_tx_hash := Some hash,
                ttr_submitted_at := Some (sql_now q), ttr_updated_at := sql_now q\<rparr>) (ticket_transfer_requests d),
         audit_logs := al\<rparr>"
proof -
  from assms obtain hash c where c: "load_transfer_context tid d = Inr c"
    and rest: "(if tcx_status c = ''submitted'' then
       (if tcx_submitted_tx_hash c \<noteq> Some hash then Inl (Conflict ''ticket_transfer_submission_conflict'')
        else bind_result (load_transfer tid d) (\<lambda>record. Inr (record, d)))
     else if tcx_status c \<noteq> ''approved'' then Inl (Conflict ''ticket_transfer_not_approved'')
     else
     bind_result (transfer_audit (new_uuid q 0) (tcx_organization_id c) None ''ticket_transfer.submit''
        tid (JObj [(''transaction_hash'', JStr hash)])
        (d\<lparr>ticket_transfer_requests := sql_update (\<lambda>t. ttr_id t = tid \<and> ttr_status t = ''approved'')
             (\<lambda>t. t\<lparr>ttr_status := ''submitted'', ttr_submitted_tx_hash := Some hash,
                    ttr_submitted_at := Some (sql_now q), ttr_updated_at := sql_now q\<rparr>)
             (ticket_transfer_requests d)\<rparr>)) (\<lambda>d.
     bind_result (load_transfer tid d) (\<lambda>record. Inr (record, d)))) = Inr (x, d')"
    unfolding record_transfer_submission_tx_def by (elim bind_InrE if_InrE) (rule that, assumption+)
  show ?thesis
  proof (cases "tcx_status c = ''submitted''")
    case True
    then show ?thesis using rest by (intro existing) (auto simp: bind_result_Inr split: if_splits)
  next
    case False
    with rest obtain d1 where st: "tcx_status c = ''approved''"
      and aud: "transfer_audit (new_uuid q 0) (tcx_organization_id c) None ''ticket_transfer.submit''
        tid (JObj [(''transaction_hash'', JStr hash)])
        (d\<lparr>ticket_transfer_requests := sql_update (\<lambda>t. ttr_id t = tid \<and> ttr_status t = ''approved'')
             (\<lambda>t. t\<lparr>ttr_status := ''submitted'', ttr_submitted_tx_hash := Some hash,
                    ttr_submitted_at := Some (sql_now q), ttr_updated_at := sql_now q\<rparr>)
             (ticket_transfer_requests d)\<rparr>) = Inr d1" and fin: "d' = d1"
      by (auto simp: bind_result_Inr split: if_splits)
    from aud obtain al where d1: "d1 = d\<lparr>ticket_transfer_requests := sql_update (\<lambda>t. ttr_id t = tid \<and> ttr_status t = ''approved'')
             (\<lambda>t. t\<lparr>ttr_status := ''submitted'', ttr_submitted_tx_hash := Some hash,
                    ttr_submitted_at := Some (sql_now q), ttr_updated_at := sql_now q\<rparr>)
             (ticket_transfer_requests d), audit_logs := al\<rparr>"
      unfolding transfer_audit_def by (rule ticket_audit_logs) simp
    from c show ?thesis
    proof (cases rule: load_transfer_context_Inr)
      case (1 t from_sa to_sa)
      then show ?thesis using st by (intro new [where hash = hash and al = al, OF 1(1)]) (simp_all add: fin d1)
    qed
  qed
qed

lemma accept_transfer_evidence_txE:
  assumes "accept_transfer_evidence_tx env q hdrs tid body d = Inr (x, d')"
  obtains (existing) t where "t \<in> set (ticket_transfer_requests d)" "ttr_id t = tid" "ttr_status t = ''confirmed''"
      "x = (200, t)" "d' = d"
  | (new) tr t c e al where "find (\<lambda>t. ttr_id t = tid) (ticket_transfer_requests d) = Some tr"
      "find (\<lambda>t. tis_id t = ttr_ticket_issuance_id tr) (ticket_issuances d) = Some t" "ttr_status tr = ''submitted''"
      "ttr_submitted_tx_hash tr = Some (toe_transaction_hash e)" "tis_owner_stellar_account_id t = ttr_from_stellar_account_id tr"
      "tis_owner_user_id t = ttr_from_user_id tr" "tis_token_id t = Some (toe_token_id e)" "ttr_token_id tr = toe_token_id e"
      "toe_id e = new_uuid q 0" "toe_ticket_issuance_id e = tis_id t" "toe_owner_stellar_account_id e = ttr_to_stellar_account_id tr"
      "toe_event_kind e = ''transfer''"
      "validate_strkey (CHR ''G'') (tte_from_address body) ''invalid_ticket_transfer_address'' = Inr (tcx_from_address c)"
      "validate_strkey (CHR ''G'') (tte_to_address body) ''invalid_ticket_transfer_address'' = Inr (tcx_to_address c)"
      "load_transfer_context tid d = Inr c"
      "sql_insert ownership_check ownership_clash e (ticket_ownership_evidence d) = Inr (ticket_ownership_evidence d @ [e])"
      "d' = d\<lparr>ticket_ownership_evidence := ticket_ownership_evidence d @ [e],
         ticket_issuances := sql_update (\<lambda>u. tis_id u = tis_id t)
           (\<lambda>u. u\<lparr>tis_owner_user_id := ttr_to_user_id tr, tis_owner_stellar_account_id := ttr_to_stellar_account_id tr,
                  tis_accepted_evidence_id := Some (new_uuid q 0), tis_status := ''issued'', tis_updated_at := sql_now q\<rparr>)
           (ticket_issuances d),
         ticket_transfer_requests := sql_update (\<lambda>t. ttr_id t = tid)
            (\<lambda>t. t\<lparr>ttr_status := ''confirmed'', ttr_accepted_evidence_id := Some (new_uuid q 0),
                   ttr_confirmed_at := Some (now_utc q 0), ttr_updated_at := sql_now q\<rparr>) (ticket_transfer_requests d),
         audit_logs := al\<rparr>"
proof -
  from assms obtain h ref tok from_a to_a c where
    "validate_hash (tte_transaction_hash body) ''invalid_ticket_transfer_transaction_hash'' = Inr h"
    and "required_text (tte_event_reference body) 240 ''invalid_ticket_transfer_event_reference'' = Inr ref"
    and addr: "validate_strkey (CHR ''G'') (tte_from_address body) ''invalid_ticket_transfer_address'' = Inr from_a"
      "validate_strkey (CHR ''G'') (tte_to_address body) ''invalid_ticket_transfer_address'' = Inr to_a"
    and c: "load_transfer_context tid d = Inr c"
    and rest: "(if tcx_status c = ''confirmed'' then bind_result (load_transfer tid d) (\<lambda>record. Inr ((200, record), d))
     else if tcx_status c \<noteq> ''submitted'' \<or> tcx_submitted_tx_hash c \<noteq> Some h
       then Inl (Conflict ''ticket_transfer_not_submitted'')
     else if tcx_token_id c \<noteq> tok \<or> tcx_from_address c \<noteq> from_a \<or> tcx_to_address c \<noteq> to_a
       then Inl (Conflict ''ticket_transfer_evidence_mismatch'')
     else
     bind_result (load_issuance_context (tcx_ticket_issuance_id c) d) (\<lambda>current.
     if tic_owner_stellar_account_id current \<noteq> tcx_from_stellar_account_id c \<or>
        tic_owner_user_id current \<noteq> tcx_from_user_id c \<or> tic_token_id current \<noteq> Some tok
       then Inl (Conflict ''ticket_transfer_source_owner_drift'')
     else
     bind_result (move_ticket q tid c tok h ref body from_a to_a d) (\<lambda>d.
     bind_result (load_transfer tid d) (\<lambda>record.
     Inr ((201, record), d))))) = Inr (x, d')"
    unfolding accept_transfer_evidence_tx_def by (elim bind_InrE if_InrE) (rule that, assumption+)
  from c show ?thesis
  proof (cases rule: load_transfer_context_Inr)
    case (1 tr from_sa to_sa)
    show ?thesis
    proof (cases "tcx_status c = ''confirmed''")
      case True
      then show ?thesis using rest 1(1,16) find_Some_in [OF 1(1)]
        by (intro existing [of tr]) (auto simp: bind_result_Inr load_transfer_def ok_or_Inr)
    next
      case False
      with rest obtain i d1 where g: "tcx_status c = ''submitted''" "tcx_submitted_tx_hash c = Some h" "tcx_token_id c = tok"
        "tcx_from_address c = from_a" "tcx_to_address c = to_a"
        and i: "load_issuance_context (tcx_ticket_issuance_id c) d = Inr i"
        and o: "tic_owner_stellar_account_id i = tcx_from_stellar_account_id c" "tic_owner_user_id i = tcx_from_user_id c"
          "tic_token_id i = Some tok"
        and m: "move_ticket q tid c tok h ref body from_a to_a d = Inr d1" and fin: "d' = d1"
        by (auto simp: bind_result_Inr split: if_splits)
      let ?e = "moved_evidence q c tok h ref body"
      from m obtain rows where
        r: "or_db_error ticket_transfer_error (sql_insert ownership_check ownership_clash ?e (ticket_ownership_evidence d)) = Inr rows"
        and aud: "transfer_audit (new_uuid q 1) (tcx_organization_id c) None ''ticket_transfer.confirm'' tid
       (JObj [(''ticket_issuance_id'', JStr (tcx_ticket_issuance_id c)),
          (''evidence_id'', JStr (new_uuid q 0)), (''transaction_hash'', JStr h),
          (''ledger_sequence'', JInt (tte_ledger_sequence body)), (''event_reference'', JStr ref),
          (''from_address'', JStr from_a), (''to_address'', JStr to_a)])
       (d\<lparr>ticket_ownership_evidence := rows,
          ticket_issuances := sql_update (\<lambda>t. tis_id t = tcx_ticket_issuance_id c)
            (\<lambda>t. t\<lparr>tis_owner_user_id := tcx_to_user_id c,
                   tis_owner_stellar_account_id := tcx_to_stellar_account_id c,
                   tis_accepted_evidence_id := Some (new_uuid q 0), tis_status := ''issued'',
                   tis_updated_at := sql_now q\<rparr>) (ticket_issuances d),
          ticket_transfer_requests := sql_update (\<lambda>t. ttr_id t = tid)
            (\<lambda>t. t\<lparr>ttr_status := ''confirmed'', ttr_accepted_evidence_id := Some (new_uuid q 0),
                   ttr_confirmed_at := Some (now_utc q 0), ttr_updated_at := sql_now q\<rparr>)
            (ticket_transfer_requests d)\<rparr>) = Inr d1"
        unfolding move_ticket_def by (elim bind_InrE) (rule that, assumption+)
      have r': "sql_insert ownership_check ownership_clash ?e (ticket_ownership_evidence d) = Inr (ticket_ownership_evidence d @ [?e])"
        "rows = ticket_ownership_evidence d @ [?e]" using r by (simp_all add: or_db_error_Inr sql_insert_Inr)
      from aud obtain al where d1: "d1 = d\<lparr>ticket_ownership_evidence := rows,
          ticket_issuances := sql_update (\<lambda>t. tis_id t = tcx_ticket_issuance_id c)
            (\<lambda>t. t\<lparr>tis_owner_user_id := tcx_to_user_id c,
                   tis_owner_stellar_account_id := tcx_to_stellar_account_id c,
                   tis_accepted_evidence_id := Some (new_uuid q 0), tis_status := ''issued'',
                   tis_updated_at := sql_now q\<rparr>) (ticket_issuances d),
          ticket_transfer_requests := sql_update (\<lambda>t. ttr_id t = tid)
            (\<lambda>t. t\<lparr>ttr_status := ''confirmed'', ttr_accepted_evidence_id := Some (new_uuid q 0),
                   ttr_confirmed_at := Some (now_utc q 0), ttr_updated_at := sql_now q\<rparr>)
            (ticket_transfer_requests d), audit_logs := al\<rparr>"
        unfolding transfer_audit_def by (rule ticket_audit_logs) simp
      from i show ?thesis
      proof (cases rule: load_issuance_context_Inr)
        case i: (1 t tp sa)
        from find_Some_in [OF i(1)] have tid': "tis_id t = tcx_ticket_issuance_id c" by simp
        show ?thesis
          by (rule new [where tr = tr and t = t and e = ?e and al = al, OF 1(1) _ _ _ _ _ _ _ _ _ _ _ _ _ c r'(1)])
            (use 1 g o i tid' addr in \<open>simp_all add: moved_evidence_def fin d1 r'(2)\<close>)
      qed
    qed
  qed
qed

end
