(* ===== verification/Ticket_System.thy ===== *)
theory Ticket_System
  imports Ticket_Effects2
begin

text \<open>
  Ticketing as a system of requests, and its invariant: stock, reservations and issuances balance, serial numbers
  have no gaps, and every issued ticket has an unbroken chain of accepted evidence from its mint to its owner.
\<close>

section \<open>Steps\<close>

definition ticket_tables where
  "ticket_tables d = (ticket_products d, ticket_reservations d, ticket_issuances d, ticket_check_ins d,
     ticket_ownership_evidence d, ticket_transfer_requests d)"

text \<open>What the rest of the program may do to the stock of a ticket product: reserve more of it, as \<open>orders.rs\<close> does.\<close>

definition stock_grows :: "ticket_db \<Rightarrow> ticket_db \<Rightarrow> bool" where
  "stock_grows d d' \<longleftrightarrow> distinct (map iv_product_id (product_inventory d')) \<and>
     (\<forall>p \<in> set (ticket_products d). \<forall>i \<in> set (product_inventory d). iv_product_id i = tpd_product_id p \<longrightarrow>
        (\<exists>i' \<in> set (product_inventory d'). iv_product_id i' = iv_product_id i \<and> iv_supply_limit i' = iv_supply_limit i \<and>
           iv_fulfilled_quantity i' = iv_fulfilled_quantity i \<and> iv_reserved_quantity i \<le> iv_reserved_quantity i' \<and>
           inventory_check i'))"

text \<open>Orders are never deleted and never change hands.\<close>

definition orders_kept :: "ticket_db \<Rightarrow> ticket_db \<Rightarrow> bool" where
  "orders_kept d d' \<longleftrightarrow> distinct (map or_id (orders d')) \<and>
     (\<forall>ord \<in> set (orders d). \<exists>ord' \<in> set (orders d'). or_id ord' = or_id ord \<and> or_buyer_user_id ord' = or_buyer_user_id ord)"

inductive ticket_step :: "env \<Rightarrow> ticket_db \<Rightarrow> ticket_db \<Rightarrow> bool" for env where
  step_create_event: "ticket_step env d (snd (create_event env q hdrs ev_body d))"
| step_on_sale: "ticket_step env d (snd (put_event_on_sale env q hdrs eid reason d))"
| step_create_product: "ticket_step env d (snd (create_product env q hdrs eid p_body d))"
| step_reservation: "ticket_step env d (snd (create_reservation env q hdrs tpid r_body d))"
| step_issuance: "ticket_step env d (snd (prepare_issuance env q hdrs oid d))"
| step_mint: "ticket_step env d (snd (accept_ownership_evidence env q hdrs iid o_body d))"
| step_check_in: "ticket_step env d (snd (check_in_ticket env q hdrs iid c_body d))"
| step_transfer: "ticket_step env d (snd (create_transfer env q hdrs iid t_body d))"
| step_review: "ticket_step env d (snd (review_transfer env q hdrs tid v_body d))"
| step_submission: "ticket_step env d (snd (record_transfer_submission env q hdrs tid h d))"
| step_move: "ticket_step env d (snd (accept_transfer_evidence env q hdrs tid m_body d))"
| step_elsewhere: "ticket_tables d' = ticket_tables d \<Longrightarrow> stock_grows d d' \<Longrightarrow> orders_kept d d' \<Longrightarrow> ticket_step env d d'"

section \<open>The invariant\<close>

definition reserved_for :: "uuid \<Rightarrow> ticket_reservation_row list \<Rightarrow> int" where
  "reserved_for tp rs = sql_sum trs_quantity (\<lambda>r. trs_ticket_product_id r = tp \<and> trs_status r = ''reserved'') rs"

definition converted_for :: "uuid \<Rightarrow> ticket_reservation_row list \<Rightarrow> int" where
  "converted_for tp rs = sql_sum trs_quantity (\<lambda>r. trs_ticket_product_id r = tp \<and> trs_status r = ''converted'') rs"

definition stocked :: "ticket_product_row \<Rightarrow> inventory_row list \<Rightarrow> ticket_reservation_row list \<Rightarrow> bool" where
  "stocked p is rs \<longleftrightarrow> (\<exists>i \<in> set is. iv_product_id i = tpd_product_id p \<and> iv_supply_limit i \<noteq> None \<and> inventory_check i \<and>
     reserved_for (tpd_id p) rs \<le> iv_reserved_quantity i \<and> converted_for (tpd_id p) rs = iv_fulfilled_quantity i)"

definition within_limit :: "ticket_product_row \<Rightarrow> ticket_reservation_row list \<Rightarrow> bool" where
  "within_limit p rs \<longleftrightarrow> (\<forall>u. sql_sum trs_quantity (holds_ticket (tpd_id p) u) rs \<le> tpd_per_user_limit p)"

definition reservation_ok :: "ticket_product_row list \<Rightarrow> ticket_reservation_row \<Rightarrow> bool" where
  "reservation_ok ps r \<longleftrightarrow> 0 < trs_quantity r \<and> trs_ticket_product_id r \<in> tpd_id ` set ps \<and>
     (trs_status r = ''reserved'' \<or> trs_status r = ''converted'' \<or> trs_status r = ''expired'')"

definition stock_inv :: "ticket_product_row list \<Rightarrow> inventory_row list \<Rightarrow> ticket_reservation_row list \<Rightarrow> bool" where
  "stock_inv ps is rs \<longleftrightarrow> distinct (map tpd_id ps) \<and> distinct (map tpd_product_id ps) \<and> distinct (map iv_product_id is) \<and>
     distinct (map trs_id rs) \<and> distinct (map trs_order_id rs) \<and> (\<forall>r \<in> set rs. reservation_ok ps r) \<and>
     (\<forall>p \<in> set ps. stocked p is rs \<and> within_limit p rs)"

definition buyers_ok :: "OrderRecord list \<Rightarrow> ticket_reservation_row list \<Rightarrow> bool" where
  "buyers_ok os rs \<longleftrightarrow> distinct (map or_id os) \<and>
     (\<forall>r \<in> set rs. \<exists>ord \<in> set os. or_id ord = trs_order_id r \<and> or_buyer_user_id ord = trs_buyer_user_id r)"

definition issued_for :: "uuid \<Rightarrow> TicketIssuanceRecord list \<Rightarrow> int" where
  "issued_for order_id ts = sql_count (\<lambda>t. tis_order_id t = order_id) ts"

definition serials_ok :: "TicketIssuanceRecord list \<Rightarrow> bool" where
  "serials_ok ts \<longleftrightarrow> (\<forall>ev. map tis_serial_number (filter (\<lambda>t. tis_ticket_event_id t = ev) ts) =
     [1..sql_count (\<lambda>t. tis_ticket_event_id t = ev) ts])"

definition issue_inv ::
  "ticket_product_row list \<Rightarrow> ticket_reservation_row list \<Rightarrow> TicketIssuanceRecord list \<Rightarrow> bool" where
  "issue_inv ps rs ts \<longleftrightarrow> distinct (map tis_id ts) \<and>
     (\<forall>r \<in> set rs. issued_for (trs_order_id r) ts = (if trs_status r = ''converted'' then trs_quantity r else 0)) \<and>
     (\<forall>t \<in> set ts. \<exists>r \<in> set rs. trs_order_id r = tis_order_id t \<and> trs_ticket_product_id r = tis_ticket_product_id t) \<and>
     (\<forall>t \<in> set ts. \<exists>p \<in> set ps. tpd_id p = tis_ticket_product_id t \<and> tpd_ticket_event_id p = tis_ticket_event_id t) \<and>
     serials_ok ts"

text \<open>One accepted move of a ticket, between two consecutive pieces of its evidence.\<close>

definition moved_by :: "TransferRecord list \<Rightarrow> ownership_evidence_row \<Rightarrow> ownership_evidence_row \<Rightarrow> bool" where
  "moved_by xs a b \<longleftrightarrow> (\<exists>x \<in> set xs. ttr_status x = ''confirmed'' \<and> ttr_accepted_evidence_id x = Some (toe_id b) \<and>
     ttr_ticket_issuance_id x = toe_ticket_issuance_id b \<and> ttr_from_stellar_account_id x = toe_owner_stellar_account_id a \<and>
     ttr_to_stellar_account_id x = toe_owner_stellar_account_id b \<and> ttr_submitted_tx_hash x = Some (toe_transaction_hash b))"

fun linked :: "TransferRecord list \<Rightarrow> ownership_evidence_row list \<Rightarrow> bool" where
  "linked xs (a # b # es) = (moved_by xs a b \<and> linked xs (b # es))"
| "linked xs _ = True"

definition evidence_of :: "uuid \<Rightarrow> ownership_evidence_row list \<Rightarrow> ownership_evidence_row list" where
  "evidence_of iid es = filter (\<lambda>e. toe_ticket_issuance_id e = iid) es"

definition bought :: "ticket_reservation_row list \<Rightarrow> TicketIssuanceRecord \<Rightarrow> bool" where
  "bought rs t \<longleftrightarrow> (\<exists>r \<in> set rs. trs_order_id r = tis_order_id t \<and> trs_buyer_user_id r = tis_owner_user_id t)"

definition received :: "TransferRecord list \<Rightarrow> TicketIssuanceRecord \<Rightarrow> bool" where
  "received xs t \<longleftrightarrow> (\<exists>x \<in> set xs. ttr_status x = ''confirmed'' \<and> ttr_ticket_issuance_id x = tis_id t \<and>
     ttr_accepted_evidence_id x = tis_accepted_evidence_id t \<and> ttr_to_user_id x = tis_owner_user_id t \<and>
     ttr_to_stellar_account_id x = tis_owner_stellar_account_id t)"

definition history_ok ::
  "ticket_reservation_row list \<Rightarrow> TransferRecord list \<Rightarrow> TicketIssuanceRecord \<Rightarrow> ownership_evidence_row list \<Rightarrow> bool" where
  "history_ok rs xs t h \<longleftrightarrow>
     (case h of
        [] \<Rightarrow> tis_status t = ''pending'' \<and> tis_accepted_evidence_id t = None \<and> tis_token_id t = None \<and> bought rs t
      | m # moves \<Rightarrow> tis_status t = ''issued'' \<and> toe_event_kind m = ''mint'' \<and>
          (\<forall>e \<in> set moves. toe_event_kind e = ''transfer'') \<and> linked xs h \<and>
          tis_accepted_evidence_id t = Some (toe_id (last h)) \<and>
          tis_owner_stellar_account_id t = toe_owner_stellar_account_id (last h) \<and>
          (\<forall>e \<in> set h. tis_token_id t = Some (toe_token_id e)) \<and>
          (if moves = [] then bought rs t else received xs t))"

definition transfer_of_product :: "ticket_product_row list \<Rightarrow> TicketIssuanceRecord list \<Rightarrow> TransferRecord \<Rightarrow> bool" where
  "transfer_of_product ps ts x \<longleftrightarrow> (\<exists>t \<in> set ts. \<exists>p \<in> set ps. tis_id t = ttr_ticket_issuance_id x \<and>
     tpd_id p = tis_ticket_product_id t \<and> ttr_policy x = tpd_transfer_policy p \<and> ttr_policy x \<noteq> ''non_transferable'')"

definition owner_inv ::
  "ticket_product_row list \<Rightarrow> ticket_reservation_row list \<Rightarrow> TicketIssuanceRecord list \<Rightarrow> ownership_evidence_row list \<Rightarrow>
   TransferRecord list \<Rightarrow> ticket_check_in_row list \<Rightarrow> bool" where
  "owner_inv ps rs ts es xs cs \<longleftrightarrow> distinct (map toe_id es) \<and> distinct (map ttr_id xs) \<and>
     distinct (map tci_ticket_issuance_id cs) \<and>
     (\<forall>e \<in> set es. toe_ticket_issuance_id e \<in> tis_id ` set ts) \<and>
     (\<forall>t \<in> set ts. history_ok rs xs t (evidence_of (tis_id t) es)) \<and>
     (\<forall>x \<in> set xs. transfer_of_product ps ts x) \<and>
     (\<forall>c \<in> set cs. \<exists>t \<in> set ts. tis_id t = tci_ticket_issuance_id c \<and> tis_status t = ''issued'')"

definition ticket_inv :: "ticket_db \<Rightarrow> bool" where
  "ticket_inv d \<longleftrightarrow> buyers_ok (orders d) (ticket_reservations d) \<and>
     stock_inv (ticket_products d) (product_inventory d) (ticket_reservations d) \<and>
     issue_inv (ticket_products d) (ticket_reservations d) (ticket_issuances d) \<and>
     owner_inv (ticket_products d) (ticket_reservations d) (ticket_issuances d) (ticket_ownership_evidence d)
       (ticket_transfer_requests d) (ticket_check_ins d)"

definition ticket_start :: "ticket_db \<Rightarrow> bool" where
  "ticket_start d \<longleftrightarrow> distinct (map or_id (orders d)) \<and> distinct (map iv_product_id (product_inventory d)) \<and> ticket_products d = [] \<and>
     ticket_reservations d = [] \<and> ticket_issuances d = [] \<and> ticket_check_ins d = [] \<and>
     ticket_ownership_evidence d = [] \<and> ticket_transfer_requests d = []"

definition ticket_reachable :: "env \<Rightarrow> ticket_db \<Rightarrow> bool" where
  "ticket_reachable env d \<longleftrightarrow> (\<exists>d0. ticket_start d0 \<and> (ticket_step env)\<^sup>*\<^sup>* d0 d)"

lemma ticket_inv_start: "ticket_start d \<Longrightarrow> ticket_inv d"
  by (simp add: ticket_start_def ticket_inv_def stock_inv_def issue_inv_def owner_inv_def serials_ok_def sql_count_def buyers_ok_def)

section \<open>Sums and counts under updates\<close>

lemma sql_update_only:
  assumes "distinct (map key rows)" "r \<in> set rows" "p r" "\<And>s. p s \<Longrightarrow> key s = key r"
  shows "sql_update p f rows = sql_update (\<lambda>s. s = r) f rows"
proof -
  have "p s \<longleftrightarrow> s = r" if "s \<in> set rows" for s
    using that assms by (auto simp: distinct_map dest: inj_onD)
  then show ?thesis by (simp add: sql_update_def)
qed

lemma sql_sum_update_only:
  assumes "distinct rows" "r \<in> set rows"
  shows "sql_sum g P (sql_update (\<lambda>s. s = r) f rows) =
     sql_sum g P rows - (if P r then g r else 0) + (if P (f r) then g (f r) else 0)"
  using assms
proof (induction rows)
  case (Cons x rows)
  show ?case
  proof (cases "x = r")
    case True
    then have "r \<notin> set rows" using Cons.prems(1) by simp
    then have "sql_update (\<lambda>s. s = r) f rows = rows" by (induction rows) (auto simp: sql_update_def)
    with True show ?thesis by (simp add: sql_update_def sql_sum_def)
  next
    case False
    then show ?thesis using Cons by (auto simp: sql_update_def sql_sum_def)
  qed
qed simp

lemma ticket_sum_append [simp]: "sql_sum g P (xs @ ys) = sql_sum g P xs + sql_sum g P ys"
  by (simp add: sql_sum_def)

lemma sql_sum_single [simp]: "sql_sum g P [x] = (if P x then g x else 0)"
  by (simp add: sql_sum_def)

lemma sql_sum_Nil [simp]: "sql_sum g P [] = 0"
  by (simp add: sql_sum_def)

lemma sql_count_append [simp]: "sql_count P (xs @ ys) = sql_count P xs + sql_count P ys"
  by (simp add: sql_count_def)

lemma sql_sum_member_le:
  assumes "r \<in> set rows" "P r" "\<And>s. s \<in> set rows \<Longrightarrow> 0 \<le> g s"
  shows "g r \<le> sql_sum g P rows"
  unfolding sql_sum_def by (rule member_le_sum_list) (use assms in auto)

lemma ticket_sum_nonneg: "(\<And>s. s \<in> set rows \<Longrightarrow> 0 \<le> g s) \<Longrightarrow> 0 \<le> sql_sum g P rows"
  unfolding sql_sum_def by (rule sum_list_nonneg) auto

lemma sql_sum_le_split:
  assumes "\<And>s. s \<in> set rows \<Longrightarrow> 0 \<le> g s" "\<And>s. s \<in> set rows \<Longrightarrow> P s \<Longrightarrow> Q s \<or> R s"
  shows "sql_sum g P rows \<le> sql_sum g Q rows + sql_sum g R rows"
  using assms
proof (induction rows)
  case (Cons x rows)
  then have "sql_sum g P rows \<le> sql_sum g Q rows + sql_sum g R rows" by simp
  moreover have "0 \<le> g x" "P x \<Longrightarrow> Q x \<or> R x" using Cons.prems by auto
  ultimately show ?case by (auto simp: sql_sum_def)
qed simp

section \<open>Stock\<close>

text \<open>One reservation changes its status: the row that the update selects, with the inventory row of its product.\<close>

lemma sum_status_change:
  assumes "distinct (map trs_id rs)" "r \<in> set rs" "trs_quantity (f r) = trs_quantity r"
    "trs_ticket_product_id (f r) = trs_ticket_product_id r" "trs_buyer_user_id (f r) = trs_buyer_user_id r"
    "trs_status r = ''reserved''"
  defines "rs' \<equiv> sql_update (\<lambda>s. s = r) f rs"
  shows "reserved_for tp rs' = reserved_for tp rs - (if trs_ticket_product_id r = tp \<and> trs_status (f r) \<noteq> ''reserved'' then trs_quantity r else 0)"
    "converted_for tp rs' = converted_for tp rs + (if trs_ticket_product_id r = tp \<and> trs_status (f r) = ''converted'' then trs_quantity r else 0)"
    "trs_status (f r) = ''converted'' \<Longrightarrow>
       sql_sum trs_quantity (holds_ticket tp u) rs' = sql_sum trs_quantity (holds_ticket tp u) rs"
    "0 \<le> trs_quantity r \<Longrightarrow> sql_sum trs_quantity (holds_ticket tp u) rs' \<le> sql_sum trs_quantity (holds_ticket tp u) rs"
proof -
  have d: "distinct rs" using assms(1) by (simp add: distinct_map)
  note S = sql_sum_update_only [where g = trs_quantity and f = f, OF d assms(2), folded rs'_def]
  show "reserved_for tp rs' = reserved_for tp rs - (if trs_ticket_product_id r = tp \<and> trs_status (f r) \<noteq> ''reserved'' then trs_quantity r else 0)"
    "converted_for tp rs' = converted_for tp rs + (if trs_ticket_product_id r = tp \<and> trs_status (f r) = ''converted'' then trs_quantity r else 0)"
    "trs_status (f r) = ''converted'' \<Longrightarrow>
       sql_sum trs_quantity (holds_ticket tp u) rs' = sql_sum trs_quantity (holds_ticket tp u) rs"
    "0 \<le> trs_quantity r \<Longrightarrow> sql_sum trs_quantity (holds_ticket tp u) rs' \<le> sql_sum trs_quantity (holds_ticket tp u) rs"
    using assms(3-6) by (simp_all add: reserved_for_def converted_for_def S holds_ticket_def)
qed

lemma in_update_only: "r \<in> set (sql_update (\<lambda>s. s = x) f rows) \<Longrightarrow> r = f x \<or> r \<in> set rows \<and> r \<noteq> x"
  by (auto simp: set_sql_update)

lemma update_only_member: "r \<in> set rows \<Longrightarrow> r \<noteq> x \<Longrightarrow> r \<in> set (sql_update (\<lambda>s. s = x) f rows)"
  "x \<in> set rows \<Longrightarrow> f x \<in> set (sql_update (\<lambda>s. s = x) f rows)"
  by (auto simp: sql_update_def)

lemma map_update_only: "key (f x) = key x \<Longrightarrow> map key (sql_update (\<lambda>s. s = x) f rows) = map key rows"
  by (simp add: sql_update_def)

lemma stocked_row:
  assumes "stocked p is rs" "distinct (map iv_product_id is)" "i \<in> set is" "iv_product_id i = tpd_product_id p"
  shows "iv_supply_limit i \<noteq> None" "inventory_check i" "reserved_for (tpd_id p) rs \<le> iv_reserved_quantity i"
    "converted_for (tpd_id p) rs = iv_fulfilled_quantity i"
proof -
  from assms(1) obtain j where j: "j \<in> set is" "iv_product_id j = tpd_product_id p" "iv_supply_limit j \<noteq> None"
    "inventory_check j" "reserved_for (tpd_id p) rs \<le> iv_reserved_quantity j" "converted_for (tpd_id p) rs = iv_fulfilled_quantity j"
    by (auto simp: stocked_def)
  have "j = i" using j(1,2) assms(2-4) by (metis distinct_map inj_onD)
  with j(3-6) show "iv_supply_limit i \<noteq> None" "inventory_check i" "reserved_for (tpd_id p) rs \<le> iv_reserved_quantity i"
    "converted_for (tpd_id p) rs = iv_fulfilled_quantity i" by simp_all
qed

lemma stock_inv_change:
  assumes inv: "stock_inv ps is rs" and r: "r \<in> set rs" "trs_status r = ''reserved''"
    and p: "p \<in> set ps" "tpd_id p = trs_ticket_product_id r"
    and i: "i \<in> set is" "iv_product_id i = tpd_product_id p"
    and f: "trs_id (f r) = trs_id r" "trs_order_id (f r) = trs_order_id r" "trs_quantity (f r) = trs_quantity r"
      "trs_ticket_product_id (f r) = trs_ticket_product_id r" "trs_buyer_user_id (f r) = trs_buyer_user_id r"
      "trs_status (f r) = ''converted'' \<or> trs_status (f r) = ''expired''"
    and g: "iv_product_id (g i) = iv_product_id i" "iv_supply_limit (g i) = iv_supply_limit i"
      "iv_reserved_quantity (g i) = max 0 (iv_reserved_quantity i - trs_quantity r)"
      "iv_fulfilled_quantity (g i) = iv_fulfilled_quantity i + (if trs_status (f r) = ''converted'' then trs_quantity r else 0)"
  shows "stock_inv ps (sql_update (\<lambda>j. j = i) g is) (sql_update (\<lambda>s. s = r) f rs)"
proof -
  let ?is = "sql_update (\<lambda>j. j = i) g is" and ?rs = "sql_update (\<lambda>s. s = r) f rs"
  have ids: "distinct (map tpd_id ps)" "distinct (map tpd_product_id ps)" "distinct (map iv_product_id is)"
    "distinct (map trs_id rs)" and ok: "reservation_ok ps r" using inv r(1) by (auto simp: stock_inv_def)
  have nonneg: "0 \<le> trs_quantity s" if "s \<in> set rs" for s using inv that by (auto simp: stock_inv_def reservation_ok_def)
  note S = sum_status_change [where f = f, OF ids(4) r(1) f(3,4,5) r(2)]
  have le: "trs_quantity r \<le> reserved_for (tpd_id p) rs"
    unfolding reserved_for_def using r p(2) nonneg by (intro sql_sum_member_le) auto
  have st: "stocked x ?is ?rs" if x: "x \<in> set ps" for x
  proof (cases "x = p")
    case True
    have "stocked p is rs" using inv p(1) by (simp add: stock_inv_def)
    note b = stocked_row [OF this ids(3) i]
    have "inventory_check (g i)" using b(2,3) g le nonneg [OF r(1)]
      by (auto simp: inventory_check_def split: option.splits)
    then show ?thesis
      using b g i f(6) p(2) le update_only_member(2) [OF i(1), of g]
      unfolding True stocked_def by (intro bexI [of _ "g i"]) (auto simp: S)
  next
    case False
    then have pid: "tpd_product_id x \<noteq> tpd_product_id p" "tpd_id x \<noteq> tpd_id p"
      using x p(1) ids(1,2) by (auto simp: distinct_map dest: inj_onD)
    have "stocked x is rs" using inv x by (simp add: stock_inv_def)
    then obtain j where j: "j \<in> set is" "iv_product_id j = tpd_product_id x" "iv_supply_limit j \<noteq> None" "inventory_check j"
      "reserved_for (tpd_id x) rs \<le> iv_reserved_quantity j" "converted_for (tpd_id x) rs = iv_fulfilled_quantity j"
      by (auto simp: stocked_def)
    have "j \<noteq> i" using j(2) i(2) pid(1) by auto
    with j pid(2) p(2) show ?thesis unfolding stocked_def by (intro bexI [of _ j]) (auto simp: S update_only_member(1))
  qed
  have lim: "within_limit x ?rs" if x: "x \<in> set ps" for x
    using inv x S(4) [OF nonneg [OF r(1)]] by (fastforce simp: stock_inv_def within_limit_def intro: order_trans)
  have "reservation_ok ps s" if "s \<in> set ?rs" for s
    using in_update_only [OF that] inv ok f by (auto simp: stock_inv_def reservation_ok_def)
  then show ?thesis using inv st lim f(1,2) g(1) by (simp add: stock_inv_def map_update_only)
qed

end
