(* ===== verification/Ticket_Inv.thy ===== *)
theory Ticket_Inv
  imports Ticket_System
begin

text \<open>Reservations, products and issuances keep \<open>ticket_inv\<close>.\<close>

section \<open>Releases\<close>

lemma issue_inv_reservation:
  assumes "issue_inv ps rs ts" "r \<in> set rs" "trs_status r \<noteq> ''converted''" "trs_order_id (f r) = trs_order_id r"
    "trs_ticket_product_id (f r) = trs_ticket_product_id r" "trs_status (f r) \<noteq> ''converted''"
  shows "issue_inv ps (sql_update (\<lambda>s. s = r) f rs) ts"
proof -
  let ?rs = "sql_update (\<lambda>s. s = r) f rs"
  have "issued_for (trs_order_id s) ts = (if trs_status s = ''converted'' then trs_quantity s else 0)" if "s \<in> set ?rs" for s
    using in_update_only [OF that] assms by (auto simp: issue_inv_def)
  moreover have "\<exists>s \<in> set ?rs. trs_order_id s = tis_order_id t \<and> trs_ticket_product_id s = tis_ticket_product_id t" if "t \<in> set ts" for t
  proof -
    from assms(1) that obtain s where s: "s \<in> set rs" "trs_order_id s = tis_order_id t" "trs_ticket_product_id s = tis_ticket_product_id t"
      by (auto simp: issue_inv_def)
    then show ?thesis using assms(2,4,5) update_only_member(1) [of s rs r f] update_only_member(2) [of r rs f] by (cases "s = r") auto
  qed
  ultimately show ?thesis using assms(1) by (simp add: issue_inv_def)
qed

lemma bought_map:
  "bought rs t \<longleftrightarrow> (tis_order_id t, tis_owner_user_id t) \<in> set (map (\<lambda>r. (trs_order_id r, trs_buyer_user_id r)) rs)"
  by (force simp: bought_def image_iff)

lemma owner_inv_reservations:
  assumes "owner_inv ps rs ts es xs cs"
    "set (map (\<lambda>r. (trs_order_id r, trs_buyer_user_id r)) rs) \<subseteq> set (map (\<lambda>r. (trs_order_id r, trs_buyer_user_id r)) rs')"
  shows "owner_inv ps rs' ts es xs cs"
proof -
  have "bought rs t \<Longrightarrow> bought rs' t" for t using assms(2) unfolding bought_map by blast
  then have "history_ok rs xs t h \<Longrightarrow> history_ok rs' xs t h" for t h
    by (auto simp: history_ok_def split: list.splits if_splits)
  with assms(1) show ?thesis by (auto simp: owner_inv_def)
qed

lemma owner_inv_products:
  assumes "owner_inv ps rs ts es xs cs"
  shows "owner_inv (ps @ qs) rs ts es xs cs"
proof -
  have "transfer_of_product ps ts x \<Longrightarrow> transfer_of_product (ps @ qs) ts x" for x
    unfolding transfer_of_product_def by auto
  with assms show ?thesis by (auto simp: owner_inv_def)
qed

lemma buyers_ok_iff:
  "buyers_ok os rs \<longleftrightarrow> distinct (map or_id os) \<and>
     (\<forall>r \<in> set rs. (trs_order_id r, trs_buyer_user_id r) \<in> set (map (\<lambda>ord. (or_id ord, or_buyer_user_id ord)) os))"
  by (auto simp: buyers_ok_def image_iff eq_commute)

lemma buyers_okD:
  assumes "buyers_ok os rs" "r \<in> set rs" "ord \<in> set os" "or_id ord = trs_order_id r"
  shows "or_buyer_user_id ord = trs_buyer_user_id r"
proof -
  from assms(1,2) obtain ord' where o: "ord' \<in> set os" "or_id ord' = trs_order_id r" "or_buyer_user_id ord' = trs_buyer_user_id r"
    by (auto simp: buyers_ok_def)
  have "ord' = ord" using assms(1,3,4) o(1,2) unfolding buyers_ok_def distinct_map by (metis inj_onD)
  with o(3) show ?thesis by simp
qed

lemma buyers_ok_orders:
  assumes "buyers_ok os rs" "map (\<lambda>ord. (or_id ord, or_buyer_user_id ord)) os' = map (\<lambda>ord. (or_id ord, or_buyer_user_id ord)) os"
    "set (map (\<lambda>r. (trs_order_id r, trs_buyer_user_id r)) rs') \<subseteq> set (map (\<lambda>r. (trs_order_id r, trs_buyer_user_id r)) rs)"
  shows "buyers_ok os' rs'"
proof -
  have "map or_id os' = map or_id os" using arg_cong [OF assms(2), of "map fst"] by (simp add: comp_def)
  moreover have "(trs_order_id r, trs_buyer_user_id r) \<in> set (map (\<lambda>ord. (or_id ord, or_buyer_user_id ord)) os)" if r: "r \<in> set rs'" for r
  proof -
    from r assms(3) obtain s where "s \<in> set rs" "(trs_order_id r, trs_buyer_user_id r) = (trs_order_id s, trs_buyer_user_id s)"
      by (metis (mono_tags, lifting) image_iff list.set_map subsetD)
    with assms(1) show ?thesis unfolding buyers_ok_iff by (metis (no_types, lifting))
  qed
  ultimately show ?thesis using assms(1) unfolding buyers_ok_iff assms(2) by simp
qed

lemma orders_update_same:
  "(\<And>ord. or_id (f ord) = or_id ord \<and> or_buyer_user_id (f ord) = or_buyer_user_id ord) \<Longrightarrow>
   map (\<lambda>ord. (or_id ord, or_buyer_user_id ord)) (sql_update p f os) = map (\<lambda>ord. (or_id ord, or_buyer_user_id ord)) os"
  by (simp add: sql_update_def)

lemma release_one_inv:
  assumes inv: "ticket_inv d" and r: "r \<in> set (ticket_reservations d)" "trs_status r = ''reserved''"
    and p: "p \<in> set (ticket_products d)" "tpd_id p = trs_ticket_product_id r"
  shows "ticket_inv (release_reservation now (tpd_product_id p) r d)"
proof -
  let ?f = "\<lambda>s. s\<lparr>trs_status := ''expired'', trs_released_at := Some now, trs_updated_at := now\<rparr>"
  let ?g = "\<lambda>i. i\<lparr>iv_reserved_quantity := max 0 (iv_reserved_quantity i - trs_quantity r), iv_updated_at := now\<rparr>"
  let ?rs = "ticket_reservations d" and ?is = "product_inventory d"
  have S: "stock_inv (ticket_products d) ?is ?rs" and I: "issue_inv (ticket_products d) ?rs (ticket_issuances d)"
    and O: "owner_inv (ticket_products d) ?rs (ticket_issuances d) (ticket_ownership_evidence d)
       (ticket_transfer_requests d) (ticket_check_ins d)"
    and B: "buyers_ok (orders d) ?rs" using inv by (simp_all add: ticket_inv_def)
  have ids: "distinct (map trs_id ?rs)" "distinct (map iv_product_id ?is)" using S by (simp_all add: stock_inv_def)
  from S p(1) have "stocked p ?is ?rs" by (simp add: stock_inv_def)
  then obtain i where i: "i \<in> set ?is" "iv_product_id i = tpd_product_id p" by (auto simp: stocked_def)
  have rs: "sql_update (\<lambda>s. trs_id s = trs_id r) ?f ?rs = sql_update (\<lambda>s. s = r) ?f ?rs"
    by (rule sql_update_only [OF ids(1) r(1)]) simp_all
  have "is": "sql_update (\<lambda>j. iv_product_id j = tpd_product_id p) ?g ?is = sql_update (\<lambda>j. j = i) ?g ?is"
    by (rule sql_update_only [OF ids(2) i(1)]) (simp_all add: i(2))
  have "stock_inv (ticket_products d) (sql_update (\<lambda>j. j = i) ?g ?is) (sql_update (\<lambda>s. s = r) ?f ?rs)"
    by (rule stock_inv_change [OF S r p i]) simp_all
  moreover have "issue_inv (ticket_products d) (sql_update (\<lambda>s. s = r) ?f ?rs) (ticket_issuances d)"
    by (rule issue_inv_reservation [OF I r(1)]) (simp_all add: r(2))
  moreover have "owner_inv (ticket_products d) (sql_update (\<lambda>s. s = r) ?f ?rs) (ticket_issuances d) (ticket_ownership_evidence d)
       (ticket_transfer_requests d) (ticket_check_ins d)"
    by (rule owner_inv_reservations [OF O]) (simp add: map_update_only)
  moreover have "buyers_ok (orders (release_reservation now (tpd_product_id p) r d)) (sql_update (\<lambda>s. s = r) ?f ?rs)"
    by (rule buyers_ok_orders [OF B]) (simp_all add: release_reservation_def orders_update_same map_update_only)
  ultimately show ?thesis unfolding ticket_inv_def by (simp add: rs "is" release_reservation_def)
qed

lemma release_fold_inv:
  assumes "ticket_inv d" "set xs \<subseteq> set (ticket_reservations d)" "distinct (map trs_id xs)" "p \<in> set (ticket_products d)"
    "\<And>r. r \<in> set xs \<Longrightarrow> trs_status r = ''reserved'' \<and> trs_ticket_product_id r = tpd_id p"
  shows "ticket_inv (fold (release_reservation now (tpd_product_id p)) xs d)"
  using assms
proof (induction xs arbitrary: d)
  case (Cons r xs)
  let ?d = "release_reservation now (tpd_product_id p) r d"
  have "ticket_inv ?d" using Cons.prems by (intro release_one_inv) auto
  moreover have "set xs \<subseteq> set (ticket_reservations ?d)"
  proof
    fix s assume s: "s \<in> set xs"
    then have "trs_id s \<in> trs_id ` set xs" by (rule imageI)
    moreover have "trs_id r \<notin> trs_id ` set xs" using Cons.prems(3) by simp
    ultimately have "trs_id s \<noteq> trs_id r" by metis
    moreover have "s \<in> set (ticket_reservations d)" using s Cons.prems(2) by auto
    ultimately
    show "s \<in> set (ticket_reservations ?d)" by (force simp: release_reservation_def set_sql_update image_iff)
  qed
  ultimately show ?case using Cons.prems Cons.IH [of ?d] by simp
qed simp

lemma release_expired_tables [simp]:
  "ticket_products (release_expired_for_product now tpid d) = ticket_products d"
  "ticket_issuances (release_expired_for_product now tpid d) = ticket_issuances d"
  "ticket_check_ins (release_expired_for_product now tpid d) = ticket_check_ins d"
  "ticket_ownership_evidence (release_expired_for_product now tpid d) = ticket_ownership_evidence d"
  "ticket_transfer_requests (release_expired_for_product now tpid d) = ticket_transfer_requests d"
proof -
  have "ticket_products (fold (release_reservation now pid) xs d) = ticket_products d \<and>
    ticket_issuances (fold (release_reservation now pid) xs d) = ticket_issuances d \<and>
    ticket_check_ins (fold (release_reservation now pid) xs d) = ticket_check_ins d \<and>
    ticket_ownership_evidence (fold (release_reservation now pid) xs d) = ticket_ownership_evidence d \<and>
    ticket_transfer_requests (fold (release_reservation now pid) xs d) = ticket_transfer_requests d" for pid xs
    by (induction xs arbitrary: d) simp_all
  then show "ticket_products (release_expired_for_product now tpid d) = ticket_products d"
    "ticket_issuances (release_expired_for_product now tpid d) = ticket_issuances d"
    "ticket_check_ins (release_expired_for_product now tpid d) = ticket_check_ins d"
    "ticket_ownership_evidence (release_expired_for_product now tpid d) = ticket_ownership_evidence d"
    "ticket_transfer_requests (release_expired_for_product now tpid d) = ticket_transfer_requests d"
    by (simp_all add: release_expired_for_product_def split: option.split)
qed

lemma release_expired_inv:
  assumes "ticket_inv d"
  shows "ticket_inv (release_expired_for_product now tpid d)"
proof (cases "find (\<lambda>p. tpd_id p = tpid) (ticket_products d)")
  case (Some p)
  from find_Some_in [OF Some] have p: "p \<in> set (ticket_products d)" "tpd_id p = tpid" by simp_all
  have "distinct (map trs_id (ticket_reservations d))" using assms by (simp add: ticket_inv_def stock_inv_def)
  then have "distinct (map trs_id (filter (reservation_due now tpid) (ticket_reservations d)))"
    by (simp add: distinct_map_filter)
  with assms p show ?thesis
    unfolding release_expired_for_product_def Some
    by (auto intro!: release_fold_inv simp: reservation_due_def)
qed (simp add: release_expired_for_product_def assms)

section \<open>A new reservation\<close>

lemma availability_Some:
  assumes "availability tpid d = Some av"
  obtains p where "p \<in> set (ticket_products d)" "tpd_id p = tpid" "av_product_id av = tpd_product_id p"
    "av_per_user_limit av = tpd_per_user_limit p"
  using assms unfolding availability_def by (auto split: option.splits dest!: find_Some_in)

lemma holds_le_stock:
  assumes "stock_inv ps is rs" "p \<in> set ps" "i \<in> set is" "iv_product_id i = tpd_product_id p"
  shows "sql_sum trs_quantity (holds_ticket (tpd_id p) u) rs \<le> iv_reserved_quantity i + iv_fulfilled_quantity i"
    "0 \<le> sql_sum trs_quantity (holds_ticket (tpd_id p) u) rs"
proof -
  have nn: "0 \<le> trs_quantity s" if "s \<in> set rs" for s using assms(1) that by (auto simp: stock_inv_def reservation_ok_def)
  have "stocked p is rs" "distinct (map iv_product_id is)" using assms(1,2) by (auto simp: stock_inv_def)
  note stocked_row(3,4) [OF this assms(3,4)]
  moreover have "sql_sum trs_quantity (holds_ticket (tpd_id p) u) rs \<le> reserved_for (tpd_id p) rs + converted_for (tpd_id p) rs"
    unfolding reserved_for_def converted_for_def by (rule sql_sum_le_split) (auto simp: holds_ticket_def nn)
  ultimately show "sql_sum trs_quantity (holds_ticket (tpd_id p) u) rs \<le> iv_reserved_quantity i + iv_fulfilled_quantity i" by simp
  show "0 \<le> sql_sum trs_quantity (holds_ticket (tpd_id p) u) rs" by (rule ticket_sum_nonneg) (rule nn)
qed

text \<open>The check of the limit is made on the wrapping sum, and the update of the inventory shows that it did not wrap.\<close>

lemma i64_wrap_id: "i64_min \<le> x \<Longrightarrow> x \<le> i64_max \<Longrightarrow> i64_wrap x = x"
  by (simp add: i64_wrap_def i64_min_def i64_max_def)

lemma stock_inv_reserve:
  assumes inv: "stock_inv ps is rs" and p: "p \<in> set ps" and i: "i \<in> set is" "inventory_fits (tpd_product_id p) n i"
      "\<not> inventory_overflows (tpd_product_id p) n i"
    and n: "0 < n" "\<not> i64_wrap (sql_sum trs_quantity (holds_ticket (tpd_id p) u) rs + n) > tpd_per_user_limit p"
    and r: "trs_ticket_product_id r = tpd_id p" "trs_buyer_user_id r = u" "trs_quantity r = n" "trs_status r = ''reserved''"
      "trs_id r \<notin> trs_id ` set rs" "trs_order_id r \<notin> trs_order_id ` set rs"
    and g: "\<And>j. iv_product_id (g j) = iv_product_id j" "iv_supply_limit (g i) = iv_supply_limit i"
      "iv_reserved_quantity (g i) = iv_reserved_quantity i + n" "iv_fulfilled_quantity (g i) = iv_fulfilled_quantity i"
  shows "stock_inv ps (sql_update (inventory_fits (tpd_product_id p) n) g is) (rs @ [r])"
proof -
  have ids: "distinct (map tpd_id ps)" "distinct (map tpd_product_id ps)" "distinct (map iv_product_id is)"
    using inv by (auto simp: stock_inv_def)
  have ip: "iv_product_id i = tpd_product_id p" using i(2) by (simp add: inventory_fits_def)
  have upd: "sql_update (inventory_fits (tpd_product_id p) n) g is = sql_update (\<lambda>j. j = i) g is"
    by (rule sql_update_only [where key = iv_product_id, OF ids(3) i(1)]) (simp_all add: i(2) ip, simp add: inventory_fits_def)
  have "stocked p is rs" using inv p by (simp add: stock_inv_def)
  note b = stocked_row [OF this ids(3) i(1) ip]
  have small: "iv_reserved_quantity i + iv_fulfilled_quantity i + n \<le> i64_max"
    using i(3) b(1) ip by (auto simp: inventory_overflows_def checked_i64_def split: if_splits)
  have ex: "sql_sum trs_quantity (holds_ticket (tpd_id p) u) rs + n \<le> tpd_per_user_limit p"
    using n small holds_le_stock [OF inv p i(1) ip, of u] int_type_bounds(1)
    by (subst (asm) i64_wrap_id) auto
  have st: "stocked x (sql_update (\<lambda>j. j = i) g is) (rs @ [r])" if x: "x \<in> set ps" for x
  proof (cases "x = p")
    case True
    have "inventory_check (g i)" using b(1,2) g i(2) n(1) by (auto simp: inventory_check_def inventory_fits_def)
    then show ?thesis
      using b g ip r update_only_member(2) [OF i(1), of g] unfolding True stocked_def
      by (intro bexI [of _ "g i"]) (auto simp: reserved_for_def converted_for_def)
  next
    case False
    then have pid: "tpd_product_id x \<noteq> tpd_product_id p" "tpd_id x \<noteq> tpd_id p"
      using x p ids(1,2) by (auto simp: distinct_map dest: inj_onD)
    have "stocked x is rs" using inv x by (simp add: stock_inv_def)
    then obtain j where j: "j \<in> set is" "iv_product_id j = tpd_product_id x" "iv_supply_limit j \<noteq> None" "inventory_check j"
      "reserved_for (tpd_id x) rs \<le> iv_reserved_quantity j" "converted_for (tpd_id x) rs = iv_fulfilled_quantity j"
      by (auto simp: stocked_def)
    have "j \<noteq> i" using j(2) ip pid(1) by auto
    with j pid(2) r(1) show ?thesis unfolding stocked_def
      by (intro bexI [of _ j]) (auto simp: reserved_for_def converted_for_def update_only_member(1))
  qed
  have lim: "within_limit x (rs @ [r])" if x: "x \<in> set ps" for x
    using inv x ex r p ids(1) by (auto simp: stock_inv_def within_limit_def holds_ticket_def distinct_map dest: inj_onD)
  have "reservation_ok ps r" using r n(1) p by (auto simp: reservation_ok_def)
  then show ?thesis using inv st lim r(5,6) g(1) by (simp add: stock_inv_def upd map_update_only)
qed

end
