(* ===== verification/Ticket_Inv2.thy ===== *)
theory Ticket_Inv2
  imports Ticket_Inv
begin

text \<open>Every request keeps \<open>ticket_inv\<close>, so it holds in every reachable state.\<close>

section \<open>Reservations and products\<close>

lemma create_reservation_inv:
  assumes inv: "ticket_inv d" and tx: "create_reservation_tx env q hdrs tpid body d = Inr (x, d')"
  shows "ticket_inv d'"
  using tx
proof (cases rule: create_reservation_txE)
  case existing
  then show ?thesis using release_expired_inv [OF inv] by simp
next
  case (new av buyer key sha)
  let ?d = "release_expired_for_product (sql_now q) tpid d"
  note inv' = release_expired_inv [OF inv, of "sql_now q" tpid]
  from new(1) obtain p where p: "p \<in> set (ticket_products ?d)" "tpd_id p = tpid" "av_product_id av = tpd_product_id p"
    "av_per_user_limit av = tpd_per_user_limit p" by (rule availability_Some)
  from new(8) show ?thesis
  proof (cases rule: place_reservation_Inr)
    case (1 total_amount expires al r i)
    have r: "trs_ticket_product_id r = tpd_id p" "trs_buyer_user_id r = buyer" "trs_quantity r = crr_quantity body"
      "trs_status r = ''reserved''" "trs_order_id r = new_uuid q 0" by (simp_all add: 1(5) new_reservation_def p(2))
    have fresh: "trs_id r \<notin> trs_id ` set (ticket_reservations ?d)" "trs_order_id r \<notin> trs_order_id ` set (ticket_reservations ?d)"
      using reservation_ids.insert_new [OF 1(7)] reservation_orders.insert_new [OF 1(7)] by simp_all
    have S: "stock_inv (ticket_products ?d) (product_inventory ?d) (ticket_reservations ?d)"
      and B: "buyers_ok (orders ?d) (ticket_reservations ?d)"
      and I: "issue_inv (ticket_products ?d) (ticket_reservations ?d) (ticket_issuances ?d)"
      and O: "owner_inv (ticket_products ?d) (ticket_reservations ?d) (ticket_issuances ?d) (ticket_ownership_evidence ?d)
       (ticket_transfer_requests ?d) (ticket_check_ins ?d)" using inv' unfolding ticket_inv_def by blast+
    have "stock_inv (ticket_products ?d) (sql_update (inventory_fits (tpd_product_id p) (crr_quantity body))
        (\<lambda>i. i\<lparr>iv_reserved_quantity := iv_reserved_quantity i + crr_quantity body, iv_updated_at := sql_now q\<rparr>) (product_inventory ?d))
        (ticket_reservations ?d @ [r])"
      by (rule stock_inv_reserve [OF S p(1) 1(9) 1(10)[unfolded p(3)] 1(11)[unfolded p(3)] new(2) _ r(1-4) fresh])
        (use 1(1) in \<open>simp_all add: p(2,4)\<close>)
    moreover have "issued_for (trs_order_id r) (ticket_issuances ?d) = 0"
    proof -
      have "tis_order_id t \<noteq> trs_order_id r" if "t \<in> set (ticket_issuances ?d)" for t
        using I fresh(2) that by (force simp: issue_inv_def image_iff)
      then show ?thesis by (simp add: issued_for_def sql_count_def)
    qed
    then have "issue_inv (ticket_products ?d) (ticket_reservations ?d @ [r]) (ticket_issuances ?d)"
      using I r(4) unfolding issue_inv_def by auto
    moreover have "owner_inv (ticket_products ?d) (ticket_reservations ?d @ [r]) (ticket_issuances ?d) (ticket_ownership_evidence ?d)
       (ticket_transfer_requests ?d) (ticket_check_ins ?d)"
      by (rule owner_inv_reservations [OF O]) auto
    moreover have "buyers_ok (orders d') (ticket_reservations ?d @ [r])"
    proof -
      let ?o = "reservation_order q av buyer key sha total_amount expires"
      have "or_id ?o \<notin> or_id ` set (orders ?d)" "or_id ?o = trs_order_id r" "or_buyer_user_id ?o = trs_buyer_user_id r"
        using order_ids.insert_new [OF 1(6)] by (simp_all add: r(2,5) reservation_order_def)
      with B show ?thesis by (auto simp: buyers_ok_def 1(12))
    qed
    ultimately show ?thesis unfolding ticket_inv_def by (simp add: 1(12) p(3))
  qed
qed

lemma create_product_inv:
  assumes inv: "ticket_inv d" and tx: "create_product_tx env q hdrs eid body d = Inr (x, d')"
  shows "ticket_inv d'"
  using tx
proof (cases rule: create_product_txE)
  case (1 event actor draft)
  from 1(7) show ?thesis
  proof (cases rule: insert_product_Inr)
    case p: (1 p pp i tp al)
    let ?ps = "ticket_products d" and ?is = "product_inventory d" and ?rs = "ticket_reservations d"
    have S: "stock_inv ?ps ?is ?rs" and B: "buyers_ok (orders d) ?rs"
      and I: "issue_inv ?ps ?rs (ticket_issuances d)"
      and O: "owner_inv ?ps ?rs (ticket_issuances d) (ticket_ownership_evidence d)
       (ticket_transfer_requests d) (ticket_check_ins d)" using inv unfolding ticket_inv_def by blast+
    have fresh: "iv_product_id i \<notin> iv_product_id ` set ?is" "tpd_id tp \<notin> tpd_id ` set ?ps" "tpd_product_id tp \<notin> tpd_product_id ` set ?ps"
      using inventory_products.insert_new [OF p(2)] ticket_product_ids.insert_new [OF p(3)] ticket_product_products.insert_new [OF p(3)] by simp_all
    have none: "trs_ticket_product_id r \<noteq> tpd_id tp" if "r \<in> set ?rs" for r
      using S fresh(2) that unfolding stock_inv_def reservation_ok_def by metis
    then have zero: "reserved_for (tpd_id tp) ?rs = 0" "converted_for (tpd_id tp) ?rs = 0"
      "sql_sum trs_quantity (holds_ticket (tpd_id tp) u) ?rs = 0" for u
      by (simp_all add: reserved_for_def converted_for_def sql_sum_def holds_ticket_def cong: filter_cong)
    have "inventory_check i" using p(2) by (simp add: sql_insert_Inr)
    with zero have new: "stocked tp (?is @ [i]) ?rs" "within_limit tp ?rs"
      using p(4-9) 1(4) unfolding stocked_def within_limit_def by (auto intro!: bexI [of _ i])
    have "stocked x (?is @ [i]) ?rs" if "stocked x ?is ?rs" for x using that unfolding stocked_def by auto
    with S fresh new have "stock_inv (?ps @ [tp]) (?is @ [i]) ?rs" by (auto simp: stock_inv_def reservation_ok_def)
    moreover have "issue_inv (?ps @ [tp]) ?rs (ticket_issuances d)" using I unfolding issue_inv_def by auto
    ultimately show ?thesis using owner_inv_products [OF O] B unfolding ticket_inv_def by (simp add: p(12))
  qed
qed

section \<open>Issuance\<close>

lemma upto_split: "0 \<le> n \<Longrightarrow> 0 \<le> k \<Longrightarrow> [1..n] @ map (\<lambda>j. n + j) [1..k] = [1..n + k :: int]"
proof -
  assume n: "0 \<le> n" "0 \<le> k"
  have "map (\<lambda>j. n + j) [1..k] = [n + 1..n + k]"
    by (rule nth_equalityI) (simp_all add: nth_upto)
  with n upto_split2 [of 1 n "n + k"] show ?thesis by (cases "n = 0") simp_all
qed

lemma current_serial_count:
  assumes "serials_ok ts"
  shows "current_serial ev ts = sql_count (\<lambda>t. tis_ticket_event_id t = ev) ts"
proof -
  let ?n = "sql_count (\<lambda>t. tis_ticket_event_id t = ev) ts"
  have m: "map tis_serial_number (filter (\<lambda>t. tis_ticket_event_id t = ev) ts) = [1..?n]" using assms by (simp add: serials_ok_def)
  have n: "0 \<le> ?n" by (simp add: sql_count_def)
  show ?thesis
  proof (cases "?n = 0")
    case True
    then show ?thesis unfolding current_serial_def m by simp
  next
    case False
    with n have "[1..?n] = 1 # [2..?n]" by (simp add: upto_rec1)
    then have "current_serial ev ts = Max (set [1..?n])"
      unfolding current_serial_def m by (simp only: list.case Max.set_eq_fold)
    also have "\<dots> = ?n" using n False by (intro Max_eqI) auto
    finally show ?thesis .
  qed
qed

lemma paid_order_context_Some:
  assumes "paid_order_context oid d = Some ctx"
  obtains r p where "r \<in> set (ticket_reservations d)" "trs_order_id r = oid" "trs_id r = poc_reservation_id ctx"
    "p \<in> set (ticket_products d)" "tpd_id p = trs_ticket_product_id r" "poc_ticket_product_id ctx = tpd_id p"
    "poc_ticket_event_id ctx = tpd_ticket_event_id p" "poc_product_id ctx = tpd_product_id p"
    "poc_quantity ctx = trs_quantity r" "poc_reservation_status ctx = trs_status r"
    "\<exists>ord \<in> set (orders d). or_id ord = oid \<and> or_buyer_user_id ord = poc_buyer_user_id ctx \<and> or_status ord = poc_order_status ctx"
proof -
  from assms obtain ord tr tp where f: "find (\<lambda>ord. or_id ord = oid) (orders d) = Some ord"
    "find (\<lambda>tr. trs_order_id tr = or_id ord) (ticket_reservations d) = Some tr"
    "find (\<lambda>tp. tpd_id tp = trs_ticket_product_id tr) (ticket_products d) = Some tp"
    unfolding paid_order_context_def by (auto split: option.splits)
  show ?thesis
    by (rule that [of tr tp, OF _ _ _ _ _ _ _ _ _ _ bexI [of _ ord]])
      (use assms f [THEN find_Some_in] in \<open>auto simp: paid_order_context_def f\<close>)
qed

lemma issuance_rows_facts:
  "t \<in> set (issuance_rows q ctx oid owner n js) \<Longrightarrow> tis_order_id t = oid \<and> tis_ticket_event_id t = poc_ticket_event_id ctx \<and>
     tis_ticket_product_id t = poc_ticket_product_id ctx \<and> tis_owner_user_id t = poc_buyer_user_id ctx \<and>
     tis_status t = ''pending'' \<and> tis_accepted_evidence_id t = None \<and> tis_token_id t = None"
  "map tis_serial_number (issuance_rows q ctx oid owner n js) = map (\<lambda>j. n + j) js"
  "length (issuance_rows q ctx oid owner n js) = length js"
  by (auto simp: issuance_rows_def new_issuance_def)

lemma filter_all_or_none:
  "(\<And>x. x \<in> set xs \<Longrightarrow> P x) \<Longrightarrow> filter P xs = xs" "(\<And>x. x \<in> set xs \<Longrightarrow> \<not> P x) \<Longrightarrow> filter P xs = []"
  by (simp_all add: filter_id_conv filter_empty_conv)

lemma serials_issued:
  assumes "serials_ok ts" "0 \<le> poc_quantity ctx"
  shows "serials_ok (ts @ issuance_rows q ctx oid owner (current_serial (poc_ticket_event_id ctx) ts) [1..poc_quantity ctx])"
  unfolding serials_ok_def
proof
  fix ev
  let ?new = "issuance_rows q ctx oid owner (current_serial (poc_ticket_event_id ctx) ts) [1..poc_quantity ctx]"
  let ?n = "\<lambda>rows. sql_count (\<lambda>t. tis_ticket_event_id t = ev) rows"
  have old: "map tis_serial_number (filter (\<lambda>t. tis_ticket_event_id t = ev) ts) = [1..?n ts]" using assms(1) by (simp add: serials_ok_def)
  show "map tis_serial_number (filter (\<lambda>t. tis_ticket_event_id t = ev) (ts @ ?new)) = [1..?n (ts @ ?new)]"
  proof (cases "ev = poc_ticket_event_id ctx")
    case True
    then have f: "filter (\<lambda>t. tis_ticket_event_id t = ev) ?new = ?new"
      by (intro filter_all_or_none) (simp add: issuance_rows_facts(1))
    then have "?n ?new = poc_quantity ctx" using assms(2) by (simp add: sql_count_def issuance_rows_facts(3))
    moreover have "0 \<le> ?n ts" by (simp add: sql_count_def)
    moreover have "current_serial (poc_ticket_event_id ctx) ts = ?n ts" using current_serial_count [OF assms(1), of ev] True by simp
    ultimately show ?thesis
      using upto_split [of "?n ts" "poc_quantity ctx"] assms(2)
      unfolding filter_append map_append f old issuance_rows_facts(2) sql_count_append by simp
  next
    case False
    then have "filter (\<lambda>t. tis_ticket_event_id t = ev) ?new = []"
      by (intro filter_all_or_none) (simp add: issuance_rows_facts(1))
    then show ?thesis by (simp add: old sql_count_def)
  qed
qed

lemma history_new:
  assumes "\<forall>e \<in> set es. toe_ticket_issuance_id e \<in> tis_id ` set ts" "tis_id t \<notin> tis_id ` set ts"
  shows "evidence_of (tis_id t) es = []"
  using assms unfolding evidence_of_def filter_empty_conv by metis

lemma prepare_issuance_inv:
  assumes inv: "ticket_inv d" and tx: "prepare_issuance_tx env q hdrs oid d = Inr (x, d')"
  shows "ticket_inv d'"
proof -
  let ?ps = "ticket_products d" and ?is = "product_inventory d" and ?rs = "ticket_reservations d" and ?ts = "ticket_issuances d"
  have S: "stock_inv ?ps ?is ?rs" and I: "issue_inv ?ps ?rs ?ts" and B: "buyers_ok (orders d) ?rs"
      and O: "owner_inv ?ps ?rs ?ts (ticket_ownership_evidence d) (ticket_transfer_requests d) (ticket_check_ins d)"
    using inv unfolding ticket_inv_def by blast+
  have dist: "distinct (map tis_id ?ts)" using I by (simp add: issue_inv_def)
  from tx dist show ?thesis
  proof (cases rule: prepare_issuance_txE)
    case existing
    then show ?thesis using inv by simp
  next
    case (new ctx owner i al)
    from new(1) show ?thesis
    proof (cases rule: paid_order_context_Some)
      case c: (1 r p)
      let ?new = "issuance_rows q ctx oid owner (current_serial (poc_ticket_event_id ctx) ?ts) [1..poc_quantity ctx]"
      let ?f = "\<lambda>r. r\<lparr>trs_status := ''converted'', trs_converted_at := Some (sql_now q), trs_updated_at := sql_now q\<rparr>"
      let ?g = "\<lambda>i. i\<lparr>iv_reserved_quantity := iv_reserved_quantity i - poc_quantity ctx,
               iv_fulfilled_quantity := iv_fulfilled_quantity i + poc_quantity ctx, iv_updated_at := sql_now q\<rparr>"
      have st: "trs_status r = ''reserved''" using c(10) new(4) by simp
      have q: "0 < trs_quantity r" "0 < poc_quantity ctx" using S c(1,9) by (auto simp: stock_inv_def reservation_ok_def)
      have ids: "distinct (map trs_id ?rs)" "distinct (map iv_product_id ?is)" using S by (simp_all add: stock_inv_def)
      have rs: "ticket_reservations d' = sql_update (\<lambda>s. s = r) ?f ?rs"
        unfolding new(11) using sql_update_only [where key = trs_id and f = ?f, OF ids(1) c(1),
            of "\<lambda>r. trs_id r = poc_reservation_id ctx \<and> trs_status r = ''reserved''"] c(3) st by simp
      have "is": "product_inventory d' = sql_update (\<lambda>j. j = i) ?g ?is"
        unfolding new(11) using sql_update_only [where key = iv_product_id and f = ?g, OF ids(2) new(7),
            of "\<lambda>i. iv_product_id i = poc_product_id ctx \<and> iv_reserved_quantity i \<ge> poc_quantity ctx"] new(8,9) by simp
      have ts: "ticket_issuances d' = ?ts @ ?new" and rest: "ticket_products d' = ?ps"
        "ticket_ownership_evidence d' = ticket_ownership_evidence d" "ticket_transfer_requests d' = ticket_transfer_requests d"
        "ticket_check_ins d' = ticket_check_ins d" by (simp_all add: new(11))
      have "stock_inv ?ps (sql_update (\<lambda>j. j = i) ?g ?is) (sql_update (\<lambda>s. s = r) ?f ?rs)"
        by (rule stock_inv_change [OF S c(1) st c(4,5) new(7)]) (use new(8,9) c(8,9) in simp_all)
      moreover have "issue_inv ?ps (sql_update (\<lambda>s. s = r) ?f ?rs) (?ts @ ?new)"
      proof -
        have cnt: "issued_for k (?ts @ ?new) = issued_for k ?ts + (if k = oid then poc_quantity ctx else 0)" for k
        proof -
          have "sql_count (\<lambda>t. tis_order_id t = k) ?new = (if k = oid then poc_quantity ctx else 0)"
          proof (cases "k = oid")
            case True
            then have "filter (\<lambda>t. tis_order_id t = k) ?new = ?new" by (intro filter_all_or_none) (simp add: issuance_rows_facts(1))
            with True q(2) show ?thesis by (simp add: sql_count_def issuance_rows_facts(3))
          next
            case False
            then have "filter (\<lambda>t. tis_order_id t = k) ?new = []" by (intro filter_all_or_none) (simp add: issuance_rows_facts(1))
            with False show ?thesis by (simp add: sql_count_def)
          qed
          then show ?thesis by (simp add: issued_for_def)
        qed
        have ords: "s = r" if "s \<in> set ?rs" "trs_order_id s = oid" for s
          using that S c(1,2) by (auto simp: stock_inv_def distinct_map dest: inj_onD)
        have "issued_for (trs_order_id s) (?ts @ ?new) = (if trs_status s = ''converted'' then trs_quantity s else 0)"
          if "s \<in> set (sql_update (\<lambda>s. s = r) ?f ?rs)" for s
        proof -
          have old: "issued_for (trs_order_id u) ?ts = (if trs_status u = ''converted'' then trs_quantity u else 0)" if "u \<in> set ?rs" for u
            using I that by (simp add: issue_inv_def)
          from in_update_only [OF that] show ?thesis
          proof
            assume "s = ?f r"
            then show ?thesis using old [OF c(1)] c(2,9) st cnt [of oid] by simp
          next
            assume "s \<in> set ?rs \<and> s \<noteq> r"
            moreover from this ords have "trs_order_id s \<noteq> oid" by blast
            ultimately show ?thesis using old [of s] by (simp add: cnt)
          qed
        qed
        moreover have "\<exists>s \<in> set (sql_update (\<lambda>s. s = r) ?f ?rs). trs_order_id s = tis_order_id t \<and>
            trs_ticket_product_id s = tis_ticket_product_id t" if t: "t \<in> set (?ts @ ?new)" for t
        proof -
          have "\<exists>s \<in> set ?rs. trs_order_id s = tis_order_id t \<and> trs_ticket_product_id s = tis_ticket_product_id t"
            using t I c(1,2,5,6) issuance_rows_facts(1) by (fastforce simp: issue_inv_def)
          then obtain s where "s \<in> set ?rs" "trs_order_id s = tis_order_id t" "trs_ticket_product_id s = tis_ticket_product_id t" by blast
          then show ?thesis using update_only_member(1) [of s ?rs r ?f] update_only_member(2) [OF c(1), of ?f]
            by (intro bexI [of _ "if s = r then ?f r else s"]) auto
        qed
        moreover have "\<exists>p \<in> set ?ps. tpd_id p = tis_ticket_product_id t \<and> tpd_ticket_event_id p = tis_ticket_event_id t"
          if "t \<in> set (?ts @ ?new)" for t
          using that I c(4,6,7) issuance_rows_facts(1) by (fastforce simp: issue_inv_def)
        moreover have "serials_ok (?ts @ ?new)" using I q(2) by (intro serials_issued) (simp_all add: issue_inv_def)
        ultimately show ?thesis using new(12) unfolding issue_inv_def ts by blast
      qed
      moreover have "owner_inv ?ps (sql_update (\<lambda>s. s = r) ?f ?rs) (?ts @ ?new) (ticket_ownership_evidence d)
         (ticket_transfer_requests d) (ticket_check_ins d)"
      proof (rule owner_inv_reservations [of _ ?rs])
        have "distinct (map tis_id (?ts @ ?new))" using new(12) unfolding ts .
        then have fresh: "tis_id t \<notin> tis_id ` set ?ts" if "t \<in> set ?new" for t using that by auto
        have ev: "\<forall>e \<in> set (ticket_ownership_evidence d). toe_ticket_issuance_id e \<in> tis_id ` set ?ts" using O by (simp add: owner_inv_def)
        have "poc_buyer_user_id ctx = trs_buyer_user_id r"
          using c(1,2,11) buyers_okD [OF B c(1)] by auto
        then have "bought ?rs t" if "t \<in> set ?new" for t
          using issuance_rows_facts(1) [OF that] c(1,2) by (auto simp: bought_def)
        then have "history_ok ?rs (ticket_transfer_requests d) t (evidence_of (tis_id t) (ticket_ownership_evidence d))" if "t \<in> set ?new" for t
          using that history_new [OF ev fresh] issuance_rows_facts(1) [OF that] by (simp add: history_ok_def)
        moreover have "transfer_of_product ?ps (?ts @ ?new) y" if "transfer_of_product ?ps ?ts y" for y
          using that unfolding transfer_of_product_def by auto
        ultimately show "owner_inv ?ps ?rs (?ts @ ?new) (ticket_ownership_evidence d) (ticket_transfer_requests d) (ticket_check_ins d)"
          using O by (auto simp: owner_inv_def)
      qed (simp add: map_update_only)
      moreover have "buyers_ok (orders d') (sql_update (\<lambda>s. s = r) ?f ?rs)"
        by (rule buyers_ok_orders [OF B]) (simp_all add: new(11) orders_update_same map_update_only)
      ultimately show ?thesis unfolding ticket_inv_def ts rs "is" rest by blast
    qed
  qed
qed

end
