(* ===== verification/Ticket_Inv3.thy ===== *)
theory Ticket_Inv3
  imports Ticket_Inv2
begin

text \<open>Evidence, check-ins and transfers keep \<open>ticket_inv\<close>, and so does every step.\<close>

section \<open>Ownership\<close>

lemma moved_by_mono:
  "moved_by xs a b \<Longrightarrow> (\<And>x. x \<in> set xs \<Longrightarrow> ttr_status x = ''confirmed'' \<Longrightarrow> x \<in> set xs') \<Longrightarrow> moved_by xs' a b"
  unfolding moved_by_def by blast

lemma linked_mono:
  "linked xs h \<Longrightarrow> (\<And>x. x \<in> set xs \<Longrightarrow> ttr_status x = ''confirmed'' \<Longrightarrow> x \<in> set xs') \<Longrightarrow> linked xs' h"
proof (induction xs h rule: linked.induct)
  case (1 xs a b es)
  then show ?case using moved_by_mono [of xs a b xs'] by simp
qed simp_all

lemma history_mono:
  assumes "history_ok rs xs t h" "\<And>x. x \<in> set xs \<Longrightarrow> ttr_status x = ''confirmed'' \<Longrightarrow> x \<in> set xs'"
  shows "history_ok rs xs' t h"
proof -
  have "received xs t \<Longrightarrow> received xs' t" unfolding received_def using assms(2) by blast
  then show ?thesis using assms linked_mono [of xs h xs'] by (auto simp: history_ok_def split: list.splits if_splits)
qed

lemma linked_snoc:
  "linked xs (h @ [e]) \<longleftrightarrow> linked xs h \<and> (h = [] \<or> moved_by xs (last h) e)"
  by (induction xs h rule: linked.induct) auto

lemma history_issued:
  assumes "history_ok rs xs t h" "tis_token_id t \<noteq> None \<or> tis_status t \<noteq> ''pending''"
  shows "h \<noteq> []" "tis_status t = ''issued''"
  using assms by (auto simp: history_ok_def split: list.splits)

lemma history_pending:
  assumes "history_ok rs xs t h" "tis_status t \<noteq> ''issued''"
  shows "h = []" "bought rs t"
  using assms by (auto simp: history_ok_def split: list.splits)

lemma issue_inv_update:
  assumes "issue_inv ps rs ts" "\<And>t. tis_id (f t) = tis_id t" "\<And>t. tis_order_id (f t) = tis_order_id t"
    "\<And>t. tis_ticket_product_id (f t) = tis_ticket_product_id t" "\<And>t. tis_ticket_event_id (f t) = tis_ticket_event_id t"
    "\<And>t. tis_serial_number (f t) = tis_serial_number t"
  shows "issue_inv ps rs (sql_update p f ts)"
proof -
  let ?ts = "sql_update p f ts"
  have ids: "map tis_id ?ts = map tis_id ts" by (rule map_sql_update) (rule assms(2))
  have cnt: "sql_count P ?ts = sql_count P ts" and ser: "map tis_serial_number (filter P ?ts) = map tis_serial_number (filter P ts)"
    if "\<And>t. P (f t) = P t" for P
    using that assms(6) by (induction ts) (auto simp: sql_update_def sql_count_def)
  have "issued_for k ?ts = issued_for k ts" for k unfolding issued_for_def by (rule cnt) (simp add: assms(3))
  moreover have "serials_ok ?ts \<longleftrightarrow> serials_ok ts" unfolding serials_ok_def using cnt ser assms(5) by simp
  moreover have "\<exists>u \<in> set ts. tis_order_id t = tis_order_id u \<and> tis_ticket_product_id t = tis_ticket_product_id u \<and>
      tis_ticket_event_id t = tis_ticket_event_id u" if "t \<in> set ?ts" for t
    using in_sql_update_self [OF that] assms(3-5) by auto
  ultimately show ?thesis using assms(1) unfolding issue_inv_def ids by metis
qed

lemma owner_inv_change:
  assumes O: "owner_inv ps rs ts es xs cs" and t: "t \<in> set ts" "distinct (map tis_id ts)"
    and f: "tis_id (f t) = tis_id t" "tis_ticket_product_id (f t) = tis_ticket_product_id t" "tis_status (f t) = ''issued''"
    and e: "toe_id e \<notin> toe_id ` set es" "toe_ticket_issuance_id e = tis_id t"
    and x: "map ttr_id xs' = map ttr_id xs" "\<And>x. x \<in> set xs \<Longrightarrow> ttr_status x = ''confirmed'' \<Longrightarrow> x \<in> set xs'"
      "\<And>x. x \<in> set xs' \<Longrightarrow> \<exists>y \<in> set xs. ttr_ticket_issuance_id x = ttr_ticket_issuance_id y \<and> ttr_policy x = ttr_policy y"
    and h: "history_ok rs xs' (f t) (evidence_of (tis_id t) es @ [e])"
  shows "owner_inv ps rs (sql_update (\<lambda>s. s = t) f ts) (es @ [e]) xs' cs"
proof -
  let ?ts = "sql_update (\<lambda>s. s = t) f ts"
  have ids: "tis_id ` set ?ts = tis_id ` set ts" using map_update_only [of tis_id f t ts] f(1) by (metis set_map)
  have hist: "history_ok rs xs' u (evidence_of (tis_id u) (es @ [e]))" if u: "u \<in> set ?ts" for u
    using in_update_only [OF u]
  proof
    assume "u = f t"
    then show ?thesis using h e(2) f(1) by (simp add: evidence_of_def)
  next
    assume u: "u \<in> set ts \<and> u \<noteq> t"
    then have "tis_id u \<noteq> tis_id t" using t unfolding distinct_map by (metis inj_onD)
    then have "evidence_of (tis_id u) (es @ [e]) = evidence_of (tis_id u) es" using e(2) by (simp add: evidence_of_def)
    moreover have "history_ok rs xs u (evidence_of (tis_id u) es)" using O u by (simp add: owner_inv_def)
    ultimately show ?thesis using history_mono x(2) by metis
  qed
  have tr: "transfer_of_product ps ?ts x" if "x \<in> set xs'" for x
  proof -
    from x(3) [OF that] obtain y where y: "y \<in> set xs" "ttr_ticket_issuance_id x = ttr_ticket_issuance_id y" "ttr_policy x = ttr_policy y" by blast
    with O obtain u p where u: "u \<in> set ts" "p \<in> set ps" "tis_id u = ttr_ticket_issuance_id x" "tpd_id p = tis_ticket_product_id u"
      "ttr_policy x = tpd_transfer_policy p" "ttr_policy x \<noteq> ''non_transferable''"
      by (auto simp: owner_inv_def transfer_of_product_def)
    show ?thesis unfolding transfer_of_product_def
      by (intro bexI [of _ "if u = t then f t else u"] bexI [OF _ u(2)])
        (use u f update_only_member(1) [of u ts t f] update_only_member(2) [OF t(1), of f] in auto)
  qed
  have chk: "\<exists>u \<in> set ?ts. tis_id u = tci_ticket_issuance_id c \<and> tis_status u = ''issued''" if "c \<in> set cs" for c
  proof -
    from O that obtain u where u: "u \<in> set ts" "tis_id u = tci_ticket_issuance_id c" "tis_status u = ''issued''" by (auto simp: owner_inv_def)
    show ?thesis by (intro bexI [of _ "if u = t then f t else u"])
      (use u f update_only_member(1) [of u ts t f] update_only_member(2) [OF t(1), of f] in auto)
  qed
  have ev: "\<forall>e' \<in> set (es @ [e]). toe_ticket_issuance_id e' \<in> tis_id ` set ?ts"
    unfolding ids using O e(2) t(1) by (auto simp: owner_inv_def)
  have dist: "distinct (map toe_id (es @ [e]))" "distinct (map ttr_id xs')" "distinct (map tci_ticket_issuance_id cs)"
    using O e(1) x(1) by (auto simp: owner_inv_def)
  show ?thesis unfolding owner_inv_def using dist ev hist tr chk by blast
qed

lemma ticket_inv_parts:
  assumes "ticket_inv d"
  shows "buyers_ok (orders d) (ticket_reservations d)"
    "stock_inv (ticket_products d) (product_inventory d) (ticket_reservations d)"
    "issue_inv (ticket_products d) (ticket_reservations d) (ticket_issuances d)"
    "owner_inv (ticket_products d) (ticket_reservations d) (ticket_issuances d) (ticket_ownership_evidence d)
       (ticket_transfer_requests d) (ticket_check_ins d)"
    "distinct (map tis_id (ticket_issuances d))"
  using assms by (simp_all add: ticket_inv_def issue_inv_def)

lemma accept_ownership_inv:
  assumes inv: "ticket_inv d" and tx: "accept_ownership_evidence_tx env q hdrs iid body d = Inr (x, d')"
  shows "ticket_inv d'"
  using tx
proof (cases rule: accept_ownership_evidence_txE)
  case existing
  then show ?thesis using inv by simp
next
  case (new t tok h ev a v)
  note P = ticket_inv_parts [OF inv]
  from find_Some_in [OF new(1)] have t: "t \<in> set (ticket_issuances d)" "tis_id t = iid" by simp_all
  have H: "history_ok (ticket_reservations d) (ticket_transfer_requests d) t (evidence_of (tis_id t) (ticket_ownership_evidence d))"
    using P(4) t(1) by (simp add: owner_inv_def)
  have none: "evidence_of (tis_id t) (ticket_ownership_evidence d) = []" and b: "bought (ticket_reservations d) t"
    using history_pending [OF H] new(3) by auto
  from new(8) show ?thesis
  proof (cases rule: accept_mint_Inr)
    case (1 os al)
    let ?e = "minted_evidence q t tok h ev body"
    let ?f = "\<lambda>u. u\<lparr>tis_status := ''issued'', tis_token_id := Some tok, tis_issuance_tx_hash := Some h,
               tis_accepted_evidence_id := Some (new_uuid q 0), tis_issued_at := Some (now_utc q 0), tis_updated_at := sql_now q\<rparr>"
    have ts: "sql_update (\<lambda>u. tis_id u = tis_id t) ?f (ticket_issuances d) = sql_update (\<lambda>u. u = t) ?f (ticket_issuances d)"
      by (rule sql_update_only [where key = tis_id, OF P(5) t(1)]) simp_all
    have "owner_inv (ticket_products d) (ticket_reservations d) (sql_update (\<lambda>u. u = t) ?f (ticket_issuances d))
       (ticket_ownership_evidence d @ [?e]) (ticket_transfer_requests d) (ticket_check_ins d)"
    proof (rule owner_inv_change [OF P(4) t(1) P(5)])
      show "toe_id ?e \<notin> toe_id ` set (ticket_ownership_evidence d)" by (rule ownership_ids.insert_new [OF 1(1)])
      show "history_ok (ticket_reservations d) (ticket_transfer_requests d) (?f t) (evidence_of (tis_id t) (ticket_ownership_evidence d) @ [?e])"
        using none b by (simp add: history_ok_def minted_evidence_def bought_def)
      show "\<exists>y \<in> set (ticket_transfer_requests d). ttr_ticket_issuance_id x = ttr_ticket_issuance_id y \<and> ttr_policy x = ttr_policy y"
        if "x \<in> set (ticket_transfer_requests d)" for x using that by blast
    qed (simp_all add: minted_evidence_def)
    moreover have "issue_inv (ticket_products d) (ticket_reservations d) (sql_update (\<lambda>u. u = t) ?f (ticket_issuances d))"
      by (rule issue_inv_update [OF P(3)]) simp_all
    moreover have "buyers_ok os (ticket_reservations d)"
      by (rule buyers_ok_orders [OF P(1)]) (simp_all add: 1(4) orders_update_same)
    ultimately show ?thesis using P(2) unfolding ticket_inv_def by (simp add: 1(3) ts)
  qed
qed

lemma check_in_inv:
  assumes inv: "ticket_inv d" and tx: "check_in_ticket_tx env q hdrs iid body d = Inr (x, d')"
  shows "ticket_inv d'"
  using tx
proof (cases rule: check_in_ticket_txE)
  case (1 t actor h dev al)
  let ?c = "new_check_in q t actor h dev (cir_metadata body)"
  have t: "t \<in> set (ticket_issuances d)" "tis_id t = iid" using find_Some_in [OF 1(1)] by simp_all
  have "tci_ticket_issuance_id ?c \<notin> tci_ticket_issuance_id ` set (ticket_check_ins d)"
    by (rule check_in_issuances.insert_new [OF 1(7)])
  moreover have "tci_ticket_issuance_id ?c = tis_id t" by (simp add: new_check_in_def)
  ultimately show ?thesis using inv t(1) 1(2) unfolding ticket_inv_def owner_inv_def by (auto simp: 1(9))
qed

section \<open>Transfers\<close>

lemma create_transfer_inv:
  assumes inv: "ticket_inv d" and tx: "create_transfer_tx env q hdrs iid body d = Inr (x, d')"
  shows "ticket_inv d'"
  using tx
proof (cases rule: create_transfer_txE)
  case existing
  then show ?thesis using inv by simp
next
  case (new actor i dest tok key sha reason al tr)
  note P = ticket_inv_parts [OF inv]
  from new(2) show ?thesis
  proof (cases rule: load_issuance_context_Inr)
    case (1 t p sa)
    have t: "t \<in> set (ticket_issuances d)" "tis_id t = iid" using find_Some_in [OF 1(1)] by simp_all
    have tr: "ttr_ticket_issuance_id tr = iid" "ttr_policy tr = tic_transfer_policy i" by (simp_all add: new(11) new_transfer_def Let_def)
    have "transfer_of_product (ticket_products d) (ticket_issuances d) tr"
      unfolding transfer_of_product_def using t 1(2,3,13) tr new(5)
      by (intro bexI [OF _ t(1)] bexI [OF _ 1(2)]) simp
    moreover have "ttr_id tr \<notin> ttr_id ` set (ticket_transfer_requests d)" by (rule ticket_transfer_ids.insert_new [OF new(12)])
    moreover have "history_ok rs (xs @ [tr]) u h" if "history_ok rs xs u h" for rs xs u h
      using that by (rule history_mono) simp
    ultimately show ?thesis using P unfolding ticket_inv_def owner_inv_def by (auto simp: new(14))
  qed
qed

text \<open>A change of requests that are neither confirmed before nor after.\<close>

lemma transfers_progress_inv:
  assumes inv: "ticket_inv d" and f: "\<And>x. p x \<Longrightarrow> ttr_status x \<noteq> ''confirmed''" "\<And>x. ttr_id (f x) = ttr_id x"
    "\<And>x. ttr_ticket_issuance_id (f x) = ttr_ticket_issuance_id x" "\<And>x. ttr_policy (f x) = ttr_policy x"
    and d': "d' = d\<lparr>ticket_transfer_requests := sql_update p f (ticket_transfer_requests d), audit_logs := al\<rparr>"
  shows "ticket_inv d'"
proof -
  let ?xs = "ticket_transfer_requests d" and ?xs' = "sql_update p f (ticket_transfer_requests d)"
  have keep: "x \<in> set ?xs'" if "x \<in> set ?xs" "ttr_status x = ''confirmed''" for x
    using that f(1) by (force simp: set_sql_update image_iff)
  have "map ttr_id ?xs' = map ttr_id ?xs" by (rule map_sql_update) (rule f(2))
  moreover have "history_ok rs ?xs' u h" if "history_ok rs ?xs u h" for rs u h using that keep by (rule history_mono)
  moreover have "transfer_of_product ps ts x" if "x \<in> set ?xs'" "\<forall>y \<in> set ?xs. transfer_of_product ps ts y" for ps ts x
    using in_sql_update_self [OF that(1)] that(2) f(3,4) by (auto simp: transfer_of_product_def split: if_splits)
  ultimately show ?thesis using ticket_inv_parts [OF inv] unfolding ticket_inv_def owner_inv_def by (simp add: d')
qed

lemma review_transfer_inv:
  assumes inv: "ticket_inv d" and tx: "review_transfer_tx env q hdrs tid body d = Inr (x, d')"
  shows "ticket_inv d'"
  using tx
proof (cases rule: review_transfer_txE)
  case (1 actor t reason st al)
  show ?thesis by (rule transfers_progress_inv [OF inv _ _ _ _ 1(7)]) auto
qed

lemma record_transfer_submission_inv:
  assumes inv: "ticket_inv d" and tx: "record_transfer_submission_tx env q hdrs tid h d = Inr (x, d')"
  shows "ticket_inv d'"
  using tx
proof (cases rule: record_transfer_submission_txE)
  case existing
  then show ?thesis using inv by simp
next
  case (new t hash al)
  show ?thesis by (rule transfers_progress_inv [OF inv _ _ _ _ new(3)]) auto
qed

lemma accept_transfer_inv:
  assumes inv: "ticket_inv d" and tx: "accept_transfer_evidence_tx env q hdrs tid body d = Inr (x, d')"
  shows "ticket_inv d'"
  using tx
proof (cases rule: accept_transfer_evidence_txE)
  case existing
  then show ?thesis using inv by simp
next
  case (new tr t c e al)
  note P = ticket_inv_parts [OF inv]
  let ?f = "\<lambda>u. u\<lparr>tis_owner_user_id := ttr_to_user_id tr, tis_owner_stellar_account_id := ttr_to_stellar_account_id tr,
                  tis_accepted_evidence_id := Some (new_uuid q 0), tis_status := ''issued'', tis_updated_at := sql_now q\<rparr>"
  let ?g = "\<lambda>t. t\<lparr>ttr_status := ''confirmed'', ttr_accepted_evidence_id := Some (new_uuid q 0),
                   ttr_confirmed_at := Some (now_utc q 0), ttr_updated_at := sql_now q\<rparr>"
  let ?xs = "ticket_transfer_requests d" and ?xs' = "sql_update (\<lambda>t. ttr_id t = tid) ?g (ticket_transfer_requests d)"
  have tr: "tr \<in> set ?xs" "ttr_id tr = tid" and t: "t \<in> set (ticket_issuances d)" "tis_id t = ttr_ticket_issuance_id tr"
    using find_Some_in [OF new(1)] find_Some_in [OF new(2)] by simp_all
  have ts: "sql_update (\<lambda>u. tis_id u = tis_id t) ?f (ticket_issuances d) = sql_update (\<lambda>u. u = t) ?f (ticket_issuances d)"
    by (rule sql_update_only [where key = tis_id, OF P(5) t(1)]) simp_all
  have keep: "x \<in> set ?xs'" if "x \<in> set ?xs" "ttr_status x = ''confirmed''" for x
  proof -
    have "x \<noteq> tr" using that(2) new(3) by auto
    then have "ttr_id x \<noteq> tid" using that(1) tr P(4) unfolding owner_inv_def distinct_map by (metis inj_onD)
    then show ?thesis using that(1) by (force simp: set_sql_update image_iff)
  qed
  let ?h = "evidence_of (tis_id t) (ticket_ownership_evidence d)"
  have H: "history_ok (ticket_reservations d) ?xs t ?h" using P(4) t(1) by (simp add: owner_inv_def)
  then obtain m moves where h: "?h = m # moves" using history_issued(1) [OF H] new(7) by (cases ?h) auto
  have "?g tr \<in> set ?xs'" using tr by (auto simp: set_sql_update)
  moreover have L: "linked ?xs ?h" "tis_owner_stellar_account_id t = toe_owner_stellar_account_id (last ?h)"
    "toe_event_kind m = ''mint''" "\<forall>e \<in> set moves. toe_event_kind e = ''transfer''"
    "\<forall>e \<in> set ?h. tis_token_id t = Some (toe_token_id e)"
    using H unfolding history_ok_def h list.case by blast+
  ultimately have M: "moved_by ?xs' (last ?h) e" and R: "received ?xs' (?f t)"
    using new(4,5,9-11) t(2) [symmetric] unfolding moved_by_def received_def
    by (auto intro!: bexI [of _ "?g tr"])
  have "linked ?xs' (?h @ [e])" unfolding linked_snoc using M linked_mono [OF L(1) keep] by blast
  then have hist: "history_ok (ticket_reservations d) ?xs' (?f t) (?h @ [e])"
    using L(3-5) R new(7,9,11,12) unfolding history_ok_def h by auto
  have "owner_inv (ticket_products d) (ticket_reservations d) (sql_update (\<lambda>u. u = t) ?f (ticket_issuances d))
       (ticket_ownership_evidence d @ [e]) ?xs' (ticket_check_ins d)"
  proof (rule owner_inv_change [OF P(4) t(1) P(5)])
    show "history_ok (ticket_reservations d) ?xs' (?f t) (?h @ [e])" by (rule hist)
    show "toe_id e \<notin> toe_id ` set (ticket_ownership_evidence d)" by (rule ownership_ids.insert_new [OF new(16)])
    show "map ttr_id ?xs' = map ttr_id ?xs" by (rule map_sql_update) simp
    show "\<exists>y \<in> set ?xs. ttr_ticket_issuance_id x = ttr_ticket_issuance_id y \<and> ttr_policy x = ttr_policy y" if "x \<in> set ?xs'" for x
      using in_sql_update_self [OF that] by auto
  qed (use new(10) keep in simp_all)
  moreover have "issue_inv (ticket_products d) (ticket_reservations d) (sql_update (\<lambda>u. u = t) ?f (ticket_issuances d))"
    by (rule issue_inv_update [OF P(3)]) simp_all
  ultimately show ?thesis using P(1,2) unfolding ticket_inv_def by (simp add: new(17) ts)
qed

section \<open>Every reachable state\<close>

lemma snd_transaction_inv:
  "(\<And>x d'. body d = Inr (x, d') \<Longrightarrow> ticket_inv d') \<Longrightarrow> ticket_inv d \<Longrightarrow> ticket_inv (snd (transaction body d))"
  by (cases rule: transaction_cases [of body d]) auto

lemma create_event_inv:
  assumes "ticket_inv d" "create_event_tx env q hdrs body d = Inr (x, d')"
  shows "ticket_inv d'"
  using assms(2) by (cases rule: create_event_txE) (use assms(1) in \<open>simp add: ticket_inv_def\<close>)

lemma put_event_on_sale_inv:
  assumes "ticket_inv d" "put_event_on_sale_tx env q hdrs eid reason d = Inr (x, d')"
  shows "ticket_inv d'"
  using assms(2) by (cases rule: put_event_on_sale_txE) (use assms(1) in \<open>simp add: ticket_inv_def\<close>)

lemma elsewhere_inv:
  assumes "ticket_inv d" "ticket_tables d' = ticket_tables d" "stock_grows d d'" "orders_kept d d'"
  shows "ticket_inv d'"
proof -
  have t: "ticket_products d' = ticket_products d" "ticket_reservations d' = ticket_reservations d"
    "ticket_issuances d' = ticket_issuances d" "ticket_check_ins d' = ticket_check_ins d"
    "ticket_ownership_evidence d' = ticket_ownership_evidence d" "ticket_transfer_requests d' = ticket_transfer_requests d"
    using assms(2) by (simp_all add: ticket_tables_def)
  have "stocked p (product_inventory d') (ticket_reservations d)"
    if p: "p \<in> set (ticket_products d)" and s: "stocked p (product_inventory d) (ticket_reservations d)" for p
  proof -
    from s obtain i where i: "i \<in> set (product_inventory d)" "iv_product_id i = tpd_product_id p" "iv_supply_limit i \<noteq> None"
      "reserved_for (tpd_id p) (ticket_reservations d) \<le> iv_reserved_quantity i"
      "converted_for (tpd_id p) (ticket_reservations d) = iv_fulfilled_quantity i" by (auto simp: stocked_def)
    with assms(3) p obtain i' where "i' \<in> set (product_inventory d')" "iv_product_id i' = iv_product_id i"
      "iv_supply_limit i' = iv_supply_limit i" "iv_fulfilled_quantity i' = iv_fulfilled_quantity i"
      "iv_reserved_quantity i \<le> iv_reserved_quantity i'" "inventory_check i'" unfolding stock_grows_def by blast
    with i show ?thesis unfolding stocked_def by (intro bexI [of _ i']) auto
  qed
  then have "stock_inv (ticket_products d) (product_inventory d') (ticket_reservations d)"
    using assms(1,3) by (simp add: ticket_inv_def stock_inv_def stock_grows_def)
  moreover have "buyers_ok (orders d') (ticket_reservations d)"
    using assms(1,4) unfolding ticket_inv_def buyers_ok_def orders_kept_def by metis
  ultimately show ?thesis using assms(1) by (simp add: ticket_inv_def t)
qed

lemma ticket_step_inv: "ticket_step env d d' \<Longrightarrow> ticket_inv d \<Longrightarrow> ticket_inv d'"
proof (induction rule: ticket_step.induct)
  case step_elsewhere
  then show ?case by (blast intro: elsewhere_inv)
qed (auto simp: create_event_def put_event_on_sale_def create_product_def create_reservation_def prepare_issuance_def
    accept_ownership_evidence_def check_in_ticket_def create_transfer_def review_transfer_def
    record_transfer_submission_def accept_transfer_evidence_def
    intro!: snd_transaction_inv elim: create_event_inv put_event_on_sale_inv create_product_inv create_reservation_inv
      prepare_issuance_inv accept_ownership_inv check_in_inv create_transfer_inv review_transfer_inv
      record_transfer_submission_inv accept_transfer_inv)

lemma ticket_reachable_inv:
  assumes "ticket_reachable env d"
  shows "ticket_inv d"
proof -
  from assms obtain d0 where "ticket_start d0" "(ticket_step env)\<^sup>*\<^sup>* d0 d" by (auto simp: ticket_reachable_def)
  from this(2,1) show ?thesis
    by (induction rule: rtranclp_induct) (auto intro: ticket_inv_start ticket_step_inv)
qed

end
