(* ===== verification/Ticket_Demo.thy ===== *)
theory Ticket_Demo
  imports Ticket_Inv3 Order_Props
begin

text \<open>
  A concrete ticket run on which the theorems are instantiated: a product of five seats goes on sale, two are
  reserved, paid and issued, one is minted, transferred and checked in. Between the requests the payment modules
  mark the order paid.
\<close>

section \<open>The rows\<close>

definition seat_env :: env where
  "seat_env = flat_env\<lparr>parse_rfc3339 := (\<lambda>s. Some (if s = ''fan'' then 2000000000 else 1))\<rparr>"

definition seat_event :: "string \<Rightarrow> int \<Rightarrow> TicketEventRecord" where
  "seat_event st at = \<lparr>tev_id = ''e'', tev_organization_id = ''o'', tev_pageant_id = ''g'', tev_slug = ''gala'', tev_title = ''Gala'',
     tev_description = None, tev_venue_name = None, tev_starts_at = 3000000000, tev_ends_at = None, tev_status = st,
     tev_default_transfer_policy = ''open'', tev_created_by_user_id = ''m'', tev_created_at = 0, tev_updated_at = at\<rparr>"

definition seat_product_row :: "string \<Rightarrow> product_row" where
  "seat_product_row st = \<lparr>pr_id = ''p'', pr_organization_id = ''o'', pr_pageant_id = Some ''g'',
     pr_pageant_contestant_id = None, pr_kind = ''ticket'', pr_name = ''f'', pr_slug = ''f'', pr_description = None,
     pr_status = st, pr_created_by_user_id = ''m'', pr_created_at = 5, pr_updated_at = 5\<rparr>"

definition seat_price :: price_row where
  "seat_price = \<lparr>pp_id = ''px'', pp_product_id = ''p'', pp_amount_minor = 500, pp_asset_code = ''XLM'', pp_asset_scale = 7,
     pp_asset_issuer = None, pp_is_active = True, pp_starts_at = Some 1, pp_ends_at = Some 2000000000, pp_created_at = 5\<rparr>"

definition seat_stock :: "int \<Rightarrow> int \<Rightarrow> inventory_row" where
  "seat_stock r f = \<lparr>iv_product_id = ''p'', iv_supply_limit = Some 5, iv_reserved_quantity = r, iv_fulfilled_quantity = f,
     iv_updated_at = 5\<rparr>"

definition seat :: ticket_product_row where
  "seat = \<lparr>tpd_id = ''pxx'', tpd_ticket_event_id = ''e'', tpd_product_id = ''p'', tpd_tier_name = ''f'', tpd_per_user_limit = 2,
     tpd_sale_starts_at = 1, tpd_sale_ends_at = 2000000000, tpd_transfer_policy = ''open'', tpd_resale_price_cap_minor = None\<rparr>"

definition seat_audit :: "uuid \<Rightarrow> string option \<Rightarrow> string \<Rightarrow> string \<Rightarrow> uuid \<Rightarrow> json \<Rightarrow> audit_row" where
  "seat_audit i actor act ty ent m = \<lparr>al_id = i, al_organization_id = Some ''o'', al_actor_user_id = actor,
     al_action = act, al_entity_type = ty, al_entity_id = Some ent, al_metadata = m\<rparr>"

definition seat_wallet :: "uuid \<Rightarrow> uuid \<Rightarrow> string \<Rightarrow> stellar_account_row" where
  "seat_wallet i user address = \<lparr>sa_id = i, sa_user_id = user, sa_network = ''testnet'', sa_address = address,
     sa_is_primary = True, sa_verified_at = Some 0, sa_created_at = 0\<rparr>"

lemma seat_wallet_sel [simp]: "sa_id (seat_wallet i u a) = i" "sa_user_id (seat_wallet i u a) = u" "sa_network (seat_wallet i u a) = ''testnet''"
  "sa_address (seat_wallet i u a) = a" "sa_verified_at (seat_wallet i u a) = Some 0"
  by (simp_all add: seat_wallet_def)

definition seat0 :: ticket_db where
  "seat0 = \<lparr>users = [\<lparr>us_id = ''u'', us_status = ''active'', us_display_name = ''n'', us_email = None,
        us_created_at = 0, us_updated_at = 0\<rparr>, \<lparr>us_id = ''v'', us_status = ''active'', us_display_name = ''n'', us_email = None,
        us_created_at = 0, us_updated_at = 0\<rparr>],
     stellar_accounts =
       [seat_wallet ''su'' ''u'' source_acc, seat_wallet ''sv'' ''v'' candidate_acc],
     organizations = [], site_administrators = [],
     organization_members = [\<lparr>om_organization_id = ''o'', om_user_id = ''m'', om_role = ''owner'', om_status = ''active'',
        om_invited_by_user_id = None, om_created_at = 0, om_updated_at = 0\<rparr>],
     pageants = [], categories = [], contestants = [], pageant_contestants = [], category_memberships = [],
     contestant_media = [], media_assets = [], contract_deployments = [], audit_logs = [], products = [],
     product_prices = [], product_inventory = [], orders = [], order_items = [], payment_attempts = [],
     payment_provider_events = [], refunds = [], transaction_intents = [], stellar_reconciliation_results = [],
     payout_rules = [], payout_batches = [], payout_transfers = [], payout_transfer_evidence = [],
     ticket_events = [seat_event ''draft'' 0], ticket_products = [], ticket_reservations = [], ticket_issuances = [],
     ticket_check_ins = [], ticket_ownership_evidence = [], ticket_transfer_requests = []\<rparr>"

section \<open>The product\<close>

definition seat_request :: CreateProductRequest where
  "seat_request = \<lparr>cpq_name = ''f'', cpq_slug = ''f'', cpq_description = None, cpq_tier_name = ''f'', cpq_supply_limit = 5,
     cpq_per_user_limit = 2, cpq_sale_starts_at = ''f'', cpq_sale_ends_at = ''fan'', cpq_transfer_policy = None,
     cpq_resale_price_cap_minor = None, cpq_amount_minor = 500, cpq_asset_code = ''XLM'', cpq_asset_scale = 7,
     cpq_asset_issuer = None\<rparr>"

definition seat1 :: ticket_db where
  "seat1 = seat0\<lparr>products := [seat_product_row ''draft''], product_prices := [seat_price],
     product_inventory := [seat_stock 0 0], ticket_products := [seat],
     audit_logs := [seat_audit ''pxxx'' (Some ''m'') ''ticket_product.create'' ''ticket_product'' ''pxx''
       (JObj [(''event_id'', JStr ''e''), (''product_id'', JStr ''p''), (''price_id'', JStr ''px''), (''supply_limit'', JInt 5)])]\<rparr>"

lemmas seat_env_defs = seat_env_def flat_env_def dq_def user_headers_def worker_headers_def header_or_default_def
  database_pool_def require_web_actor_def require_worker_def require_organization_editor_def site_role_def member_role_def Let_def

lemmas seat_write_defs = ticket_audit_def transfer_audit_def insert_audit_def audit_clash_def sql_insert_def sql_update_def seat_audit_def

lemmas seat_row_defs = seat_event_def seat_product_row_def seat_price_def seat_stock_def seat_def

lemma f_slug [simp]: "validate_ticket_slug ''f'' e = Inr ''f''"
  by (simp add: validate_ticket_slug_def slug_text_def to_ascii_lowercase_def ascii_lowercase_char_def byte_in_def
      is_ascii_lowercase_def is_ascii_digit_def)

lemma f_required [simp]: "required_text ''f'' n e = (if n = 0 then Inl (InvalidRequest e) else Inr ''f'')"
  by (simp add: required_text_def)

lemma xlm_asset [simp]: "validate_ticket_asset ''XLM'' None = Inr (''XLM'', None)"
  by (simp add: validate_ticket_asset_def to_ascii_uppercase_def ascii_uppercase_char_def byte_in_def is_ascii_uppercase_def
      is_ascii_digit_def upper_non_empty_def Let_def)

lemma seat_checks [simp]: "product_check (seat_product_row ''draft'')" "price_check seat_price" "inventory_check (seat_stock 0 0)"
  "ticket_product_check seat"
  by (simp_all add: seat_row_defs product_check_def price_check_def inventory_check_def ticket_product_check_def slug_text_def
      text_between_def btrim_def char_length_def byte_in_def is_ascii_lowercase_def transfer_policies_def)

lemma seat_step1: "snd (create_product seat_env (dq ''p'') (user_headers ''m'') ''e'' seat_request seat0) = seat1"
proof -
  have rows: "\<lparr>pr_id = ''p'', pr_organization_id = ''o'', pr_pageant_id = Some ''g'',
     pr_pageant_contestant_id = None, pr_kind = ''ticket'', pr_name = ''f'', pr_slug = ''f'', pr_description = None,
     pr_status = ''draft'', pr_created_by_user_id = ''m'', pr_created_at = 5, pr_updated_at = 5\<rparr> = seat_product_row ''draft''"
    by (simp add: seat_product_row_def)
  have ev: "load_event ''e'' seat0 = Inr (seat_event ''draft'' 0)" by (simp add: load_event_def seat0_def seat_event_def)
  have ins: "insert_product (dq ''p'') ''m'' (seat_event ''draft'' 0) seat_request
      \<lparr>pdr_name = ''f'', pdr_slug = ''f'', pdr_description = None, pdr_tier_name = ''f'', pdr_asset_code = ''XLM'',
       pdr_asset_issuer = None, pdr_sale_starts_at = 1, pdr_sale_ends_at = 2000000000, pdr_transfer_policy = ''open''\<rparr> seat0 = Inr seat1"
    using seat_checks
    by (simp add: insert_product_def seat_row_defs seat_write_defs dq_def seat_request_def seat1_def)
      (simp add: seat0_def)
  have "create_product_tx seat_env (dq ''p'') (user_headers ''m'') ''e'' seat_request seat0 = Inr (''pxx'', seat1)"
    using ins
    by (simp add: create_product_tx_def ev seat_env_defs parse_timestamp_def optional_text_def seat_request_def)
      (simp add: seat_event_def seat0_def)
  then show ?thesis by (simp add: create_product_def transaction_def)
qed

definition seat2 :: ticket_db where
  "seat2 = seat1\<lparr>ticket_events := [seat_event ''on_sale'' 5], products := [seat_product_row ''published''],
     audit_logs := audit_logs seat1 @ [seat_audit ''q'' (Some ''m'') ''ticket_event.on_sale'' ''ticket_event'' ''e''
       (JObj [(''reason'', JStr ''f''), (''product_count'', JInt 1)])]\<rparr>"

lemma seat_step2: "snd (put_event_on_sale seat_env (dq ''q'') (user_headers ''m'') ''e'' ''f'' seat1) = seat2"
proof -
  have "put_event_on_sale_tx seat_env (dq ''q'') (user_headers ''m'') ''e'' ''f'' seat1 = Inr ((), seat2)"
    by (simp add: put_event_on_sale_tx_def seat_env_defs seat_write_defs seat2_def seat1_def seat0_def seat_row_defs sql_count_def)
  then show ?thesis by (simp add: put_event_on_sale_def transaction_def)
qed

section \<open>The reservation\<close>

definition seat_order :: "string \<Rightarrow> OrderRecord" where
  "seat_order st = \<lparr>or_id = ''r'', or_organization_id = ''o'', or_buyer_user_id = ''u'', or_status = st,
     or_environment = ''testnet'', or_idempotency_key = ''f'', or_request_sha256 = flat_hash,
     or_amount_minor = 1000, or_asset_code = ''XLM'', or_asset_scale = 7, or_asset_issuer = None,
     or_expires_at = Some 900000005, or_created_at = 5, or_updated_at = 5\<rparr>"

definition seat_item :: OrderItemRecord where
  "seat_item = \<lparr>oit_id = ''rxx'', oit_order_id = ''r'', oit_product_id = ''p'', oit_product_name = ''f'',
     oit_quantity = 2, oit_unit_amount_minor = 500, oit_total_amount_minor = 1000, oit_asset_code = ''XLM'',
     oit_asset_scale = 7, oit_asset_issuer = None, oit_created_at = 5\<rparr>"

definition seat_reservation :: "string \<Rightarrow> int option \<Rightarrow> ticket_reservation_row" where
  "seat_reservation st converted = \<lparr>trs_id = ''rx'', trs_organization_id = ''o'', trs_ticket_product_id = ''pxx'', trs_order_id = ''r'',
     trs_buyer_user_id = ''u'', trs_quantity = 2, trs_status = st, trs_idempotency_key = ''f'',
     trs_request_sha256 = flat_hash, trs_expires_at = 900000005, trs_converted_at = converted, trs_released_at = None,
     trs_created_at = 5, trs_updated_at = 5\<rparr>"

definition seat_availability :: AvailabilityRecord where
  "seat_availability = \<lparr>av_organization_id = ''o'', av_pageant_id = ''g'', av_event_status = ''on_sale'', av_product_id = ''p'',
     av_product_name = ''f'', av_product_status = ''published'', av_per_user_limit = 2, av_sale_starts_at = 1,
     av_sale_ends_at = 2000000000, av_amount_minor = 500, av_asset_code = ''XLM'', av_asset_scale = 7, av_asset_issuer = None,
     av_supply_limit = Some 5, av_reserved_quantity = 0, av_fulfilled_quantity = 0\<rparr>"

definition seat3 :: ticket_db where
  "seat3 = seat2\<lparr>orders := [seat_order ''awaiting_payment''], order_items := [seat_item],
     product_inventory := [seat_stock 2 0], ticket_reservations := [seat_reservation ''reserved'' None],
     audit_logs := audit_logs seat2 @ [seat_audit ''rxxx'' (Some ''u'') ''ticket_reservation.create'' ''ticket_reservation'' ''rx''
       (JObj [(''ticket_product_id'', JStr ''pxx''), (''order_id'', JStr ''r''), (''quantity'', JInt 2),
          (''expires_at'', JInt 900000005)])]\<rparr>"

definition seat_reserve :: CreateReservationRequest where
  "seat_reserve = \<lparr>crr_quantity = 2, crr_idempotency_key = ''f''\<rparr>"

lemmas seat_order_defs = seat_order_def seat_item_def seat_reservation_def seat_availability_def

lemma seat_order_checks [simp]: "order_check (seat_order ''awaiting_payment'')" "order_item_check seat_item"
  "reservation_check (seat_reservation ''reserved'' None)"
  by (simp_all add: seat_order_defs order_check_def order_item_check_def reservation_check_def environments_def)

lemma seat_step3: "snd (create_reservation seat_env (dq ''r'') (user_headers ''u'') ''pxx'' seat_reserve seat2) = seat3"
proof -
  have sel: "ticket_products seat2 = [seat]" "ticket_reservations seat2 = []" "orders seat2 = []" "order_items seat2 = []"
    "product_inventory seat2 = [seat_stock 0 0]" by (simp_all add: seat2_def seat1_def seat0_def)
  have none: "release_expired_for_product 5 ''pxx'' seat2 = seat2"
    by (simp add: release_expired_for_product_def sel seat_def)
  have av: "availability ''pxx'' seat2 = Some seat_availability"
    by (simp add: availability_def sel) (simp add: seat2_def seat1_def seat0_def seat_row_defs seat_availability_def)
  have ok: "verified_buyer ''u'' seat2" by (simp add: verified_buyer_def seat2_def seat1_def seat0_def)
  have res: "reserve_inventory 5 ''p'' 2 [seat_stock 0 0] = Inr (1, [seat_stock 2 0])"
    by (simp add: reserve_inventory_def inventory_overflows_def inventory_fits_def seat_stock_def checked_i64_def
        i64_min_def i64_max_def sql_count_def sql_update_def)
  have place: "place_reservation seat_env (dq ''r'') ''pxx'' seat_availability ''u'' 2 ''f'' flat_hash seat2 = Inr seat3"
    using res seat_order_checks
    by (simp add: place_reservation_def sel sql_bigint_def checked_i64_def i64_min_def i64_max_def i64_wrap_def seat_availability_def
        reservation_order_def reservation_item_def new_reservation_def dq_def minutes_def reservation_minutes_def
        ticket_audit_def insert_audit_def audit_clash_def sql_insert_def seat_order_defs Let_def seat3_def seat_env_def flat_env_def
        seat_audit_def)
      (simp add: seat2_def seat1_def seat0_def seat_audit_def audit_clash_def)
  have "create_reservation_tx seat_env (dq ''r'') (user_headers ''u'') ''pxx'' seat_reserve seat2 = Inr ((201, ''rx''), seat3)"
    using none av ok place
    by (simp add: create_reservation_tx_def seat_reserve_def sel seat_env_defs hash_text_def seat_availability_def)
  then show ?thesis by (simp add: create_reservation_def transaction_def)
qed

text \<open>The payment modules mark the order paid and record the accepted payment.\<close>

definition seat4 :: ticket_db where
  "seat4 = seat3\<lparr>orders := [seat_order ''paid''], transaction_intents := [paid_intent ''t'' ''r''],
     stellar_reconciliation_results := [accepted_result ''t'']\<rparr>"

lemma seat_step4: "ticket_step env seat3 seat4"
  by (rule step_elsewhere) (simp_all add: seat4_def seat3_def seat2_def seat1_def seat0_def ticket_tables_def stock_grows_def
      orders_kept_def seat_order_def seat_stock_def inventory_check_def)

section \<open>Issuance\<close>

definition seat_ticket :: "uuid \<Rightarrow> int \<Rightarrow> TicketIssuanceRecord" where
  "seat_ticket i n = \<lparr>tis_id = i, tis_organization_id = ''o'', tis_ticket_event_id = ''e'', tis_ticket_product_id = ''pxx'',
     tis_order_id = ''r'', tis_owner_user_id = ''u'', tis_owner_stellar_account_id = ''su'', tis_serial_number = n,
     tis_status = ''pending'', tis_token_id = None, tis_issuance_tx_hash = None, tis_accepted_evidence_id = None,
     tis_issued_at = None, tis_created_at = 5, tis_updated_at = 5\<rparr>"

definition seat5 :: ticket_db where
  "seat5 = seat4\<lparr>orders := [seat_order ''fulfilling''], product_inventory := [seat_stock 0 2],
     ticket_reservations := [seat_reservation ''converted'' (Some 5)],
     ticket_issuances := [seat_ticket ''i'' 1, seat_ticket ''ix'' 2],
     audit_logs := audit_logs seat4 @ [seat_audit ''ixx'' None ''ticket_issuance.prepare'' ''order'' ''r''
       (JObj [(''reservation_id'', JStr ''rx''), (''ticket_product_id'', JStr ''pxx''), (''quantity'', JInt 2),
          (''owner_stellar_account_id'', JStr ''su'')])]\<rparr>"

lemma dq_sel: "new_uuid (dq p) n = p @ replicate n (CHR ''x'')" "now_utc (dq p) n = 5" "sql_now (dq p) = 5"
  by (simp_all add: dq_def)

lemma seat_ticket_sel [simp]: "tis_id (seat_ticket i n) = i" "tis_organization_id (seat_ticket i n) = ''o''"
  "tis_order_id (seat_ticket i n) = ''r''" "tis_owner_stellar_account_id (seat_ticket i n) = ''su''"
  "tis_status (seat_ticket i n) = ''pending''"
  by (simp_all add: seat_ticket_def)

lemma upto_two: "[1..2] = [1, 2::int]"
  by (simp add: upto.simps)

lemma seat_step5: "snd (prepare_issuance seat_env (dq ''i'') worker_headers ''r'' seat4) = seat5"
proof -
  have sel: "ticket_issuances seat4 = []" "product_inventory seat4 = [seat_stock 2 0]" "orders seat4 = [seat_order ''paid'']"
    "ticket_reservations seat4 = [seat_reservation ''reserved'' None]" "ticket_products seat4 = [seat]"
    by (simp_all add: seat4_def seat3_def seat2_def seat1_def seat0_def)
  have ctx: "paid_order_context ''r'' seat4 = Some \<lparr>poc_organization_id = ''o'', poc_buyer_user_id = ''u'',
     poc_order_status = ''paid'', poc_reservation_id = ''rx'', poc_reservation_status = ''reserved'',
     poc_ticket_product_id = ''pxx'', poc_ticket_event_id = ''e'', poc_product_id = ''p'', poc_quantity = 2\<rparr>" (is "_ = Some ?ctx")
    by (simp add: paid_order_context_def sel seat_order_defs seat_def)
  have pay: "accepted_payment ''r'' seat4" by (simp add: accepted_payment_def seat4_def)
  have own: "owner_account ''u'' seat4 = Some ''su''"
    by (simp add: owner_account_def seat4_def seat3_def seat2_def seat1_def seat0_def)
  have iss: "insert_issuances (dq ''i'') ?ctx ''r'' ''su'' 0 [] = Inr [seat_ticket ''i'' 1, seat_ticket ''ix'' 2]"
    by (simp add: insert_issuances_def upto_two new_issuance_def dq_def sql_insert_def issuance_check_def issuance_clash_def
        seat_ticket_def sha256_or_null_def checked_i64_def i64_min_def i64_max_def)
  have ful: "fulfil_inventory 5 ''p'' 2 [seat_stock 2 0] = Inr (1, [seat_stock 0 2])"
    by (simp add: fulfil_inventory_def seat_stock_def checked_i64_def i64_min_def i64_max_def sql_count_def sql_update_def)
  have "issue_order (dq ''i'') ''r'' ?ctx ''su'' seat4 = Inr seat5"
    using iss ful
    by (simp add: issue_order_def sel current_serial_def seat_write_defs seat5_def seat_order_defs dq_sel)
      (simp add: seat4_def seat3_def seat2_def seat1_def seat0_def seat_audit_def audit_clash_def)
  then have "\<exists>ts. prepare_issuance_tx seat_env (dq ''i'') worker_headers ''r'' seat4 = Inr ((201, ts), seat5)"
    using ctx pay own by (simp add: prepare_issuance_tx_def seat_env_defs load_issuances_def sel)
  then show ?thesis by (auto simp: prepare_issuance_def transaction_def)
qed

section \<open>Mint and transfer\<close>

definition seat_issued :: "uuid \<Rightarrow> uuid \<Rightarrow> uuid \<Rightarrow> TicketIssuanceRecord" where
  "seat_issued user acct evidence = (seat_ticket ''i'' 1)\<lparr>tis_owner_user_id := user, tis_owner_stellar_account_id := acct,
     tis_status := ''issued'', tis_token_id := Some ''f'', tis_issuance_tx_hash := Some flat_hash,
     tis_accepted_evidence_id := Some evidence, tis_issued_at := Some 5\<rparr>"

lemma seat_issued_sel [simp]: "tis_order_id (seat_issued u a e) = ''r''" "tis_status (seat_issued u a e) = ''issued''"
  "tis_id (seat_issued u a e) = ''i''"
  by (simp_all add: seat_issued_def seat_ticket_def)

definition seat_evidence :: "uuid \<Rightarrow> uuid \<Rightarrow> string \<Rightarrow> string \<Rightarrow> ownership_evidence_row" where
  "seat_evidence i acct event kind = \<lparr>toe_id = i, toe_organization_id = ''o'', toe_ticket_issuance_id = ''i'',
     toe_owner_stellar_account_id = acct, toe_token_id = ''f'', toe_transaction_hash = flat_hash, toe_ledger_sequence = 7,
     toe_contract_event_id = event, toe_evidence_json = JObj [], toe_accepted_at = 5, toe_event_kind = kind\<rparr>"

definition seat6 :: ticket_db where
  "seat6 = seat5\<lparr>ticket_issuances := [seat_issued ''u'' ''su'' ''w'', seat_ticket ''ix'' 2],
     ticket_ownership_evidence := [seat_evidence ''w'' ''su'' ''f'' ''mint''],
     audit_logs := audit_logs seat5 @ [seat_audit ''wx'' None ''ticket_ownership.accept'' ''ticket_issuance'' ''i''
       (JObj [(''evidence_id'', JStr ''w''), (''token_id'', JStr ''f''), (''transaction_hash'', JStr flat_hash),
          (''ledger_sequence'', JInt 7), (''contract_event_id'', JStr ''f'')])]\<rparr>"

definition seat_mint :: OwnershipEvidenceRequest where
  "seat_mint = \<lparr>oer_token_id = ''f'', oer_transaction_hash = flat_hash, oer_ledger_sequence = 7, oer_contract_event_id = ''f'',
     oer_owner_address = source_acc, oer_evidence = JObj []\<rparr>"

lemma acc_strkey [simp]: "validate_strkey (CHR ''G'') source_acc e = Inr source_acc"
  "validate_strkey (CHR ''G'') candidate_acc e = Inr candidate_acc"
proof -
  have t: "trim source_acc = source_acc" "trim candidate_acc = candidate_acc"
    by (rule trim_plain; simp add: acc_defs starts_with_one_def white_space_def)+
  have u: "to_ascii_uppercase source_acc = source_acc" "to_ascii_uppercase candidate_acc = candidate_acc"
    by (simp_all add: acc_defs to_ascii_uppercase_def ascii_uppercase_char_def byte_in_def)
  have s: "account_shape source_acc" "account_shape candidate_acc" by simp_all
  show "validate_strkey (CHR ''G'') source_acc e = Inr source_acc" "validate_strkey (CHR ''G'') candidate_acc e = Inr candidate_acc"
    using s by (simp_all add: validate_strkey_def t u account_shape_def)
qed

lemma hash_valid [simp]: "validate_hash flat_hash e = Inr flat_hash"
  by (simp add: validate_hash_def Let_def flat_hash_def to_ascii_lowercase_def ascii_lowercase_char_def byte_in_def
      is_ascii_hexdigit_def trim_split(2) [unfolded flat_hash_def] list_all_iff)

lemma evidence_check [simp]: "k = ''mint'' \<or> k = ''transfer'' \<Longrightarrow> c = ''f'' \<or> c = ''k'' \<Longrightarrow> ownership_check (seat_evidence i a c k)"
  by (auto simp: ownership_check_def seat_evidence_def text_between_def btrim_def char_length_def byte_in_def)

lemma seat_step6: "snd (accept_ownership_evidence seat_env (dq ''w'') worker_headers ''i'' seat_mint seat5) = seat6"
proof -
  have sel: "ticket_issuances seat5 = [seat_ticket ''i'' 1, seat_ticket ''ix'' 2]" "ticket_ownership_evidence seat5 = []"
    "orders seat5 = [seat_order ''fulfilling'']"
    by (simp_all add: seat5_def seat4_def seat3_def seat2_def seat1_def seat0_def)
  have acc: "stellar_accounts seat5 = [seat_wallet ''su'' ''u'' source_acc, seat_wallet ''sv'' ''v'' candidate_acc]"
    by (simp add: seat5_def seat4_def seat3_def seat2_def seat1_def seat0_def)
  have none: "load_ownership ''i'' seat5 = None" by (simp add: load_ownership_def ownership_rows_def sel first_row_def)
  have "load_ownership ''i'' seat6 \<noteq> None"
    by (simp add: load_ownership_def ownership_rows_def first_row_def seat6_def seat5_def seat4_def seat3_def seat2_def
        seat1_def seat0_def seat_issued_def seat_ticket_def seat_evidence_def)
  then obtain v where view: "load_ownership ''i'' seat6 = Some v" by blast
  have worker: "require_worker seat_env worker_headers = Inr ()" and database: "database_pool seat_env = Inr ()"
    by (simp_all add: require_worker_def seat_env_def flat_env_def worker_headers_def header_or_default_def database_pool_def)
  have req: "oer_token_id seat_mint = ''f''" "oer_transaction_hash seat_mint = flat_hash" "oer_ledger_sequence seat_mint = 7"
    "oer_contract_event_id seat_mint = ''f''" "oer_owner_address seat_mint = source_acc" "oer_evidence seat_mint = JObj []"
    by (simp_all add: seat_mint_def)
  have ev: "minted_evidence (dq ''w'') (seat_ticket ''i'' 1) ''f'' flat_hash ''f'' seat_mint = seat_evidence ''w'' ''su'' ''f'' ''mint''"
    by (simp add: minted_evidence_def dq_def seat_ticket_def seat_mint_def seat_evidence_def)
  have upd: "sql_update_unique issuance_clash (\<lambda>t. tis_id t = ''i'')
        (\<lambda>t. t\<lparr>tis_status := ''issued'', tis_token_id := Some ''f'', tis_issuance_tx_hash := Some flat_hash,
               tis_accepted_evidence_id := Some ''w'', tis_issued_at := Some 5, tis_updated_at := 5\<rparr>)
        [seat_ticket ''i'' 1, seat_ticket ''ix'' 2] = Inr [seat_issued ''u'' ''su'' ''w'', seat_ticket ''ix'' 2]"
    by (simp add: sql_update_unique_def sql_update_def issuance_clash_def seat_ticket_def seat_issued_def)
  have mint: "accept_mint (dq ''w'') (seat_ticket ''i'' 1) ''f'' flat_hash ''f'' seat_mint seat5 = Inr seat6"
    using upd
    by (simp add: accept_mint_def ev sel sql_insert_def Let_def ticket_audit_def insert_audit_def dq_sel sql_count_def
        seat6_def req seat_audit_def)
      (simp add: seat5_def seat4_def seat3_def seat2_def seat1_def seat0_def seat_audit_def audit_clash_def)
  have t: "find (\<lambda>t. tis_id t = ''i'') (ticket_issuances seat5) = Some (seat_ticket ''i'' 1)" by (simp add: sel seat_ticket_def)
  have "accept_ownership_evidence_tx seat_env (dq ''w'') worker_headers ''i'' seat_mint seat5 = Inr ((201, v), seat6)"
    unfolding accept_ownership_evidence_tx_def worker database t
    by (simp add: req none acc view mint)
  then show ?thesis by (auto simp: accept_ownership_evidence_def transaction_def)
qed

definition seat_transfer :: "string \<Rightarrow> string option \<Rightarrow> uuid option \<Rightarrow> TransferRecord" where
  "seat_transfer st h evidence = \<lparr>ttr_id = ''z'', ttr_organization_id = ''o'', ttr_ticket_issuance_id = ''i'', ttr_token_id = ''f'',
     ttr_from_user_id = ''u'', ttr_from_stellar_account_id = ''su'', ttr_to_user_id = ''v'', ttr_to_stellar_account_id = ''sv'',
     ttr_policy = ''open'', ttr_status = st, ttr_idempotency_key = ''f'', ttr_request_sha256 = flat_hash, ttr_reason = ''f'',
     ttr_reviewed_by_user_id = Some ''u'',
     ttr_review_reason = Some ''Automatically approved by the configured open-transfer policy.'',
     ttr_submitted_tx_hash = h, ttr_accepted_evidence_id = evidence, ttr_reviewed_at = Some 5,
     ttr_submitted_at = map_option (\<lambda>_. 5) h, ttr_confirmed_at = map_option (\<lambda>_. 5) evidence,
     ttr_created_at = 5, ttr_updated_at = 5\<rparr>"

definition seat7 :: ticket_db where
  "seat7 = seat6\<lparr>ticket_transfer_requests := [seat_transfer ''approved'' None None],
     audit_logs := audit_logs seat6 @ [seat_audit ''zx'' (Some ''u'') ''ticket_transfer.create'' ''ticket_transfer'' ''z''
       (JObj [(''ticket_issuance_id'', JStr ''i''), (''ticket_event_id'', JStr ''e''), (''ticket_product_id'', JStr ''pxx''),
          (''policy'', JStr ''open''), (''status'', JStr ''approved''), (''from_address'', JStr source_acc),
          (''to_address'', JStr candidate_acc)])]\<rparr>"

definition seat_move_request :: CreateTransferRequest where
  "seat_move_request = \<lparr>ctr_to_address = candidate_acc, ctr_idempotency_key = ''f'', ctr_reason = ''f''\<rparr>"

lemma seat_step7: "snd (create_transfer seat_env (dq ''z'') (user_headers ''u'') ''i'' seat_move_request seat6) = seat7"
proof -
  have ctx: "load_issuance_context ''i'' seat6 = Inr \<lparr>tic_organization_id = ''o'', tic_ticket_event_id = ''e'',
     tic_ticket_product_id = ''pxx'', tic_owner_user_id = ''u'', tic_owner_stellar_account_id = ''su'', tic_token_id = Some ''f'',
     tic_issuance_status = ''issued'', tic_accepted_evidence_id = Some ''w'', tic_transfer_policy = ''open'',
     tic_owner_address = source_acc\<rparr>" (is "_ = Inr ?i")
    by (simp add: load_issuance_context_def seat6_def seat5_def seat4_def seat3_def seat2_def seat1_def seat0_def seat_def
        seat_issued_def seat_ticket_def)
  have dest: "stellar_accounts seat6 = [seat_wallet ''su'' ''u'' source_acc, seat_wallet ''sv'' ''v'' candidate_acc]"
    by (simp add: seat6_def seat5_def seat4_def seat3_def seat2_def seat1_def seat0_def)
  have sel: "ticket_transfer_requests seat6 = []" "ticket_check_ins seat6 = []"
    by (simp_all add: seat6_def seat5_def seat4_def seat3_def seat2_def seat1_def seat0_def)
  have new: "new_transfer (dq ''z'') ''i'' ''u'' ?i (seat_wallet ''sv'' ''v'' candidate_acc) ''f'' ''f'' flat_hash ''f'' = seat_transfer ''approved'' None None"
    by (simp add: new_transfer_def dq_def seat_transfer_def)
  have chk: "ticket_transfer_check (seat_transfer ''approved'' None None)"
    by (simp add: ticket_transfer_check_def seat_transfer_def sha256_or_null_def text_between_def btrim_def char_length_def byte_in_def)
  have "insert_transfer (dq ''z'') (seat_transfer ''approved'' None None) ?i candidate_acc seat6 = Inr seat7"
    using chk
    by (simp add: insert_transfer_def sel sql_insert_def transfer_audit_def ticket_audit_def insert_audit_def dq_def seat7_def)
      (simp add: seat6_def seat5_def seat4_def seat3_def seat2_def seat1_def seat0_def seat_audit_def audit_clash_def seat_transfer_def)
  moreover have "load_transfer ''z'' seat7 = Inr (seat_transfer ''approved'' None None)"
    by (simp add: load_transfer_def seat7_def seat_transfer_def)
  ultimately have "\<exists>r. create_transfer_tx seat_env (dq ''z'') (user_headers ''u'') ''i'' seat_move_request seat6 = Inr (r, seat7)"
    using ctx dest new
    by (simp add: create_transfer_tx_def seat_move_request_def sel hash_text_def dq_sel require_web_actor_def
        seat_env_def flat_env_def user_headers_def header_or_default_def database_pool_def Let_def)
  then show ?thesis by (auto simp: create_transfer_def transaction_def)
qed

definition seat8 :: ticket_db where
  "seat8 = seat7\<lparr>ticket_transfer_requests := [seat_transfer ''submitted'' (Some flat_hash) None],
     audit_logs := audit_logs seat7 @ [seat_audit ''s'' None ''ticket_transfer.submit'' ''ticket_transfer'' ''z''
       (JObj [(''transaction_hash'', JStr flat_hash)])]\<rparr>"

lemma seat_accounts: "stellar_accounts seat7 = [seat_wallet ''su'' ''u'' source_acc, seat_wallet ''sv'' ''v'' candidate_acc]"
  "stellar_accounts seat8 = [seat_wallet ''su'' ''u'' source_acc, seat_wallet ''sv'' ''v'' candidate_acc]"
  by (simp_all add: seat8_def seat7_def seat6_def seat5_def seat4_def seat3_def seat2_def seat1_def seat0_def)

definition seat_context :: "string \<Rightarrow> string option \<Rightarrow> TransferContext" where
  "seat_context st h = \<lparr>tcx_organization_id = ''o'', tcx_ticket_issuance_id = ''i'', tcx_token_id = ''f'',
     tcx_from_user_id = ''u'', tcx_from_stellar_account_id = ''su'', tcx_from_address = source_acc, tcx_to_user_id = ''v'',
     tcx_to_stellar_account_id = ''sv'', tcx_to_address = candidate_acc, tcx_policy = ''open'', tcx_status = st,
     tcx_submitted_tx_hash = h, tcx_accepted_evidence_id = None\<rparr>"

lemma seat_contexts: "load_transfer_context ''z'' seat7 = Inr (seat_context ''approved'' None)"
  "load_transfer_context ''z'' seat8 = Inr (seat_context ''submitted'' (Some flat_hash))"
proof -
  have sel: "ticket_transfer_requests seat7 = [seat_transfer ''approved'' None None]"
    "ticket_transfer_requests seat8 = [seat_transfer ''submitted'' (Some flat_hash) None]" by (simp_all add: seat7_def seat8_def)
  show "load_transfer_context ''z'' seat7 = Inr (seat_context ''approved'' None)"
    "load_transfer_context ''z'' seat8 = Inr (seat_context ''submitted'' (Some flat_hash))"
    by (simp_all add: load_transfer_context_def sel seat_accounts seat_transfer_def seat_context_def)
qed

lemma seat_step8: "snd (record_transfer_submission seat_env (dq ''s'') worker_headers ''z'' flat_hash seat7) = seat8"
proof -
  have upd: "sql_update (\<lambda>t. ttr_id t = ''z'' \<and> ttr_status t = ''approved'')
             (\<lambda>t. t\<lparr>ttr_status := ''submitted'', ttr_submitted_tx_hash := Some flat_hash,
                    ttr_submitted_at := Some 5, ttr_updated_at := 5\<rparr>) (ticket_transfer_requests seat7)
     = [seat_transfer ''submitted'' (Some flat_hash) None]"
    by (simp add: seat7_def seat_transfer_def sql_update_def)
  have "transfer_audit ''s'' ''o'' None ''ticket_transfer.submit'' ''z'' (JObj [(''transaction_hash'', JStr flat_hash)])
      (seat7\<lparr>ticket_transfer_requests := [seat_transfer ''submitted'' (Some flat_hash) None]\<rparr>) = Inr seat8"
    by (simp add: transfer_audit_def ticket_audit_def insert_audit_def sql_insert_def seat8_def seat_audit_def)
      (simp add: seat_audit_def audit_clash_def seat7_def seat6_def seat5_def seat4_def seat3_def seat2_def seat1_def seat0_def)
  moreover have "load_transfer ''z'' seat8 = Inr (seat_transfer ''submitted'' (Some flat_hash) None)"
    by (simp add: load_transfer_def seat8_def seat_transfer_def)
  ultimately have "\<exists>r. record_transfer_submission_tx seat_env (dq ''s'') worker_headers ''z'' flat_hash seat7 = Inr (r, seat8)"
    by (simp add: record_transfer_submission_tx_def seat_contexts(1) upd dq_sel seat_context_def require_worker_def
        seat_env_def flat_env_def worker_headers_def header_or_default_def database_pool_def Let_def)
  then show ?thesis by (auto simp: record_transfer_submission_def transaction_def)
qed

definition seat9 :: ticket_db where
  "seat9 = seat8\<lparr>ticket_ownership_evidence := [seat_evidence ''w'' ''su'' ''f'' ''mint'', seat_evidence ''y'' ''sv'' ''k'' ''transfer''],
     ticket_issuances := [seat_issued ''v'' ''sv'' ''y'', seat_ticket ''ix'' 2],
     ticket_transfer_requests := [seat_transfer ''confirmed'' (Some flat_hash) (Some ''y'')],
     audit_logs := audit_logs seat8 @ [seat_audit ''yx'' None ''ticket_transfer.confirm'' ''ticket_transfer'' ''z''
       (JObj [(''ticket_issuance_id'', JStr ''i''), (''evidence_id'', JStr ''y''), (''transaction_hash'', JStr flat_hash),
          (''ledger_sequence'', JInt 7), (''event_reference'', JStr ''k''), (''from_address'', JStr source_acc),
          (''to_address'', JStr candidate_acc)])]\<rparr>"

definition seat_moved :: TicketTransferEvidenceRequest where
  "seat_moved = \<lparr>tte_transaction_hash = flat_hash, tte_ledger_sequence = 7, tte_event_reference = ''k'', tte_token_id = ''f'',
     tte_from_address = source_acc, tte_to_address = candidate_acc, tte_raw_event = JObj []\<rparr>"

lemma seat_step9: "accept_transfer_evidence seat_env (dq ''y'') worker_headers ''z'' seat_moved seat8
    = (Inr (201, seat_transfer ''confirmed'' (Some flat_hash) (Some ''y'')), seat9)"
proof -
  have sel: "ticket_issuances seat8 = [seat_issued ''u'' ''su'' ''w'', seat_ticket ''ix'' 2]" "ticket_products seat8 = [seat]"
    "ticket_ownership_evidence seat8 = [seat_evidence ''w'' ''su'' ''f'' ''mint'']"
    "ticket_transfer_requests seat8 = [seat_transfer ''submitted'' (Some flat_hash) None]"
    by (simp_all add: seat8_def seat7_def seat6_def seat5_def seat4_def seat3_def seat2_def seat1_def seat0_def)
  have worker: "require_worker seat_env worker_headers = Inr ()" and database: "database_pool seat_env = Inr ()"
    by (simp_all add: require_worker_def seat_env_def flat_env_def worker_headers_def header_or_default_def database_pool_def)
  have req: "tte_transaction_hash seat_moved = flat_hash" "tte_ledger_sequence seat_moved = 7" "tte_event_reference seat_moved = ''k''"
    "tte_token_id seat_moved = ''f''" "tte_from_address seat_moved = source_acc" "tte_to_address seat_moved = candidate_acc"
    "tte_raw_event seat_moved = JObj []" by (simp_all add: seat_moved_def)
  have k: "required_text ''k'' 240 e = Inr ''k''" for e by (simp add: required_text_def)
  have ctx: "load_issuance_context ''i'' seat8 = Inr \<lparr>tic_organization_id = ''o'', tic_ticket_event_id = ''e'',
     tic_ticket_product_id = ''pxx'', tic_owner_user_id = ''u'', tic_owner_stellar_account_id = ''su'', tic_token_id = Some ''f'',
     tic_issuance_status = ''issued'', tic_accepted_evidence_id = Some ''w'', tic_transfer_policy = ''open'',
     tic_owner_address = source_acc\<rparr>"
    by (simp add: load_issuance_context_def sel seat_accounts) (simp add: seat_def seat_issued_def seat_ticket_def)
  have ev: "moved_evidence (dq ''y'') (seat_context ''submitted'' (Some flat_hash)) ''f'' flat_hash ''k'' seat_moved
      = seat_evidence ''y'' ''sv'' ''k'' ''transfer''"
    by (simp add: moved_evidence_def dq_sel seat_context_def seat_evidence_def req)
  have clash: "\<not> ownership_clash (seat_evidence ''y'' ''sv'' ''k'' ''transfer'') (seat_evidence ''w'' ''su'' ''f'' ''mint'')"
    by (simp add: ownership_clash_def seat_evidence_def)
  have upd: "sql_update (\<lambda>t. tis_id t = ''i'')
            (\<lambda>t. t\<lparr>tis_owner_user_id := ''v'', tis_owner_stellar_account_id := ''sv'',
                   tis_accepted_evidence_id := Some ''y'', tis_status := ''issued'', tis_updated_at := 5\<rparr>)
            [seat_issued ''u'' ''su'' ''w'', seat_ticket ''ix'' 2] = [seat_issued ''v'' ''sv'' ''y'', seat_ticket ''ix'' 2]"
    "sql_update (\<lambda>t. ttr_id t = ''z'') (\<lambda>t. t\<lparr>ttr_status := ''confirmed'', ttr_accepted_evidence_id := Some ''y'',
                   ttr_confirmed_at := Some 5, ttr_updated_at := 5\<rparr>) [seat_transfer ''submitted'' (Some flat_hash) None]
      = [seat_transfer ''confirmed'' (Some flat_hash) (Some ''y'')]"
    by (simp_all add: sql_update_def seat_issued_def seat_ticket_def seat_transfer_def)
  have cx: "tcx_ticket_issuance_id (seat_context st h) = ''i''" "tcx_to_user_id (seat_context st h) = ''v''"
    "tcx_to_stellar_account_id (seat_context st h) = ''sv''" "tcx_organization_id (seat_context st h) = ''o''"
    "tcx_status (seat_context st h) = st" "tcx_submitted_tx_hash (seat_context st h) = h" "tcx_token_id (seat_context st h) = ''f''"
    "tcx_from_address (seat_context st h) = source_acc" "tcx_to_address (seat_context st h) = candidate_acc"
    "tcx_from_stellar_account_id (seat_context st h) = ''su''" "tcx_from_user_id (seat_context st h) = ''u''" for st h
    by (simp_all add: seat_context_def)
  have move: "move_ticket (dq ''y'') ''z'' (seat_context ''submitted'' (Some flat_hash)) ''f'' flat_hash ''k'' seat_moved source_acc
      candidate_acc seat8 = Inr seat9"
    using clash upd
    by (simp add: move_ticket_def ev sel cx req dq_sel sql_insert_def transfer_audit_def ticket_audit_def insert_audit_def seat9_def
        seat_audit_def)
      (simp add: seat_audit_def audit_clash_def seat8_def seat7_def seat6_def seat5_def seat4_def seat3_def seat2_def seat1_def seat0_def)
  have ld: "load_transfer ''z'' seat9 = Inr (seat_transfer ''confirmed'' (Some flat_hash) (Some ''y''))"
    by (simp add: load_transfer_def seat9_def seat_transfer_def)
  have "accept_transfer_evidence_tx seat_env (dq ''y'') worker_headers ''z'' seat_moved seat8
      = Inr ((201, seat_transfer ''confirmed'' (Some flat_hash) (Some ''y'')), seat9)"
    unfolding accept_transfer_evidence_tx_def worker database seat_contexts(2)
    by (simp add: req k cx ctx move ld)
  then show ?thesis by (simp add: accept_transfer_evidence_def transaction_def)
qed

section \<open>Check-in\<close>

definition seat_check_in :: ticket_check_in_row where
  "seat_check_in = \<lparr>tci_id = ''c'', tci_ticket_issuance_id = ''i'', tci_ticket_event_id = ''e'', tci_checked_in_by_user_id = ''m'',
     tci_check_in_nonce_hash = flat_hash, tci_device_reference = None, tci_checked_in_at = 5, tci_metadata = JObj []\<rparr>"

definition seat10 :: ticket_db where
  "seat10 = seat9\<lparr>ticket_check_ins := [seat_check_in],
     audit_logs := audit_logs seat9 @ [seat_audit ''cx'' (Some ''m'') ''ticket_check_in.accept'' ''ticket_issuance'' ''i''
       (JObj [(''check_in_id'', JStr ''c''), (''device_reference'', JNull)])]\<rparr>"

definition seat_gate :: CheckInRequest where
  "seat_gate = \<lparr>cir_nonce = ''f'', cir_device_reference = None, cir_metadata = JObj []\<rparr>"

lemma seat_step10: "check_in_ticket seat_env (dq ''c'') (user_headers ''m'') ''i'' seat_gate seat9
    = (Inr (201, check_in_view seat_check_in), seat10)"
proof -
  have sel: "ticket_issuances seat9 = [seat_issued ''v'' ''sv'' ''y'', seat_ticket ''ix'' 2]" "ticket_check_ins seat9 = []"
    "ticket_events seat9 = [seat_event ''on_sale'' 5]"
    by (simp_all add: seat9_def seat8_def seat7_def seat6_def seat5_def seat4_def seat3_def seat2_def seat1_def seat0_def)
  have actor: "require_web_actor seat_env (user_headers ''m'') = Inr ''m''" and database: "database_pool seat_env = Inr ()"
    by (simp_all add: require_web_actor_def seat_env_def flat_env_def user_headers_def header_or_default_def database_pool_def)
  have ed: "require_organization_editor ''o'' ''m'' seat9 = Inr ()"
    by (simp add: require_organization_editor_def member_role_def seat9_def seat8_def seat7_def seat6_def seat5_def seat4_def
        seat3_def seat2_def seat1_def seat0_def)
  have t: "find (\<lambda>t. tis_id t = ''i'') (ticket_issuances seat9) = Some (seat_issued ''v'' ''sv'' ''y'')" by (simp add: sel)
  have ts: "tis_organization_id (seat_issued u a e) = ''o''" "tis_accepted_evidence_id (seat_issued u a e) = Some e"
    "tis_ticket_event_id (seat_issued u a e) = ''e''" for u a e by (simp_all add: seat_issued_def seat_ticket_def)
  have ev: "tev_id (seat_event ''on_sale'' 5) = ''e''" "tev_status (seat_event ''on_sale'' 5) = ''on_sale''" by (simp_all add: seat_event_def)
  have req: "cir_nonce seat_gate = ''f''" "cir_device_reference seat_gate = None" "cir_metadata seat_gate = JObj []"
    by (simp_all add: seat_gate_def)
  have c: "new_check_in (dq ''c'') (seat_issued ''v'' ''sv'' ''y'') ''m'' flat_hash None (JObj []) = seat_check_in"
    by (simp add: new_check_in_def dq_sel ts seat_check_in_def)
  have h: "hash_text seat_env s = flat_hash" for s by (simp add: hash_text_def seat_env_def flat_env_def)
  have chk: "check_in_check seat_check_in" by (simp add: check_in_check_def seat_check_in_def)
  have aud: "ticket_audit ticket_operation_error ''cx'' ''o'' (Some ''m'') ''ticket_check_in.accept'' ''ticket_issuance'' ''i''
            (JObj [(''check_in_id'', JStr ''c''), (''device_reference'', JNull)]) (seat9\<lparr>ticket_check_ins := [seat_check_in]\<rparr>) = Inr seat10"
    by (simp add: ticket_audit_def insert_audit_def sql_insert_def seat10_def seat_audit_def)
      (simp add: seat_audit_def audit_clash_def seat9_def seat8_def seat7_def seat6_def seat5_def seat4_def seat3_def seat2_def
        seat1_def seat0_def)
  have "check_in_ticket_tx seat_env (dq ''c'') (user_headers ''m'') ''i'' seat_gate seat9
      = Inr ((201, check_in_view seat_check_in), seat10)"
    unfolding check_in_ticket_tx_def actor database t Let_def h
    by (simp add: req optional_text_def ts ed sel ev c chk dq_sel sql_insert_def str_or_null_def aud)
  then show ?thesis by (simp add: check_in_ticket_def transaction_def)
qed

section \<open>The run\<close>

lemma seat_reachable: "ticket_reachable seat_env seat3" "ticket_reachable seat_env seat4" "ticket_reachable seat_env seat8"
  "ticket_reachable seat_env seat9" "ticket_reachable seat_env seat10"
proof -
  have start: "ticket_start seat0" by (simp add: ticket_start_def seat0_def)
  have s: "ticket_step seat_env seat0 seat1" "ticket_step seat_env seat1 seat2" "ticket_step seat_env seat2 seat3"
    "ticket_step seat_env seat4 seat5" "ticket_step seat_env seat5 seat6" "ticket_step seat_env seat6 seat7"
    "ticket_step seat_env seat7 seat8"
    using step_create_product [of seat_env seat0] seat_step1 step_on_sale [of seat_env seat1] seat_step2
      step_reservation [of seat_env seat2] seat_step3 step_issuance [of seat_env seat4] seat_step5
      step_mint [of seat_env seat5] seat_step6 step_transfer [of seat_env seat6] seat_step7
      step_submission [of seat_env seat7] seat_step8 by metis+
  have m: "ticket_step seat_env seat8 seat9" "ticket_step seat_env seat9 seat10"
    using step_move [of seat_env seat8] step_check_in [of seat_env seat9] seat_step9 seat_step10 by (metis snd_conv)+
  have r: "ticket_reachable env d \<Longrightarrow> ticket_step env d d' \<Longrightarrow> ticket_reachable env d'" for env d d'
    unfolding ticket_reachable_def by (meson rtranclp.rtrancl_into_rtrancl)
  have "ticket_reachable seat_env seat0" unfolding ticket_reachable_def using start by blast
  with r s(1-3) show 3: "ticket_reachable seat_env seat3" by blast
  with r seat_step4 show 4: "ticket_reachable seat_env seat4" by blast
  with r s(4-7) show 8: "ticket_reachable seat_env seat8" by meson
  with r m(1) show 9: "ticket_reachable seat_env seat9" by blast
  with r m(2) show "ticket_reachable seat_env seat10" by blast
qed

end
