(* ===== verification/Ticket_Props.thy ===== *)
theory Ticket_Props
  imports Ticket_Demo
begin

text \<open>The main theorems about tickets, each with an instance on the run of \<open>Ticket_Demo\<close>.\<close>

section \<open>Stock and limits\<close>

lemma sum_list_zero: "(\<And>x. x \<in> set xs \<Longrightarrow> f x = (0::int)) \<Longrightarrow> (\<Sum>x \<leftarrow> xs. f x) = 0"
  by (induction xs) auto

lemma count_by_order:
  assumes "distinct (map trs_order_id rs)"
    "\<forall>t \<in> set ts. \<exists>r \<in> set rs. trs_order_id r = tis_order_id t \<and> trs_ticket_product_id r = tis_ticket_product_id t"
  shows "sql_count (\<lambda>t. tis_ticket_product_id t = tp) ts =
     (\<Sum>r \<leftarrow> rs. if trs_ticket_product_id r = tp then issued_for (trs_order_id r) ts else 0)"
  using assms(2)
proof (induction ts)
  case Nil
  show ?case by (induction rs) (auto simp: sql_count_def issued_for_def)
next
  case (Cons t ts)
  then obtain r where r: "r \<in> set rs" "trs_order_id r = tis_order_id t" "trs_ticket_product_id r = tis_ticket_product_id t" by auto
  have one: "(\<Sum>s \<leftarrow> rs. if trs_ticket_product_id s = tp \<and> trs_order_id s = tis_order_id t then 1 else 0) =
      (if tis_ticket_product_id t = tp then 1 else (0::int))"
    using assms(1) r
  proof (induction rs)
    case (Cons s rs)
    show ?case
    proof (cases "s = r")
      case True
      have "(\<Sum>s \<leftarrow> rs. if trs_ticket_product_id s = tp \<and> trs_order_id s = tis_order_id t then 1 else 0) = (0::int)"
        by (rule sum_list_zero) (use Cons.prems True in force)
      then show ?thesis using Cons.prems True by simp
    next
      case False
      then have "trs_order_id s \<noteq> tis_order_id t" using Cons.prems by force
      then show ?thesis using Cons False by simp
    qed
  qed simp
  have "(\<Sum>s \<leftarrow> rs. if trs_ticket_product_id s = tp then issued_for (trs_order_id s) (t # ts) else 0) =
      (\<Sum>s \<leftarrow> rs. (if trs_ticket_product_id s = tp then issued_for (trs_order_id s) ts else 0) +
         (if trs_ticket_product_id s = tp \<and> trs_order_id s = tis_order_id t then 1 else 0))"
    by (rule arg_cong [where f = sum_list]) (auto simp: issued_for_def sql_count_def)
  also have "\<dots> = sql_count (\<lambda>t. tis_ticket_product_id t = tp) (t # ts)"
    using Cons by (simp add: sum_list_addf one) (simp add: sql_count_def)
  finally show ?case by simp
qed

lemma issued_of_product:
  assumes "stock_inv ps is rs" "issue_inv ps rs ts"
  shows "sql_count (\<lambda>t. tis_ticket_product_id t = tp) ts = converted_for tp rs"
proof -
  have "sql_count (\<lambda>t. tis_ticket_product_id t = tp) ts =
      (\<Sum>r \<leftarrow> rs. if trs_ticket_product_id r = tp then issued_for (trs_order_id r) ts else 0)"
    by (rule count_by_order) (use assms in \<open>simp_all add: stock_inv_def issue_inv_def\<close>)
  also have "\<dots> = (\<Sum>r \<leftarrow> rs. if trs_ticket_product_id r = tp \<and> trs_status r = ''converted'' then trs_quantity r else 0)"
    by (rule arg_cong [where f = sum_list]) (use assms(2) in \<open>simp add: issue_inv_def\<close>)
  also have "\<dots> = converted_for tp rs"
    unfolding converted_for_def sql_sum_def by (induction rs) auto
  finally show ?thesis .
qed

text \<open>C15: tickets are never oversold: in every reachable state the inventory of a ticket product has a supply limit, its
  fulfilled quantity is the number of issued tickets, and these with the quantities still reserved stay within the limit.\<close>
theorem tickets_never_oversold:
  assumes "ticket_reachable env d" "p \<in> set (ticket_products d)"
  shows "\<exists>i \<in> set (product_inventory d). \<exists>limit. iv_product_id i = tpd_product_id p \<and> iv_supply_limit i = Some limit \<and>
     sql_count (\<lambda>t. tis_ticket_product_id t = tpd_id p) (ticket_issuances d) = iv_fulfilled_quantity i \<and>
     sql_count (\<lambda>t. tis_ticket_product_id t = tpd_id p) (ticket_issuances d) +
       sql_sum trs_quantity (\<lambda>r. trs_ticket_product_id r = tpd_id p \<and> trs_status r = ''reserved'') (ticket_reservations d) \<le> limit"
proof -
  note P = ticket_inv_parts [OF ticket_reachable_inv [OF assms(1)]]
  from P(2) assms(2) have "stocked p (product_inventory d) (ticket_reservations d)" by (simp add: stock_inv_def)
  then obtain i l where i: "i \<in> set (product_inventory d)" "iv_product_id i = tpd_product_id p" "iv_supply_limit i = Some l"
    "inventory_check i" "reserved_for (tpd_id p) (ticket_reservations d) \<le> iv_reserved_quantity i"
    "converted_for (tpd_id p) (ticket_reservations d) = iv_fulfilled_quantity i" by (auto simp: stocked_def)
  then show ?thesis using issued_of_product [OF P(2,3)]
    by (intro bexI [OF _ i(1)] exI [of _ l]) (auto simp: inventory_check_def reserved_for_def)
qed

lemma seat_products: "ticket_products seat10 = [seat]" "ticket_products seat9 = [seat]" "ticket_products seat4 = [seat]"
  by (simp_all add: seat10_def seat9_def seat8_def seat7_def seat6_def seat5_def seat4_def seat3_def seat2_def seat1_def)

lemma tickets_never_oversold_witness:
  "\<exists>i \<in> set (product_inventory seat10). \<exists>limit. iv_product_id i = tpd_product_id seat \<and> iv_supply_limit i = Some limit \<and>
     sql_count (\<lambda>t. tis_ticket_product_id t = tpd_id seat) (ticket_issuances seat10) = iv_fulfilled_quantity i \<and>
     sql_count (\<lambda>t. tis_ticket_product_id t = tpd_id seat) (ticket_issuances seat10) +
       sql_sum trs_quantity (\<lambda>r. trs_ticket_product_id r = tpd_id seat \<and> trs_status r = ''reserved'') (ticket_reservations seat10) \<le> limit"
  by (rule tickets_never_oversold [OF seat_reachable(5)]) (simp add: seat_products)

text \<open>C19: in every reachable state the reservations and purchases of a user add up to at most the limit per user of the
  ticket product.\<close>
theorem ticket_purchase_limit:
  assumes "ticket_reachable env d" "p \<in> set (ticket_products d)"
  shows "sql_sum trs_quantity (holds_ticket (tpd_id p) user) (ticket_reservations d) \<le> tpd_per_user_limit p"
  using ticket_inv_parts(2) [OF ticket_reachable_inv [OF assms(1)]] assms(2) by (simp add: stock_inv_def within_limit_def)

lemma ticket_purchase_limit_witness:
  "sql_sum trs_quantity (holds_ticket (tpd_id seat) ''u'') (ticket_reservations seat4) = 2 \<and>
   sql_sum trs_quantity (holds_ticket (tpd_id seat) ''u'') (ticket_reservations seat4) \<le> tpd_per_user_limit seat"
proof -
  have "ticket_reservations seat4 = [seat_reservation ''reserved'' None]" by (simp add: seat4_def seat3_def)
  then have "sql_sum trs_quantity (holds_ticket (tpd_id seat) ''u'') (ticket_reservations seat4) = 2"
    by (simp add: holds_ticket_def seat_def seat_reservation_def)
  then show ?thesis using ticket_purchase_limit [OF seat_reachable(2), of seat "''u''"] by (simp add: seat_products)
qed

text \<open>In every reachable state the tickets of an event, in the order of their issue, have the serial numbers from one
  on without a gap, and a ticket belongs to an order that reserved tickets of its product.\<close>
theorem ticket_serials_gapless:
  assumes "ticket_reachable env d"
  shows "map tis_serial_number (filter (\<lambda>t. tis_ticket_event_id t = ev) (ticket_issuances d)) =
       [1..sql_count (\<lambda>t. tis_ticket_event_id t = ev) (ticket_issuances d)] \<and>
     (\<forall>t \<in> set (ticket_issuances d). \<exists>r \<in> set (ticket_reservations d). trs_order_id r = tis_order_id t \<and>
        trs_ticket_product_id r = tis_ticket_product_id t \<and> trs_status r = ''converted'' \<and>
        trs_quantity r = sql_count (\<lambda>u. tis_order_id u = tis_order_id t) (ticket_issuances d))"
proof -
  note P = ticket_inv_parts [OF ticket_reachable_inv [OF assms]]
  have "\<exists>r \<in> set (ticket_reservations d). trs_order_id r = tis_order_id t \<and>
        trs_ticket_product_id r = tis_ticket_product_id t \<and> trs_status r = ''converted'' \<and>
        trs_quantity r = sql_count (\<lambda>u. tis_order_id u = tis_order_id t) (ticket_issuances d)"
    if t: "t \<in> set (ticket_issuances d)" for t
  proof -
    from P(3) t obtain r where r: "r \<in> set (ticket_reservations d)" "trs_order_id r = tis_order_id t"
      "trs_ticket_product_id r = tis_ticket_product_id t" by (auto simp: issue_inv_def)
    have n: "issued_for (trs_order_id r) (ticket_issuances d) = (if trs_status r = ''converted'' then trs_quantity r else 0)"
      using P(3) r(1) by (simp add: issue_inv_def)
    have "t \<in> set (filter (\<lambda>u. tis_order_id u = tis_order_id t) (ticket_issuances d))" using t by simp
    then have "issued_for (trs_order_id r) (ticket_issuances d) \<noteq> 0"
      unfolding issued_for_def sql_count_def r(2) by (auto simp: filter_empty_conv)
    with n r show ?thesis by (intro bexI [OF _ r(1)]) (auto simp: issued_for_def split: if_splits)
  qed
  then show ?thesis using P(3) by (simp add: issue_inv_def serials_ok_def)
qed

lemma ticket_serials_gapless_witness:
  "length (ticket_issuances seat10) = 2 \<and>
   map tis_serial_number (filter (\<lambda>t. tis_ticket_event_id t = ''e'') (ticket_issuances seat10)) =
     [1..sql_count (\<lambda>t. tis_ticket_event_id t = ''e'') (ticket_issuances seat10)]"
  using ticket_serials_gapless [OF seat_reachable(5), of "''e''"] by (simp add: seat10_def seat9_def)

section \<open>Ownership\<close>

text \<open>C16: in every reachable state an issued ticket has an unbroken chain of accepted evidence: it starts with the mint,
  every later piece is a transfer from the owner that the piece before names by a confirmed request with that transaction,
  and the last piece names the ticket's owner account and token. The owner bought the ticket or received it by a confirmed
  transfer that the policy of the product allows.\<close>
theorem ticket_provenance:
  assumes "ticket_reachable env d" "t \<in> set (ticket_issuances d)" "tis_status t = ''issued''"
  shows "(\<exists>m moves. filter (\<lambda>e. toe_ticket_issuance_id e = tis_id t) (ticket_ownership_evidence d) = m # moves \<and>
       toe_event_kind m = ''mint'' \<and> (\<forall>e \<in> set moves. toe_event_kind e = ''transfer'') \<and>
       linked (ticket_transfer_requests d) (m # moves) \<and>
       tis_accepted_evidence_id t = Some (toe_id (last (m # moves))) \<and>
       tis_owner_stellar_account_id t = toe_owner_stellar_account_id (last (m # moves)) \<and>
       (\<forall>e \<in> set (m # moves). tis_token_id t = Some (toe_token_id e))) \<and>
     ((\<exists>r \<in> set (ticket_reservations d). trs_order_id r = tis_order_id t \<and> trs_buyer_user_id r = tis_owner_user_id t) \<or>
      (\<exists>x \<in> set (ticket_transfer_requests d). \<exists>p \<in> set (ticket_products d). ttr_status x = ''confirmed'' \<and>
         ttr_ticket_issuance_id x = tis_id t \<and> ttr_to_user_id x = tis_owner_user_id t \<and>
         tpd_id p = tis_ticket_product_id t \<and> tpd_transfer_policy p \<noteq> ''non_transferable''))"
proof -
  note P = ticket_inv_parts [OF ticket_reachable_inv [OF assms(1)]]
  let ?h = "evidence_of (tis_id t) (ticket_ownership_evidence d)"
  have H: "history_ok (ticket_reservations d) (ticket_transfer_requests d) t ?h" using P(4) assms(2) by (simp add: owner_inv_def)
  then obtain m moves where h: "?h = m # moves" using history_issued(1) [OF H] assms(3) by (cases ?h) auto
  have own: "if moves = [] then bought (ticket_reservations d) t else received (ticket_transfer_requests d) t"
    using H unfolding h history_ok_def list.case by blast
  have "\<exists>x \<in> set (ticket_transfer_requests d). \<exists>p \<in> set (ticket_products d). ttr_status x = ''confirmed'' \<and>
         ttr_ticket_issuance_id x = tis_id t \<and> ttr_to_user_id x = tis_owner_user_id t \<and>
         tpd_id p = tis_ticket_product_id t \<and> tpd_transfer_policy p \<noteq> ''non_transferable''"
    if R: "received (ticket_transfer_requests d) t"
  proof -
    from R obtain x where x: "x \<in> set (ticket_transfer_requests d)" "ttr_status x = ''confirmed''" "ttr_ticket_issuance_id x = tis_id t"
      "ttr_to_user_id x = tis_owner_user_id t" by (auto simp: received_def)
    with P(4) obtain u p where u: "u \<in> set (ticket_issuances d)" "p \<in> set (ticket_products d)" "tis_id u = tis_id t"
      "tpd_id p = tis_ticket_product_id u" "ttr_policy x = tpd_transfer_policy p" "ttr_policy x \<noteq> ''non_transferable''"
      by (auto simp: owner_inv_def transfer_of_product_def)
    have "u = t" using u(1,3) assms(2) P(5) unfolding distinct_map by (metis inj_onD)
    with u x show ?thesis by auto
  qed
  moreover have "toe_event_kind m = ''mint''" "\<forall>e \<in> set moves. toe_event_kind e = ''transfer''"
       "linked (ticket_transfer_requests d) (m # moves)"
       "tis_accepted_evidence_id t = Some (toe_id (last (m # moves)))"
       "tis_owner_stellar_account_id t = toe_owner_stellar_account_id (last (m # moves))"
       "\<forall>e \<in> set (m # moves). tis_token_id t = Some (toe_token_id e)"
    using H unfolding history_ok_def h list.case by blast+
  ultimately show ?thesis using own h unfolding bought_def evidence_of_def by metis
qed

lemma ticket_provenance_witness:
  "\<exists>m moves. filter (\<lambda>e. toe_ticket_issuance_id e = ''i'') (ticket_ownership_evidence seat10) = m # moves \<and>
     toe_event_kind m = ''mint'' \<and> linked (ticket_transfer_requests seat10) (m # moves) \<and>
     toe_owner_stellar_account_id (last (m # moves)) = ''sv''"
proof -
  let ?t = "seat_issued ''v'' ''sv'' ''y''"
  have "?t \<in> set (ticket_issuances seat10)" by (simp add: seat10_def seat9_def)
  moreover have "tis_status ?t = ''issued''" "tis_id ?t = ''i''" "tis_owner_stellar_account_id ?t = ''sv''"
    by (simp_all add: seat_issued_def seat_ticket_def)
  ultimately show ?thesis using ticket_provenance [OF seat_reachable(5), of ?t] by metis
qed

text \<open>What every request except the acceptance of transfer evidence leaves as it is: the check-ins made so far and the
  owners of the tickets issued so far.\<close>

definition quiet :: "ticket_db \<Rightarrow> ticket_db \<Rightarrow> bool" where
  "quiet d d' \<longleftrightarrow> set (ticket_check_ins d) \<subseteq> set (ticket_check_ins d') \<and>
     (\<exists>f new. ticket_issuances d' = map f (ticket_issuances d) @ new \<and> (\<forall>t. tis_id (f t) = tis_id t \<and>
        tis_owner_user_id (f t) = tis_owner_user_id t \<and> tis_owner_stellar_account_id (f t) = tis_owner_stellar_account_id t))"

lemma quiet_same:
  assumes "set (ticket_check_ins d) \<subseteq> set (ticket_check_ins d')" "ticket_issuances d' = ticket_issuances d"
  shows "quiet d d'"
  using assms unfolding quiet_def by (auto intro!: exI [of _ "\<lambda>t. t"] exI [of _ "[]"])

lemma quiet_update:
  assumes "ticket_check_ins d' = ticket_check_ins d" "ticket_issuances d' = sql_update p f (ticket_issuances d)"
    "\<And>t. tis_id (f t) = tis_id t" "\<And>t. tis_owner_user_id (f t) = tis_owner_user_id t"
    "\<And>t. tis_owner_stellar_account_id (f t) = tis_owner_stellar_account_id t"
  shows "quiet d d'"
  unfolding quiet_def
proof (intro conjI exI allI)
  show "ticket_issuances d' = map (\<lambda>t. if p t then f t else t) (ticket_issuances d) @ []" using assms(2) by (simp add: sql_update_def)
qed (simp_all add: assms)

lemma release_fold_tables [simp]:
  "ticket_issuances (fold (release_reservation now p) rs d) = ticket_issuances d"
  "ticket_check_ins (fold (release_reservation now p) rs d) = ticket_check_ins d"
  by (induction rs arbitrary: d) simp_all

lemma release_expired_quiet [simp]:
  "ticket_issuances (release_expired_for_product now tp d) = ticket_issuances d"
  "ticket_check_ins (release_expired_for_product now tp d) = ticket_check_ins d"
  by (simp_all add: release_expired_for_product_def split: option.splits)

lemma create_event_quiet: "create_event_tx env q hdrs body d = Inr (x, d') \<Longrightarrow> quiet d d'"
  by (erule create_event_txE) (simp add: quiet_same)

lemma put_event_on_sale_quiet: "put_event_on_sale_tx env q hdrs eid reason d = Inr (x, d') \<Longrightarrow> quiet d d'"
  by (erule put_event_on_sale_txE) (simp add: quiet_same)

lemma create_product_quiet: "create_product_tx env q hdrs eid body d = Inr (x, d') \<Longrightarrow> quiet d d'"
  by (erule create_product_txE, erule insert_product_Inr) (simp add: quiet_same)

lemma create_reservation_quiet: "create_reservation_tx env q hdrs tpid body d = Inr (x, d') \<Longrightarrow> quiet d d'"
  by (erule create_reservation_txE, simp add: quiet_same, erule place_reservation_Inr) (simp add: quiet_same)

lemma prepare_issuance_quiet:
  "prepare_issuance_tx env q hdrs oid d = Inr (x, d') \<Longrightarrow> distinct (map tis_id (ticket_issuances d)) \<Longrightarrow> quiet d d'"
  by (erule prepare_issuance_txE)
    (auto simp: quiet_same, auto simp: quiet_def intro!: exI [of _ "\<lambda>t. t"])

lemma accept_ownership_quiet: "accept_ownership_evidence_tx env q hdrs iid body d = Inr (x, d') \<Longrightarrow> quiet d d'"
proof (erule accept_ownership_evidence_txE)
  fix t tok h ev assume "accept_mint q t tok h ev body d = Inr d'"
  then show "quiet d d'"
  proof (cases rule: accept_mint_Inr)
    case (1 os al)
    have eq: "ticket_issuances d' = sql_update (\<lambda>u. tis_id u = tis_id t)
         (\<lambda>u. u\<lparr>tis_status := ''issued'', tis_token_id := Some tok, tis_issuance_tx_hash := Some h,
               tis_accepted_evidence_id := Some (new_uuid q 0), tis_issued_at := Some (now_utc q 0),
               tis_updated_at := sql_now q\<rparr>) (ticket_issuances d)" and same: "ticket_check_ins d' = ticket_check_ins d"
      by (simp_all add: 1(3))
    show ?thesis by (rule quiet_update [OF same eq]) simp_all
  qed
qed (simp add: quiet_same)

lemma check_in_quiet: "check_in_ticket_tx env q hdrs iid body d = Inr (x, d') \<Longrightarrow> quiet d d'"
  by (erule check_in_ticket_txE) (auto intro: quiet_same)

lemma create_transfer_quiet: "create_transfer_tx env q hdrs iid body d = Inr (x, d') \<Longrightarrow> quiet d d'"
  by (erule create_transfer_txE) (simp_all add: quiet_same)

lemma review_transfer_quiet: "review_transfer_tx env q hdrs tid body d = Inr (x, d') \<Longrightarrow> quiet d d'"
  by (erule review_transfer_txE) (simp add: quiet_same)

lemma submission_quiet: "record_transfer_submission_tx env q hdrs tid h d = Inr (x, d') \<Longrightarrow> quiet d d'"
  by (erule record_transfer_submission_txE) (simp_all add: quiet_same)

lemma snd_transaction_quiet:
  "(\<And>x d'. body d = Inr (x, d') \<Longrightarrow> quiet d d') \<Longrightarrow> quiet d (snd (transaction body d))"
  by (cases rule: transaction_cases [of body d]) (auto intro: quiet_same)

lemma elsewhere_quiet: "ticket_tables d' = ticket_tables d \<Longrightarrow> quiet d d'"
  by (rule quiet_same) (simp_all add: ticket_tables_def)

lemmas handler_defs = create_event_def put_event_on_sale_def create_product_def create_reservation_def prepare_issuance_def
  accept_ownership_evidence_def check_in_ticket_def create_transfer_def review_transfer_def
  record_transfer_submission_def accept_transfer_evidence_def

text \<open>A step is quiet, or it is an acceptance of transfer evidence.\<close>

lemma ticket_step_quiet:
  assumes "ticket_step env d d'" "distinct (map tis_id (ticket_issuances d))"
  shows "quiet d d' \<or> (\<exists>q hdrs tid body x. accept_transfer_evidence_tx env q hdrs tid body d = Inr (x, d'))"
  using assms
proof (induction rule: ticket_step.induct)
  case (step_move d q hdrs tid m_body)
  show ?case unfolding accept_transfer_evidence_def
    by (cases rule: transaction_cases [of "accept_transfer_evidence_tx env q hdrs tid m_body" d]) (auto intro: quiet_same)
next
  case step_elsewhere
  then show ?case using elsewhere_quiet by blast
qed (simp add: handler_defs snd_then_read; rule disjI1; rule snd_transaction_quiet;
     blast dest: create_event_quiet put_event_on_sale_quiet create_product_quiet create_reservation_quiet prepare_issuance_quiet
       accept_ownership_quiet check_in_quiet create_transfer_quiet review_transfer_quiet submission_quiet)+

lemma ticket_step_check_ins:
  assumes "ticket_step env d d'" "ticket_inv d"
  shows "set (ticket_check_ins d) \<subseteq> set (ticket_check_ins d')"
  using ticket_step_quiet [OF assms(1) ticket_inv_parts(5) [OF assms(2)]]
proof
  assume "\<exists>q hdrs tid body x. accept_transfer_evidence_tx env q hdrs tid body d = Inr (x, d')"
  then obtain q hdrs tid body x where "accept_transfer_evidence_tx env q hdrs tid body d = Inr (x, d')" by blast
  then show ?thesis by (cases rule: accept_transfer_evidence_txE) simp_all
qed (simp add: quiet_def)

lemma ticket_steps_check_ins:
  "(ticket_step env)\<^sup>*\<^sup>* d d' \<Longrightarrow> ticket_inv d \<Longrightarrow> ticket_inv d' \<and> set (ticket_check_ins d) \<subseteq> set (ticket_check_ins d')"
  by (induction rule: rtranclp_induct) (auto dest: ticket_step_inv ticket_step_check_ins)

text \<open>C18: a ticket admits once: after a successful check-in every later check-in of the same ticket is refused, whoever
  asks and whatever requests come in between.\<close>
theorem ticket_admits_once:
  assumes "ticket_reachable env d" "check_in_ticket env q hdrs iid body d = (Inr x, d1)" "(ticket_step env)\<^sup>*\<^sup>* d1 d2"
  shows "\<exists>e. check_in_ticket env q' hdrs' iid body' d2 = (Inl e, d2)"
proof -
  have tx: "check_in_ticket_tx env q hdrs iid body d = Inr (x, d1)"
    using assms(2) by (cases rule: transaction_cases [of "check_in_ticket_tx env q hdrs iid body" d]) (simp_all add: check_in_ticket_def)
  have inv: "ticket_inv d1" by (rule check_in_inv [OF ticket_reachable_inv [OF assms(1)] tx])
  from tx have "iid \<in> tci_ticket_issuance_id ` set (ticket_check_ins d1)"
  proof (cases rule: check_in_ticket_txE)
    case (1 t actor h dev al)
    then show ?thesis using find_Some_in [OF 1(1)] by (simp add: new_check_in_def)
  qed
  then have used: "iid \<in> tci_ticket_issuance_id ` set (ticket_check_ins d2)" using ticket_steps_check_ins [OF assms(3) inv] by blast
  show ?thesis
  proof (cases rule: transaction_cases [of "check_in_ticket_tx env q' hdrs' iid body'" d2])
    case (committed y d3)
    from committed(2) show ?thesis by (cases rule: check_in_ticket_txE) (use used in auto)
  qed (auto simp: check_in_ticket_def)
qed

lemma ticket_admits_once_witness:
  "\<exists>e. check_in_ticket seat_env (dq ''other'') (user_headers ''m'') ''i'' seat_gate seat10 = (Inl e, seat10)"
  by (rule ticket_admits_once [OF seat_reachable(4) seat_step10 rtranclp.rtrancl_refl])

text \<open>C17: a ticket changes hands only by accepted evidence: when a request changes its owner, there was a submitted transfer
  request from the old owner to the new one, and a new piece of transfer evidence with the submitted transaction and the
  token of the request has been recorded.\<close>
theorem ticket_moves_only_on_evidence:
  assumes "ticket_reachable env d" "ticket_step env d d'" "t \<in> set (ticket_issuances d)" "t' \<in> set (ticket_issuances d')"
    "tis_id t' = tis_id t"
    "(tis_owner_user_id t', tis_owner_stellar_account_id t') \<noteq> (tis_owner_user_id t, tis_owner_stellar_account_id t)"
  shows "\<exists>tr \<in> set (ticket_transfer_requests d). \<exists>e \<in> set (ticket_ownership_evidence d').
     e \<notin> set (ticket_ownership_evidence d) \<and> ttr_status tr = ''submitted'' \<and> ttr_ticket_issuance_id tr = tis_id t \<and>
     ttr_from_user_id tr = tis_owner_user_id t \<and> ttr_from_stellar_account_id tr = tis_owner_stellar_account_id t \<and>
     ttr_to_user_id tr = tis_owner_user_id t' \<and> ttr_to_stellar_account_id tr = tis_owner_stellar_account_id t' \<and>
     ttr_submitted_tx_hash tr = Some (toe_transaction_hash e) \<and> ttr_token_id tr = toe_token_id e \<and>
     toe_event_kind e = ''transfer'' \<and> toe_owner_stellar_account_id e = tis_owner_stellar_account_id t'"
proof -
  note inv = ticket_reachable_inv [OF assms(1)]
  note D = ticket_inv_parts(5) [OF inv] and D' = ticket_inv_parts(5) [OF ticket_step_inv [OF assms(2) inv]]
  have "\<not> quiet d d'"
  proof
    assume "quiet d d'"
    then obtain f new where f: "ticket_issuances d' = map f (ticket_issuances d) @ new"
      "tis_id (f t) = tis_id t" "tis_owner_user_id (f t) = tis_owner_user_id t"
      "tis_owner_stellar_account_id (f t) = tis_owner_stellar_account_id t" unfolding quiet_def by blast
    have "f t \<in> set (ticket_issuances d')" using assms(3) f(1) by simp
    then have "t' = f t" using assms(4,5) f(2) D' unfolding distinct_map by (metis inj_onD)
    then show False using assms(6) f(3,4) by simp
  qed
  then obtain q hdrs tid body x where "accept_transfer_evidence_tx env q hdrs tid body d = Inr (x, d')"
    using ticket_step_quiet [OF assms(2) D] by blast
  then show ?thesis
  proof (cases rule: accept_transfer_evidence_txE)
    case existing
    then have "t' = t" using assms(3-5) D unfolding distinct_map by (metis inj_onD)
    then show ?thesis using assms(6) by simp
  next
    case (new tr u c e al)
    let ?f = "\<lambda>u. u\<lparr>tis_owner_user_id := ttr_to_user_id tr, tis_owner_stellar_account_id := ttr_to_stellar_account_id tr,
                  tis_accepted_evidence_id := Some (new_uuid q 0), tis_status := ''issued'', tis_updated_at := sql_now q\<rparr>"
    have tr: "tr \<in> set (ticket_transfer_requests d)" and u: "u \<in> set (ticket_issuances d)" "tis_id u = ttr_ticket_issuance_id tr"
      using find_Some_in [OF new(1)] find_Some_in [OF new(2)] by simp_all
    have "t' \<in> set (sql_update (\<lambda>v. tis_id v = tis_id u) ?f (ticket_issuances d))" using assms(4) by (simp add: new(17))
    then have "t' \<in> set (sql_update (\<lambda>v. v = u) ?f (ticket_issuances d))"
      using sql_update_only [where key = tis_id and f = ?f, OF D u(1), of "\<lambda>v. tis_id v = tis_id u"] by simp
    then have t': "t' = ?f u" and tu: "t = u"
    proof -
      assume "t' \<in> set (sql_update (\<lambda>v. v = u) ?f (ticket_issuances d))"
      from in_update_only [OF this] consider "t' = ?f u" | "t' \<in> set (ticket_issuances d)" "t' \<noteq> u" by blast
      then have "t' = ?f u \<and> t = u"
      proof cases
        case 1
        then have "tis_id t = tis_id u" using assms(5) by simp
        then show ?thesis using 1 assms(3) u(1) D unfolding distinct_map by (metis inj_onD)
      next
        case 2
        then have "t' = t" using assms(3,5) D unfolding distinct_map by (metis inj_onD)
        then show ?thesis using assms(6) by simp
      qed
      then show "t' = ?f u" "t = u" by simp_all
    qed
    have "toe_id e \<notin> toe_id ` set (ticket_ownership_evidence d)" by (rule ownership_ids.insert_new [OF new(16)])
    then have "e \<notin> set (ticket_ownership_evidence d)" by blast
    then show ?thesis using new(3-6,8,11,12) u(2) by (intro bexI [OF _ tr] bexI [of _ e]) (auto simp: t' tu new(17))
  qed
qed

lemma ticket_moves_only_on_evidence_witness:
  "\<exists>tr \<in> set (ticket_transfer_requests seat8). \<exists>e \<in> set (ticket_ownership_evidence seat9).
     e \<notin> set (ticket_ownership_evidence seat8) \<and> ttr_status tr = ''submitted'' \<and>
     ttr_from_user_id tr = ''u'' \<and> ttr_to_user_id tr = ''v'' \<and> ttr_submitted_tx_hash tr = Some (toe_transaction_hash e)"
proof -
  have step: "ticket_step seat_env seat8 seat9" using step_move [of seat_env seat8] seat_step9 by (metis snd_conv)
  have t: "seat_issued ''u'' ''su'' ''w'' \<in> set (ticket_issuances seat8)" "seat_issued ''v'' ''sv'' ''y'' \<in> set (ticket_issuances seat9)"
    by (simp_all add: seat9_def seat8_def seat7_def seat6_def)
  have own: "tis_owner_user_id (seat_issued a b c) = a" for a b c by (simp add: seat_issued_def)
  show ?thesis using ticket_moves_only_on_evidence [OF seat_reachable(3) step t] own by fastforce
qed

section \<open>Expiry\<close>

lemma update_member:
  "s \<in> set rows \<Longrightarrow> p s \<Longrightarrow> f s \<in> set (sql_update p f rows)"
  "s \<in> set rows \<Longrightarrow> \<not> p s \<Longrightarrow> s \<in> set (sql_update p f rows)"
  by (auto simp: set_sql_update image_iff)

lemma release_reservation_row:
  assumes "s \<in> set (ticket_reservations d)"
  shows "\<exists>s' \<in> set (ticket_reservations (release_reservation now p r d)).
     trs_id s' = trs_id s \<and> trs_order_id s' = trs_order_id s \<and>
     trs_status s' = (if trs_id s = trs_id r then ''expired'' else trs_status s)"
proof (cases "trs_id s = trs_id r")
  case True
  with update_member(1) [OF assms, of "\<lambda>s. trs_id s = trs_id r"] show ?thesis
    unfolding release_reservation_def
    by (intro bexI [of _ "s\<lparr>trs_status := ''expired'', trs_released_at := Some now, trs_updated_at := now\<rparr>"]) simp_all
next
  case False
  with update_member(2) [OF assms, of "\<lambda>s. trs_id s = trs_id r"] show ?thesis
    unfolding release_reservation_def by (intro bexI [of _ s]) simp_all
qed

lemma release_reservation_order:
  "ord \<in> set (orders d) \<Longrightarrow> or_status ord \<noteq> ''awaiting_payment'' \<Longrightarrow> ord \<in> set (orders (release_reservation now p r d))"
  unfolding release_reservation_def by (force simp: set_sql_update)

lemma release_fold_order:
  "ord \<in> set (orders d) \<Longrightarrow> or_status ord \<noteq> ''awaiting_payment'' \<Longrightarrow>
   ord \<in> set (orders (fold (release_reservation now p) rs d))"
  by (induction rs arbitrary: d) (simp_all add: release_reservation_order)

lemma release_fold_row:
  "s \<in> set (ticket_reservations d) \<Longrightarrow> \<exists>s' \<in> set (ticket_reservations (fold (release_reservation now p) rs d)).
     trs_id s' = trs_id s \<and> trs_order_id s' = trs_order_id s \<and>
     trs_status s' = (if trs_id s \<in> trs_id ` set rs then ''expired'' else trs_status s)"
proof (induction rs arbitrary: d s)
  case (Cons r rs)
  obtain s1 where s1: "s1 \<in> set (ticket_reservations (release_reservation now p r d))" "trs_id s1 = trs_id s"
     "trs_order_id s1 = trs_order_id s" "trs_status s1 = (if trs_id s = trs_id r then ''expired'' else trs_status s)"
    using release_reservation_row [OF Cons.prems] by blast
  from Cons.IH [OF s1(1)] obtain s2 where
    "s2 \<in> set (ticket_reservations (fold (release_reservation now p) rs (release_reservation now p r d)))"
    "trs_id s2 = trs_id s1" "trs_order_id s2 = trs_order_id s1"
    "trs_status s2 = (if trs_id s1 \<in> trs_id ` set rs then ''expired'' else trs_status s1)" by blast
  with s1(2-4) show ?case by (intro bexI [of _ s2]) auto
qed auto

lemma release_expired_paid:
  assumes "r \<in> set (ticket_reservations d)" "reservation_due now tp r" "tp \<in> tpd_id ` set (ticket_products d)"
  shows "\<exists>r' \<in> set (ticket_reservations (release_expired_for_product now tp d)). trs_id r' = trs_id r \<and>
     trs_order_id r' = trs_order_id r \<and> trs_status r' = ''expired''"
proof -
  from assms(3) obtain p where "find (\<lambda>p. tpd_id p = tp) (ticket_products d) = Some p"
    by (cases "find (\<lambda>p. tpd_id p = tp) (ticket_products d)") (auto simp: find_None_iff)
  moreover have "trs_id r \<in> trs_id ` set (filter (reservation_due now tp) (ticket_reservations d))" using assms(1,2) by auto
  ultimately show ?thesis
    using release_fold_row [OF assms(1), of now "tpd_product_id p" "filter (reservation_due now tp) (ticket_reservations d)"]
    by (auto simp: release_expired_for_product_def)
qed

lemma release_expired_order:
  "ord \<in> set (orders d) \<Longrightarrow> or_status ord \<noteq> ''awaiting_payment'' \<Longrightarrow>
   ord \<in> set (orders (release_expired_for_product now tp d))"
  by (simp add: release_expired_for_product_def release_fold_order split: option.splits)

text \<open>C20: a reservation past its time is expired by the next successful reservation request for the product even when its
  order has been paid meanwhile; the order stays paid, and no ticket is issued for it in that state: every request to
  prepare the issuance is refused and changes nothing.\<close>
theorem paid_reservation_expires:
  assumes "ticket_reachable env d" "r \<in> set (ticket_reservations d)" "trs_status r = ''reserved''"
    "trs_ticket_product_id r = tp" "trs_expires_at r \<le> sql_now q" "ord \<in> set (orders d)" "or_id ord = trs_order_id r"
    "or_status ord = ''paid''" "create_reservation_tx env q hdrs tp body d = Inr (x, d1)"
  shows "ord \<in> set (orders d1) \<and> (\<exists>e. prepare_issuance env q' hdrs' (or_id ord) d1 = (Inl e, d1))"
proof -
  let ?d = "release_expired_for_product (sql_now q) tp d"
  note inv = ticket_reachable_inv [OF assms(1)]
  note inv1 = create_reservation_inv [OF inv assms(9)]
  have tp: "tp \<in> tpd_id ` set (ticket_products d)"
    using ticket_inv_parts(2) [OF inv] assms(2,4) by (auto simp: stock_inv_def reservation_ok_def)
  have due: "reservation_due (sql_now q) tp r" using assms(3-5) by (simp add: reservation_due_def)
  obtain r' where r': "r' \<in> set (ticket_reservations ?d)" "trs_id r' = trs_id r" "trs_order_id r' = or_id ord" "trs_status r' = ''expired''"
    using release_expired_paid [OF assms(2) due tp] assms(7) by auto
  have o': "ord \<in> set (orders ?d)" by (rule release_expired_order [OF assms(6)]) (simp add: assms(8))
  from assms(9) have kept: "r' \<in> set (ticket_reservations d1)" "ord \<in> set (orders d1)" "ticket_issuances d1 = ticket_issuances d"
  proof (atomize (full), cases rule: create_reservation_txE)
    case (new av buyer key sha)
    from new(8) show "r' \<in> set (ticket_reservations d1) \<and> ord \<in> set (orders d1) \<and> ticket_issuances d1 = ticket_issuances d"
      by (cases rule: place_reservation_Inr) (simp add: r'(1) o')
  qed (simp add: r'(1) o')
  have "issued_for (or_id ord) (ticket_issuances d1) = 0"
    using ticket_inv_parts(3) [OF inv1] kept(1) r'(3,4) unfolding issue_inv_def by force
  then have none: "load_issuances (or_id ord) d1 = []" by (simp add: load_issuances_def issued_for_def sql_count_def)
  have "\<not> (\<exists>y. prepare_issuance_tx env q' hdrs' (or_id ord) d1 = Inr y)"
  proof
    assume "\<exists>y. prepare_issuance_tx env q' hdrs' (or_id ord) d1 = Inr y"
    then obtain y d2 where "prepare_issuance_tx env q' hdrs' (or_id ord) d1 = Inr (y, d2)" by auto
    from this ticket_inv_parts(5) [OF inv1] show False
    proof (cases rule: prepare_issuance_txE)
      case (new ctx owner i al)
      from new(1) show False
      proof (cases rule: paid_order_context_Some)
        case (1 s p)
        have "s = r'" using 1(1,2) kept(1) r'(3) ticket_inv_parts(2) [OF inv1] unfolding stock_inv_def distinct_map by (metis inj_onD)
        then show False using 1(10) new(4) r'(4) by simp
      qed
    qed (simp add: none)
  qed
  then have "\<exists>e. prepare_issuance env q' hdrs' (or_id ord) d1 = (Inl e, d1)"
    by (cases rule: transaction_cases [of "prepare_issuance_tx env q' hdrs' (or_id ord)" d1]) (auto simp: prepare_issuance_def)
  with kept(2) show ?thesis by blast
qed

text \<open>The buyer of the run sends the reservation request again, one second after the reservation has expired.\<close>

definition late_draws :: draws where
  "late_draws = \<lparr>new_uuid = new_uuid (dq ''l''), now_utc = (\<lambda>_. 900000006), sql_now = 900000006\<rparr>"

lemma paid_reservation_expires_witness:
  "\<exists>x d1. create_reservation_tx seat_env late_draws (user_headers ''u'') ''pxx'' seat_reserve seat4 = Inr (x, d1) \<and>
     seat_order ''paid'' \<in> set (orders d1) \<and>
     (\<exists>e. prepare_issuance seat_env (dq ''i'') worker_headers ''r'' d1 = (Inl e, d1))"
proof -
  have sel: "ticket_reservations seat4 = [seat_reservation ''reserved'' None]" "orders seat4 = [seat_order ''paid'']"
    "product_inventory seat4 = [seat_stock 2 0]" "ticket_products seat4 = [seat]"
    by (simp_all add: seat4_def seat3_def seat2_def seat1_def seat0_def)
  let ?d = "release_expired_for_product 900000006 ''pxx'' seat4"
  have rel: "?d = release_reservation 900000006 ''p'' (seat_reservation ''reserved'' None) seat4"
    by (simp add: release_expired_for_product_def sel reservation_due_def seat_def seat_reservation_def)
  let ?r = "(seat_reservation ''reserved'' None)\<lparr>trs_status := ''expired'', trs_released_at := Some 900000006, trs_updated_at := 900000006\<rparr>"
  have d: "ticket_reservations ?d = [?r]" "ticket_products ?d = [seat]" "ticket_events ?d = [seat_event ''on_sale'' 5]"
    "products ?d = [seat_product_row ''published'']" "product_prices ?d = [seat_price]" "users ?d = users seat0"
    "stellar_accounts ?d = stellar_accounts seat0"
    "product_inventory ?d = [(seat_stock 0 0)\<lparr>iv_updated_at := 900000006\<rparr>]"
    by (simp_all add: rel release_reservation_def sel sql_update_def)
      (simp_all add: seat4_def seat3_def seat2_def seat1_def seat0_def seat_stock_def seat_reservation_def)
  have av: "availability ''pxx'' ?d = Some seat_availability"
    by (simp add: availability_def d sel seat_row_defs seat_availability_def)
  have ok: "verified_buyer ''u'' ?d" by (simp add: verified_buyer_def d) (simp add: seat0_def)
  have lt: "sql_now late_draws = 900000006" "now_utc late_draws n = 900000006" for n by (simp_all add: late_draws_def)
  have tx: "create_reservation_tx seat_env late_draws (user_headers ''u'') ''pxx'' seat_reserve seat4 = Inr ((200, ''rx''), ?d)"
    using av ok
    by (simp add: create_reservation_tx_def seat_reserve_def lt d seat_env_defs hash_text_def seat_availability_def)
      (simp add: seat_reservation_def)
  have "seat_order ''paid'' \<in> set (orders ?d) \<and>
      (\<exists>e. prepare_issuance seat_env (dq ''i'') worker_headers (or_id (seat_order ''paid'')) ?d = (Inl e, ?d))"
    by (rule paid_reservation_expires [OF seat_reachable(2) _ _ _ _ _ _ _ tx, of "seat_reservation ''reserved'' None"])
      (simp_all add: sel seat_reservation_def seat_order_def lt)
  then show ?thesis using tx by (auto simp: seat_order_def)
qed

end
