(* ===== verification/Platform_Data.thy ===== *)
theory Platform_Data
  imports Commerce_Data Market_Data
begin

text \<open>
  The tables of the Stellar gateway, collectible fulfilment, identity and access control: the rows of
  \<open>stellar_intents.rs\<close>, \<open>stellar_reconciliation.rs\<close>, \<open>fulfillment.rs\<close>, \<open>commerce.rs\<close>, \<open>platform.rs\<close>,
  \<open>identity.rs\<close> and \<open>authorization_acl.rs\<close>, over the tables of the orders and the payouts. Of the prediction
  markets only the two tables that access control looks up are carried along.
\<close>

section \<open>Rows\<close>

record StellarTransactionRecord =
  stx_id :: uuid
  stx_transaction_intent_id :: uuid
  stx_network :: string
  stx_envelope_sha256 :: string
  stx_signed_envelope_xdr :: string
  stx_transaction_hash :: string
  stx_status :: string
  stx_horizon_status_code :: "int option"
  stx_horizon_response :: "json option"
  stx_failure_code :: "string option"
  stx_submitted_at :: "int option"
  stx_confirmed_at :: "int option"
  stx_created_at :: int
  stx_updated_at :: int

record chain_cursor_row =
  cu_id :: uuid
  cu_consumer_name :: string
  cu_network :: string
  cu_cursor_value :: string
  cu_ledger_sequence :: int
  cu_updated_at :: int
  cu_created_at :: int

record ChainEvidenceRecord =
  ce_id :: uuid
  ce_transaction_intent_id :: uuid
  ce_stellar_transaction_id :: uuid
  ce_network :: string
  ce_transaction_hash :: string
  ce_ledger_sequence :: int
  ce_operation_index :: int
  ce_paging_token :: string
  ce_source_account :: string
  ce_destination_account :: string
  ce_amount_minor :: int
  ce_asset_code :: string
  ce_asset_scale :: int
  ce_asset_issuer :: "string option"
  ce_memo_text :: string
  ce_transaction_successful :: bool
  ce_closed_at :: int
  ce_evidence_sha256 :: string
  ce_raw_transaction :: json
  ce_raw_operation :: json
  ce_created_at :: int

record CollectibleCollectionRecord =
  cc_id :: uuid
  cc_organization_id :: uuid
  cc_pageant_id :: "uuid option"
  cc_pageant_contestant_id :: "uuid option"
  cc_name :: string
  cc_slug :: string
  cc_description :: "string option"
  cc_status :: string
  cc_contract_id :: "string option"
  cc_metadata_sha256 :: "string option"
  cc_created_by_user_id :: uuid
  cc_created_at :: int
  cc_updated_at :: int

record CollectibleEditionRecord =
  ed_id :: uuid
  ed_collection_id :: uuid
  ed_product_id :: uuid
  ed_edition_number :: int
  ed_supply_limit :: int
  ed_mint_policy :: string
  ed_contract_id :: "string option"
  ed_metadata_sha256 :: "string option"
  ed_artwork_media_asset_id :: "uuid option"
  ed_created_at :: int
  ed_updated_at :: int

record ProductMediaRecord =
  pmd_id :: uuid
  pmd_product_id :: uuid
  pmd_media_asset_id :: uuid
  pmd_role :: string
  pmd_sort_order :: int
  pmd_created_at :: int

record FulfillmentJobRecord =
  fj_id :: uuid
  fj_organization_id :: uuid
  fj_order_id :: uuid
  fj_order_item_id :: uuid
  fj_kind :: string
  fj_status :: string
  fj_idempotency_key :: string
  fj_payload_sha256 :: string
  fj_payload :: json
  fj_attempts :: int
  fj_max_attempts :: int
  fj_available_at :: int
  fj_locked_at :: "int option"
  fj_locked_by :: "string option"
  fj_last_error :: "string option"
  fj_created_by_user_id :: uuid
  fj_created_at :: int
  fj_updated_at :: int

record CollectibleMintRecord =
  mi_id :: uuid
  mi_fulfillment_job_id :: uuid
  mi_order_item_id :: uuid
  mi_collectible_edition_id :: uuid
  mi_contract_id :: string
  mi_recipient_account :: string
  mi_metadata_sha256 :: string
  mi_mint_reference_sha256 :: string
  mi_token_id :: "string option"
  mi_transaction_hash :: "string option"
  mi_status :: string
  mi_submission_response :: "json option"
  mi_failure_code :: "string option"
  mi_submitted_at :: "int option"
  mi_confirmed_at :: "int option"
  mi_created_at :: int
  mi_updated_at :: int

record MintEvidenceRecord =
  me_id :: uuid
  me_collectible_mint_id :: uuid
  me_network :: string
  me_transaction_hash :: string
  me_contract_id :: string
  me_token_id :: string
  me_owner_account :: string
  me_ledger_sequence :: int
  me_event_index :: int
  me_successful :: bool
  me_evidence_sha256 :: string
  me_raw_event :: json
  me_processing_status :: string
  me_reconciliation_error :: "string option"
  me_created_at :: int

record OwnershipProjectionRecord =
  ow_id :: uuid
  ow_network :: string
  ow_contract_id :: string
  ow_token_id :: string
  ow_owner_account :: string
  ow_collectible_mint_id :: uuid
  ow_source_transaction_hash :: string
  ow_ledger_sequence :: int
  ow_event_index :: int
  ow_raw_event :: json
  ow_created_at :: int
  ow_updated_at :: int

record SiteSettingsRecord =
  sit_site_name :: string
  sit_stellar_network :: string
  sit_mainnet_enabled :: bool
  sit_default_pageant_id :: "uuid option"
  sit_pageant_selector_enabled :: bool
  sit_setup_completed_at :: "int option"
  sit_setup_completed_by_user_id :: "uuid option"
  sit_updated_at :: int

record integration_row =
  ig_id :: uuid
  ig_provider :: string
  ig_protected_value :: string
  ig_value_suffix :: "string option"
  ig_validation_status :: string
  ig_last_validated_at :: "int option"
  ig_updated_by_user_id :: uuid
  ig_created_at :: int
  ig_updated_at :: int

record challenge_row =
  wc_id :: uuid
  wc_address :: string
  wc_network :: string
  wc_purpose :: string
  wc_requested_user_id :: "uuid option"
  wc_message :: string
  wc_expires_at :: int
  wc_consumed_at :: "int option"
  wc_created_at :: int

record ContestantSectionRecord =
  sec_id :: uuid
  sec_pageant_contestant_id :: uuid
  sec_kind :: string
  sec_title :: string
  sec_slug :: string
  sec_sort_order :: int
  sec_is_visible :: bool
  sec_settings_json :: json
  sec_created_at :: int
  sec_updated_at :: int

record decision_row =
  de_id :: uuid
  de_actor_user_id :: "uuid option"
  de_organization_id :: "uuid option"
  de_capability :: string
  de_resource_type :: "string option"
  de_resource_id :: "uuid option"
  de_decision :: string
  de_reason :: string
  de_request_method :: string
  de_request_path :: string
  de_created_at :: int

record platform_db = commerce_db +
  stellar_transactions :: "StellarTransactionRecord list"
  stellar_chain_cursors :: "chain_cursor_row list"
  stellar_chain_evidence :: "ChainEvidenceRecord list"
  product_media :: "ProductMediaRecord list"
  collectible_collections :: "CollectibleCollectionRecord list"
  collectible_editions :: "CollectibleEditionRecord list"
  fulfillment_jobs :: "FulfillmentJobRecord list"
  collectible_mints :: "CollectibleMintRecord list"
  collectible_mint_evidence :: "MintEvidenceRecord list"
  ownership_projections :: "OwnershipProjectionRecord list"
  site_settings :: SiteSettingsRecord
  integration_settings :: "integration_row list"
  wallet_auth_challenges :: "challenge_row list"
  contestant_sections :: "ContestantSectionRecord list"
  tenant_markets :: "MarketRecord list"
  tenant_stake_intents :: "StakeIntentRecord list"
  authorization_decisions :: "decision_row list"

end
