(* ===== verification/Authorization.thy ===== *)
theory Authorization
  imports Platform_Data "HOL-Library.Sublist"
begin

text \<open>
  The access control layer of \<open>authorization_acl.rs\<close> that wraps every route of the API: a request is classified by
  method, path and body, its transport token and actor are checked, the roles of the actor are looked up, the
  decision is recorded and only then the handler runs. The handler is a parameter of \<open>enforce\<close>.
\<close>

section \<open>Capabilities and scopes\<close>

definition max_body_bytes :: nat where "max_body_bytes = 2 * 1024 * 1024"

definition web_token_header :: string where "web_token_header = ''x-crownfi-web-token''"
definition admin_token_header :: string where "admin_token_header = ''x-admin-demo-token''"
definition actor_header_name :: string where "actor_header_name = ''x-crownfi-user-id''"
definition payout_worker_header :: string where "payout_worker_header = ''x-crownfi-payout-worker-token''"

datatype capability =
    AccountRead | ManageOverview | SiteSettingsRead | SiteSettingsWrite | OrganizationMembersRead
  | OrganizationMembersManage | PageantWrite | CatalogueWrite | MediaWrite | OrderManage | OrderRead
  | ProviderEventWrite | IntentWrite | IntentRead | ContractRead | ContractWrite | ChainEvidenceWrite
  | ReconciliationRead | FulfillmentCreate | FulfillmentRead | FulfillmentOperate | PayoutManage | PayoutRead
  | SnapshotWrite | MarketCreate | MarketSubmitReview | MarketGovern | MarketPolicyManage | MarketStake
  | MarketIntentRead | MarketIntentWrite

fun as_str :: "capability \<Rightarrow> string" where
  "as_str AccountRead = ''account.read''"
| "as_str ManageOverview = ''manage.overview.read''"
| "as_str SiteSettingsRead = ''site.settings.read''"
| "as_str SiteSettingsWrite = ''site.settings.write''"
| "as_str OrganizationMembersRead = ''organization.members.read''"
| "as_str OrganizationMembersManage = ''organization.members.manage''"
| "as_str PageantWrite = ''pageant.write''"
| "as_str CatalogueWrite = ''catalogue.write''"
| "as_str MediaWrite = ''media.write''"
| "as_str OrderManage = ''order.manage''"
| "as_str OrderRead = ''order.read''"
| "as_str ProviderEventWrite = ''payment.provider_event.write''"
| "as_str IntentWrite = ''stellar.intent.write''"
| "as_str IntentRead = ''stellar.intent.read''"
| "as_str ContractRead = ''contract_registry.read''"
| "as_str ContractWrite = ''contract_registry.write''"
| "as_str ChainEvidenceWrite = ''chain_evidence.write''"
| "as_str ReconciliationRead = ''reconciliation.read''"
| "as_str FulfillmentCreate = ''fulfillment.create''"
| "as_str FulfillmentRead = ''fulfillment.read''"
| "as_str FulfillmentOperate = ''fulfillment.operate''"
| "as_str PayoutManage = ''payout.manage''"
| "as_str PayoutRead = ''payout.read''"
| "as_str SnapshotWrite = ''voting.snapshot.write''"
| "as_str MarketCreate = ''prediction_market.create''"
| "as_str MarketSubmitReview = ''prediction_market.submit_review''"
| "as_str MarketGovern = ''prediction_market.govern''"
| "as_str MarketPolicyManage = ''prediction_market.policy.manage''"
| "as_str MarketStake = ''prediction_market.stake''"
| "as_str MarketIntentRead = ''prediction_market.intent.read''"
| "as_str MarketIntentWrite = ''prediction_market.intent.write''"

datatype transport = WebInternal | AdminApi | PayoutWorker

record scope =
  sc_organization_id :: "uuid option"
  sc_owner_user_id :: "uuid option"
  sc_resource_type :: "string option"
  sc_resource_id :: "uuid option"
  sc_conceal_cross_tenant :: bool

definition scope_site :: scope where
  "scope_site = \<lparr>sc_organization_id = None, sc_owner_user_id = None, sc_resource_type = None,
     sc_resource_id = None, sc_conceal_cross_tenant = False\<rparr>"

definition scope_user :: "uuid \<Rightarrow> scope" where
  "scope_user user_id = \<lparr>sc_organization_id = None, sc_owner_user_id = Some user_id,
     sc_resource_type = Some ''user'', sc_resource_id = Some user_id, sc_conceal_cross_tenant = True\<rparr>"

definition scope_organization :: "uuid \<Rightarrow> string \<Rightarrow> uuid option \<Rightarrow> scope" where
  "scope_organization organization_id resource_type resource_id =
     \<lparr>sc_organization_id = Some organization_id, sc_owner_user_id = None, sc_resource_type = Some resource_type,
      sc_resource_id = resource_id, sc_conceal_cross_tenant = True\<rparr>"

definition scope_owned :: "uuid \<Rightarrow> uuid \<Rightarrow> string \<Rightarrow> uuid \<Rightarrow> scope" where
  "scope_owned organization_id owner_user_id resource_type resource_id =
     \<lparr>sc_organization_id = Some organization_id, sc_owner_user_id = Some owner_user_id,
      sc_resource_type = Some resource_type, sc_resource_id = Some resource_id, sc_conceal_cross_tenant = True\<rparr>"

datatype scope_source = Resolved scope | FirstEditableOrganization

record protected_plan =
  pl_transport :: transport
  pl_capability :: capability
  pl_scope :: scope_source
  pl_expected_actor_user_id :: "uuid option"

record token_gate =
  tg_transport :: transport
  tg_actor_required :: bool
  tg_expected_actor_user_id :: "uuid option"
  tg_local_only :: bool

datatype request_class = Public | TokenOnly token_gate | Protected protected_plan | Deny transport

record principal =
  pr_user_active :: bool
  pr_site_role :: "string option"
  pr_organization_role :: "string option"

definition protected_web :: "capability \<Rightarrow> scope_source \<Rightarrow> uuid option \<Rightarrow> request_class" where
  "protected_web cap sc expected_actor_user_id = Protected \<lparr>pl_transport = WebInternal, pl_capability = cap,
     pl_scope = sc, pl_expected_actor_user_id = expected_actor_user_id\<rparr>"

definition protected_admin :: "capability \<Rightarrow> scope \<Rightarrow> request_class" where
  "protected_admin cap sc = Protected \<lparr>pl_transport = AdminApi, pl_capability = cap,
     pl_scope = Resolved sc, pl_expected_actor_user_id = None\<rparr>"

section \<open>Reading the request\<close>

record http_request =
  rq_method :: string
  rq_path :: string
  rq_headers :: headers
  rq_body :: "string option"

text \<open>A body that could not be read is \<open>None\<close>.\<close>

definition is_public_request :: "string \<Rightarrow> string \<Rightarrow> bool" where
  "is_public_request meth path \<longleftrightarrow>
     List.member [''/health'', ''/ready'', ''/setup/status''] path \<or>
     (meth = ''GET'' \<and>
        (path = ''/events'' \<or> prefix ''/events/'' path \<or> prefix ''/snapshots/'' path \<or> path = ''/markets'' \<or>
         prefix ''/markets/'' path \<or> path = ''/platform/organizations'' \<or> prefix ''/platform/'' path)) \<or>
     (meth = ''POST'' \<and> prefix ''/events/'' path \<and> suffix ''/vote'' path)"

definition trim_slashes :: "string \<Rightarrow> string" where
  "trim_slashes path =
     rev (dropWhile (\<lambda>c. c = CHR ''/'') (rev (dropWhile (\<lambda>c. c = CHR ''/'') path)))"

definition split_path :: "string \<Rightarrow> string list" where
  "split_path path = filter (\<lambda>segment. segment \<noteq> []) (split_on CHR ''/'' (trim_slashes path))"

definition header_matches :: "headers \<Rightarrow> string \<Rightarrow> string \<Rightarrow> bool" where
  "header_matches hdrs name expected \<longleftrightarrow> expected \<noteq> '''' \<and> hdrs name = Some expected"

definition require_transport :: "env \<Rightarrow> headers \<Rightarrow> transport \<Rightarrow> api_error + unit" where
  "require_transport env hdrs tr =
     (let valid = (case tr of
          WebInternal \<Rightarrow> header_matches hdrs web_token_header (web_internal_token env)
        | AdminApi \<Rightarrow> header_matches hdrs admin_token_header (admin_demo_token env)
        | PayoutWorker \<Rightarrow> (case payout_worker_token env of None \<Rightarrow> False
            | Some expected \<Rightarrow> header_matches hdrs payout_worker_header expected))
      in guard valid Unauthorized)"

definition actor_from_headers :: "env \<Rightarrow> headers \<Rightarrow> uuid option" where
  "actor_from_headers env hdrs = Option.bind (hdrs actor_header_name) (parse_uuid env)"

definition body_uuid :: "env \<Rightarrow> json option \<Rightarrow> string \<Rightarrow> uuid option" where
  "body_uuid env body key =
     Option.bind (Option.bind (Option.bind body (json_get key)) json_str) (parse_uuid env)"

definition required_body_uuid :: "env \<Rightarrow> json option \<Rightarrow> string \<Rightarrow> api_error + uuid" where
  "required_body_uuid env body key = ok_or (body_uuid env body key) (InvalidRequest key)"

definition body_string :: "json option \<Rightarrow> string \<Rightarrow> string option" where
  "body_string body key =
     map_option (\<lambda>v. to_ascii_lowercase (trim v)) (Option.bind (Option.bind body (json_get key)) json_str)"

definition path_uuid :: "env \<Rightarrow> string \<Rightarrow> api_error + uuid" where
  "path_uuid env v = ok_or (parse_uuid env v) NotFound"


section \<open>Looking up the tenant of a resource\<close>

definition scalar_uuid :: "('r \<Rightarrow> uuid) \<Rightarrow> ('r \<Rightarrow> uuid) \<Rightarrow> 'r list \<Rightarrow> uuid \<Rightarrow> api_error + uuid" where
  "scalar_uuid key organization rows i =
     ok_or (map_option organization (find (\<lambda>r. key r = i) rows)) NotFound"

definition organization_for_pageant :: "'x platform_db_scheme \<Rightarrow> uuid \<Rightarrow> api_error + uuid" where
  "organization_for_pageant d = scalar_uuid pg_id pg_organization_id (pageants d)"

definition organization_for_media :: "'x platform_db_scheme \<Rightarrow> uuid \<Rightarrow> api_error + uuid" where
  "organization_for_media d = scalar_uuid ma_id ma_organization_id (media_assets d)"

definition organization_for_collection :: "'x platform_db_scheme \<Rightarrow> uuid \<Rightarrow> api_error + uuid" where
  "organization_for_collection d = scalar_uuid cc_id cc_organization_id (collectible_collections d)"

definition organization_for_product :: "'x platform_db_scheme \<Rightarrow> uuid \<Rightarrow> api_error + uuid" where
  "organization_for_product d = scalar_uuid pr_id pr_organization_id (products d)"

definition organization_for_market :: "'x platform_db_scheme \<Rightarrow> uuid \<Rightarrow> api_error + uuid" where
  "organization_for_market d = scalar_uuid mk_id mk_organization_id (tenant_markets d)"

definition organization_for_pageant_contestant :: "'x platform_db_scheme \<Rightarrow> uuid \<Rightarrow> api_error + uuid" where
  "organization_for_pageant_contestant d i =
     bind_result (ok_or (find (\<lambda>pc. pc_id pc = i) (pageant_contestants d)) NotFound) (\<lambda>pc.
     ok_or (map_option pg_organization_id (find (\<lambda>p. pg_id p = pc_pageant_id pc) (pageants d))) NotFound)"

text \<open>The organization of a row and the buyer of its order.\<close>

definition order_scope ::
  "('r \<Rightarrow> uuid) \<Rightarrow> ('r \<Rightarrow> uuid) \<Rightarrow> ('r \<Rightarrow> uuid) \<Rightarrow> 'r list \<Rightarrow> 'x platform_db_scheme \<Rightarrow> uuid \<Rightarrow> api_error + uuid \<times> uuid"
where
  "order_scope key organization order_id rows d i =
     bind_result (ok_or (find (\<lambda>r. key r = i) rows) NotFound) (\<lambda>r.
     bind_result (ok_or (find (\<lambda>ord. or_id ord = order_id r) (orders d)) NotFound) (\<lambda>ord.
     Inr (organization r, or_buyer_user_id ord)))"

definition scope_for_order :: "'x platform_db_scheme \<Rightarrow> uuid \<Rightarrow> api_error + uuid \<times> uuid" where
  "scope_for_order d i =
     ok_or (map_option (\<lambda>ord. (or_organization_id ord, or_buyer_user_id ord))
       (find (\<lambda>ord. or_id ord = i) (orders d))) NotFound"

definition scope_for_payment_attempt :: "'x platform_db_scheme \<Rightarrow> uuid \<Rightarrow> api_error + uuid \<times> uuid" where
  "scope_for_payment_attempt d i =
     bind_result (ok_or (find (\<lambda>pa. pa_id pa = i) (payment_attempts d)) NotFound) (\<lambda>pa.
       scope_for_order d (pa_order_id pa))"

definition scope_for_intent :: "'x platform_db_scheme \<Rightarrow> uuid \<Rightarrow> api_error + uuid \<times> uuid" where
  "scope_for_intent d = order_scope ti_id ti_organization_id ti_order_id (transaction_intents d) d"

definition scope_for_market_intent :: "'x platform_db_scheme \<Rightarrow> uuid \<Rightarrow> api_error + uuid \<times> uuid" where
  "scope_for_market_intent d i =
     ok_or (map_option (\<lambda>si. (si_organization_id si, si_user_id si))
       (find (\<lambda>si. si_id si = i) (tenant_stake_intents d))) NotFound"

definition scope_for_fulfillment_job :: "'x platform_db_scheme \<Rightarrow> uuid \<Rightarrow> api_error + uuid \<times> uuid" where
  "scope_for_fulfillment_job d = order_scope fj_id fj_organization_id fj_order_id (fulfillment_jobs d) d"

definition scope_for_payout_batch :: "'x platform_db_scheme \<Rightarrow> uuid \<Rightarrow> api_error + uuid \<times> uuid" where
  "scope_for_payout_batch d = order_scope pb_id pb_organization_id pb_order_id (payout_batches d) d"

section \<open>Classification\<close>

definition own_organization :: "uuid \<Rightarrow> scope" where
  "own_organization organization_id = scope_organization organization_id ''organization'' (Some organization_id)"

text \<open>The routes under \<open>/internal/manage\<close>; \<open>None\<close> when no branch matches.\<close>

definition classify_manage ::
  "env \<Rightarrow> string \<Rightarrow> string list \<Rightarrow> json option \<Rightarrow> 'x platform_db_scheme \<Rightarrow> (api_error + request_class) option"
where
  "classify_manage env meth segments body d =
     (if length segments = 4 \<and> segments ! 1 = ''manage'' \<and> segments ! 2 = ''overview'' \<and> meth = ''GET'' then
        Some (bind_result (path_uuid env (segments ! 3)) (\<lambda>user_id.
          Inr (protected_web ManageOverview (Resolved (scope_user user_id)) (Some user_id))))
      else if segments = [''internal'', ''manage'', ''pageants''] \<and> meth = ''POST'' then
        Some (bind_result (required_body_uuid env body ''organization_id'') (\<lambda>organization_id.
          Inr (protected_web PageantWrite (Resolved (own_organization organization_id))
            (body_uuid env body ''actor_user_id''))))
      else if segments = [''internal'', ''manage'', ''pageants''] \<and> meth = ''PATCH'' then
        Some (bind_result (required_body_uuid env body ''pageant_id'') (\<lambda>pageant_id.
          bind_result (organization_for_pageant d pageant_id) (\<lambda>organization_id.
          Inr (protected_web PageantWrite
            (Resolved (scope_organization organization_id ''pageant'' (Some pageant_id)))
            (body_uuid env body ''actor_user_id'')))))
      else if length segments = 4 \<and> segments ! 0 = ''internal'' \<and> segments ! 1 = ''manage'' \<and>
           segments ! 2 = ''pageants'' \<and> meth = ''DELETE'' then
        Some (bind_result (path_uuid env (segments ! 3)) (\<lambda>pageant_id.
          bind_result (organization_for_pageant d pageant_id) (\<lambda>organization_id.
          Inr (protected_web PageantWrite
            (Resolved (scope_organization organization_id ''pageant'' (Some pageant_id))) None))))
      else if (segments = [''internal'', ''manage'', ''categories''] \<or>
           segments = [''internal'', ''manage'', ''contestants'']) \<and> meth = ''POST'' then
        Some (bind_result (required_body_uuid env body ''pageant_id'') (\<lambda>pageant_id.
          bind_result (organization_for_pageant d pageant_id) (\<lambda>organization_id.
          Inr (protected_web PageantWrite
            (Resolved (scope_organization organization_id ''pageant'' (Some pageant_id)))
            (body_uuid env body ''actor_user_id'')))))
      else if segments = [''internal'', ''manage'', ''contestants''] \<and> meth = ''PATCH'' then
        Some (bind_result (required_body_uuid env body ''pageant_contestant_id'') (\<lambda>pageant_contestant_id.
          bind_result (organization_for_pageant_contestant d pageant_contestant_id) (\<lambda>organization_id.
          Inr (protected_web PageantWrite (Resolved (own_organization organization_id))
            (body_uuid env body ''actor_user_id'')))))
      else if length segments = 4 \<and> segments ! 0 = ''internal'' \<and> segments ! 1 = ''manage'' \<and>
           segments ! 2 = ''contestants'' \<and> meth = ''DELETE'' then
        Some (bind_result (path_uuid env (segments ! 3)) (\<lambda>pageant_contestant_id.
          bind_result (organization_for_pageant_contestant d pageant_contestant_id) (\<lambda>organization_id.
          Inr (protected_web PageantWrite (Resolved (own_organization organization_id)) None))))
      else if segments = [''internal'', ''manage'', ''seed-miss-stellarverse''] \<and> meth = ''POST'' then
        Some (Inr (protected_web PageantWrite
          (case body_uuid env body ''organization_id'' of
             Some organization_id \<Rightarrow> Resolved (own_organization organization_id)
           | None \<Rightarrow> FirstEditableOrganization)
          (body_uuid env body ''actor_user_id'')))
      else None)"

text \<open>The routes of the prediction markets and what no route matches.\<close>

definition market_capability :: "string \<Rightarrow> string \<Rightarrow> json option \<Rightarrow> capability option" where
  "market_capability meth action body =
     (if action = ''policy-decisions'' \<and> meth = ''POST'' then Some MarketPolicyManage
      else if action = ''transitions'' \<and> meth = ''POST'' then
        Some (if body_string body ''target_status'' = Some ''pending_review'' then MarketSubmitReview else MarketGovern)
      else if action = ''stake-intents'' \<and> meth = ''POST'' then Some MarketStake
      else None)"

definition classify_internal_market ::
  "env \<Rightarrow> string \<Rightarrow> string list \<Rightarrow> json option \<Rightarrow> 'x platform_db_scheme \<Rightarrow> api_error + request_class"
where
  "classify_internal_market env meth segments body d =
     (if segments = [''internal'', ''markets''] \<and> meth = ''POST'' then
        bind_result (required_body_uuid env body ''organization_id'') (\<lambda>organization_id.
          Inr (protected_web MarketCreate (Resolved (own_organization organization_id)) None))
      else if length segments = 4 \<and> segments ! 1 = ''markets'' then
        bind_result (path_uuid env (segments ! 2)) (\<lambda>market_id.
        bind_result (organization_for_market d market_id) (\<lambda>organization_id.
        case market_capability meth (segments ! 3) body of
          None \<Rightarrow> Inr (Deny WebInternal)
        | Some cap \<Rightarrow> Inr (protected_web cap
            (Resolved (scope_organization organization_id ''prediction_market'' (Some market_id))) None)))
      else if length segments \<ge> 3 \<and> segments ! 1 = ''market-intents'' then
        bind_result (path_uuid env (segments ! 2)) (\<lambda>intent_id.
        bind_result (scope_for_market_intent d intent_id) (\<lambda>(organization_id, user_id).
        let sc = Resolved (scope_owned organization_id user_id ''prediction_market_stake_intent'' intent_id) in
        if length segments = 3 \<and> meth = ''GET'' then Inr (protected_web MarketIntentRead sc None)
        else if length segments = 4 \<and> segments ! 3 = ''submission'' \<and> meth = ''POST'' then
          Inr (protected_web MarketIntentWrite sc None)
        else Inr (Deny WebInternal)))
      else Inr (Deny WebInternal))"

definition classify_internal ::
  "env \<Rightarrow> string \<Rightarrow> string list \<Rightarrow> json option \<Rightarrow> 'x platform_db_scheme \<Rightarrow> api_error + request_class"
where
  "classify_internal env meth segments body d =
     bind_result (database_pool env) (\<lambda>_.
      if length segments = 4 \<and> segments ! 1 = ''identity'' \<and> segments ! 2 = ''users'' \<and> meth = ''GET'' then
        bind_result (path_uuid env (segments ! 3)) (\<lambda>user_id.
          Inr (protected_web AccountRead (Resolved (scope_user user_id)) None))
      else if segments = [''internal'', ''site-settings''] then
        (if meth = ''GET'' then Inr (protected_web SiteSettingsRead (Resolved scope_site) (body_uuid env body ''actor_user_id''))
         else if meth = ''PATCH'' then
           Inr (protected_web SiteSettingsWrite (Resolved scope_site) (body_uuid env body ''actor_user_id''))
         else Inr (Deny WebInternal))
      else if length segments = 6 \<and> segments ! 1 = ''access'' \<and> segments ! 2 = ''organizations'' \<and>
           segments ! 4 = ''members'' \<and> meth = ''GET'' then
        bind_result (path_uuid env (segments ! 3)) (\<lambda>organization_id.
        bind_result (path_uuid env (segments ! 5)) (\<lambda>actor_user_id.
          Inr (protected_web OrganizationMembersRead (Resolved (own_organization organization_id)) (Some actor_user_id))))
      else if length segments = 5 \<and> segments ! 1 = ''access'' \<and> segments ! 2 = ''organizations'' \<and>
           segments ! 4 = ''members'' \<and> meth = ''POST'' then
        bind_result (path_uuid env (segments ! 3)) (\<lambda>organization_id.
          Inr (protected_web OrganizationMembersManage (Resolved (own_organization organization_id))
            (body_uuid env body ''actor_user_id'')))
      else case classify_manage env meth segments body d of
          Some c \<Rightarrow> c
        | None \<Rightarrow> classify_internal_market env meth segments body d)"


text \<open>The administrative routes of one organization.\<close>

definition organization_capability :: "string \<Rightarrow> string \<Rightarrow> capability option" where
  "organization_capability meth part =
     (if part = ''pageants'' \<and> meth = ''POST'' then Some PageantWrite
      else if List.member [''products'', ''collectible-collections''] part \<and> meth = ''POST'' then Some CatalogueWrite
      else if part = ''orders'' \<and> meth = ''POST'' then Some OrderManage
      else None)"

definition order_capability :: "string \<Rightarrow> string list \<Rightarrow> capability option" where
  "order_capability meth segments =
     (if length segments = 4 \<and> meth = ''GET'' then Some OrderRead
      else if length segments = 5 \<and> segments ! 4 = ''payment-attempts'' \<and> meth = ''POST'' then Some OrderManage
      else if length segments = 5 \<and> segments ! 4 = ''stellar-intents'' \<and> meth = ''POST'' then Some IntentWrite
      else if length segments = 5 \<and> segments ! 4 = ''fulfillment-jobs'' \<and> meth = ''POST'' then Some FulfillmentCreate
      else if length segments = 5 \<and> segments ! 4 = ''payout-batches'' \<and> meth = ''POST'' then Some PayoutManage
      else None)"

definition intent_capability :: "string \<Rightarrow> string list \<Rightarrow> capability option" where
  "intent_capability meth segments =
     (if length segments = 4 \<and> meth = ''GET'' then Some IntentRead
      else if length segments = 5 \<and> segments ! 4 = ''signed-envelope'' \<and> meth = ''POST'' then Some IntentWrite
      else if length segments = 5 \<and> List.member [''submission-receipt'', ''chain-evidence''] (segments ! 4) \<and>
           meth = ''POST'' then Some ChainEvidenceWrite
      else if length segments = 5 \<and> segments ! 4 = ''reconciliation'' \<and> meth = ''GET'' then Some ReconciliationRead
      else None)"

definition job_capability :: "string \<Rightarrow> string list \<Rightarrow> capability option" where
  "job_capability meth segments =
     (if length segments = 4 \<and> meth = ''GET'' then Some FulfillmentRead
      else if length segments = 5 \<and>
           List.member [''claim'', ''submission'', ''failure'', ''mint-evidence''] (segments ! 4) \<and> meth = ''POST''
        then Some FulfillmentOperate
      else None)"

definition admin_or_deny :: "capability option \<Rightarrow> scope \<Rightarrow> api_error + request_class" where
  "admin_or_deny cap sc = (case cap of None \<Rightarrow> Inr (Deny AdminApi) | Some c \<Rightarrow> Inr (protected_admin c sc))"

definition classify_admin_catalogue ::
  "env \<Rightarrow> string \<Rightarrow> string list \<Rightarrow> 'x platform_db_scheme \<Rightarrow> (api_error + request_class) option"
where
  "classify_admin_catalogue env meth segments d =
     (if length segments = 3 \<and> segments ! 2 = ''contract-deployments'' then
        Some (admin_or_deny (if meth = ''GET'' then Some ContractRead else if meth = ''POST'' then Some ContractWrite
          else None) scope_site)
      else if length segments = 5 \<and> segments ! 2 = ''organizations'' then
        Some (bind_result (path_uuid env (segments ! 3)) (\<lambda>organization_id.
          admin_or_deny (organization_capability meth (segments ! 4)) (own_organization organization_id)))
      else if length segments = 6 \<and> segments ! 2 = ''organizations'' \<and> segments ! 4 = ''media'' \<and>
           segments ! 5 = ''upload-intents'' \<and> meth = ''POST'' then
        Some (bind_result (path_uuid env (segments ! 3)) (\<lambda>organization_id.
          Inr (protected_admin MediaWrite (own_organization organization_id))))
      else if length segments = 7 \<and> segments ! 2 = ''organizations'' \<and> segments ! 4 = ''products'' \<and>
           segments ! 6 = ''payout-rules'' \<and> meth = ''POST'' then
        Some (bind_result (path_uuid env (segments ! 3)) (\<lambda>requested_organization_id.
          bind_result (path_uuid env (segments ! 5)) (\<lambda>product_id.
          bind_result (organization_for_product d product_id) (\<lambda>organization_id.
          if requested_organization_id \<noteq> organization_id then Inl NotFound
          else Inr (protected_admin PayoutManage (scope_organization organization_id ''product'' (Some product_id)))))))
      else if length segments = 5 \<and> segments ! 2 = ''pageants'' \<and>
           List.member [''categories'', ''contestants''] (segments ! 4) \<and> meth = ''POST'' then
        Some (bind_result (path_uuid env (segments ! 3)) (\<lambda>pageant_id.
          bind_result (organization_for_pageant d pageant_id) (\<lambda>organization_id.
          Inr (protected_admin PageantWrite (scope_organization organization_id ''pageant'' (Some pageant_id))))))
      else if length segments = 5 \<and> segments ! 2 = ''pageant-contestants'' \<and> meth = ''POST'' then
        Some (bind_result (path_uuid env (segments ! 3)) (\<lambda>pageant_contestant_id.
          bind_result (organization_for_pageant_contestant d pageant_contestant_id) (\<lambda>organization_id.
          admin_or_deny (if segments ! 4 = ''sections'' then Some PageantWrite
              else if segments ! 4 = ''media'' then Some MediaWrite else None)
            (scope_organization organization_id ''pageant_contestant'' (Some pageant_contestant_id)))))
      else if length segments = 5 \<and> segments ! 2 = ''media'' \<and> segments ! 4 = ''complete'' \<and> meth = ''POST'' then
        Some (bind_result (path_uuid env (segments ! 3)) (\<lambda>media_asset_id.
          bind_result (organization_for_media d media_asset_id) (\<lambda>organization_id.
          Inr (protected_admin MediaWrite (scope_organization organization_id ''media_asset'' (Some media_asset_id))))))
      else if length segments = 5 \<and> segments ! 2 = ''collectible-collections'' \<and> segments ! 4 = ''editions'' \<and>
           meth = ''POST'' then
        Some (bind_result (path_uuid env (segments ! 3)) (\<lambda>collection_id.
          bind_result (organization_for_collection d collection_id) (\<lambda>organization_id.
          Inr (protected_admin CatalogueWrite
            (scope_organization organization_id ''collectible_collection'' (Some collection_id))))))
      else None)"

definition classify_admin_commerce ::
  "env \<Rightarrow> string \<Rightarrow> string list \<Rightarrow> 'x platform_db_scheme \<Rightarrow> api_error + request_class"
where
  "classify_admin_commerce env meth segments d =
     (if length segments \<ge> 4 \<and> segments ! 2 = ''orders'' then
        bind_result (path_uuid env (segments ! 3)) (\<lambda>order_id.
        bind_result (scope_for_order d order_id) (\<lambda>(organization_id, buyer_user_id).
        admin_or_deny (order_capability meth segments) (scope_owned organization_id buyer_user_id ''order'' order_id)))
      else if length segments = 5 \<and> segments ! 2 = ''payment-attempts'' \<and> segments ! 4 = ''events'' \<and> meth = ''POST'' then
        bind_result (path_uuid env (segments ! 3)) (\<lambda>payment_attempt_id.
        bind_result (scope_for_payment_attempt d payment_attempt_id) (\<lambda>(organization_id, buyer_user_id).
        Inr (protected_admin ProviderEventWrite
          (scope_owned organization_id buyer_user_id ''payment_attempt'' payment_attempt_id))))
      else if length segments \<ge> 4 \<and> segments ! 2 = ''stellar-intents'' then
        bind_result (path_uuid env (segments ! 3)) (\<lambda>intent_id.
        bind_result (scope_for_intent d intent_id) (\<lambda>(organization_id, buyer_user_id).
        admin_or_deny (intent_capability meth segments)
          (scope_owned organization_id buyer_user_id ''transaction_intent'' intent_id)))
      else if length segments \<ge> 4 \<and> segments ! 2 = ''fulfillment-jobs'' then
        bind_result (path_uuid env (segments ! 3)) (\<lambda>job_id.
        bind_result (scope_for_fulfillment_job d job_id) (\<lambda>(organization_id, buyer_user_id).
        admin_or_deny (job_capability meth segments)
          (scope_owned organization_id buyer_user_id ''fulfillment_job'' job_id)))
      else if length segments = 4 \<and> segments ! 2 = ''payout-batches'' \<and> meth = ''GET'' then
        bind_result (path_uuid env (segments ! 3)) (\<lambda>payout_batch_id.
        bind_result (scope_for_payout_batch d payout_batch_id) (\<lambda>(organization_id, buyer_user_id).
        Inr (protected_admin PayoutRead
          (scope_owned organization_id buyer_user_id ''payout_batch'' payout_batch_id))))
      else Inr (Deny AdminApi))"

definition classify_admin ::
  "env \<Rightarrow> string \<Rightarrow> string list \<Rightarrow> 'x platform_db_scheme \<Rightarrow> api_error + request_class"
where
  "classify_admin env meth segments d =
     (if length segments = 4 \<and> segments ! 1 = ''events'' \<and> segments ! 3 = ''snapshot'' \<and> meth = ''POST'' then
        Inr (protected_admin SnapshotWrite scope_site)
      else if length segments = 4 \<and> segments ! 1 = ''snapshots'' \<and> segments ! 3 = ''anchor'' \<and> meth = ''POST'' then
        Inr (protected_admin SnapshotWrite scope_site)
      else if length segments < 3 \<or> segments ! 1 \<noteq> ''platform'' then Inr (Deny AdminApi)
      else bind_result (database_pool env) (\<lambda>_.
        case classify_admin_catalogue env meth segments d of
          Some c \<Rightarrow> c
        | None \<Rightarrow> classify_admin_commerce env meth segments d))"

text \<open>The routes that need a token only.\<close>

definition classify_token_only :: "env \<Rightarrow> string \<Rightarrow> string list \<Rightarrow> json option \<Rightarrow> token_gate option" where
  "classify_token_only env meth segments body =
     (let requested_user_id = body_uuid env body ''requested_user_id'' in
      if segments = [''internal'', ''identity'', ''challenges''] \<and> meth = ''POST'' then
        (let link = (body_string body ''purpose'' = Some ''link'') in
         Some \<lparr>tg_transport = WebInternal, tg_actor_required = link,
           tg_expected_actor_user_id = (if link then requested_user_id else None), tg_local_only = False\<rparr>)
      else if length segments = 5 \<and> segments ! 0 = ''internal'' \<and> segments ! 1 = ''identity'' \<and>
           segments ! 2 = ''challenges'' \<and> segments ! 4 = ''consume'' \<and> meth = ''POST'' then
        Some \<lparr>tg_transport = WebInternal, tg_actor_required = (requested_user_id \<noteq> None),
           tg_expected_actor_user_id = requested_user_id, tg_local_only = False\<rparr>
      else if segments = [''internal'', ''setup'', ''complete''] \<and> meth = ''POST'' then
        Some \<lparr>tg_transport = WebInternal, tg_actor_required = True,
           tg_expected_actor_user_id = body_uuid env body ''user_id'', tg_local_only = False\<rparr>
      else if segments = [''admin'', ''platform'', ''bootstrap''] \<and> meth = ''POST'' then
        Some \<lparr>tg_transport = AdminApi, tg_actor_required = False, tg_expected_actor_user_id = None,
           tg_local_only = True\<rparr>
      else if length segments = 5 \<and> segments ! 0 = ''internal'' \<and> segments ! 1 = ''platform'' \<and>
           segments ! 2 = ''payout-batches'' \<and>
           List.member [''submission'', ''transfer-evidence'', ''failure''] (segments ! 4) \<and> meth = ''POST'' then
        Some \<lparr>tg_transport = PayoutWorker, tg_actor_required = False, tg_expected_actor_user_id = None,
           tg_local_only = False\<rparr>
      else None)"

definition classify_request ::
  "env \<Rightarrow> string \<Rightarrow> string \<Rightarrow> json option \<Rightarrow> 'x platform_db_scheme \<Rightarrow> api_error + request_class"
where
  "classify_request env meth path body d =
     (if is_public_request meth path then Inr Public
      else let segments = split_path path in
      if segments = [] then Inr Public
      else case classify_token_only env meth segments body of
        Some gate \<Rightarrow> Inr (TokenOnly gate)
      | None \<Rightarrow>
          if segments ! 0 = ''internal'' then classify_internal env meth segments body d
          else if segments ! 0 = ''admin'' then classify_admin env meth segments d
          else Inr Public)"


section \<open>Roles\<close>

definition site_role_grants :: "string \<Rightarrow> capability list option" where
  "site_role_grants role =
     (if List.member [''owner'', ''admin''] role then None
      else if role = ''operator'' then Some [SiteSettingsRead, OrderRead, IntentRead, ContractRead, ReconciliationRead,
         FulfillmentRead, FulfillmentOperate, PayoutRead]
      else if role = ''auditor'' then Some [AccountRead, SiteSettingsRead, OrganizationMembersRead, OrderRead, IntentRead,
         ContractRead, ReconciliationRead, FulfillmentRead, PayoutRead]
      else Some [])"

text \<open>\<open>None\<close> stands for every capability.\<close>

definition site_role_allows :: "string \<Rightarrow> capability \<Rightarrow> bool" where
  "site_role_allows role cap = (case site_role_grants role of None \<Rightarrow> True | Some caps \<Rightarrow> List.member caps cap)"

definition organization_role_grants :: "string \<Rightarrow> capability list" where
  "organization_role_grants role =
     (if List.member [''owner'', ''admin''] role then
        [OrganizationMembersRead, OrganizationMembersManage, PageantWrite, CatalogueWrite, MediaWrite, OrderManage,
         OrderRead, IntentWrite, IntentRead, ReconciliationRead, FulfillmentCreate, FulfillmentRead, FulfillmentOperate,
         PayoutManage, PayoutRead, MarketCreate, MarketSubmitReview]
      else if role = ''editor'' then
        [PageantWrite, CatalogueWrite, MediaWrite, OrderManage, OrderRead, IntentWrite, IntentRead, FulfillmentCreate,
         FulfillmentRead, MarketCreate, MarketSubmitReview]
      else if role = ''operator'' then
        [OrderRead, IntentRead, ReconciliationRead, FulfillmentRead, FulfillmentOperate, PayoutRead]
      else if List.member [''auditor'', ''viewer''] role then
        [OrganizationMembersRead, OrderRead, IntentRead, ReconciliationRead, FulfillmentRead, PayoutRead]
      else [])"

definition organization_role_allows :: "string \<Rightarrow> capability \<Rightarrow> bool" where
  "organization_role_allows role cap = List.member (organization_role_grants role) cap"

definition load_principal :: "uuid \<Rightarrow> uuid option \<Rightarrow> 'x platform_db_scheme \<Rightarrow> principal" where
  "load_principal actor_user_id organization_id d =
     \<lparr>pr_user_active = (case find (\<lambda>u. us_id u = actor_user_id) (users d) of
          None \<Rightarrow> False | Some u \<Rightarrow> us_status u = ''active''),
      pr_site_role = map_option ad_role
          (find (\<lambda>a. ad_user_id a = actor_user_id \<and> ad_status a = ''active'') (site_administrators d)),
      pr_organization_role = (case organization_id of None \<Rightarrow> None
        | Some org \<Rightarrow> map_option om_role (find (\<lambda>m. om_organization_id m = org \<and> om_user_id m = actor_user_id \<and>
              om_status m = ''active'') (organization_members d)))\<rparr>"

definition role_allows :: "(string \<Rightarrow> capability \<Rightarrow> bool) \<Rightarrow> string option \<Rightarrow> capability \<Rightarrow> bool" where
  "role_allows allows role cap = (case role of None \<Rightarrow> False | Some r \<Rightarrow> allows r cap)"

definition authorize_principal :: "uuid \<Rightarrow> principal \<Rightarrow> capability \<Rightarrow> scope \<Rightarrow> bool \<times> string" where
  "authorize_principal actor_user_id p cap sc =
     (if \<not> pr_user_active p then (False, ''principal_inactive_or_missing'')
      else let self_owned = (sc_owner_user_id sc = Some actor_user_id) in
      if List.member [AccountRead, ManageOverview] cap \<and> self_owned then (True, ''resource_owner'')
      else if List.member [OrderRead, IntentRead] cap \<and> self_owned then (True, ''resource_owner'')
      else if cap = MarketStake then (True, ''active_account'')
      else if List.member [MarketIntentRead, MarketIntentWrite] cap \<and> self_owned then (True, ''resource_owner'')
      else if role_allows site_role_allows (pr_site_role p) cap then (True, ''site_role'')
      else if role_allows organization_role_allows (pr_organization_role p) cap then (True, ''organization_role'')
      else (False, ''capability_not_granted''))"

definition resolve_first_editable_organization :: "uuid \<Rightarrow> 'x platform_db_scheme \<Rightarrow> api_error + scope" where
  "resolve_first_editable_organization actor_user_id d =
     (case sort_key og_created_at (filter (\<lambda>g. og_status g \<noteq> ''archived'' \<and>
          (site_role actor_user_id [''owner'', ''admin''] d \<or>
           member_role (og_id g) actor_user_id [''owner'', ''admin'', ''editor''] d)) (organizations d)) of
        [] \<Rightarrow> Inl Forbidden
      | g # _ \<Rightarrow> Inr (own_organization (og_id g)))"

section \<open>Enforcement\<close>

text \<open>The table of decisions. A row that violates a constraint is dropped with a warning in the log.\<close>

definition length_between :: "nat \<Rightarrow> nat \<Rightarrow> string \<Rightarrow> bool" where
  "length_between lo hi s \<longleftrightarrow> lo \<le> char_length s \<and> char_length s \<le> hi"

definition decision_check :: "decision_row \<Rightarrow> bool" where
  "decision_check r \<longleftrightarrow> length_between 1 120 (de_capability r) \<and>
     (case de_resource_type r of None \<Rightarrow> True | Some t \<Rightarrow> length_between 1 120 t) \<and>
     List.member [''allow'', ''deny''] (de_decision r) \<and> length_between 1 200 (de_reason r) \<and>
     length_between 1 16 (de_request_method r) \<and> length_between 1 1000 (de_request_path r)"

definition decision_clash :: "decision_row \<Rightarrow> decision_row \<Rightarrow> bool" where
  "decision_clash a b \<longleftrightarrow> de_id a = de_id b"

definition decision_references :: "'x platform_db_scheme \<Rightarrow> decision_row \<Rightarrow> bool" where
  "decision_references d r \<longleftrightarrow>
     (case de_actor_user_id r of None \<Rightarrow> True | Some u \<Rightarrow> list_ex (\<lambda>x. us_id x = u) (users d)) \<and>
     (case de_organization_id r of None \<Rightarrow> True | Some g \<Rightarrow> list_ex (\<lambda>x. og_id x = g) (organizations d))"

definition insert_decision :: "decision_row \<Rightarrow> 'x platform_db_scheme \<Rightarrow> db_error + 'x platform_db_scheme" where
  "insert_decision row d =
     (if \<not> decision_references d row then Inl Foreign_key_violation
      else bind_result (sql_insert decision_check decision_clash row (authorization_decisions d))
        (\<lambda>rows. Inr (d\<lparr>authorization_decisions := rows\<rparr>)))"

definition decision_entry ::
  "draws \<Rightarrow> http_request \<Rightarrow> uuid \<Rightarrow> uuid option \<Rightarrow> capability \<Rightarrow> string option \<Rightarrow> uuid option \<Rightarrow> bool \<Rightarrow> string \<Rightarrow>
   decision_row"
where
  "decision_entry dr rq actor_user_id organization_id cap resource_type resource_id allowed reason =
     \<lparr>de_id = new_uuid dr 0, de_actor_user_id = Some actor_user_id, de_organization_id = organization_id,
      de_capability = as_str cap, de_resource_type = resource_type, de_resource_id = resource_id,
      de_decision = (if allowed then ''allow'' else ''deny''), de_reason = reason,
      de_request_method = rq_method rq, de_request_path = take 1000 (rq_path rq), de_created_at = sql_now dr\<rparr>"

definition record_decision ::
  "draws \<Rightarrow> http_request \<Rightarrow> uuid \<Rightarrow> uuid option \<Rightarrow> capability \<Rightarrow> string option \<Rightarrow> uuid option \<Rightarrow> bool \<Rightarrow> string \<Rightarrow>
   'x platform_db_scheme \<Rightarrow> 'x platform_db_scheme"
where
  "record_decision dr rq actor_user_id organization_id cap resource_type resource_id allowed reason d =
     (case insert_decision (decision_entry dr rq actor_user_id organization_id cap resource_type resource_id allowed reason) d of
       Inl _ \<Rightarrow> d
     | Inr d' \<Rightarrow> d')"

definition resolve_scope :: "scope_source \<Rightarrow> uuid \<Rightarrow> 'x platform_db_scheme \<Rightarrow> api_error + scope" where
  "resolve_scope src actor_user_id d = (case src of
       Resolved sc \<Rightarrow> Inr sc
     | FirstEditableOrganization \<Rightarrow> resolve_first_editable_organization actor_user_id d)"

type_synonym ('r, 'd) handler = "http_request \<Rightarrow> 'd \<Rightarrow> (api_error + 'r) \<times> 'd"

definition enforce_token :: "env \<Rightarrow> headers \<Rightarrow> token_gate \<Rightarrow> api_error + unit" where
  "enforce_token env hdrs gate =
     bind_result (require_transport env hdrs (tg_transport gate)) (\<lambda>_.
     if tg_local_only gate \<and> \<not> prefix ''local'' (api_mode env) then Inl Forbidden
     else let actor = actor_from_headers env hdrs in
     if tg_actor_required gate \<and> actor = None then Inl Unauthorized
     else if tg_expected_actor_user_id gate \<noteq> None \<and> tg_expected_actor_user_id gate \<noteq> actor then Inl Forbidden
     else Inr ())"

definition refusal :: "principal \<Rightarrow> scope \<Rightarrow> api_error" where
  "refusal p sc =
     (if sc_conceal_cross_tenant sc \<and> pr_site_role p = None \<and> pr_organization_role p = None
      then NotFound else Forbidden)"

definition enforce_protected ::
  "env \<Rightarrow> draws \<Rightarrow> ('r, 'x platform_db_scheme) handler \<Rightarrow> protected_plan \<Rightarrow> http_request \<Rightarrow> 'x platform_db_scheme \<Rightarrow>
   (api_error + 'r) \<times> 'x platform_db_scheme"
where
  "enforce_protected env dr handler plan rq d =
     (case bind_result (require_transport env (rq_headers rq) (pl_transport plan)) (\<lambda>_.
           bind_result (ok_or (actor_from_headers env (rq_headers rq)) Unauthorized) (\<lambda>actor.
           bind_result (database_pool env) (\<lambda>_. Inr actor))) of
        Inl e \<Rightarrow> (Inl e, d)
      | Inr actor \<Rightarrow>
          if pl_expected_actor_user_id plan \<noteq> None \<and> pl_expected_actor_user_id plan \<noteq> Some actor then
            (Inl Forbidden, record_decision dr rq actor None (pl_capability plan) None None False
               ''actor_binding_mismatch'' d)
          else case resolve_scope (pl_scope plan) actor d of
            Inl e \<Rightarrow> (Inl e, d)
          | Inr sc \<Rightarrow>
              let p = load_principal actor (sc_organization_id sc) d;
                  (allowed, reason) = authorize_principal actor p (pl_capability plan) sc;
                  d' = record_decision dr rq actor (sc_organization_id sc) (pl_capability plan) (sc_resource_type sc)
                    (sc_resource_id sc) allowed reason d
              in if \<not> pr_user_active p then (Inl Unauthorized, d')
                 else if \<not> allowed then (Inl (refusal p sc), d')
                 else handler rq d')"

definition body_json :: "(string \<Rightarrow> json option) \<Rightarrow> string \<Rightarrow> json option" where
  "body_json from_slice bytes = (if bytes = [] then None else from_slice bytes)"

definition enforce ::
  "(string \<Rightarrow> json option) \<Rightarrow> env \<Rightarrow> draws \<Rightarrow> ('r, 'x platform_db_scheme) handler \<Rightarrow> http_request \<Rightarrow>
   'x platform_db_scheme \<Rightarrow> (api_error + 'r) \<times> 'x platform_db_scheme"
where
  "enforce from_slice env dr handler rq d =
     (case rq_body rq of None \<Rightarrow> (Inl (InvalidRequest ''request_body_too_large_or_invalid''), d)
      | Some bytes \<Rightarrow>
     if length bytes > max_body_bytes then (Inl (InvalidRequest ''request_body_too_large_or_invalid''), d)
     else case classify_request env (rq_method rq) (rq_path rq) (body_json from_slice bytes) d of
       Inl e \<Rightarrow> (Inl e, d)
     | Inr Public \<Rightarrow> handler rq d
     | Inr (TokenOnly gate) \<Rightarrow>
         (case enforce_token env (rq_headers rq) gate of Inl e \<Rightarrow> (Inl e, d) | Inr _ \<Rightarrow> handler rq d)
     | Inr (Deny tr) \<Rightarrow>
         (case require_transport env (rq_headers rq) tr of Inl e \<Rightarrow> (Inl e, d) | Inr _ \<Rightarrow> (Inl Forbidden, d))
     | Inr (Protected plan) \<Rightarrow> enforce_protected env dr handler plan rq d)"

end
