(* ===== verification/Platform_Demo.thy ===== *)
theory Platform_Demo
  imports Platform_Data Payout_Demo
begin

text \<open>
  A small platform on which the theorems about access control, identity, the Stellar gateway and fulfilment are
  instantiated: one organization \<open>o\<close> with an owner, a viewer, a buyer and an order, and an account without any role.
\<close>

definition desk_user :: "uuid \<Rightarrow> user_row" where
  "desk_user i = \<lparr>us_id = i, us_status = ''active'', us_display_name = ''n'', us_email = None, us_created_at = 0, us_updated_at = 0\<rparr>"

definition desk_member :: "uuid \<Rightarrow> string \<Rightarrow> organization_member_row" where
  "desk_member i role = \<lparr>om_organization_id = ''o'', om_user_id = i, om_role = role, om_status = ''active'',
     om_invited_by_user_id = None, om_created_at = 0, om_updated_at = 0\<rparr>"

definition desk_organization :: organization_row where
  "desk_organization = \<lparr>og_id = ''o'', og_name = ''O'', og_slug = ''o'', og_status = ''active'', og_created_by_user_id = ''m'',
     og_created_at = 0, og_updated_at = 0\<rparr>"

definition desk_order :: "string \<Rightarrow> OrderRecord" where
  "desk_order st = \<lparr>or_id = ''a'', or_organization_id = ''o'', or_buyer_user_id = ''u'', or_status = st,
     or_environment = ''testnet'', or_idempotency_key = ''k'', or_request_sha256 = flat_hash,
     or_amount_minor = 1000, or_asset_code = ''XLM'', or_asset_scale = 7, or_asset_issuer = None,
     or_expires_at = None, or_created_at = 1, or_updated_at = 1\<rparr>"

lemma desk_sel [simp]:
  "us_id (desk_user i) = i" "us_status (desk_user i) = ''active''"
  "om_organization_id (desk_member i role) = ''o''" "om_user_id (desk_member i role) = i"
  "om_role (desk_member i role) = role" "om_status (desk_member i role) = ''active''"
  "og_id desk_organization = ''o''" "og_status desk_organization = ''active''"
  "or_id (desk_order st) = ''a''" "or_organization_id (desk_order st) = ''o''" "or_buyer_user_id (desk_order st) = ''u''"
  "or_status (desk_order st) = st" "or_environment (desk_order st) = ''testnet''"
  "or_amount_minor (desk_order st) = 1000" "or_asset_code (desk_order st) = ''XLM''"
  "or_asset_scale (desk_order st) = 7" "or_asset_issuer (desk_order st) = None" "or_expires_at (desk_order st) = None"
  by (simp_all add: desk_user_def desk_member_def desk_organization_def desk_order_def)

definition desk_settings :: SiteSettingsRecord where
  "desk_settings = \<lparr>sit_site_name = ''CrownFi'', sit_stellar_network = ''testnet'', sit_mainnet_enabled = False,
     sit_default_pageant_id = None, sit_pageant_selector_enabled = False, sit_setup_completed_at = None,
     sit_setup_completed_by_user_id = None, sit_updated_at = 0\<rparr>"

definition desk0 :: platform_db where
  "desk0 = \<lparr>users = map desk_user [''m'', ''v'', ''u'', ''w''], stellar_accounts = [], organizations = [desk_organization],
     site_administrators = [], organization_members = [desk_member ''m'' ''owner'', desk_member ''v'' ''viewer''],
     pageants = [], categories = [], contestants = [], pageant_contestants = [], category_memberships = [],
     contestant_media = [], media_assets = [], contract_deployments = [], audit_logs = [],
     products = [], product_prices = [], product_inventory = [], orders = [desk_order ''awaiting_payment''],
     order_items = [], payment_attempts = [], payment_provider_events = [], refunds = [],
     transaction_intents = [], stellar_reconciliation_results = [],
     payout_rules = [], payout_batches = [], payout_transfers = [], payout_transfer_evidence = [],
     stellar_transactions = [], stellar_chain_cursors = [], stellar_chain_evidence = [], product_media = [],
     collectible_collections = [], collectible_editions = [], fulfillment_jobs = [], collectible_mints = [],
     collectible_mint_evidence = [], ownership_projections = [], site_settings = desk_settings,
     integration_settings = [], wallet_auth_challenges = [], contestant_sections = [], tenant_markets = [demo_market ''open'' None],
     tenant_stake_intents = [], authorization_decisions = []\<rparr>"

lemma desk0_sel [simp]:
  "users desk0 = map desk_user [''m'', ''v'', ''u'', ''w'']" "organizations desk0 = [desk_organization]"
  "site_administrators desk0 = []" "organization_members desk0 = [desk_member ''m'' ''owner'', desk_member ''v'' ''viewer'']"
  "orders desk0 = [desk_order ''awaiting_payment'']" "tenant_markets desk0 = [demo_market ''open'' None]"
  "authorization_decisions desk0 = []"
  by (simp_all add: desk0_def)

lemma demo_market_sel [simp]: "mk_id (demo_market st w) = ''m1''" "mk_organization_id (demo_market st w) = ''o''"
  by (simp_all add: demo_market_def)

lemma flat_env_sel [simp]:
  "web_internal_token flat_env = ''w''" "admin_demo_token flat_env = ''demo''" "database_configured flat_env"
  "parse_uuid flat_env = Some" "sha256_hex flat_env s = flat_hash" "api_mode flat_env = ''testnet''"
  by (simp_all add: flat_env_def)

lemma desk_draws_sel [simp]: "new_uuid (dq p) n = p @ replicate n (CHR ''x'')" "now_utc (dq p) n = 5" "sql_now (dq p) = 5"
  by (simp_all add: dq_def)

end
