(* ===== verification/Authorization_Props.thy ===== *)
theory Authorization_Props
  imports Authorization Platform_Demo
begin

text \<open>
  What access control guarantees: the abstract rule of who may use a capability and that \<open>enforce\<close> implements it,
  confinement of roles to their organization, the log of decisions, and two defects of the classification.
\<close>

section \<open>Segments of a path\<close>

lemma split_on_no_sep: "sep \<notin> set w \<Longrightarrow> split_on sep w = [w]"
  by (induction w) auto

lemma split_on_sep: "sep \<notin> set w \<Longrightarrow> split_on sep (w @ sep # s) = w # split_on sep s"
  by (induction w) auto

lemma split_on_nonempty [simp]: "split_on sep s \<noteq> []"
  by (induction s) (auto split: list.splits)

lemma split_on_snoc: "split_on sep (s @ [sep]) = split_on sep s @ [[]]"
  by (induction s) (auto split: list.splits)

abbreviation nonempty_parts :: "string \<Rightarrow> string list" where
  "nonempty_parts s \<equiv> filter (\<lambda>segment. segment \<noteq> []) (split_on CHR ''/'' s)"

lemma parts_drop_leading: "nonempty_parts (dropWhile (\<lambda>c. c = CHR ''/'') s) = nonempty_parts s"
  by (induction s) auto

lemma parts_drop_trailing: "nonempty_parts (rev (dropWhile (\<lambda>c. c = CHR ''/'') (rev s))) = nonempty_parts s"
proof (induction s rule: rev_induct)
  case (snoc c s)
  then show ?case by (cases "c = CHR ''/''") (simp_all add: split_on_snoc)
qed simp

lemma split_path_parts: "split_path s = nonempty_parts s"
  by (simp only: split_path_def trim_slashes_def parts_drop_trailing parts_drop_leading)

lemma split_path_first:
  assumes "CHR ''/'' \<notin> set w" "w \<noteq> []"
  shows "split_path (CHR ''/'' # w) = [w]" "split_path (CHR ''/'' # w @ CHR ''/'' # s) = w # split_path s"
  using assms by (simp_all add: split_path_parts split_on_no_sep split_on_sep)

text \<open>Public routes start with one of a few names, so nothing below \<open>/internal\<close> or \<open>/admin\<close> is public.\<close>

lemma prefix_first_segment:
  assumes "prefix (CHR ''/'' # w @ ''/'') path" "CHR ''/'' \<notin> set w" "w \<noteq> []"
  shows "hd (split_path path) = w"
proof -
  from assms(1) obtain s where "path = CHR ''/'' # w @ CHR ''/'' # s" by (auto simp: prefix_def)
  then show ?thesis using split_path_first(2) [OF assms(2,3)] by simp
qed

lemma public_first_segment:
  assumes "is_public_request m path"
  shows "List.member [''health'', ''ready'', ''setup'', ''events'', ''snapshots'', ''markets'', ''platform''] (hd (split_path path))"
proof -
  have exact: "hd (split_path ''/health'') = ''health''" "hd (split_path ''/ready'') = ''ready''"
    "hd (split_path ''/setup/status'') = ''setup''" "hd (split_path ''/events'') = ''events''"
    "hd (split_path ''/markets'') = ''markets''" "hd (split_path ''/platform/organizations'') = ''platform''"
    by (simp_all add: split_path_parts)
  have below: "prefix ''/events/'' path \<Longrightarrow> hd (split_path path) = ''events''"
    "prefix ''/snapshots/'' path \<Longrightarrow> hd (split_path path) = ''snapshots''"
    "prefix ''/markets/'' path \<Longrightarrow> hd (split_path path) = ''markets''"
    "prefix ''/platform/'' path \<Longrightarrow> hd (split_path path) = ''platform''"
    by (rule prefix_first_segment; simp)+
  from assms have "path \<in> {''/health'', ''/ready'', ''/setup/status'', ''/events'', ''/markets'', ''/platform/organizations''}
     \<or> prefix ''/events/'' path \<or> prefix ''/snapshots/'' path \<or> prefix ''/markets/'' path \<or> prefix ''/platform/'' path"
    unfolding is_public_request_def by auto
  then show ?thesis
  proof (elim disjE)
    assume "path \<in> {''/health'', ''/ready'', ''/setup/status'', ''/events'', ''/markets'', ''/platform/organizations''}"
    then show ?thesis using exact by (elim insertE) simp_all
  qed (simp_all add: below)
qed

lemma private_not_public:
  "split_path path = seg # rest \<Longrightarrow> seg = ''internal'' \<or> seg = ''admin'' \<Longrightarrow> \<not> is_public_request m path"
  using public_first_segment [of m path] by auto


section \<open>Classes\<close>

text \<open>What the classification of a private route can be: denied, or protected with a capability that reads exactly
  when the method is \<open>GET\<close>.\<close>

definition reads :: "capability \<Rightarrow> bool" where
  "reads cap \<longleftrightarrow> suffix ''.read'' (as_str cap)"

definition private_class :: "string \<Rightarrow> request_class \<Rightarrow> bool" where
  "private_class meth c \<longleftrightarrow> (case c of Deny _ \<Rightarrow> True | Protected plan \<Rightarrow> (reads (pl_capability plan) \<longleftrightarrow> meth = ''GET'') | _ \<Rightarrow> False)"

lemma reads_simps [simp]:
  "reads AccountRead" "reads ManageOverview" "reads SiteSettingsRead" "reads OrganizationMembersRead" "reads OrderRead"
  "reads IntentRead" "reads ContractRead" "reads ReconciliationRead" "reads FulfillmentRead" "reads PayoutRead"
  "reads MarketIntentRead"
  "\<not> reads SiteSettingsWrite" "\<not> reads OrganizationMembersManage" "\<not> reads PageantWrite" "\<not> reads CatalogueWrite"
  "\<not> reads MediaWrite" "\<not> reads OrderManage" "\<not> reads ProviderEventWrite" "\<not> reads IntentWrite"
  "\<not> reads ContractWrite" "\<not> reads ChainEvidenceWrite" "\<not> reads FulfillmentCreate" "\<not> reads FulfillmentOperate"
  "\<not> reads PayoutManage" "\<not> reads SnapshotWrite" "\<not> reads MarketCreate" "\<not> reads MarketSubmitReview"
  "\<not> reads MarketGovern" "\<not> reads MarketPolicyManage" "\<not> reads MarketStake" "\<not> reads MarketIntentWrite"
  by (simp_all add: reads_def suffix_def)

lemma private_class_simps [simp]:
  "private_class meth (Deny tr)"
  "private_class meth (protected_web cap sc ex) \<longleftrightarrow> (reads cap \<longleftrightarrow> meth = ''GET'')"
  "private_class meth (protected_admin cap scope) \<longleftrightarrow> (reads cap \<longleftrightarrow> meth = ''GET'')"
  by (simp_all add: private_class_def protected_web_def protected_admin_def)

text \<open>The same for a classification that may fail, which passes through every step of it.\<close>

definition private_result :: "string \<Rightarrow> api_error + request_class \<Rightarrow> bool" where
  "private_result meth r \<longleftrightarrow> (case r of Inl _ \<Rightarrow> True | Inr c \<Rightarrow> private_class meth c)"

lemma private_result_simps [simp]:
  "private_result meth (Inl e)" "private_result meth (Inr c) \<longleftrightarrow> private_class meth c"
  by (simp_all add: private_result_def)

lemma private_bind: "(\<And>x. m = Inr x \<Longrightarrow> private_result meth (f x)) \<Longrightarrow> private_result meth (bind_result m f)"
  by (cases m) simp_all

lemma private_if: "(b \<Longrightarrow> private_result meth r) \<Longrightarrow> (\<not> b \<Longrightarrow> private_result meth r') \<Longrightarrow> private_result meth (if b then r else r')"
  by simp

lemma private_option:
  "private_result meth r \<Longrightarrow> (\<And>x. v = Some x \<Longrightarrow> private_result meth (f x)) \<Longrightarrow>
   private_result meth (case v of None \<Rightarrow> r | Some x \<Rightarrow> f x)"
  by (cases v) simp_all

lemma private_pair: "(\<And>x y. p = (x, y) \<Longrightarrow> private_result meth (f x y)) \<Longrightarrow> private_result meth (case p of (x, y) \<Rightarrow> f x y)"
  by (cases p) simp

lemma private_admin_or_deny:
  "(\<And>x. cap = Some x \<Longrightarrow> reads x \<longleftrightarrow> meth = ''GET'') \<Longrightarrow> private_result meth (admin_or_deny cap sc)"
  by (cases cap) (simp_all add: admin_or_deny_def)

lemmas private_intros = private_bind private_if private_option private_pair private_admin_or_deny

lemma capability_reads:
  "market_capability meth part body = Some cap \<Longrightarrow> reads cap \<longleftrightarrow> meth = ''GET''"
  "organization_capability meth part = Some cap \<Longrightarrow> reads cap \<longleftrightarrow> meth = ''GET''"
  "order_capability meth segments = Some cap \<Longrightarrow> reads cap \<longleftrightarrow> meth = ''GET''"
  "intent_capability meth segments = Some cap \<Longrightarrow> reads cap \<longleftrightarrow> meth = ''GET''"
  "job_capability meth segments = Some cap \<Longrightarrow> reads cap \<longleftrightarrow> meth = ''GET''"
  by (auto simp: market_capability_def organization_capability_def order_capability_def intent_capability_def
      job_capability_def split: if_splits)

text \<open>A classification by several tables: \<open>None\<close> passes on to the next one.\<close>

definition private_choice :: "string \<Rightarrow> (api_error + request_class) option \<Rightarrow> bool" where
  "private_choice meth v \<longleftrightarrow> (case v of None \<Rightarrow> True | Some r \<Rightarrow> private_result meth r)"

lemma private_choice_simps [simp]:
  "private_choice meth None" "private_choice meth (Some r) \<longleftrightarrow> private_result meth r"
  by (simp_all add: private_choice_def)

lemma private_choice_if:
  "(b \<Longrightarrow> private_choice meth r) \<Longrightarrow> (\<not> b \<Longrightarrow> private_choice meth r') \<Longrightarrow> private_choice meth (if b then r else r')"
  by simp

lemma classify_manage_private: "private_choice meth (classify_manage env meth segments body d)"
  unfolding classify_manage_def by (intro private_choice_if; (simp only: private_choice_simps)?; (intro private_intros)?; (simp only: private_result_simps private_class_simps)?; auto)

lemma classify_market_private: "private_result meth (classify_internal_market env meth segments body d)"
  unfolding classify_internal_market_def Let_def
  by (intro private_intros) (simp_all add: capability_reads)

lemma classify_internal_private: "private_result meth (classify_internal env meth segments body d)"
proof -
  have "private_result meth m" if "classify_manage env meth segments body d = Some m" for m
    using classify_manage_private [of meth env segments body d] that by simp
  then show ?thesis unfolding classify_internal_def
    by (intro private_intros) (simp_all add: classify_market_private)
qed

lemma classify_catalogue_private: "private_choice meth (classify_admin_catalogue env meth segments d)"
  unfolding classify_admin_catalogue_def
  by (intro private_choice_if; (simp only: private_choice_simps)?; (intro private_intros)?; (auto simp: capability_reads split: if_splits)?)

lemma classify_commerce_private: "private_result meth (classify_admin_commerce env meth segments d)"
  unfolding classify_admin_commerce_def by (intro private_intros) (simp_all add: capability_reads)

lemma classify_admin_private: "private_result meth (classify_admin env meth segments d)"
proof -
  have "private_result meth m" if "classify_admin_catalogue env meth segments d = Some m" for m
    using classify_catalogue_private [of meth env segments d] that by simp
  then show ?thesis unfolding classify_admin_def
    by (intro private_intros) (simp_all add: classify_commerce_private)
qed

text \<open>A request below \<open>/internal\<close> or \<open>/admin\<close> is never public.\<close>

lemma classify_private_path:
  assumes "split_path path = seg # rest" "seg = ''internal'' \<or> seg = ''admin''"
    and "classify_request env meth path body d = Inr c"
  shows "(\<exists>gate. classify_token_only env meth (seg # rest) body = Some gate \<and> c = TokenOnly gate) \<or> private_class meth c"
  using assms private_not_public [OF assms(1,2)] classify_internal_private [of meth env "seg # rest" body d]
    classify_admin_private [of meth env "seg # rest" d]
  by (auto simp: classify_request_def Let_def split: option.splits)


section \<open>Who may use a capability\<close>

text \<open>The rule, stated on the tables: an active account that owns the resource, is a site administrator or a member of
  the organization of the resource with a role that has the capability, or that stakes.\<close>

definition owner_may :: "capability \<Rightarrow> bool" where
  "owner_may cap \<longleftrightarrow>
     List.member [AccountRead, ManageOverview, OrderRead, IntentRead, MarketIntentRead, MarketIntentWrite] cap"

definition active_user :: "uuid \<Rightarrow> 'x core_db_scheme \<Rightarrow> bool" where
  "active_user actor d \<longleftrightarrow> list_ex (\<lambda>u. us_id u = actor \<and> us_status u = ''active'') (users d)"

definition site_grant :: "uuid \<Rightarrow> capability \<Rightarrow> 'x core_db_scheme \<Rightarrow> bool" where
  "site_grant actor cap d \<longleftrightarrow>
     list_ex (\<lambda>a. ad_user_id a = actor \<and> ad_status a = ''active'' \<and> site_role_allows (ad_role a) cap) (site_administrators d)"

definition organization_grant :: "uuid \<Rightarrow> uuid \<Rightarrow> capability \<Rightarrow> 'x core_db_scheme \<Rightarrow> bool" where
  "organization_grant actor org cap d \<longleftrightarrow>
     list_ex (\<lambda>m. om_organization_id m = org \<and> om_user_id m = actor \<and> om_status m = ''active'' \<and>
       organization_role_allows (om_role m) cap) (organization_members d)"

definition granted :: "uuid \<Rightarrow> capability \<Rightarrow> scope \<Rightarrow> 'x core_db_scheme \<Rightarrow> bool" where
  "granted actor cap sc d \<longleftrightarrow> active_user actor d \<and>
     ((owner_may cap \<and> sc_owner_user_id sc = Some actor) \<or> cap = MarketStake \<or> site_grant actor cap d \<or>
      (case sc_organization_id sc of None \<Rightarrow> False | Some org \<Rightarrow> organization_grant actor org cap d))"

text \<open>The primary keys of the three tables.\<close>

definition principal_keys :: "'x core_db_scheme \<Rightarrow> bool" where
  "principal_keys d \<longleftrightarrow> distinct (map us_id (users d)) \<and> distinct (map ad_user_id (site_administrators d)) \<and>
     distinct (map (\<lambda>m. (om_organization_id m, om_user_id m)) (organization_members d))"

lemma find_role_granted:
  "(case map_option role (find p rows) of None \<Rightarrow> False | Some r \<Rightarrow> ok r) \<Longrightarrow> list_ex (\<lambda>x. p x \<and> ok (role x)) rows"
  by (auto simp: list_ex_iff dest: find_Some_in split: option.splits)

lemma find_role_unique:
  assumes "distinct (map key rows)" "\<And>x y. p x \<Longrightarrow> p y \<Longrightarrow> key x = key y" "list_ex (\<lambda>x. p x \<and> ok (role x)) rows"
  shows "case map_option role (find p rows) of None \<Rightarrow> False | Some r \<Rightarrow> ok r"
proof -
  from assms(3) obtain x where x: "x \<in> set rows" "p x" "ok (role x)" by (auto simp: list_ex_iff)
  then obtain y where y: "find p rows = Some y" by (cases "find p rows") (auto simp: find_None_iff)
  with find_Some_in [OF y] x assms(1,2) have "y = x" by (auto simp: distinct_map dest: inj_onD)
  with x y show ?thesis by simp
qed

lemma authorized_granted:
  assumes "fst (authorize_principal actor (load_principal actor (sc_organization_id sc) d) cap sc)"
  shows "granted actor cap sc d"
proof -
  let ?p = "load_principal actor (sc_organization_id sc) d"
  from assms have active: "pr_user_active ?p" by (auto simp: authorize_principal_def split: if_splits)
  then have "active_user actor d"
    by (auto simp: load_principal_def active_user_def list_ex_iff split: option.splits dest: find_Some_in)
  moreover from assms active consider "owner_may cap" "sc_owner_user_id sc = Some actor" | "cap = MarketStake"
    | "role_allows site_role_allows (pr_site_role ?p) cap"
    | "role_allows organization_role_allows (pr_organization_role ?p) cap"
    by (auto simp: authorize_principal_def owner_may_def Let_def split: if_splits)
  then have "(owner_may cap \<and> sc_owner_user_id sc = Some actor) \<or> cap = MarketStake \<or> site_grant actor cap d \<or>
      (case sc_organization_id sc of None \<Rightarrow> False | Some org \<Rightarrow> organization_grant actor org cap d)"
  proof cases
    case 3
    then have "site_grant actor cap d"
      using find_role_granted [where role = ad_role and rows = "site_administrators d" and ok = "\<lambda>r. site_role_allows r cap"]
      by (fastforce simp: role_allows_def load_principal_def site_grant_def list_ex_iff)
    then show ?thesis by simp
  next
    case 4
    then show ?thesis
      using find_role_granted [where role = om_role and rows = "organization_members d" and ok = "\<lambda>r. organization_role_allows r cap"]
      by (fastforce simp: role_allows_def load_principal_def organization_grant_def list_ex_iff split: option.splits)
  qed simp_all
  ultimately show ?thesis by (simp add: granted_def)
qed

lemma granted_authorized:
  assumes "principal_keys d" "granted actor cap sc d"
  shows "fst (authorize_principal actor (load_principal actor (sc_organization_id sc) d) cap sc)"
proof -
  let ?p = "load_principal actor (sc_organization_id sc) d"
  have "case map_option us_status (find (\<lambda>u. us_id u = actor) (users d)) of None \<Rightarrow> False | Some st \<Rightarrow> st = ''active''"
    using assms by (intro find_role_unique [where key = us_id])
      (auto simp: principal_keys_def granted_def active_user_def)
  then have active: "pr_user_active ?p" by (auto simp: load_principal_def split: option.splits)
  have site: "role_allows site_role_allows (pr_site_role ?p) cap" if "site_grant actor cap d"
    unfolding role_allows_def load_principal_def principal.simps
    using assms(1) that by (intro find_role_unique [where key = ad_user_id])
      (auto simp: principal_keys_def site_grant_def)
  have org: "role_allows organization_role_allows (pr_organization_role ?p) cap"
    if "sc_organization_id sc = Some g" "organization_grant actor g cap d" for g
    unfolding role_allows_def load_principal_def principal.simps that(1) option.simps
    using assms(1) that(2) by (intro find_role_unique [where key = "\<lambda>m. (om_organization_id m, om_user_id m)"])
      (auto simp: principal_keys_def organization_grant_def)
  from assms(2) active site org show ?thesis
    by (auto simp: granted_def authorize_principal_def owner_may_def Let_def split: option.splits)
qed


section \<open>Admission\<close>

text \<open>Access control by itself, with a handler that answers nothing and changes nothing. Every other handler runs
  exactly on the admitted requests, in the state that admission leaves.\<close>

abbreviation admission ::
  "(string \<Rightarrow> json option) \<Rightarrow> env \<Rightarrow> draws \<Rightarrow> http_request \<Rightarrow> 'x platform_db_scheme \<Rightarrow>
   (api_error + unit) \<times> 'x platform_db_scheme"
where
  "admission from_slice env dr rq d \<equiv> enforce from_slice env dr (\<lambda>_ s. (Inr (), s)) rq d"

lemma enforce_protected_admission:
  "enforce_protected env dr handler plan rq d =
     (case enforce_protected env dr (\<lambda>_ s. (Inr (), s)) plan rq d of
        (Inl e, d') \<Rightarrow> (Inl e, d')
      | (Inr _, d') \<Rightarrow> handler rq d')"
  by (auto simp: enforce_protected_def Let_def split: sum.splits prod.splits)

lemma enforce_admission:
  "enforce from_slice env dr handler rq d =
     (case admission from_slice env dr rq d of
        (Inl e, d') \<Rightarrow> (Inl e, d')
      | (Inr _, d') \<Rightarrow> handler rq d')"
proof (cases "rq_body rq")
  case (Some bytes)
  show ?thesis
  proof (cases "classify_request env (rq_method rq) (rq_path rq) (body_json from_slice bytes) d")
    case (Inr c)
    with Some show ?thesis
    proof (cases c)
      case (Protected plan)
      with Some Inr show ?thesis
        using enforce_protected_admission [of env dr handler plan rq d] by (simp add: enforce_def)
    qed (simp_all add: enforce_def split: sum.split)
  qed (simp add: enforce_def Some)
qed (simp add: enforce_def)










section \<open>Admission and grants\<close>

lemma protected_admitted:
  assumes "enforce_protected env dr (\<lambda>_ s. (Inr (), s)) plan rq d = (Inr u, d')"
  shows "\<exists>actor sc. require_transport env (rq_headers rq) (pl_transport plan) = Inr () \<and>
     actor_from_headers env (rq_headers rq) = Some actor \<and>
     (pl_expected_actor_user_id plan = None \<or> pl_expected_actor_user_id plan = Some actor) \<and>
     resolve_scope (pl_scope plan) actor d = Inr sc \<and>
     fst (authorize_principal actor (load_principal actor (sc_organization_id sc) d) (pl_capability plan) sc)"
  using assms
  by (auto simp: enforce_protected_def Let_def bind_result_Inr ok_or_Inr
      split: sum.splits if_splits prod.splits)

lemma protected_admission_iff:
  assumes "require_transport env (rq_headers rq) (pl_transport plan) = Inr ()" "database_configured env"
    and "actor_from_headers env (rq_headers rq) = Some actor"
    and "pl_expected_actor_user_id plan = None \<or> pl_expected_actor_user_id plan = Some actor"
    and "resolve_scope (pl_scope plan) actor d = Inr sc"
  shows "fst (enforce_protected env dr (\<lambda>_ s. (Inr (), s)) plan rq d) = Inr () \<longleftrightarrow>
     fst (authorize_principal actor (load_principal actor (sc_organization_id sc) d) (pl_capability plan) sc)"
proof -
  have inactive: "authorize_principal actor p cap sc = (False, ''principal_inactive_or_missing'')"
    if "\<not> pr_user_active p" for p cap
    using that by (simp add: authorize_principal_def)
  from assms show ?thesis
    by (auto simp: enforce_protected_def Let_def database_pool_def guard_def inactive split: prod.splits)
qed


lemma admission_protected:
  assumes "rq_body rq = Some bytes"
    and "classify_request env (rq_method rq) (rq_path rq) (body_json from_slice bytes) d = Inr (Protected plan)"
    and "fst (admission from_slice env dr rq d) = Inr ()"
  obtains actor sc where "require_transport env (rq_headers rq) (pl_transport plan) = Inr ()"
    "actor_from_headers env (rq_headers rq) = Some actor"
    "pl_expected_actor_user_id plan = None \<or> pl_expected_actor_user_id plan = Some actor"
    "resolve_scope (pl_scope plan) actor d = Inr sc" "granted actor (pl_capability plan) sc d"
proof -
  from assms have "enforce_protected env dr (\<lambda>_ s. (Inr (), s)) plan rq d
      = (Inr (), snd (enforce_protected env dr (\<lambda>_ s. (Inr (), s)) plan rq d))"
    by (simp add: enforce_def prod_eq_iff split: if_splits)
  from protected_admitted [OF this] authorized_granted that show thesis by blast
qed

lemma answered_admitted:
  "fst (enforce from_slice env dr handler rq d) = Inr r \<Longrightarrow> fst (admission from_slice env dr rq d) = Inr ()"
  using enforce_admission [of from_slice env dr handler rq d]
  by (auto split: prod.splits sum.splits)



text \<open>C23: Roles do not reach beyond their tenant: two states that differ only in the memberships, and in those not of
  the actor in the organization of the resource, admit the same protected requests, with the same answer.\<close>

theorem roles_confined_to_tenant:
  assumes "rq_body rq = Some bytes"
    and "classify_request env (rq_method rq) (rq_path rq) (body_json from_slice bytes) d = Inr (Protected plan)"
    and "pl_scope plan = Resolved sc" "actor_from_headers env (rq_headers rq) = Some actor"
    and "filter (\<lambda>m. om_user_id m = actor \<and> sc_organization_id sc = Some (om_organization_id m)) members =
         filter (\<lambda>m. om_user_id m = actor \<and> sc_organization_id sc = Some (om_organization_id m)) (organization_members d)"
  shows "fst (enforce from_slice env dr (\<lambda>_ s. (Inr (), s)) rq (d\<lparr>organization_members := members\<rparr>)) =
     fst (enforce from_slice env dr (\<lambda>_ s. (Inr (), s)) rq d)"
proof -
  let ?d = "d\<lparr>organization_members := members\<rparr>"
  have same: "classify_request env m p b ?d = classify_request env m p b d" for m p b
    by (simp add: classify_request_def classify_internal_def classify_manage_def classify_internal_market_def
        classify_admin_def classify_admin_catalogue_def classify_admin_commerce_def organization_for_pageant_def
        organization_for_pageant_contestant_def organization_for_media_def organization_for_collection_def
        organization_for_product_def organization_for_market_def scope_for_order_def scope_for_payment_attempt_def
        scope_for_intent_def scope_for_market_intent_def scope_for_fulfillment_job_def scope_for_payout_batch_def
        order_scope_def cong: option.case_cong if_cong)
  have find_filter: "find (\<lambda>m. p m \<and> q m) xs = find q (filter p xs)" for p q and xs :: "organization_member_row list"
    by (induction xs) auto
  have "find (\<lambda>m. om_organization_id m = g \<and> om_user_id m = actor \<and> om_status m = ''active'') members =
      find (\<lambda>m. om_organization_id m = g \<and> om_user_id m = actor \<and> om_status m = ''active'') (organization_members d)"
    if "sc_organization_id sc = Some g" for g
  proof -
    have "(\<lambda>m. om_organization_id m = g \<and> om_user_id m = actor \<and> om_status m = ''active'') =
        (\<lambda>m :: organization_member_row. (om_user_id m = actor \<and> sc_organization_id sc = Some (om_organization_id m)) \<and>
           om_status m = ''active'')"
      using that by auto
    then show ?thesis by (simp only: find_filter assms(5))
  qed
  then have "load_principal actor (sc_organization_id sc) ?d = load_principal actor (sc_organization_id sc) d"
    by (auto simp: load_principal_def split: option.splits)
  moreover obtain allowed reason where
    "authorize_principal actor (load_principal actor (sc_organization_id sc) d) (pl_capability plan) sc = (allowed, reason)"
    by fastforce
  ultimately have "fst (enforce_protected env dr (\<lambda>_ s. (Inr (), s)) plan rq ?d) =
      fst (enforce_protected env dr (\<lambda>_ s. (Inr (), s)) plan rq d)"
    using assms(3,4)
    by (cases "require_transport env (rq_headers rq) (pl_transport plan)"; cases "database_pool env")
      (simp_all add: enforce_protected_def resolve_scope_def Let_def)
  with assms(1,2) show ?thesis by (simp add: enforce_def same)
qed


section \<open>Auditors and viewers only read\<close>

lemma auditor_reads:
  "site_role_allows ''auditor'' cap \<Longrightarrow> reads cap"
  "organization_role_allows ''auditor'' cap \<Longrightarrow> reads cap"
  "organization_role_allows ''viewer'' cap \<Longrightarrow> reads cap"
  by (cases cap;
      simp add: site_role_allows_def site_role_grants_def organization_role_allows_def organization_role_grants_def)+

text \<open>An account whose site role is auditor and whose memberships are those of auditors and viewers changes nothing
  through a protected route, whatever it sends: the only requests other than \<open>GET\<close> that are admitted for it are to
  stake on a market and to report the submission of its own stake, which need no role.\<close>

theorem auditors_only_read:
  assumes path: "split_path (rq_path rq) = seg # rest" "seg = ''internal'' \<or> seg = ''admin''"
    and body: "rq_body rq = Some bytes"
    and plan: "classify_request env (rq_method rq) (rq_path rq) (body_json from_slice bytes) d = Inr (Protected plan)"
    and answered: "fst (enforce from_slice env dr handler rq d) = Inr r"
    and actor: "actor_from_headers env (rq_headers rq) = Some actor"
    and roles: "\<forall>a \<in> set (site_administrators d). ad_user_id a = actor \<longrightarrow> ad_role a = ''auditor''"
      "\<forall>m \<in> set (organization_members d). om_user_id m = actor \<longrightarrow> List.member [''auditor'', ''viewer''] (om_role m)"
    and "rq_method rq \<noteq> ''GET''"
  shows "pl_capability plan = MarketStake \<or> pl_capability plan = MarketIntentWrite"
proof -
  from admission_protected [OF body plan answered_admitted [OF answered]] actor
  obtain sc where g: "granted actor (pl_capability plan) sc d" by (metis option.inject)
  have "classify_token_only env (rq_method rq) (seg # rest) b = Some gate \<Longrightarrow> Protected plan \<noteq> TokenOnly gate" for b gate
    by simp
  with classify_private_path [OF path plan] have "private_class (rq_method rq) (Protected plan)" by blast
  with assms(9) have "\<not> reads (pl_capability plan)" by (simp add: private_class_def)
  moreover from this roles auditor_reads have "\<not> site_grant actor (pl_capability plan) d"
    "\<not> organization_grant actor org (pl_capability plan) d" for org
    by (auto simp: site_grant_def organization_grant_def list_ex_iff)
  ultimately show ?thesis using g by (auto simp: granted_def owner_may_def split: option.splits)
qed

section \<open>Defects of the classification\<close>

text \<open>The routes of \<open>ticket_transfers.rs\<close> and \<open>voting_anchor.rs\<close> below \<open>/internal\<close>, before and after their parameter.\<close>

definition stranded_routes :: "(string \<times> string) list" where
  "stranded_routes =
     [(''/internal/ticketing/issuances/'', ''/transfers''), (''/internal/ticketing/transfers/'', ''/review''),
      (''/internal/ticket-operations/transfers/'', ''/submission''),
      (''/internal/ticket-operations/transfers/'', ''/evidence''),
      (''/internal/voting/snapshots/'', ''/anchor-intents''),
      (''/internal/voting-anchor/intents/'', ''/submission''), (''/internal/voting-anchor/intents/'', ''/evidence'')]"

lemma stranded_denied:
  assumes "length segments = 5" "segments ! 0 = ''internal''"
    "List.member [''ticketing'', ''ticket-operations'', ''voting'', ''voting-anchor''] (segments ! 1)" "segments ! 2 \<noteq> ''organizations''"
  shows "classify_internal env meth segments body d = bind_result (database_pool env) (\<lambda>_. Inr (Deny WebInternal))"
    "classify_token_only env meth segments body = None"
proof -
  from assms(1) obtain a b c x y where s: "segments = [a, b, c, x, y]"
    by (auto simp: eval_nat_numeral length_Suc_conv)
  show "classify_internal env meth segments body d = bind_result (database_pool env) (\<lambda>_. Inr (Deny WebInternal))"
    using assms by (auto simp: s classify_internal_def classify_manage_def classify_internal_market_def)
  show "classify_token_only env meth segments body = None"
    using assms by (auto simp: s classify_token_only_def Let_def)
qed

text \<open>C27: The handlers of ticket transfers and of vote anchoring below \<open>/internal\<close> can never be reached: the
  classification does not know their paths, so a request with the right token and any actor is answered 403 before
  its handler runs, and the state does not change.\<close>

theorem transfer_and_anchor_routes_denied:
  assumes route: "(before, after) \<in> set stranded_routes" "rq_path rq = before @ i @ after" "CHR ''/'' \<notin> set i" "i \<noteq> []"
    and post: "rq_method rq = ''POST''"
    and body: "rq_body rq = Some bytes" "length bytes \<le> max_body_bytes"
    and config: "database_configured env" "header_matches (rq_headers rq) web_token_header (web_internal_token env)"
  shows "enforce from_slice env dr handler rq d = (Inl Forbidden, d)"
proof -
  from route(1) route(3,4) have "\<exists>b c y. split_path (before @ i @ after) = [''internal'', b, c, i, y] \<and>
      List.member [''ticketing'', ''ticket-operations'', ''voting'', ''voting-anchor''] b \<and> c \<noteq> ''organizations''"
    unfolding stranded_routes_def
    by (elim set_ConsD [THEN disjE] insertE emptyE; simp add: split_path_parts split_on_sep split_on_no_sep)
  then obtain b c y where s: "split_path (rq_path rq) = [''internal'', b, c, i, y]"
    and bc: "List.member [''ticketing'', ''ticket-operations'', ''voting'', ''voting-anchor''] b" "c \<noteq> ''organizations''"
    using route(2) by auto
  have "\<not> is_public_request m (rq_path rq)" for m using private_not_public [OF s] by simp
  then have "classify_request env m (rq_path rq) j d = Inr (Deny WebInternal)" for m j
    using stranded_denied(1) [where segments = "[''internal'', b, c, i, y]" and env = env and d = d]
      stranded_denied(2) [where segments = "[''internal'', b, c, i, y]" and env = env] bc config(1)
    by (simp add: classify_request_def s database_pool_def)
  with body config(2) show ?thesis by (simp add: enforce_def require_transport_def)
qed


text \<open>C26: A caller without any token can find out which orders exist: the classification looks the order up before
  the token is checked, so the answer to a \<open>GET\<close> of an order is 401 when it exists and 404 when it does not.\<close>

theorem order_existence_needs_no_token:
  assumes path: "rq_path rq = ''/admin/platform/orders/'' @ i" "CHR ''/'' \<notin> set i" "i \<noteq> []"
    and "rq_method rq = ''GET''" "rq_body rq = Some []" "parse_uuid env i = Some order_id" "database_configured env"
    and "\<not> header_matches (rq_headers rq) admin_token_header (admin_demo_token env)"
  shows "fst (enforce from_slice env dr handler rq d) =
     Inl (if list_ex (\<lambda>ord. or_id ord = order_id) (orders d) then Unauthorized else NotFound)"
proof -
  have s: "split_path (rq_path rq) = [''admin'', ''platform'', ''orders'', i]"
    using path by (simp add: split_path_parts split_on_no_sep)
  have "\<not> is_public_request m (rq_path rq)" for m using private_not_public [OF s] by simp
  then have c: "classify_request env ''GET'' (rq_path rq) None d =
      bind_result (scope_for_order d order_id) (\<lambda>(g, u). Inr (protected_admin OrderRead (scope_owned g u ''order'' order_id)))"
    using assms(6,7)
    by (simp add: classify_request_def s classify_token_only_def Let_def classify_admin_def classify_admin_catalogue_def
        classify_admin_commerce_def database_pool_def path_uuid_def order_capability_def admin_or_deny_def)
  show ?thesis
  proof (cases "find (\<lambda>ord. or_id ord = order_id) (orders d)")
    case None
    with c assms(4,5) show ?thesis
      by (auto simp: enforce_def body_json_def scope_for_order_def find_None_iff list_ex_iff)
  next
    case (Some ord)
    with find_Some_in [OF Some] c assms(4,5,8) show ?thesis
      by (auto simp: enforce_def body_json_def scope_for_order_def list_ex_iff protected_admin_def enforce_protected_def
          require_transport_def)
  qed
qed

section \<open>Concrete requests\<close>

definition order_request :: "string \<Rightarrow> headers \<Rightarrow> http_request" where
  "order_request i hdrs = \<lparr>rq_method = ''GET'', rq_path = ''/admin/platform/orders/'' @ i, rq_headers = hdrs, rq_body = Some []\<rparr>"

lemma order_request_sel [simp]:
  "rq_method (order_request i hdrs) = ''GET''" "rq_path (order_request i hdrs) = ''/admin/platform/orders/'' @ i"
  "rq_headers (order_request i hdrs) = hdrs" "rq_body (order_request i hdrs) = Some []"
  by (simp_all add: order_request_def)

lemma desk_headers [simp]:
  "header_matches Map.empty name token = False"
  "header_matches admin_headers admin_token_header ''demo''" "admin_headers actor_header_name = Some ''m''"
  "header_matches (user_headers u) web_token_header ''w''" "user_headers u actor_header_name = Some u"
  by (simp_all add: header_matches_def admin_headers_def user_headers_def admin_token_header_def web_token_header_def
      actor_header_name_def)

theorem order_existence_needs_no_token_witness:
  "fst (enforce (\<lambda>_. None) flat_env (dq ''r'') (\<lambda>_ s. (Inr (), s)) (order_request ''a'' Map.empty) desk0) = Inl Unauthorized \<and>
   fst (enforce (\<lambda>_. None) flat_env (dq ''r'') (\<lambda>_ s. (Inr (), s)) (order_request ''b'' Map.empty) desk0) = Inl NotFound"
proof -
  have "fst (enforce (\<lambda>_. None) flat_env (dq ''r'') (\<lambda>_ s. (Inr (), s)) (order_request i Map.empty) desk0) =
      Inl (if list_ex (\<lambda>ord. or_id ord = i) (orders desk0) then Unauthorized else NotFound)"
    if "CHR ''/'' \<notin> set i" "i \<noteq> []" for i
    using that by (intro order_existence_needs_no_token) simp_all
  from this [of "''a''"] this [of "''b''"] show ?thesis by simp
qed

lemma owner_order_class:
  "classify_request flat_env ''GET'' ''/admin/platform/orders/a'' b desk0 =
     Inr (protected_admin OrderRead (scope_owned ''o'' ''u'' ''order'' ''a''))"
  by (simp add: classify_request_def is_public_request_def split_path_parts classify_token_only_def Let_def
      classify_admin_def classify_admin_catalogue_def classify_admin_commerce_def database_pool_def path_uuid_def
      order_capability_def admin_or_deny_def scope_for_order_def)

lemma owner_grant: "granted ''m'' OrderRead (scope_owned ''o'' ''u'' ''order'' ''a'') desk0"
  by (simp add: granted_def active_user_def organization_grant_def scope_owned_def
      organization_role_allows_def organization_role_grants_def)

lemma desk_keys: "principal_keys desk0"
  by (simp add: principal_keys_def)


lemma order_request_admitted:
  "fst (enforce (\<lambda>_. None) flat_env (dq ''r'') (\<lambda>_ s. (Inr (), s)) (order_request ''a'' admin_headers) desk0) = Inr ()"
  using owner_order_class owner_grant desk_keys
    protected_admission_iff [of flat_env "order_request ''a'' admin_headers"
      "\<lparr>pl_transport = AdminApi, pl_capability = OrderRead,
        pl_scope = Resolved (scope_owned ''o'' ''u'' ''order'' ''a''), pl_expected_actor_user_id = None\<rparr>"
      "''m''" desk0 "scope_owned ''o'' ''u'' ''order'' ''a''" "dq ''r''"]
    granted_authorized [OF desk_keys owner_grant]
  by (simp add: enforce_def protected_admin_def require_transport_def guard_def actor_from_headers_def resolve_scope_def)



theorem roles_confined_to_tenant_witness:
  "fst (enforce (\<lambda>_. None) flat_env (dq ''r'') (\<lambda>_ s. (Inr (), s)) (order_request ''a'' admin_headers)
     (desk0\<lparr>organization_members := [desk_member ''m'' ''owner'', desk_member ''w'' ''owner'']\<rparr>)) = Inr ()"
proof -
  let ?plan = "\<lparr>pl_transport = AdminApi, pl_capability = OrderRead,
     pl_scope = Resolved (scope_owned ''o'' ''u'' ''order'' ''a''), pl_expected_actor_user_id = None\<rparr>"
  have "fst (enforce (\<lambda>_. None) flat_env (dq ''r'') (\<lambda>_ s. (Inr (), s)) (order_request ''a'' admin_headers)
     (desk0\<lparr>organization_members := [desk_member ''m'' ''owner'', desk_member ''w'' ''owner'']\<rparr>)) =
     fst (enforce (\<lambda>_. None) flat_env (dq ''r'') (\<lambda>_ s. (Inr (), s)) (order_request ''a'' admin_headers) desk0)"
    using owner_order_class
    by (intro roles_confined_to_tenant [where bytes = "[]" and plan = ?plan and actor = "''m''"
        and sc = "scope_owned ''o'' ''u'' ''order'' ''a''"])
      (simp_all add: protected_admin_def actor_from_headers_def)
  then show ?thesis using order_request_admitted by simp
qed

theorem transfer_and_anchor_routes_denied_witness:
  "enforce (\<lambda>_. None) flat_env (dq ''r'') (\<lambda>_ s. (Inr (), s))
     \<lparr>rq_method = ''POST'', rq_path = ''/internal/ticketing/issuances/t/transfers'', rq_headers = user_headers ''u'',
      rq_body = Some ''x''\<rparr> desk0 = (Inl Forbidden, desk0)"
  by (rule transfer_and_anchor_routes_denied [where i = "''t''" and bytes = "''x''"
        and before = "''/internal/ticketing/issuances/''" and after = "''/transfers''"])
    (simp_all add: stranded_routes_def max_body_bytes_def)

text \<open>A viewer of the organization stakes on the market.\<close>

definition stake_rq :: http_request where
  "stake_rq = \<lparr>rq_method = ''POST'', rq_path = ''/internal/markets/m1/stake-intents'', rq_headers = user_headers ''v'',
     rq_body = Some ''x''\<rparr>"

theorem auditors_only_read_witness:
  "\<exists>plan. classify_request flat_env ''POST'' ''/internal/markets/m1/stake-intents'' None desk0 = Inr (Protected plan) \<and>
     pl_capability plan = MarketStake"
proof -
  let ?sc = "scope_organization ''o'' ''prediction_market'' (Some ''m1'')"
  let ?plan = "\<lparr>pl_transport = WebInternal, pl_capability = MarketStake, pl_scope = Resolved ?sc, pl_expected_actor_user_id = None\<rparr>"
  have sel: "rq_method stake_rq = ''POST''" "rq_path stake_rq = ''/internal/markets/m1/stake-intents''"
    "rq_headers stake_rq = user_headers ''v''" "rq_body stake_rq = Some ''x''" by (simp_all add: stake_rq_def)
  have path: "split_path (rq_path stake_rq) = [''internal'', ''markets'', ''m1'', ''stake-intents'']"
    by (simp add: split_path_parts sel)
  have c: "classify_request flat_env ''POST'' ''/internal/markets/m1/stake-intents'' None desk0 = Inr (Protected ?plan)"
    using private_not_public [OF path] path
    by (simp add: classify_request_def sel classify_token_only_def Let_def classify_internal_def classify_manage_def
        classify_internal_market_def database_pool_def path_uuid_def organization_for_market_def scalar_uuid_def
        market_capability_def protected_web_def)
  have "granted ''v'' MarketStake ?sc desk0" by (simp add: granted_def active_user_def)
  from granted_authorized [OF desk_keys this] c
  have "fst (enforce (\<lambda>_. None) flat_env (dq ''r'') (\<lambda>_ s. (Inr (), s)) stake_rq desk0) = Inr ()"
    using protected_admission_iff [of flat_env stake_rq ?plan "''v''" desk0 ?sc "dq ''r''"]
    by (simp add: enforce_def sel body_json_def max_body_bytes_def require_transport_def guard_def actor_from_headers_def resolve_scope_def)
  from auditors_only_read [OF path _ sel(4) _ this, of ?plan "''v''"] c show ?thesis
    by (auto simp: sel body_json_def actor_from_headers_def)
qed

end
