(* ===== verification/Access.thy ===== *)
theory Access
  imports Platform_Demo
begin

text \<open>
  Organization memberships (\<open>access.rs\<close>): the list of members and the granting of a role to the owner of a verified
  wallet. The model runs over the shared tables, so it applies to the database of every module.
\<close>

section \<open>Requests\<close>

record MemberRecord =
  mem_user_id :: uuid
  mem_display_name :: string
  mem_email :: "string option"
  mem_role :: string
  mem_status :: string
  mem_primary_wallet :: "string option"
  mem_created_at :: int
  mem_updated_at :: int

record GrantMembershipRequest =
  gmr_actor_user_id :: uuid
  gmr_wallet_address :: string
  gmr_network :: string
  gmr_role :: string

fun access_db_error :: "db_error \<Rightarrow> api_error" where
  "access_db_error Unique_violation = Conflict ''resource_already_exists''"
| "access_db_error Foreign_key_violation = InvalidRequest ''related_resource_not_found''"
| "access_db_error Check_violation = InvalidRequest ''database_constraint_failed''"
| "access_db_error Invalid_text_representation = InvalidRequest ''database_constraint_failed''"
| "access_db_error _ = Database"

definition validate_address :: "string \<Rightarrow> api_error + string" where
  "validate_address value = validate_strkey CHR ''G'' value ''invalid_stellar_address''"

definition validate_network :: "string \<Rightarrow> api_error + string" where
  "validate_network value =
     (let value = to_ascii_lowercase (trim value) in
      if List.member [''testnet'', ''public''] value then Inr value else Inl (InvalidRequest ''invalid_stellar_network''))"

definition validate_role :: "string \<Rightarrow> api_error + string" where
  "validate_role value =
     (let value = to_ascii_lowercase (trim value) in
      if List.member [''admin'', ''editor'', ''operator'', ''auditor'', ''viewer''] value then Inr value
      else Inl (InvalidRequest ''invalid_organization_role''))"

definition require_organization_members_viewer :: "uuid \<Rightarrow> uuid \<Rightarrow> 'x core_db_scheme \<Rightarrow> api_error + unit" where
  "require_organization_members_viewer org user d =
     (if site_role user [''owner'', ''admin'', ''auditor''] d \<or>
         member_role org user [''owner'', ''admin'', ''auditor'', ''viewer''] d
      then Inr () else Inl Forbidden)"

section \<open>The list of members\<close>

definition role_rank :: "string \<Rightarrow> int" where
  "role_rank role =
     (if role = ''owner'' then 0 else if role = ''admin'' then 1 else if role = ''editor'' then 2
      else if role = ''operator'' then 3 else if role = ''auditor'' then 4 else if role = ''viewer'' then 5 else 6)"

definition primary_wallet :: "uuid \<Rightarrow> 'x core_db_scheme \<Rightarrow> string option" where
  "primary_wallet user d =
     (case sort_key sa_created_at (filter (\<lambda>sa. sa_user_id sa = user \<and> sa_is_primary sa) (stellar_accounts d)) of
        [] \<Rightarrow> None | sa # _ \<Rightarrow> Some (sa_address sa))"

definition member_records :: "(organization_member_row \<Rightarrow> bool) \<Rightarrow> 'x core_db_scheme \<Rightarrow> MemberRecord list" where
  "member_records p d =
     [\<lparr>mem_user_id = om_user_id m, mem_display_name = us_display_name u, mem_email = us_email u, mem_role = om_role m,
       mem_status = om_status m, mem_primary_wallet = primary_wallet (us_id u) d, mem_created_at = om_created_at m,
       mem_updated_at = om_updated_at m\<rparr>.
      m \<leftarrow> organization_members d, p m, u \<leftarrow> users d, us_id u = om_user_id m]"

definition list_members ::
  "env \<Rightarrow> headers \<Rightarrow> uuid \<Rightarrow> uuid \<Rightarrow> 'x core_db_scheme \<Rightarrow> api_error + MemberRecord list" where
  "list_members env hdrs organization_id viewer d =
     bind_result (require_web_token env hdrs) (\<lambda>_.
     bind_result (database_pool env) (\<lambda>_.
     bind_result (require_organization_members_viewer organization_id viewer d) (\<lambda>_.
     Inr (sort_key (\<lambda>r. (role_rank (mem_role r), mem_display_name r))
       (member_records (\<lambda>m. om_organization_id m = organization_id \<and> om_status m \<noteq> ''removed'') d)))))"

section \<open>Granting a role\<close>

definition member_check :: "organization_member_row \<Rightarrow> bool" where
  "member_check m \<longleftrightarrow>
     List.member [''owner'', ''admin'', ''editor'', ''operator'', ''auditor'', ''viewer''] (om_role m) \<and>
     List.member [''invited'', ''active'', ''suspended'', ''removed''] (om_status m)"

definition member_clash :: "organization_member_row \<Rightarrow> organization_member_row \<Rightarrow> bool" where
  "member_clash a b \<longleftrightarrow> om_organization_id a = om_organization_id b \<and> om_user_id a = om_user_id b"

text \<open>The upsert of a membership; the organization and the user are foreign keys.\<close>

definition upsert_rows :: "organization_member_row \<Rightarrow> organization_member_row list \<Rightarrow> organization_member_row list" where
  "upsert_rows row rows =
     (if list_ex (member_clash row) rows then
        sql_update (member_clash row)
          (\<lambda>m. m\<lparr>om_role := om_role row, om_status := ''active'', om_invited_by_user_id := om_invited_by_user_id row,
             om_updated_at := om_updated_at row\<rparr>) rows
      else rows @ [row])"

definition upsert_member :: "organization_member_row \<Rightarrow> 'x core_db_scheme \<Rightarrow> db_error + 'x core_db_scheme" where
  "upsert_member row d =
     (if \<not> list_ex (\<lambda>g. og_id g = om_organization_id row) (organizations d) \<or>
         \<not> list_ex (\<lambda>u. us_id u = om_user_id row) (users d) then Inl Foreign_key_violation
      else if \<not> member_check row then Inl Check_violation
      else Inr (d\<lparr>organization_members := upsert_rows row (organization_members d)\<rparr>))"

definition grant_membership_tx ::
  "draws \<Rightarrow> uuid \<Rightarrow> uuid \<Rightarrow> uuid \<Rightarrow> string \<Rightarrow> string \<Rightarrow> string \<Rightarrow> 'x core_db_scheme \<Rightarrow>
   api_error + unit \<times> 'x core_db_scheme"
where
  "grant_membership_tx dr organization_id actor target role address network d =
     bind_result (or_db_error access_db_error (upsert_member
       \<lparr>om_organization_id = organization_id, om_user_id = target, om_role = role, om_status = ''active'',
        om_invited_by_user_id = Some actor, om_created_at = sql_now dr, om_updated_at = sql_now dr\<rparr> d)) (\<lambda>d1.
     bind_result (or_db_error access_db_error (insert_audit
       \<lparr>al_id = new_uuid dr 0, al_organization_id = Some organization_id, al_actor_user_id = Some actor,
        al_action = ''organization_member.grant'', al_entity_type = ''user'', al_entity_id = Some target,
        al_metadata = JObj [(''role'', JStr role), (''wallet_suffix'', JStr (drop (length address - 6) address)),
          (''network'', JStr network)]\<rparr> d1)) (\<lambda>d2.
     Inr ((), d2)))"

text \<open>The target is read before the transaction starts, the answer after it has committed.\<close>

definition grant_target ::
  "env \<Rightarrow> headers \<Rightarrow> uuid \<Rightarrow> GrantMembershipRequest \<Rightarrow> 'x core_db_scheme \<Rightarrow>
   api_error + (uuid \<times> string \<times> string \<times> string)"
where
  "grant_target env hdrs organization_id body d =
     bind_result (require_web_token env hdrs) (\<lambda>_.
     bind_result (database_pool env) (\<lambda>_.
     bind_result (require_organization_manager organization_id (gmr_actor_user_id body) d) (\<lambda>_.
     bind_result (validate_address (gmr_wallet_address body)) (\<lambda>address.
     bind_result (validate_network (gmr_network body)) (\<lambda>network.
     bind_result (validate_role (gmr_role body)) (\<lambda>role.
     bind_result (ok_or (map_option sa_user_id (find (\<lambda>sa. sa_network sa = network \<and> sa_address sa = address \<and>
          sa_verified_at sa \<noteq> None) (stellar_accounts d))) (InvalidRequest ''target_account_must_sign_in_first'')) (\<lambda>target.
     Inr (target, role, address, network))))))))"

definition grant_membership ::
  "env \<Rightarrow> draws \<Rightarrow> headers \<Rightarrow> uuid \<Rightarrow> GrantMembershipRequest \<Rightarrow> 'x core_db_scheme \<Rightarrow>
   (api_error + nat \<times> MemberRecord) \<times> 'x core_db_scheme"
where
  "grant_membership env dr hdrs organization_id body d =
     (case grant_target env hdrs organization_id body d of
        Inl e \<Rightarrow> (Inl e, d)
      | Inr (target, role, address, network) \<Rightarrow>
          then_read (transaction (grant_membership_tx dr organization_id (gmr_actor_user_id body) target role address network) d)
            (\<lambda>_ s. case member_records (\<lambda>m. om_organization_id m = organization_id \<and> om_user_id m = target) s of
               [] \<Rightarrow> Inl Database | r # _ \<Rightarrow> Inr (201, r)))"

section \<open>Who can change a role\<close>

interpretation member_keys: keyed_table "\<lambda>m. (om_organization_id m, om_user_id m)" member_clash
  by unfold_locales (simp add: member_clash_def)

text \<open>The upsert leaves every other membership as it is.\<close>

lemma upsert_member_Inr [result_simps]:
  "upsert_member row d = Inr d' \<longleftrightarrow> list_ex (\<lambda>g. og_id g = om_organization_id row) (organizations d) \<and>
     list_ex (\<lambda>u. us_id u = om_user_id row) (users d) \<and> member_check row \<and>
     d' = d\<lparr>organization_members := upsert_rows row (organization_members d)\<rparr>"
  by (auto simp: upsert_member_def)

lemma upsert_rows_has:
  "om_status row = ''active'' \<Longrightarrow>
   \<exists>m \<in> set (upsert_rows row rows). member_clash row m \<and> om_role m = om_role row \<and> om_status m = ''active''"
proof (cases "list_ex (member_clash row) rows")
  case True
  then obtain m where m: "m \<in> set rows" "member_clash row m" by (auto simp: list_ex_iff)
  let ?f = "\<lambda>m. m\<lparr>om_role := om_role row, om_status := ''active'', om_invited_by_user_id := om_invited_by_user_id row,
     om_updated_at := om_updated_at row\<rparr>"
  from m True have "?f m \<in> set (upsert_rows row rows)" by (force simp: upsert_rows_def set_sql_update)
  with m(2) show ?thesis by (intro bexI [of _ "?f m"]) (simp_all add: member_clash_def)
next
  case False
  then show "om_status row = ''active'' \<Longrightarrow> ?thesis" by (auto simp: upsert_rows_def member_clash_def)
qed

lemma upsert_rows_others:
  "filter (\<lambda>m. \<not> member_clash row m) (upsert_rows row rows) = filter (\<lambda>m. \<not> member_clash row m) rows"
proof -
  have "filter (\<lambda>m. \<not> member_clash row m) (sql_update (member_clash row) f rows) = filter (\<lambda>m. \<not> member_clash row m) rows"
    if "\<And>m. member_clash row m \<Longrightarrow> member_clash row (f m)" for f
    using that by (induction rows) (auto simp: sql_update_def)
  then show ?thesis by (simp add: upsert_rows_def member_clash_def)
qed

lemma manager_roles:
  "require_organization_manager org user d = Inr u \<longleftrightarrow>
     site_role user [''owner'', ''admin''] d \<or> member_role org user [''owner'', ''admin''] d"
  by (simp add: require_organization_manager_def)

lemma validate_role_Inr:
  "validate_role v = Inr role \<Longrightarrow> List.member [''admin'', ''editor'', ''operator'', ''auditor'', ''viewer''] role"
  by (auto simp: validate_role_def Let_def split: if_splits)

lemma grant_target_Inr:
  assumes "grant_target env hdrs org body d = Inr (target, role, address, network)"
  shows "site_role (gmr_actor_user_id body) [''owner'', ''admin''] d \<or>
        member_role org (gmr_actor_user_id body) [''owner'', ''admin''] d"
    and "role \<noteq> ''owner''"
    and "list_ex (\<lambda>sa. sa_user_id sa = target \<and> sa_verified_at sa \<noteq> None) (stellar_accounts d)"
  using assms
  by (auto simp: grant_target_def bind_result_Inr manager_roles ok_or_Inr list_ex_iff dest!: validate_role_Inr find_Some_in)

lemma granted_member_read:
  assumes "m \<in> set (organization_members s)" "p m" "list_ex (\<lambda>u. us_id u = om_user_id m) (users s)"
  shows "member_records p s \<noteq> []"
proof -
  from assms(3) obtain u where "u \<in> set (users s)" "us_id u = om_user_id m" by (auto simp: list_ex_iff)
  with assms(1,2) have "set (member_records p s) \<noteq> {}" by (auto simp: member_records_def)
  then show ?thesis by auto
qed

text \<open>C25: A grant that succeeds was asked for by a site or organization owner or administrator, gives a role other than
  owner to the account that holds the verified wallet, changes no other membership and leaves one audit row; a grant
  that is refused changes nothing.\<close>

theorem grant_changes_one_membership:
  "case grant_membership env dr hdrs org body d of
     (Inl e, d') \<Rightarrow> d' = d
   | (Inr _, d') \<Rightarrow> \<exists>target role.
       (site_role (gmr_actor_user_id body) [''owner'', ''admin''] d \<or>
        member_role org (gmr_actor_user_id body) [''owner'', ''admin''] d) \<and> role \<noteq> ''owner'' \<and>
       list_ex (\<lambda>sa. sa_user_id sa = target \<and> sa_verified_at sa \<noteq> None) (stellar_accounts d) \<and>
       member_role org target [role] d' \<and>
       filter (\<lambda>m. \<not> (om_organization_id m = org \<and> om_user_id m = target)) (organization_members d') =
         filter (\<lambda>m. \<not> (om_organization_id m = org \<and> om_user_id m = target)) (organization_members d) \<and>
       (\<exists>row. audit_logs d' = audit_logs d @ [row] \<and> al_entity_id row = Some target)"
proof (cases "grant_target env hdrs org body d")
  case (Inl e)
  then show ?thesis by (simp add: grant_membership_def)
next
  case (Inr t)
  obtain target role address network where t: "t = (target, role, address, network)" by (cases t)
  let ?row = "\<lparr>om_organization_id = org, om_user_id = target, om_role = role, om_status = ''active'',
     om_invited_by_user_id = Some (gmr_actor_user_id body), om_created_at = sql_now dr, om_updated_at = sql_now dr\<rparr>"
  let ?tx = "grant_membership_tx dr org (gmr_actor_user_id body) target role address network"
  have clash: "member_clash ?row m \<longleftrightarrow> om_organization_id m = org \<and> om_user_id m = target" for m
    by (auto simp: member_clash_def)
  show ?thesis
  proof (cases rule: transaction_cases [of ?tx d])
    case (rolled_back e)
    with Inr t show ?thesis by (simp add: grant_membership_def then_read_def)
  next
    case (committed x d')
    then have d': "organization_members d' = upsert_rows ?row (organization_members d)" "users d' = users d"
      "list_ex (\<lambda>u. us_id u = target) (users d)" "\<exists>row. audit_logs d' = audit_logs d @ [row] \<and> al_entity_id row = Some target"
      by (auto simp: grant_membership_tx_def bind_result_Inr result_simps)
    from upsert_rows_has [of ?row "organization_members d"] obtain m
      where m: "m \<in> set (organization_members d')" "om_organization_id m = org" "om_user_id m = target" "om_role m = role" "om_status m = ''active''"
      unfolding clash d'(1) by auto
    then have "member_role org target [role] d'" by (auto simp: member_role_def list_ex_iff)
    moreover have "filter (\<lambda>m. \<not> (om_organization_id m = org \<and> om_user_id m = target)) (organization_members d') =
        filter (\<lambda>m. \<not> (om_organization_id m = org \<and> om_user_id m = target)) (organization_members d)"
      using upsert_rows_others [of ?row "organization_members d"] unfolding clash d'(1) .
    moreover from m d'(2,3) have "member_records (\<lambda>m. om_organization_id m = org \<and> om_user_id m = target) d' \<noteq> []"
      by (intro granted_member_read [of m]) simp_all
    then obtain r rs where "member_records (\<lambda>m. om_organization_id m = org \<and> om_user_id m = target) d' = r # rs"
      by (cases "member_records (\<lambda>m. om_organization_id m = org \<and> om_user_id m = target) d'") auto
    ultimately show ?thesis using committed Inr t d'(4) grant_target_Inr [OF Inr [unfolded t]]
      by (auto simp: grant_membership_def then_read_def)
  qed
qed

end
