(* ===== verification/Spec2Isabelle.thy ===== *)
theory Spec2Isabelle
  imports Prediction_Market_Witness Audit_Anchor Sale_Splitter Nft_Props Voting_Chain_Props Market_Props Payout_Props Order_Props Ticket_Props Authorization_Props Access
begin

text \<open>
  CrownFi runs pageants on Stellar. Its program has two layers: Soroban contracts that hold money and tickets
  (\<open>src/contracts/*/src/lib.rs\<close>) and a Rust HTTP service over PostgreSQL (\<open>src/services/api\<close>) that records
  votes, off-chain market positions and settlements, and accepts evidence of what happened on chain from a
  trusted worker. The two layers meet only in that evidence: the service never trusts a submitted transaction
  before the worker presents its hash, ledger and event.

  Contracts. \<open>Soroban\<close> is the host interface (authorisation, ledger time, the error of an unwrapped
  \<open>Option\<close>). \<open>Prediction_Market\<close> has the staking contract with one definition per entry point,
  \<open>Prediction_Market_Inv\<close> its solvency invariant and \<open>Prediction_Market_Steps\<close> the preservation by each
  call; the token contract is the locale of a token interface, interpreted there. \<open>Prediction_Market_Props\<close>
  states what stakers may rely on and \<open>Prediction_Market_Witness\<close> applies it to concrete runs.
  \<open>Audit_Anchor\<close> holds the checkpoints of voting rounds, \<open>Sale_Splitter\<close> the split of a sale between
  platform and contestant, \<open>Nft_Contracts\<close> and \<open>Nft_Props\<close> the ticket, collectible and test-token contracts
  over the token library they wrap, which is a parameter with its documented laws. Amounts are integers with
  the \<open>i128\<close> range written out as \<open>checked_i128\<close>; an overflow traps, which rolls the call back.

  The service. \<open>CF_Prelude\<close> has the result type \<open>error + 'a\<close>, checked integers and shared lemmas.
  \<open>Api_Core\<close> has \<open>error.rs\<close>, headers, JSON and the text validators; \<open>Api_Store\<close> the relational store:
  tables as lists of rows, the SQL statements the handlers use, unique constraints as the locale
  \<open>keyed_table\<close>, and \<open>transaction\<close>, which discards every write of a handler that fails. A handler is a function
  of the environment, the values it draws (UUIDs and clock readings), its headers, its body and the database,
  written in the order of its code with every early return.

  Voting (\<open>voting.rs\<close>, \<open>voting_public.rs\<close>, \<open>voting_proofs.rs\<close>, \<open>voting_anchor.rs\<close>): \<open>Voting_Data\<close> rows and
  constraints, \<open>Voting\<close> rounds and votes, \<open>Merkle\<close> the tree of receipts, \<open>Voting_Proofs\<close> snapshots and proofs,
  \<open>Voting_Anchor\<close> the anchoring of a snapshot. \<open>Voting_Effects\<close> gives what each handler does when it succeeds,
  \<open>Voting_System\<close> the step relation with its invariant, \<open>Voting_Later\<close> how rounds move, \<open>Voting_Demo\<close> a concrete
  run, \<open>Voting_Props\<close> and \<open>Voting_Chain_Props\<close> the properties. The check and the write of \<open>cast_vote\<close> are
  two steps there, because it reads the round without a lock.

  Off-chain markets (\<open>markets.rs\<close>, \<open>market_positions.rs\<close>, \<open>market_settlement.rs\<close>): \<open>Market_Data\<close> rows and
  constraints, \<open>Markets\<close> drafts, policy decisions, transitions and stake intents, \<open>Settlement_Plan\<close> the
  arithmetic of a plan, \<open>Market_Positions\<close> evidence of stakes and the plan, \<open>Market_Settlement\<close> submission and
  evidence of payments. \<open>Market_Effects\<close> and \<open>Market_System\<close> have the same roles as for voting;
  \<open>Market_Demo\<close> and \<open>Market_Props\<close> hold the runs and the properties.

  Commerce (\<open>orders.rs\<close>, \<open>payouts.rs\<close>): \<open>Commerce_Data\<close> rows and constraints, \<open>Orders\<close> orders over reserved
  inventory and their payment events, \<open>Payout_Routines\<close> the split of a sale, decimal amounts and account
  identifiers with their CRC, \<open>Payouts\<close> rules, batches and the evidence of transfers. \<open>Payout_Effects\<close> and
  \<open>Payout_System\<close> have the same roles as above; \<open>Payout_Refinement\<close> states what a payout promises as a small
  transition system over sets of shares and shows that the tables refine it. \<open>Payout_Demo\<close>, \<open>Payout_Props\<close>
  and \<open>Order_Props\<close> hold a run and the properties.

  Tickets (\<open>ticketing.rs\<close>, \<open>ticket_operations.rs\<close>, \<open>ticket_transfers.rs\<close>): \<open>Ticket_Data\<close> rows and constraints,
  \<open>Ticketing\<close> events, products and reservations with their expiry, \<open>Ticket_Operations\<close> the issuance of paid orders,
  mint evidence and check-in, \<open>Ticket_Transfers\<close> the transfer of a ticket from request to evidence. \<open>Ticket_Effects\<close> and
  \<open>Ticket_Effects2\<close> give what each handler does, \<open>Ticket_System\<close> the step relation, whose last step stands for what
  orders and payments do to shared tables, with the invariant: stock, reservations and issued tickets balance, serial
  numbers have no gaps, and the evidence of every ticket is a chain from its mint to its owner. \<open>Ticket_Inv\<close>,
  \<open>Ticket_Inv2\<close> and \<open>Ticket_Inv3\<close> show that every step keeps it; \<open>Ticket_Demo\<close> and \<open>Ticket_Props\<close> hold a run and the
  properties.

  Access (\<open>authorization_acl.rs\<close>, \<open>access.rs\<close>): \<open>Platform_Data\<close> has the rows of the remaining tables and the
  record \<open>platform_db\<close> of all of them. \<open>Authorization\<close> is the layer around every route: the classification of a
  request by method, path and body, tokens, the binding of the actor, the roles and the log of decisions; the handler
  behind it is a parameter. \<open>Authorization_Props\<close> relates it to a declarative grant relation over the role tables
  and states what it protects; \<open>Access\<close> has the list of members and the grant of a role. \<open>Platform_Demo\<close> holds the
  state its witnesses use.

  Loops. The loops of the code are structural recursions over lists, or functions with a termination proof
  (\<open>spread\<close>, which hands out the remainder; \<open>root_loop\<close> and \<open>proof_loop\<close> of the Merkle tree; \<open>strip_leading\<close>
  of \<open>trim\<close>). No definition has fuel.

  Environment. SHA-256, the UUID and RFC 3339 parsers and the JSON writer are fields of \<open>env\<close>. Theorems that
  rely on SHA-256 say so: they assume its output format, or exhibit a collision.

  Not modelled. Time-to-live extension of contract storage; loss of the database connection and text with NUL
  bytes (both end in a 500 or 400 without a write); foreign keys that hold because the row was read in the same
  transaction; the database's text collation; gaps that a rolled-back sequence leaves. Handlers are atomic except
  \<open>cast_vote\<close>, so the interleavings that \<open>READ COMMITTED\<close> allows elsewhere are left out. Integers in a request
  are not cut to their width, since the parser rejects what does not fit. The remaining modules of the service
  (catalogue, fulfilment, the Stellar gateway and reconciliation, identity, media and start-up) are not modelled.
\<close>

end
